(* ===== verification/Prelude.thy ===== *)
theory Prelude
  imports Main "HOL-Library.Word" "HOL-Library.Monad_Syntax"
begin

text \<open>
  Shared types, collections and list lemmas of the development.

  A C memory object is the list of its bytes. A read outside the object is undefined
  behaviour in C; every model of a read returns an option whose value None stands for it,
  and the models of the parsers thread that option with the monad syntax of the library.
  Memory comes from an allocator whose successes and whose uninitialised bytes are
  parameters (\<open>heap_env\<close>), so that every theorem holds for every allocator.
\<close>

unbundle bit_operations_syntax

section \<open>Types\<close>

type_synonym u8 = "8 word"
type_synonym u16 = "16 word"
type_synonym u32 = "32 word"
type_synonym bytes = "u8 list"

named_theorems mem_simps \<open>reading back what was stored, at any offset\<close>
named_theorems mem_defs \<open>definitions of the memory accessors\<close>
named_theorems err_defs \<open>numeric values of the error and option constants\<close>

section \<open>Memory objects\<close>

text \<open>\<open>get_block n bs i\<close> is \<open>memcpy(dst, bs + i, n)\<close>, \<open>poke\<close> the copy into an object.\<close>

definition get_block :: "nat \<Rightarrow> bytes \<Rightarrow> nat \<Rightarrow> bytes option" where
  "get_block n bs i = (if i + n \<le> length bs then Some (take n (drop i bs)) else None)"

definition poke :: "bytes \<Rightarrow> nat \<Rightarrow> bytes \<Rightarrow> bytes option" where
  "poke mem i bs =
     (if i + length bs \<le> length mem
      then Some (take i mem @ bs @ drop (i + length bs) mem) else None)"

text \<open>\<open>get_cstr bs i\<close> is \<open>strdup(bs + i)\<close>: the bytes before the first NUL; without a NUL in
  the object \<open>strlen\<close> runs off its end.\<close>

definition get_cstr :: "bytes \<Rightarrow> nat \<Rightarrow> bytes option" where
  "get_cstr bs i =
     (if 0 \<in> set (drop i bs) then Some (takeWhile (\<lambda>b. b \<noteq> 0) (drop i bs)) else None)"

definition cstring :: "bytes \<Rightarrow> bool" where
  "cstring s \<longleftrightarrow> 0 \<notin> set s"

lemma get_block_right [mem_simps]:
  "length xs \<le> i \<Longrightarrow> get_block n (xs @ ys) i = get_block n ys (i - length xs)"
  by (auto simp: get_block_def)

lemma get_block_here [mem_simps]: "length xs = n \<Longrightarrow> get_block n (xs @ ys) 0 = Some xs"
  by (simp add: get_block_def)

lemma get_block_all [mem_simps]: "length xs = n \<Longrightarrow> get_block n xs 0 = Some xs"
  by (simp add: get_block_def)

lemma get_block_Cons [mem_simps]: "0 < i \<Longrightarrow> get_block n (x # xs) i = get_block n xs (i - 1)"
  by (cases i) (auto simp: get_block_def)

lemma get_block_None: "get_block n bs i = None \<longleftrightarrow> length bs < i + n"
  by (auto simp: get_block_def)

lemma get_block_length: "get_block n bs i = Some xs \<Longrightarrow> length xs = n"
  by (auto simp: get_block_def split: if_splits)

lemma get_cstr_right [mem_simps]:
  "length xs \<le> i \<Longrightarrow> get_cstr (xs @ ys) i = get_cstr ys (i - length xs)"
  by (auto simp: get_cstr_def)

lemma takeWhile_nonzero: "0 \<notin> set s \<Longrightarrow> takeWhile (\<lambda>b. b \<noteq> 0) (s @ 0 # ys) = s"
  by (induction s) auto

lemma get_cstr_here [mem_simps]: "cstring s \<Longrightarrow> get_cstr (s @ 0 # ys) 0 = Some s"
  by (simp add: get_cstr_def cstring_def takeWhile_nonzero)

lemma get_cstr_Cons [mem_simps]: "get_cstr (0 # ys) 0 = Some []"
  by (simp add: get_cstr_def)

lemma get_cstr_Cons_pos [mem_simps]: "0 < i \<Longrightarrow> get_cstr (x # xs) i = get_cstr xs (i - 1)"
  by (cases i) (auto simp: get_cstr_def)

lemma cstring_Nil [simp]: "cstring []"
  by (simp add: cstring_def)

lemma get_cstr_cstring: "get_cstr bs i = Some s \<Longrightarrow> cstring s"
  by (auto simp: get_cstr_def cstring_def dest: set_takeWhileD split: if_splits)

lemma get_cstr_inside: "get_cstr bs i = Some s \<Longrightarrow> i + length s < length bs"
proof -
  assume "get_cstr bs i = Some s"
  then have "0 \<in> set (drop i bs)" and s: "s = takeWhile (\<lambda>b. b \<noteq> 0) (drop i bs)"
    by (auto simp: get_cstr_def split: if_splits)
  then have "takeWhile (\<lambda>b. b \<noteq> 0) (drop i bs) \<noteq> drop i bs"
    by (metis (mono_tags) takeWhile_eq_all_conv)
  then have "length s < length (drop i bs)"
    unfolding s by (metis length_takeWhile_le le_neq_implies_less takeWhile_eq_take
      take_all_iff le_refl)
  then show ?thesis by simp
qed

lemma poke_length: "poke mem i bs = Some mem' \<Longrightarrow> length mem' = length mem"
  by (auto simp: poke_def split: if_splits)

lemma poke_None: "poke mem i bs = None \<longleftrightarrow> length mem < i + length bs"
  by (auto simp: poke_def)

lemma poke_here [mem_simps]:
  "length bs \<le> length ys \<Longrightarrow> poke ys 0 bs = Some (bs @ drop (length bs) ys)"
  by (simp add: poke_def)

lemma poke_right [mem_simps]:
  "length xs \<le> i \<Longrightarrow> poke (xs @ ys) i bs = map_option ((@) xs) (poke ys (i - length xs) bs)"
  by (auto simp: poke_def)

lemma poke_Cons [mem_simps]:
  "0 < i \<Longrightarrow> poke (x # xs) i bs = map_option ((#) x) (poke xs (i - 1) bs)"
  using poke_right[of "[x]" i xs bs] by (cases "poke xs (i - 1) bs") (auto simp: Suc_leI)

lemma poke_append: "poke mem i (xs @ ys) = do { m \<leftarrow> poke mem i xs; poke m (i + length xs) ys }"
  by (cases xs) (auto simp: poke_def min_def ac_simps)

lemma poke_commute:
  "i + length xs \<le> j \<Longrightarrow>
   do { m \<leftarrow> poke mem j ys; poke m i xs } = do { m \<leftarrow> poke mem i xs; poke m j ys }"
proof (cases "i + length xs \<le> length mem \<and> j + length ys \<le> length mem")
  case True
  moreover assume "i + length xs \<le> j"
  ultimately show ?thesis
    by (auto simp: poke_def nth_append intro!: nth_equalityI)
qed (auto simp: poke_def)

text \<open>The loop that copies blocks one after the other.\<close>

primrec poke_blocks :: "bytes \<Rightarrow> nat \<Rightarrow> bytes list \<Rightarrow> bytes option" where
  "poke_blocks mem i [] = Some mem"
| "poke_blocks mem i (b # bs) = do { m \<leftarrow> poke mem i b; poke_blocks m (i + length b) bs }"

lemma poke_blocks_concat: "i \<le> length mem \<Longrightarrow> poke_blocks mem i bs = poke mem i (concat bs)"
proof (induction bs arbitrary: mem i)
  case Nil
  then show ?case by (simp add: poke_def)
next
  case (Cons b bs)
  have "poke_blocks m (i + length b) bs = poke m (i + length b) (concat bs)"
    if "poke mem i b = Some m" for m
    using that by (intro Cons.IH) (auto simp: poke_def split: if_splits)
  then show ?case by (cases "poke mem i b") (auto simp: poke_append)
qed

section \<open>Weakest preconditions\<close>

text \<open>\<open>wp m Q\<close>: the computation \<open>m\<close> does not go wrong and its result satisfies \<open>Q\<close>. The rules
  run a computation from left to right.\<close>

definition wp :: "'a option \<Rightarrow> ('a \<Rightarrow> bool) \<Rightarrow> bool" where
  "wp m Q \<longleftrightarrow> (\<exists>r. m = Some r \<and> Q r)"

named_theorems wp_rules \<open>introduction rules for \<open>wp\<close>\<close>

lemma wp_Some [wp_rules]: "Q r \<Longrightarrow> wp (Some r) Q"
  by (simp add: wp_def)

lemma wp_bind [wp_rules]: "wp m (\<lambda>r. wp (f r) Q) \<Longrightarrow> wp (m \<bind> f) Q"
  by (auto simp: wp_def)

lemma wp_if [wp_rules]: "(b \<Longrightarrow> wp m Q) \<Longrightarrow> (\<not> b \<Longrightarrow> wp k Q) \<Longrightarrow> wp (if b then m else k) Q"
  by simp

lemma wp_mono: "wp m P \<Longrightarrow> (\<And>r. P r \<Longrightarrow> Q r) \<Longrightarrow> wp m Q"
  by (auto simp: wp_def)

lemma wp_D: "wp m Q \<Longrightarrow> \<exists>r. m = Some r \<and> Q r"
  by (simp add: wp_def)

text \<open>\<open>wlp m Q\<close>: if the computation does not go wrong, its result satisfies \<open>Q\<close>.\<close>

definition wlp :: "'a option \<Rightarrow> ('a \<Rightarrow> bool) \<Rightarrow> bool" where
  "wlp m Q \<longleftrightarrow> (\<forall>r. m = Some r \<longrightarrow> Q r)"

named_theorems wlp_rules \<open>introduction rules for \<open>wlp\<close>\<close>

lemma wlp_Some [wlp_rules]: "Q r \<Longrightarrow> wlp (Some r) Q"
  by (simp add: wlp_def)

lemma wlp_None [wlp_rules]: "wlp None Q"
  by (simp add: wlp_def)

lemma wlp_bind [wlp_rules]: "(\<And>r. m = Some r \<Longrightarrow> wlp (f r) Q) \<Longrightarrow> wlp (m \<bind> f) Q"
  by (auto simp: wlp_def bind_eq_Some_conv)

lemma wlp_if [wlp_rules]: "(b \<Longrightarrow> wlp m Q) \<Longrightarrow> (\<not> b \<Longrightarrow> wlp k Q) \<Longrightarrow> wlp (if b then m else k) Q"
  by simp

lemma wlp_prod [wlp_rules]: "(\<And>a b. p = (a, b) \<Longrightarrow> wlp (f a b) Q) \<Longrightarrow> wlp (case p of (a, b) \<Rightarrow> f a b) Q"
  by (cases p) simp

lemma wlp_option [wlp_rules]:
  "(x = None \<Longrightarrow> wlp m Q) \<Longrightarrow> (\<And>y. x = Some y \<Longrightarrow> wlp (f y) Q) \<Longrightarrow>
   wlp (case x of None \<Rightarrow> m | Some y \<Rightarrow> f y) Q"
  by (cases x) simp_all

lemma wlp_D: "wlp m Q \<Longrightarrow> m = Some r \<Longrightarrow> Q r"
  by (simp add: wlp_def)

section \<open>Bit sets\<close>

text \<open>The loop \<open>for (i = 0; i < n; i++) if (P i) r |= (1 << i)\<close> and its test.\<close>

primrec pack_flags :: "nat \<Rightarrow> (nat \<Rightarrow> bool) \<Rightarrow> 'a::len word" where
  "pack_flags 0 P = 0"
| "pack_flags (Suc n) P =
     (if P n then pack_flags n P OR push_bit n 1 else pack_flags n P)"

definition test_flag :: "'a::len word \<Rightarrow> nat \<Rightarrow> bool" where
  "test_flag w i \<longleftrightarrow> w AND push_bit i 1 \<noteq> 0"

lemma test_flag_bit: "test_flag w i \<longleftrightarrow> bit (w :: 'a::len word) i"
  by (simp add: test_flag_def bit_iff_and_push_bit_not_eq_0)

lemma bit_pack_flags: "bit (pack_flags n P :: 'a::len word) k \<longleftrightarrow> k < LENGTH('a) \<and> k < n \<and> P k"
  by (induction n) (auto simp: bit_simps less_Suc_eq)

lemma test_pack_flags:
  "test_flag (pack_flags n P :: 'a::len word) k \<longleftrightarrow> k < LENGTH('a) \<and> k < n \<and> P k"
  by (simp add: test_flag_bit bit_pack_flags)

text \<open>Subtraction of two \<open>size_t\<close> values wraps.\<close>

definition size_sub :: "nat \<Rightarrow> nat \<Rightarrow> nat" where
  "size_sub a b = nat ((int a - int b) mod 2 ^ 64)"

lemma size_sub_le: "b \<le> a \<Longrightarrow> a < 2 ^ 64 \<Longrightarrow> size_sub a b = a - b"
  by (simp add: size_sub_def nat_mod_distrib flip: of_nat_diff)

lemma size_sub_0 [simp]: "size_sub a a = 0"
  by (simp add: size_sub_def)

section \<open>The allocator\<close>

record heap_env =
  malloc_ok :: "nat \<Rightarrow> bool"
  malloc_byte :: "nat \<Rightarrow> u8"

definition malloc :: "heap_env \<Rightarrow> nat \<Rightarrow> bytes option" where
  "malloc env n = (if malloc_ok env n then Some (map (malloc_byte env) [0..<n]) else None)"

definition realloc :: "heap_env \<Rightarrow> bytes \<Rightarrow> nat \<Rightarrow> bytes option" where
  "realloc env old n =
     (if malloc_ok env n
      then Some (take n old @ map (malloc_byte env) [length old..<n]) else None)"

lemma malloc_length: "malloc env n = Some bs \<Longrightarrow> length bs = n"
  by (auto simp: malloc_def split: if_splits)

lemma realloc_length: "realloc env old n = Some bs \<Longrightarrow> length bs = n"
  by (auto simp: realloc_def split: if_splits)

lemma realloc_take: "realloc env old n = Some bs \<Longrightarrow> k \<le> n \<Longrightarrow> k \<le> length old \<Longrightarrow>
  take k bs = take k old"
  by (auto simp: realloc_def min_def split: if_splits)

text \<open>The allocator that never fails and clears its memory, used by the witnesses.\<close>

definition calloc_env :: heap_env where
  "calloc_env = \<lparr>malloc_ok = (\<lambda>_. True), malloc_byte = (\<lambda>_. 0)\<rparr>"

definition all_alloc :: "heap_env \<Rightarrow> bool" where
  "all_alloc env \<longleftrightarrow> (\<forall>n. malloc_ok env n)"

lemma all_alloc_D [simp]: "all_alloc env \<Longrightarrow> malloc_ok env n"
  by (simp add: all_alloc_def)

lemma all_alloc_calloc [simp]: "all_alloc calloc_env"
  by (simp add: all_alloc_def calloc_env_def)

section \<open>Error codes\<close>

text \<open>The values of \<open>enum dlpErrorDefinitions\<close> in \<open>include/pi-error.h\<close>.\<close>

definition PI_ERR_PROT_ABORTED :: int where [err_defs]: "PI_ERR_PROT_ABORTED = -100"
definition PI_ERR_PROT_INCOMPATIBLE :: int where [err_defs]: "PI_ERR_PROT_INCOMPATIBLE = -101"
definition PI_ERR_PROT_BADPACKET :: int where [err_defs]: "PI_ERR_PROT_BADPACKET = -102"
definition PI_ERR_SOCK_DISCONNECTED :: int where [err_defs]: "PI_ERR_SOCK_DISCONNECTED = -200"
definition PI_ERR_SOCK_INVALID :: int where [err_defs]: "PI_ERR_SOCK_INVALID = -201"
definition PI_ERR_SOCK_TIMEOUT :: int where [err_defs]: "PI_ERR_SOCK_TIMEOUT = -202"
definition PI_ERR_SOCK_IO :: int where [err_defs]: "PI_ERR_SOCK_IO = -204"
definition PI_ERR_DLP_BUFSIZE :: int where [err_defs]: "PI_ERR_DLP_BUFSIZE = -300"
definition PI_ERR_DLP_PALMOS :: int where [err_defs]: "PI_ERR_DLP_PALMOS = -301"
definition PI_ERR_DLP_UNSUPPORTED :: int where [err_defs]: "PI_ERR_DLP_UNSUPPORTED = -302"
definition PI_ERR_DLP_SOCKET :: int where [err_defs]: "PI_ERR_DLP_SOCKET = -303"
definition PI_ERR_DLP_DATASIZE :: int where [err_defs]: "PI_ERR_DLP_DATASIZE = -304"
definition PI_ERR_DLP_COMMAND :: int where [err_defs]: "PI_ERR_DLP_COMMAND = -305"
definition PI_ERR_FILE_INVALID :: int where [err_defs]: "PI_ERR_FILE_INVALID = -400"
definition PI_ERR_FILE_ERROR :: int where [err_defs]: "PI_ERR_FILE_ERROR = -401"
definition PI_ERR_FILE_ABORTED :: int where [err_defs]: "PI_ERR_FILE_ABORTED = -402"
definition PI_ERR_FILE_NOT_FOUND :: int where [err_defs]: "PI_ERR_FILE_NOT_FOUND = -403"
definition PI_ERR_FILE_ALREADY_EXISTS :: int where [err_defs]: "PI_ERR_FILE_ALREADY_EXISTS = -404"
definition PI_ERR_GENERIC_MEMORY :: int where [err_defs]: "PI_ERR_GENERIC_MEMORY = -500"
definition PI_ERR_GENERIC_ARGUMENT :: int where [err_defs]: "PI_ERR_GENERIC_ARGUMENT = -501"
definition PI_ERR_GENERIC_SYSTEM :: int where [err_defs]: "PI_ERR_GENERIC_SYSTEM = -502"

end
