(* ===== verification/Bytes.thy ===== *)
theory Bytes
  imports Prelude
begin

text \<open>
  The byte-order macros of \<open>include/pi-macros.h\<close>: big-endian reads and stores of 8, 16, 24
  and 32 bit integers, unsigned and signed. A \<open>get\<close> reads at an offset of an object (None
  outside it); a \<open>set\<close> gives the bytes that the macro stores. The locale \<open>field_codec\<close> is
  the contract between a reader and a writer of fixed width that the file and record
  formats rely on; every macro pair interprets it.
\<close>

section \<open>Reads\<close>

definition get_byte :: "bytes \<Rightarrow> nat \<Rightarrow> u8 option" where
  "get_byte bs i = (if i < length bs then Some (bs ! i) else None)"

definition get_short :: "bytes \<Rightarrow> nat \<Rightarrow> u16 option" where
  "get_short bs i = do {
     b0 \<leftarrow> get_byte bs i; b1 \<leftarrow> get_byte bs (i + 1);
     Some (push_bit 8 (ucast b0) OR ucast b1) }"

definition get_treble :: "bytes \<Rightarrow> nat \<Rightarrow> u32 option" where
  "get_treble bs i = do {
     b0 \<leftarrow> get_byte bs i; b1 \<leftarrow> get_byte bs (i + 1); b2 \<leftarrow> get_byte bs (i + 2);
     Some (push_bit 16 (ucast b0) OR push_bit 8 (ucast b1) OR ucast b2) }"

definition get_long :: "bytes \<Rightarrow> nat \<Rightarrow> u32 option" where
  "get_long bs i = do {
     b0 \<leftarrow> get_byte bs i; b1 \<leftarrow> get_byte bs (i + 1);
     b2 \<leftarrow> get_byte bs (i + 2); b3 \<leftarrow> get_byte bs (i + 3);
     Some (push_bit 24 (ucast b0) OR push_bit 16 (ucast b1) OR push_bit 8 (ucast b2)
           OR ucast b3) }"

text \<open>The signed reads, with the C comparison and subtraction carried out on integers.\<close>

definition get_sbyte :: "bytes \<Rightarrow> nat \<Rightarrow> int option" where
  "get_sbyte bs i = do { v \<leftarrow> get_byte bs i;
     Some (if 0x7F < v then uint (v AND 0x7F) - 0x80 else uint v) }"

definition get_sshort :: "bytes \<Rightarrow> nat \<Rightarrow> int option" where
  "get_sshort bs i = do { v \<leftarrow> get_short bs i;
     Some (if 0x7FFF < v then uint (v AND 0x7FFF) - 0x8000 else uint v) }"

definition get_streble :: "bytes \<Rightarrow> nat \<Rightarrow> int option" where
  "get_streble bs i = do { v \<leftarrow> get_treble bs i;
     Some (if 0x7FFFFF < v then uint (v AND 0x7FFFFF) - 0x800000 else uint v) }"

definition get_slong :: "bytes \<Rightarrow> nat \<Rightarrow> int option" where
  "get_slong bs i = do { v \<leftarrow> get_long bs i;
     Some (if 0x7FFFFFFF < v then uint (v AND 0x7FFFFFFF) - 0x80000000 else uint v) }"

section \<open>Stores\<close>

definition set_byte :: "u8 \<Rightarrow> bytes" where
  "set_byte v = [v]"

definition set_short :: "u16 \<Rightarrow> bytes" where
  "set_short v = [ucast (drop_bit 8 v AND 0xff), ucast (v AND 0xff)]"

definition set_treble :: "u32 \<Rightarrow> bytes" where
  "set_treble v =
     [ucast (drop_bit 16 v AND 0xff), ucast (drop_bit 8 v AND 0xff), ucast (v AND 0xff)]"

definition set_long :: "u32 \<Rightarrow> bytes" where
  "set_long v =
     [ucast (drop_bit 24 v AND 0xff), ucast (drop_bit 16 v AND 0xff),
      ucast (drop_bit 8 v AND 0xff), ucast (v AND 0xff)]"

text \<open>The signed stores; the argument is the value of the C expression after its cast.\<close>

definition set_sbyte :: "int \<Rightarrow> bytes" where
  "set_sbyte v =
     set_byte (if v < 0 then word_of_int (v + 0x80) OR 0x80 else word_of_int v)"

definition set_sshort :: "int \<Rightarrow> bytes" where
  "set_sshort v =
     set_short (if v < 0 then word_of_int (v + 0x8000) OR 0x8000 else word_of_int v)"

definition set_streble :: "int \<Rightarrow> bytes" where
  "set_streble v =
     set_treble (if v < 0 then word_of_int (v + 0x800000) OR 0x800000 else word_of_int v)"

definition set_slong :: "int \<Rightarrow> bytes" where
  "set_slong v =
     set_long (if v < 0 then word_of_int (v + 0x80000000) OR 0x80000000 else word_of_int v)"

section \<open>Bytes of a word\<close>

lemma and_ff: "(w AND 0xff) = take_bit 8 (w :: 'a::len word)"
  by (simp add: take_bit_eq_mask mask_eq_exp_minus_1)

lemma ucast_and_ff: "8 \<le> LENGTH('a) \<Longrightarrow> (ucast (w AND 0xff :: 'a::len word) :: u8) = ucast w"
  by (rule bit_word_eqI) (auto simp: and_ff bit_simps)

lemma short_join:
  "(push_bit 8 (ucast (ucast (drop_bit 8 v) :: u8)) OR ucast (ucast v :: u8) :: u16) = v"
  by (rule bit_word_eqI) (auto simp: bit_simps)

lemma treble_join:
  "(push_bit 16 (ucast (ucast (drop_bit 16 v) :: u8)) OR push_bit 8 (ucast (ucast (drop_bit 8 v) :: u8))
    OR ucast (ucast v :: u8) :: u32) = take_bit 24 v"
    (is "?l = ?r")
proof (rule bit_word_eqI)
  fix n assume "n < LENGTH(32)"
  then consider "n < 8" | "8 \<le> n" "n < 16" | "16 \<le> n" "n < 24" | "24 \<le> n" by linarith
  then show "bit ?l n = bit ?r n"
    by cases (auto simp: bit_simps)
qed

lemma long_join:
  "(push_bit 24 (ucast (ucast (drop_bit 24 v) :: u8)) OR push_bit 16 (ucast (ucast (drop_bit 16 v) :: u8))
    OR push_bit 8 (ucast (ucast (drop_bit 8 v) :: u8)) OR ucast (ucast v :: u8) :: u32) = v"
    (is "?l = ?r")
proof (rule bit_word_eqI)
  fix n assume "n < LENGTH(32)"
  then consider "n < 8" | "8 \<le> n" "n < 16" | "16 \<le> n" "n < 24" | "24 \<le> n" "n < 32"
    by (auto; linarith)
  then show "bit ?l n = bit ?r n"
    by cases (auto simp: bit_simps)
qed

lemma set_length [simp]:
  "length (set_byte b) = 1" "length (set_short s) = 2" "length (set_treble t) = 3"
  "length (set_long l) = 4" "length (set_sbyte i) = 1" "length (set_sshort i) = 2"
  "length (set_streble i) = 3" "length (set_slong i) = 4"
  by (simp_all add: set_byte_def set_short_def set_treble_def set_long_def set_sbyte_def
        set_sshort_def set_streble_def set_slong_def)

section \<open>Reading back a store\<close>

lemma get_byte_right [mem_simps]:
  "length xs \<le> i \<Longrightarrow> get_byte (xs @ ys) i = get_byte ys (i - length xs)"
  by (auto simp: get_byte_def nth_append)

lemma get_byte_right_add:
  "length xs \<le> i \<Longrightarrow> get_byte (xs @ ys) (i + k) = get_byte ys (i - length xs + k)"
  by (auto simp: get_byte_def nth_append)

lemma get_byte_left: "i < length xs \<Longrightarrow> get_byte (xs @ ys) i = get_byte xs i"
  by (auto simp: get_byte_def nth_append)

lemma get_byte_Cons [mem_simps]: "get_byte (x # xs) 0 = Some x"
  by (simp add: get_byte_def)

lemma get_byte_Cons_pos [mem_simps]: "0 < i \<Longrightarrow> get_byte (x # xs) i = get_byte xs (i - 1)"
  by (cases i) (auto simp: get_byte_def)

lemma get_short_right [mem_simps]:
  "length xs \<le> i \<Longrightarrow> get_short (xs @ ys) i = get_short ys (i - length xs)"
  by (simp only: get_short_def get_byte_right_add get_byte_right diff_add_assoc2)

lemma get_treble_right [mem_simps]:
  "length xs \<le> i \<Longrightarrow> get_treble (xs @ ys) i = get_treble ys (i - length xs)"
  by (simp only: get_treble_def get_byte_right_add get_byte_right diff_add_assoc2)

lemma get_long_right [mem_simps]:
  "length xs \<le> i \<Longrightarrow> get_long (xs @ ys) i = get_long ys (i - length xs)"
  by (simp only: get_long_def get_byte_right_add get_byte_right diff_add_assoc2)

lemma get_Cons [mem_simps]:
  "0 < i \<Longrightarrow> get_short (x # xs) i = get_short xs (i - 1)"
  "0 < i \<Longrightarrow> get_treble (x # xs) i = get_treble xs (i - 1)"
  "0 < i \<Longrightarrow> get_long (x # xs) i = get_long xs (i - 1)"
  using get_short_right[of "[x]" i xs] get_treble_right[of "[x]" i xs] get_long_right[of "[x]" i xs]
  by (simp_all add: Suc_leI)

lemma get_set_byte [mem_simps]: "get_byte (set_byte v @ ys) 0 = Some v"
  by (simp add: get_byte_def set_byte_def)

lemma get_set_short [mem_simps]: "get_short (set_short v @ ys) 0 = Some v"
  by (simp add: get_short_def get_byte_def set_short_def ucast_and_ff short_join)

lemma get_set_treble [mem_simps]: "get_treble (set_treble v @ ys) 0 = Some (take_bit 24 v)"
  by (simp add: get_treble_def get_byte_def set_treble_def ucast_and_ff treble_join)

lemma get_set_long [mem_simps]: "get_long (set_long v @ ys) 0 = Some v"
  by (simp add: get_long_def get_byte_def set_long_def ucast_and_ff long_join)

lemma get_None:
  "get_byte bs i = None \<longleftrightarrow> length bs < i + 1"
  "get_short bs i = None \<longleftrightarrow> length bs < i + 2"
  "get_treble bs i = None \<longleftrightarrow> length bs < i + 3"
  "get_long bs i = None \<longleftrightarrow> length bs < i + 4"
  by (auto simp: get_byte_def get_short_def get_treble_def get_long_def)

lemma get_Some:
  "i + 1 \<le> length bs \<Longrightarrow> \<exists>v. get_byte bs i = Some v"
  "i + 2 \<le> length bs \<Longrightarrow> \<exists>v. get_short bs i = Some v"
  "i + 3 \<le> length bs \<Longrightarrow> \<exists>v. get_treble bs i = Some v"
  "i + 4 \<le> length bs \<Longrightarrow> \<exists>v. get_long bs i = Some v"
  using get_None[of bs i] by (simp_all only: not_None_eq [symmetric] not_less)

lemma treble_take:
  "take_bit 24 (push_bit 16 (ucast a) OR push_bit 8 (ucast b) OR ucast c :: u32)
   = push_bit 16 (ucast (a :: u8)) OR push_bit 8 (ucast (b :: u8)) OR ucast (c :: u8)"
    (is "take_bit 24 ?w = ?w")
proof (rule bit_word_eqI)
  fix n assume "n < LENGTH(32)"
  show "bit (take_bit 24 ?w) n = bit ?w n"
  proof (cases "n < 24")
    case False
    then have "\<not> bit a (n - 16)" "\<not> bit b (n - 8)" "\<not> bit c n"
      using bit_imp_le_length[of a "n - 16"] bit_imp_le_length[of b "n - 8"]
        bit_imp_le_length[of c n] by auto
    then show ?thesis by (simp add: bit_simps False)
  qed (simp add: bit_simps)
qed

lemma get_treble_lt: "get_treble bs i = Some v \<Longrightarrow> take_bit 24 v = v"
  by (auto simp: get_treble_def bind_eq_Some_conv simp del: take_bit_or simp: treble_take)

section \<open>Signed fields\<close>

text \<open>The arithmetic of the signed macros is two's complement at their width.\<close>

lemma signed_read_word:
  fixes w :: "'a::len word"
  assumes n: "LENGTH('a) = Suc n"
  shows "(if 2 ^ n \<le> uint w then uint (take_bit n w) - 2 ^ n else uint w) = sint w"
proof -
  let ?k = "uint w"
  have lt: "?k < 2 * 2 ^ n" and pos: "0 \<le> ?k" using uint_lt2p[of w] n by simp_all
  have s: "sint w = (?k + 2 ^ n) mod (2 * 2 ^ n) - 2 ^ n"
    by (simp add: sint_uint n signed_take_bit_eq_take_bit_shift take_bit_eq_mod)
  have t: "uint (take_bit n w) = ?k mod 2 ^ n"
    by (simp only: unsigned_take_bit_eq) (simp only: take_bit_eq_mod)
  show ?thesis
  proof (cases "2 ^ n \<le> ?k")
    case True
    have "?k + 2 ^ n = (?k - 2 ^ n) + 2 * 2 ^ n" by simp
    then have "(?k + 2 ^ n) mod (2 * 2 ^ n) = (?k - 2 ^ n) mod (2 * 2 ^ n)"
      by (simp only: mod_add_self2)
    also have "\<dots> = ?k - 2 ^ n" using True lt by (intro mod_pos_pos_trivial) auto
    finally have s': "sint w = ?k - 2 * 2 ^ n" using s by simp
    have "?k mod 2 ^ n = (?k - 2 ^ n) mod 2 ^ n" by simp
    also have "\<dots> = ?k - 2 ^ n" using True lt by (intro mod_pos_pos_trivial) auto
    finally show ?thesis using True s' t by simp
  next
    case False
    then have "(?k + 2 ^ n) mod (2 * 2 ^ n) = ?k + 2 ^ n"
      using pos by (intro mod_pos_pos_trivial) auto
    then show ?thesis using False s by simp
  qed
qed

lemma signed_read_values:
  fixes b :: u8 and s :: u16 and l :: u32
  shows "(if 0x7F < b then uint (b AND 0x7F) - 0x80 else uint b) = sint b"
    and "(if 0x7FFF < s then uint (s AND 0x7FFF) - 0x8000 else uint s) = sint s"
    and "(if 0x7FFFFFFF < l then uint (l AND 0x7FFFFFFF) - 0x80000000 else uint l) = sint l"
proof -
  have b: "b AND 0x7F = take_bit 7 b" and s: "s AND 0x7FFF = take_bit 15 s"
    and l: "l AND 0x7FFFFFFF = take_bit 31 l"
    by (simp_all add: take_bit_eq_mask mask_eq_exp_minus_1)
  show "(if 0x7F < b then uint (b AND 0x7F) - 0x80 else uint b) = sint b"
    unfolding b using signed_read_word[of 7 b] by (simp add: word_less_def split: if_splits)
  show "(if 0x7FFF < s then uint (s AND 0x7FFF) - 0x8000 else uint s) = sint s"
    unfolding s using signed_read_word[of 15 s] by (simp add: word_less_def split: if_splits)
  show "(if 0x7FFFFFFF < l then uint (l AND 0x7FFFFFFF) - 0x80000000 else uint l) = sint l"
    unfolding l using signed_read_word[of 31 l] by (simp add: word_less_def split: if_splits)
qed

lemma get_signed_sint:
  "get_sbyte bs i = map_option sint (get_byte bs i)"
  "get_sshort bs i = map_option sint (get_short bs i)"
  "get_slong bs i = map_option sint (get_long bs i)"
  by (simp_all add: get_sbyte_def get_sshort_def get_slong_def signed_read_values
      split: bind_split)

lemma signed_store_word:
  fixes v :: int
  assumes n: "LENGTH('a::len) = Suc n" and lo: "- (2 ^ n) \<le> v" and neg: "v < 0"
  shows "word_of_int (v + 2 ^ n) OR 2 ^ n = (word_of_int v :: 'a word)"
proof -
  let ?a = "word_of_int (v + 2 ^ n) :: 'a word"
  have t: "take_bit n (v + 2 ^ n) = v + 2 ^ n"
    using lo neg by (intro take_bit_int_eq_self) auto
  have "\<not> bit (v + 2 ^ n) n"
    by (metis bit_take_bit_iff less_irrefl t)
  then have "?a AND 2 ^ n = 0"
    by (intro bit_word_eqI) (auto simp: bit_simps simp del: of_int_add)
  then have "?a OR 2 ^ n = ?a + 2 ^ n"
    by (simp add: disjunctive_add_eq_or)
  also have "\<dots> = word_of_int (v + 2 ^ Suc n)"
    by (simp add: algebra_simps)
  also have "\<dots> = word_of_int v"
    by (metis n add.right_neutral of_int_add of_int_numeral of_int_power
        word_exp_length_eq_0)
  finally show ?thesis .
qed

lemma signed_store_values:
  "- 0x80 \<le> v \<Longrightarrow> set_sbyte v = set_byte (word_of_int v)"
  "- 0x8000 \<le> v \<Longrightarrow> set_sshort v = set_short (word_of_int v)"
  "- 0x80000000 \<le> v \<Longrightarrow> set_slong v = set_long (word_of_int v)"
  using signed_store_word[of 7 v, where 'a = 8] signed_store_word[of 15 v, where 'a = 16]
    signed_store_word[of 31 v, where 'a = 32]
  by (auto simp: set_sbyte_def set_sshort_def set_slong_def)

lemma get_sbyte_right [mem_simps]:
  "length xs \<le> i \<Longrightarrow> get_sbyte (xs @ ys) i = get_sbyte ys (i - length xs)"
  by (simp add: get_signed_sint mem_simps)

lemma get_sshort_right [mem_simps]:
  "length xs \<le> i \<Longrightarrow> get_sshort (xs @ ys) i = get_sshort ys (i - length xs)"
  by (simp add: get_signed_sint mem_simps)

lemma get_slong_right [mem_simps]:
  "length xs \<le> i \<Longrightarrow> get_slong (xs @ ys) i = get_slong ys (i - length xs)"
  by (simp add: get_signed_sint mem_simps)

lemma get_set_sbyte [mem_simps]:
  "- 0x80 \<le> v \<Longrightarrow> v < 0x80 \<Longrightarrow> get_sbyte (set_sbyte v @ ys) 0 = Some v"
  by (simp add: get_signed_sint signed_store_values mem_simps int_word_sint)

lemma get_set_sshort [mem_simps]:
  "- 0x8000 \<le> v \<Longrightarrow> v < 0x8000 \<Longrightarrow> get_sshort (set_sshort v @ ys) 0 = Some v"
  by (simp add: get_signed_sint signed_store_values mem_simps int_word_sint)

lemma get_set_slong [mem_simps]:
  "- 0x80000000 \<le> v \<Longrightarrow> v < 0x80000000 \<Longrightarrow> get_slong (set_slong v @ ys) 0 = Some v"
  by (simp add: get_signed_sint signed_store_values mem_simps int_word_sint)

section \<open>Fixed-width fields\<close>

text \<open>
  The contract between a reader and a writer of a field of fixed width: what is written can
  be read back wherever it stands in an object, and a read fails exactly when the field does
  not fit. \<open>get_array\<close> is the loop \<open>for (j = 0; j < n; j++, p += w)\<close> over such fields.
\<close>

primrec get_array :: "(bytes \<Rightarrow> nat \<Rightarrow> 'a option) \<Rightarrow> nat \<Rightarrow> nat \<Rightarrow> bytes \<Rightarrow> nat \<Rightarrow> 'a list option"
  where
  "get_array get w 0 bs i = Some []"
| "get_array get w (Suc n) bs i = do {
     x \<leftarrow> get bs i; xs \<leftarrow> get_array get w n bs (i + w); Some (x # xs) }"

locale field_codec =
  fixes get :: "bytes \<Rightarrow> nat \<Rightarrow> 'a option" and put :: "'a \<Rightarrow> bytes"
    and width :: nat and fits :: "'a \<Rightarrow> bool"
  assumes put_length: "fits v \<Longrightarrow> length (put v) = width"
    and get_put: "fits v \<Longrightarrow> get (put v @ ys) 0 = Some v"
    and get_right: "length xs \<le> i \<Longrightarrow> get (xs @ ys) i = get ys (i - length xs)"
    and get_bounds: "get bs i = None \<longleftrightarrow> length bs < i + width"
    and get_fits: "get bs i = Some v \<Longrightarrow> fits v"
begin

lemma get_put_at: "fits v \<Longrightarrow> length xs = i \<Longrightarrow> get (xs @ put v @ ys) i = Some v"
  by (simp add: get_right get_put)

lemma array_length: "list_all fits vs \<Longrightarrow> length (concat (map put vs)) = length vs * width"
  by (induction vs) (auto simp: put_length)

lemma array_right:
  "length xs \<le> i \<Longrightarrow>
   get_array get width n (xs @ ys) i = get_array get width n ys (i - length xs)"
proof (induction n arbitrary: i)
  case (Suc n)
  then have "length xs \<le> i + width" "i + width - length xs = i - length xs + width" by simp_all
  with Suc show ?case by (simp add: get_right)
qed simp

lemma array_put:
  "list_all fits vs \<Longrightarrow> length vs = n \<Longrightarrow>
   get_array get width n (concat (map put vs) @ ys) 0 = Some vs"
proof (induction vs arbitrary: n)
  case Nil
  then show ?case by simp
next
  case (Cons v vs)
  then obtain m where m: "n = Suc m" "length vs = m" by (cases n) auto
  have "get_array get width m (put v @ concat (map put vs) @ ys) width
      = get_array get width m (concat (map put vs) @ ys) 0"
    using array_right[of "put v" width m] Cons.prems put_length[of v] by simp
  then show ?case
    using Cons.prems Cons.IH[of m] m by (simp add: get_put)
qed

lemma array_put_at:
  "list_all fits vs \<Longrightarrow> length vs = n \<Longrightarrow> length xs = i \<Longrightarrow>
   get_array get width n (xs @ concat (map put vs) @ ys) i = Some vs"
  by (simp add: array_right array_put)

lemma array_bounds: "i + n * width \<le> length bs \<Longrightarrow> \<exists>vs. get_array get width n bs i = Some vs"
proof (induction n arbitrary: i)
  case (Suc n)
  then have "get bs i \<noteq> None" by (simp add: get_bounds)
  moreover obtain vs where "get_array get width n bs (i + width) = Some vs"
    using Suc.IH[of "i + width"] Suc.prems by (auto simp: algebra_simps)
  ultimately show ?case by auto
qed simp

lemma array_fits: "get_array get width n bs i = Some vs \<Longrightarrow> list_all fits vs"
  by (induction n arbitrary: i vs) (auto simp: bind_eq_Some_conv get_fits)

lemma array_count: "get_array get width n bs i = Some vs \<Longrightarrow> length vs = n"
  by (induction n arbitrary: i vs) (auto simp: bind_eq_Some_conv)

end

interpretation byte_field: field_codec get_byte set_byte 1 "\<lambda>_. True"
  by unfold_locales (auto simp: get_set_byte get_byte_right get_None)

interpretation short_field: field_codec get_short set_short 2 "\<lambda>_. True"
  by unfold_locales (auto simp: get_set_short get_short_right get_None)

interpretation treble_field: field_codec get_treble set_treble 3 "\<lambda>v. take_bit 24 v = v"
  by unfold_locales (auto simp: get_set_treble get_treble_right get_None get_treble_lt)

interpretation long_field: field_codec get_long set_long 4 "\<lambda>_. True"
  by unfold_locales (auto simp: get_set_long get_long_right get_None)

lemma get_signed_range:
  "get_sshort bs i = Some v \<Longrightarrow> - 0x8000 \<le> v \<and> v < 0x8000"
  "get_slong bs i = Some w \<Longrightarrow> - 0x80000000 \<le> w \<and> w < 0x80000000"
  using sint_ge [where 'a = 16] sint_lt [where 'a = 16] sint_ge [where 'a = 32] sint_lt [where 'a = 32]
  by (auto simp: get_signed_sint)

interpretation sshort_field: field_codec get_sshort set_sshort 2 "\<lambda>v. - 0x8000 \<le> v \<and> v < 0x8000"
  by unfold_locales
    (simp_all add: get_set_sshort get_sshort_right get_signed_range, simp add: get_signed_sint get_None)

interpretation slong_field: field_codec get_slong set_slong 4
  "\<lambda>v. - 0x80000000 \<le> v \<and> v < 0x80000000"
  by unfold_locales
    (simp_all add: get_set_slong get_slong_right get_signed_range, simp add: get_signed_sint get_None)

interpretation block_field: field_codec "get_block n" "\<lambda>bs. bs" n "\<lambda>bs. length bs = n" for n
  by unfold_locales (auto simp: get_block_here get_block_right get_block_None get_block_length)

end
