(* ===== verification/PiBuffer.thy ===== *)
theory PiBuffer
  imports Bytes
begin

text \<open>
  The growable byte buffer of \<open>libpisock/pi-buffer.c\<close>. The block that \<open>buf->data\<close> points to
  is the list of its bytes (None is NULL). The abstract contract of the buffer is the byte
  string \<open>content\<close>, the used prefix of the block: the locale \<open>byte_store\<close> states it, the model
  of the code interprets it, and the record packers and the file writer rest on it.
  Sizes are naturals below \<open>2 ^ 64\<close>; \<open>used \<le> allocated\<close> is an invariant of every operation,
  so the unsigned subtraction of \<open>pi_buffer_expect\<close> never wraps.
\<close>

record pi_buffer =
  data :: "bytes option"
  allocated :: nat
  used :: nat

text \<open>\<open>sizeof(struct pi_buffer_t)\<close> on a 64-bit machine.\<close>

definition sizeof_pi_buffer :: nat where
  "sizeof_pi_buffer = 24"

definition pi_buffer_new :: "heap_env \<Rightarrow> nat \<Rightarrow> pi_buffer option" where
  "pi_buffer_new env capacity =
     (if \<not> malloc_ok env sizeof_pi_buffer then None
      else let capacity = (if capacity \<le> 0 then 16 else capacity)
           in case malloc env capacity of
                None \<Rightarrow> None
              | Some d \<Rightarrow> Some \<lparr>data = Some d, allocated = capacity, used = 0\<rparr>)"

text \<open>The buffer after the call, and whether the call returned it (False is NULL).\<close>

definition pi_buffer_expect :: "heap_env \<Rightarrow> pi_buffer \<Rightarrow> nat \<Rightarrow> pi_buffer \<times> bool" where
  "pi_buffer_expect env buf expect =
     (if expect \<le> allocated buf - used buf then (buf, True)
      else case (case data buf of
                   Some d \<Rightarrow> realloc env d (used buf + expect)
                 | None \<Rightarrow> malloc env expect) of
             None \<Rightarrow> (buf\<lparr>data := None, allocated := 0, used := 0\<rparr>, False)
           | Some d \<Rightarrow> (buf\<lparr>data := Some d, allocated := used buf + expect\<rparr>, True))"

text \<open>A store into the block: undefined (None) outside it.\<close>

definition buf_poke :: "pi_buffer \<Rightarrow> nat \<Rightarrow> bytes \<Rightarrow> pi_buffer option" where
  "buf_poke buf i bs =
     (case data buf of
        None \<Rightarrow> if bs = [] then Some buf else None
      | Some d \<Rightarrow> do { d' \<leftarrow> poke d i bs; Some (buf\<lparr>data := Some d'\<rparr>) })"

definition pi_buffer_append :: "heap_env \<Rightarrow> pi_buffer \<Rightarrow> bytes \<Rightarrow> (pi_buffer \<times> bool) option" where
  "pi_buffer_append env buf bs =
     (let (buf, ok) = pi_buffer_expect env buf (length bs) in
      if \<not> ok then Some (buf, False)
      else do { buf \<leftarrow> buf_poke buf (used buf) bs;
                Some (buf\<lparr>used := used buf + length bs\<rparr>, True) })"

definition content :: "pi_buffer \<Rightarrow> bytes" where
  "content buf = (case data buf of None \<Rightarrow> [] | Some d \<Rightarrow> take (used buf) d)"

definition pi_buffer_append_buffer ::
  "heap_env \<Rightarrow> pi_buffer \<Rightarrow> pi_buffer \<Rightarrow> (pi_buffer \<times> bool) option" where
  "pi_buffer_append_buffer env dest src = pi_buffer_append env dest (content src)"

definition pi_buffer_clear :: "heap_env \<Rightarrow> pi_buffer \<Rightarrow> pi_buffer" where
  "pi_buffer_clear env buf =
     (let buf = buf\<lparr>used := 0\<rparr> in
      if 65535 < allocated buf
      then let d = realloc env (case data buf of None \<Rightarrow> [] | Some d \<Rightarrow> d) 65535
           in buf\<lparr>data := d, allocated := (case d of None \<Rightarrow> 0 | Some _ \<Rightarrow> 65535)\<rparr>
      else buf)"

text \<open>The idiom of the record packers: \<open>pi_buffer_expect(buf, n); buf->used = n;\<close>, where the
  result of the first call is not tested.\<close>

definition buf_claim :: "heap_env \<Rightarrow> pi_buffer \<Rightarrow> nat \<Rightarrow> pi_buffer" where
  "buf_claim env buf n = (fst (pi_buffer_expect env buf n))\<lparr>used := n\<rparr>"

section \<open>Invariant\<close>

definition pi_buffer_wf :: "pi_buffer \<Rightarrow> bool" where
  "pi_buffer_wf buf \<longleftrightarrow>
     used buf \<le> allocated buf \<and>
     (case data buf of None \<Rightarrow> allocated buf = 0 | Some d \<Rightarrow> length d = allocated buf)"

lemma pi_buffer_new_wf: "pi_buffer_new env n = Some buf \<Longrightarrow> pi_buffer_wf buf \<and> content buf = []"
  by (auto simp: pi_buffer_new_def pi_buffer_wf_def content_def Let_def malloc_length
      split: if_splits option.splits)

lemma content_length: "pi_buffer_wf buf \<Longrightarrow> length (content buf) = used buf"
  by (auto simp: pi_buffer_wf_def content_def split: option.splits)

lemma pi_buffer_expect_wf:
  assumes "pi_buffer_wf buf" "pi_buffer_expect env buf n = (buf', ok)"
  shows "pi_buffer_wf buf'"
    and "ok \<Longrightarrow> used buf' = used buf \<and> used buf + n \<le> allocated buf' \<and> content buf' = content buf"
    and "\<not> ok \<Longrightarrow> buf' = buf\<lparr>data := None, allocated := 0, used := 0\<rparr>"
  using assms
  by (auto simp: pi_buffer_expect_def pi_buffer_wf_def content_def realloc_take
      dest: malloc_length realloc_length split: if_splits option.splits)

lemma buf_poke_Some:
  assumes "pi_buffer_wf buf" "i + length bs \<le> allocated buf"
  shows "\<exists>buf'. buf_poke buf i bs = Some buf' \<and> pi_buffer_wf buf' \<and>
           used buf' = used buf \<and> allocated buf' = allocated buf"
  using assms
  by (auto simp: buf_poke_def pi_buffer_wf_def poke_def split: option.splits)

lemma pi_buffer_append_spec:
  assumes wf: "pi_buffer_wf buf"
  shows "\<exists>buf' ok. pi_buffer_append env buf bs = Some (buf', ok) \<and> pi_buffer_wf buf' \<and>
           content buf' = (if ok then content buf @ bs else [])"
proof -
  obtain b ok where e: "pi_buffer_expect env buf (length bs) = (b, ok)" by fastforce
  note ex = pi_buffer_expect_wf[OF wf e]
  show ?thesis
  proof (cases ok)
    case False
    then show ?thesis using e ex by (auto simp: pi_buffer_append_def content_def)
  next
    case True
    then have b: "used b = used buf" "used buf + length bs \<le> allocated b" "content b = content buf"
      using ex by auto
    have "content buf' = content buf @ bs \<and> pi_buffer_wf buf'"
      if "buf_poke b (used b) bs = Some c" "buf' = c\<lparr>used := used c + length bs\<rparr>" for c buf'
      using that b ex(1) wf
      by (auto simp: buf_poke_def pi_buffer_wf_def content_def poke_def min_def
          split: option.splits if_splits)
    moreover obtain c where "buf_poke b (used b) bs = Some c"
      using buf_poke_Some[OF ex(1), of "used b" bs] b by auto
    ultimately show ?thesis using e True by (simp add: pi_buffer_append_def ex_bool_eq)
  qed
qed

lemma pi_buffer_clear_wf: "pi_buffer_wf buf \<Longrightarrow>
  pi_buffer_wf (pi_buffer_clear env buf) \<and> content (pi_buffer_clear env buf) = []"
  by (auto simp: pi_buffer_clear_def pi_buffer_wf_def content_def Let_def
      dest: realloc_length split: option.splits)

lemma content_data:
  assumes "pi_buffer_wf b" "content b = xs" "xs \<noteq> []"
  obtains ys where "data b = Some (xs @ ys)" "used b = length xs"
proof -
  from assms obtain d where d: "data b = Some d" "take (used b) d = xs"
    by (auto simp: content_def split: option.splits)
  then have "d = xs @ drop (used b) d" by (metis append_take_drop_id)
  moreover have "used b = length xs" using content_length[OF assms(1)] assms(2) by simp
  ultimately show ?thesis using that d(1) by metis
qed

section \<open>The contract\<close>

text \<open>
  An appendable byte store: \<open>append\<close> returns the store and whether it succeeded, and never
  touches memory outside its block.
\<close>

primrec append_all :: "('b \<Rightarrow> bytes \<Rightarrow> ('b \<times> bool) option) \<Rightarrow> 'b \<Rightarrow> bytes list \<Rightarrow> ('b \<times> bool) option"
  where
  "append_all app b [] = Some (b, True)"
| "append_all app b (x # xs) = do { (b, ok) \<leftarrow> app b x; if ok then append_all app b xs else Some (b, False) }"

locale byte_store =
  fixes append :: "'b \<Rightarrow> bytes \<Rightarrow> ('b \<times> bool) option"
    and clear :: "'b \<Rightarrow> 'b" and bytes_of :: "'b \<Rightarrow> bytes" and wf :: "'b \<Rightarrow> bool"
  assumes append_law: "wf b \<Longrightarrow> \<exists>b' ok. append b x = Some (b', ok) \<and> wf b' \<and>
                         bytes_of b' = (if ok then bytes_of b @ x else [])"
    and clear_law: "wf b \<Longrightarrow> wf (clear b) \<and> bytes_of (clear b) = []"
begin

lemma append_safe: "wf b \<Longrightarrow> append b x \<noteq> None"
  using append_law by (metis option.distinct(1))

lemma append_Some: "wf b \<Longrightarrow> append b x = Some (b', ok) \<Longrightarrow>
  wf b' \<and> bytes_of b' = (if ok then bytes_of b @ x else [])"
  using append_law[of b x] by auto

lemma append_all_law:
  "wf b \<Longrightarrow> \<exists>b' ok. append_all append b xs = Some (b', ok) \<and> wf b' \<and>
     bytes_of b' = (if ok then bytes_of b @ concat xs else [])"
proof (induction xs arbitrary: b)
  case (Cons x xs)
  obtain b1 ok where 1: "append b x = Some (b1, ok)" "wf b1"
    "bytes_of b1 = (if ok then bytes_of b @ x else [])"
    using append_law[OF Cons.prems] by blast
  show ?case
  proof (cases ok)
    case True
    then show ?thesis using 1 Cons.IH[of b1] by fastforce
  next
    case False
    then show ?thesis using 1 by auto
  qed
qed (simp add: ex_bool_eq)

end

interpretation pi_buffer_store: byte_store "pi_buffer_append env" "pi_buffer_clear env" content pi_buffer_wf
  for env
  by unfold_locales (rule pi_buffer_append_spec, assumption, rule pi_buffer_clear_wf)

section \<open>Packing into a claimed buffer\<close>

text \<open>When the allocation succeeds, the claimed block has room for \<open>n\<close> bytes, and once they are
  all written they are the content of the buffer.\<close>

definition claim_ok :: "heap_env \<Rightarrow> pi_buffer \<Rightarrow> nat \<Rightarrow> bool" where
  "claim_ok env buf n \<longleftrightarrow> snd (pi_buffer_expect env buf n)"

lemma claim_block:
  assumes "pi_buffer_wf buf" "claim_ok env buf n" "0 < n"
  obtains d where "buf_claim env buf n = \<lparr>data = Some d, allocated = length d, used = n\<rparr>"
    "n \<le> length d"
proof -
  obtain b where e: "pi_buffer_expect env buf n = (b, True)"
    using assms(2) by (cases "pi_buffer_expect env buf n") (auto simp: claim_ok_def)
  note ex = pi_buffer_expect_wf[OF assms(1) e]
  from ex(1,2) assms(3) obtain d where "data b = Some d" "length d = allocated b" "n \<le> length d"
    by (auto simp: pi_buffer_wf_def split: option.splits)
  then have "buf_claim env buf n = \<lparr>data = Some d, allocated = length d, used = n\<rparr>" "n \<le> length d"
    using e by (simp_all add: buf_claim_def)
  then show ?thesis by (rule that)
qed

lemma packed_content [simp]:
  "length s = n \<Longrightarrow> content \<lparr>data = Some (s @ r), allocated = a, used = n\<rparr> = s"
  by (simp add: content_def)

lemma calloc_claim_ok [simp]: "claim_ok calloc_env buf n"
  by (auto simp: claim_ok_def pi_buffer_expect_def calloc_env_def malloc_def realloc_def
      split: option.splits)

text \<open>\<open>strcpy(dst + i, s)\<close>.\<close>

definition buf_strcpy :: "pi_buffer \<Rightarrow> nat \<Rightarrow> bytes \<Rightarrow> pi_buffer option" where
  "buf_strcpy buf i s = buf_poke buf i (s @ [0])"

text \<open>\<open>filled n buf s\<close>: of the \<open>n\<close> claimed bytes those of \<open>s\<close> have been written. A packer that
  writes its fields in order moves from \<open>filled n buf []\<close> to \<open>filled n buf' s\<close> with
  \<open>length s = n\<close>, when the content of the buffer is \<open>s\<close>.\<close>

definition filled :: "nat \<Rightarrow> pi_buffer \<Rightarrow> bytes \<Rightarrow> bool" where
  "filled n buf s \<longleftrightarrow>
     (\<exists>r. buf = \<lparr>data = Some (s @ r), allocated = length (s @ r), used = n\<rparr> \<and> n \<le> length (s @ r))"

lemma filled_claim:
  assumes "pi_buffer_wf buf" "claim_ok env buf n" "0 < n"
  shows "filled n (buf_claim env buf n) []"
  using claim_block[OF assms] by (force simp: filled_def)

lemma filled_poke [wp_rules]:
  assumes "filled n buf s" "i = length s" "i + length bs \<le> n"
    and Q: "\<And>buf'. filled n buf' (s @ bs) \<Longrightarrow> Q buf'"
  shows "wp (buf_poke buf i bs) Q"
proof -
  obtain r where r: "buf = \<lparr>data = Some (s @ r), allocated = length (s @ r), used = n\<rparr>"
    "n \<le> length (s @ r)" using assms(1) by (auto simp: filled_def)
  then have "filled n \<lparr>data = Some (s @ bs @ drop (length bs) r), allocated = length (s @ r), used = n\<rparr>
      (s @ bs)" using assms(2,3) by (auto simp: filled_def)
  then show ?thesis
    using r assms(2,3) Q by (auto simp: wp_def buf_poke_def mem_simps)
qed

lemma filled_strcpy [wp_rules]:
  assumes "filled n buf s" "i = length s" "i + length bs + 1 \<le> n"
    and Q: "\<And>buf'. filled n buf' (s @ bs @ [0]) \<Longrightarrow> Q buf'"
  shows "wp (buf_strcpy buf i bs) Q"
  unfolding buf_strcpy_def by (rule filled_poke[OF assms(1,2)]) (use assms in auto)

lemma filled_done: "filled n buf s \<Longrightarrow> length s = n \<Longrightarrow> pi_buffer_wf buf \<and> content buf = s"
  by (auto simp: filled_def pi_buffer_wf_def)

text \<open>A string member that may be NULL, and its length as the packers count it.\<close>

definition opt_strlen :: "bytes option \<Rightarrow> nat" where
  "opt_strlen s = (case s of None \<Rightarrow> 0 | Some s \<Rightarrow> length s)"

text \<open>A buffer that holds exactly a byte string, as a reader receives it.\<close>

definition buf_of :: "bytes \<Rightarrow> pi_buffer" where
  "buf_of s = \<lparr>data = Some s, allocated = length s, used = length s\<rparr>"

lemma buf_of_wf [simp]: "pi_buffer_wf (buf_of s)" "content (buf_of s) = s"
  "used (buf_of s) = length s" "data (buf_of s) = Some s"
  by (simp_all add: buf_of_def pi_buffer_wf_def content_def)

end
