(* ===== verification/AppInfo.thy ===== *)
theory AppInfo
  imports PiBuffer
begin

text \<open>
  The category block that starts the AppInfo block of every record database
  (\<open>libpisock/appinfo.c\<close>): 16 category names, their IDs and rename flags, 278 bytes.
  The locale \<open>category_block\<close> is what the AppInfo packers of the applications rely on.
  A record pointer that may be NULL is an option; the object it points to is its bytes.
\<close>

record CategoryAppInfo =
  cat_renamed :: "u32 list"
  cat_name :: "bytes list"
  cat_ID :: bytes
  cat_lastUniqueID :: u8

text \<open>The C arrays \<open>renamed[16]\<close>, \<open>name[16][16]\<close> and \<open>ID[16]\<close> have fixed sizes.\<close>

definition category_wf :: "CategoryAppInfo \<Rightarrow> bool" where
  "category_wf ai \<longleftrightarrow> length (cat_renamed ai) = 16 \<and> length (cat_name ai) = 16 \<and>
     list_all (\<lambda>s. length s = 16) (cat_name ai) \<and> length (cat_ID ai) = 16"

definition unpack_CategoryAppInfo ::
  "CategoryAppInfo \<Rightarrow> bytes \<Rightarrow> nat \<Rightarrow> (CategoryAppInfo \<times> nat) option" where
  "unpack_CategoryAppInfo ai record len =
     (if len < 2 + 16 * 16 + 16 + 4 then Some (ai, 0)
      else do {
        rec \<leftarrow> get_short record 0;
        names \<leftarrow> get_array (get_block 16) 16 16 record 2;
        ids \<leftarrow> get_block 16 record (2 + 16 * 16);
        luid \<leftarrow> get_byte record (2 + 16 * 16 + 16);
        Some (\<lparr>cat_renamed = map (\<lambda>i. if test_flag rec i then 1 else 0) [0..<16],
               cat_name = names, cat_ID = ids, cat_lastUniqueID = luid\<rparr>,
              2 + 16 * 16 + 16 + 4) })"

definition pack_CategoryAppInfo ::
  "CategoryAppInfo \<Rightarrow> bytes option \<Rightarrow> nat \<Rightarrow> (bytes option \<times> nat) option" where
  "pack_CategoryAppInfo ai record len =
     (case record of
        None \<Rightarrow> Some (None, 2 + 16 * 16 + 16 + 4)
      | Some m \<Rightarrow>
          if len < 2 + 16 * 16 + 16 + 4 then Some (Some m, 0)
          else do {
            m \<leftarrow> poke m 0 (set_short (pack_flags 16 (\<lambda>i. cat_renamed ai ! i \<noteq> 0)));
            m \<leftarrow> poke_blocks m 2 (cat_name ai);
            m \<leftarrow> poke m (2 + 16 * 16) (cat_ID ai);
            m \<leftarrow> poke m (2 + 16 * 16 + 16) (set_byte (cat_lastUniqueID ai));
            m \<leftarrow> poke m (2 + 16 * 16 + 17) (set_byte 0);
            m \<leftarrow> poke m (2 + 16 * 16 + 18) (set_short 0);
            Some (Some m, 2 + 16 * 16 + 16 + 4) })"

text \<open>The bytes that the packer writes.\<close>

definition category_bytes :: "CategoryAppInfo \<Rightarrow> bytes" where
  "category_bytes ai =
     set_short (pack_flags 16 (\<lambda>i. cat_renamed ai ! i \<noteq> 0)) @ concat (cat_name ai) @ cat_ID ai @
     set_byte (cat_lastUniqueID ai) @ set_byte 0 @ set_short 0"

text \<open>Unpacking yields the flags as booleans.\<close>

definition category_norm :: "CategoryAppInfo \<Rightarrow> CategoryAppInfo" where
  "category_norm ai = ai\<lparr>cat_renamed := map (\<lambda>r. if r \<noteq> 0 then 1 else 0) (cat_renamed ai)\<rparr>"

lemma concat_names: "category_wf ai \<Longrightarrow> length (concat (cat_name ai)) = 256"
  using block_field.array_length[of 16 "cat_name ai"] by (simp add: category_wf_def)

lemma category_bytes_length: "category_wf ai \<Longrightarrow> length (category_bytes ai) = 278"
  using concat_names[of ai] by (simp add: category_bytes_def category_wf_def)

lemma pack_category_law:
  assumes wf: "category_wf ai" and len: "278 \<le> len" "278 \<le> length m"
  shows "pack_CategoryAppInfo ai (Some m) len = Some (Some (category_bytes ai @ drop 278 m), 278)"
proof -
  have "poke_blocks (a @ b) 2 (cat_name ai) = poke (a @ b) 2 (concat (cat_name ai))"
    if "length a = 2" for a b
    using that by (simp add: poke_blocks_concat)
  then show ?thesis
    using wf len concat_names[OF wf]
    by (simp add: pack_CategoryAppInfo_def category_bytes_def mem_simps category_wf_def)
qed

lemma pack_category_null: "pack_CategoryAppInfo ai None len = Some (None, 278)"
  by (simp add: pack_CategoryAppInfo_def)

lemma pack_category_short:
  "len < 278 \<Longrightarrow> pack_CategoryAppInfo ai (Some m) len = Some (Some m, 0)"
  by (simp add: pack_CategoryAppInfo_def)

lemma unpack_category_law:
  assumes wf: "category_wf ai" and len: "278 \<le> len"
  shows "unpack_CategoryAppInfo x (category_bytes ai @ ys) len = Some (category_norm ai, 278)"
proof -
  have "get_array (get_block 16) 16 16
         (set_short f @ concat (cat_name ai) @ zs) 2 = Some (cat_name ai)" for f zs
    using wf block_field.array_put_at[of 16 "cat_name ai" 16 "set_short f" 2 zs]
    by (simp add: category_wf_def)
  moreover have "map (\<lambda>i. if test_flag (pack_flags 16 (\<lambda>i. cat_renamed ai ! i \<noteq> 0) :: u16) i
                    then 1 else 0) [0..<16]
               = map (\<lambda>r. if r \<noteq> 0 then 1 else 0) (cat_renamed ai)"
    using wf by (auto simp: category_wf_def test_pack_flags intro!: nth_equalityI)
  ultimately show ?thesis
    using wf len concat_names[OF wf]
    by (cases ai) (simp add: unpack_CategoryAppInfo_def category_bytes_def mem_simps category_norm_def
        category_wf_def)
qed

lemma unpack_category_safe:
  assumes "len \<le> length record"
  shows "unpack_CategoryAppInfo ai record len \<noteq> None"
proof (cases "len < 278")
  case False
  then have l: "278 \<le> length record" using assms by simp
  then obtain names where "get_array (get_block 16) 16 16 record 2 = Some names"
    using block_field.array_bounds[of 2 16 16 "record"] by auto
  moreover obtain r where "get_short record 0 = Some r" using get_Some(2)[of 0 "record"] l by auto
  moreover obtain u where "get_byte record 274 = Some u" using get_Some(1)[of 274 "record"] l by auto
  moreover have "get_block 16 record 258 \<noteq> None" using l by (simp add: get_block_None)
  ultimately show ?thesis using False by (auto simp: unpack_CategoryAppInfo_def)
qed (simp add: unpack_CategoryAppInfo_def)

lemma unpack_category_result:
  "unpack_CategoryAppInfo ai record len = Some (ai', i) \<Longrightarrow>
   i = (if len < 278 then 0 else 278) \<and> (278 \<le> len \<longrightarrow> category_wf ai')"
  by (auto simp: unpack_CategoryAppInfo_def category_wf_def bind_eq_Some_conv
      dest: block_field.array_count block_field.array_fits get_block_length split: if_splits)

section \<open>The contract of the block\<close>

text \<open>
  What the AppInfo routines of the applications use of the category block: where it ends and
  that unpacking reads back what packing wrote, whatever follows it. \<open>tail\<close> is the
  application's own data.
\<close>

locale category_block =
  fixes pack :: "'a \<Rightarrow> bytes option \<Rightarrow> nat \<Rightarrow> (bytes option \<times> nat) option"
    and unpack :: "'a \<Rightarrow> bytes \<Rightarrow> nat \<Rightarrow> ('a \<times> nat) option"
    and enc :: "'a \<Rightarrow> bytes" and norm :: "'a \<Rightarrow> 'a" and wf :: "'a \<Rightarrow> bool" and size :: nat
  assumes enc_length: "wf a \<Longrightarrow> length (enc a) = size"
    and pack_enc: "wf a \<Longrightarrow> size \<le> len \<Longrightarrow> size \<le> length m \<Longrightarrow>
          pack a (Some m) len = Some (Some (enc a @ drop size m), size)"
    and pack_null: "pack a None len = Some (None, size)"
    and pack_short: "len < size \<Longrightarrow> pack a (Some m) len = Some (Some m, 0)"
    and unpack_enc: "wf a \<Longrightarrow> size \<le> len \<Longrightarrow> unpack x (enc a @ ys) len = Some (norm a, size)"
    and unpack_safe: "len \<le> length m \<Longrightarrow> \<exists>a'. unpack x m len = Some (a', if len < size then 0 else size)"
    and norm_wf: "wf a \<Longrightarrow> wf (norm a)"
    and unpack_wf: "size \<le> len \<Longrightarrow> unpack x m len = Some (a', i) \<Longrightarrow> wf a'"
begin

text \<open>A tail written behind the block stays behind it.\<close>

lemma tail_poke:
  assumes "wf a" "size \<le> i" "size \<le> length m"
  shows "poke (enc a @ drop size m) i bs = map_option ((@) (enc a)) (poke (drop size m) (i - size) bs)"
  using assms enc_length[of a] by (simp add: poke_right)

end

lemma category_norm_wf: "category_wf ai \<Longrightarrow> category_wf (category_norm ai)"
  by (simp add: category_wf_def category_norm_def)

interpretation category: category_block pack_CategoryAppInfo unpack_CategoryAppInfo
  category_bytes category_norm category_wf 278
proof unfold_locales
  fix x and m :: bytes and len assume "len \<le> length m"
  then obtain r where r: "unpack_CategoryAppInfo x m len = Some r"
    using unpack_category_safe[of len m x] by auto
  then show "\<exists>a'. unpack_CategoryAppInfo x m len = Some (a', if len < 278 then 0 else 278)"
    by (cases r) (auto dest: unpack_category_result)
next
  fix len x m a' i assume "278 \<le> len" "unpack_CategoryAppInfo x m len = Some (a', i)"
  then show "category_wf a'" by (auto dest: unpack_category_result)
qed (simp_all add: category_bytes_length pack_category_law unpack_category_law category_norm_wf
       pack_category_null pack_category_short)

end
