(* ===== verification/Memo.thy ===== *)
theory Memo
  imports AppInfo
begin

text \<open>
  The Memo Pad records and AppInfo block (\<open>libpisock/memo.c\<close>). A memo is one C string.
  \<open>strdup\<close> reads the block of the buffer up to a NUL and is not limited by \<open>used\<close>.
\<close>

definition memo_v1 :: int where
  "memo_v1 = 0"

record Memo =
  memo_text :: "bytes option"

definition free_Memo :: "Memo \<Rightarrow> Memo" where
  "free_Memo memo = memo\<lparr>memo_text := None\<rparr>"

definition unpack_Memo :: "Memo \<Rightarrow> pi_buffer option \<Rightarrow> int \<Rightarrow> (Memo \<times> int) option" where
  "unpack_Memo memo rcrd type =
     (if type \<noteq> memo_v1 then Some (memo, -1)
      else case rcrd of
        None \<Rightarrow> Some (memo, -1)
      | Some buf \<Rightarrow>
          (case data buf of
             None \<Rightarrow> Some (memo, -1)
           | Some d \<Rightarrow>
               if used buf < 1 then Some (memo, -1)
               else do { s \<leftarrow> get_cstr d 0; Some (memo\<lparr>memo_text := Some s\<rparr>, 0) }))"

definition pack_Memo ::
  "heap_env \<Rightarrow> Memo \<Rightarrow> pi_buffer option \<Rightarrow> int \<Rightarrow> (pi_buffer option \<times> int) option" where
  "pack_Memo env memo rcrd type =
     (let destlen = (case memo_text memo of Some s \<Rightarrow> length s | None \<Rightarrow> 0) + 1 in
      if type \<noteq> memo_v1 then Some (rcrd, -1)
      else case rcrd of
        None \<Rightarrow> Some (None, -1)
      | Some buf \<Rightarrow>
          let buf = buf_claim env buf destlen in
          do { buf \<leftarrow> (case memo_text memo of
                         Some s \<Rightarrow> buf_strcpy buf 0 s
                       | None \<Rightarrow> buf_poke buf 0 [0]);
               Some (Some buf, 0) })"

record MemoAppInfo =
  memo_type :: int
  memo_category :: CategoryAppInfo
  memo_sortByAlpha :: int

definition unpack_MemoAppInfo ::
  "MemoAppInfo \<Rightarrow> bytes \<Rightarrow> nat \<Rightarrow> (MemoAppInfo \<times> nat) option" where
  "unpack_MemoAppInfo appinfo rcrd len = do {
     (cat, i) \<leftarrow> unpack_CategoryAppInfo (memo_category appinfo) rcrd len;
     let appinfo = appinfo\<lparr>memo_category := cat, memo_type := memo_v1\<rparr>;
     if i = 0 then Some (appinfo, i)
     else if 4 \<le> len - i
     then do { b \<leftarrow> get_byte rcrd (i + 2); Some (appinfo\<lparr>memo_sortByAlpha := uint b\<rparr>, i + 4) }
     else Some (appinfo\<lparr>memo_sortByAlpha := 0\<rparr>, i) }"

definition pack_MemoAppInfo ::
  "MemoAppInfo \<Rightarrow> bytes option \<Rightarrow> nat \<Rightarrow> (bytes option \<times> nat) option" where
  "pack_MemoAppInfo appinfo rcrd len = do {
     (rcrd, i) \<leftarrow> pack_CategoryAppInfo (memo_category appinfo) rcrd len;
     case rcrd of
       None \<Rightarrow> Some (None, i + 4)
     | Some m \<Rightarrow>
         if i = 0 then Some (Some m, 0)
         else if len - i < 4 then Some (Some m, i)
         else do {
           m \<leftarrow> poke m i (set_short 0);
           m \<leftarrow> poke m (i + 2) (set_byte (word_of_int (memo_sortByAlpha appinfo)));
           m \<leftarrow> poke m (i + 3) (set_byte 0);
           Some (Some m, i + 4) } }"

section \<open>Properties\<close>

lemma pack_Memo_content:
  assumes "pi_buffer_wf buf" "claim_ok env buf (length s + 1)"
  shows "\<exists>buf'. pack_Memo env \<lparr>memo_text = Some s\<rparr> (Some buf) memo_v1 = Some (Some buf', 0) \<and>
           pi_buffer_wf buf' \<and> content buf' = s @ [0]"
proof -
  obtain d where "buf_claim env buf (length s + 1)
      = \<lparr>data = Some d, allocated = length d, used = length s + 1\<rparr>" "length s + 1 \<le> length d"
    using claim_block[OF assms] by auto
  then show ?thesis
    by (simp add: pack_Memo_def buf_strcpy_def buf_poke_def mem_simps pi_buffer_wf_def content_def)
qed

end
