(* ===== verification/PalmTime.thy ===== *)
theory PalmTime
  imports Bytes
begin

text \<open>
  Calendar dates: the C library's broken-down time and the 16-bit date (7 bits of year from
  1904, 4 of month, 5 of day) that the ToDo and Datebook records store. \<open>mktime\<close> belongs to
  the C library and depends on the time zone: it is a parameter wherever it is called, and
  what the code relies on, that it does not move a time that exists, is \<open>mktime_keeps\<close>.
\<close>

record tm =
  tm_sec :: int
  tm_min :: int
  tm_hour :: int
  tm_mday :: int
  tm_mon :: int
  tm_year :: int
  tm_wday :: int
  tm_yday :: int
  tm_isdst :: int

text \<open>The expression \<open>((tm_year - 4) << 9) | ((tm_mon + 1) << 5) | tm_mday\<close>, cast to 16 bits,
  and the three assignments that take it apart.\<close>

definition pack_date :: "tm \<Rightarrow> u16" where
  "pack_date t =
     word_of_int (push_bit 9 (tm_year t - 4) OR push_bit 5 (tm_mon t + 1) OR tm_mday t)"

definition unpack_date :: "u16 \<Rightarrow> tm \<Rightarrow> tm" where
  "unpack_date d t = t\<lparr>tm_year := uint (drop_bit 9 d) + 4,
                       tm_mon := uint (drop_bit 5 d AND 15) - 1,
                       tm_mday := uint (d AND 31)\<rparr>"

text \<open>Dates that the format can hold: 1904 to 2031.\<close>

definition palm_date :: "tm \<Rightarrow> bool" where
  "palm_date t \<longleftrightarrow> 4 \<le> tm_year t \<and> tm_year t < 132 \<and> 0 \<le> tm_mon t \<and> tm_mon t \<le> 11 \<and>
     1 \<le> tm_mday t \<and> tm_mday t \<le> 31"

definition mktime_keeps :: "(tm \<Rightarrow> tm) \<Rightarrow> tm \<Rightarrow> bool" where
  "mktime_keeps mktime t \<longleftrightarrow>
     tm_year (mktime t) = tm_year t \<and> tm_mon (mktime t) = tm_mon t \<and>
     tm_mday (mktime t) = tm_mday t \<and> tm_hour (mktime t) = tm_hour t \<and>
     tm_min (mktime t) = tm_min t \<and> tm_sec (mktime t) = tm_sec t"

text \<open>The fields of a time that the records store.\<close>

definition same_date :: "tm \<Rightarrow> tm \<Rightarrow> bool" where
  "same_date s t \<longleftrightarrow> tm_year s = tm_year t \<and> tm_mon s = tm_mon t \<and> tm_mday s = tm_mday t"

definition same_time :: "tm \<Rightarrow> tm \<Rightarrow> bool" where
  "same_time s t \<longleftrightarrow> same_date s t \<and> tm_hour s = tm_hour t \<and> tm_min s = tm_min t"

lemma or_shift_add:
  fixes a c :: int
  assumes "0 \<le> c" "c < 2 ^ n"
  shows "push_bit n a OR c = a * 2 ^ n + c"
proof -
  have c: "take_bit n c = c" using assms by (simp add: take_bit_int_eq_self)
  have "push_bit n a AND c = 0"
    by (subst c[symmetric]) (auto simp: bit_eq_iff bit_simps)
  then have "push_bit n a OR c = push_bit n a + c" by (simp add: disjunctive_add_eq_or)
  then show ?thesis by (simp add: push_bit_eq_mult)
qed

lemma pack_date_uint:
  assumes "palm_date t"
  shows "uint (pack_date t) = (tm_year t - 4) * 512 + (tm_mon t + 1) * 32 + tm_mday t"
proof -
  have d: "0 \<le> tm_mday t" "tm_mday t < 2 ^ 5" and m: "0 \<le> tm_mon t + 1" "tm_mon t + 1 < 16"
    and y: "0 \<le> tm_year t - 4" "tm_year t - 4 < 128"
    using assms by (auto simp: palm_date_def)
  have 1: "push_bit 5 (tm_mon t + 1) OR tm_mday t = (tm_mon t + 1) * 32 + tm_mday t"
    using or_shift_add[OF d, of "tm_mon t + 1"] by simp
  have "push_bit 9 (tm_year t - 4) OR ((tm_mon t + 1) * 32 + tm_mday t)
      = (tm_year t - 4) * 512 + ((tm_mon t + 1) * 32 + tm_mday t)"
    using or_shift_add[of "(tm_mon t + 1) * 32 + tm_mday t" 9 "tm_year t - 4"] d m by simp
  then have 2: "pack_date t = word_of_int ((tm_year t - 4) * 512 + ((tm_mon t + 1) * 32 + tm_mday t))"
    by (simp only: pack_date_def or.assoc 1)
  show ?thesis
    unfolding 2 uint_word_of_int using d m y by (subst mod_pos_pos_trivial) auto
qed

lemma unpack_date_uint:
  "unpack_date d t = t\<lparr>tm_year := uint d div 512 + 4, tm_mon := uint d div 32 mod 16 - 1,
                       tm_mday := uint d mod 32\<rparr>"
proof -
  have u: "uint d mod 65536 = uint d"
    using uint_lt2p[of d] by (intro mod_pos_pos_trivial) auto
  have "uint (drop_bit 5 d AND 15) = uint (take_bit 4 (drop_bit 5 d))"
    by (simp add: take_bit_eq_mask mask_eq_exp_minus_1)
  also have "\<dots> = uint d div 32 mod 16"
    by (simp only: unsigned_take_bit_eq unsigned_drop_bit_eq) (simp add: take_bit_eq_mod drop_bit_eq_div u)
  moreover have "uint (d AND 31) = uint (take_bit 5 d)"
    by (simp add: take_bit_eq_mask mask_eq_exp_minus_1)
  moreover have "uint (take_bit 5 d) = uint d mod 32"
    by (simp only: unsigned_take_bit_eq) (simp add: take_bit_eq_mod)
  moreover have "uint (drop_bit 9 d) = uint d div 512"
    by (simp only: unsigned_drop_bit_eq) (simp add: take_bit_eq_mod drop_bit_eq_div u)
  ultimately show ?thesis by (simp add: unpack_date_def)
qed

lemma date_fields:
  fixes a b c :: int
  assumes "0 \<le> b" "b < 16" "0 \<le> c" "c < 32"
  shows "(a * 512 + b * 32 + c) div 512 = a" "(a * 512 + b * 32 + c) div 32 mod 16 = b"
    "(a * 512 + b * 32 + c) mod 32 = c"
proof -
  have 1: "(b * 32 + c) div 512 = 0" using assms by (intro div_pos_pos_trivial) auto
  have "a * 512 + b * 32 + c = (b * 32 + c) + a * 512" by simp
  then show "(a * 512 + b * 32 + c) div 512 = a"
    using 1 by simp
  have e: "a * 512 + b * 32 + c = c + (a * 16 + b) * 32" by simp
  have 2: "c div 32 = 0" using assms by (intro div_pos_pos_trivial) auto
  have d: "(c + (a * 16 + b) * 32) div 32 = (a * 16 + b) + c div 32"
    by (rule div_mult_self1) simp
  show "(a * 512 + b * 32 + c) div 32 mod 16 = b"
    unfolding e d 2 using assms by simp
  have m: "(c + (a * 16 + b) * 32) mod 32 = c mod 32"
    by (rule mod_mult_self1)
  show "(a * 512 + b * 32 + c) mod 32 = c"
    unfolding e m using assms by simp
qed

lemma unpack_pack_date:
  assumes t: "palm_date t"
  shows "same_date (unpack_date (pack_date t) s) t"
  unfolding same_date_def unpack_date_uint pack_date_uint[OF t]
  using date_fields[of "tm_mon t + 1" "tm_mday t" "tm_year t - 4"] t
  by (simp add: palm_date_def)

text \<open>No date of the format is the mark of an absent date.\<close>

lemma pack_date_not_ffff: "palm_date t \<Longrightarrow> pack_date t \<noteq> 0xffff"
proof
  assume t: "palm_date t" and "pack_date t = 0xffff"
  then have "(tm_year t - 4) * 512 + (tm_mon t + 1) * 32 + tm_mday t = 0xffff"
    using pack_date_uint[OF t] by simp
  then show False using t by (auto simp: palm_date_def)
qed

lemma unpack_date_frame [simp]:
  "tm_hour (unpack_date d t) = tm_hour t" "tm_min (unpack_date d t) = tm_min t"
  "tm_sec (unpack_date d t) = tm_sec t" "tm_isdst (unpack_date d t) = tm_isdst t"
  by (simp_all add: unpack_date_def)

end
