(* ===== verification/DbTypes.thy ===== *)
theory DbTypes
  imports PiBuffer
begin

text \<open>
  The database descriptions shared by the file routines, the desktop link protocol and the
  conduits: the constants and structures of \<open>include/pi-dlp.h\<close>. On the 64-bit machines of the
  model \<open>unsigned long\<close> is 64 bits wide; \<open>int\<close> values are integers, and the conversion to
  \<open>int\<close> of a wider value is \<open>to_int\<close>.
\<close>

type_synonym u64 = "64 word"

definition to_int :: "int \<Rightarrow> int" where
  "to_int x = sint (word_of_int x :: u32)"

lemma to_int_id: "- 0x80000000 \<le> x \<Longrightarrow> x < 0x80000000 \<Longrightarrow> to_int x = x"
  by (simp add: to_int_def int_word_sint)

lemma to_int_range: "- 0x80000000 \<le> to_int x \<and> to_int x < 0x80000000"
  using sint_ge [where 'a = 32] sint_lt [where 'a = 32] by (simp add: to_int_def)

lemma to_int_le: "0 \<le> x \<Longrightarrow> to_int x \<le> x"
  using to_int_range [of x] by (cases "x < 0x80000000") (simp_all add: to_int_id)

text \<open>Addition of two \<open>int\<close> values: undefined when the sum is not an \<open>int\<close>.\<close>

definition add_int :: "int \<Rightarrow> int \<Rightarrow> int option" where
  "add_int a b = (if - 0x80000000 \<le> a + b \<and> a + b < 0x80000000 then Some (a + b) else None)"

text \<open>An \<open>int\<close> as the \<open>size_t\<close> it is converted to, and a \<open>size_t\<close> as a signed number of its width
  (\<open>ssize_t\<close>).\<close>

definition size_of_int :: "int \<Rightarrow> nat" where
  "size_of_int d = nat (d mod 2 ^ 64)"

lemma size_of_int_nat [simp]: "n < 2 ^ 64 \<Longrightarrow> size_of_int (int n) = n"
  by (simp add: size_of_int_def)

definition to_ssize :: "nat \<Rightarrow> int" where
  "to_ssize n = sint (of_nat n :: u64)"

lemma to_ssize_nat: "n < 0x80000000 \<Longrightarrow> to_ssize n = int n"
  by (simp add: to_ssize_def signed_of_nat signed_take_bit_int_eq_self)

lemma add_int_sum: "0 \<le> a \<Longrightarrow> 0 \<le> b \<Longrightarrow> a + b < 0x80000000 \<Longrightarrow> add_int a b = Some (a + b)"
  by (simp add: add_int_def)

text \<open>An offset or index that the code keeps in an \<open>int\<close>: a negative one is before the object.\<close>

definition int_index :: "int \<Rightarrow> nat option" where
  "int_index i = (if i < 0 then None else Some (nat i))"

lemma int_index_nat [simp]: "int_index (int n) = Some n"
  by (simp add: int_index_def)

definition dlpDBFlagResource :: u32 where "dlpDBFlagResource = 0x0001"
definition dlpDBFlagNewer :: u32 where "dlpDBFlagNewer = 0x0010"
definition dlpDBFlagReset :: u32 where "dlpDBFlagReset = 0x0020"
definition dlpDBMiscFlagRamBased :: u32 where "dlpDBMiscFlagRamBased = 0x40"
definition dlpRecAttrDeleted :: u32 where "dlpRecAttrDeleted = 0x80"
definition dlpRecAttrDirty :: u32 where "dlpRecAttrDirty = 0x40"
definition dlpRecAttrBusy :: u32 where "dlpRecAttrBusy = 0x20"
definition dlpRecAttrSecret :: u32 where "dlpRecAttrSecret = 0x10"
definition dlpRecAttrArchived :: u32 where "dlpRecAttrArchived = 0x08"
definition dlpOpenRead :: u32 where "dlpOpenRead = 0x80"
definition dlpOpenWrite :: u32 where "dlpOpenWrite = 0x40"
definition dlpOpenSecret :: u32 where "dlpOpenSecret = 0x10"
definition dlpOpenReadWrite :: u32 where "dlpOpenReadWrite = 0xC0"

record DBInfo =
  di_more :: int
  di_name :: bytes
  di_flags :: u32
  di_miscFlags :: u32
  di_version :: u32
  di_type :: u64
  di_creator :: u64
  di_modnum :: u64
  di_index :: u32
  di_createDate :: int
  di_modifyDate :: int
  di_backupDate :: int

record DBSizeInfo =
  ds_numRecords :: u64
  ds_totalBytes :: u64
  ds_dataBytes :: u64
  ds_appBlockSize :: u64
  ds_sortBlockSize :: u64
  ds_maxRecSize :: u64

definition zero_DBInfo :: DBInfo where
  "zero_DBInfo = \<lparr>di_more = 0, di_name = replicate 34 0, di_flags = 0, di_miscFlags = 0, di_version = 0,
     di_type = 0, di_creator = 0, di_modnum = 0, di_index = 0, di_createDate = 0, di_modifyDate = 0,
     di_backupDate = 0\<rparr>"

definition is_resource_db :: "DBInfo \<Rightarrow> bool" where
  "is_resource_db ip \<longleftrightarrow> di_flags ip AND dlpDBFlagResource \<noteq> 0"

end
