(* ===== verification/RecordFormat.thy ===== *)
theory RecordFormat
  imports AppInfo PalmTime DbTypes
begin

text \<open>
  What the packers and unpackers of the applications' records share: a cursor that writes into a
  claimed buffer, optional strings, fields of one byte, and the category block with the
  application's own data behind it.
\<close>

section \<open>Writing with a cursor\<close>

text \<open>The cursor is the buffer and the place of the next byte.\<close>

type_synonym cursor = "pi_buffer \<times> nat"

definition put :: "bytes \<Rightarrow> cursor \<Rightarrow> cursor option" where
  "put bs = (\<lambda>(buf, pos). do { buf \<leftarrow> buf_poke buf pos bs; Some (buf, pos + length bs) })"

primrec puts :: "bytes list \<Rightarrow> cursor \<Rightarrow> cursor option" where
  "puts [] c = Some c"
| "puts (b # bs) c = do { c \<leftarrow> put b c; puts bs c }"

text \<open>\<open>strcpy(pos, s); pos += strlen(s) + 1\<close>, when the string is there.\<close>

definition put_string :: "bytes option \<Rightarrow> cursor \<Rightarrow> cursor option" where
  "put_string s c = (case s of None \<Rightarrow> Some c | Some s \<Rightarrow> put (s @ [0]) c)"

definition string_bytes :: "bytes option \<Rightarrow> bytes" where
  "string_bytes s = (case s of None \<Rightarrow> [] | Some s \<Rightarrow> s @ [0])"

text \<open>\<open>cursor_at n s c\<close>: of the \<open>n\<close> claimed bytes those of \<open>s\<close> have been written and the cursor is behind
  them.\<close>

definition cursor_at :: "nat \<Rightarrow> bytes \<Rightarrow> cursor \<Rightarrow> bool" where
  "cursor_at n s c \<longleftrightarrow> filled n (fst c) s \<and> snd c = length s"

lemma cursor_start: "filled n buf s \<Longrightarrow> i = length s \<Longrightarrow> cursor_at n s (buf, i)"
  by (simp add: cursor_at_def)

lemma cursor_filled: "cursor_at n s (buf, i) \<Longrightarrow> filled n buf s \<and> i = length s"
  by (simp add: cursor_at_def)

lemma wp_put [wp_rules]:
  assumes "cursor_at n s c" "length s + length bs \<le> n" "\<And>c'. cursor_at n (s @ bs) c' \<Longrightarrow> Q c'"
  shows "wp (put bs c) Q"
  using assms filled_poke [where n = n and buf = "fst c" and s = s and i = "snd c" and bs = bs
      and Q = "\<lambda>b. Q (b, snd c + length bs)"]
  by (auto simp: put_def cursor_at_def wp_def split_beta)

lemma wp_puts:
  "cursor_at n s c \<Longrightarrow> length s + length (concat bs) \<le> n \<Longrightarrow> (\<And>c'. cursor_at n (s @ concat bs) c' \<Longrightarrow> Q c') \<Longrightarrow> wp (puts bs c) Q"
proof (induction bs arbitrary: s c)
  case Nil
  then show ?case by (cases c) (simp add: wp_def)
next
  case (Cons b bs)
  show ?case
    by (simp, rule wp_bind, rule wp_put [OF Cons.prems(1)])
      (use Cons.prems(2,3) in \<open>auto intro!: Cons.IH\<close>)
qed

lemma wp_put_string:
  assumes "cursor_at n s c" "length s + length (string_bytes t) \<le> n" "\<And>c'. cursor_at n (s @ string_bytes t) c' \<Longrightarrow> Q c'"
  shows "wp (put_string t c) Q"
proof (cases t)
  case None
  then show ?thesis using assms by (cases c) (simp add: put_string_def string_bytes_def wp_def)
next
  case (Some u)
  then show ?thesis using wp_put [OF assms(1), of "u @ [0]" Q] assms(2,3) by (simp add: put_string_def string_bytes_def)
qed

lemma wp_split: "(\<And>a b. c = (a, b) \<Longrightarrow> wp (f a b) Q) \<Longrightarrow> wp (case c of (a, b) \<Rightarrow> f a b) Q"
  by (cases c) simp

text \<open>A gap that is left for later, and a store into what has been written.\<close>

lemma filled_gap:
  assumes "filled n buf s" "length s + k \<le> n"
  obtains g where "length g = k" "filled n buf (s @ g)"
proof -
  obtain r where r: "buf = \<lparr>data = Some (s @ r), allocated = length (s @ r), used = n\<rparr>" "n \<le> length (s @ r)"
    using assms(1) by (auto simp: filled_def)
  have "length (take k r) = k" "filled n buf (s @ take k r)"
    using r assms(2) by (auto simp: filled_def intro!: exI [of _ "drop k r"])
  then show ?thesis by (rule that)
qed

lemma wp_over:
  assumes "filled n buf (xs @ ys @ zs)" "i = length xs" "length bs = length ys"
    and Q: "\<And>buf'. filled n buf' (xs @ bs @ zs) \<Longrightarrow> Q buf'"
  shows "wp (buf_poke buf i bs) Q"
proof -
  obtain r where r: "buf = \<lparr>data = Some (xs @ ys @ zs @ r), allocated = length (xs @ ys @ zs @ r), used = n\<rparr>"
    "n \<le> length (xs @ ys @ zs @ r)" using assms(1) by (auto simp: filled_def)
  then have "filled n \<lparr>data = Some (xs @ bs @ zs @ r), allocated = length (xs @ ys @ zs @ r), used = n\<rparr> (xs @ bs @ zs)"
    using assms(3) by (auto simp: filled_def)
  then show ?thesis using r assms(2,3) Q by (auto simp: wp_def buf_poke_def mem_simps)
qed

section \<open>Reading\<close>

text \<open>A string that is there when its flag is set.\<close>

definition get_string :: "bool \<Rightarrow> bytes \<Rightarrow> nat \<Rightarrow> (bytes option \<times> nat) option" where
  "get_string present p i =
     (if present then do { s \<leftarrow> get_cstr p i; Some (Some s, i + length s + 1) } else Some (None, i))"

lemma get_string_bytes:
  assumes "\<And>t. s = Some t \<Longrightarrow> cstring t" "i = length xs"
  shows "get_string (s \<noteq> None) (xs @ string_bytes s @ ys) i = Some (s, i + length (string_bytes s))"
  using assms by (cases s) (simp_all add: get_string_def string_bytes_def mem_simps)

section \<open>Records in a block of the caller\<close>

text \<open>The same cursor over a plain block of memory.\<close>

type_synonym mem_cursor = "bytes \<times> nat"

definition mput :: "bytes \<Rightarrow> mem_cursor \<Rightarrow> mem_cursor option" where
  "mput bs = (\<lambda>(m, pos). do { m \<leftarrow> poke m pos bs; Some (m, pos + length bs) })"

primrec mputs :: "bytes list \<Rightarrow> mem_cursor \<Rightarrow> mem_cursor option" where
  "mputs [] c = Some c"
| "mputs (b # bs) c = do { c \<leftarrow> mput b c; mputs bs c }"

text \<open>A string is always written; a missing one as the empty one.\<close>

definition text_bytes :: "bytes option \<Rightarrow> bytes" where
  "text_bytes s = (case s of None \<Rightarrow> [0] | Some s \<Rightarrow> s @ [0])"

lemma texts_length: "length (concat (map text_bytes ss)) = length ss + sum_list (map opt_strlen ss)"
  by (induction ss) (auto simp: text_bytes_def opt_strlen_def split: option.splits)

lemma mput_step:
  "length bs \<le> length r \<Longrightarrow> mput bs (s @ r, length s) = Some ((s @ bs) @ drop (length bs) r, length (s @ bs))"
  by (simp add: mput_def mem_simps)

lemma mputs_step:
  "length (concat bs) \<le> length r \<Longrightarrow>
   mputs bs (s @ r, length s) = Some ((s @ concat bs) @ drop (length (concat bs)) r, length (s @ concat bs))"
proof (induction bs arbitrary: s r)
  case (Cons b bs)
  then have "mputs bs ((s @ b) @ drop (length b) r, length (s @ b)) =
      Some (((s @ b) @ concat bs) @ drop (length (concat bs)) (drop (length b) r), length ((s @ b) @ concat bs))"
    by (intro Cons.IH) simp
  then show ?case using Cons.prems by (simp add: mput_step [of b r s, simplified] add.commute)
qed simp

lemma poke_SomeD: "poke m i bs = Some m' \<Longrightarrow> length m' = length m \<and> i + length bs \<le> length m"
  by (auto simp: poke_def split: if_splits)

lemma mput_SomeD: "mput bs (m, i) = Some (m', j) \<Longrightarrow> length m' = length m \<and> j = i + length bs \<and> j \<le> length m"
  by (auto simp: mput_def bind_eq_Some_conv dest: poke_SomeD)

lemma mputs_SomeD:
  "mputs bs (m, i) = Some (m', j) \<Longrightarrow> i \<le> length m \<Longrightarrow> length m' = length m \<and> j = i + length (concat bs) \<and> j \<le> length m"
proof (induction bs arbitrary: m i)
  case (Cons b bs)
  then obtain m1 i1 where 1: "mput b (m, i) = Some (m1, i1)" "mputs bs (m1, i1) = Some (m', j)"
    by (auto simp: bind_eq_Some_conv)
  then show ?case using mput_SomeD [OF 1(1)] Cons.IH [OF 1(2)] by auto
qed simp

text \<open>Reading a string that may be empty: the empty one stands for a missing one.\<close>

definition get_text :: "bytes \<Rightarrow> nat \<Rightarrow> (bytes option \<times> nat) option" where
  "get_text p i = do {
     b \<leftarrow> get_byte p i;
     if b \<noteq> 0 then do { s \<leftarrow> get_cstr p i; Some (Some s, i + length s + 1) } else Some (None, i + 1) }"

text \<open>Strings one after the other while \<open>len\<close> is positive; \<open>shrink\<close> is what a string takes from it. The
  place behind them is missing when the length ended them.\<close>

primrec unpack_texts :: "(nat \<Rightarrow> int) \<Rightarrow> bytes \<Rightarrow> nat \<Rightarrow> nat \<Rightarrow> int \<Rightarrow> (bytes option list \<times> nat option) option" where
  "unpack_texts shrink p 0 i len = Some ([], Some i)"
| "unpack_texts shrink p (Suc k) i len =
     (if len < 1 then Some ([], None)
      else do {
        (s, j) \<leftarrow> get_text p i;
        (ss, e) \<leftarrow> unpack_texts shrink p k j (len - shrink (j - i));
        Some (s # ss, e) })"

definition nth_or :: "'a list \<Rightarrow> nat \<Rightarrow> 'a \<Rightarrow> 'a" where
  "nth_or xs k d = (if k < length xs then xs ! k else d)"

definition text_norm :: "bytes option \<Rightarrow> bytes option" where
  "text_norm s = (if s = Some [] then None else s)"

lemma get_text_bytes:
  assumes "\<And>t. s = Some t \<Longrightarrow> cstring t" "i = length xs"
  shows "get_text (xs @ text_bytes s @ ys) i = Some (text_norm s, i + length (text_bytes s))"
proof (cases s)
  case None
  then show ?thesis using assms(2) by (simp add: get_text_def text_bytes_def text_norm_def mem_simps)
next
  case (Some t)
  then have c: "cstring t" using assms(1) by simp
  then have "get_cstr (xs @ text_bytes s @ ys) i = Some t" using Some assms(2) by (simp add: text_bytes_def mem_simps)
  then show ?thesis using c Some assms(2)
    by (cases t) (simp_all add: get_text_def text_bytes_def text_norm_def mem_simps cstring_def)
qed

lemma unpack_texts_bytes:
  assumes "\<And>s. Some s \<in> set ss \<Longrightarrow> cstring s" "\<And>n. 1 \<le> n \<Longrightarrow> shrink n \<le> int n" "int (length (concat (map text_bytes ss))) \<le> len"
    "i = length xs"
  shows "unpack_texts shrink (xs @ concat (map text_bytes ss) @ ys) (length ss) i len =
    Some (map text_norm ss, Some (i + length (concat (map text_bytes ss))))"
  using assms
proof (induction ss arbitrary: xs i len)
  case (Cons s ss)
  let ?k = "length (text_bytes s)"
  have k: "1 \<le> ?k" by (simp add: text_bytes_def split: option.split)
  have sh: "shrink ?k \<le> int ?k" by (rule Cons.prems(2) [OF k])
  have g: "get_text (xs @ text_bytes s @ concat (map text_bytes ss) @ ys) i = Some (text_norm s, i + ?k)"
    by (rule get_text_bytes) (use Cons.prems(1,4) in auto)
  have "unpack_texts shrink ((xs @ text_bytes s) @ concat (map text_bytes ss) @ ys) (length ss) (i + ?k) (len - shrink ?k) =
      Some (map text_norm ss, Some (i + ?k + length (concat (map text_bytes ss))))"
    by (rule Cons.IH) (use Cons.prems sh in auto)
  moreover have "1 \<le> len" using k Cons.prems(3) by simp
  ultimately show ?case using g by (simp add: add.assoc)
qed simp

section \<open>Fields\<close>

definition byte_value :: "int \<Rightarrow> bool" where
  "byte_value v \<longleftrightarrow> 0 \<le> v \<and> v < 256"

lemma uint_byte [simp]: "byte_value v \<Longrightarrow> uint (word_of_int v :: u8) = v"
  by (simp add: byte_value_def uint_word_of_int)

lemma uint_short: "0 \<le> v \<Longrightarrow> v < 65536 \<Longrightarrow> uint (word_of_int v :: u16) = v"
  by (simp add: uint_word_of_int)

lemma get_short_two: "get_short (b # c # xs) 0 = Some (push_bit 8 (ucast b) OR ucast c)"
  by (simp add: get_short_def get_byte_def)

lemma short_ffff:
  fixes b c :: u8
  assumes "(push_bit 8 (ucast b) OR ucast c :: u16) = 0xffff"
  shows "b = 255"
proof -
  have m: "(0xffff :: u16) = mask 16" "(255 :: u8) = mask 8" by (simp_all add: mask_eq_exp_minus_1)
  have "bit b k" if "k < 8" for k
    using arg_cong [OF assms [unfolded m], of "\<lambda>w. bit w (k + 8)"] that by (auto simp: bit_simps dest: bit_imp_le_length)
  then show ?thesis unfolding m by (intro bit_word_eqI) (simp add: bit_simps)
qed

text \<open>A time at midnight: the fields of a time that only a date was stored of.\<close>

definition start_of_day :: "tm \<Rightarrow> tm" where
  "start_of_day t = t\<lparr>tm_hour := 0, tm_min := 0, tm_sec := 0, tm_isdst := -1\<rparr>"

lemma start_of_day_date: "palm_date t \<Longrightarrow> same_date (start_of_day (unpack_date (pack_date t) base)) t"
  using unpack_pack_date [of t base] by (simp add: same_date_def start_of_day_def)

lemma kept_date: "mktime_keeps mktime s \<Longrightarrow> same_date s t \<Longrightarrow> same_date (mktime s) t"
  by (simp add: mktime_keeps_def same_date_def)

end
