(* ===== verification/ToDo.thy ===== *)
theory ToDo
  imports RecordFormat
begin

text \<open>
  The To Do List records and AppInfo block (\<open>libpisock/todo.c\<close>): a due date, a priority byte
  whose top bit is the completion mark, and two C strings.
\<close>

definition todo_v1 :: int where
  "todo_v1 = 0"

record ToDo =
  todo_indefinite :: int
  todo_due :: tm
  todo_priority :: int
  todo_complete :: int
  todo_description :: "bytes option"
  todo_note :: "bytes option"

definition free_ToDo :: "ToDo \<Rightarrow> ToDo" where
  "free_ToDo todo = todo\<lparr>todo_description := None, todo_note := None\<rparr>"

text \<open>The date part of \<open>unpack_ToDo\<close>: 0xffff marks an item without a due date.\<close>

definition unpack_due :: "(tm \<Rightarrow> tm) \<Rightarrow> u16 \<Rightarrow> ToDo \<Rightarrow> ToDo" where
  "unpack_due mktime d todo =
     (if d \<noteq> 0xffff
      then todo\<lparr>todo_due := mktime ((unpack_date d (todo_due todo))
                 \<lparr>tm_hour := 0, tm_min := 0, tm_sec := 0, tm_isdst := -1\<rparr>),
                todo_indefinite := 0\<rparr>
      else todo\<lparr>todo_indefinite := 1\<rparr>)"

text \<open>The offset is an \<open>int\<close>. The subtraction \<open>buf->used - ofs\<close> is unsigned, so each of the two tests only holds when
  the string before it ended exactly at \<open>used\<close>.\<close>

definition unpack_ToDo ::
  "(tm \<Rightarrow> tm) \<Rightarrow> ToDo \<Rightarrow> pi_buffer option \<Rightarrow> int \<Rightarrow> (ToDo \<times> int) option" where
  "unpack_ToDo mktime todo buf type =
     (if type \<noteq> todo_v1 then Some (todo, -1)
      else case buf of
        None \<Rightarrow> Some (todo, -1)
      | Some buf \<Rightarrow>
          (case data buf of
             None \<Rightarrow> Some (todo, -1)
           | Some p \<Rightarrow>
               if used buf < 3 then Some (todo, -1)
               else do {
                 d \<leftarrow> get_short p 0;
                 let todo = unpack_due mktime d todo;
                 prio \<leftarrow> get_byte p 2;
                 let todo = (if prio AND 0x80 \<noteq> 0
                             then todo\<lparr>todo_complete := 1, todo_priority := uint (prio AND 0x7f)\<rparr>
                             else todo\<lparr>todo_complete := 0, todo_priority := uint prio\<rparr>);
                 let ofs = 3;
                 if size_sub (used buf) (size_of_int ofs) < 1 then Some (todo, -1)
                 else do {
                   i \<leftarrow> int_index ofs;
                   desc \<leftarrow> get_cstr p i;
                   let todo = todo\<lparr>todo_description := Some desc\<rparr>;
                   let ofs = to_int (ofs + int (length desc + 1));
                   if size_sub (used buf) (size_of_int ofs) < 1
                   then Some (todo\<lparr>todo_description := None\<rparr>, -1)
                   else do {
                     i \<leftarrow> int_index ofs;
                     nt \<leftarrow> get_cstr p i;
                     Some (todo\<lparr>todo_note := Some nt\<rparr>, 0) } } }))"

text \<open>One of the two strings, at the place \<open>pos\<close>, which is an \<open>int\<close>.\<close>

definition put_todo_string :: "bytes option \<Rightarrow> pi_buffer \<times> int \<Rightarrow> (pi_buffer \<times> int) option" where
  "put_todo_string str = (\<lambda>(buf, pos).
     case str of
       Some s \<Rightarrow> do {
         i \<leftarrow> int_index pos;
         buf \<leftarrow> buf_strcpy buf i s;
         Some (buf, to_int (pos + int (length s + 1))) }
     | None \<Rightarrow> do {
         i \<leftarrow> int_index pos;
         pos \<leftarrow> add_int pos 1;
         buf \<leftarrow> buf_poke buf i [0];
         Some (buf, pos) })"

definition pack_ToDo ::
  "heap_env \<Rightarrow> ToDo option \<Rightarrow> pi_buffer option \<Rightarrow> int \<Rightarrow> (pi_buffer option \<times> int) option" where
  "pack_ToDo env todo buf type =
     (case (todo, buf) of
        (Some todo, Some buf) \<Rightarrow>
          if type \<noteq> todo_v1 then Some (Some buf, -1)
          else
            let destlen = (3 + opt_strlen (todo_description todo) + 1 + opt_strlen (todo_note todo) + 1) mod 2 ^ 64;
                buf = buf_claim env buf destlen
            in do {
              buf \<leftarrow> (if todo_indefinite todo \<noteq> 0
                     then do { buf \<leftarrow> buf_poke buf 0 [0xff]; buf_poke buf 1 [0xff] }
                     else buf_poke buf 0 (set_short (pack_date (todo_due todo))));
              buf \<leftarrow> buf_poke buf 2
                     [if todo_complete todo \<noteq> 0
                      then word_of_int (todo_priority todo) OR 0x80
                      else word_of_int (todo_priority todo)];
              let pos = 3;
              (buf, pos) \<leftarrow> put_todo_string (todo_description todo) (buf, pos);
              (buf, pos) \<leftarrow> put_todo_string (todo_note todo) (buf, pos);
              Some (Some buf, 0) }
      | (_, buf) \<Rightarrow> Some (buf, -1))"

record ToDoAppInfo =
  tai_type :: int
  tai_category :: CategoryAppInfo
  tai_dirty :: int
  tai_sortByPriority :: int

definition unpack_ToDoAppInfo ::
  "ToDoAppInfo \<Rightarrow> bytes \<Rightarrow> nat \<Rightarrow> (ToDoAppInfo \<times> nat) option" where
  "unpack_ToDoAppInfo appinfo rcrd len = do {
     (cat, i) \<leftarrow> unpack_CategoryAppInfo (tai_category appinfo) rcrd len;
     let appinfo = appinfo\<lparr>tai_type := todo_v1, tai_category := cat\<rparr>;
     if i = 0 then Some (appinfo, 0)
     else if len - i < 4 then Some (appinfo, 0)
     else do {
       d \<leftarrow> get_short rcrd i;
       s \<leftarrow> get_byte rcrd (i + 2);
       Some (appinfo\<lparr>tai_dirty := uint d, tai_sortByPriority := uint s\<rparr>, i + 4) } }"

definition pack_ToDoAppInfo ::
  "ToDoAppInfo \<Rightarrow> bytes option \<Rightarrow> nat \<Rightarrow> (bytes option \<times> nat) option" where
  "pack_ToDoAppInfo appinfo rcrd len = do {
     (rcrd, i) \<leftarrow> pack_CategoryAppInfo (tai_category appinfo) rcrd len;
     case rcrd of
       None \<Rightarrow> Some (None, i + 4)
     | Some m \<Rightarrow>
         if i = 0 then Some (Some m, 0)
         else if len - i < 4 then Some (Some m, 0)
         else do {
           m \<leftarrow> poke m i (set_short (word_of_int (tai_dirty appinfo)));
           m \<leftarrow> poke m (i + 2) (set_byte (word_of_int (tai_sortByPriority appinfo)));
           m \<leftarrow> poke m (i + 3) (set_byte 0);
           Some (Some m, i + 4) } }"

section \<open>Properties\<close>

text \<open>The record on the wire.\<close>

definition todo_bytes :: "ToDo \<Rightarrow> bytes" where
  "todo_bytes todo =
     (if todo_indefinite todo \<noteq> 0 then [0xff, 0xff] else set_short (pack_date (todo_due todo))) @
     [if todo_complete todo \<noteq> 0 then word_of_int (todo_priority todo) OR 0x80
      else word_of_int (todo_priority todo)] @
     (case todo_description todo of None \<Rightarrow> [] | Some s \<Rightarrow> s) @ [0] @
     (case todo_note todo of None \<Rightarrow> [] | Some s \<Rightarrow> s) @ [0]"

lemma wp_put_todo_string:
  assumes f: "filled n buf s" and p: "pos = int (length s)" and n: "length s + opt_strlen str + 1 \<le> n" "n < 0x80000000"
    and Q: "\<And>buf'. filled n buf' (s @ (case str of None \<Rightarrow> [] | Some t \<Rightarrow> t) @ [0]) \<Longrightarrow>
      Q (buf', int (length s + opt_strlen str + 1))"
  shows "wp (put_todo_string str (buf, pos)) Q"
proof (cases str)
  case None
  have "add_int pos 1 = Some (int (length s + opt_strlen str + 1))"
    using n p None by (simp add: add_int_sum opt_strlen_def)
  moreover have "wp (buf_poke buf (length s) [0]) (\<lambda>b. Q (b, int (length s + opt_strlen str + 1)))"
    using n Q None by (intro filled_poke[OF f refl]) auto
  ultimately show ?thesis by (auto simp: put_todo_string_def None p wp_def)
next
  case (Some t)
  have "to_int (pos + int (length t + 1)) = int (length s + opt_strlen str + 1)"
    using n p by (subst to_int_id) (simp_all add: Some opt_strlen_def)
  moreover have "wp (buf_strcpy buf (length s) t) (\<lambda>b. Q (b, int (length s + opt_strlen str + 1)))"
    using n Q Some by (intro filled_strcpy[OF f refl]) (auto simp: opt_strlen_def)
  ultimately show ?thesis by (auto simp: put_todo_string_def Some p wp_def)
qed

lemma pack_ToDo_content:
  assumes wf: "pi_buffer_wf buf" and ok: "claim_ok env buf (length (todo_bytes todo))"
    and len: "length (todo_bytes todo) < 0x80000000"
  shows "wp (pack_ToDo env (Some todo) (Some buf) todo_v1)
           (\<lambda>(buf', r). r = 0 \<and> (\<exists>b. buf' = Some b \<and> pi_buffer_wf b \<and> content b = todo_bytes todo))"
proof -
  let ?d = "opt_strlen (todo_description todo)" and ?t = "opt_strlen (todo_note todo)" and ?N = "length (todo_bytes todo)"
  have n: "?N = 3 + ?d + 1 + ?t + 1"
    by (simp add: todo_bytes_def opt_strlen_def split: option.splits)
  have B: "buf_claim env buf ((3 + ?d + 1 + ?t + 1) mod 2 ^ 64) = buf_claim env buf ?N"
    using len by (simp add: n)
  have f: "filled ?N (buf_claim env buf ?N) []" using filled_claim[OF wf ok] n by simp
  show ?thesis
    unfolding pack_ToDo_def prod.case option.case Let_def B
    by (use f len in \<open>simp split del: if_split\<close>)
      (rule wp_Some wp_bind wp_if
       | (rule filled_poke, assumption, simp, simp add: n)
       | (rule wp_put_todo_string, assumption, simp add: opt_strlen_def split: option.splits,
           simp add: n opt_strlen_def split: option.splits, assumption)
       | simp only: prod.case
       | (drule filled_done, simp add: n opt_strlen_def split: option.splits, force simp: todo_bytes_def))+
qed

text \<open>Records that the format can hold.\<close>

definition todo_fits :: "ToDo \<Rightarrow> bool" where
  "todo_fits todo \<longleftrightarrow> (todo_indefinite todo = 0 \<longrightarrow> palm_date (todo_due todo)) \<and>
     0 \<le> todo_priority todo \<and> todo_priority todo < 128 \<and>
     (\<forall>s. todo_description todo = Some s \<longrightarrow> cstring s) \<and> (\<forall>s. todo_note todo = Some s \<longrightarrow> cstring s)"

text \<open>The time that the reader hands to \<open>mktime\<close>.\<close>

definition midnight :: "tm \<Rightarrow> tm \<Rightarrow> tm" where
  "midnight base due =
     (unpack_date (pack_date due) base)\<lparr>tm_hour := 0, tm_min := 0, tm_sec := 0, tm_isdst := -1\<rparr>"

lemma priority_byte:
  assumes "0 \<le> p" "p < 128"
  shows "(word_of_int p :: u8) AND 128 = 0" "((word_of_int p :: u8) OR 128) AND 128 \<noteq> 0"
    "uint (word_of_int p :: u8) = p" "uint (((word_of_int p :: u8) OR 128) AND 127) = p"
proof -
  let ?w = "word_of_int p :: u8"
  have "take_bit 7 p = p" using assms by (simp add: take_bit_int_eq_self)
  then have w: "take_bit 7 ?w = ?w" by (simp add: take_bit_of_int)
  have m: "(128 :: u8) = push_bit 7 1" "(127 :: u8) = mask 7" by (simp_all add: mask_eq_exp_minus_1)
  have "take_bit 7 ?w AND push_bit 7 1 = 0"
    by (intro bit_word_eqI) (auto simp only: bit_simps bit_0_eq bot_apply bot_bool_def)
  then show "?w AND 128 = 0" unfolding m w .
  have "bit ((?w OR push_bit 7 1) AND push_bit 7 1) 7" by (simp only: bit_simps) simp
  then show "(?w OR 128) AND 128 \<noteq> 0" unfolding m by (metis bit_0_eq bot_apply bot_bool_def)
  show u: "uint ?w = p" using assms by (simp add: uint_word_of_int)
  have "(take_bit 7 ?w OR push_bit 7 1) AND mask 7 = take_bit 7 ?w"
    by (intro bit_word_eqI) (auto simp only: bit_simps)
  then show "uint ((?w OR 128) AND 127) = p" unfolding m w using u by simp
qed

lemma unpack_due_bytes:
  assumes "todo_fits todo"
  shows "do { d \<leftarrow> get_short (todo_bytes todo) 0; Some (unpack_due mktime d old) } =
    Some (if todo_indefinite todo \<noteq> 0 then old\<lparr>todo_indefinite := 1\<rparr>
          else old\<lparr>todo_due := mktime (midnight (todo_due old) (todo_due todo)), todo_indefinite := 0\<rparr>)"
proof (cases "todo_indefinite todo = 0")
  case True
  then show ?thesis
    using assms pack_date_not_ffff[of "todo_due todo"]
    by (simp add: todo_bytes_def mem_simps unpack_due_def midnight_def todo_fits_def)
next
  case False
  have "get_short ([0xff, 0xff] @ xs) 0 = Some 0xffff" for xs
    by (simp add: get_short_def get_byte_def)
  then show ?thesis using False by (simp add: todo_bytes_def unpack_due_def)
qed

lemma unpack_todo_bytes:
  assumes fits: "todo_fits todo" and len: "length (todo_bytes todo) < 0x80000000"
  shows "unpack_ToDo mktime old (Some (buf_of (todo_bytes todo))) todo_v1 = Some
    (\<lparr>todo_indefinite = (if todo_indefinite todo \<noteq> 0 then 1 else 0),
      todo_due = (if todo_indefinite todo \<noteq> 0 then todo_due old
                  else mktime (midnight (todo_due old) (todo_due todo))),
      todo_priority = todo_priority todo, todo_complete = (if todo_complete todo \<noteq> 0 then 1 else 0),
      todo_description = Some (case todo_description todo of None \<Rightarrow> [] | Some s \<Rightarrow> s),
      todo_note = Some (case todo_note todo of None \<Rightarrow> [] | Some s \<Rightarrow> s)\<rparr>, 0)"
proof -
  define ds where "ds = (case todo_description todo of None \<Rightarrow> [] | Some s \<Rightarrow> s)"
  define nt where "nt = (case todo_note todo of None \<Rightarrow> [] | Some s \<Rightarrow> s)"
  define pr where "pr = (if todo_complete todo \<noteq> 0 then word_of_int (todo_priority todo) OR 0x80
      else (word_of_int (todo_priority todo) :: u8))"
  define due where "due = (if todo_indefinite todo \<noteq> 0 then [0xff, 0xff] else set_short (pack_date (todo_due todo)))"
  have b: "todo_bytes todo = due @ pr # ds @ 0 # nt @ [0]" "length due = 2"
    by (simp_all add: todo_bytes_def due_def pr_def ds_def nt_def)
  have c: "cstring ds" "cstring nt"
    using fits by (auto simp: ds_def nt_def todo_fits_def split: option.splits)
  have reads: "get_byte (todo_bytes todo) 2 = Some pr" "get_cstr (todo_bytes todo) 3 = Some ds"
    "get_cstr (todo_bytes todo) (4 + length ds) = Some nt"
    unfolding b(1) using b(2) c by (simp_all add: mem_simps)
  have l: "length (todo_bytes todo) = 5 + length ds + length nt" using b by simp
  obtain d where d: "get_short (todo_bytes todo) 0 = Some d"
    using get_Some(2)[of 0 "todo_bytes todo"] l by auto
  have due: "unpack_due mktime d old = (if todo_indefinite todo \<noteq> 0 then old\<lparr>todo_indefinite := 1\<rparr>
      else old\<lparr>todo_due := mktime (midnight (todo_due old) (todo_due todo)), todo_indefinite := 0\<rparr>)"
    using unpack_due_bytes[OF fits, of mktime old] d by simp
  have "0 \<le> todo_priority todo" "todo_priority todo < 128" using fits by (auto simp: todo_fits_def)
  note pb = priority_byte[OF this]
  have sub: "\<not> size_sub (5 + length ds + length nt) 3 < 1" "\<not> size_sub (5 + length ds + length nt) (4 + length ds) < 1"
    using len l by (simp_all add: size_sub_le)
  have to: "to_int (3 + int (length ds + 1)) = int (4 + length ds)"
    "size_of_int 3 = 3" "int_index 3 = Some 3" "size_of_int (int (4 + length ds)) = 4 + length ds"
    "int_index (4 + int (length ds)) = Some (4 + length ds)"
    using len l by (simp_all add: to_int_id size_of_int_def int_index_def nat_add_distrib)
  show ?thesis
    using d due reads sub pb to(2,3,5)
    by (simp add: unpack_ToDo_def Let_def l pr_def to(1,4)[simplified] flip: ds_def nt_def)
qed

lemma midnight_fields: "palm_date due \<Longrightarrow> same_date (midnight base due) due"
  using unpack_pack_date[of due base] by (simp add: same_date_def midnight_def)

text \<open>C28: packing a To Do record into any buffer and unpacking the bytes gives back its due date,
  priority, completion mark and strings (a NULL string comes back as the empty one), for every
  record of less than 2 GiB that the format can hold (the packer and the reader count in an \<open>int\<close>) and
  every \<open>mktime\<close> that leaves existing dates alone.\<close>

theorem todo_roundtrip:
  assumes "pi_buffer_wf buf" "claim_ok env buf (length (todo_bytes todo))" "todo_fits todo"
    and "length (todo_bytes todo) < 0x80000000"
    and "mktime_keeps mktime (midnight (todo_due old) (todo_due todo))"
  shows "\<exists>buf' todo'. pack_ToDo env (Some todo) (Some buf) todo_v1 = Some (Some buf', 0) \<and>
     unpack_ToDo mktime old (Some (buf_of (content buf'))) todo_v1 = Some (todo', 0) \<and>
     (todo_indefinite todo = 0 \<longleftrightarrow> todo_indefinite todo' = 0) \<and>
     (todo_indefinite todo = 0 \<longrightarrow> same_date (todo_due todo') (todo_due todo)) \<and>
     todo_priority todo' = todo_priority todo \<and>
     (todo_complete todo \<noteq> 0 \<longleftrightarrow> todo_complete todo' = 1) \<and>
     todo_description todo' = Some (case todo_description todo of None \<Rightarrow> [] | Some s \<Rightarrow> s) \<and>
     todo_note todo' = Some (case todo_note todo of None \<Rightarrow> [] | Some s \<Rightarrow> s)"
proof -
  obtain buf' where b: "pack_ToDo env (Some todo) (Some buf) todo_v1 = Some (Some buf', 0)"
    "content buf' = todo_bytes todo"
    using wp_D[OF pack_ToDo_content[OF assms(1,2,4)]] by auto
  have "todo_indefinite todo = 0 \<Longrightarrow>
      same_date (mktime (midnight (todo_due old) (todo_due todo))) (todo_due todo)"
    using assms(3,5) midnight_fields[of "todo_due todo" "todo_due old"]
    by (auto simp: same_date_def mktime_keeps_def todo_fits_def)
  then show ?thesis
    using b unpack_todo_bytes[OF assms(3,4), of mktime old] by auto
qed

definition sample_todo :: ToDo where
  "sample_todo = \<lparr>todo_indefinite = 0,
     todo_due = \<lparr>tm_sec = 0, tm_min = 0, tm_hour = 0, tm_mday = 29, tm_mon = 1, tm_year = 104,
                 tm_wday = 0, tm_yday = 0, tm_isdst = 0\<rparr>,
     todo_priority = 3, todo_complete = 1, todo_description = Some [104, 105], todo_note = None\<rparr>"

theorem todo_roundtrip_witness:
  "\<exists>buf' todo'. pack_ToDo calloc_env (Some sample_todo) (Some (buf_of [])) todo_v1 = Some (Some buf', 0) \<and>
     unpack_ToDo (\<lambda>t. t) sample_todo (Some (buf_of (content buf'))) todo_v1 = Some (todo', 0) \<and>
     same_date (todo_due todo') (todo_due sample_todo) \<and> todo_priority todo' = 3 \<and>
     todo_description todo' = Some [104, 105]"
proof -
  have "todo_fits sample_todo" "length (todo_bytes sample_todo) < 0x80000000"
    by (simp_all add: todo_fits_def sample_todo_def palm_date_def cstring_def todo_bytes_def)
  then show ?thesis
    using todo_roundtrip[of "buf_of []" calloc_env sample_todo "\<lambda>t. t" sample_todo]
    by (auto simp: mktime_keeps_def sample_todo_def)
qed

lemma pack_ToDoAppInfo_law:
  assumes "category_wf (tai_category ai)" "282 \<le> len" "282 \<le> length m"
  shows "pack_ToDoAppInfo ai (Some m) len =
    Some (Some (category_bytes (tai_category ai) @ set_short (word_of_int (tai_dirty ai)) @
      [word_of_int (tai_sortByPriority ai), 0] @ drop 282 m), 282)"
  using assms category_bytes_length[of "tai_category ai"]
  by (simp add: pack_ToDoAppInfo_def category.pack_enc mem_simps set_byte_def)

text \<open>C29: the AppInfo block of the To Do List survives packing into any record of at least 282
  bytes and unpacking, up to the normalisation of the rename flags to booleans and what the block
  cannot hold: of the two flags that are \<open>int\<close> in the structure, the low 16 bits of \<open>dirty\<close> and the low
  eight of \<open>sortByPriority\<close> come back.\<close>

theorem todo_appinfo_roundtrip:
  assumes "category_wf (tai_category ai)" "282 \<le> len" "282 \<le> length m"
  shows "\<exists>m'. pack_ToDoAppInfo ai (Some m) len = Some (Some m', 282) \<and> length m' = length m \<and>
    unpack_ToDoAppInfo old m' len =
      Some (ai\<lparr>tai_type := todo_v1, tai_category := category_norm (tai_category ai),
        tai_dirty := tai_dirty ai mod 65536, tai_sortByPriority := tai_sortByPriority ai mod 256\<rparr>, 282)"
proof -
  have "\<not> len - 278 < 4" using assms(2) by simp
  then show ?thesis
    using assms category_bytes_length[of "tai_category ai"]
    by (cases ai) (simp add: pack_ToDoAppInfo_law unpack_ToDoAppInfo_def category.unpack_enc mem_simps uint_word_of_int)
qed

theorem todo_appinfo_roundtrip_witness:
  "\<exists>ai m'. pack_ToDoAppInfo ai (Some (replicate 300 0)) 300 = Some (Some m', 282) \<and>
     tai_dirty ai = 7 \<and> unpack_ToDoAppInfo ai m' 300 = Some (ai, 282)"
proof -
  define ai where "ai = \<lparr>tai_type = todo_v1, tai_category = \<lparr>cat_renamed = replicate 16 1,
     cat_name = replicate 16 (replicate 16 65), cat_ID = replicate 16 2, cat_lastUniqueID = 9\<rparr>,
     tai_dirty = 7, tai_sortByPriority = 1\<rparr>"
  have "category_wf (tai_category ai)" "category_norm (tai_category ai) = tai_category ai"
    by (simp_all add: ai_def category_wf_def category_norm_def list_all_iff)
  then show ?thesis
    using todo_appinfo_roundtrip[of ai 300 "replicate 300 0" ai] by (intro exI[of _ ai]) (auto simp: ai_def)
qed

end
