(* ===== verification/PiFile.thy ===== *)
theory PiFile
  imports DbTypes
begin

text \<open>
  Palm database files on disk (\<open>libpisock/pi-file.c\<close>): the reader \<open>pi_file_open\<close>, the in-memory
  database that a writer builds with \<open>pi_file_create\<close> and the append functions, and
  \<open>pi_file_close_for_write\<close>, which lays the file out. The reader's stream is a list of bytes
  with a position; the writer's stream is the list of bytes written so far, on a disk that may
  refuse a write.

  The fields \<open>entries\<close> and \<open>num_entries\<close> of the structure are one list here, the entries in
  use; \<open>num_entries_allocated\<close> is kept. A pointer that may be NULL is an option.
\<close>

definition PI_HDR_SIZE :: nat where "PI_HDR_SIZE = 78"
definition PI_RESOURCE_ENT_SIZE :: nat where "PI_RESOURCE_ENT_SIZE = 10"
definition PI_RECORD_ENT_SIZE :: nat where "PI_RECORD_ENT_SIZE = 8"

definition sizeof_pi_file :: nat where "sizeof_pi_file = 216"
definition sizeof_pi_file_entry :: nat where "sizeof_pi_file_entry = 32"

section \<open>Streams\<close>

record FILE =
  fl_bytes :: bytes
  fl_pos :: nat

definition fread :: "nat \<Rightarrow> FILE \<Rightarrow> bytes \<times> FILE" where
  "fread n f = (let bs = take n (drop (fl_pos f) (fl_bytes f)) in (bs, f\<lparr>fl_pos := fl_pos f + length bs\<rparr>))"

text \<open>A seek to a negative offset fails and leaves the position; the code does not test it.\<close>

definition fseek_set :: "int \<Rightarrow> FILE \<Rightarrow> FILE" where
  "fseek_set off f = (if off < 0 then f else f\<lparr>fl_pos := nat off\<rparr>)"

section \<open>Time stamps\<close>

definition PILOT_TIME_DELTA :: int where
  "PILOT_TIME_DELTA = 2082844800"

text \<open>\<open>(time_t)(raw - delta)\<close> on 64-bit values, and its inverse.\<close>

definition pilot_time_to_unix_time :: "u64 \<Rightarrow> int" where
  "pilot_time_to_unix_time raw = sint (raw - word_of_int PILOT_TIME_DELTA)"

definition unix_time_to_pilot_time :: "int \<Rightarrow> u64" where
  "unix_time_to_pilot_time t = word_of_int t + word_of_int PILOT_TIME_DELTA"

section \<open>The structures\<close>

record pi_file_entry =
  pe_offset :: int
  pe_size :: int
  pe_resource_id :: int
  pe_attrs :: int
  pe_type :: u64
  pe_uid :: u64

definition zero_entry :: pi_file_entry where
  "zero_entry = \<lparr>pe_offset = 0, pe_size = 0, pe_resource_id = 0, pe_attrs = 0, pe_type = 0, pe_uid = 0\<rparr>"

text \<open>The two owned blocks: their pointers can be left dangling.\<close>

datatype mem_ptr = Null | Dangling | Block bytes

record pi_file =
  pf_err :: int
  for_writing :: bool
  app_info_size :: int
  sort_info_size :: int
  next_record_list_id :: int
  resource_flag :: bool
  ent_hdr_size :: nat
  num_entries_allocated :: int
  rbuf_size :: nat
  pf_f :: "FILE option"
  tmpbuf :: "pi_buffer option"
  file_name :: "bytes option"
  app_info :: mem_ptr
  sort_info :: mem_ptr
  rbuf :: "bytes option"
  unique_id_seed :: u64
  pf_info :: DBInfo
  entries :: "pi_file_entry list"

definition zero_pi_file :: pi_file where
  "zero_pi_file = \<lparr>pf_err = 0, for_writing = False, app_info_size = 0, sort_info_size = 0,
     next_record_list_id = 0, resource_flag = False, ent_hdr_size = 0, num_entries_allocated = 0,
     rbuf_size = 0, pf_f = None, tmpbuf = None, file_name = None, app_info = Null, sort_info = Null,
     rbuf = None, unique_id_seed = 0, pf_info = zero_DBInfo, entries = []\<rparr>"

definition num_entries :: "pi_file \<Rightarrow> int" where
  "num_entries pf = int (length (entries pf))"

section \<open>Opening a file\<close>

record pi_header =
  ph_info :: DBInfo
  ph_app_info_offset :: int
  ph_sort_info_offset :: int
  ph_unique_id_seed :: u64
  ph_next_record_list_id :: int
  ph_num_entries :: nat

definition read_header :: "bytes \<Rightarrow> pi_header option" where
  "read_header p = do {
     name \<leftarrow> get_block 32 p 0;
     flags \<leftarrow> get_short p 32;
     version \<leftarrow> get_short p 34;
     created \<leftarrow> get_long p 36;
     modified \<leftarrow> get_long p 40;
     backup \<leftarrow> get_long p 44;
     modnum \<leftarrow> get_long p 48;
     app_off \<leftarrow> get_long p 52;
     sort_off \<leftarrow> get_long p 56;
     type \<leftarrow> get_long p 60;
     creator \<leftarrow> get_long p 64;
     seed \<leftarrow> get_long p 68;
     next_id \<leftarrow> get_long p 72;
     num \<leftarrow> get_short p 76;
     Some \<lparr>ph_info = \<lparr>di_more = 0, di_name = name @ [0, 0], di_flags = ucast flags,
             di_miscFlags = dlpDBMiscFlagRamBased, di_version = ucast version, di_type = ucast type,
             di_creator = ucast creator, di_modnum = ucast modnum, di_index = 0,
             di_createDate = pilot_time_to_unix_time (ucast created),
             di_modifyDate = pilot_time_to_unix_time (ucast modified),
             di_backupDate = pilot_time_to_unix_time (ucast backup)\<rparr>,
           ph_app_info_offset = uint app_off, ph_sort_info_offset = uint sort_off,
           ph_unique_id_seed = ucast seed, ph_next_record_list_id = sint next_id,
           ph_num_entries = unat num\<rparr> }"

definition read_entry :: "bool \<Rightarrow> bytes \<Rightarrow> pi_file_entry option" where
  "read_entry resource p =
     (if resource then do {
        type \<leftarrow> get_long p 0; rid \<leftarrow> get_short p 4; off \<leftarrow> get_long p 6;
        Some (zero_entry\<lparr>pe_type := ucast type, pe_resource_id := uint rid, pe_offset := sint off\<rparr>) }
      else do {
        off \<leftarrow> get_long p 0; attrs \<leftarrow> get_byte p 4; uid \<leftarrow> get_treble p 5;
        Some (zero_entry\<lparr>pe_offset := sint off, pe_attrs := uint attrs, pe_uid := ucast uid\<rparr>) })"

text \<open>The loops of the reader. The outer option is undefined behaviour, the inner one the
  jump to \<open>bad\<close>.\<close>

primrec read_entries ::
  "bool \<Rightarrow> nat \<Rightarrow> nat \<Rightarrow> FILE \<Rightarrow> (pi_file_entry list \<times> FILE) option option" where
  "read_entries resource hdr 0 f = Some (Some ([], f))"
| "read_entries resource hdr (Suc n) f =
     (let (buf, f) = fread hdr f in
      if length buf \<noteq> hdr then Some None
      else do {
        e \<leftarrow> read_entry resource buf;
        r \<leftarrow> read_entries resource hdr n f;
        Some (case r of None \<Rightarrow> None | Some (es, f) \<Rightarrow> Some (e # es, f)) })"

text \<open>The second loop runs over the entries from the last to the first: its list is reversed.
  It returns the offset of the first entry.\<close>

primrec entry_sizes ::
  "int \<Rightarrow> int \<Rightarrow> pi_file_entry list \<Rightarrow> (pi_file_entry list \<times> int) option option" where
  "entry_sizes file_size offset [] = Some (Some ([], offset))"
| "entry_sizes file_size offset (e # es) =
     (let e = e\<lparr>pe_size := to_int (offset - pe_offset e)\<rparr>;
          offset = pe_offset e
      in if pe_size e < 0 then Some None
         else do {
           last \<leftarrow> add_int (pe_offset e) (pe_size e);
           if file_size < last then Some None
           else do {
             r \<leftarrow> entry_sizes file_size offset es;
             Some (case r of None \<Rightarrow> None | Some (es, offset) \<Rightarrow> Some (e # es, offset)) } })"

text \<open>The AppInfo and SortInfo blocks: allocated and read when their size is not 0. None is
  the jump to \<open>bad\<close>.\<close>

definition read_info :: "heap_env \<Rightarrow> int \<Rightarrow> int \<Rightarrow> FILE \<Rightarrow> (mem_ptr \<times> FILE) option" where
  "read_info env off sz f =
     (if sz = 0 then Some (Null, f)
      else if malloc env (nat sz) = None then None
      else let (bs, f) = fread (nat sz) (fseek_set off f)
           in if length bs \<noteq> nat sz then None else Some (Block bs, f))"

text \<open>From the offset of the first entry on: the sizes of the two blocks, the check of the
  header, and the two blocks.\<close>

definition open_blocks :: "heap_env \<Rightarrow> int \<Rightarrow> int \<Rightarrow> int \<Rightarrow> int \<Rightarrow> pi_file \<Rightarrow> FILE \<Rightarrow> pi_file option" where
  "open_blocks env file_size app_off sort_off offset pf f =
     (let (sort_size, offset) =
            (if sort_off \<noteq> 0 then (to_int (offset - sort_off), sort_off) else (0, offset));
          app_size = (if app_off \<noteq> 0 then to_int (offset - app_off) else 0)
      in if app_size < 0 \<or> file_size < sort_off + sort_size \<or> sort_size < 0 \<or>
            file_size < app_off + app_size
         then None
         else case read_info env app_off app_size f of
             None \<Rightarrow> None
           | Some (app, f) \<Rightarrow>
               (case read_info env sort_off sort_size f of
                  None \<Rightarrow> None
                | Some (srt, f) \<Rightarrow>
                    Some (pf\<lparr>app_info_size := app_size, sort_info_size := sort_size,
                             app_info := app, sort_info := srt, pf_f := Some f\<rparr>)))"

definition pi_file_open :: "heap_env \<Rightarrow> bytes option \<Rightarrow> pi_file option option" where
  "pi_file_open env file =
     (if \<not> malloc_ok env sizeof_pi_file then Some None
      else case file of
        None \<Rightarrow> Some None
      | Some contents \<Rightarrow>
          let file_size = to_int (int (length contents));
              (buf, f) = fread PI_HDR_SIZE \<lparr>fl_bytes = contents, fl_pos = 0\<rparr>
          in if length buf \<noteq> PI_HDR_SIZE then Some None
          else do {
            h \<leftarrow> read_header buf;
            let pf = zero_pi_file\<lparr>pf_info := ph_info h, unique_id_seed := ph_unique_id_seed h,
                       next_record_list_id := ph_next_record_list_id h\<rparr>;
            if next_record_list_id pf \<noteq> 0 then Some None
            else do {
              let resource = is_resource_db (pf_info pf);
              let hdr = (if resource then PI_RESOURCE_ENT_SIZE else PI_RECORD_ENT_SIZE);
              let pf = pf\<lparr>resource_flag := resource, ent_hdr_size := hdr\<rparr>;
              if ph_num_entries h \<noteq> 0 \<and> \<not> malloc_ok env (ph_num_entries h * sizeof_pi_file_entry)
              then Some None
              else do {
                r \<leftarrow> read_entries resource hdr (ph_num_entries h) f;
                case r of None \<Rightarrow> Some None | Some (es, f) \<Rightarrow> do {
                  r \<leftarrow> entry_sizes file_size file_size (rev es);
                  case r of None \<Rightarrow> Some None | Some (es, offset) \<Rightarrow>
                    Some (open_blocks env file_size (ph_app_info_offset h) (ph_sort_info_offset h) offset
                            (pf\<lparr>entries := rev es\<rparr>) f) } } } })"

section \<open>Reading entries\<close>

definition pi_file_set_rbuf_size :: "heap_env \<Rightarrow> pi_file \<Rightarrow> nat \<Rightarrow> pi_file \<times> int" where
  "pi_file_set_rbuf_size env pf n =
     (if rbuf_size pf < n
      then let new_size = n + 2048;
               new = (if rbuf_size pf = 0 then malloc env new_size
                      else case rbuf pf of None \<Rightarrow> malloc env new_size
                                         | Some old \<Rightarrow> realloc env old new_size)
           in case new of
                None \<Rightarrow> (pf, PI_ERR_GENERIC_MEMORY)
              | Some r \<Rightarrow> (pf\<lparr>rbuf_size := new_size, rbuf := Some r\<rparr>, 0)
      else (pf, 0))"

text \<open>The part of the two read functions that fills the read buffer: the file, and the result.
  Without a stream the C code would pass NULL to \<open>fseek\<close>.\<close>

definition fill_rbuf :: "heap_env \<Rightarrow> pi_file \<Rightarrow> pi_file_entry \<Rightarrow> (pi_file \<times> int) option" where
  "fill_rbuf env pf e =
     (let (pf, result) = pi_file_set_rbuf_size env pf (nat (pe_size e)) in
      if result < 0 then Some (pf, result)
      else case pf_f pf of
        None \<Rightarrow> None
      | Some f \<Rightarrow>
          let (bs, f) = fread (nat (pe_size e)) (fseek_set (pe_offset e) f);
              pf = pf\<lparr>pf_f := Some f\<rparr>
          in do {
            pf \<leftarrow> (case rbuf pf of
                    None \<Rightarrow> if bs = [] then Some pf else None
                  | Some r \<Rightarrow> do { r \<leftarrow> poke r 0 bs; Some (pf\<lparr>rbuf := Some r\<rparr>) });
            Some (pf, if length bs \<noteq> nat (pe_size e) then PI_ERR_FILE_ERROR else 0) })"

text \<open>What the out parameters receive; \<open>bufp\<close> is the read buffer.\<close>

record read_out =
  ro_buf :: "bytes option"
  ro_size :: nat
  ro_attrs :: int
  ro_category :: int
  ro_uid :: u64
  ro_type :: u64
  ro_id :: int

definition entry_out :: "bytes option \<Rightarrow> pi_file_entry \<Rightarrow> read_out" where
  "entry_out buf e = \<lparr>ro_buf = buf, ro_size = nat (pe_size e), ro_attrs = pe_attrs e AND 0xf0,
     ro_category = pe_attrs e AND 0xf, ro_uid = pe_uid e, ro_type = pe_type e, ro_id = pe_resource_id e\<rparr>"

definition pi_file_read_resource ::
  "heap_env \<Rightarrow> pi_file \<Rightarrow> int \<Rightarrow> bool \<Rightarrow> (pi_file \<times> int \<times> read_out option) option" where
  "pi_file_read_resource env pf i want_buf =
     (if for_writing pf \<or> \<not> resource_flag pf then Some (pf, PI_ERR_FILE_INVALID, None)
      else if i < 0 \<or> num_entries pf \<le> i then Some (pf, PI_ERR_GENERIC_ARGUMENT, None)
      else let e = entries pf ! nat i in
        if want_buf then do {
          (pf, result) \<leftarrow> fill_rbuf env pf e;
          if result < 0 then Some (pf, result, None)
          else Some (pf, 0, Some (entry_out (rbuf pf) e)) }
        else Some (pf, 0, Some (entry_out None e)))"

definition pi_file_read_record ::
  "heap_env \<Rightarrow> pi_file \<Rightarrow> int \<Rightarrow> bool \<Rightarrow> (pi_file \<times> int \<times> read_out option) option" where
  "pi_file_read_record env pf recindex want_buf =
     (if for_writing pf \<or> resource_flag pf then Some (pf, PI_ERR_FILE_INVALID, None)
      else if recindex < 0 \<or> num_entries pf \<le> recindex then Some (pf, PI_ERR_GENERIC_ARGUMENT, None)
      else let e = entries pf ! nat recindex in
        if want_buf then do {
          (pf, result) \<leftarrow> fill_rbuf env pf e;
          if result < 0 then Some (pf, result, None)
          else Some (pf, 0, Some (entry_out (rbuf pf) e)) }
        else Some (pf, 0, Some (entry_out None e)))"

section \<open>Searching\<close>

primrec find_index :: "('a \<Rightarrow> bool) \<Rightarrow> 'a list \<Rightarrow> nat option" where
  "find_index P [] = None"
| "find_index P (x # xs) = (if P x then Some 0 else map_option Suc (find_index P xs))"

text \<open>The result and the index that is stored when an entry is found.\<close>

definition pi_file_find_resource_by_type_id :: "pi_file \<Rightarrow> u64 \<Rightarrow> int \<Rightarrow> int \<times> nat option" where
  "pi_file_find_resource_by_type_id pf restype resid =
     (if \<not> resource_flag pf then (PI_ERR_FILE_INVALID, None)
      else case find_index (\<lambda>e. pe_type e = restype \<and> pe_resource_id e = resid) (entries pf) of
             Some i \<Rightarrow> (1, Some i)
           | None \<Rightarrow> (0, None))"

definition pi_file_type_id_used :: "pi_file \<Rightarrow> u64 \<Rightarrow> int \<Rightarrow> int" where
  "pi_file_type_id_used pf restype resid = fst (pi_file_find_resource_by_type_id pf restype resid)"

definition pi_file_id_used :: "pi_file \<Rightarrow> u64 \<Rightarrow> bool" where
  "pi_file_id_used pf uid = (find_index (\<lambda>e. pe_uid e = uid) (entries pf) \<noteq> None)"

text \<open>On a record database the search reports an error, which is not 0, and the uninitialised
  index is passed on: it is the argument \<open>junk\<close>.\<close>

definition pi_file_read_resource_by_type_id ::
  "heap_env \<Rightarrow> int \<Rightarrow> pi_file \<Rightarrow> u64 \<Rightarrow> int \<Rightarrow> (pi_file \<times> int \<times> read_out option) option" where
  "pi_file_read_resource_by_type_id env junk pf restype resid =
     (let (result, idx) = pi_file_find_resource_by_type_id pf restype resid in
      if result = 0 then Some (pf, PI_ERR_FILE_NOT_FOUND, None)
      else pi_file_read_resource env pf (case idx of Some i \<Rightarrow> int i | None \<Rightarrow> junk) True)"

text \<open>The index is returned beside the result of the read.\<close>

definition pi_file_read_record_by_id ::
  "heap_env \<Rightarrow> pi_file \<Rightarrow> u64 \<Rightarrow> (nat option \<times> pi_file \<times> int \<times> read_out option) option" where
  "pi_file_read_record_by_id env pf uid =
     (case find_index (\<lambda>e. pe_uid e = uid) (entries pf) of
        None \<Rightarrow> Some (None, pf, PI_ERR_FILE_NOT_FOUND, None)
      | Some i \<Rightarrow> do { r \<leftarrow> pi_file_read_record env pf (int i) True; Some (Some i, r) })"

section \<open>Building a file\<close>

definition pi_file_create :: "heap_env \<Rightarrow> bytes \<Rightarrow> DBInfo \<Rightarrow> pi_file option" where
  "pi_file_create env name info =
     (if \<not> malloc_ok env sizeof_pi_file then None
      else if \<not> malloc_ok env (length name + 1) then None
      else case pi_buffer_new env 2048 of
        None \<Rightarrow> None
      | Some buf \<Rightarrow>
          Some (zero_pi_file\<lparr>file_name := Some name, for_writing := True, pf_info := info,
            resource_flag := is_resource_db info,
            ent_hdr_size := (if is_resource_db info then PI_RESOURCE_ENT_SIZE else PI_RECORD_ENT_SIZE),
            tmpbuf := Some buf\<rparr>))"

definition pi_file_set_info :: "pi_file \<Rightarrow> DBInfo \<Rightarrow> pi_file \<times> int" where
  "pi_file_set_info pf ip =
     (if \<not> for_writing pf then (pf, PI_ERR_FILE_INVALID)
      else if di_flags ip AND dlpDBFlagResource \<noteq> di_flags (pf_info pf) AND dlpDBFlagResource
      then (pf, PI_ERR_FILE_INVALID)
      else (pf\<lparr>pf_info := ip\<rparr>, 0))"

text \<open>\<open>free\<close> of a pointer that dangles is undefined; the pointer dangles afterwards.\<close>

definition free_ptr :: "mem_ptr \<Rightarrow> mem_ptr option" where
  "free_ptr p = (case p of Null \<Rightarrow> Some Null | Dangling \<Rightarrow> None | Block _ \<Rightarrow> Some Dangling)"

definition pi_file_set_app_info :: "heap_env \<Rightarrow> pi_file \<Rightarrow> bytes \<Rightarrow> nat \<Rightarrow> (pi_file \<times> int) option" where
  "pi_file_set_app_info env pf src sz =
     (if sz = 0
      then do { p \<leftarrow> free_ptr (app_info pf); Some (pf\<lparr>app_info := p, app_info_size := 0\<rparr>, 0) }
      else if \<not> malloc_ok env sz then Some (pf, PI_ERR_GENERIC_MEMORY)
      else do {
        bs \<leftarrow> get_block sz src 0;
        _ \<leftarrow> free_ptr (app_info pf);
        Some (pf\<lparr>app_info := Block bs, app_info_size := to_int (int sz)\<rparr>, 0) })"

definition pi_file_set_sort_info :: "heap_env \<Rightarrow> pi_file \<Rightarrow> bytes \<Rightarrow> nat \<Rightarrow> (pi_file \<times> int) option" where
  "pi_file_set_sort_info env pf src sz =
     (if sz = 0
      then do { p \<leftarrow> free_ptr (sort_info pf); Some (pf\<lparr>sort_info := p, sort_info_size := 0\<rparr>, 0) }
      else if \<not> malloc_ok env sz then Some (pf, PI_ERR_GENERIC_MEMORY)
      else do {
        bs \<leftarrow> get_block sz src 0;
        _ \<leftarrow> free_ptr (sort_info pf);
        Some (pf\<lparr>sort_info := Block bs, sort_info_size := to_int (int sz)\<rparr>, 0) })"

text \<open>The new entry is the last one; None is NULL.\<close>

definition pi_file_append_entry :: "heap_env \<Rightarrow> pi_file \<Rightarrow> pi_file option" where
  "pi_file_append_entry env pf =
     (if num_entries_allocated pf \<le> num_entries pf
      then let new_count = (if num_entries_allocated pf = 0 then 100
                            else num_entries_allocated pf * 3 div 2)
           in if \<not> malloc_ok env (nat new_count * sizeof_pi_file_entry) then None
              else Some (pf\<lparr>num_entries_allocated := new_count, entries := entries pf @ [zero_entry]\<rparr>)
      else Some (pf\<lparr>entries := entries pf @ [zero_entry]\<rparr>))"

text \<open>\<open>size && pi_buffer_append(pf->tmpbuf, data, size) == NULL\<close>, and the final assignments to
  the new entry.\<close>

definition append_data :: "heap_env \<Rightarrow> pi_file \<Rightarrow> bytes \<Rightarrow> nat \<Rightarrow> (pi_file \<times> bool) option" where
  "append_data env pf src sz =
     (if sz = 0 then Some (pf, True)
      else case tmpbuf pf of
        None \<Rightarrow> None
      | Some buf \<Rightarrow> do {
          bs \<leftarrow> get_block sz src 0;
          (buf, ok) \<leftarrow> pi_buffer_append env buf bs;
          Some (pf\<lparr>tmpbuf := Some buf\<rparr>, ok) })"

definition set_last :: "(pi_file_entry \<Rightarrow> pi_file_entry) \<Rightarrow> pi_file \<Rightarrow> pi_file" where
  "set_last f pf = pf\<lparr>entries := butlast (entries pf) @ [f (last (entries pf))]\<rparr>"

definition pi_file_append_resource ::
  "heap_env \<Rightarrow> pi_file \<Rightarrow> bytes \<Rightarrow> nat \<Rightarrow> u64 \<Rightarrow> int \<Rightarrow> (pi_file \<times> int) option" where
  "pi_file_append_resource env pf src sz restype resid =
     (if \<not> for_writing pf \<or> \<not> resource_flag pf then Some (pf, PI_ERR_FILE_INVALID)
      else if pi_file_type_id_used pf restype resid \<noteq> 0 then Some (pf, PI_ERR_FILE_ALREADY_EXISTS)
      else case pi_file_append_entry env pf of
        None \<Rightarrow> Some (pf, PI_ERR_GENERIC_MEMORY)
      | Some pf \<Rightarrow> do {
          (pf, ok) \<leftarrow> append_data env pf src sz;
          if \<not> ok then Some (pf\<lparr>pf_err := 1\<rparr>, PI_ERR_GENERIC_MEMORY)
          else Some (set_last (\<lambda>e. e\<lparr>pe_size := to_int (int sz), pe_type := restype,
                                     pe_resource_id := resid\<rparr>) pf, to_int (int sz)) })"

definition pi_file_append_record ::
  "heap_env \<Rightarrow> pi_file \<Rightarrow> bytes \<Rightarrow> nat \<Rightarrow> int \<Rightarrow> int \<Rightarrow> u64 \<Rightarrow> (pi_file \<times> int) option" where
  "pi_file_append_record env pf src sz recattrs category recuid =
     (if \<not> for_writing pf \<or> resource_flag pf then Some (pf, PI_ERR_FILE_INVALID)
      else if recuid \<noteq> 0 \<and> pi_file_id_used pf recuid then Some (pf, PI_ERR_FILE_ALREADY_EXISTS)
      else case pi_file_append_entry env pf of
        None \<Rightarrow> Some (pf, PI_ERR_GENERIC_MEMORY)
      | Some pf \<Rightarrow> do {
          (pf, ok) \<leftarrow> append_data env pf src sz;
          if \<not> ok then Some (pf\<lparr>pf_err := 1\<rparr>, PI_ERR_GENERIC_MEMORY)
          else Some (set_last (\<lambda>e. e\<lparr>pe_size := to_int (int sz),
                       pe_attrs := (recattrs AND 0xf0) OR (category AND 0xf),
                       pe_uid := recuid\<rparr>) pf, to_int (int sz)) })"

section \<open>Writing a file\<close>

text \<open>The file system that the writer meets: whether the file can be opened, and whether a
  write that brings the file to a given length succeeds. The stream is the bytes written and
  the error indicator; a failed write adds nothing to the bytes.\<close>

record disk_env =
  fopen_ok :: bool
  fwrite_ok :: "nat \<Rightarrow> bool"

type_synonym wstream = "bytes \<times> bool"

definition fwrite :: "disk_env \<Rightarrow> bytes \<Rightarrow> wstream \<Rightarrow> wstream \<times> bool" where
  "fwrite disk bs out =
     (if bs = [] \<or> fwrite_ok disk (length (fst out) + length bs)
      then ((fst out @ bs, snd out), True) else ((fst out, True), False))"

definition header_bytes :: "pi_file \<Rightarrow> int \<Rightarrow> int \<Rightarrow> bytes option" where
  "header_bytes pf app_off sort_off =
     (let ip = pf_info pf in do {
        name \<leftarrow> get_block 32 (di_name ip) 0;
        Some (name @ set_short (ucast (di_flags ip)) @ set_short (ucast (di_version ip)) @
          set_long (ucast (unix_time_to_pilot_time (di_createDate ip))) @
          set_long (ucast (unix_time_to_pilot_time (di_modifyDate ip))) @
          set_long (ucast (unix_time_to_pilot_time (di_backupDate ip))) @
          set_long (ucast (di_modnum ip)) @
          set_long (word_of_int app_off) @ set_long (word_of_int sort_off) @
          set_long (ucast (di_type ip)) @ set_long (ucast (di_creator ip)) @
          set_long (ucast (unique_id_seed pf)) @
          set_long (word_of_int (next_record_list_id pf)) @
          set_short (word_of_int (num_entries pf))) })"

definition entry_bytes :: "bool \<Rightarrow> pi_file_entry \<Rightarrow> bytes" where
  "entry_bytes resource e =
     (if resource
      then set_long (ucast (pe_type e)) @ set_short (word_of_int (pe_resource_id e)) @
           set_long (word_of_int (pe_offset e))
      else set_long (word_of_int (pe_offset e)) @ set_byte (word_of_int (pe_attrs e)) @
           set_treble (ucast (pe_uid e)))"

primrec write_entries ::
  "disk_env \<Rightarrow> bool \<Rightarrow> int \<Rightarrow> pi_file_entry list \<Rightarrow> wstream \<Rightarrow>
   (pi_file_entry list \<times> wstream \<times> bool) option" where
  "write_entries disk resource offset [] out = Some ([], out, True)"
| "write_entries disk resource offset (e # es) out =
     (let e = e\<lparr>pe_offset := offset\<rparr>;
          (out, ok) = fwrite disk (entry_bytes resource e) out
      in if \<not> ok then Some (e # es, out, False)
         else do {
           offset \<leftarrow> add_int offset (pe_size e);
           (es, out, ok) \<leftarrow> write_entries disk resource offset es out;
           Some (e # es, out, ok) })"

text \<open>\<open>pf->app_info && fwrite(pf->app_info, 1, size, f) != size\<close>: None when the write would
  read freed memory, False when it fails.\<close>

definition write_block :: "disk_env \<Rightarrow> mem_ptr \<Rightarrow> int \<Rightarrow> wstream \<Rightarrow> (wstream \<times> bool) option" where
  "write_block disk p sz out =
     (case p of
        Null \<Rightarrow> Some (out, True)
      | Dangling \<Rightarrow> if sz = 0 then Some (out, True) else None
      | Block bs \<Rightarrow> do { bs \<leftarrow> get_block (nat sz) bs 0; Some (fwrite disk bs out) })"

text \<open>The file after the call (the offsets are stored in its entries), the result, and the
  bytes of the file on disk; None when the file could not be opened.\<close>

definition pi_file_close_for_write ::
  "disk_env \<Rightarrow> pi_file \<Rightarrow> (pi_file \<times> int \<times> bytes option) option" where
  "pi_file_close_for_write disk pf =
     (if 64 * 1024 \<le> num_entries pf then Some (pf, PI_ERR_FILE_INVALID, None)
      else if \<not> fopen_ok disk then Some (pf, PI_ERR_FILE_ERROR, None)
      else do {
        let offset = int PI_HDR_SIZE + num_entries pf * int (ent_hdr_size pf) + 2;
        let app_off = (if app_info_size pf \<noteq> 0 then offset else 0);
        offset \<leftarrow> add_int offset (app_info_size pf);
        let sort_off = (if sort_info_size pf \<noteq> 0 then offset else 0);
        offset \<leftarrow> add_int offset (sort_info_size pf);
        hdr \<leftarrow> header_bytes pf app_off sort_off;
        let (out, ok) = fwrite disk hdr ([], False);
        if \<not> ok then Some (pf, PI_ERR_FILE_ERROR, Some (fst out))
        else do {
          (es, out, ok) \<leftarrow> write_entries disk (resource_flag pf) offset (entries pf) out;
          let pf = pf\<lparr>entries := es\<rparr>;
          if \<not> ok then Some (pf, PI_ERR_FILE_ERROR, Some (fst out))
          else do {
            let (out, _) = fwrite disk [0, 0] out;
            (out, ok) \<leftarrow> write_block disk (app_info pf) (app_info_size pf) out;
            if \<not> ok then Some (pf, PI_ERR_FILE_ERROR, Some (fst out))
            else do {
              (out, ok) \<leftarrow> write_block disk (sort_info pf) (sort_info_size pf) out;
              if \<not> ok then Some (pf, PI_ERR_FILE_ERROR, Some (fst out))
              else do {
                buf \<leftarrow> tmpbuf pf;
                let (out, _) = fwrite disk (content buf) out;
                Some (pf, if snd out then PI_ERR_FILE_ERROR else 0, Some (fst out)) } } } } })"

text \<open>\<open>pi_file_free\<close> only releases memory; it is defined unless a pointer dangles.\<close>

definition pi_file_free :: "pi_file \<Rightarrow> unit option" where
  "pi_file_free pf = do { _ \<leftarrow> free_ptr (app_info pf); _ \<leftarrow> free_ptr (sort_info pf); Some () }"

definition pi_file_close :: "disk_env \<Rightarrow> pi_file option \<Rightarrow> (int \<times> bytes option) option" where
  "pi_file_close disk pf =
     (case pf of
        None \<Rightarrow> Some (PI_ERR_FILE_INVALID, None)
      | Some pf \<Rightarrow>
          if for_writing pf then do {
            (pf, err, out) \<leftarrow> pi_file_close_for_write disk pf;
            _ \<leftarrow> pi_file_free (pf\<lparr>pf_err := err\<rparr>);
            Some (err, out) }
          else do { _ \<leftarrow> pi_file_free pf; Some (pf_err pf, None) })"

end
