(* ===== verification/PiFileBuild.thy ===== *)
theory PiFileBuild
  imports PiFile "HOL-Library.Sublist"
begin

text \<open>
  The database that a writer builds. Its abstract contents are the entries with one block of
  data each (\<open>chunks\<close>): \<open>building pf chunks\<close> says that the temporary buffer holds exactly the
  concatenation of the blocks and that the sizes of the entries cut it where the blocks end.
  \<open>pi_file_create\<close> establishes it, every operation keeps it, and an append adds one block or
  leaves it unchanged. Record identifiers and resource keys stay distinct.
\<close>

section \<open>Searching\<close>

lemma find_index_None: "find_index P xs = None \<longleftrightarrow> (\<forall>x \<in> set xs. \<not> P x)"
  by (induction xs) auto

lemma find_index_Some:
  "find_index P xs = Some i \<longleftrightarrow> i < length xs \<and> P (xs ! i) \<and> (\<forall>j < i. \<not> P (xs ! j))"
proof (induction xs arbitrary: i)
  case (Cons x xs)
  show ?case by (cases i) (auto simp: Cons.IH nth_Cons split: nat.splits)
qed simp

section \<open>The invariant\<close>

definition ptr_holds :: "mem_ptr \<Rightarrow> int \<Rightarrow> bool" where
  "ptr_holds p sz \<longleftrightarrow>
     (case p of Null \<Rightarrow> sz = 0 | Dangling \<Rightarrow> sz = 0 | Block bs \<Rightarrow> sz = int (length bs) \<and> bs \<noteq> [])"

definition building :: "pi_file \<Rightarrow> bytes list \<Rightarrow> bool" where
  "building pf chunks \<longleftrightarrow>
     for_writing pf \<and> pf_err pf = 0 \<and> next_record_list_id pf = 0 \<and>
     resource_flag pf = is_resource_db (pf_info pf) \<and>
     ent_hdr_size pf = (if resource_flag pf then PI_RESOURCE_ENT_SIZE else PI_RECORD_ENT_SIZE) \<and>
     length (di_name (pf_info pf)) = 34 \<and>
     ptr_holds (app_info pf) (app_info_size pf) \<and> ptr_holds (sort_info pf) (sort_info_size pf) \<and>
     (\<exists>buf. tmpbuf pf = Some buf \<and> pi_buffer_wf buf \<and> content buf = concat chunks) \<and>
     map pe_size (entries pf) = map (\<lambda>c. int (length c)) chunks"

text \<open>The keys of the entries: record identifiers other than 0, resource types and numbers.\<close>

definition record_uids :: "pi_file \<Rightarrow> u64 list" where
  "record_uids pf = filter (\<lambda>u. u \<noteq> 0) (map pe_uid (entries pf))"

definition resource_keys :: "pi_file \<Rightarrow> (u64 \<times> int) list" where
  "resource_keys pf = map (\<lambda>e. (pe_type e, pe_resource_id e)) (entries pf)"

definition keys_distinct :: "pi_file \<Rightarrow> bool" where
  "keys_distinct pf \<longleftrightarrow>
     (if resource_flag pf then distinct (resource_keys pf) else distinct (record_uids pf))"

lemma building_length: "building pf chunks \<Longrightarrow> length (entries pf) = length chunks"
  by (auto simp: building_def dest: map_eq_imp_length_eq)

lemma create_building:
  assumes "pi_file_create env name info = Some pf" "length (di_name info) = 34"
  shows "building pf [] \<and> keys_distinct pf \<and> pf_info pf = info"
  using assms
  by (auto simp: pi_file_create_def building_def zero_pi_file_def ptr_holds_def keys_distinct_def
      record_uids_def resource_keys_def dest: pi_buffer_new_wf split: if_splits option.splits)

lemma set_info_building:
  assumes "building pf chunks" "pi_file_set_info pf ip = (pf', r)" "length (di_name ip) = 34"
  shows "building pf' chunks \<and> entries pf' = entries pf \<and> resource_flag pf' = resource_flag pf"
proof (cases "r = 0")
  case True
  then have "pf' = pf\<lparr>pf_info := ip\<rparr>" "is_resource_db ip = is_resource_db (pf_info pf)"
    using assms(2) by (auto simp: pi_file_set_info_def is_resource_db_def err_defs split: if_splits)
  then show ?thesis using assms(1,3) by (simp add: building_def)
qed (use assms in \<open>auto simp: pi_file_set_info_def split: if_splits\<close>)

lemma building_blocks:
  assumes "building pf chunks"
  shows "ptr_holds p n \<Longrightarrow> building (pf\<lparr>app_info := p, app_info_size := n\<rparr>) chunks"
    and "ptr_holds p n \<Longrightarrow> building (pf\<lparr>sort_info := p, sort_info_size := n\<rparr>) chunks"
  using assms by (simp_all add: building_def)

lemma ptr_holds_new:
  "free_ptr p = Some q \<Longrightarrow> ptr_holds q 0"
  "get_block n src 0 = Some bs \<Longrightarrow> n \<noteq> 0 \<Longrightarrow> n < 2147483648 \<Longrightarrow> ptr_holds (Block bs) (to_int (int n))"
  by (auto simp: free_ptr_def ptr_holds_def to_int_id dest!: get_block_length split: mem_ptr.splits)

lemma set_app_info_building:
  assumes b: "building pf chunks" and c: "pi_file_set_app_info env pf src sz = Some (pf', r)"
    and sz: "sz < 2147483648"
  shows "building pf' chunks \<and> entries pf' = entries pf \<and> resource_flag pf' = resource_flag pf"
proof (cases "sz = 0 \<or> malloc_ok env sz")
  case True
  then obtain p n where "pf' = pf\<lparr>app_info := p, app_info_size := n\<rparr>" "ptr_holds p n"
    using c sz by (auto simp: pi_file_set_app_info_def bind_eq_Some_conv ptr_holds_new split: if_splits)
  then show ?thesis using building_blocks(1)[OF b] by simp
qed (use b c in \<open>auto simp: pi_file_set_app_info_def\<close>)

lemma set_sort_info_building:
  assumes b: "building pf chunks" and c: "pi_file_set_sort_info env pf src sz = Some (pf', r)"
    and sz: "sz < 2147483648"
  shows "building pf' chunks \<and> entries pf' = entries pf \<and> resource_flag pf' = resource_flag pf"
proof (cases "sz = 0 \<or> malloc_ok env sz")
  case True
  then obtain p n where "pf' = pf\<lparr>sort_info := p, sort_info_size := n\<rparr>" "ptr_holds p n"
    using c sz by (auto simp: pi_file_set_sort_info_def bind_eq_Some_conv ptr_holds_new split: if_splits)
  then show ?thesis using building_blocks(2)[OF b] by simp
qed (use b c in \<open>auto simp: pi_file_set_sort_info_def\<close>)

section \<open>Appending\<close>

lemma append_entry_fields:
  "pi_file_append_entry env pf = Some pf' \<Longrightarrow>
   \<exists>n. pf' = pf\<lparr>num_entries_allocated := n, entries := entries pf @ [zero_entry]\<rparr>"
  by (auto simp: pi_file_append_entry_def Let_def split: if_splits) (cases pf; auto)+

text \<open>One append: \<open>f\<close> fills in the entry.\<close>

lemma append_step:
  assumes b: "building pf chunks" and sz: "sz \<le> length src" "sz < 2147483648"
    and e: "pi_file_append_entry env pf = Some pf1"
  shows "\<exists>pf2 ok. append_data env pf1 src sz = Some (pf2, ok) \<and>
    (ok \<longrightarrow> (\<forall>f. pe_size (f zero_entry) = int sz \<longrightarrow>
       building (set_last f pf2) (chunks @ [take sz src]) \<and>
       entries (set_last f pf2) = entries pf @ [f zero_entry] \<and>
       resource_flag pf2 = resource_flag pf \<and> pf_info pf2 = pf_info pf))"
proof -
  obtain n where pf1: "pf1 = pf\<lparr>num_entries_allocated := n, entries := entries pf @ [zero_entry]\<rparr>"
    using append_entry_fields[OF e] by blast
  obtain buf where buf: "tmpbuf pf = Some buf" "pi_buffer_wf buf" "content buf = concat chunks"
    using b by (auto simp: building_def)
  show ?thesis
  proof (cases "sz = 0")
    case True
    then show ?thesis
      using b buf by (auto simp: append_data_def pf1 set_last_def building_def ex_bool_eq)
  next
    case False
    obtain buf' ok where a: "pi_buffer_append env buf (take sz src) = Some (buf', ok)" "pi_buffer_wf buf'"
      "content buf' = (if ok then content buf @ take sz src else [])"
      using pi_buffer_store.append_law[OF buf(2)] by blast
    have d: "append_data env pf1 src sz = Some (pf1\<lparr>tmpbuf := Some buf'\<rparr>, ok)"
      using False sz buf a(1) by (simp add: append_data_def pf1 get_block_def)
    show ?thesis
      using d a b buf sz by (auto simp: pf1 set_last_def building_def)
  qed
qed

lemma set_last_frame [simp]:
  "resource_flag (set_last f pf) = resource_flag pf" "pf_info (set_last f pf) = pf_info pf"
  by (simp_all add: set_last_def)

lemma append_record_spec:
  assumes b: "building pf chunks" and rec: "\<not> resource_flag pf"
    and fresh: "uid = 0 \<or> uid \<notin> set (record_uids pf)"
    and sz: "sz \<le> length src" "sz < 2147483648"
  shows "\<exists>pf' r. pi_file_append_record env pf src sz attrs cat uid = Some (pf', r) \<and>
    (r = PI_ERR_GENERIC_MEMORY \<or>
     r = int sz \<and> building pf' (chunks @ [take sz src]) \<and>
     entries pf' = entries pf @ [zero_entry\<lparr>pe_size := int sz,
       pe_attrs := (attrs AND 0xf0) OR (cat AND 0xf), pe_uid := uid\<rparr>] \<and>
     resource_flag pf' = resource_flag pf \<and> pf_info pf' = pf_info pf)"
proof -
  have u: "\<not> (uid \<noteq> 0 \<and> pi_file_id_used pf uid)"
    using fresh by (auto simp: pi_file_id_used_def find_index_Some record_uids_def)
  have w: "for_writing pf" using b by (simp add: building_def)
  show ?thesis
  proof (cases "pi_file_append_entry env pf")
    case None
    then show ?thesis using w rec u by (auto simp: pi_file_append_record_def)
  next
    case (Some pf1)
    obtain pf2 ok where d: "append_data env pf1 src sz = Some (pf2, ok)"
      and s: "ok \<Longrightarrow> pe_size (f zero_entry) = int sz \<Longrightarrow>
        building (set_last f pf2) (chunks @ [take sz src]) \<and>
        entries (set_last f pf2) = entries pf @ [f zero_entry] \<and>
        resource_flag pf2 = resource_flag pf \<and> pf_info pf2 = pf_info pf" for f
      using append_step[OF b sz Some] by blast
    show ?thesis
      using w rec u Some d sz
        s[of "\<lambda>e. e\<lparr>pe_size := int sz, pe_attrs := (attrs AND 0xf0) OR (cat AND 0xf), pe_uid := uid\<rparr>"]
      by (cases ok) (auto simp: pi_file_append_record_def to_int_id)
  qed
qed

lemma append_resource_spec:
  assumes b: "building pf chunks" and res: "resource_flag pf"
    and fresh: "(restype, resid) \<notin> set (resource_keys pf)"
    and sz: "sz \<le> length src" "sz < 2147483648"
  shows "\<exists>pf' r. pi_file_append_resource env pf src sz restype resid = Some (pf', r) \<and>
    (r = PI_ERR_GENERIC_MEMORY \<or>
     r = int sz \<and> building pf' (chunks @ [take sz src]) \<and>
     entries pf' = entries pf @ [zero_entry\<lparr>pe_size := int sz, pe_type := restype,
       pe_resource_id := resid\<rparr>] \<and>
     resource_flag pf' = resource_flag pf \<and> pf_info pf' = pf_info pf)"
proof -
  have u: "pi_file_type_id_used pf restype resid = 0"
    using fresh res
    by (auto simp: pi_file_type_id_used_def pi_file_find_resource_by_type_id_def find_index_Some
        resource_keys_def split: option.splits)
  have w: "for_writing pf" using b by (simp add: building_def)
  show ?thesis
  proof (cases "pi_file_append_entry env pf")
    case None
    then show ?thesis using w res u by (simp add: pi_file_append_resource_def)
  next
    case (Some pf1)
    obtain pf2 ok where d: "append_data env pf1 src sz = Some (pf2, ok)"
      and s: "ok \<Longrightarrow> pe_size (f zero_entry) = int sz \<Longrightarrow>
        building (set_last f pf2) (chunks @ [take sz src]) \<and>
        entries (set_last f pf2) = entries pf @ [f zero_entry] \<and>
        resource_flag pf2 = resource_flag pf \<and> pf_info pf2 = pf_info pf" for f
      using append_step[OF b sz Some] by blast
    show ?thesis
      using w res u Some d sz
        s[of "\<lambda>e. e\<lparr>pe_size := int sz, pe_type := restype, pe_resource_id := resid\<rparr>"]
      by (cases ok) (simp_all add: pi_file_append_resource_def to_int_id)
  qed
qed

text \<open>An append under a key in use changes nothing.\<close>

lemma append_record_exists:
  assumes "building pf chunks" "\<not> resource_flag pf" "uid \<in> set (record_uids pf)"
  shows "pi_file_append_record env pf src sz attrs cat uid = Some (pf, PI_ERR_FILE_ALREADY_EXISTS)"
  using assms
  by (auto simp: pi_file_append_record_def building_def record_uids_def pi_file_id_used_def
      find_index_None)

lemma append_resource_exists:
  assumes "building pf chunks" "resource_flag pf" "(restype, resid) \<in> set (resource_keys pf)"
  shows "pi_file_append_resource env pf src sz restype resid = Some (pf, PI_ERR_FILE_ALREADY_EXISTS)"
  using assms
  by (auto simp: pi_file_append_resource_def building_def resource_keys_def pi_file_type_id_used_def
      pi_file_find_resource_by_type_id_def find_index_None split: option.splits)

section \<open>Sequences of operations\<close>

text \<open>The calls that a client makes between \<open>pi_file_create\<close> and \<open>pi_file_close\<close>.\<close>

datatype file_op =
  SetInfo DBInfo
| SetAppInfo bytes nat
| SetSortInfo bytes nat
| AppendResource bytes nat u64 int
| AppendRecord bytes nat int int u64

fun run_op :: "heap_env \<Rightarrow> file_op \<Rightarrow> pi_file \<Rightarrow> (pi_file \<times> int) option" where
  "run_op env (SetInfo ip) pf = Some (pi_file_set_info pf ip)"
| "run_op env (SetAppInfo src sz) pf = pi_file_set_app_info env pf src sz"
| "run_op env (SetSortInfo src sz) pf = pi_file_set_sort_info env pf src sz"
| "run_op env (AppendResource src sz ty rid) pf = pi_file_append_resource env pf src sz ty rid"
| "run_op env (AppendRecord src sz attrs cat uid) pf = pi_file_append_record env pf src sz attrs cat uid"

primrec run_ops :: "heap_env \<Rightarrow> file_op list \<Rightarrow> pi_file \<Rightarrow> pi_file option" where
  "run_ops env [] pf = Some pf"
| "run_ops env (op # ops) pf = do { (pf, r) \<leftarrow> run_op env op pf; run_ops env ops pf }"

text \<open>The arguments are what the caller owes: the size is that of the block (and not 0 for the
  two information blocks), and a name fills its array.\<close>

fun op_ok :: "file_op \<Rightarrow> bool" where
  "op_ok (SetInfo ip) \<longleftrightarrow> length (di_name ip) = 34"
| "op_ok (SetAppInfo src sz) \<longleftrightarrow> 0 < sz \<and> sz \<le> length src \<and> sz < 2147483648"
| "op_ok (SetSortInfo src sz) \<longleftrightarrow> 0 < sz \<and> sz \<le> length src \<and> sz < 2147483648"
| "op_ok (AppendResource src sz _ _) \<longleftrightarrow> sz \<le> length src \<and> sz < 2147483648"
| "op_ok (AppendRecord src sz _ _ _) \<longleftrightarrow> sz \<le> length src \<and> sz < 2147483648"

text \<open>What every state has, also after a failed append: no operation goes wrong on it.\<close>

definition usable :: "pi_file \<Rightarrow> bool" where
  "usable pf \<longleftrightarrow> for_writing pf \<and> app_info pf \<noteq> Dangling \<and> sort_info pf \<noteq> Dangling \<and>
     (\<exists>buf. tmpbuf pf = Some buf \<and> pi_buffer_wf buf)"

lemma append_data_usable:
  assumes "usable pf" "sz \<le> length src"
  shows "\<exists>pf' ok. append_data env pf src sz = Some (pf', ok) \<and> usable pf' \<and> entries pf' = entries pf \<and> pf_err pf' = pf_err pf"
proof -
  obtain buf where buf: "tmpbuf pf = Some buf" "pi_buffer_wf buf" using assms by (auto simp: usable_def)
  then obtain buf' ok where "pi_buffer_append env buf (take sz src) = Some (buf', ok)" "pi_buffer_wf buf'"
    using pi_buffer_store.append_law[of buf env "take sz src"] by auto
  then show ?thesis
    using assms buf
    by (intro exI[of _ "if sz = 0 then pf else pf\<lparr>tmpbuf := Some buf'\<rparr>"] exI[of _ "sz = 0 \<or> ok"])
      (auto simp: append_data_def usable_def get_block_def)
qed

lemma usable_frame:
  "usable pf \<Longrightarrow> usable (pf\<lparr>pf_err := e\<rparr>)" "usable pf \<Longrightarrow> usable (set_last f pf)"
  "usable pf \<Longrightarrow> pi_file_append_entry env pf = Some pf1 \<Longrightarrow> usable pf1"
  by (auto simp: usable_def set_last_def dest!: append_entry_fields)

lemma run_op_usable:
  assumes u: "usable pf" and op: "op_ok op"
  shows "\<exists>pf' r. run_op env op pf = Some (pf', r) \<and> usable pf'"
proof (cases op)
  case (AppendResource src sz ty rid)
  show ?thesis
  proof (cases "pi_file_append_entry env pf")
    case (Some pf1)
    obtain pf2 ok where "append_data env pf1 src sz = Some (pf2, ok)" "usable pf2"
      using append_data_usable[OF usable_frame(3)[OF u Some], of sz src env] op AppendResource by auto
    then show ?thesis
      using u Some AppendResource by (simp add: pi_file_append_resource_def usable_frame)
  qed (use u AppendResource in \<open>simp add: pi_file_append_resource_def\<close>)
next
  case (AppendRecord src sz attrs cat uid)
  show ?thesis
  proof (cases "pi_file_append_entry env pf")
    case (Some pf1)
    obtain pf2 ok where "append_data env pf1 src sz = Some (pf2, ok)" "usable pf2"
      using append_data_usable[OF usable_frame(3)[OF u Some], of sz src env] op AppendRecord by auto
    then show ?thesis
      using u Some AppendRecord by (simp add: pi_file_append_record_def usable_frame)
  qed (use u AppendRecord in \<open>simp add: pi_file_append_record_def\<close>)
qed (use u op in \<open>auto simp: usable_def pi_file_set_info_def pi_file_set_app_info_def
       pi_file_set_sort_info_def get_block_def free_ptr_def split: mem_ptr.splits\<close>)

text \<open>What an operation adds to the abstract contents.\<close>

fun op_chunk :: "file_op \<Rightarrow> bytes" where
  "op_chunk (AppendResource src sz _ _) = take sz src"
| "op_chunk (AppendRecord src sz _ _ _) = take sz src"
| "op_chunk _ = []"

lemma keys_distinct_cong:
  "entries pf' = entries pf \<Longrightarrow> resource_flag pf' = resource_flag pf \<Longrightarrow> keys_distinct pf' = keys_distinct pf"
  by (simp add: keys_distinct_def resource_keys_def record_uids_def)

lemma record_step:
  assumes "building pf chunks" "keys_distinct pf" "op_ok (AppendRecord src sz attrs cat uid)"
    and run: "run_op env (AppendRecord src sz attrs cat uid) pf = Some (pf', r)"
  shows "r = PI_ERR_GENERIC_MEMORY \<or>
    keys_distinct pf' \<and> (building pf' chunks \<or> building pf' (chunks @ [take sz src]))"
proof -
  consider "resource_flag pf" | "\<not> resource_flag pf" "uid \<in> set (record_uids pf)"
    | "\<not> resource_flag pf" "uid = 0 \<or> uid \<notin> set (record_uids pf)" by blast
  then show ?thesis
  proof cases
    case 1
    then show ?thesis using assms by (auto simp: pi_file_append_record_def)
  next
    case 2
    then show ?thesis using assms append_record_exists[OF assms(1) 2] by auto
  next
    case 3
    show ?thesis
      using append_record_spec[OF assms(1) 3, of sz src env attrs cat] run assms(2,3) 3
      by (auto simp: keys_distinct_def record_uids_def)
  qed
qed

lemma resource_step:
  assumes "building pf chunks" "keys_distinct pf" "op_ok (AppendResource src sz ty rid)"
    and run: "run_op env (AppendResource src sz ty rid) pf = Some (pf', r)"
  shows "r = PI_ERR_GENERIC_MEMORY \<or>
    keys_distinct pf' \<and> (building pf' chunks \<or> building pf' (chunks @ [take sz src]))"
proof -
  consider "\<not> resource_flag pf" | "resource_flag pf" "(ty, rid) \<in> set (resource_keys pf)"
    | "resource_flag pf" "(ty, rid) \<notin> set (resource_keys pf)" by blast
  then show ?thesis
  proof cases
    case 1
    then show ?thesis using assms by (auto simp: pi_file_append_resource_def)
  next
    case 2
    then show ?thesis using assms append_resource_exists[OF assms(1) 2] by auto
  next
    case 3
    show ?thesis
      using append_resource_spec[OF assms(1) 3, of sz src env] run assms(2,3) 3
      by (auto simp: keys_distinct_def resource_keys_def zero_entry_def)
  qed
qed

lemma run_op_building:
  assumes b: "building pf chunks" "keys_distinct pf" and op: "op_ok op"
    and run: "run_op env op pf = Some (pf', r)"
  shows "r = PI_ERR_GENERIC_MEMORY \<or>
    keys_distinct pf' \<and> (building pf' chunks \<or> building pf' (chunks @ [op_chunk op]))"
proof (cases op)
  case (SetInfo ip)
  then show ?thesis using set_info_building[OF b(1), of ip pf' r] assms keys_distinct_cong[of pf' pf] by auto
next
  case (SetAppInfo src sz)
  then show ?thesis using set_app_info_building[OF b(1), of env src sz pf' r] assms keys_distinct_cong[of pf' pf] by auto
next
  case (SetSortInfo src sz)
  then show ?thesis using set_sort_info_building[OF b(1), of env src sz pf' r] assms keys_distinct_cong[of pf' pf] by auto
next
  case (AppendResource src sz ty rid)
  then show ?thesis using resource_step[OF b, of src sz ty rid env pf' r] op run by simp
next
  case (AppendRecord src sz attrs cat uid)
  then show ?thesis using record_step[OF b, of src sz attrs cat uid env pf' r] op run by simp
qed

text \<open>A run in which no operation reports a lack of memory.\<close>

primrec run_results :: "heap_env \<Rightarrow> file_op list \<Rightarrow> pi_file \<Rightarrow> int list option" where
  "run_results env [] pf = Some []"
| "run_results env (op # ops) pf = do {
     (pf, r) \<leftarrow> run_op env op pf; rs \<leftarrow> run_results env ops pf; Some (r # rs) }"

lemma run_ops_building:
  "building pf chunks \<Longrightarrow> keys_distinct pf \<Longrightarrow> usable pf \<Longrightarrow> list_all op_ok ops \<Longrightarrow>
   \<exists>pf' rs. run_ops env ops pf = Some pf' \<and> run_results env ops pf = Some rs \<and> usable pf' \<and>
     (PI_ERR_GENERIC_MEMORY \<in> set rs \<or>
      keys_distinct pf' \<and> (\<exists>sel. building pf' (chunks @ map op_chunk sel) \<and> subseq sel ops))"
proof (induction ops arbitrary: pf chunks)
  case Nil
  then show ?case by (auto intro!: exI[of _ "[]"])
next
  case (Cons op ops)
  obtain pf1 r where 1: "run_op env op pf = Some (pf1, r)" "usable pf1"
    using run_op_usable[of pf op env] Cons.prems by auto
  have u: "\<exists>pf' rs. run_ops env ops p = Some pf' \<and> run_results env ops p = Some rs \<and> usable pf'"
    if "usable p" for p
    using that Cons.prems(4)
  proof (induction ops arbitrary: p)
    case (Cons o1 os)
    then show ?case using run_op_usable[of p o1 env] by fastforce
  qed simp
  show ?case
  proof (cases "r = PI_ERR_GENERIC_MEMORY")
    case True
    then show ?thesis using 1 u[of pf1] by auto
  next
    case False
    then have k: "keys_distinct pf1" "building pf1 chunks \<or> building pf1 (chunks @ [op_chunk op])"
      using run_op_building[of pf chunks op env pf1 r] Cons.prems 1 by auto
    from k(2) show ?thesis
    proof
      assume "building pf1 chunks"
      from Cons.IH[OF this k(1) 1(2)] Cons.prems(4) 1 show ?thesis
        by (fastforce intro: list_emb_Cons)
    next
      assume "building pf1 (chunks @ [op_chunk op])"
      from Cons.IH[OF this k(1) 1(2)] Cons.prems(4) obtain pf' rs where
        "run_ops env ops pf1 = Some pf'" "run_results env ops pf1 = Some rs" "usable pf'"
        "PI_ERR_GENERIC_MEMORY \<in> set rs \<or> keys_distinct pf' \<and>
          (\<exists>sel. building pf' ((chunks @ [op_chunk op]) @ map op_chunk sel) \<and> subseq sel ops)"
        by auto
      then show ?thesis using 1 by (auto intro!: exI[of _ "op # _"])
    qed
  qed
qed

end
