(* ===== verification/PiFileImage.thy ===== *)
theory PiFileImage
  imports PiFileBuild
begin

text \<open>
  The layout of a database file. \<open>file_image pf chunks\<close> is the byte string that the writer
  leaves on disk when it reports success; opening that byte string gives back the information
  fields, the two blocks and every entry with its data. The only limits are those of the
  format: fields truncated to their width on disk, and a file below 2 GiB because the code keeps
  offsets in an \<open>int\<close>.
\<close>

section \<open>The image\<close>

primrec place_entries :: "int \<Rightarrow> pi_file_entry list \<Rightarrow> pi_file_entry list" where
  "place_entries off [] = []"
| "place_entries off (e # es) = e\<lparr>pe_offset := off\<rparr> # place_entries (off + pe_size e) es"

definition block_bytes :: "mem_ptr \<Rightarrow> bytes" where
  "block_bytes p = (case p of Block bs \<Rightarrow> bs | _ \<Rightarrow> [])"

definition data_start :: "pi_file \<Rightarrow> int" where
  "data_start pf = int PI_HDR_SIZE + num_entries pf * int (ent_hdr_size pf) + 2"

definition data_offset :: "pi_file \<Rightarrow> int" where
  "data_offset pf = data_start pf + app_info_size pf + sort_info_size pf"

definition header_image :: "pi_file \<Rightarrow> bytes" where
  "header_image pf =
     (let ip = pf_info pf in
      take 32 (di_name ip) @ set_short (ucast (di_flags ip)) @ set_short (ucast (di_version ip)) @
      set_long (ucast (unix_time_to_pilot_time (di_createDate ip))) @
      set_long (ucast (unix_time_to_pilot_time (di_modifyDate ip))) @
      set_long (ucast (unix_time_to_pilot_time (di_backupDate ip))) @
      set_long (ucast (di_modnum ip)) @
      set_long (word_of_int (if app_info_size pf \<noteq> 0 then data_start pf else 0)) @
      set_long (word_of_int (if sort_info_size pf \<noteq> 0 then data_start pf + app_info_size pf else 0)) @
      set_long (ucast (di_type ip)) @ set_long (ucast (di_creator ip)) @
      set_long (ucast (unique_id_seed pf)) @ set_long (word_of_int (next_record_list_id pf)) @
      set_short (word_of_int (num_entries pf)))"

definition table_image :: "pi_file \<Rightarrow> bytes" where
  "table_image pf =
     concat (map (entry_bytes (resource_flag pf)) (place_entries (data_offset pf) (entries pf)))"

definition file_image :: "pi_file \<Rightarrow> bytes list \<Rightarrow> bytes" where
  "file_image pf chunks =
     header_image pf @ table_image pf @ [0, 0] @ block_bytes (app_info pf) @
     block_bytes (sort_info pf) @ concat chunks"

lemma place_length [simp]: "length (place_entries off es) = length es"
  by (induction es arbitrary: off) auto

lemma place_append:
  "place_entries off (xs @ ys) = place_entries off xs @ place_entries (off + sum_list (map pe_size xs)) ys"
  by (induction xs arbitrary: off) (auto simp: add.assoc)

lemma place_sizes [simp]: "map pe_size (place_entries off es) = map pe_size es"
  by (induction es arbitrary: off) auto

lemma place_nth:
  "i < length es \<Longrightarrow> place_entries off es ! i =
     (es ! i)\<lparr>pe_offset := off + sum_list (map pe_size (take i es))\<rparr>"
  by (induction es arbitrary: off i) (auto simp: nth_Cons add.assoc split: nat.splits)

lemma entry_bytes_length:
  "length (entry_bytes resource e) = (if resource then PI_RESOURCE_ENT_SIZE else PI_RECORD_ENT_SIZE)"
  by (simp add: entry_bytes_def PI_RESOURCE_ENT_SIZE_def PI_RECORD_ENT_SIZE_def)

lemma header_image_length: "length (di_name (pf_info pf)) = 34 \<Longrightarrow> length (header_image pf) = PI_HDR_SIZE"
  by (simp add: header_image_def Let_def PI_HDR_SIZE_def)

lemma table_image_length:
  assumes "building pf chunks"
  shows "length (table_image pf) = length (entries pf) * ent_hdr_size pf"
proof -
  have "length (concat (map (entry_bytes res) es)) = length es * length (entry_bytes res x)" for res es x
    by (induction es) (auto simp: entry_bytes_length)
  then show ?thesis
    using assms by (auto simp: table_image_def building_def entry_bytes_length)
qed

lemma ptr_holds_length: "ptr_holds p n \<Longrightarrow> n = int (length (block_bytes p))"
  by (auto simp: ptr_holds_def block_bytes_def split: mem_ptr.splits)

lemma data_start_image:
  assumes b: "building pf chunks"
  shows "data_start pf = int (length (header_image pf @ table_image pf @ [0, 0]))"
    and "data_offset pf = int (length (header_image pf @ table_image pf @ [0, 0] @
           block_bytes (app_info pf) @ block_bytes (sort_info pf)))"
    and "sum_list (map pe_size (entries pf)) = int (length (concat chunks))"
proof -
  have l: "length (header_image pf) = PI_HDR_SIZE"
    using b by (simp add: building_def header_image_length)
  show 1: "data_start pf = int (length (header_image pf @ table_image pf @ [0, 0]))"
    by (simp add: data_start_def l table_image_length[OF b] num_entries_def)
  show "data_offset pf = int (length (header_image pf @ table_image pf @ [0, 0] @
           block_bytes (app_info pf) @ block_bytes (sort_info pf)))"
    using b ptr_holds_length[of "app_info pf" "app_info_size pf"]
      ptr_holds_length[of "sort_info pf" "sort_info_size pf"]
    unfolding data_offset_def 1 by (simp add: building_def)
  have "map pe_size (entries pf) = map (\<lambda>c. int (length c)) chunks" using b by (simp add: building_def)
  moreover have "sum_list (map (\<lambda>c. int (length c)) chunks) = int (length (concat chunks))"
    by (induction chunks) auto
  ultimately show "sum_list (map pe_size (entries pf)) = int (length (concat chunks))" by simp
qed

section \<open>Writing\<close>

definition good_disk :: "disk_env \<Rightarrow> bool" where
  "good_disk disk \<longleftrightarrow> fopen_ok disk \<and> (\<forall>n. fwrite_ok disk n)"

text \<open>What the stream and its result are after writing \<open>bs\<close>: on success and without an error
  before, the stream holds the bytes.\<close>

lemma fwrite_cases:
  "fwrite disk bs out = (out', ok) \<Longrightarrow>
   (ok \<longrightarrow> out' = (fst out @ bs, snd out)) \<and> (\<not> ok \<longrightarrow> snd out') \<and> (good_disk disk \<longrightarrow> ok)"
  by (auto simp: fwrite_def good_disk_def split: if_splits)

lemma write_entries_spec:
  "0 \<le> off \<Longrightarrow> list_all (\<lambda>e. 0 \<le> pe_size e) es \<Longrightarrow> off + sum_list (map pe_size es) < 0x80000000 \<Longrightarrow>
   \<exists>es' out' ok. write_entries disk resource off es out = Some (es', out', ok) \<and>
     (ok \<longrightarrow> es' = place_entries off es \<and>
        out' = (fst out @ concat (map (entry_bytes resource) (place_entries off es)), snd out)) \<and>
     (good_disk disk \<longrightarrow> ok)"
proof (induction es arbitrary: off out)
  case (Cons e es)
  have s: "0 \<le> sum_list (map pe_size es)"
    using Cons.prems(2) by (intro sum_list_nonneg) (auto simp: list_all_iff)
  obtain out1 ok1 where w: "fwrite disk (entry_bytes resource (e\<lparr>pe_offset := off\<rparr>)) out = (out1, ok1)"
    by fastforce
  note f = fwrite_cases[OF w]
  show ?case
  proof (cases ok1)
    case True
    have a: "add_int off (pe_size e) = Some (off + pe_size e)"
      using Cons.prems s by (simp add: add_int_def)
    obtain es' out' ok where "write_entries disk resource (off + pe_size e) es out1 = Some (es', out', ok)"
      "ok \<longrightarrow> es' = place_entries (off + pe_size e) es \<and>
        out' = (fst out1 @ concat (map (entry_bytes resource) (place_entries (off + pe_size e) es)), snd out1)"
      "good_disk disk \<longrightarrow> ok"
      using Cons.IH[of "off + pe_size e" out1] Cons.prems by (auto simp: add.assoc)
    then show ?thesis using w f True a by (auto simp: ex_bool_eq)
  next
    case False
    then show ?thesis using w f by auto
  qed
qed (simp add: ex_bool_eq)

lemma write_block_spec:
  assumes "ptr_holds p n"
  shows "\<exists>out' ok. write_block disk p n out = Some (out', ok) \<and>
    (ok \<longrightarrow> out' = (fst out @ block_bytes p, snd out)) \<and> (good_disk disk \<longrightarrow> ok)"
proof (cases p)
  case (Block bs)
  then show ?thesis
    using assms fwrite_cases[of disk bs out]
    by (cases "fwrite disk bs out") (auto simp: ptr_holds_def write_block_def get_block_def block_bytes_def)
qed (use assms in \<open>auto simp: ptr_holds_def write_block_def block_bytes_def\<close>)

lemma header_bytes_image:
  assumes "length (di_name (pf_info pf)) = 34"
  shows "header_bytes pf (if app_info_size pf \<noteq> 0 then data_start pf else 0)
    (if sort_info_size pf \<noteq> 0 then data_start pf + app_info_size pf else 0) = Some (header_image pf)"
  using assms by (simp add: header_bytes_def header_image_def get_block_def Let_def)

lemma close_for_write_spec:
  assumes b: "building pf chunks" and n: "length chunks < 65536"
    and sz: "length (file_image pf chunks) < 2147483648"
  shows "\<exists>pf' r out. pi_file_close_for_write disk pf = Some (pf', r, out) \<and>
    (r = 0 \<longrightarrow> out = Some (file_image pf chunks)) \<and> (good_disk disk \<longrightarrow> r = 0) \<and>
    app_info pf' = app_info pf \<and> sort_info pf' = sort_info pf"
proof (cases "fopen_ok disk")
  case False
  then show ?thesis
    using n building_length[OF b]
    by (simp add: pi_file_close_for_write_def num_entries_def good_disk_def err_defs)
next
  case True
  note im = data_start_image[OF b]
  have name: "length (di_name (pf_info pf)) = 34" and ptrs: "ptr_holds (app_info pf) (app_info_size pf)"
    "ptr_holds (sort_info pf) (sort_info_size pf)" using b by (auto simp: building_def)
  have len: "data_offset pf + sum_list (map pe_size (entries pf)) < 0x80000000"
    using sz unfolding im(2,3) file_image_def by simp
  have nonneg: "list_all (\<lambda>e. 0 \<le> pe_size e) (entries pf)"
  proof -
    have "set (map pe_size (entries pf)) = set (map (\<lambda>c. int (length c)) chunks)"
      using b by (simp add: building_def)
    then show ?thesis by (auto simp: list_all_iff dest!: equalityD1)
  qed
  then have s: "0 \<le> sum_list (map pe_size (entries pf))"
    by (intro sum_list_nonneg) (auto simp: list_all_iff)
  have z: "0 \<le> data_start pf" "0 \<le> app_info_size pf" "0 \<le> sort_info_size pf"
    using ptr_holds_length[OF ptrs(1)] ptr_holds_length[OF ptrs(2)] by (auto simp: im(1))
  then have add: "add_int (data_start pf) (app_info_size pf) = Some (data_start pf + app_info_size pf)"
    "add_int (data_start pf + app_info_size pf) (sort_info_size pf) = Some (data_offset pf)"
    using len s by (simp_all add: add_int_def data_offset_def)
  obtain o1 k1 where h: "fwrite disk (header_image pf) ([], False) = (o1, k1)" by fastforce
  obtain es o2 k2 where t: "write_entries disk (resource_flag pf) (data_offset pf) (entries pf) o1
      = Some (es, o2, k2)"
    and t': "k2 \<longrightarrow> o2 = (fst o1 @ table_image pf, snd o1)" "good_disk disk \<longrightarrow> k2"
    using write_entries_spec[OF _ nonneg len, of disk "resource_flag pf" o1] z
    by (auto simp: data_offset_def table_image_def)
  obtain o3 k3 where p: "fwrite disk [0, 0] o2 = (o3, k3)" by fastforce
  obtain o4 k4 where a: "write_block disk (app_info pf) (app_info_size pf) o3 = Some (o4, k4)"
    and a': "k4 \<longrightarrow> o4 = (fst o3 @ block_bytes (app_info pf), snd o3)" "good_disk disk \<longrightarrow> k4"
    using write_block_spec[OF ptrs(1)] by blast
  obtain o5 k5 where i: "write_block disk (sort_info pf) (sort_info_size pf) o4 = Some (o5, k5)"
    and i': "k5 \<longrightarrow> o5 = (fst o4 @ block_bytes (sort_info pf), snd o4)" "good_disk disk \<longrightarrow> k5"
    using write_block_spec[OF ptrs(2)] by blast
  obtain buf where buf: "tmpbuf pf = Some buf" "content buf = concat chunks"
    using b by (auto simp: building_def)
  obtain o6 k6 where d: "fwrite disk (concat chunks) o5 = (o6, k6)" by fastforce
  have ne: "\<not> 65536 \<le> num_entries pf" using n building_length[OF b] by (simp add: num_entries_def)
  have eq: "pi_file_close_for_write disk pf =
    (if \<not> k1 then Some (pf, PI_ERR_FILE_ERROR, Some (fst o1))
     else if \<not> k2 then Some (pf\<lparr>entries := es\<rparr>, PI_ERR_FILE_ERROR, Some (fst o2))
     else if \<not> k4 then Some (pf\<lparr>entries := es\<rparr>, PI_ERR_FILE_ERROR, Some (fst o4))
     else if \<not> k5 then Some (pf\<lparr>entries := es\<rparr>, PI_ERR_FILE_ERROR, Some (fst o5))
     else Some (pf\<lparr>entries := es\<rparr>, if snd o6 then PI_ERR_FILE_ERROR else 0, Some (fst o6)))"
    unfolding pi_file_close_for_write_def data_start_def[symmetric] Let_def
    using True ne add header_bytes_image[OF name] h t p a i buf d by simp
  show ?thesis
    unfolding eq using fwrite_cases[OF h] t' fwrite_cases[OF p] a' i' fwrite_cases[OF d]
    by (cases k1; cases k2; cases k3; cases k4; cases k5; cases k6)
      (auto simp: err_defs file_image_def)
qed

end
