(* ===== verification/PiFileRoundtrip.thy ===== *)
theory PiFileRoundtrip
  imports PiFileImage
begin

text \<open>
  Opening the file that was written. \<open>stored_info\<close> and \<open>stored_entry\<close> are the fields that the
  format keeps.
\<close>

section \<open>Fields\<close>

definition date_fits :: "int \<Rightarrow> bool" where
  "date_fits t \<longleftrightarrow> 0 \<le> t + PILOT_TIME_DELTA \<and> t + PILOT_TIME_DELTA < 2 ^ 32"

definition info_fits :: "DBInfo \<Rightarrow> bool" where
  "info_fits ip \<longleftrightarrow> length (di_name ip) = 34 \<and> take_bit 16 (di_flags ip) = di_flags ip \<and>
     take_bit 16 (di_version ip) = di_version ip \<and> take_bit 32 (di_type ip) = di_type ip \<and>
     take_bit 32 (di_creator ip) = di_creator ip \<and> take_bit 32 (di_modnum ip) = di_modnum ip \<and>
     date_fits (di_createDate ip) \<and> date_fits (di_modifyDate ip) \<and> date_fits (di_backupDate ip)"

definition stored_info :: "DBInfo \<Rightarrow> DBInfo" where
  "stored_info ip = ip\<lparr>di_more := 0, di_name := take 32 (di_name ip) @ [0, 0],
     di_miscFlags := dlpDBMiscFlagRamBased, di_index := 0\<rparr>"

definition entry_fits :: "bool \<Rightarrow> pi_file_entry \<Rightarrow> bool" where
  "entry_fits resource e \<longleftrightarrow>
     (if resource then take_bit 32 (pe_type e) = pe_type e \<and> 0 \<le> pe_resource_id e \<and> pe_resource_id e < 65536
      else 0 \<le> pe_attrs e \<and> pe_attrs e < 256 \<and> take_bit 24 (pe_uid e) = pe_uid e)"

definition stored_entry :: "bool \<Rightarrow> pi_file_entry \<Rightarrow> pi_file_entry" where
  "stored_entry resource e =
     (if resource then zero_entry\<lparr>pe_type := pe_type e, pe_resource_id := pe_resource_id e\<rparr>
      else zero_entry\<lparr>pe_attrs := pe_attrs e, pe_uid := pe_uid e\<rparr>)\<lparr>pe_offset := pe_offset e\<rparr>"

lemma ucast_down_up:
  "take_bit 32 (x :: u64) = x \<Longrightarrow> ucast (ucast x :: u32) = x"
  "take_bit 16 (y :: u32) = y \<Longrightarrow> ucast (ucast y :: u16) = y"
  "take_bit 24 (x :: u64) = x \<Longrightarrow> ucast (take_bit 24 (ucast x :: u32)) = x"
proof -
  have "ucast (ucast (take_bit 32 x) :: u32) = take_bit 32 (x :: u64)" for x
    by (rule bit_word_eqI) (auto simp: bit_simps)
  then show "take_bit 32 (x :: u64) = x \<Longrightarrow> ucast (ucast x :: u32) = x" for x by metis
  have "ucast (ucast (take_bit 16 y) :: u16) = take_bit 16 (y :: u32)" for y
    by (rule bit_word_eqI) (auto simp: bit_simps)
  then show "take_bit 16 (y :: u32) = y \<Longrightarrow> ucast (ucast y :: u16) = y" for y by metis
  have "ucast (take_bit 24 (ucast (take_bit 24 x) :: u32)) = take_bit 24 (x :: u64)" for x
    by (rule bit_word_eqI) (auto simp: bit_simps)
  then show "take_bit 24 (x :: u64) = x \<Longrightarrow> ucast (take_bit 24 (ucast x :: u32)) = x" for x by metis
qed

lemma stored_entry_fields [simp]:
  "pe_offset (stored_entry resource e) = pe_offset e"
  "stored_entry resource (e\<lparr>pe_size := n\<rparr>) = stored_entry resource e"
  by (simp_all add: stored_entry_def)

lemma date_roundtrip:
  assumes "date_fits t"
  shows "pilot_time_to_unix_time (ucast (ucast (unix_time_to_pilot_time t) :: u32)) = t"
proof -
  have k: "0 \<le> t + PILOT_TIME_DELTA" "t + PILOT_TIME_DELTA < 2 ^ 32" using assms by (auto simp: date_fits_def)
  have w: "unix_time_to_pilot_time t = word_of_int (t + PILOT_TIME_DELTA)"
    by (simp add: unix_time_to_pilot_time_def)
  have "take_bit 32 (t + PILOT_TIME_DELTA) = t + PILOT_TIME_DELTA"
    using k by (simp add: take_bit_int_eq_self)
  then have "take_bit 32 (unix_time_to_pilot_time t) = unix_time_to_pilot_time t"
    unfolding w by (simp only: take_bit_of_int)
  then have "ucast (ucast (unix_time_to_pilot_time t) :: u32) = unix_time_to_pilot_time t"
    by (rule ucast_down_up)
  then have "pilot_time_to_unix_time (ucast (ucast (unix_time_to_pilot_time t) :: u32))
      = sint (word_of_int t :: u64)"
    by (simp add: pilot_time_to_unix_time_def w del: of_int_add) simp
  then show ?thesis using k by (simp add: int_word_sint PILOT_TIME_DELTA_def)
qed

lemma entry_at:
  assumes "entry_fits resource e" "0 \<le> pe_offset e" "pe_offset e < 0x80000000"
  shows "read_entry resource (entry_bytes resource e) = Some (stored_entry resource e)"
proof -
  have "sint (word_of_int (pe_offset e) :: u32) = pe_offset e"
    using assms(2,3) by (simp add: int_word_sint)
  moreover have "uint (word_of_int (pe_attrs e) :: u8) = pe_attrs e" if "\<not> resource"
    using that assms(1) by (simp add: entry_fits_def uint_word_of_int)
  moreover have "uint (word_of_int (pe_resource_id e) :: u16) = pe_resource_id e" if resource
    using that assms(1) by (simp add: entry_fits_def uint_word_of_int)
  moreover have "get_long (set_long v) 0 = Some v" "get_treble (set_treble v) 0 = Some (take_bit 24 v)" for v
    using get_set_long[of v "[]"] get_set_treble[of v "[]"] by simp_all
  ultimately show ?thesis
    using assms(1)
    by (cases resource) (simp_all add: entry_fits_def entry_bytes_def read_entry_def mem_simps ucast_down_up
        stored_entry_def zero_entry_def)
qed

section \<open>The reader's loops\<close>

lemma fread_here:
  "length bs = n \<Longrightarrow> fread n \<lparr>fl_bytes = pre @ bs @ post, fl_pos = length pre\<rparr> =
     (bs, \<lparr>fl_bytes = pre @ bs @ post, fl_pos = length pre + n\<rparr>)"
  by (simp add: fread_def)

lemma read_entries_image:
  assumes "list_all (\<lambda>e. entry_fits resource e \<and> 0 \<le> pe_offset e \<and> pe_offset e < 0x80000000) es"
    and "hdr = (if resource then PI_RESOURCE_ENT_SIZE else PI_RECORD_ENT_SIZE)"
  shows "read_entries resource hdr (length es)
      \<lparr>fl_bytes = pre @ concat (map (entry_bytes resource) es) @ post, fl_pos = length pre\<rparr> =
    Some (Some (map (stored_entry resource) es,
      \<lparr>fl_bytes = pre @ concat (map (entry_bytes resource) es) @ post,
       fl_pos = length (pre @ concat (map (entry_bytes resource) es))\<rparr>))"
  using assms(1)
proof (induction es arbitrary: pre)
  case (Cons e es)
  let ?b = "entry_bytes resource e" and ?r = "concat (map (entry_bytes resource) es)"
  have l: "length ?b = hdr" using assms(2) by (simp add: entry_bytes_length)
  have f: "fread hdr \<lparr>fl_bytes = pre @ ?b @ ?r @ post, fl_pos = length pre\<rparr> =
     (?b, \<lparr>fl_bytes = pre @ ?b @ ?r @ post, fl_pos = length pre + hdr\<rparr>)"
    using fread_here[OF l, of pre "?r @ post"] by simp
  show ?case
    using Cons.IH[of "pre @ ?b"] Cons.prems f l entry_at[of resource e] by simp
qed simp

text \<open>The sizes: from the end of the file back to the first entry.\<close>

lemma entry_sizes_image:
  assumes "list_all (\<lambda>e. 0 \<le> pe_size e) es" "0 \<le> off" "off + sum_list (map pe_size es) \<le> file_size"
    "file_size < 0x80000000"
  shows "entry_sizes file_size (off + sum_list (map pe_size es))
      (rev (map (stored_entry resource) (place_entries off es))) =
    Some (Some (rev (map (\<lambda>e. (stored_entry resource e)\<lparr>pe_size := pe_size e\<rparr>) (place_entries off es)), off))"
  using assms
proof (induction es rule: rev_induct)
  case (snoc e es)
  have s: "0 \<le> sum_list (map pe_size es)"
    using snoc.prems(1) by (intro sum_list_nonneg) (auto simp: list_all_iff)
  let ?o = "off + sum_list (map pe_size es)"
  have "entry_sizes file_size ?o (rev (map (stored_entry resource) (place_entries off es))) =
    Some (Some (rev (map (\<lambda>e. (stored_entry resource e)\<lparr>pe_size := pe_size e\<rparr>) (place_entries off es)), off))"
    using snoc.prems by (intro snoc.IH) auto
  then show ?case
    using snoc.prems s by (simp add: place_append add_int_def to_int_id Let_def)
qed simp

section \<open>The header\<close>

lemma get_short_last: "get_short (set_short v) 0 = Some v"
  using get_set_short[of v "[]"] by simp

lemma uint_offset: "0 \<le> n \<Longrightarrow> n < 0x80000000 \<Longrightarrow> uint (word_of_int n :: u32) = n"
  by (simp add: uint_word_of_int)

lemma read_header_image:
  assumes fits: "info_fits (pf_info pf)" and next_id: "next_record_list_id pf = 0"
    and seed: "take_bit 32 (unique_id_seed pf) = unique_id_seed pf" and n: "length (entries pf) < 65536"
    and off: "0 \<le> data_start pf" "0 \<le> app_info_size pf" "data_start pf + app_info_size pf < 0x80000000"
  shows "read_header (header_image pf) = Some
    \<lparr>ph_info = stored_info (pf_info pf),
     ph_app_info_offset = (if app_info_size pf \<noteq> 0 then data_start pf else 0),
     ph_sort_info_offset = (if sort_info_size pf \<noteq> 0 then data_start pf + app_info_size pf else 0),
     ph_unique_id_seed = unique_id_seed pf, ph_next_record_list_id = 0,
     ph_num_entries = length (entries pf)\<rparr>"
proof -
  define ip where "ip = pf_info pf"
  define a where "a = (if app_info_size pf \<noteq> 0 then data_start pf else 0)"
  define b where "b = (if sort_info_size pf \<noteq> 0 then data_start pf + app_info_size pf else 0)"
  have ab: "uint (word_of_int a :: u32) = a" "uint (word_of_int b :: u32) = b"
    by (rule uint_offset; use off in \<open>simp add: a_def b_def\<close>)+
  have nn: "unat (word_of_int (int (length (entries pf))) :: u16) = length (entries pf)"
    using n by (simp add: unat_of_nat)
  have l: "length (take 32 (di_name ip)) = 32" using fits by (simp add: ip_def info_fits_def)
  show ?thesis
    unfolding header_image_def read_header_def Let_def ip_def[symmetric] a_def[symmetric] b_def[symmetric]
    using l fits seed ab nn next_id
    by (cases ip)
      (simp add: mem_simps get_short_last num_entries_def info_fits_def ip_def[symmetric] ucast_down_up date_roundtrip
        stored_info_def)
qed

section \<open>The two blocks\<close>

definition stored_ptr :: "mem_ptr \<Rightarrow> mem_ptr" where
  "stored_ptr p = (case p of Block bs \<Rightarrow> Block bs | _ \<Rightarrow> Null)"

lemma read_info_image:
  assumes env: "all_alloc env" and p: "ptr_holds p n" and off: "off = int (length pre)"
    and f: "fl_bytes f = pre @ block_bytes p @ post"
  shows "\<exists>f'. read_info env (if n \<noteq> 0 then off else 0) n f = Some (stored_ptr p, f') \<and> fl_bytes f' = fl_bytes f"
proof (cases p)
  case (Block bs)
  then show ?thesis
    using assms
    by (auto simp: read_info_def ptr_holds_def stored_ptr_def block_bytes_def all_alloc_def malloc_def
        fread_def fseek_set_def Let_def)
qed (use p in \<open>auto simp: read_info_def ptr_holds_def stored_ptr_def\<close>)

section \<open>Opening the image\<close>

lemma place_ok:
  assumes "list_all (\<lambda>e. 0 \<le> pe_size e) es" "list_all (entry_fits res) es" "0 \<le> off"
    and "off + sum_list (map pe_size es) < k"
  shows "list_all (\<lambda>e. entry_fits res e \<and> 0 \<le> pe_offset e \<and> pe_offset e < k) (place_entries off es)"
  using assms
proof (induction es arbitrary: off)
  case (Cons e es)
  have "0 \<le> sum_list (map pe_size es)"
    using Cons.prems(1) by (intro sum_list_nonneg) (auto simp: list_all_iff)
  then show ?case
    using Cons by (auto simp: entry_fits_def add.assoc)
qed simp

definition entry_read :: "bool \<Rightarrow> pi_file_entry \<Rightarrow> pi_file_entry" where
  "entry_read resource e = (stored_entry resource e)\<lparr>pe_size := pe_size e\<rparr>"

lemma open_image:
  assumes b: "building pf chunks" and env: "all_alloc env"
    and fits: "info_fits (pf_info pf)" "list_all (entry_fits (resource_flag pf)) (entries pf)"
    and seed: "take_bit 32 (unique_id_seed pf) = unique_id_seed pf"
    and n: "length chunks < 65536" and sz: "length (file_image pf chunks) < 0x80000000"
  shows "\<exists>f. pi_file_open env (Some (file_image pf chunks)) = Some (Some (zero_pi_file
      \<lparr>pf_info := stored_info (pf_info pf), unique_id_seed := unique_id_seed pf,
       resource_flag := resource_flag pf, ent_hdr_size := ent_hdr_size pf,
       entries := map (entry_read (resource_flag pf)) (place_entries (data_offset pf) (entries pf)),
       app_info_size := app_info_size pf, sort_info_size := sort_info_size pf,
       app_info := stored_ptr (app_info pf), sort_info := stored_ptr (sort_info pf),
       pf_f := Some f\<rparr>)) \<and> fl_bytes f = file_image pf chunks"
proof -
  note im = data_start_image[OF b]
  define img where "img = file_image pf chunks"
  define res where "res = resource_flag pf"
  have len: "int (length img) = data_offset pf + sum_list (map pe_size (entries pf))"
    unfolding im(2,3) img_def file_image_def by simp
  have ptrs: "ptr_holds (app_info pf) (app_info_size pf)" "ptr_holds (sort_info pf) (sort_info_size pf)"
    and hdr: "ent_hdr_size pf = (if res then PI_RESOURCE_ENT_SIZE else PI_RECORD_ENT_SIZE)"
    and name: "length (di_name (pf_info pf)) = 34" and res_db: "res = is_resource_db (pf_info pf)"
    and nid: "next_record_list_id pf = 0"
    using b by (auto simp: building_def res_def)
  note pl = ptr_holds_length[OF ptrs(1)] ptr_holds_length[OF ptrs(2)]
  have nonneg: "list_all (\<lambda>e. 0 \<le> pe_size e) (entries pf)"
  proof -
    have "set (map pe_size (entries pf)) = set (map (\<lambda>c. int (length c)) chunks)"
      using b by (simp add: building_def)
    then show ?thesis by (auto simp: list_all_iff dest!: equalityD1)
  qed
  have s: "0 \<le> sum_list (map pe_size (entries pf))"
    using nonneg by (intro sum_list_nonneg) (auto simp: list_all_iff)
  have pos: "0 < data_start pf" "0 \<le> app_info_size pf" "0 \<le> sort_info_size pf"
    using pl by (simp_all add: data_start_def num_entries_def PI_HDR_SIZE_def add_pos_nonneg)
  have small: "int (length img) < 0x80000000" using sz by (simp add: img_def)
  have rh: "read_header (header_image pf) = Some
    \<lparr>ph_info = stored_info (pf_info pf),
     ph_app_info_offset = (if app_info_size pf \<noteq> 0 then data_start pf else 0),
     ph_sort_info_offset = (if sort_info_size pf \<noteq> 0 then data_start pf + app_info_size pf else 0),
     ph_unique_id_seed = unique_id_seed pf, ph_next_record_list_id = 0,
     ph_num_entries = length (entries pf)\<rparr>"
    using fits(1) nid seed n building_length[OF b] pos s len small
    by (intro read_header_image) (auto simp: data_offset_def)
  define P where "P = place_entries (data_offset pf) (entries pf)"
  have P: "list_all (\<lambda>e. entry_fits res e \<and> 0 \<le> pe_offset e \<and> pe_offset e < 0x80000000) P"
    unfolding P_def using nonneg fits(2) len small pos
    by (intro place_ok) (auto simp: res_def data_offset_def)
  define rest where "rest = [0, 0] @ block_bytes (app_info pf) @ block_bytes (sort_info pf) @ concat chunks"
  have img: "img = header_image pf @ table_image pf @ rest" "table_image pf = concat (map (entry_bytes res) P)"
    by (simp_all add: img_def file_image_def rest_def table_image_def P_def res_def)
  have hl: "length (header_image pf) = PI_HDR_SIZE" using name by (rule header_image_length)
  have f1: "fread PI_HDR_SIZE \<lparr>fl_bytes = img, fl_pos = 0\<rparr> =
      (header_image pf, \<lparr>fl_bytes = img, fl_pos = length (header_image pf)\<rparr>)"
    using fread_here[OF hl, of "[]" "table_image pf @ rest"] by (simp add: img(1) hl)
  obtain f where f2: "read_entries res (ent_hdr_size pf) (length (entries pf))
      \<lparr>fl_bytes = img, fl_pos = length (header_image pf)\<rparr> = Some (Some (map (stored_entry res) P, f))"
    and fb: "fl_bytes f = img"
    using read_entries_image[OF P hdr, of "header_image pf" rest] by (auto simp: img P_def)
  have sizes: "entry_sizes (int (length img)) (int (length img)) (rev (map (stored_entry res) P)) =
      Some (Some (rev (map (entry_read res) P), data_offset pf))"
    unfolding len P_def entry_read_def using nonneg small len pos
    by (intro entry_sizes_image) (auto simp: data_offset_def)
  have app_at: "img = (header_image pf @ table_image pf @ [0, 0]) @ block_bytes (app_info pf) @
      (block_bytes (sort_info pf) @ concat chunks)"
    and sort_at: "img = (header_image pf @ table_image pf @ [0, 0] @ block_bytes (app_info pf)) @
      block_bytes (sort_info pf) @ concat chunks"
    by (simp_all add: img rest_def)
  obtain f3 where f3: "read_info env (if app_info_size pf \<noteq> 0 then data_start pf else 0) (app_info_size pf) f
      = Some (stored_ptr (app_info pf), f3)" "fl_bytes f3 = img"
    using read_info_image[OF env ptrs(1) im(1)] fb app_at by metis
  have off2: "data_start pf + app_info_size pf =
      int (length (header_image pf @ table_image pf @ [0, 0] @ block_bytes (app_info pf)))"
    unfolding im(1) pl(1) by simp
  obtain f4 where f4: "read_info env (if sort_info_size pf \<noteq> 0 then data_start pf + app_info_size pf else 0)
      (sort_info_size pf) f3 = Some (stored_ptr (sort_info pf), f4)" "fl_bytes f4 = img"
    using read_info_image[OF env ptrs(2) off2] f3(2) sort_at by metis
  have fs: "to_int (int (length img)) = int (length img)" using small by (simp add: to_int_id)
  have blocks: "open_blocks env (int (length img)) (if app_info_size pf \<noteq> 0 then data_start pf else 0)
      (if sort_info_size pf \<noteq> 0 then data_start pf + app_info_size pf else 0) (data_offset pf) p f =
    Some (p\<lparr>app_info_size := app_info_size pf, sort_info_size := sort_info_size pf,
      app_info := stored_ptr (app_info pf), sort_info := stored_ptr (sort_info pf), pf_f := Some f4\<rparr>)" for p
  proof -
    have sort: "(if sort_info_size pf \<noteq> 0 then data_start pf + app_info_size pf else 0) \<noteq> 0
        \<longleftrightarrow> sort_info_size pf \<noteq> 0"
      and app: "(if app_info_size pf \<noteq> 0 then data_start pf else 0) \<noteq> 0 \<longleftrightarrow> app_info_size pf \<noteq> 0"
      using pos by auto
    have ints: "to_int (app_info_size pf) = app_info_size pf" "to_int (sort_info_size pf) = sort_info_size pf"
      using pos s len small by (auto simp: to_int_id data_offset_def)
    show ?thesis
      unfolding open_blocks_def Let_def sort app using f3(1) f4(1) ints pos s len
      by (cases "sort_info_size pf = 0"; cases "app_info_size pf = 0") (simp_all add: data_offset_def)
  qed
  have flag: "is_resource_db (stored_info (pf_info pf)) = res"
    using res_db by (simp add: stored_info_def is_resource_db_def)
  have alloc: "malloc_ok env n" for n using env by (simp add: all_alloc_def)
  show ?thesis
    unfolding pi_file_open_def img_def[symmetric] res_def[symmetric] P_def[symmetric]
    using hl f1 rh f2 sizes blocks f4(2)
    by (simp add: Let_def fs flag alloc hdr zero_pi_file_def)
qed

section \<open>Reading records back\<close>

lemma sum_lengths: "sum_list (map (\<lambda>c. int (length c)) cs) = int (length (concat cs))"
  by (induction cs) auto

lemma nth_chunk:
  assumes "i < length chunks"
  shows "take (length (chunks ! i)) (drop (length (concat (take i chunks))) (concat chunks)) = chunks ! i"
proof -
  have "concat chunks = concat (take i chunks) @ chunks ! i @ concat (drop (Suc i) chunks)"
    by (metis append_Cons append_Nil2 append_eq_append_conv2 assms concat.simps(2) concat_append id_take_nth_drop)
  then show ?thesis by simp
qed

text \<open>The file that \<open>pi_file_open\<close> returns, as far as its entries are concerned.\<close>

definition opened :: "pi_file \<Rightarrow> bytes list \<Rightarrow> pi_file \<Rightarrow> bool" where
  "opened src chunks pf \<longleftrightarrow>
     \<not> for_writing pf \<and> resource_flag pf = resource_flag src \<and>
     entries pf = map (entry_read (resource_flag src)) (place_entries (data_offset src) (entries src)) \<and>
     (\<exists>f. pf_f pf = Some f \<and> fl_bytes f = file_image src chunks) \<and>
     (case rbuf pf of None \<Rightarrow> rbuf_size pf = 0 | Some r \<Rightarrow> length r = rbuf_size pf)"

lemma fill_rbuf_image:
  assumes b: "building src chunks" and o: "opened src chunks pf" and env: "all_alloc env"
    and i: "i < length chunks"
  shows "\<exists>pf'. fill_rbuf env pf (entries pf ! i) = Some (pf', 0) \<and> opened src chunks pf' \<and>
    (\<forall>r. rbuf pf' = Some r \<longrightarrow> take (length (chunks ! i)) r = chunks ! i) \<and>
    (rbuf pf' = None \<longrightarrow> chunks ! i = [])"
proof -
  note im = data_start_image[OF b]
  let ?n = "length (chunks ! i)"
  have il: "i < length (entries src)" using i building_length[OF b] by simp
  have sizes: "map pe_size (entries src) = map (\<lambda>c. int (length c)) chunks"
    using b by (simp add: building_def)
  have "map pe_size (entries src) ! i = map (\<lambda>c. int (length c)) chunks ! i" unfolding sizes ..
  then have sz: "pe_size (entries src ! i) = int ?n" using il i by simp
  have "sum_list (map pe_size (take i (entries src))) = sum_list (take i (map pe_size (entries src)))"
    by (simp add: take_map)
  also have "\<dots> = sum_list (map (\<lambda>c. int (length c)) (take i chunks))" unfolding sizes by (simp add: take_map)
  also have "\<dots> = int (length (concat (take i chunks)))"
    by (rule sum_lengths)
  finally have off: "sum_list (map pe_size (take i (entries src))) = int (length (concat (take i chunks)))" .
  define e where "e = entries pf ! i"
  have e: "pe_size e = int ?n" "pe_offset e = data_offset src + int (length (concat (take i chunks)))"
    using o il sz off by (simp_all add: e_def opened_def entry_read_def place_nth)
  obtain f where f: "pf_f pf = Some f" "fl_bytes f = file_image src chunks" using o by (auto simp: opened_def)
  define hd where "hd = header_image src @ table_image src @ [0, 0] @ block_bytes (app_info src) @ block_bytes (sort_info src)"
  have img: "file_image src chunks = hd @ concat chunks" by (simp add: file_image_def hd_def)
  have "nat (pe_offset e) = length hd + length (concat (take i chunks))" "0 \<le> pe_offset e"
    unfolding e(2) im(2) hd_def by simp_all
  then have rd: "fread ?n (fseek_set (pe_offset e) f) =
      (chunks ! i, f\<lparr>fl_pos := length hd + length (concat (take i chunks)) + ?n\<rparr>)"
    using nth_chunk[OF i] by (simp add: fread_def fseek_set_def f(2) img Let_def)
  have rb: "\<exists>pf1. pi_file_set_rbuf_size env pf ?n = (pf1, 0) \<and> pf1 = pf\<lparr>rbuf_size := rbuf_size pf1, rbuf := rbuf pf1\<rparr> \<and>
     (case rbuf pf1 of None \<Rightarrow> rbuf_size pf1 = 0 \<and> ?n = 0 | Some r \<Rightarrow> length r = rbuf_size pf1 \<and> ?n \<le> length r)"
    using o env
    by (cases "rbuf pf")
      (auto simp: pi_file_set_rbuf_size_def opened_def all_alloc_def malloc_def realloc_def Let_def split: option.splits)
  then obtain pf1 where pf1: "pi_file_set_rbuf_size env pf ?n = (pf1, 0)"
    "pf1 = pf\<lparr>rbuf_size := rbuf_size pf1, rbuf := rbuf pf1\<rparr>"
    "case rbuf pf1 of None \<Rightarrow> rbuf_size pf1 = 0 \<and> ?n = 0 | Some r \<Rightarrow> length r = rbuf_size pf1 \<and> ?n \<le> length r"
    by blast
  have fr: "pf_f pf1 = Some f" "for_writing pf1 = for_writing pf" "resource_flag pf1 = resource_flag pf"
    "entries pf1 = entries pf" by (subst pf1(2), simp add: f)+
  define f' where "f' = f\<lparr>fl_pos := length hd + length (concat (take i chunks)) + ?n\<rparr>"
  define pf2 where "pf2 = pf1\<lparr>pf_f := Some f',
      rbuf := map_option (\<lambda>r. chunks ! i @ drop ?n r) (rbuf pf1)\<rparr>"
  have "fill_rbuf env pf (entries pf ! i) = Some (pf2, 0)"
    unfolding e_def[symmetric] fill_rbuf_def e(1) using pf1(1,3) fr(1) rd
    by (cases "rbuf pf1") (simp_all add: pf2_def f'_def poke_def Let_def)
  moreover have "opened src chunks pf2"
    using o fr f pf1(3) unfolding opened_def
    by (cases "rbuf pf1") (simp_all add: pf2_def f'_def)
  moreover have "(\<forall>r. rbuf pf2 = Some r \<longrightarrow> take ?n r = chunks ! i) \<and> (rbuf pf2 = None \<longrightarrow> chunks ! i = [])"
    using pf1(3) by (cases "rbuf pf1") (simp_all add: pf2_def)
  ultimately show ?thesis by (intro exI[of _ pf2] conjI) simp_all
qed

lemma opened_image:
  assumes "building pf chunks" "all_alloc env" "info_fits (pf_info pf)"
    "list_all (entry_fits (resource_flag pf)) (entries pf)"
    "take_bit 32 (unique_id_seed pf) = unique_id_seed pf" "length chunks < 65536"
    "length (file_image pf chunks) < 0x80000000"
  shows "\<exists>pf'. pi_file_open env (Some (file_image pf chunks)) = Some (Some pf') \<and> opened pf chunks pf' \<and>
    pf_info pf' = stored_info (pf_info pf) \<and> app_info pf' = stored_ptr (app_info pf) \<and>
    sort_info pf' = stored_ptr (sort_info pf)"
  using open_image[OF assms] by (auto simp: opened_def zero_pi_file_def)

lemma opened_entry:
  assumes b: "building src chunks" and o: "opened src chunks pf" and i: "i < length chunks"
  shows "i < length (entries pf)" "pe_size (entries pf ! i) = int (length (chunks ! i))"
    "\<not> resource_flag src \<Longrightarrow> pe_attrs (entries pf ! i) = pe_attrs (entries src ! i) \<and>
       pe_uid (entries pf ! i) = pe_uid (entries src ! i)"
    "resource_flag src \<Longrightarrow> pe_type (entries pf ! i) = pe_type (entries src ! i) \<and>
       pe_resource_id (entries pf ! i) = pe_resource_id (entries src ! i)"
proof -
  have il: "i < length (entries src)" using i building_length[OF b] by simp
  have sizes: "map pe_size (entries src) = map (\<lambda>c. int (length c)) chunks"
    using b by (simp add: building_def)
  have "map pe_size (entries src) ! i = map (\<lambda>c. int (length c)) chunks ! i" unfolding sizes ..
  then have sz: "pe_size (entries src ! i) = int (length (chunks ! i))" using il i by simp
  show "i < length (entries pf)" "pe_size (entries pf ! i) = int (length (chunks ! i))"
    "\<not> resource_flag src \<Longrightarrow> pe_attrs (entries pf ! i) = pe_attrs (entries src ! i) \<and>
       pe_uid (entries pf ! i) = pe_uid (entries src ! i)"
    "resource_flag src \<Longrightarrow> pe_type (entries pf ! i) = pe_type (entries src ! i) \<and>
       pe_resource_id (entries pf ! i) = pe_resource_id (entries src ! i)"
    using o il sz by (simp_all add: opened_def entry_read_def place_nth stored_entry_def zero_entry_def)
qed

text \<open>What a read returns: the data, as much of the read buffer as the size says.\<close>

definition out_data :: "read_out \<Rightarrow> bytes" where
  "out_data r = (case ro_buf r of None \<Rightarrow> [] | Some b \<Rightarrow> take (ro_size r) b)"

lemma opened_read_record:
  assumes b: "building src chunks" and o: "opened src chunks pf" and env: "all_alloc env"
    and res: "\<not> resource_flag src" and i: "i < length chunks"
  shows "\<exists>pf' r. pi_file_read_record env pf (int i) True = Some (pf', 0, Some r) \<and> opened src chunks pf' \<and>
    out_data r = chunks ! i \<and> ro_size r = length (chunks ! i) \<and>
    ro_attrs r = pe_attrs (entries src ! i) AND 0xf0 \<and>
    ro_category r = pe_attrs (entries src ! i) AND 0xf \<and> ro_uid r = pe_uid (entries src ! i)"
proof -
  note e = opened_entry[OF b o i]
  obtain pf' where f: "fill_rbuf env pf (entries pf ! i) = Some (pf', 0)" and o': "opened src chunks pf'"
    and d: "\<forall>r. rbuf pf' = Some r \<longrightarrow> take (length (chunks ! i)) r = chunks ! i"
      "rbuf pf' = None \<longrightarrow> chunks ! i = []"
    using fill_rbuf_image[OF b o env i] by (elim exE conjE)
  have w: "\<not> for_writing pf" "resource_flag pf = resource_flag src" using o by (auto simp: opened_def)
  have "pi_file_read_record env pf (int i) True = Some (pf', 0, Some (entry_out (rbuf pf') (entries pf ! i)))"
    using w e(1) res f by (simp add: pi_file_read_record_def num_entries_def)
  moreover have "out_data (entry_out (rbuf pf') (entries pf ! i)) = chunks ! i"
    using d e(2) by (cases "rbuf pf'") (simp_all add: out_data_def entry_out_def)
  ultimately show ?thesis
    using o' e(2) e(3)[OF res]
    by (intro exI[of _ pf'] exI[of _ "entry_out (rbuf pf') (entries pf ! i)"]) (simp add: entry_out_def)
qed

lemma opened_read_resource:
  assumes b: "building src chunks" and o: "opened src chunks pf" and env: "all_alloc env"
    and res: "resource_flag src" and i: "i < length chunks"
  shows "\<exists>pf' r. pi_file_read_resource env pf (int i) True = Some (pf', 0, Some r) \<and> opened src chunks pf' \<and>
    out_data r = chunks ! i \<and> ro_size r = length (chunks ! i) \<and>
    ro_type r = pe_type (entries src ! i) \<and> ro_id r = pe_resource_id (entries src ! i)"
proof -
  note e = opened_entry[OF b o i]
  obtain pf' where f: "fill_rbuf env pf (entries pf ! i) = Some (pf', 0)" and o': "opened src chunks pf'"
    and d: "\<forall>r. rbuf pf' = Some r \<longrightarrow> take (length (chunks ! i)) r = chunks ! i"
      "rbuf pf' = None \<longrightarrow> chunks ! i = []"
    using fill_rbuf_image[OF b o env i] by (elim exE conjE)
  have w: "\<not> for_writing pf" "resource_flag pf = resource_flag src" using o by (auto simp: opened_def)
  have "pi_file_read_resource env pf (int i) True = Some (pf', 0, Some (entry_out (rbuf pf') (entries pf ! i)))"
    using w e(1) res f by (simp add: pi_file_read_resource_def num_entries_def)
  moreover have "out_data (entry_out (rbuf pf') (entries pf ! i)) = chunks ! i"
    using d e(2) by (cases "rbuf pf'") (simp_all add: out_data_def entry_out_def)
  ultimately show ?thesis
    using o' e(2) e(4)[OF res]
    by (intro exI[of _ pf'] exI[of _ "entry_out (rbuf pf') (entries pf ! i)"]) (simp add: entry_out_def)
qed

end
