(* ===== verification/PiFileProps.thy ===== *)
theory PiFileProps
  imports PiFileRoundtrip
begin

text \<open>The properties of the database files.\<close>

section \<open>Round trip\<close>

lemma close_image:
  assumes "building pf chunks" "usable pf" "length chunks < 65536"
    "length (file_image pf chunks) < 0x80000000" "good_disk disk"
  shows "pi_file_close disk (Some pf) = Some (0, Some (file_image pf chunks))"
proof -
  obtain pf' where c: "pi_file_close_for_write disk pf = Some (pf', 0, Some (file_image pf chunks))"
    "app_info pf' = app_info pf" "sort_info pf' = sort_info pf"
    using close_for_write_spec[OF assms(1,3,4), of disk] assms(5) by (elim exE conjE) simp
  then show ?thesis
    using assms(2)
    by (auto simp: pi_file_close_def usable_def pi_file_free_def free_ptr_def split: mem_ptr.splits)
qed

text \<open>C1: a database that was built and closed on a disk that accepts every write can be opened
  again, with the information fields, both blocks, and, for every index, the record or resource
  with its data, attributes and identifiers; reading one entry leaves the others readable.\<close>

theorem pi_file_roundtrip:
  assumes "building pf chunks" "usable pf" "all_alloc env" "info_fits (pf_info pf)"
    "list_all (entry_fits (resource_flag pf)) (entries pf)"
    "take_bit 32 (unique_id_seed pf) = unique_id_seed pf" "length chunks < 65536"
    "length (file_image pf chunks) < 0x80000000" "good_disk disk"
  shows "pi_file_close disk (Some pf) = Some (0, Some (file_image pf chunks)) \<and>
    (\<exists>pf'. pi_file_open env (Some (file_image pf chunks)) = Some (Some pf') \<and> opened pf chunks pf' \<and>
      pf_info pf' = stored_info (pf_info pf) \<and> app_info pf' = stored_ptr (app_info pf) \<and>
      sort_info pf' = stored_ptr (sort_info pf)) \<and>
    (\<forall>q i. opened pf chunks q \<longrightarrow> i < length chunks \<longrightarrow> \<not> resource_flag pf \<longrightarrow>
      (\<exists>q' r. pi_file_read_record env q (int i) True = Some (q', 0, Some r) \<and> opened pf chunks q' \<and>
        out_data r = chunks ! i \<and> ro_size r = length (chunks ! i) \<and>
        ro_attrs r = pe_attrs (entries pf ! i) AND 0xf0 \<and>
        ro_category r = pe_attrs (entries pf ! i) AND 0xf \<and> ro_uid r = pe_uid (entries pf ! i))) \<and>
    (\<forall>q i. opened pf chunks q \<longrightarrow> i < length chunks \<longrightarrow> resource_flag pf \<longrightarrow>
      (\<exists>q' r. pi_file_read_resource env q (int i) True = Some (q', 0, Some r) \<and> opened pf chunks q' \<and>
        out_data r = chunks ! i \<and> ro_size r = length (chunks ! i) \<and>
        ro_type r = pe_type (entries pf ! i) \<and> ro_id r = pe_resource_id (entries pf ! i)))"
  using assms
  by (intro conjI allI impI close_image opened_image opened_read_record opened_read_resource) assumption+

definition sample_file :: pi_file where
  "sample_file = zero_pi_file\<lparr>for_writing := True, ent_hdr_size := PI_RECORD_ENT_SIZE,
     tmpbuf := Some (buf_of [1, 2, 3, 4, 5]), app_info := Block [9, 9], app_info_size := 2,
     entries := [zero_entry\<lparr>pe_size := 2, pe_attrs := 0x42, pe_uid := 7\<rparr>,
                 zero_entry\<lparr>pe_size := 3, pe_attrs := 0x01, pe_uid := 8\<rparr>]\<rparr>"

definition sample_chunks :: "bytes list" where
  "sample_chunks = [[1, 2], [3, 4, 5]]"

lemma sample_building: "building sample_file sample_chunks"
  by (simp add: building_def sample_file_def zero_pi_file_def zero_DBInfo_def is_resource_db_def
      ptr_holds_def zero_entry_def dlpDBFlagResource_def sample_chunks_def)

lemma sample_fits:
  "usable sample_file" "all_alloc calloc_env" "info_fits (pf_info sample_file)"
  "list_all (entry_fits (resource_flag sample_file)) (entries sample_file)"
  "take_bit 32 (unique_id_seed sample_file) = unique_id_seed sample_file" "length sample_chunks < 65536"
  by (simp_all add: usable_def sample_file_def zero_pi_file_def zero_DBInfo_def all_alloc_def calloc_env_def
      info_fits_def date_fits_def PILOT_TIME_DELTA_def entry_fits_def zero_entry_def sample_chunks_def)

lemma sample_size: "length (file_image sample_file sample_chunks) < 0x80000000"
  using header_image_length[of sample_file] table_image_length[OF sample_building]
  by (simp add: file_image_def PI_HDR_SIZE_def PI_RECORD_ENT_SIZE_def block_bytes_def
      sample_file_def zero_pi_file_def zero_DBInfo_def sample_chunks_def)

definition sample_disk :: disk_env where
  "sample_disk = \<lparr>fopen_ok = True, fwrite_ok = (\<lambda>_. True)\<rparr>"

theorem pi_file_roundtrip_witness:
  "\<exists>img pf q r. pi_file_close sample_disk (Some sample_file) = Some (0, Some img) \<and>
     pi_file_open calloc_env (Some img) = Some (Some pf) \<and> app_info pf = Block [9, 9] \<and>
     pi_file_read_record calloc_env pf 1 True = Some (q, 0, Some r) \<and> out_data r = [3, 4, 5] \<and> ro_uid r = 8"
proof -
  have "good_disk sample_disk" by (simp add: good_disk_def sample_disk_def)
  note rts = pi_file_roundtrip[OF sample_building sample_fits sample_size this]
  obtain pf where pf: "pi_file_open calloc_env (Some (file_image sample_file sample_chunks)) = Some (Some pf)"
    "opened sample_file sample_chunks pf" "app_info pf = stored_ptr (app_info sample_file)"
    using rts by (elim exE conjE)
  have "\<exists>q r. pi_file_read_record calloc_env pf 1 True = Some (q, 0, Some r) \<and> out_data r = [3, 4, 5] \<and> ro_uid r = 8"
    using conjunct1[OF conjunct2[OF conjunct2[OF rts]], rule_format, OF pf(2), of 1]
    by (auto simp: sample_file_def zero_pi_file_def zero_entry_def sample_chunks_def)
  then show ?thesis
    using conjunct1[OF rts] pf(1,3) by (auto simp: sample_file_def stored_ptr_def)
qed

section \<open>Building\<close>

text \<open>C4: any sequence of information and append calls on a created database stays defined, and
  unless one of them reports a lack of memory the buffer holds exactly the data of a
  subsequence of the appends, in order, with entries of matching sizes, and no record identifier
  or resource key occurs twice.\<close>

theorem pi_file_ops_invariant:
  assumes "pi_file_create env name info = Some pf" "length (di_name info) = 34" "list_all op_ok ops"
  shows "\<exists>pf' rs. run_ops env ops pf = Some pf' \<and> run_results env ops pf = Some rs \<and>
    (PI_ERR_GENERIC_MEMORY \<in> set rs \<or>
     keys_distinct pf' \<and> (\<exists>sel. building pf' (map op_chunk sel) \<and> subseq sel ops))"
proof -
  have "usable pf"
    using assms(1) by (auto simp: pi_file_create_def usable_def zero_pi_file_def dest: pi_buffer_new_wf
        split: if_splits option.splits)
  then show ?thesis
    using run_ops_building[of pf "[]" ops env] create_building[OF assms(1,2)] assms(3) by auto
qed

theorem pi_file_ops_invariant_witness:
  "\<exists>pf pf' rs. pi_file_create calloc_env [100, 98] zero_DBInfo = Some pf \<and>
     run_ops calloc_env [AppendRecord [1, 2] 2 0x40 3 7, AppendRecord [5] 1 0 0 7] pf = Some pf' \<and>
     run_results calloc_env [AppendRecord [1, 2] 2 0x40 3 7, AppendRecord [5] 1 0 0 7] pf = Some rs \<and>
     rs = [2, PI_ERR_FILE_ALREADY_EXISTS] \<and> keys_distinct pf'"
proof -
  let ?ops = "[AppendRecord [1, 2] 2 0x40 3 7, AppendRecord [5] 1 0 0 7]"
  obtain pf where pf: "pi_file_create calloc_env [100, 98] zero_DBInfo = Some pf"
    by (simp add: pi_file_create_def calloc_env_def pi_buffer_new_def malloc_def)
  have "run_results calloc_env ?ops pf = Some [2, PI_ERR_FILE_ALREADY_EXISTS]"
    using pf by (auto simp: pi_file_create_def calloc_env_def pi_buffer_new_def malloc_def zero_pi_file_def
        zero_DBInfo_def is_resource_db_def pi_file_append_record_def pi_file_append_entry_def num_entries_def
        append_data_def get_block_def pi_buffer_append_def pi_buffer_expect_def buf_poke_def poke_def
        set_last_def to_int_id pi_file_id_used_def)
  then show ?thesis
    using pi_file_ops_invariant[OF pf, of ?ops] pf by (auto simp: zero_DBInfo_def err_defs)
qed

section \<open>What the reader accepts\<close>

lemma entry_sizes_bounds:
  "entry_sizes file_size off es = Some (Some (es', off')) \<Longrightarrow>
   list_all (\<lambda>e. 0 \<le> pe_size e \<and> pe_offset e + pe_size e \<le> file_size) es' \<and> length es' = length es"
  by (induction es arbitrary: off es' off')
    (auto simp: Let_def bind_eq_Some_conv add_int_def split: if_splits option.splits prod.splits)

lemma read_info_bounds:
  "read_info env off n f = Some (p, f') \<Longrightarrow> \<not> n < 0 \<Longrightarrow> ptr_holds p n \<and> fl_bytes f' = fl_bytes f"
  by (auto simp: read_info_def ptr_holds_def fread_def fseek_set_def Let_def split: if_splits)

lemma read_entries_stream:
  "read_entries res hdr n f = Some (Some (es, f')) \<Longrightarrow> fl_bytes f' = fl_bytes f \<and> length es = n"
  by (induction n arbitrary: f es f')
    (auto simp: Let_def fread_def bind_eq_Some_conv split: if_splits option.splits prod.splits)

lemma open_blocks_bounds:
  "open_blocks env fs a s off pf f = Some pf' \<Longrightarrow>
   entries pf' = entries pf \<and> ptr_holds (app_info pf') (app_info_size pf') \<and>
   ptr_holds (sort_info pf') (sort_info_size pf') \<and> (\<exists>f'. pf_f pf' = Some f' \<and> fl_bytes f' = fl_bytes f)"
  by (auto simp: open_blocks_def Let_def dest!: read_info_bounds split: if_splits option.splits prod.splits)

text \<open>C25: whatever bytes a file holds, when \<open>pi_file_open\<close> accepts it no entry has a negative size
  and none ends behind the end of the file; so an entry whose offset is not negative lies in the file.
  Nothing keeps an offset from being negative (\<open>negative_offset_accepted\<close>). The two blocks have
  exactly the sizes that the file structure reports.\<close>

theorem pi_file_open_bounds:
  assumes "pi_file_open env (Some contents) = Some (Some pf)"
  shows "list_all (\<lambda>e. 0 \<le> pe_size e \<and> pe_offset e + pe_size e \<le> to_int (int (length contents))) (entries pf) \<and>
    list_all (\<lambda>e. 0 \<le> pe_offset e \<longrightarrow> nat (pe_offset e) + nat (pe_size e) \<le> length contents) (entries pf) \<and>
    ptr_holds (app_info pf) (app_info_size pf) \<and> ptr_holds (sort_info pf) (sort_info_size pf) \<and>
    (\<exists>f. pf_f pf = Some f \<and> fl_bytes f = contents)"
proof -
  obtain buf f where b: "fread PI_HDR_SIZE \<lparr>fl_bytes = contents, fl_pos = 0\<rparr> = (buf, f)" by fastforce
  have fb: "fl_bytes f = contents" using b by (auto simp: fread_def Let_def)
  define P where "P pf \<longleftrightarrow> list_all (\<lambda>e. 0 \<le> pe_size e \<and> pe_offset e + pe_size e \<le> to_int (int (length contents))) (entries pf) \<and>
    ptr_holds (app_info pf) (app_info_size pf) \<and> ptr_holds (sort_info pf) (sort_info_size pf) \<and>
    (\<exists>f. pf_f pf = Some f \<and> fl_bytes f = contents)" for pf :: pi_file
  have P: "P pf'" if "read_entries res hdr n f = Some (Some (es, f'))"
    "entry_sizes (to_int (int (length contents))) (to_int (int (length contents))) (rev es) = Some (Some (es', off))"
    "open_blocks env (to_int (int (length contents))) a s off (pf0\<lparr>entries := rev es'\<rparr>) f' = Some pf'"
    for res hdr n es f' es' off a s pf0 pf'
    using entry_sizes_bounds[OF that(2)] open_blocks_bounds[OF that(3)] read_entries_stream[OF that(1)] fb
    by (simp add: list_all_rev P_def)
  have "wlp (pi_file_open env (Some contents)) (\<lambda>r. case r of None \<Rightarrow> True | Some pf \<Rightarrow> P pf)"
    unfolding pi_file_open_def Let_def b prod.case option.case
    by (intro wlp_rules; auto split: option.split intro: P)
  from wlp_D[OF this assms] have p: "P pf" by simp
  have "to_int (int (length contents)) \<le> int (length contents)" by (rule to_int_le) simp
  then have "list_all (\<lambda>e. 0 \<le> pe_offset e \<longrightarrow> nat (pe_offset e) + nat (pe_size e) \<le> length contents) (entries pf)"
    using p by (fastforce simp: P_def list_all_iff)
  then show ?thesis using p by (simp add: P_def)
qed

theorem pi_file_open_bounds_witness:
  "\<exists>img pf. pi_file_open calloc_env (Some img) = Some (Some pf) \<and> map pe_size (entries pf) = [2, 3] \<and>
     list_all (\<lambda>e. 0 \<le> pe_size e \<and> pe_offset e + pe_size e \<le> to_int (int (length img))) (entries pf) \<and>
     list_all (\<lambda>e. 0 \<le> pe_offset e \<longrightarrow> nat (pe_offset e) + nat (pe_size e) \<le> length img) (entries pf)"
proof -
  obtain pf where pf: "pi_file_open calloc_env (Some (file_image sample_file sample_chunks)) = Some (Some pf)"
    "opened sample_file sample_chunks pf"
    using opened_image[OF sample_building sample_fits(2-6) sample_size] by (elim exE conjE)
  have "map pe_size (entries pf) = [2, 3]"
    using opened_entry(1,2)[OF sample_building pf(2), of 0] opened_entry(1,2)[OF sample_building pf(2), of 1] pf(2)
    by (simp add: opened_def sample_chunks_def sample_file_def zero_pi_file_def entry_read_def)
  then show ?thesis
    using pf(1) pi_file_open_bounds[OF pf(1)]
    by (intro exI[of _ "file_image sample_file sample_chunks"] exI[of _ pf]) simp
qed

text \<open>A database without blocks whose only record starts before the file, at -1, is accepted; the size of
  the record is that of the file and one byte more.\<close>

definition negative_offset_image :: bytes where
  "negative_offset_image = replicate 77 0 @ [1, 255, 255, 255, 255] @ replicate 6 0"

lemma negative_offset_accepted:
  "map_option (map_option (\<lambda>pf. map (\<lambda>e. (pe_offset e, pe_size e)) (entries pf)))
     (pi_file_open calloc_env (Some negative_offset_image)) = Some (Some [(-1, 89)])"
  by code_simp

section \<open>Two behaviours of the writer\<close>

text \<open>C33: clearing an AppInfo block that was set leaves a dangling pointer, so that closing the
  file afterwards is undefined behaviour (a second \<open>free\<close>).\<close>

theorem clear_app_info_double_free:
  assumes "app_info pf = Block bs"
  shows "\<exists>pf'. pi_file_set_app_info env pf [] 0 = Some (pf', 0) \<and> pi_file_close disk (Some pf') = None"
proof -
  have 1: "pi_file_free (q\<lparr>pf_err := e\<rparr>) = None" "pi_file_free q = None" if "app_info q = Dangling" for q e
    using that by (simp_all add: pi_file_free_def free_ptr_def)
  have 2: "wlp (pi_file_close_for_write disk q) (\<lambda>(q', r, out). app_info q' = app_info q)" for q
    unfolding pi_file_close_for_write_def Let_def by (intro wlp_rules; simp)
  have "pi_file_close disk (Some q) = None" if "app_info q = Dangling" for q
    using 1 2[of q] that
    by (cases "pi_file_close_for_write disk q") (auto simp: pi_file_close_def wlp_def)
  then show ?thesis
    using assms by (simp add: pi_file_set_app_info_def free_ptr_def)
qed

theorem clear_app_info_double_free_witness:
  "\<exists>pf'. pi_file_set_app_info calloc_env sample_file [] 0 = Some (pf', 0) \<and>
     pi_file_close sample_disk (Some pf') = None"
  by (rule clear_app_info_double_free[of _ "[9, 9]"]) (simp add: sample_file_def)

end
