(* ===== verification/DlpCore.thy ===== *)
theory DlpCore
  imports PalmTime DbTypes
begin

text \<open>
  The Desktop Link Protocol (\<open>libpisock/dlp.c\<close>): its requests and responses, their encoding,
  and \<open>dlp_exec\<close>, which writes a request and reads the response. What lies under it, the
  socket calls \<open>pi_read\<close>, \<open>pi_write\<close> and \<open>pi_flush\<close>, is the parameter \<open>transport\<close>: functions
  on the socket, whose own part is the state \<open>sk_world\<close> of any type.

  An argument's data are given at once, as the concatenation of the stores that fill the
  block that \<open>dlp_arg_new\<close> allocates.
\<close>

section \<open>The socket\<close>

record 'w pi_sock =
  sk_world :: 'w
  sk_last_error :: int
  sk_palmos_error :: int
  sk_cmp :: bool
  sk_dlpversion :: int
  sk_maxrecsize :: u64
  sk_dlprecord :: int
  sk_honor_rx_to :: int
  sk_ended :: bool

record 'w transport =
  tr_read :: "'w pi_sock \<Rightarrow> pi_buffer \<Rightarrow> nat \<Rightarrow> ('w pi_sock \<times> pi_buffer \<times> int) option"
  tr_write :: "'w pi_sock \<Rightarrow> bytes \<Rightarrow> ('w pi_sock \<times> int) option"
  tr_flush :: "'w pi_sock \<Rightarrow> 'w pi_sock option"
  tr_cmp_vers :: "'w pi_sock \<Rightarrow> int"

definition DLP_BUF_SIZE :: nat where "DLP_BUF_SIZE = 0xffff"

definition pi_set_error :: "'w pi_sock \<Rightarrow> int \<Rightarrow> 'w pi_sock \<times> int" where
  "pi_set_error sk err = (sk\<lparr>sk_last_error := err\<rparr>, err)"

definition pi_set_palmos_error :: "'w pi_sock \<Rightarrow> int \<Rightarrow> 'w pi_sock \<times> int" where
  "pi_set_palmos_error sk err = (sk\<lparr>sk_palmos_error := err\<rparr>, err)"

definition pi_reset_errors :: "'w pi_sock \<Rightarrow> 'w pi_sock" where
  "pi_reset_errors sk = sk\<lparr>sk_last_error := 0, sk_palmos_error := 0\<rparr>"

text \<open>The version of the protocol that the device speaks, cached in the socket.\<close>

definition pi_version :: "'w transport \<Rightarrow> 'w pi_sock \<Rightarrow> int \<times> 'w pi_sock" where
  "pi_version tr sk =
     (if sk_dlpversion sk \<noteq> 0 then (sk_dlpversion sk, sk)
      else let sk = (if sk_cmp sk
                     then sk\<lparr>sk_dlpversion := tr_cmp_vers tr sk, sk_maxrecsize := of_nat DLP_BUF_SIZE\<rparr>
                     else sk)
           in (sk_dlpversion sk, sk))"

definition pi_maxrecsize :: "'w transport \<Rightarrow> 'w pi_sock \<Rightarrow> u64 \<times> 'w pi_sock" where
  "pi_maxrecsize tr sk =
     (let (v, sk) = pi_version tr sk in
      if v = 0 then (of_nat DLP_BUF_SIZE, sk) else (sk_maxrecsize sk, sk))"

section \<open>Arguments, requests, responses\<close>

definition PI_DLP_ARG_TINY_LEN :: nat where "PI_DLP_ARG_TINY_LEN = 0xFF"
definition PI_DLP_ARG_SHORT_LEN :: nat where "PI_DLP_ARG_SHORT_LEN = 0xFFFF"
definition PI_DLP_ARG_FLAG_SHORT :: int where "PI_DLP_ARG_FLAG_SHORT = 0x80"
definition PI_DLP_ARG_FLAG_LONG :: int where "PI_DLP_ARG_FLAG_LONG = 0x40"
definition PI_DLP_ARG_FIRST_ID :: int where "PI_DLP_ARG_FIRST_ID = 0x20"

record dlpArg =
  arg_id :: int
  arg_data :: bytes

record dlpRequest =
  rq_cmd :: u8
  rq_argv :: "dlpArg list"

record dlpResponse =
  rs_cmd :: u8
  rs_err :: int
  rs_argv :: "dlpArg list"

definition sizeof_dlpArg :: nat where "sizeof_dlpArg = 24"
definition sizeof_dlpRequest :: nat where "sizeof_dlpRequest = 16"
definition sizeof_dlpResponse :: nat where "sizeof_dlpResponse = 24"
definition sizeof_ptr :: nat where "sizeof_ptr = 8"

definition dlp_arg_new :: "heap_env \<Rightarrow> int \<Rightarrow> bytes \<Rightarrow> dlpArg option" where
  "dlp_arg_new env argID bs =
     (if malloc_ok env sizeof_dlpArg \<and> (bs = [] \<or> malloc_ok env (length bs))
      then Some \<lparr>arg_id = argID, arg_data = bs\<rparr> else None)"

text \<open>The three encodings of an argument.\<close>

definition arg_tiny :: "dlpArg \<Rightarrow> bool" where
  "arg_tiny arg \<longleftrightarrow> length (arg_data arg) < PI_DLP_ARG_TINY_LEN \<and>
     arg_id arg AND (PI_DLP_ARG_FLAG_SHORT OR PI_DLP_ARG_FLAG_LONG) = 0"

definition arg_short :: "dlpArg \<Rightarrow> bool" where
  "arg_short arg \<longleftrightarrow> length (arg_data arg) < PI_DLP_ARG_SHORT_LEN \<and> arg_id arg AND PI_DLP_ARG_FLAG_LONG = 0"

text \<open>The sum is kept in an \<open>int\<close>: adding the length of the header is an addition of \<open>int\<close> values,
  adding that of the data converts a \<open>size_t\<close> to \<open>int\<close>.\<close>

primrec arg_len_loop :: "int \<Rightarrow> dlpArg list \<Rightarrow> int option" where
  "arg_len_loop len [] = Some len"
| "arg_len_loop len (arg # argv) = do {
     len \<leftarrow> add_int len (if arg_tiny arg then 2 else if arg_short arg then 4 else 6);
     arg_len_loop (to_int (len + int (length (arg_data arg)))) argv }"

definition dlp_arg_len :: "dlpArg list \<Rightarrow> int option" where
  "dlp_arg_len argv = arg_len_loop 0 argv"

primrec new_args :: "heap_env \<Rightarrow> int \<Rightarrow> bytes list \<Rightarrow> dlpArg list option" where
  "new_args env argid [] = Some []"
| "new_args env argid (bs # bss) = do {
     arg \<leftarrow> dlp_arg_new env argid bs;
     argv \<leftarrow> new_args env (argid + 1) bss;
     Some (arg # argv) }"

text \<open>None is NULL.\<close>

definition dlp_request_new_with_argid :: "heap_env \<Rightarrow> u8 \<Rightarrow> int \<Rightarrow> bytes list \<Rightarrow> dlpRequest option" where
  "dlp_request_new_with_argid env cmd argid datas =
     (if \<not> malloc_ok env sizeof_dlpRequest then None
      else if datas \<noteq> [] \<and> \<not> malloc_ok env (sizeof_ptr * length datas) then None
      else do { argv \<leftarrow> new_args env argid datas; Some \<lparr>rq_cmd = cmd, rq_argv = argv\<rparr> })"

definition dlp_request_new :: "heap_env \<Rightarrow> u8 \<Rightarrow> bytes list \<Rightarrow> dlpRequest option" where
  "dlp_request_new env cmd datas =
     (if \<not> malloc_ok env sizeof_dlpRequest then None
      else if datas \<noteq> [] \<and> \<not> malloc_ok env (sizeof_ptr * length datas) then None
      else do { argv \<leftarrow> new_args env PI_DLP_ARG_FIRST_ID datas; Some \<lparr>rq_cmd = cmd, rq_argv = argv\<rparr> })"

definition dlp_response_new_ok :: "heap_env \<Rightarrow> nat \<Rightarrow> bool" where
  "dlp_response_new_ok env argc \<longleftrightarrow>
     malloc_ok env sizeof_dlpResponse \<and> (argc = 0 \<or> malloc_ok env (sizeof_ptr * argc))"

section \<open>Writing a request\<close>

primrec write_args :: "bytes \<Rightarrow> nat \<Rightarrow> dlpArg list \<Rightarrow> bytes option" where
  "write_args mem i [] = Some mem"
| "write_args mem i (arg # argv) =
     (let n = length (arg_data arg); argid = arg_id arg in
      if arg_tiny arg then do {
        mem \<leftarrow> poke mem i (set_byte (word_of_int argid));
        mem \<leftarrow> poke mem (i + 1) (set_byte (of_nat n));
        mem \<leftarrow> poke mem (i + 2) (arg_data arg);
        write_args mem (i + n + 2) argv }
      else if arg_short arg then do {
        mem \<leftarrow> poke mem i (set_byte (word_of_int (argid OR PI_DLP_ARG_FLAG_SHORT)));
        mem \<leftarrow> poke mem (i + 1) (set_byte 0);
        mem \<leftarrow> poke mem (i + 2) (set_short (of_nat n));
        mem \<leftarrow> poke mem (i + 4) (arg_data arg);
        write_args mem (i + n + 4) argv }
      else do {
        mem \<leftarrow> poke mem i (set_byte (word_of_int (argid OR PI_DLP_ARG_FLAG_LONG)));
        mem \<leftarrow> poke mem (i + 1) (set_byte 0);
        mem \<leftarrow> poke mem (i + 2) (set_long (of_nat n));
        mem \<leftarrow> poke mem (i + 6) (arg_data arg);
        write_args mem (i + n + 6) argv })"

definition request_block :: "heap_env \<Rightarrow> dlpRequest \<Rightarrow> nat \<Rightarrow> bytes option option" where
  "request_block env req len =
     (case malloc env len of
        None \<Rightarrow> Some None
      | Some mem \<Rightarrow> do {
          mem \<leftarrow> poke mem 0 (set_byte (rq_cmd req));
          mem \<leftarrow> poke mem 1 (set_byte (of_nat (length (rq_argv req))));
          mem \<leftarrow> write_args mem 2 (rq_argv req);
          Some (Some mem) })"

definition dlp_request_write ::
  "heap_env \<Rightarrow> 'w transport \<Rightarrow> dlpRequest \<Rightarrow> 'w pi_sock \<Rightarrow> ('w pi_sock \<times> int) option" where
  "dlp_request_write env tr req sk = do {
     arglen \<leftarrow> dlp_arg_len (rq_argv req);
     arglen \<leftarrow> add_int arglen 2;
     let len = size_of_int arglen;
     block \<leftarrow> request_block env req len;
     case block of
       None \<Rightarrow> Some (pi_set_error sk PI_ERR_GENERIC_MEMORY)
     | Some exec_buf \<Rightarrow> do {
         sk \<leftarrow> tr_flush tr sk;
         (sk, i) \<leftarrow> tr_write tr sk exec_buf;
         let i = to_int i;
         Some (sk, if i < to_ssize len \<and> 0 \<le> i then -1 else i) } }"

section \<open>Reading a response\<close>

text \<open>The loop over the arguments of a response; the block is the whole buffer, valid bytes and
  not, and no bound is checked. \<open>Inl\<close> is an error return.\<close>

primrec read_args ::
  "heap_env \<Rightarrow> 'w transport \<Rightarrow> bytes \<Rightarrow> nat \<Rightarrow> nat \<Rightarrow> 'w pi_sock \<Rightarrow> ('w pi_sock \<times> (int + dlpArg list)) option"
  where
  "read_args env tr block 0 i sk = Some (sk, Inr [])"
| "read_args env tr block (Suc n) i sk = do {
     b \<leftarrow> get_byte block i;
     (hd, sk) \<leftarrow> (if uint b AND PI_DLP_ARG_FLAG_LONG \<noteq> 0
                 then let (v, sk) = pi_version tr sk in
                      if v < 0x0104 then Some (Inl PI_ERR_DLP_DATASIZE, sk)
                      else do { len \<leftarrow> get_long block (i + 2); Some (Inr (uint b AND 0x3f, unat len, i + 6), sk) }
                 else if uint b AND PI_DLP_ARG_FLAG_SHORT \<noteq> 0
                 then do { len \<leftarrow> get_short block (i + 2); Some (Inr (uint b AND 0x3f, unat len, i + 4), sk) }
                 else do { len \<leftarrow> get_byte block (i + 1); Some (Inr (uint b, unat len, i + 2), sk) });
     case hd of
       Inl err \<Rightarrow> (let (sk, err) = pi_set_error sk err in Some (sk, Inl err))
     | Inr (argid, len, i) \<Rightarrow>
         if \<not> malloc_ok env sizeof_dlpArg \<or> 0 < len \<and> \<not> malloc_ok env len
         then (let (sk, err) = pi_set_error sk PI_ERR_GENERIC_MEMORY in Some (sk, Inl err))
         else do {
           d \<leftarrow> get_block len block i;
           (sk, r) \<leftarrow> read_args env tr block n (i + len) sk;
           Some (sk, case r of Inl err \<Rightarrow> Inl err
                             | Inr argv \<Rightarrow> Inr (\<lparr>arg_id = argid, arg_data = d\<rparr> # argv)) } }"

text \<open>The response that the caller receives (None when none was allocated), and the result.\<close>

definition dlp_response_read ::
  "heap_env \<Rightarrow> 'w transport \<Rightarrow> 'w pi_sock \<Rightarrow> ('w pi_sock \<times> dlpResponse option \<times> int) option" where
  "dlp_response_read env tr sk =
     (case pi_buffer_new env DLP_BUF_SIZE of
        None \<Rightarrow> (let (sk, r) = pi_set_error sk PI_ERR_GENERIC_MEMORY in Some (sk, None, r))
      | Some buf \<Rightarrow> do {
          (sk, buf, n) \<leftarrow> tr_read tr sk buf (allocated buf);
          if n < 0 then Some (sk, None, n)
          else if n < 4 then (let (sk, r) = pi_set_error sk PI_ERR_DLP_COMMAND in Some (sk, None, r))
          else do {
            block \<leftarrow> data buf;
            cmd \<leftarrow> get_byte block 0;
            argc \<leftarrow> get_byte block 1;
            if \<not> dlp_response_new_ok env (unat argc)
            then (let (sk, r) = pi_set_error sk PI_ERR_GENERIC_MEMORY in Some (sk, None, r))
            else do {
              err \<leftarrow> get_short block 2;
              let sk = fst (pi_set_palmos_error sk (uint err));
              let res = \<lparr>rs_cmd = cmd AND 0x7f, rs_err = uint err, rs_argv = []\<rparr>;
              (sk, r) \<leftarrow> read_args env tr block (unat argc) 4 sk;
              case r of
                Inl e \<Rightarrow> Some (sk, Some res, e)
              | Inr argv \<Rightarrow>
                  Some (sk, Some (res\<lparr>rs_argv := argv\<rparr>),
                        case argv of [] \<Rightarrow> 0 | a # _ \<Rightarrow> int (length (arg_data a))) } } })"

section \<open>Executing a request\<close>

definition dlpFuncReadRecord :: u8 where "dlpFuncReadRecord = 0x20"
definition dlpFuncWriteResource :: u8 where "dlpFuncWriteResource = 0x24"
definition dlpFuncVFSVolumeInfo :: u8 where "dlpFuncVFSVolumeInfo = 0x56"
definition dlpFuncVFSVolumeSize :: u8 where "dlpFuncVFSVolumeSize = 0x59"
definition dlpFuncReadRecordEx :: u8 where "dlpFuncReadRecordEx = 0x60"

definition dlp_exec ::
  "heap_env \<Rightarrow> 'w transport \<Rightarrow> dlpRequest \<Rightarrow> 'w pi_sock \<Rightarrow> ('w pi_sock \<times> dlpResponse option \<times> int) option"
  where
  "dlp_exec env tr req sk = do {
     (sk, result) \<leftarrow> dlp_request_write env tr req sk;
     let result = to_int result;
     if result < int (length (rq_argv req)) then Some (sk, None, result)
     else do {
       (sk, res, bytes) \<leftarrow> dlp_response_read env tr sk;
       let bytes = to_int bytes;
       if bytes < 0 then Some (sk, res, bytes)
       else do {
         r \<leftarrow> res;
         if rs_cmd r \<noteq> rq_cmd req \<and>
            (rq_cmd req \<noteq> dlpFuncVFSVolumeInfo \<or> rs_cmd r \<noteq> dlpFuncVFSVolumeSize) \<and>
            rq_cmd req \<noteq> dlpFuncWriteResource \<and> rq_cmd req \<noteq> dlpFuncReadRecord \<and>
            rq_cmd req \<noteq> dlpFuncReadRecordEx
         then (let (sk, e) = pi_set_error sk PI_ERR_DLP_COMMAND in Some (sk, res, e))
         else if rs_err r \<noteq> 0
         then (let sk = fst (pi_set_palmos_error sk (rs_err r));
                   (sk, e) = pi_set_error sk PI_ERR_DLP_PALMOS
               in Some (sk, res, e))
         else Some (sk, res, bytes) } } }"

end
