(* ===== verification/DlpWire.thy ===== *)
theory DlpWire
  imports DlpCore
begin

text \<open>
  The wire format of the desktop link protocol. \<open>arg_bytes\<close> is the encoding of one argument;
  the writer fills its block with exactly the bytes of the request, and the reader takes a
  response apart into the arguments it was made of. \<open>device_transport\<close> is the transport that
  hands every request to a device and returns its answer.
\<close>

section \<open>Encoding\<close>

definition arg_bytes :: "dlpArg \<Rightarrow> bytes" where
  "arg_bytes arg =
     (let n = length (arg_data arg) in
      if arg_tiny arg then [word_of_int (arg_id arg), of_nat n]
      else if arg_short arg then [word_of_int (arg_id arg OR PI_DLP_ARG_FLAG_SHORT), 0] @ set_short (of_nat n)
      else [word_of_int (arg_id arg OR PI_DLP_ARG_FLAG_LONG), 0] @ set_long (of_nat n)) @ arg_data arg"

definition request_bytes :: "dlpRequest \<Rightarrow> bytes" where
  "request_bytes req = [rq_cmd req, of_nat (length (rq_argv req))] @ concat (map arg_bytes (rq_argv req))"

lemma request_bytes_length: "length (request_bytes req) = length (concat (map arg_bytes (rq_argv req))) + 2"
  by (simp add: request_bytes_def)

lemma arg_bytes_length:
  "length (arg_bytes arg) = (if arg_tiny arg then 2 else if arg_short arg then 4 else 6) + length (arg_data arg)"
  by (simp add: arg_bytes_def Let_def)

text \<open>The length of the encoding, as long as an \<open>int\<close> can count it.\<close>

lemma arg_len_loop_bytes:
  "0 \<le> l \<Longrightarrow> l + int (length (concat (map arg_bytes argv))) < 0x80000000 \<Longrightarrow>
   arg_len_loop l argv = Some (l + int (length (concat (map arg_bytes argv))))"
proof (induction argv arbitrary: l)
  case (Cons arg argv)
  let ?h = "if arg_tiny arg then 2 else if arg_short arg then 4 else 6 :: int"
  let ?n = "int (length (arg_data arg))" and ?r = "int (length (concat (map arg_bytes argv)))"
  have h: "0 \<le> ?h" "int (length (arg_bytes arg)) = ?h + ?n" by (simp_all add: arg_bytes_length)
  have b: "l + (?h + ?n) + ?r < 0x80000000" using Cons.prems(2) h(2) by simp
  have "add_int l ?h = Some (l + ?h)" using Cons.prems(1) h(1) b by (intro add_int_sum) linarith+
  moreover have "to_int (l + ?h + ?n) = l + (?h + ?n)" using Cons.prems(1) h(1) b by (subst to_int_id) linarith+
  moreover have "arg_len_loop (l + (?h + ?n)) argv = Some (l + (?h + ?n) + ?r)"
    using Cons.prems(1) h(1) b by (intro Cons.IH) linarith+
  ultimately show ?case using h(2) by simp
qed simp

lemma dlp_arg_len_bytes:
  "length (concat (map arg_bytes argv)) < 0x80000000 \<Longrightarrow>
   dlp_arg_len argv = Some (int (length (concat (map arg_bytes argv))))"
  using arg_len_loop_bytes[of 0 argv] by (simp add: dlp_arg_len_def)

lemma write_args_bytes:
  "length (concat (map arg_bytes argv)) \<le> length rest \<Longrightarrow>
   write_args (pre @ rest) (length pre) argv =
     Some (pre @ concat (map arg_bytes argv) @ drop (length (concat (map arg_bytes argv))) rest)"
proof (induction argv arbitrary: pre rest)
  case (Cons arg argv)
  let ?b = "arg_bytes arg" and ?n = "length (concat (map arg_bytes argv))"
  have IH: "write_args ((pre @ ?b) @ drop (length ?b) rest) (length (pre @ ?b)) argv =
      Some ((pre @ ?b) @ concat (map arg_bytes argv) @ drop ?n (drop (length ?b) rest))"
    using Cons.prems by (intro Cons.IH) (simp add: le_diff_conv2)
  show ?case
    using IH Cons.prems
    by (cases "arg_tiny arg"; cases "arg_short arg")
      (simp_all add: arg_bytes_def[of arg] Let_def mem_simps set_byte_def drop_Suc numeral_eq_Suc ac_simps)
qed simp

lemma request_block_bytes:
  "request_block env req (length (request_bytes req)) =
     Some (if malloc_ok env (length (request_bytes req)) then Some (request_bytes req) else None)"
proof (cases "malloc env (length (request_bytes req))")
  case None
  then show ?thesis by (auto simp: request_block_def malloc_def split: if_splits)
next
  case (Some mem)
  let ?n = "length (concat (map arg_bytes (rq_argv req)))"
  have l: "length mem = ?n + 2" and ok: "malloc_ok env (length (request_bytes req))"
    using Some by (auto simp: malloc_length malloc_def request_bytes_length split: if_splits)
  obtain a b rest where mem: "mem = a # b # rest" "length rest = ?n"
    using l by (cases mem; cases "tl mem") auto
  show ?thesis
    using Some ok mem write_args_bytes[of "rq_argv req" rest "[rq_cmd req, of_nat (length (rq_argv req))]"]
    by (simp add: request_block_def request_bytes_def poke_def set_byte_def numeral_2_eq_2)
qed

lemma request_write:
  assumes "length (request_bytes req) < 0x80000000"
  shows "dlp_request_write env tr req sk =
     (if malloc_ok env (length (request_bytes req)) then do {
        sk \<leftarrow> tr_flush tr sk;
        (sk, i) \<leftarrow> tr_write tr sk (request_bytes req);
        Some (sk, if to_int i < int (length (request_bytes req)) \<and> 0 \<le> to_int i then -1 else to_int i) }
      else Some (pi_set_error sk PI_ERR_GENERIC_MEMORY))"
proof -
  let ?n = "length (concat (map arg_bytes (rq_argv req)))" and ?l = "length (request_bytes req)"
  have "?n < 0x80000000" "0 \<le> int ?n" "int ?n + 2 < 0x80000000" using assms by (simp_all add: request_bytes_length)
  then have "dlp_arg_len (rq_argv req) = Some (int ?n)" "add_int (int ?n) 2 = Some (int ?l)"
    by (simp_all add: dlp_arg_len_bytes add_int_sum request_bytes_length)
  moreover have "size_of_int (int ?l) = ?l" "to_ssize ?l = int ?l" using assms by (simp_all add: to_ssize_nat)
  ultimately show ?thesis by (simp add: dlp_request_write_def request_block_bytes Let_def)
qed

text \<open>C24: for every request whose encoding an \<open>int\<close> can count, the length that \<open>dlp_arg_len\<close> computes is
  the length of the encoded arguments, the writer fills the block of that size completely with the request
  without ever writing outside it, and \<open>dlp_request_write\<close> hands exactly this block to the socket, once the
  socket is flushed; a write that falls short is the result -1, a failed allocation the error for it.\<close>

theorem dlp_request_encoding:
  assumes "length (request_bytes req) < 0x80000000"
  shows "dlp_arg_len (rq_argv req) = Some (int (length (concat (map arg_bytes (rq_argv req))))) \<and>
   request_block env req (length (request_bytes req)) =
     Some (if malloc_ok env (length (request_bytes req)) then Some (request_bytes req) else None) \<and>
   dlp_request_write env tr req sk =
     (if malloc_ok env (length (request_bytes req)) then do {
        sk \<leftarrow> tr_flush tr sk;
        (sk, i) \<leftarrow> tr_write tr sk (request_bytes req);
        Some (sk, if to_int i < int (length (request_bytes req)) \<and> 0 \<le> to_int i then -1 else to_int i) }
      else Some (pi_set_error sk PI_ERR_GENERIC_MEMORY))"
proof -
  have "length (concat (map arg_bytes (rq_argv req))) < 0x80000000" using assms by (simp add: request_bytes_length)
  then show ?thesis
    by (intro conjI) (rule dlp_arg_len_bytes, assumption, rule request_block_bytes, rule request_write[OF assms])
qed

section \<open>Decoding\<close>

text \<open>The arguments that the format can carry: a six-bit identifier and a 32-bit length.\<close>

definition arg_fits :: "dlpArg \<Rightarrow> bool" where
  "arg_fits arg \<longleftrightarrow> 0 \<le> arg_id arg \<and> arg_id arg < 64 \<and> length (arg_data arg) < 2 ^ 32"

lemma arg_head_values:
  "list_all (\<lambda>i. i AND 0x40 = 0 \<and> i AND 0x80 = 0 \<and> i AND 0xc0 = 0 \<and> uint (word_of_int i :: u8) = i \<and>
     uint (word_of_int (i OR 0x80) :: u8) AND 0x40 = 0 \<and> uint (word_of_int (i OR 0x80) :: u8) AND 0x80 \<noteq> 0 \<and>
     uint (word_of_int (i OR 0x80) :: u8) AND 0x3f = i \<and>
     uint (word_of_int (i OR 0x40) :: u8) AND 0x40 \<noteq> 0 \<and> uint (word_of_int (i OR 0x40) :: u8) AND 0x3f = i)
   [0..63]"
  by code_simp

lemma arg_head:
  assumes "0 \<le> i" "i < (64 :: int)"
  shows "i AND 0x40 = 0" "i AND 0x80 = 0" "i AND 0xc0 = 0" "uint (word_of_int i :: u8) = i"
    "uint (word_of_int (i OR 0x80) :: u8) AND 0x40 = 0" "uint (word_of_int (i OR 0x80) :: u8) AND 0x80 \<noteq> 0"
    "uint (word_of_int (i OR 0x80) :: u8) AND 0x3f = i"
    "uint (word_of_int (i OR 0x40) :: u8) AND 0x40 \<noteq> 0" "uint (word_of_int (i OR 0x40) :: u8) AND 0x3f = i"
proof -
  have "i \<in> set [0..63]" using assms by simp
  then show "i AND 0x40 = 0" "i AND 0x80 = 0" "i AND 0xc0 = 0" "uint (word_of_int i :: u8) = i"
    "uint (word_of_int (i OR 0x80) :: u8) AND 0x40 = 0" "uint (word_of_int (i OR 0x80) :: u8) AND 0x80 \<noteq> 0"
    "uint (word_of_int (i OR 0x80) :: u8) AND 0x3f = i"
    "uint (word_of_int (i OR 0x40) :: u8) AND 0x40 \<noteq> 0" "uint (word_of_int (i OR 0x40) :: u8) AND 0x3f = i"
    using arg_head_values unfolding list_all_iff by (blast+)
qed

lemma pi_version_known: "sk_dlpversion sk \<noteq> 0 \<Longrightarrow> pi_version tr sk = (sk_dlpversion sk, sk)"
  by (simp add: pi_version_def)

lemma read_args_bytes:
  assumes "all_alloc env" "list_all arg_fits argv"
    and "\<exists>arg \<in> set argv. \<not> arg_short arg \<Longrightarrow> 0x0104 \<le> sk_dlpversion sk"
  shows "read_args env tr (pre @ concat (map arg_bytes argv) @ post) (length argv) (length pre) sk
    = Some (sk, Inr argv)"
  using assms(2,3)
proof (induction argv arbitrary: pre)
  case (Cons arg argv)
  let ?b = "arg_bytes arg" and ?d = "arg_data arg"
  let ?mem = "pre @ ?b @ concat (map arg_bytes argv) @ post"
  have fits: "0 \<le> arg_id arg" "arg_id arg < 64" "length ?d < 2 ^ 32" using Cons.prems by (auto simp: arg_fits_def)
  note ah = arg_head[OF fits(1,2)]
  have IH: "read_args env tr ?mem (length argv) (length (pre @ ?b)) sk = Some (sk, Inr argv)"
    using Cons.IH[of "pre @ ?b"] Cons.prems by simp
  have flags: "PI_DLP_ARG_FLAG_SHORT OR PI_DLP_ARG_FLAG_LONG = 0xc0" "PI_DLP_ARG_FLAG_SHORT = 0x80"
    "PI_DLP_ARG_FLAG_LONG = 0x40" by (simp_all add: PI_DLP_ARG_FLAG_SHORT_def PI_DLP_ARG_FLAG_LONG_def)
  consider "arg_tiny arg" | "\<not> arg_tiny arg" "arg_short arg" | "\<not> arg_tiny arg" "\<not> arg_short arg" by blast
  then show ?case
  proof cases
    case 1
    then have "unat (of_nat (length ?d) :: u8) = length ?d"
      by (simp add: arg_tiny_def PI_DLP_ARG_TINY_LEN_def unat_of_nat)
    moreover have "length (pre @ ?b) = length pre + 2 + length ?d" using 1 by (simp add: arg_bytes_def)
    ultimately show ?thesis
      using 1 IH assms(1) ah by (simp add: arg_bytes_def[of arg] Let_def mem_simps flags)
  next
    case 2
    then have "unat (of_nat (length ?d) :: u16) = length ?d"
      by (simp add: arg_short_def PI_DLP_ARG_SHORT_LEN_def unat_of_nat)
    moreover have "read_args env tr ?mem (length argv) (length pre + 4 + length ?d) sk = Some (sk, Inr argv)"
      using 2 IH by (simp add: arg_bytes_def[of arg] numeral_eq_Suc)
    ultimately show ?thesis
      using 2 assms(1) ah by (simp add: arg_bytes_def[of arg] Let_def mem_simps flags)
  next
    case 3
    have "unat (of_nat (length ?d) :: u32) = length ?d" using fits(3) by (simp add: unat_of_nat)
    moreover have v: "0x0104 \<le> sk_dlpversion sk" using Cons.prems(2) 3 by auto
    moreover have "read_args env tr ?mem (length argv) (length pre + 6 + length ?d) sk = Some (sk, Inr argv)"
      using 3 IH by (simp add: arg_bytes_def[of arg] numeral_eq_Suc)
    ultimately show ?thesis
      using 3 assms(1) ah by (simp add: arg_bytes_def[of arg] Let_def mem_simps flags pi_version_known)
  qed
qed simp

section \<open>A device\<close>

text \<open>A device is a function of its state and the request.\<close>

definition response_bytes :: "dlpResponse \<Rightarrow> bytes" where
  "response_bytes res = [rs_cmd res OR 0x80, of_nat (length (rs_argv res))] @
     set_short (word_of_int (rs_err res)) @ concat (map arg_bytes (rs_argv res))"

definition response_fits :: "dlpResponse \<Rightarrow> bool" where
  "response_fits res \<longleftrightarrow> rs_cmd res AND 0x80 = 0 \<and> 0 \<le> rs_err res \<and> rs_err res < 65536 \<and>
     length (rs_argv res) < 256 \<and> list_all arg_fits (rs_argv res)"

text \<open>An argument of 64K or more needs version 1.4 of the protocol.\<close>

definition version_carries :: "'w pi_sock \<Rightarrow> dlpArg list \<Rightarrow> bool" where
  "version_carries sk argv \<longleftrightarrow> list_all arg_short argv \<or> 0x0104 \<le> sk_dlpversion sk"

definition first_len :: "dlpArg list \<Rightarrow> int" where
  "first_len argv = (case argv of [] \<Rightarrow> 0 | a # _ \<Rightarrow> int (length (arg_data a)))"

lemma command_bits: "(c :: u8) AND 0x80 = 0 \<Longrightarrow> (c OR 0x80) AND 0x7f = c"
proof -
  assume "c AND 0x80 = 0"
  then have c: "take_bit 7 c = c"
  proof -
    have "\<not> bit c 7"
      using \<open>c AND 0x80 = 0\<close> bit_iff_and_push_bit_not_eq_0[of c 7] by simp
    moreover have "n < 7" if "bit c n" for n
      using bit_imp_le_length[OF that] that \<open>\<not> bit c 7\<close> by (cases "n = 7") auto
    ultimately show ?thesis by (intro bit_word_eqI) (metis bit_take_bit_iff)
  qed
  have "(c OR 0x80) AND 0x7f = (c AND 0x7f) OR (0x80 AND 0x7f)" by (rule bit.conj_disj_distrib2)
  moreover have "c AND 0x7f = c" using c by (simp add: take_bit_eq_mask mask_eq_exp_minus_1)
  ultimately show "(c OR 0x80) AND 0x7f = c" by simp
qed

lemma argc_le_bytes: "length argv \<le> length (concat (map arg_bytes argv))"
  by (induction argv) (auto simp: arg_bytes_def Let_def)

text \<open>The exceptions of \<open>dlp_exec\<close> for devices that answer with another command.\<close>

definition cmd_accepted :: "u8 \<Rightarrow> u8 \<Rightarrow> bool" where
  "cmd_accepted asked got \<longleftrightarrow> got = asked \<or>
     asked = dlpFuncVFSVolumeInfo \<and> got = dlpFuncVFSVolumeSize \<or>
     asked = dlpFuncWriteResource \<or> asked = dlpFuncReadRecord \<or> asked = dlpFuncReadRecordEx"

text \<open>
  What the protocol relies on: a connection to the device \<open>dev\<close> that hands it every request of up
  to \<open>limit\<close> bytes, a number that an \<open>int\<close> can count, and then lets its answer be read. \<open>ready w d\<close> says that the device behind the
  socket's part \<open>w\<close> is in the state \<open>d\<close>, \<open>waiting w d resp\<close> that its answer waits as well.
\<close>

locale device_link =
  fixes tr :: "'w transport"
    and ready :: "'w \<Rightarrow> 'd \<Rightarrow> bool"
    and waiting :: "'w \<Rightarrow> 'd \<Rightarrow> bytes \<Rightarrow> bool"
    and dev :: "'d \<Rightarrow> bytes \<Rightarrow> 'd \<times> bytes"
    and limit :: nat
  assumes limit_law: "limit < 0x80000000"
    and write_law: "ready (sk_world sk) d \<Longrightarrow> length rq \<le> limit \<Longrightarrow>
      \<exists>sk1 w. tr_flush tr sk = Some sk1 \<and> tr_write tr sk1 rq = Some (sk\<lparr>sk_world := w\<rparr>, int (length rq)) \<and>
        waiting w (fst (dev d rq)) (snd (dev d rq))"
    and read_law: "waiting (sk_world sk) d resp \<Longrightarrow> length resp \<le> limit \<Longrightarrow> pi_buffer_wf buf \<Longrightarrow>
      content buf = [] \<Longrightarrow>
      \<exists>w buf'. tr_read tr sk buf n = Some (sk\<lparr>sk_world := w\<rparr>, buf', int (length resp)) \<and> ready w d \<and>
        pi_buffer_wf buf' \<and> content buf' = resp"
begin

lemma response_read:
  assumes env: "all_alloc env" and fits: "response_fits res" and v: "version_carries sk (rs_argv res)"
    and world: "waiting (sk_world sk) d (response_bytes res)" and lim: "length (response_bytes res) \<le> limit"
  shows "\<exists>w. dlp_response_read env tr sk =
      Some (sk\<lparr>sk_world := w, sk_palmos_error := rs_err res\<rparr>, Some res, first_len (rs_argv res)) \<and> ready w d"
proof -
  let ?argv = "rs_argv res" and ?b = "concat (map arg_bytes (rs_argv res))"
  obtain buf where buf: "pi_buffer_new env DLP_BUF_SIZE = Some buf"
    using env by (auto simp: pi_buffer_new_def malloc_def DLP_BUF_SIZE_def)
  obtain w buf' where rd: "tr_read tr sk buf (allocated buf) =
      Some (sk\<lparr>sk_world := w\<rparr>, buf', int (length (response_bytes res)))" and w: "ready w d"
    and b: "pi_buffer_wf buf'" "content buf' = response_bytes res"
    using read_law[OF world lim] pi_buffer_new_wf[OF buf] by blast
  have "response_bytes res \<noteq> []" by (simp add: response_bytes_def)
  then obtain old where d: "data buf' = Some (response_bytes res @ old)" using content_data[OF b] by metis
  let ?hd = "[rs_cmd res OR 0x80, of_nat (length ?argv)] @ set_short (word_of_int (rs_err res))"
  let ?sk = "sk\<lparr>sk_world := w, sk_palmos_error := rs_err res\<rparr>"
  have block: "response_bytes res @ old = ?hd @ ?b @ old" by (simp add: response_bytes_def)
  have ra: "read_args env tr (?hd @ ?b @ old) (length ?argv) (length ?hd) ?sk = Some (?sk, Inr ?argv)"
    using fits v by (intro read_args_bytes[OF env]) (auto simp: response_fits_def version_carries_def list_all_iff)
  have n: "unat (of_nat (length ?argv) :: u8) = length ?argv"
    using fits by (simp add: response_fits_def unat_of_nat)
  have e: "uint (word_of_int (rs_err res) :: u16) = rs_err res"
    using fits by (simp add: response_fits_def uint_word_of_int)
  have c: "(rs_cmd res OR 0x80) AND 0x7f = rs_cmd res"
    using fits command_bits by (simp add: response_fits_def)
  have len: "\<not> int (length (response_bytes res)) < 4" "\<not> int (length (response_bytes res)) < 0"
    by (simp_all add: response_bytes_def)
  have g: "get_byte (?hd @ ?b @ old) 0 = Some (rs_cmd res OR 0x80)"
    "get_byte (?hd @ ?b @ old) 1 = Some (of_nat (length ?argv))"
    "get_short (?hd @ ?b @ old) 2 = Some (word_of_int (rs_err res))" "length ?hd = 4"
    by (simp_all add: mem_simps)
  have res: "\<lparr>rs_cmd = rs_cmd res, rs_err = rs_err res, rs_argv = ?argv\<rparr> = res" by simp
  have "dlp_response_read env tr sk = Some (?sk, Some res, first_len ?argv)"
    unfolding dlp_response_read_def buf option.case rd bind.bind_lunit prod.case if_not_P[OF len(1)] if_not_P[OF len(2)]
      d block
    using ra res unfolding g(4)
    by (simp add: g(1,3) g(2)[unfolded One_nat_def] n e c env dlp_response_new_ok_def pi_set_palmos_error_def first_len_def
        del: append.simps append_assoc)
  then show ?thesis using w by blast
qed

lemma exec:
  assumes env: "all_alloc env" and fits: "response_fits res" and v: "version_carries sk (rs_argv res)"
    and rdy: "ready (sk_world sk) d0" and dev: "dev d0 (request_bytes req) = (d, response_bytes res)"
    and lim: "length (request_bytes req) \<le> limit" "length (response_bytes res) \<le> limit"
  shows "\<exists>w. ready w d \<and> dlp_exec env tr req sk =
    (let sk' = sk\<lparr>sk_world := w, sk_palmos_error := rs_err res\<rparr> in
     if \<not> cmd_accepted (rq_cmd req) (rs_cmd res)
     then Some (sk'\<lparr>sk_last_error := PI_ERR_DLP_COMMAND\<rparr>, Some res, PI_ERR_DLP_COMMAND)
     else if rs_err res \<noteq> 0
     then Some (sk'\<lparr>sk_last_error := PI_ERR_DLP_PALMOS\<rparr>, Some res, PI_ERR_DLP_PALMOS)
     else Some (sk', Some res, first_len (rs_argv res)))"
proof -
  let ?len = "length (request_bytes req)"
  have l: "?len < 0x80000000" "length (response_bytes res) < 0x80000000" using lim limit_law by linarith+
  obtain sk1 w1 where 1: "tr_flush tr sk = Some sk1"
    "tr_write tr sk1 (request_bytes req) = Some (sk\<lparr>sk_world := w1\<rparr>, int ?len)" "waiting w1 d (response_bytes res)"
    using write_law[OF rdy lim(1)] dev by auto
  let ?sk = "sk\<lparr>sk_world := w1\<rparr>"
  have ti: "to_int (int ?len) = int ?len" using l(1) by (intro to_int_id) simp_all
  have wr: "dlp_request_write env tr req sk = Some (?sk, int ?len)"
    using env 1(1,2) ti by (simp add: request_write[OF l(1)])
  have ok: "\<not> int ?len < int (length (rq_argv req))"
    using argc_le_bytes[of "rq_argv req"] by (simp add: request_bytes_length)
  have "version_carries ?sk (rs_argv res)" "waiting (sk_world ?sk) d (response_bytes res)"
    using v 1(3) by (simp_all add: version_carries_def)
  then obtain w where w: "ready w d" and r: "dlp_response_read env tr ?sk =
      Some (?sk\<lparr>sk_world := w, sk_palmos_error := rs_err res\<rparr>, Some res, first_len (rs_argv res))"
    using response_read[OF env fits _ _ lim(2)] by blast
  have nn: "\<not> first_len (rs_argv res) < 0" "to_int (first_len (rs_argv res)) = first_len (rs_argv res)"
    using l(2) by (auto simp: first_len_def response_bytes_def arg_bytes_length intro!: to_int_id split: list.split)
  show ?thesis
    by (rule exI[of _ w], rule conjI[OF w], unfold dlp_exec_def wr)
      (use ok r nn ti in \<open>auto simp: cmd_accepted_def Let_def pi_set_error_def pi_set_palmos_error_def\<close>)
qed

end

text \<open>The transport that is the device itself; the protocol's own limit is the largest \<open>int\<close>. The second part of the socket's state is the answer
  that waits to be read.\<close>

definition device_transport :: "('d \<Rightarrow> bytes \<Rightarrow> 'd \<times> bytes) \<Rightarrow> int \<Rightarrow> ('d \<times> bytes) transport" where
  "device_transport dev vers = \<lparr>
     tr_read = (\<lambda>sk buf n.
       let resp = snd (sk_world sk);
           block = resp @ drop (length resp) (case data buf of None \<Rightarrow> [] | Some d \<Rightarrow> d)
       in Some (sk, \<lparr>data = Some block, allocated = length block, used = length resp\<rparr>, int (length resp))),
     tr_write = (\<lambda>sk bs. Some (sk\<lparr>sk_world := dev (fst (sk_world sk)) bs\<rparr>, int (length bs))),
     tr_flush = Some,
     tr_cmp_vers = (\<lambda>_. vers)\<rparr>"

interpretation direct: device_link "device_transport dev vers" "\<lambda>w d. fst w = d" "\<lambda>w d resp. w = (d, resp)" dev "min limit 0x7fffffff"
  for dev vers limit
proof unfold_locales
  show "min limit 0x7fffffff < 0x80000000" by simp
  show "\<exists>sk1 w. tr_flush (device_transport dev vers) sk = Some sk1 \<and>
      tr_write (device_transport dev vers) sk1 rq = Some (sk\<lparr>sk_world := w\<rparr>, int (length rq)) \<and>
      w = (fst (dev d rq), snd (dev d rq))" if "fst (sk_world sk) = d" for sk d rq
    using that by (intro exI[of _ sk] exI[of _ "dev d rq"]) (simp add: device_transport_def)
  show "\<exists>w buf'. tr_read (device_transport dev vers) sk buf n = Some (sk\<lparr>sk_world := w\<rparr>, buf', int (length resp)) \<and>
      fst w = d \<and> pi_buffer_wf buf' \<and> content buf' = resp" if "sk_world sk = (d, resp)" for sk d resp buf n
    using that
    by (intro exI[of _ "(d, resp)"]) (auto simp: device_transport_def pi_buffer_wf_def content_def Let_def)
qed

text \<open>C8: executing a request on a device, where an \<open>int\<close> can count the bytes of the request and of the
  answer, reaches the device with exactly the encoded request and returns the arguments of its
  answer with the length of the first; an error that the device reports or an answer to another command becomes the matching error code, recorded in the
  socket.\<close>

theorem dlp_exec_device:
  assumes "all_alloc env" "response_fits res" "version_carries sk (rs_argv res)"
    "dev (fst (sk_world sk)) (request_bytes req) = (d, response_bytes res)"
    "length (request_bytes req) < 0x80000000" "length (response_bytes res) < 0x80000000"
  shows "\<exists>w. fst w = d \<and> dlp_exec env (device_transport dev vers) req sk =
    (let sk' = sk\<lparr>sk_world := w, sk_palmos_error := rs_err res\<rparr> in
     if \<not> cmd_accepted (rq_cmd req) (rs_cmd res)
     then Some (sk'\<lparr>sk_last_error := PI_ERR_DLP_COMMAND\<rparr>, Some res, PI_ERR_DLP_COMMAND)
     else if rs_err res \<noteq> 0
     then Some (sk'\<lparr>sk_last_error := PI_ERR_DLP_PALMOS\<rparr>, Some res, PI_ERR_DLP_PALMOS)
     else Some (sk', Some res, first_len (rs_argv res)))"
  using assms direct.exec[where limit = "0x7fffffff"
      and dev = dev and sk = sk and d = d and vers = vers and req = req and res = res]
  by simp

definition sample_sock :: "(nat \<times> bytes) pi_sock" where
  "sample_sock = \<lparr>sk_world = (0, []), sk_last_error = 0, sk_palmos_error = 0, sk_cmp = True,
     sk_dlpversion = 0x0102, sk_maxrecsize = 0xffff, sk_dlprecord = 0, sk_honor_rx_to = 1, sk_ended = False\<rparr>"

theorem dlp_request_encoding_witness:
  "dlp_arg_len [\<lparr>arg_id = 0x20, arg_data = [5, 6]\<rparr>] = Some 4 \<and>
   (let req = \<lparr>rq_cmd = 0x17, rq_argv = [\<lparr>arg_id = 0x20, arg_data = [5, 6]\<rparr>]\<rparr> in
    request_block calloc_env req (length (request_bytes req)) = Some (Some [0x17, 1, 0x20, 2, 5, 6]) \<and>
    dlp_request_write calloc_env (device_transport (\<lambda>n bs. (n + 1, bs)) 0) req sample_sock =
      Some (sample_sock\<lparr>sk_world := (1, [0x17, 1, 0x20, 2, 5, 6])\<rparr>, 6))"
proof -
  let ?req = "\<lparr>rq_cmd = 0x17, rq_argv = [\<lparr>arg_id = 0x20, arg_data = [5, 6]\<rparr>]\<rparr>"
  have "request_bytes ?req = [0x17, 1, 0x20, 2, 5, 6]"
    by (simp add: request_bytes_def arg_bytes_def arg_tiny_def PI_DLP_ARG_TINY_LEN_def PI_DLP_ARG_FLAG_SHORT_def
        PI_DLP_ARG_FLAG_LONG_def)
  then show ?thesis
    using dlp_request_encoding[of ?req calloc_env "device_transport (\<lambda>n bs. (n + 1, bs)) 0" sample_sock]
    by (simp add: request_bytes_def Let_def device_transport_def sample_sock_def to_int_id)
qed

theorem dlp_exec_device_witness:
  "\<exists>sk res. dlp_exec calloc_env
       (device_transport (\<lambda>n _. (n + 1, response_bytes \<lparr>rs_cmd = 0x17, rs_err = 0, rs_argv = [\<lparr>arg_id = 0x20, arg_data = [5]\<rparr>]\<rparr>)) 0)
       \<lparr>rq_cmd = 0x17, rq_argv = []\<rparr> sample_sock = Some (sk, Some res, 1) \<and>
     fst (sk_world sk) = 1 \<and> rs_argv res = [\<lparr>arg_id = 0x20, arg_data = [5]\<rparr>]"
proof -
  let ?res = "\<lparr>rs_cmd = 0x17, rs_err = 0, rs_argv = [\<lparr>arg_id = 0x20, arg_data = [5]\<rparr>]\<rparr>"
  have "response_fits ?res" by (simp add: response_fits_def arg_fits_def)
  moreover have "version_carries sample_sock (rs_argv ?res)"
    by (simp add: version_carries_def arg_short_def PI_DLP_ARG_SHORT_LEN_def PI_DLP_ARG_FLAG_LONG_def)
  moreover have "length (request_bytes \<lparr>rq_cmd = 0x17, rq_argv = []\<rparr>) < 0x80000000"
    "length (response_bytes ?res) < 0x80000000"
    by (simp_all add: request_bytes_def response_bytes_def arg_bytes_length)
  ultimately obtain w where "fst w = 1" "dlp_exec calloc_env (device_transport (\<lambda>n _. (n + 1, response_bytes ?res)) 0)
      \<lparr>rq_cmd = 0x17, rq_argv = []\<rparr> sample_sock = Some (sample_sock\<lparr>sk_world := w, sk_palmos_error := 0\<rparr>, Some ?res, 1)"
    using dlp_exec_device[OF all_alloc_calloc, of ?res sample_sock "\<lambda>n _. (n + 1, response_bytes ?res)"
        "\<lparr>rq_cmd = 0x17, rq_argv = []\<rparr>" "1" 0]
    by (auto simp: Let_def cmd_accepted_def first_len_def sample_sock_def)
  then show ?thesis by (intro exI conjI) (assumption, simp_all)
qed

end
