(* ===== verification/DlpDb.thy ===== *)
theory DlpDb
  imports DlpWire
begin

text \<open>
  The calls of the desktop link protocol that concern the device and its databases
  (\<open>libpisock/dlp.c\<close>, from \<open>dlp_ptohdate\<close> to \<open>dlp_ResetDBIndex\<close>). Each call resets the errors
  of the socket, allocates a request, executes it and takes the answer apart;
  \<open>dlp_call\<close> is that common part. A call returns the socket, what its out parameters receive
  and its result; None is undefined behaviour, here a read outside an argument.

  The C library's time functions are the parameter \<open>tz\<close>.
\<close>

record time_env =
  tz_mktime :: "tm \<Rightarrow> int"
  tz_localtime :: "int \<Rightarrow> tm"

section \<open>Dates\<close>

definition PALM_EPOCH :: int where "PALM_EPOCH = 0x83DAC000"

definition zero_tm :: tm where
  "zero_tm = \<lparr>tm_sec = 0, tm_min = 0, tm_hour = 0, tm_mday = 0, tm_mon = 0, tm_year = 0, tm_wday = 0,
     tm_yday = 0, tm_isdst = 0\<rparr>"

definition dlp_ptohdate :: "time_env \<Rightarrow> bytes \<Rightarrow> nat \<Rightarrow> int option" where
  "dlp_ptohdate tz bs i = do {
     d0 \<leftarrow> get_byte bs i; d1 \<leftarrow> get_byte bs (i + 1);
     if d0 = 0 \<and> d1 = 0 then Some PALM_EPOCH
     else do {
       d2 \<leftarrow> get_byte bs (i + 2); d3 \<leftarrow> get_byte bs (i + 3); d4 \<leftarrow> get_byte bs (i + 4);
       d5 \<leftarrow> get_byte bs (i + 5); d6 \<leftarrow> get_byte bs (i + 6);
       Some (tz_mktime tz (zero_tm\<lparr>tm_sec := uint d6, tm_min := uint d5, tm_hour := uint d4,
               tm_mday := uint d3, tm_mon := uint d2 - 1,
               tm_year := (push_bit 8 (uint d0) OR uint d1) - 1900, tm_isdst := -1\<rparr>)) } }"

definition dlp_htopdate :: "time_env \<Rightarrow> int \<Rightarrow> bytes" where
  "dlp_htopdate tz t =
     (if t = PALM_EPOCH then replicate 8 0
      else let tm = tz_localtime tz t; year = tm_year tm + 1900
           in [word_of_int (drop_bit 8 year), word_of_int year, word_of_int (tm_mon tm + 1),
               word_of_int (tm_mday tm), word_of_int (tm_hour tm), word_of_int (tm_min tm),
               word_of_int (tm_sec tm), 0])"

section \<open>The common part of a call\<close>

definition dlp_call ::
  "heap_env \<Rightarrow> 'w transport \<Rightarrow> u8 \<Rightarrow> int \<Rightarrow> bytes list \<Rightarrow> 'w pi_sock \<Rightarrow>
   ('w pi_sock \<times> dlpResponse option \<times> int) option" where
  "dlp_call env tr cmd argid datas sk =
     (case dlp_request_new_with_argid env cmd argid datas of
        None \<Rightarrow> (let (sk, e) = pi_set_error sk PI_ERR_GENERIC_MEMORY in Some (sk, None, e))
      | Some req \<Rightarrow> dlp_exec env tr req sk)"

text \<open>\<open>res->argv[k]->data\<close>, undefined without a response or such an argument.\<close>

definition resp_data :: "dlpResponse option \<Rightarrow> nat \<Rightarrow> bytes option" where
  "resp_data res k = do { r \<leftarrow> res; if k < length (rs_argv r) then Some (arg_data (rs_argv r ! k)) else None }"

text \<open>\<open>strcpy\<close> of a string into a request: its bytes and the NUL.\<close>

definition c_string :: "bytes \<Rightarrow> bytes" where
  "c_string s = s @ [0]"

text \<open>\<open>strncpy(dst, bs + i, n)\<close>.\<close>

definition c_strncpy :: "nat \<Rightarrow> bytes \<Rightarrow> nat \<Rightarrow> bytes option" where
  "c_strncpy n bs i =
     (let s = takeWhile (\<lambda>b. b \<noteq> 0) (take n (drop i bs)) in
      if length s < n \<and> length bs \<le> i + length s then None else Some (s @ replicate (n - length s) 0))"

abbreviation FIRST_ID :: int where "FIRST_ID \<equiv> PI_DLP_ARG_FIRST_ID"

text \<open>A call without out parameters.\<close>

definition dlp_simple ::
  "heap_env \<Rightarrow> 'w transport \<Rightarrow> u8 \<Rightarrow> int \<Rightarrow> bytes list \<Rightarrow> 'w pi_sock \<Rightarrow> ('w pi_sock \<times> int) option" where
  "dlp_simple env tr cmd argid datas sk = do {
     (sk, res, result) \<leftarrow> dlp_call env tr cmd argid datas sk;
     Some (sk, result) }"

section \<open>Time and system information\<close>

definition dlp_GetSysDateTime ::
  "heap_env \<Rightarrow> 'w transport \<Rightarrow> time_env \<Rightarrow> 'w pi_sock \<Rightarrow> ('w pi_sock \<times> int option \<times> int) option" where
  "dlp_GetSysDateTime env tr tz sk = do {
     (sk, res, result) \<leftarrow> dlp_call env tr 0x13 FIRST_ID [] (pi_reset_errors sk);
     if result > 0 then do { d \<leftarrow> resp_data res 0; t \<leftarrow> dlp_ptohdate tz d 0; Some (sk, Some t, result) }
     else Some (sk, None, result) }"

definition dlp_SetSysDateTime ::
  "heap_env \<Rightarrow> 'w transport \<Rightarrow> time_env \<Rightarrow> int \<Rightarrow> 'w pi_sock \<Rightarrow> ('w pi_sock \<times> int) option" where
  "dlp_SetSysDateTime env tr tz t sk =
     dlp_simple env tr 0x14 FIRST_ID [dlp_htopdate tz t] (pi_reset_errors sk)"

record CardInfo =
  ci_card :: int
  ci_version :: int
  ci_more :: bool
  ci_creation :: int
  ci_romSize :: u64
  ci_ramSize :: u64
  ci_ramFree :: u64
  ci_name :: bytes
  ci_manufacturer :: bytes

text \<open>Both names are copied with their length and a NUL into arrays of 128 bytes: a length above
  127 overflows.\<close>

definition dlp_ReadStorageInfo ::
  "heap_env \<Rightarrow> 'w transport \<Rightarrow> time_env \<Rightarrow> int \<Rightarrow> CardInfo \<Rightarrow> 'w pi_sock \<Rightarrow> ('w pi_sock \<times> CardInfo \<times> int) option" where
  "dlp_ReadStorageInfo env tr tz cardno c sk = do {
     (sk, res, result) \<leftarrow> dlp_call env tr 0x15 FIRST_ID [set_byte (word_of_int cardno) @ set_byte 0] (pi_reset_errors sk);
     if result > 0 then do {
       d \<leftarrow> resp_data res 0;
       more \<leftarrow> get_byte d 0; more2 \<leftarrow> get_byte d 3;
       card \<leftarrow> get_byte d 5; version \<leftarrow> get_byte d 6; creation \<leftarrow> dlp_ptohdate tz d 8;
       rom \<leftarrow> get_long d 16; ram \<leftarrow> get_long d 20; free \<leftarrow> get_long d 24;
       len1 \<leftarrow> get_byte d 28; nm \<leftarrow> get_block (unat len1) d 30;
       nm \<leftarrow> poke (ci_name c) 0 (c_string nm);
       len2 \<leftarrow> get_byte d 29; mf \<leftarrow> get_block (unat len2) d (30 + unat len1);
       mf \<leftarrow> poke (ci_manufacturer c) 0 (c_string mf);
       Some (sk, \<lparr>ci_card = uint card, ci_version = uint version, ci_more = (more \<noteq> 0 \<or> 1 < more2),
                  ci_creation = creation, ci_romSize = ucast rom, ci_ramSize = ucast ram,
                  ci_ramFree = ucast free, ci_name = nm, ci_manufacturer = mf\<rparr>, result) }
     else Some (sk, c, result) }"

record SysInfo =
  si_romVersion :: u64
  si_locale :: u64
  si_prodIDLength :: u8
  si_prodID :: bytes
  si_dlpMajorVersion :: u16
  si_dlpMinorVersion :: u16
  si_compatMajorVersion :: u16
  si_compatMinorVersion :: u16
  si_maxRecSize :: u64

text \<open>The protocol version offered is the pair of the globals \<open>dlp_version_major\<close> and
  \<open>dlp_version_minor\<close>.\<close>

definition dlp_ReadSysInfo ::
  "heap_env \<Rightarrow> 'w transport \<Rightarrow> int \<times> int \<Rightarrow> SysInfo \<Rightarrow> 'w pi_sock \<Rightarrow> ('w pi_sock \<times> SysInfo \<times> int) option" where
  "dlp_ReadSysInfo env tr vers s sk = do {
     (sk, res, result) \<leftarrow> dlp_call env tr 0x12 FIRST_ID
        [set_short (word_of_int (fst vers)) @ set_short (word_of_int (snd vers))] (pi_reset_errors sk);
     if result > 0 then do {
       d \<leftarrow> resp_data res 0;
       rom \<leftarrow> get_long d 0; loc \<leftarrow> get_long d 4; len \<leftarrow> get_byte d 9;
       pid \<leftarrow> get_block (unat len) d 10; pid \<leftarrow> poke (si_prodID s) 0 pid;
       let s = s\<lparr>si_romVersion := ucast rom, si_locale := ucast loc, si_prodIDLength := len, si_prodID := pid\<rparr>;
       r \<leftarrow> res;
       if 1 < length (rs_argv r) then do {
         d \<leftarrow> resp_data res 1;
         maj \<leftarrow> get_short d 0; min \<leftarrow> get_short d 2; cmaj \<leftarrow> get_short d 4; cmin \<leftarrow> get_short d 6;
         mx \<leftarrow> get_long d 8;
         Some (sk\<lparr>sk_dlpversion := push_bit 8 (uint maj) OR uint min, sk_maxrecsize := ucast mx\<rparr>,
               s\<lparr>si_dlpMajorVersion := maj, si_dlpMinorVersion := min, si_compatMajorVersion := cmaj,
                 si_compatMinorVersion := cmin, si_maxRecSize := ucast mx\<rparr>, result) }
       else Some (sk, s\<lparr>si_dlpMajorVersion := 0, si_dlpMinorVersion := 0, si_compatMajorVersion := 0,
                        si_compatMinorVersion := 0, si_maxRecSize := 0\<rparr>, result) }
     else Some (sk, s, result) }"

section \<open>Finding databases\<close>

record find_out =
  fo_cardno :: "int option"
  fo_localid :: "u64 option"
  fo_dbhandle :: "int option"
  fo_info :: "DBInfo option"
  fo_size :: "DBSizeInfo option"

text \<open>Which of the pointers are not NULL; \<open>fw_info\<close> and \<open>fw_size\<close> are the structures that two of
  them point to.\<close>

record find_want =
  fw_cardno :: bool
  fw_localid :: bool
  fw_dbhandle :: bool
  fw_info :: "DBInfo option"
  fw_size :: "DBSizeInfo option"

definition decode_find_info :: "time_env \<Rightarrow> DBInfo \<Rightarrow> bytes \<Rightarrow> DBInfo option" where
  "decode_find_info tz info d = do {
     misc \<leftarrow> get_byte d 11; flags \<leftarrow> get_short d 12; type \<leftarrow> get_long d 14; creator \<leftarrow> get_long d 18;
     version \<leftarrow> get_short d 22; modnum \<leftarrow> get_long d 24;
     created \<leftarrow> dlp_ptohdate tz d 28; modified \<leftarrow> dlp_ptohdate tz d 36; backup \<leftarrow> dlp_ptohdate tz d 44;
     index \<leftarrow> get_short d 52;
     name \<leftarrow> c_strncpy 32 d 54;
     name \<leftarrow> poke (di_name info) 0 name;
     name \<leftarrow> poke name 32 [0];
     Some \<lparr>di_more = 0, di_name = name, di_flags = ucast flags, di_miscFlags = ucast misc,
           di_version = ucast version, di_type = ucast type, di_creator = ucast creator,
           di_modnum = ucast modnum, di_index = ucast index, di_createDate = created,
           di_modifyDate = modified, di_backupDate = backup\<rparr> }"

definition decode_find_size :: "bytes \<Rightarrow> DBSizeInfo option" where
  "decode_find_size d = do {
     n \<leftarrow> get_long d 0; tot \<leftarrow> get_long d 4; dat \<leftarrow> get_long d 8; app \<leftarrow> get_long d 12;
     srt \<leftarrow> get_long d 16; mx \<leftarrow> get_long d 20;
     Some \<lparr>ds_numRecords = ucast n, ds_totalBytes = ucast tot, ds_dataBytes = ucast dat,
           ds_appBlockSize = ucast app, ds_sortBlockSize = ucast srt, ds_maxRecSize = ucast mx\<rparr> }"

primrec dlp_decode_finddb_response ::
  "time_env \<Rightarrow> find_want \<Rightarrow> dlpArg list \<Rightarrow> find_out \<Rightarrow> find_out option" where
  "dlp_decode_finddb_response tz w [] out = Some out"
| "dlp_decode_finddb_response tz w (arg # argv) out =
     (let argid = (arg_id arg AND 0x7f) - PI_DLP_ARG_FIRST_ID; d = arg_data arg in
      if argid = 0 then do {
        out \<leftarrow> (if fw_cardno w then do { c \<leftarrow> get_byte d 0; Some (out\<lparr>fo_cardno := Some (uint c)\<rparr>) } else Some out);
        out \<leftarrow> (if fw_localid w then do { l \<leftarrow> get_long d 2; Some (out\<lparr>fo_localid := Some (ucast l)\<rparr>) } else Some out);
        out \<leftarrow> (if fw_dbhandle w then do { h \<leftarrow> get_long d 6; Some (out\<lparr>fo_dbhandle := Some (sint h)\<rparr>) } else Some out);
        out \<leftarrow> (case fw_info w of
                  None \<Rightarrow> Some out
                | Some info \<Rightarrow> do { i \<leftarrow> decode_find_info tz info d; Some (out\<lparr>fo_info := Some i\<rparr>) });
        dlp_decode_finddb_response tz w argv out }
      else if argid = 1 then do {
        out \<leftarrow> (case fw_size w of
                  None \<Rightarrow> Some out
                | Some _ \<Rightarrow> do { s \<leftarrow> decode_find_size d; Some (out\<lparr>fo_size := Some s\<rparr>) });
        dlp_decode_finddb_response tz w argv out }
      else dlp_decode_finddb_response tz w argv out)"

definition no_find_out :: "find_want \<Rightarrow> find_out" where
  "no_find_out w = \<lparr>fo_cardno = None, fo_localid = None, fo_dbhandle = None, fo_info = fw_info w, fo_size = fw_size w\<rparr>"

definition dlpFindDBOptFlagGetAttributes :: u8 where "dlpFindDBOptFlagGetAttributes = 0x80"
definition dlpFindDBOptFlagGetSize :: u8 where "dlpFindDBOptFlagGetSize = 0x40"
definition dlpFindDBOptFlagMaxRecSize :: u8 where "dlpFindDBOptFlagMaxRecSize = 0x20"
definition dlpFindDBSrchFlagNewSearch :: u8 where "dlpFindDBSrchFlagNewSearch = 0x80"
definition dlpFindDBSrchFlagOnlyLatest :: u8 where "dlpFindDBSrchFlagOnlyLatest = 0x40"

text \<open>\<open>if (pi_version(sd) < 0x0102) return pi_set_error(sd, PI_ERR_DLP_UNSUPPORTED)\<close>.\<close>

definition require_version :: "'w transport \<Rightarrow> int \<Rightarrow> 'w pi_sock \<Rightarrow> 'w pi_sock \<times> bool" where
  "require_version tr v sk =
     (let (ver, sk) = pi_version tr sk in
      if ver < v then (fst (pi_set_error sk PI_ERR_DLP_UNSUPPORTED), False) else (sk, True))"

definition find_result ::
  "time_env \<Rightarrow> find_want \<Rightarrow> ('w pi_sock \<times> dlpResponse option \<times> int) option \<Rightarrow> ('w pi_sock \<times> find_out \<times> int) option" where
  "find_result tz w call = do {
     (sk, res, result) \<leftarrow> call;
     if result > 0 then do {
       r \<leftarrow> res;
       out \<leftarrow> dlp_decode_finddb_response tz w (rs_argv r) (no_find_out w);
       Some (sk, out, result) }
     else Some (sk, no_find_out w, result) }"

definition dlp_FindDBByName ::
  "heap_env \<Rightarrow> 'w transport \<Rightarrow> time_env \<Rightarrow> int \<Rightarrow> bytes \<Rightarrow> find_want \<Rightarrow> 'w pi_sock \<Rightarrow> ('w pi_sock \<times> find_out \<times> int) option" where
  "dlp_FindDBByName env tr tz cardno name w sk =
     (let (sk, ok) = require_version tr 0x0102 (pi_reset_errors sk);
          w = w\<lparr>fw_cardno := False\<rparr>;
          flags = (if fw_localid w \<or> fw_dbhandle w \<or> fw_info w \<noteq> None then dlpFindDBOptFlagGetAttributes else 0)
                  OR (if fw_size w \<noteq> None then dlpFindDBOptFlagGetSize else 0)
      in if \<not> ok then Some (sk, no_find_out w, PI_ERR_DLP_UNSUPPORTED)
         else find_result tz w
           (dlp_call env tr 0x39 FIRST_ID
              [set_byte flags @ set_byte (word_of_int cardno) @ c_string name] sk))"

definition dlp_FindDBByOpenHandle ::
  "heap_env \<Rightarrow> 'w transport \<Rightarrow> time_env \<Rightarrow> int \<Rightarrow> find_want \<Rightarrow> 'w pi_sock \<Rightarrow> ('w pi_sock \<times> find_out \<times> int) option" where
  "dlp_FindDBByOpenHandle env tr tz dbhandle w sk =
     (let (sk, ok) = require_version tr 0x0102 (pi_reset_errors sk);
          w = w\<lparr>fw_dbhandle := False\<rparr>;
          flags = (if fw_cardno w \<or> fw_localid w \<or> fw_info w \<noteq> None then dlpFindDBOptFlagGetAttributes else 0)
                  OR (if fw_size w \<noteq> None then dlpFindDBOptFlagGetSize else 0)
      in if \<not> ok then Some (sk, no_find_out w, PI_ERR_DLP_UNSUPPORTED)
         else find_result tz w
           (dlp_call env tr 0x39 0x21 [set_byte flags @ set_byte (word_of_int dbhandle)] sk))"

definition dlp_FindDBByTypeCreator ::
  "heap_env \<Rightarrow> 'w transport \<Rightarrow> time_env \<Rightarrow> u64 \<Rightarrow> u64 \<Rightarrow> bool \<Rightarrow> bool \<Rightarrow> find_want \<Rightarrow> 'w pi_sock \<Rightarrow>
   ('w pi_sock \<times> find_out \<times> int) option" where
  "dlp_FindDBByTypeCreator env tr tz type creator start latest w sk =
     (let (sk, ok) = require_version tr 0x0102 (pi_reset_errors sk);
          flags = (if fw_cardno w \<or> fw_localid w \<or> fw_dbhandle w \<or> fw_info w \<noteq> None
                   then dlpFindDBOptFlagGetAttributes else 0)
                  OR (if fw_size w \<noteq> None then dlpFindDBOptFlagGetSize OR dlpFindDBOptFlagMaxRecSize else 0);
          search = (if start then dlpFindDBSrchFlagNewSearch else 0)
                   OR (if latest then dlpFindDBSrchFlagOnlyLatest else 0)
      in if \<not> ok then Some (sk, no_find_out w, PI_ERR_DLP_UNSUPPORTED)
         else find_result tz w
           (dlp_call env tr 0x39 0x22
              [set_byte flags @ set_byte search @ set_long (ucast type) @ set_long (ucast creator)] sk))"

section \<open>Opening, creating, deleting\<close>

definition dlp_OpenDB ::
  "heap_env \<Rightarrow> 'w transport \<Rightarrow> int \<Rightarrow> int \<Rightarrow> bytes \<Rightarrow> 'w pi_sock \<Rightarrow> ('w pi_sock \<times> int option \<times> int) option" where
  "dlp_OpenDB env tr cardno mode name sk = do {
     (sk, res, result) \<leftarrow> dlp_call env tr 0x17 FIRST_ID
        [set_byte (word_of_int cardno) @ set_byte (word_of_int mode) @ c_string name] (pi_reset_errors sk);
     if result > 0 then do { d \<leftarrow> resp_data res 0; h \<leftarrow> get_byte d 0; Some (sk, Some (uint h), result) }
     else Some (sk, None, result) }"

definition dlp_DeleteDB ::
  "heap_env \<Rightarrow> 'w transport \<Rightarrow> int \<Rightarrow> bytes \<Rightarrow> 'w pi_sock \<Rightarrow> ('w pi_sock \<times> int) option" where
  "dlp_DeleteDB env tr cardno name sk =
     dlp_simple env tr 0x1a FIRST_ID [set_byte (word_of_int cardno) @ set_byte 0 @ c_string name] (pi_reset_errors sk)"

definition dlp_CreateDB ::
  "heap_env \<Rightarrow> 'w transport \<Rightarrow> u64 \<Rightarrow> u64 \<Rightarrow> int \<Rightarrow> u32 \<Rightarrow> u32 \<Rightarrow> bytes \<Rightarrow> 'w pi_sock \<Rightarrow>
   ('w pi_sock \<times> int option \<times> int) option" where
  "dlp_CreateDB env tr creator type cardno flags version name sk = do {
     (sk, res, result) \<leftarrow> dlp_call env tr 0x18 FIRST_ID
        [set_long (ucast creator) @ set_long (ucast type) @ set_byte (word_of_int cardno) @ set_byte 0 @
         set_short (ucast flags) @ set_short (ucast version) @ c_string name] (pi_reset_errors sk);
     if result > 0 then do { d \<leftarrow> resp_data res 0; h \<leftarrow> get_byte d 0; Some (sk, Some (uint h), result) }
     else Some (sk, None, result) }"

definition dlp_CloseDB :: "heap_env \<Rightarrow> 'w transport \<Rightarrow> int \<Rightarrow> 'w pi_sock \<Rightarrow> ('w pi_sock \<times> int) option" where
  "dlp_CloseDB env tr dbhandle sk =
     dlp_simple env tr 0x19 FIRST_ID [set_byte (word_of_int dbhandle)] (pi_reset_errors sk)"

definition dlp_CloseDB_All :: "heap_env \<Rightarrow> 'w transport \<Rightarrow> 'w pi_sock \<Rightarrow> ('w pi_sock \<times> int) option" where
  "dlp_CloseDB_All env tr sk = dlp_simple env tr 0x19 0x21 [] (pi_reset_errors sk)"

section \<open>Applications and the session\<close>

text \<open>\<open>length + k > DLP_BUF_SIZE\<close>: the result is -131, whatever the error code says. The second
  half of each branch takes the answer apart; its length is that of the first argument less
  the header, an unsigned subtraction.\<close>

definition call_app_result ::
  "nat \<Rightarrow> (bytes \<Rightarrow> u64 option) \<Rightarrow> heap_env \<Rightarrow> bool \<Rightarrow> pi_buffer option \<Rightarrow> 'w pi_sock \<Rightarrow> dlpResponse option \<Rightarrow> int \<Rightarrow>
   ('w pi_sock \<times> u64 option \<times> pi_buffer option \<times> int) option" where
  "call_app_result hdr code env want_code retbuf sk res result =
     (if result > 0 then do {
        d \<leftarrow> resp_data res 0;
        let data_len = size_sub (length d) hdr;
        retcode \<leftarrow> (if want_code then do { c \<leftarrow> code d; Some (Some c) } else Some None);
        retbuf \<leftarrow> (case retbuf of
                     None \<Rightarrow> Some None
                   | Some buf \<Rightarrow> do { bs \<leftarrow> get_block data_len d hdr; (buf, ok) \<leftarrow> pi_buffer_append env buf bs; Some (Some buf) });
        Some (sk, retcode, retbuf, result) }
      else Some (sk, None, retbuf, result))"

definition dlp_CallApplication ::
  "heap_env \<Rightarrow> 'w transport \<Rightarrow> u64 \<Rightarrow> u64 \<Rightarrow> int \<Rightarrow> bytes \<Rightarrow> bool \<Rightarrow> pi_buffer option \<Rightarrow> 'w pi_sock \<Rightarrow>
   ('w pi_sock \<times> u64 option \<times> pi_buffer option \<times> int) option" where
  "dlp_CallApplication env tr creator type action bs want_code retbuf sk =
     (let (version, sk) = pi_version tr sk;
          sk = pi_reset_errors sk;
          retbuf = map_option (pi_buffer_clear env) retbuf;
          previous = sk_honor_rx_to sk;
          n = length bs
      in if 0x0101 \<le> version
         then (if DLP_BUF_SIZE < n + 22
               then Some (fst (pi_set_error sk PI_ERR_DLP_DATASIZE), None, retbuf, -131)
               else case dlp_request_new_with_argid env 0x28 0x21
                      [set_long (ucast creator) @ set_long (ucast type) @ set_short (word_of_int action) @
                       set_long (of_nat n) @ set_long 0 @ set_long 0 @ bs] of
                  None \<Rightarrow> (let (sk, e) = pi_set_error sk PI_ERR_GENERIC_MEMORY in Some (sk, None, retbuf, e))
                | Some req \<Rightarrow> do {
                    (sk, res, result) \<leftarrow> dlp_exec env tr req (sk\<lparr>sk_honor_rx_to := 0\<rparr>);
                    let sk = sk\<lparr>sk_honor_rx_to := previous\<rparr>;
                    call_app_result 16 (\<lambda>d. map_option ucast (get_long d 0)) env want_code retbuf sk res result })
         else (if DLP_BUF_SIZE < n + 8
               then Some (fst (pi_set_error sk PI_ERR_DLP_DATASIZE), None, retbuf, -131)
               else case dlp_request_new env 0x28
                      [set_long (ucast creator) @ set_short (word_of_int action) @ set_short (of_nat n) @ bs] of
                  None \<Rightarrow> (let (sk, e) = pi_set_error sk PI_ERR_GENERIC_MEMORY in Some (sk, None, retbuf, e))
                | Some req \<Rightarrow> do {
                    (sk, res, result) \<leftarrow> dlp_exec env tr req (sk\<lparr>sk_honor_rx_to := 0\<rparr>);
                    let sk = sk\<lparr>sk_honor_rx_to := previous\<rparr>;
                    call_app_result 6 (\<lambda>d. map_option ucast (get_short d 2)) env want_code retbuf sk res result }))"

text \<open>The request is executed before its allocation is tested: without memory the call
  dereferences NULL.\<close>

definition dlp_ResetSystem :: "heap_env \<Rightarrow> 'w transport \<Rightarrow> 'w pi_sock \<Rightarrow> ('w pi_sock \<times> int) option" where
  "dlp_ResetSystem env tr sk = do {
     req \<leftarrow> dlp_request_new env 0x29 [];
     (sk, res, result) \<leftarrow> dlp_exec env tr req (pi_reset_errors sk);
     Some (sk, result) }"

definition dlp_AddSyncLogEntry ::
  "heap_env \<Rightarrow> 'w transport \<Rightarrow> bytes \<Rightarrow> 'w pi_sock \<Rightarrow> ('w pi_sock \<times> int) option" where
  "dlp_AddSyncLogEntry env tr entry sk = dlp_simple env tr 0x2a FIRST_ID [c_string entry] (pi_reset_errors sk)"

definition dlp_ReadOpenDBInfo ::
  "heap_env \<Rightarrow> 'w transport \<Rightarrow> int \<Rightarrow> 'w pi_sock \<Rightarrow> ('w pi_sock \<times> int option \<times> int) option" where
  "dlp_ReadOpenDBInfo env tr dbhandle sk = do {
     (sk, res, result) \<leftarrow> dlp_call env tr 0x2b FIRST_ID [set_byte (word_of_int dbhandle)] (pi_reset_errors sk);
     if result > 0 then do { d \<leftarrow> resp_data res 0; n \<leftarrow> get_short d 0; Some (sk, Some (uint n), result) }
     else Some (sk, None, result) }"

definition dlp_SetDBInfo ::
  "heap_env \<Rightarrow> 'w transport \<Rightarrow> time_env \<Rightarrow> int \<Rightarrow> int \<Rightarrow> int \<Rightarrow> u32 \<Rightarrow> int \<Rightarrow> int \<Rightarrow> int \<Rightarrow> u64 \<Rightarrow> u64 \<Rightarrow> 'w pi_sock \<Rightarrow>
   ('w pi_sock \<times> int) option" where
  "dlp_SetDBInfo env tr tz dbhandle flags clearFlags version created modified backup type creator sk =
     (let (sk, ok) = require_version tr 0x0102 (pi_reset_errors sk) in
      if \<not> ok then Some (sk, PI_ERR_DLP_UNSUPPORTED)
      else dlp_simple env tr 0x3a FIRST_ID
        [set_byte (word_of_int dbhandle) @ set_byte 0 @ set_short (word_of_int clearFlags) @
         set_short (word_of_int flags) @ set_short (ucast version) @ dlp_htopdate tz created @
         dlp_htopdate tz modified @ dlp_htopdate tz backup @ set_long (ucast type) @ set_long (ucast creator)] sk)"

definition dlp_MoveCategory ::
  "heap_env \<Rightarrow> 'w transport \<Rightarrow> int \<Rightarrow> int \<Rightarrow> int \<Rightarrow> 'w pi_sock \<Rightarrow> ('w pi_sock \<times> int) option" where
  "dlp_MoveCategory env tr handle fromcat tocat sk =
     dlp_simple env tr 0x2c FIRST_ID
       [set_byte (word_of_int handle) @ set_byte (word_of_int fromcat) @ set_byte (word_of_int tocat) @ set_byte 0]
       (pi_reset_errors sk)"

definition dlp_OpenConduit :: "heap_env \<Rightarrow> 'w transport \<Rightarrow> 'w pi_sock \<Rightarrow> ('w pi_sock \<times> int) option" where
  "dlp_OpenConduit env tr sk = do {
     (sk, result) \<leftarrow> dlp_simple env tr 0x2e FIRST_ID [] (pi_reset_errors sk);
     Some (if 0 \<le> result then snd (pi_version tr sk) else sk, result) }"

definition dlp_EndOfSync :: "heap_env \<Rightarrow> 'w transport \<Rightarrow> int \<Rightarrow> 'w pi_sock \<Rightarrow> ('w pi_sock \<times> int) option" where
  "dlp_EndOfSync env tr status sk = do {
     (sk, result) \<leftarrow> dlp_simple env tr 0x2f FIRST_ID [set_short (word_of_int status)] (pi_reset_errors sk);
     Some (if result = 0 then sk\<lparr>sk_ended := True\<rparr> else sk, result) }"

definition dlp_AbortSync :: "'w pi_sock \<Rightarrow> 'w pi_sock \<times> int" where
  "dlp_AbortSync sk = ((pi_reset_errors sk)\<lparr>sk_ended := True\<rparr>, 0)"

section \<open>The user\<close>

record PilotUser =
  pu_passwordLength :: nat
  pu_username :: bytes
  pu_password :: bytes
  pu_userID :: u64
  pu_viewerID :: u64
  pu_lastSyncPC :: u64
  pu_successfulSyncDate :: int
  pu_lastSyncDate :: int

definition dlp_WriteUserInfo ::
  "heap_env \<Rightarrow> 'w transport \<Rightarrow> time_env \<Rightarrow> PilotUser \<Rightarrow> 'w pi_sock \<Rightarrow> ('w pi_sock \<times> int) option" where
  "dlp_WriteUserInfo env tr tz user sk = do {
     name \<leftarrow> get_cstr (pu_username user) 0;
     dlp_simple env tr 0x11 FIRST_ID
       [set_long (ucast (pu_userID user)) @ set_long (ucast (pu_viewerID user)) @
        set_long (ucast (pu_lastSyncPC user)) @ dlp_htopdate tz (pu_lastSyncDate user) @ set_byte 0xff @
        set_byte (of_nat (length name + 1)) @ c_string name] (pi_reset_errors sk) }"

text \<open>A name or password that fills its array of 128 bytes is left without a NUL; a longer one
  would be written behind it, which is undefined.\<close>

definition copy_counted :: "bytes \<Rightarrow> bytes \<Rightarrow> bytes option" where
  "copy_counted dst s = do {
     dst \<leftarrow> poke dst 0 s;
     if length s < length dst then poke dst (length s) [0] else Some dst }"

definition dlp_ReadUserInfo ::
  "heap_env \<Rightarrow> 'w transport \<Rightarrow> time_env \<Rightarrow> PilotUser \<Rightarrow> 'w pi_sock \<Rightarrow> ('w pi_sock \<times> PilotUser \<times> int) option" where
  "dlp_ReadUserInfo env tr tz user sk = do {
     (sk, res, result) \<leftarrow> dlp_call env tr 0x10 FIRST_ID [] (pi_reset_errors sk);
     if result > 0 then do {
       d \<leftarrow> resp_data res 0;
       uid \<leftarrow> get_long d 0; vid \<leftarrow> get_long d 4; pc \<leftarrow> get_long d 8;
       ok_date \<leftarrow> dlp_ptohdate tz d 12; last_date \<leftarrow> dlp_ptohdate tz d 20;
       ulen \<leftarrow> get_byte d 28; plen \<leftarrow> get_byte d 29;
       name \<leftarrow> get_block (unat ulen) d 30; pass \<leftarrow> get_block (unat plen) d (30 + unat ulen);
       name \<leftarrow> copy_counted (pu_username user) name;
       pass \<leftarrow> copy_counted (pu_password user) pass;
       Some (sk, \<lparr>pu_passwordLength = unat plen, pu_username = name, pu_password = pass,
                  pu_userID = ucast uid, pu_viewerID = ucast vid, pu_lastSyncPC = ucast pc,
                  pu_successfulSyncDate = ok_date, pu_lastSyncDate = last_date\<rparr>, result) }
     else Some (sk, user, result) }"

text \<open>\<open>user\<close> is the uninitialised structure on the stack of the call.\<close>

definition dlp_ResetLastSyncPC ::
  "heap_env \<Rightarrow> 'w transport \<Rightarrow> time_env \<Rightarrow> PilotUser \<Rightarrow> 'w pi_sock \<Rightarrow> ('w pi_sock \<times> int) option" where
  "dlp_ResetLastSyncPC env tr tz user sk = do {
     (sk, user, err) \<leftarrow> dlp_ReadUserInfo env tr tz user sk;
     if err < 0 then Some (sk, err)
     else dlp_WriteUserInfo env tr tz (user\<lparr>pu_lastSyncPC := 0\<rparr>) sk }"

record NetSyncInfo =
  ni_lanSync :: int
  ni_hostName :: bytes
  ni_hostAddress :: bytes
  ni_hostSubnetMask :: bytes

text \<open>Unlike the other calls this one also reads the answer when its first argument is empty
  or missing.\<close>

definition dlp_ReadNetSyncInfo ::
  "heap_env \<Rightarrow> 'w transport \<Rightarrow> NetSyncInfo \<Rightarrow> 'w pi_sock \<Rightarrow> ('w pi_sock \<times> NetSyncInfo \<times> int) option" where
  "dlp_ReadNetSyncInfo env tr i sk =
     (let (sk, ok) = require_version tr 0x0101 (pi_reset_errors sk) in
      if \<not> ok then Some (sk, i, PI_ERR_DLP_UNSUPPORTED)
      else do {
        (sk, res, result) \<leftarrow> dlp_call env tr 0x36 FIRST_ID [] sk;
        if result \<ge> 0 then do {
          d \<leftarrow> resp_data res 0;
          lan \<leftarrow> get_byte d 0; l1 \<leftarrow> get_short d 18; l2 \<leftarrow> get_short d 20; l3 \<leftarrow> get_short d 22;
          h \<leftarrow> poke (ni_hostName i) 0 [0]; s1 \<leftarrow> get_block (unat l1) d 24; h \<leftarrow> poke h 0 s1;
          a \<leftarrow> poke (ni_hostAddress i) 0 [0]; s2 \<leftarrow> get_block (unat l2) d (24 + unat l1); a \<leftarrow> poke a 0 s2;
          m \<leftarrow> poke (ni_hostSubnetMask i) 0 [0]; s3 \<leftarrow> get_block (unat l3) d (24 + unat l1 + unat l2);
          m \<leftarrow> poke m 0 s3;
          Some (sk, \<lparr>ni_lanSync = uint lan, ni_hostName = h, ni_hostAddress = a, ni_hostSubnetMask = m\<rparr>, result) }
        else Some (sk, i, result) })"

definition dlp_WriteNetSyncInfo ::
  "heap_env \<Rightarrow> 'w transport \<Rightarrow> NetSyncInfo \<Rightarrow> 'w pi_sock \<Rightarrow> ('w pi_sock \<times> int) option" where
  "dlp_WriteNetSyncInfo env tr i sk =
     (let (sk, ok) = require_version tr 0x0101 (pi_reset_errors sk) in
      if \<not> ok then Some (sk, PI_ERR_DLP_UNSUPPORTED)
      else do {
        h \<leftarrow> get_cstr (ni_hostName i) 0; a \<leftarrow> get_cstr (ni_hostAddress i) 0; m \<leftarrow> get_cstr (ni_hostSubnetMask i) 0;
        dlp_simple env tr 0x37 FIRST_ID
          [set_byte 0xf0 @ set_byte (word_of_int (ni_lanSync i)) @ set_long 0 @ set_long 0 @ set_long 0 @ set_long 0 @
           set_short (of_nat (length h + 1)) @ set_short (of_nat (length a + 1)) @ set_short (of_nat (length m + 1)) @
           c_string h @ c_string a @ c_string m] sk })"

definition dlp_ResetDBIndex :: "heap_env \<Rightarrow> 'w transport \<Rightarrow> int \<Rightarrow> 'w pi_sock \<Rightarrow> ('w pi_sock \<times> int) option" where
  "dlp_ResetDBIndex env tr dbhandle sk =
     dlp_simple env tr 0x30 FIRST_ID [set_byte (word_of_int dbhandle)] ((pi_reset_errors sk)\<lparr>sk_dlprecord := 0\<rparr>)"

end
