(* ===== verification/DlpRec.thy ===== *)
theory DlpRec
  imports DlpDb
begin

text \<open>
  The calls of the desktop link protocol on the contents of an open database
  (\<open>libpisock/dlp.c\<close>, from \<open>dlp_ReadRecordIDList\<close> to \<open>dlp_ReadRecordByIndex\<close>): records,
  resources, the AppInfo and SortInfo blocks and the preferences. A large record is read in two
  parts because some devices fail on a read of the maximal size.
\<close>

definition RECORD_READ_SAFEGUARD_SIZE :: int where "RECORD_READ_SAFEGUARD_SIZE = 100"

text \<open>\<open>pi_buffer_append(buf, data + off, (size_t) n)\<close> with an \<open>int\<close> count, whose result is not
  tested: the copy is undefined when it leaves the argument.\<close>

definition append_counted :: "heap_env \<Rightarrow> pi_buffer \<Rightarrow> bytes \<Rightarrow> nat \<Rightarrow> int \<Rightarrow> pi_buffer option" where
  "append_counted env buf d off n =
     (let k = nat (n mod 2 ^ 64); (b, ok) = pi_buffer_expect env buf k in
      if \<not> ok then Some b
      else do { bs \<leftarrow> get_block k d off; (b, ok) \<leftarrow> pi_buffer_append env buf bs; Some b })"

definition clear_append :: "heap_env \<Rightarrow> pi_buffer \<Rightarrow> bytes \<Rightarrow> nat \<Rightarrow> int \<Rightarrow> pi_buffer option" where
  "clear_append env buf d off n = append_counted env (pi_buffer_clear env buf) d off n"

text \<open>The length of an answer's data without its header, as an \<open>int\<close>.\<close>

definition payload_len :: "bytes \<Rightarrow> nat \<Rightarrow> int" where
  "payload_len d hdr = to_int (int (length d) - int hdr)"

text \<open>An out parameter that may be NULL.\<close>

definition fetch :: "bool \<Rightarrow> 'a option \<Rightarrow> 'a option option" where
  "fetch want v = (if want then map_option Some v else Some None)"

record rec_want =
  rw_id :: bool
  rw_index :: bool
  rw_attr :: bool
  rw_cat :: bool

record rec_out =
  rc_id :: "u64 option"
  rc_index :: "int option"
  rc_attr :: "int option"
  rc_cat :: "int option"

definition no_rec_out :: rec_out where
  "no_rec_out = \<lparr>rc_id = None, rc_index = None, rc_attr = None, rc_cat = None\<rparr>"

definition want_all :: rec_want where
  "want_all = \<lparr>rw_id = True, rw_index = True, rw_attr = True, rw_cat = True\<rparr>"

text \<open>Reads the fields of a record's header; \<open>attr_off\<close> is where the attributes stand.\<close>

definition read_outs :: "rec_want \<Rightarrow> bytes \<Rightarrow> nat \<Rightarrow> rec_out option" where
  "read_outs w d attr_off = do {
     i \<leftarrow> fetch (rw_id w) (map_option ucast (get_long d 0));
     x \<leftarrow> fetch (rw_index w) (map_option uint (get_short d 4));
     a \<leftarrow> fetch (rw_attr w) (map_option uint (get_byte d attr_off));
     c \<leftarrow> fetch (rw_cat w) (map_option uint (get_byte d (attr_off + 1)));
     Some \<lparr>rc_id = i, rc_index = x, rc_attr = a, rc_cat = c\<rparr> }"

text \<open>\<open>pi_maxrecsize(sd) - RECORD_READ_SAFEGUARD_SIZE\<close>, computed in \<open>unsigned long\<close>.\<close>

definition max_buffer :: "'w transport \<Rightarrow> 'w pi_sock \<Rightarrow> int \<times> 'w pi_sock" where
  "max_buffer tr sk =
     (let (m, sk) = pi_maxrecsize tr sk
      in (to_int (uint (m - word_of_int RECORD_READ_SAFEGUARD_SIZE)), sk))"

section \<open>Identifiers, deletion, writing\<close>

definition dlp_ReadRecordIDList ::
  "heap_env \<Rightarrow> 'w transport \<Rightarrow> int \<Rightarrow> bool \<Rightarrow> int \<Rightarrow> int \<Rightarrow> u64 list \<Rightarrow> 'w pi_sock \<Rightarrow>
   ('w pi_sock \<times> u64 list \<times> int option \<times> int) option" where
  "dlp_ReadRecordIDList env tr dbhandle srt start max_ids ids sk = do {
     (sk, res, result) \<leftarrow> dlp_call env tr 0x31 FIRST_ID
        [set_byte (word_of_int dbhandle) @ set_byte (if srt then 0x80 else 0) @
         set_short (word_of_int start) @ set_short (word_of_int max_ids)] (pi_reset_errors sk);
     if result > 0 then do {
       d \<leftarrow> resp_data res 0;
       n \<leftarrow> get_short d 0;
       vs \<leftarrow> get_array get_long 4 (unat n) d 2;
       if length ids < length vs then None
       else Some (sk, map ucast vs @ drop (length vs) ids, Some (uint n), result) }
     else Some (sk, ids, None, result) }"

text \<open>\<open>length\<close> counts the bytes of \<open>src\<close>; the value -1, for a string, is its length with the NUL.\<close>

definition dlp_WriteRecord ::
  "heap_env \<Rightarrow> 'w transport \<Rightarrow> int \<Rightarrow> int \<Rightarrow> u64 \<Rightarrow> int \<Rightarrow> bytes \<Rightarrow> nat \<Rightarrow> 'w pi_sock \<Rightarrow>
   ('w pi_sock \<times> u64 option \<times> int) option" where
  "dlp_WriteRecord env tr dbhandle flags recID catID src len sk =
     (let sk = pi_reset_errors sk in do {
        len \<leftarrow> (if len = 2 ^ 64 - 1 then map_option (\<lambda>s. length s + 1) (get_cstr src 0) else Some len);
        let (v, sk) = pi_version tr sk;
        if v < 0x0104 \<and> DLP_BUF_SIZE < len + 8 then Some (sk, None, PI_ERR_DLP_DATASIZE)
        else do {
          bs \<leftarrow> get_block len src 0;
          let hd = set_byte (word_of_int dbhandle) @ set_byte 0x80 @ set_long (ucast recID) @
                   set_byte (word_of_int flags) @ set_byte (word_of_int catID);
          (sk, res, result) \<leftarrow>
            (if 0x0104 \<le> v then dlp_call env tr 0x5e FIRST_ID [hd @ set_long 0 @ bs] sk
             else dlp_call env tr 0x21 FIRST_ID [hd @ bs] sk);
          if result > 0 then do { d \<leftarrow> resp_data res 0; i \<leftarrow> get_long d 0; Some (sk, Some (ucast i), result) }
          else Some (sk, None, result) } })"

definition dlp_DeleteRecord ::
  "heap_env \<Rightarrow> 'w transport \<Rightarrow> int \<Rightarrow> bool \<Rightarrow> u64 \<Rightarrow> 'w pi_sock \<Rightarrow> ('w pi_sock \<times> int) option" where
  "dlp_DeleteRecord env tr dbhandle all recID sk =
     dlp_simple env tr 0x22 FIRST_ID
       [set_byte (word_of_int dbhandle) @ set_byte (if all then 0x80 else 0) @ set_long (ucast recID)]
       (pi_reset_errors sk)"

section \<open>Reading records\<close>

definition record_by_id_request :: "int \<Rightarrow> u64 \<Rightarrow> int \<Rightarrow> int \<Rightarrow> bytes" where
  "record_by_id_request dbhandle recuid off n =
     set_byte (word_of_int dbhandle) @ set_byte 0 @ set_long (ucast recuid) @ set_short (word_of_int off) @
     set_short (word_of_int n)"

text \<open>Without memory for the second request the answer to the first is freed twice.\<close>

definition dlp_ReadRecordById ::
  "heap_env \<Rightarrow> 'w transport \<Rightarrow> int \<Rightarrow> u64 \<Rightarrow> rec_want \<Rightarrow> pi_buffer option \<Rightarrow> 'w pi_sock \<Rightarrow>
   ('w pi_sock \<times> rec_out \<times> pi_buffer option \<times> int) option" where
  "dlp_ReadRecordById env tr dbhandle recuid w buffer sk =
     (let (maxb, sk) = max_buffer tr sk; sk = pi_reset_errors sk in do {
        (sk, res, result) \<leftarrow> dlp_call env tr dlpFuncReadRecord FIRST_ID
           [record_by_id_request dbhandle recuid 0 (if buffer = None then 0 else maxb)] sk;
        if result > 0 then do {
          d \<leftarrow> resp_data res 0;
          let result = payload_len d 10;
          out \<leftarrow> read_outs (w\<lparr>rw_id := False\<rparr>) d 8;
          case buffer of
            None \<Rightarrow> Some (sk, out, None, result)
          | Some buf \<Rightarrow> do {
              buf \<leftarrow> clear_append env buf d 10 result;
              if result = maxb then do {
                req \<leftarrow> dlp_request_new env dlpFuncReadRecord
                  [record_by_id_request dbhandle recuid maxb RECORD_READ_SAFEGUARD_SIZE];
                (sk, res, result) \<leftarrow> dlp_exec env tr req sk;
                if result > 0 then do {
                  d \<leftarrow> resp_data res 0;
                  let result = payload_len d 10;
                  buf \<leftarrow> append_counted env buf d 10 result;
                  Some (sk, out, Some buf, to_int (result + maxb)) }
                else Some (sk, out, Some buf, result) }
              else Some (sk, out, Some buf, result) } }
        else Some (sk, no_rec_out, buffer, result) })"

definition record_by_index_request :: "int \<Rightarrow> int \<Rightarrow> int \<Rightarrow> int \<Rightarrow> bytes" where
  "record_by_index_request dbhandle recindex off n =
     set_byte (word_of_int dbhandle) @ set_byte 0 @ set_short (word_of_int recindex) @ set_short (word_of_int off) @
     set_short (word_of_int n)"

definition dlp_ReadRecordByIndex ::
  "heap_env \<Rightarrow> 'w transport \<Rightarrow> int \<Rightarrow> int \<Rightarrow> rec_want \<Rightarrow> pi_buffer option \<Rightarrow> 'w pi_sock \<Rightarrow>
   ('w pi_sock \<times> rec_out \<times> pi_buffer option \<times> int) option" where
  "dlp_ReadRecordByIndex env tr dbhandle recindex w buffer sk =
     (let (maxb, sk) = max_buffer tr sk; sk = pi_reset_errors sk;
          (v, sk) = pi_version tr sk; large = (0x0104 \<le> v);
          hdr = (if large then 14 else 10)
      in do {
        (sk, res, result) \<leftarrow>
          (if large
           then (let (m, sk) = pi_maxrecsize tr sk in
                 dlp_call env tr dlpFuncReadRecordEx 0x21
                   [set_byte (word_of_int dbhandle) @ set_byte 0 @ set_short (word_of_int recindex) @ set_long 0 @
                    set_long (ucast m)] sk)
           else dlp_call env tr dlpFuncReadRecord 0x21
                  [record_by_index_request dbhandle recindex 0 (if buffer = None then 0 else maxb)] sk);
        if result > 0 then do {
          d \<leftarrow> resp_data res 0;
          let result = payload_len d hdr;
          out \<leftarrow> read_outs (w\<lparr>rw_index := False\<rparr>) d (if large then 12 else 8);
          case buffer of
            None \<Rightarrow> Some (sk, out, None, result)
          | Some buf \<Rightarrow> do {
              buf \<leftarrow> clear_append env buf d hdr result;
              if result = maxb \<and> \<not> large then do {
                req \<leftarrow> dlp_request_new_with_argid env dlpFuncReadRecord 0x21
                  [record_by_index_request dbhandle recindex maxb RECORD_READ_SAFEGUARD_SIZE];
                (sk, res, result) \<leftarrow> dlp_exec env tr req sk;
                if result > 0 then do {
                  d \<leftarrow> resp_data res 0;
                  let result = payload_len d hdr;
                  buf \<leftarrow> append_counted env buf d hdr result;
                  Some (sk, out, Some buf, to_int (result + maxb)) }
                else Some (sk, out, Some buf, result) }
              else Some (sk, out, Some buf, result) } }
        else Some (sk, no_rec_out, buffer, result) })"

text \<open>The emulation of \<open>dlp_DeleteCategory\<close> for Palm OS 1.0 runs until the device reports the end
  of the database; not returning is None, as undefined behaviour is. A record that was deleted
  moves to the end, so its index is looked at again.\<close>

partial_function (option) delete_category_loop ::
  "heap_env \<Rightarrow> 'w transport \<Rightarrow> int \<Rightarrow> int \<Rightarrow> int \<Rightarrow> 'w pi_sock \<Rightarrow> ('w pi_sock \<times> int) option" where
  "delete_category_loop env tr dbhandle category i sk = do {
     (sk, out, buf, result) \<leftarrow> dlp_ReadRecordByIndex env tr dbhandle i want_all None sk;
     if result < 0 then Some (sk, result)
     else do {
       cat \<leftarrow> rc_cat out; attr \<leftarrow> rc_attr out; recID \<leftarrow> rc_id out;
       if cat \<noteq> category \<or> attr AND uint dlpRecAttrDeleted \<noteq> 0 \<or> attr AND uint dlpRecAttrArchived \<noteq> 0
       then delete_category_loop env tr dbhandle category (i + 1) sk
       else do {
         (sk, result) \<leftarrow> dlp_DeleteRecord env tr dbhandle False recID sk;
         if result < 0 then Some (sk, result)
         else delete_category_loop env tr dbhandle category i sk } } }"

definition dlp_DeleteCategory ::
  "heap_env \<Rightarrow> 'w transport \<Rightarrow> int \<Rightarrow> int \<Rightarrow> 'w pi_sock \<Rightarrow> ('w pi_sock \<times> int) option" where
  "dlp_DeleteCategory env tr dbhandle category sk =
     (let (v, sk) = pi_version tr (pi_reset_errors sk) in
      if v < 0x0101 then delete_category_loop env tr dbhandle category 0 sk
      else dlp_simple env tr 0x22 FIRST_ID
        [set_byte (word_of_int dbhandle) @ set_byte 0x40 @ set_long (word_of_int (category AND 0xff))] sk)"

definition dlp_ReadNextModifiedRec ::
  "heap_env \<Rightarrow> 'w transport \<Rightarrow> int \<Rightarrow> rec_want \<Rightarrow> pi_buffer option \<Rightarrow> 'w pi_sock \<Rightarrow>
   ('w pi_sock \<times> rec_out \<times> pi_buffer option \<times> int) option" where
  "dlp_ReadNextModifiedRec env tr dbhandle w buffer sk = do {
     (sk, res, result) \<leftarrow> dlp_call env tr 0x1f FIRST_ID [set_byte (word_of_int dbhandle)] (pi_reset_errors sk);
     if result \<ge> 0 then do {
       d \<leftarrow> resp_data res 0;
       let n = payload_len d 10;
       out \<leftarrow> read_outs w d 8;
       buffer \<leftarrow> (case buffer of None \<Rightarrow> Some None
                              | Some buf \<Rightarrow> map_option Some (clear_append env buf d 10 n));
       Some (sk, out, buffer, n) }
     else Some (sk, no_rec_out, buffer, result) }"

text \<open>Two calls that ask for the records of one category, emulated for Palm OS 1.0.\<close>

partial_function (option) next_modified_loop ::
  "heap_env \<Rightarrow> 'w transport \<Rightarrow> int \<Rightarrow> int \<Rightarrow> rec_want \<Rightarrow> pi_buffer option \<Rightarrow> 'w pi_sock \<Rightarrow>
   ('w pi_sock \<times> rec_out \<times> pi_buffer option \<times> int) option" where
  "next_modified_loop env tr dbhandle category w buffer sk = do {
     (sk, out, buffer, result) \<leftarrow> dlp_ReadNextModifiedRec env tr dbhandle (w\<lparr>rw_cat := True\<rparr>) buffer sk;
     if 0 \<le> result \<and> rc_cat out \<noteq> Some category
     then next_modified_loop env tr dbhandle category w buffer sk
     else Some (sk, out, buffer, result) }"

definition dlp_ReadNextModifiedRecInCategory ::
  "heap_env \<Rightarrow> 'w transport \<Rightarrow> int \<Rightarrow> int \<Rightarrow> rec_want \<Rightarrow> pi_buffer option \<Rightarrow> 'w pi_sock \<Rightarrow>
   ('w pi_sock \<times> rec_out \<times> pi_buffer option \<times> int) option" where
  "dlp_ReadNextModifiedRecInCategory env tr dbhandle category w buffer sk =
     (let (v, sk) = pi_version tr (pi_reset_errors sk) in
      if v < 0x0101 then next_modified_loop env tr dbhandle category w buffer sk
      else do {
        (sk, res, result) \<leftarrow> dlp_call env tr 0x33 FIRST_ID
           [set_byte (word_of_int dbhandle) @ set_byte (word_of_int category)] sk;
        if result > 0 then do {
          d \<leftarrow> resp_data res 0;
          let n = payload_len d 10;
          out \<leftarrow> read_outs (w\<lparr>rw_cat := False\<rparr>) d 8;
          buffer \<leftarrow> (case buffer of None \<Rightarrow> Some None
                                 | Some buf \<Rightarrow> map_option Some (clear_append env buf d 10 n));
          Some (sk, out, buffer, n) }
        else Some (sk, no_rec_out, buffer, result) })"

text \<open>The emulation keeps its position in \<open>sk_dlprecord\<close>; it reads a record once for its
  category and again for its data.\<close>

partial_function (option) next_in_category_loop ::
  "heap_env \<Rightarrow> 'w transport \<Rightarrow> int \<Rightarrow> int \<Rightarrow> rec_want \<Rightarrow> pi_buffer option \<Rightarrow> 'w pi_sock \<Rightarrow>
   ('w pi_sock \<times> rec_out \<times> pi_buffer option \<times> int) option" where
  "next_in_category_loop env tr dbhandle category w buffer sk = do {
     (sk, out, _, rec) \<leftarrow> dlp_ReadRecordByIndex env tr dbhandle (sk_dlprecord sk)
        \<lparr>rw_id = False, rw_index = False, rw_attr = False, rw_cat = True\<rparr> None sk;
     if rec < 0 then Some (sk, no_rec_out, buffer, rec)
     else do {
       cat \<leftarrow> rc_cat out;
       if cat \<noteq> category
       then next_in_category_loop env tr dbhandle category w buffer (sk\<lparr>sk_dlprecord := sk_dlprecord sk + 1\<rparr>)
       else do {
         (sk, out, buffer, rec) \<leftarrow> dlp_ReadRecordByIndex env tr dbhandle (sk_dlprecord sk) (w\<lparr>rw_cat := True\<rparr>) buffer sk;
         if 0 \<le> rec
         then Some (sk\<lparr>sk_dlprecord := sk_dlprecord sk + 1\<rparr>,
                    out\<lparr>rc_index := (if rw_index w then Some (sk_dlprecord sk) else None)\<rparr>, buffer, rec)
         else Some (sk, out, buffer, rec) } } }"

definition dlp_ReadNextRecInCategory ::
  "heap_env \<Rightarrow> 'w transport \<Rightarrow> int \<Rightarrow> int \<Rightarrow> rec_want \<Rightarrow> pi_buffer option \<Rightarrow> 'w pi_sock \<Rightarrow>
   ('w pi_sock \<times> rec_out \<times> pi_buffer option \<times> int) option" where
  "dlp_ReadNextRecInCategory env tr dbhandle category w buffer sk =
     (let (v, sk) = pi_version tr (pi_reset_errors sk) in
      if v < 0x0101 then next_in_category_loop env tr dbhandle category w buffer sk
      else do {
        (sk, res, result) \<leftarrow> dlp_call env tr 0x32 FIRST_ID
           [set_byte (word_of_int dbhandle) @ set_byte (word_of_int category)] sk;
        if result > 0 then do {
          d \<leftarrow> resp_data res 0;
          let n = payload_len d 10;
          out \<leftarrow> read_outs (w\<lparr>rw_cat := False\<rparr>) d 8;
          buffer \<leftarrow> (case buffer of None \<Rightarrow> Some None
                                 | Some buf \<Rightarrow> map_option Some (clear_append env buf d 10 n));
          Some (sk, out, buffer, n) }
        else Some (sk, no_rec_out, buffer, result) })"

end
