(* ===== verification/DlpRes.thy ===== *)
theory DlpRes
  imports DlpRec
begin

text \<open>
  The calls of the desktop link protocol on the resources of an open database, on its AppInfo
  and SortInfo blocks and on the preferences (\<open>libpisock/dlp.c\<close>, \<open>dlp_ReadResourceByType\<close> to
  \<open>dlp_ResetSyncFlags\<close>, \<open>dlp_ReadAppPreference\<close>, \<open>dlp_WriteAppPreference\<close>).
\<close>

section \<open>Resources\<close>

definition resource_by_type_request :: "int \<Rightarrow> u64 \<Rightarrow> int \<Rightarrow> int \<Rightarrow> int \<Rightarrow> bytes" where
  "resource_by_type_request dbhandle type resID off n =
     set_byte (word_of_int dbhandle) @ set_byte 0 @ set_long (ucast type) @ set_short (word_of_int resID) @
     set_short (word_of_int off) @ set_short (word_of_int n)"

text \<open>The second read of a large resource. When it fails the length stays that of the first
  part, and so the result; without memory for the request, the answer is freed twice.\<close>

definition read_second ::
  "heap_env \<Rightarrow> 'w transport \<Rightarrow> int \<Rightarrow> bytes \<Rightarrow> int \<Rightarrow> pi_buffer \<Rightarrow> 'w pi_sock \<Rightarrow>
   ('w pi_sock \<times> pi_buffer \<times> int) option" where
  "read_second env tr argid rq maxb buf sk = do {
     req \<leftarrow> dlp_request_new_with_argid env 0x23 argid [rq];
     (sk, res, result) \<leftarrow> dlp_exec env tr req sk;
     if result > 0 then do {
       d \<leftarrow> resp_data res 0;
       let n = payload_len d 10;
       buf \<leftarrow> append_counted env buf d 10 n;
       Some (sk, buf, to_int (n + maxb)) }
     else Some (sk, buf, maxb) }"

definition dlp_ReadResourceByType ::
  "heap_env \<Rightarrow> 'w transport \<Rightarrow> int \<Rightarrow> u64 \<Rightarrow> int \<Rightarrow> bool \<Rightarrow> pi_buffer option \<Rightarrow> 'w pi_sock \<Rightarrow>
   ('w pi_sock \<times> int option \<times> pi_buffer option \<times> int) option" where
  "dlp_ReadResourceByType env tr dbhandle type resID want_index buffer sk =
     (let (maxb, sk) = max_buffer tr sk; sk = pi_reset_errors sk in do {
        (sk, res, result) \<leftarrow> dlp_call env tr 0x23 0x21
           [resource_by_type_request dbhandle type resID 0 (if buffer = None then 0 else maxb)] sk;
        if result > 0 then do {
          d \<leftarrow> resp_data res 0;
          let n = payload_len d 10;
          x \<leftarrow> fetch want_index (map_option uint (get_short d 6));
          case buffer of
            None \<Rightarrow> Some (sk, x, None, n)
          | Some buf \<Rightarrow> do {
              buf \<leftarrow> clear_append env buf d 10 n;
              if n = maxb then do {
                (sk, buf, n) \<leftarrow> read_second env tr 0x21
                  (resource_by_type_request dbhandle type resID maxb RECORD_READ_SAFEGUARD_SIZE) maxb buf sk;
                Some (sk, x, Some buf, n) }
              else Some (sk, x, Some buf, n) } }
        else Some (sk, None, buffer, result) })"

text \<open>The first request of the small variant stores the length as a \<open>long\<close>, over the offset
  and the length.\<close>

definition dlp_ReadResourceByIndex ::
  "heap_env \<Rightarrow> 'w transport \<Rightarrow> int \<Rightarrow> u32 \<Rightarrow> pi_buffer option \<Rightarrow> bool \<Rightarrow> bool \<Rightarrow> 'w pi_sock \<Rightarrow>
   ('w pi_sock \<times> u64 option \<times> int option \<times> pi_buffer option \<times> int) option" where
  "dlp_ReadResourceByIndex env tr dbhandle resindex buffer want_type want_id sk =
     (let (maxb, sk) = max_buffer tr sk; sk = pi_reset_errors sk;
          (v, sk) = pi_version tr sk; large = (0x0104 \<le> v);
          hdr = (if large then 12 else 10);
          pre = set_byte (word_of_int dbhandle) @ set_byte 0 @ set_short (ucast resindex)
      in do {
        (sk, res, result) \<leftarrow>
          (if large
           then (let (m, sk) = pi_maxrecsize tr sk in
                 dlp_call env tr 0x64 FIRST_ID [pre @ set_long 0 @ set_long (ucast m)] sk)
           else dlp_call env tr 0x23 FIRST_ID [pre @ set_long (word_of_int maxb)] sk);
        if result > 0 then do {
          d \<leftarrow> resp_data res 0;
          let n = payload_len d hdr;
          t \<leftarrow> fetch want_type (map_option ucast (get_long d 0));
          i \<leftarrow> fetch want_id (map_option uint (get_short d 4));
          case buffer of
            None \<Rightarrow> Some (sk, t, i, None, n)
          | Some buf \<Rightarrow> do {
              buf \<leftarrow> clear_append env buf d hdr n;
              if n = maxb \<and> \<not> large then do {
                (sk, buf, n) \<leftarrow> read_second env tr FIRST_ID
                  (pre @ set_short (word_of_int maxb) @ set_short (word_of_int RECORD_READ_SAFEGUARD_SIZE)) maxb buf sk;
                Some (sk, t, i, Some buf, n) }
              else Some (sk, t, i, Some buf, n) } }
        else Some (sk, None, None, buffer, result) })"

definition dlp_WriteResource ::
  "heap_env \<Rightarrow> 'w transport \<Rightarrow> int \<Rightarrow> u64 \<Rightarrow> int \<Rightarrow> bytes \<Rightarrow> nat \<Rightarrow> 'w pi_sock \<Rightarrow> ('w pi_sock \<times> int) option" where
  "dlp_WriteResource env tr dbhandle type resID src len sk =
     (let (v, sk) = pi_version tr (pi_reset_errors sk);
          hd = set_byte (word_of_int dbhandle) @ set_byte 0 @ set_long (ucast type) @ set_short (word_of_int resID)
      in if 0x0104 \<le> v
         then do {
           bs \<leftarrow> get_block len src 0;
           dlp_simple env tr 0x5f (PI_DLP_ARG_FIRST_ID OR PI_DLP_ARG_FLAG_LONG) [hd @ set_long 0 @ bs] sk }
         else let len = (if len > 0xffff then 0xffff else len) in do {
           bs \<leftarrow> get_block len src 0;
           dlp_simple env tr dlpFuncWriteResource FIRST_ID [hd @ set_short (of_nat len) @ bs] sk })"

definition dlp_DeleteResource ::
  "heap_env \<Rightarrow> 'w transport \<Rightarrow> int \<Rightarrow> bool \<Rightarrow> u64 \<Rightarrow> int \<Rightarrow> 'w pi_sock \<Rightarrow> ('w pi_sock \<times> int) option" where
  "dlp_DeleteResource env tr dbhandle all restype resID sk =
     dlp_simple env tr 0x25 FIRST_ID
       [set_byte (word_of_int dbhandle) @ set_byte (if all then 0x80 else 0) @ set_long (ucast restype) @
        set_short (word_of_int resID)] (pi_reset_errors sk)"

section \<open>AppInfo and SortInfo blocks\<close>

text \<open>The two reads differ in the test for an empty block only, which changes nothing.\<close>

definition read_block_call ::
  "heap_env \<Rightarrow> 'w transport \<Rightarrow> u8 \<Rightarrow> bool \<Rightarrow> int \<Rightarrow> int \<Rightarrow> int \<Rightarrow> pi_buffer option \<Rightarrow> 'w pi_sock \<Rightarrow>
   ('w pi_sock \<times> pi_buffer option \<times> int) option" where
  "read_block_call env tr cmd skip_empty dbhandle off reqbytes retbuf sk =
     (let retbuf = map_option (pi_buffer_clear env) retbuf in do {
        (sk, res, result) \<leftarrow> dlp_call env tr cmd FIRST_ID
           [set_byte (word_of_int dbhandle) @ set_byte 0 @ set_short (word_of_int off) @
            set_short (word_of_int reqbytes)] (pi_reset_errors sk);
        if result \<ge> 0 then
          if result < 2 then Some (sk, retbuf, PI_ERR_DLP_COMMAND)
          else do {
            d \<leftarrow> resp_data res 0;
            let n = payload_len d 2;
            retbuf \<leftarrow> (case retbuf of None \<Rightarrow> Some None
                        | Some buf \<Rightarrow> if skip_empty \<and> n = 0 then Some (Some buf)
                                      else map_option Some (append_counted env buf d 2 n));
            Some (sk, retbuf, n) }
        else Some (sk, retbuf, result) })"

definition dlp_ReadAppBlock ::
  "heap_env \<Rightarrow> 'w transport \<Rightarrow> int \<Rightarrow> int \<Rightarrow> int \<Rightarrow> pi_buffer option \<Rightarrow> 'w pi_sock \<Rightarrow>
   ('w pi_sock \<times> pi_buffer option \<times> int) option" where
  "dlp_ReadAppBlock env tr = read_block_call env tr 0x1b True"

definition dlp_ReadSortBlock ::
  "heap_env \<Rightarrow> 'w transport \<Rightarrow> int \<Rightarrow> int \<Rightarrow> int \<Rightarrow> pi_buffer option \<Rightarrow> 'w pi_sock \<Rightarrow>
   ('w pi_sock \<times> pi_buffer option \<times> int) option" where
  "dlp_ReadSortBlock env tr = read_block_call env tr 0x1d False"

text \<open>The test of the size comes after the allocation; its result is -131.\<close>

definition write_block_call ::
  "heap_env \<Rightarrow> 'w transport \<Rightarrow> u8 \<Rightarrow> int \<Rightarrow> bytes \<Rightarrow> nat \<Rightarrow> 'w pi_sock \<Rightarrow> ('w pi_sock \<times> int) option" where
  "write_block_call env tr cmd dbhandle src len sk =
     (let sk = pi_reset_errors sk in
      if DLP_BUF_SIZE < len + 10 then
        (case dlp_request_new env cmd [replicate (4 + len) 0] of
           None \<Rightarrow> Some (pi_set_error sk PI_ERR_GENERIC_MEMORY)
         | Some _ \<Rightarrow> Some (fst (pi_set_error sk PI_ERR_DLP_DATASIZE), -131))
      else do {
        bs \<leftarrow> get_block len src 0;
        dlp_simple env tr cmd FIRST_ID
          [set_byte (word_of_int dbhandle) @ set_byte 0 @ set_short (of_nat len) @ bs] sk })"

definition dlp_WriteAppBlock ::
  "heap_env \<Rightarrow> 'w transport \<Rightarrow> int \<Rightarrow> bytes \<Rightarrow> nat \<Rightarrow> 'w pi_sock \<Rightarrow> ('w pi_sock \<times> int) option" where
  "dlp_WriteAppBlock env tr = write_block_call env tr 0x1c"

definition dlp_WriteSortBlock ::
  "heap_env \<Rightarrow> 'w transport \<Rightarrow> int \<Rightarrow> bytes \<Rightarrow> nat \<Rightarrow> 'w pi_sock \<Rightarrow> ('w pi_sock \<times> int) option" where
  "dlp_WriteSortBlock env tr = write_block_call env tr 0x1e"

definition dlp_CleanUpDatabase :: "heap_env \<Rightarrow> 'w transport \<Rightarrow> int \<Rightarrow> 'w pi_sock \<Rightarrow> ('w pi_sock \<times> int) option" where
  "dlp_CleanUpDatabase env tr dbhandle sk =
     dlp_simple env tr 0x26 FIRST_ID [set_byte (word_of_int dbhandle)] (pi_reset_errors sk)"

definition dlp_ResetSyncFlags :: "heap_env \<Rightarrow> 'w transport \<Rightarrow> int \<Rightarrow> 'w pi_sock \<Rightarrow> ('w pi_sock \<times> int) option" where
  "dlp_ResetSyncFlags env tr dbhandle sk =
     dlp_simple env tr 0x27 FIRST_ID [set_byte (word_of_int dbhandle)] (pi_reset_errors sk)"

section \<open>Preferences\<close>

definition system_preferences :: bytes where
  "system_preferences = [0x53, 0x79, 0x73, 0x74, 0x65, 0x6d, 0x20,
     0x50, 0x72, 0x65, 0x66, 0x65, 0x72, 0x65, 0x6e, 0x63, 0x65, 0x73]"

record pref_out =
  pf_size :: "u64 option"
  pf_version :: "int option"
  pf_buffer :: "bytes option"

text \<open>On a Palm OS 1.0 device a preference is a resource of a database. \<open>buffer\<close> is the
  caller's block, None for NULL. A second error is dropped for the first.\<close>

definition close_keeping_error :: "heap_env \<Rightarrow> 'w transport \<Rightarrow> int \<Rightarrow> bool \<Rightarrow> 'w pi_sock \<Rightarrow> 'w pi_sock option" where
  "close_keeping_error env tr db restore sk =
     (let err1 = sk_last_error sk; err2 = sk_palmos_error sk in do {
        sk \<leftarrow> (if err1 \<noteq> PI_ERR_SOCK_DISCONNECTED then map_option fst (dlp_CloseDB env tr db sk) else Some sk);
        Some (if restore then sk\<lparr>sk_last_error := err1, sk_palmos_error := err2\<rparr> else sk) })"

definition dlp_ReadAppPreference ::
  "heap_env \<Rightarrow> 'w transport \<Rightarrow> u64 \<Rightarrow> int \<Rightarrow> bool \<Rightarrow> int \<Rightarrow> bytes option \<Rightarrow> bool \<Rightarrow> bool \<Rightarrow> 'w pi_sock \<Rightarrow>
   ('w pi_sock \<times> pref_out \<times> int) option" where
  "dlp_ReadAppPreference env tr creator prefID backup maxsize buffer want_size want_version sk =
     (let none = \<lparr>pf_size = None, pf_version = None, pf_buffer = buffer\<rparr>;
          (v, sk) = pi_version tr (pi_reset_errors sk) in
      if v < 0x0101 then do {
        (sk, db, result) \<leftarrow> dlp_OpenDB env tr 0 (uint dlpOpenRead) system_preferences sk;
        if result < 0 then Some (sk, none, result)
        else do {
          db \<leftarrow> db;
          (sk, x, buf, result) \<leftarrow> dlp_ReadResourceByType env tr db creator prefID False (pi_buffer_new env 1024) sk;
          if result < 0 then do {
            sk \<leftarrow> close_keeping_error env tr db True sk;
            Some (sk, none, result) }
          else do {
            buf \<leftarrow> buf;
            vers \<leftarrow> fetch want_version (do { block \<leftarrow> data buf; map_option uint (get_short block 0) });
            let n = (if result > 2 then result - 2 else 0);
            out \<leftarrow> (if n = 0 then Some buffer
                    else do {
                      block \<leftarrow> data buf; bs \<leftarrow> get_block (nat n) block 2; b \<leftarrow> buffer;
                      map_option Some (poke b 0 bs) });
            (sk, r) \<leftarrow> dlp_CloseDB env tr db sk;
            Some (sk, \<lparr>pf_size = (if want_size then Some (of_nat (used buf) - 2) else None), pf_version = vers,
                       pf_buffer = out\<rparr>, n) } } }
      else do {
        (sk, res, result) \<leftarrow> dlp_call env tr 0x34 FIRST_ID
          [set_long (ucast creator) @ set_short (word_of_int prefID) @
           set_short (word_of_int (if buffer = None then 0 else maxsize)) @
           set_byte (if backup then 0x80 else 0) @ set_byte 0] sk;
        if result > 0 then do {
          d \<leftarrow> resp_data res 0;
          n \<leftarrow> get_short d 4;
          vers \<leftarrow> fetch want_version (map_option uint (get_short d 0));
          sz \<leftarrow> fetch want_size (if buffer = None then map_option ucast (get_short d 2) else Some (ucast n));
          out \<leftarrow> (case buffer of None \<Rightarrow> Some None
                  | Some b \<Rightarrow> do { bs \<leftarrow> get_block (unat n) d 6; map_option Some (poke b 0 bs) });
          Some (sk, \<lparr>pf_size = sz, pf_version = vers, pf_buffer = out\<rparr>, uint n) }
        else Some (sk, none, result) })"

text \<open>The block that the emulation writes is the version and the preference, in an array of
  \<open>DLP_BUF_SIZE\<close> bytes; only \<open>len\<close> bytes of it are sent.\<close>

definition dlp_WriteAppPreference ::
  "heap_env \<Rightarrow> 'w transport \<Rightarrow> u64 \<Rightarrow> int \<Rightarrow> bool \<Rightarrow> int \<Rightarrow> bytes option \<Rightarrow> nat \<Rightarrow> 'w pi_sock \<Rightarrow>
   ('w pi_sock \<times> int) option" where
  "dlp_WriteAppPreference env tr creator prefID backup version buffer len sk =
     (let (v, sk) = pi_version tr (pi_reset_errors sk) in
      if v < 0x0101 then do {
        (sk, db, result) \<leftarrow> dlp_OpenDB env tr 0 (uint dlpOpenWrite) system_preferences sk;
        if result < 0 then Some (sk, result)
        else do {
          db \<leftarrow> db;
          (sk, result) \<leftarrow>
            (if buffer \<noteq> None \<and> len \<noteq> 0 then do {
               b \<leftarrow> buffer;
               bs \<leftarrow> get_block len b 0;
               if DLP_BUF_SIZE < len + 2 then None
               else dlp_WriteResource env tr db creator prefID (set_short (word_of_int version) @ bs) len sk }
             else dlp_WriteResource env tr db creator prefID [] 0 sk);
          sk \<leftarrow> close_keeping_error env tr db (result < 0) sk;
          Some (sk, result) } }
      else if DLP_BUF_SIZE < len + 12 then
        (case dlp_request_new env 0x35 [replicate (12 + len) 0] of
           None \<Rightarrow> Some (pi_set_error sk PI_ERR_GENERIC_MEMORY)
         | Some _ \<Rightarrow> Some (sk, PI_ERR_DLP_DATASIZE))
      else do {
        bs \<leftarrow> (if len = 0 then Some [] else do { b \<leftarrow> buffer; get_block len b 0 });
        dlp_simple env tr 0x35 FIRST_ID
          [set_long (ucast creator) @ set_short (word_of_int prefID) @ set_short (word_of_int version) @
           set_short (of_nat len) @ set_byte (if backup then 0x80 else 0) @ set_byte 0 @ bs] sk })"

end
