(* ===== verification/Sync.thy ===== *)
theory Sync
  imports DlpRes
begin

text \<open>
  The record synchronisation engine of the conduits (\<open>libpisync/sync.c\<close>, \<open>include/pi-sync.h\<close>).
  A conduit supplies the callbacks of a \<open>SyncHandler\<close>; they are a parameter, functions on
  \<open>desk\<close>: the conduit's own data, the desktop records that its pointers refer to, and the
  socket. Desktop records are shared through pointers and changed in place, so they live in a
  store; a device record is passed by value, and only \<open>Prepare\<close> fills one.

  \<open>junk_handle\<close> and \<open>junk_id\<close> are the values that two variables have when the code uses them
  without having set them. A loop that does not end has no result (None), as undefined
  behaviour has none.
\<close>

datatype RecordModifier = PILOT | DESKTOP | BOTH

record DesktopRecord =
  dr_recID :: int
  dr_catID :: int
  dr_flags :: int

record PilotRecord =
  pr_recID :: u64
  pr_catID :: int
  pr_flags :: int
  pr_buffer :: bytes
  pr_len :: nat

type_synonym dptr = nat

record ('c, 'w) desk =
  dk_client :: 'c
  dk_store :: "dptr \<Rightarrow> DesktopRecord"
  dk_sock :: "'w pi_sock"

record ('c, 'w) SyncHandler =
  sh_name :: bytes
  sh_secret :: bool
  sh_Pre :: "int \<Rightarrow> int \<Rightarrow> ('c, 'w) desk \<Rightarrow> ('c, 'w) desk \<times> int \<times> int"
  sh_Post :: "int \<Rightarrow> ('c, 'w) desk \<Rightarrow> ('c, 'w) desk \<times> int"
  sh_SetPilotID :: "dptr \<Rightarrow> u64 \<Rightarrow> ('c, 'w) desk \<Rightarrow> ('c, 'w) desk \<times> int"
  sh_SetStatusCleared :: "dptr \<Rightarrow> ('c, 'w) desk \<Rightarrow> ('c, 'w) desk \<times> int"
  sh_ForEach :: "dptr option \<Rightarrow> ('c, 'w) desk \<Rightarrow> ('c, 'w) desk \<times> dptr option \<times> int"
  sh_ForEachModified :: "dptr option \<Rightarrow> ('c, 'w) desk \<Rightarrow> ('c, 'w) desk \<times> dptr option \<times> int"
  sh_Compare :: "PilotRecord \<Rightarrow> dptr \<Rightarrow> ('c, 'w) desk \<Rightarrow> ('c, 'w) desk \<times> int"
  sh_AddRecord :: "PilotRecord \<Rightarrow> ('c, 'w) desk \<Rightarrow> ('c, 'w) desk \<times> int"
  sh_ReplaceRecord :: "dptr \<Rightarrow> PilotRecord \<Rightarrow> ('c, 'w) desk \<Rightarrow> ('c, 'w) desk \<times> int"
  sh_DeleteRecord :: "dptr \<Rightarrow> ('c, 'w) desk \<Rightarrow> ('c, 'w) desk \<times> int"
  sh_ArchiveRecord :: "dptr \<Rightarrow> int \<Rightarrow> ('c, 'w) desk \<Rightarrow> ('c, 'w) desk \<times> int"
  sh_Match :: "PilotRecord \<Rightarrow> dptr option \<Rightarrow> ('c, 'w) desk \<Rightarrow> ('c, 'w) desk \<times> dptr option \<times> int"
  sh_FreeMatch :: "dptr \<Rightarrow> ('c, 'w) desk \<Rightarrow> ('c, 'w) desk \<times> int"
  sh_Prepare :: "dptr \<Rightarrow> PilotRecord \<Rightarrow> ('c, 'w) desk \<Rightarrow> ('c, 'w) desk \<times> PilotRecord \<times> int"

record sync_env =
  se_heap :: heap_env
  junk_handle :: int
  junk_id :: u64

section \<open>Records and the queue\<close>

definition sizeof_PilotRecord :: nat where "sizeof_PilotRecord = 32"

definition zero_PilotRecord :: PilotRecord where
  "zero_PilotRecord = \<lparr>pr_recID = 0, pr_catID = 0, pr_flags = 0, pr_buffer = [], pr_len = 0\<rparr>"

text \<open>Without memory for the structure the first store is undefined; without memory for the
  buffer it is NULL, the empty block.\<close>

definition sync_NewPilotRecord :: "heap_env \<Rightarrow> nat \<Rightarrow> PilotRecord option" where
  "sync_NewPilotRecord env buf_size =
     (if malloc_ok env sizeof_PilotRecord
      then Some (zero_PilotRecord\<lparr>pr_buffer := (case malloc env buf_size of None \<Rightarrow> [] | Some b \<Rightarrow> b)\<rparr>)
      else None)"

text \<open>The new buffer has the size of a pointer.\<close>

definition sync_CopyPilotRecord :: "heap_env \<Rightarrow> PilotRecord \<Rightarrow> PilotRecord option" where
  "sync_CopyPilotRecord env precord = do {
     new \<leftarrow> sync_NewPilotRecord env sizeof_ptr;
     bs \<leftarrow> get_block (pr_len precord) (pr_buffer precord) 0;
     b \<leftarrow> poke (pr_buffer new) 0 bs;
     Some (precord\<lparr>pr_buffer := b\<rparr>) }"

text \<open>An item holds a desktop record or, when there is none, a copy of a device record.\<close>

datatype queue_item = Desktop_item dptr | Pilot_item PilotRecord

record ('c, 'w) sync =
  sy_desk :: "('c, 'w) desk"
  sy_rq :: "queue_item list"

definition add_record_queue ::
  "heap_env \<Rightarrow> PilotRecord option \<Rightarrow> dptr option \<Rightarrow> ('c, 'w) sync \<Rightarrow> ('c, 'w) sync option" where
  "add_record_queue env precord drecord s =
     (case drecord of
        Some d \<Rightarrow> Some (s\<lparr>sy_rq := Desktop_item d # sy_rq s\<rparr>)
      | None \<Rightarrow> do {
          p \<leftarrow> precord; p \<leftarrow> sync_CopyPilotRecord env p;
          Some (s\<lparr>sy_rq := Pilot_item p # sy_rq s\<rparr>) })"

primrec free_record_queue_list ::
  "('c, 'w) SyncHandler \<Rightarrow> queue_item list \<Rightarrow> ('c, 'w) desk \<Rightarrow> ('c, 'w) desk \<times> int" where
  "free_record_queue_list sh [] dk = (dk, 0)"
| "free_record_queue_list sh (item # rql) dk =
     (case item of
        Desktop_item d \<Rightarrow>
          (let (dk, result) = sh_FreeMatch sh d dk in
           if result < 0 then (dk, result) else free_record_queue_list sh rql dk)
      | Pilot_item _ \<Rightarrow> free_record_queue_list sh rql dk)"

section \<open>The device side\<close>

text \<open>A call of the desktop link protocol, on the socket of the state.\<close>

definition on_sock ::
  "('w pi_sock \<Rightarrow> ('w pi_sock \<times> 'a) option) \<Rightarrow> ('c, 'w) desk \<Rightarrow> (('c, 'w) desk \<times> 'a) option" where
  "on_sock f dk = do { (sk, a) \<leftarrow> f (dk_sock dk); Some (dk\<lparr>dk_sock := sk\<rparr>, a) }"

definition writes_pilot :: "RecordModifier \<Rightarrow> bool" where
  "writes_pilot m \<longleftrightarrow> m = PILOT \<or> m = BOTH"

definition writes_desktop :: "RecordModifier \<Rightarrow> bool" where
  "writes_desktop m \<longleftrightarrow> m = DESKTOP \<or> m = BOTH"

definition delete_both ::
  "sync_env \<Rightarrow> 'w transport \<Rightarrow> ('c, 'w) SyncHandler \<Rightarrow> int \<Rightarrow> dptr option \<Rightarrow> PilotRecord option \<Rightarrow>
   RecordModifier \<Rightarrow> ('c, 'w) desk \<Rightarrow> (('c, 'w) desk \<times> int) option" where
  "delete_both env tr sh dbhandle drecord precord rec_mod dk =
     (let (dk, result) =
            (case drecord of
               Some d \<Rightarrow> if writes_desktop rec_mod then sh_DeleteRecord sh d dk else (dk, 0)
             | None \<Rightarrow> (dk, 0))
      in if result < 0 then Some (dk, result)
         else case precord of
           Some p \<Rightarrow> if writes_pilot rec_mod
                     then on_sock (dlp_DeleteRecord (se_heap env) tr dbhandle False (pr_recID p)) dk
                     else Some (dk, result)
         | None \<Rightarrow> Some (dk, result))"

text \<open>The identifier given to \<open>SetPilotID\<close> is set by the write, which does not take place when
  only the desktop may change.\<close>

definition store_record_on_pilot ::
  "sync_env \<Rightarrow> 'w transport \<Rightarrow> ('c, 'w) SyncHandler \<Rightarrow> int \<Rightarrow> dptr \<Rightarrow> RecordModifier \<Rightarrow>
   ('c, 'w) desk \<Rightarrow> (('c, 'w) desk \<times> int) option" where
  "store_record_on_pilot env tr sh dbhandle drecord rec_mod dk =
     (let (dk, precord, result) = sh_Prepare sh drecord zero_PilotRecord dk in
      if result \<noteq> 0 then Some (dk, result)
      else do {
        (dk, newid, result) \<leftarrow>
          (if writes_pilot rec_mod
           then on_sock (dlp_WriteRecord (se_heap env) tr dbhandle
                  (pr_flags precord AND uint dlpRecAttrSecret) (pr_recID precord) (pr_catID precord)
                  (pr_buffer precord) (pr_len precord)) dk
           else Some (dk, None, result));
        if result < 0 then Some (dk, result)
        else if writes_desktop rec_mod
        then Some (sh_SetPilotID sh drecord (case newid of None \<Rightarrow> junk_id env | Some i \<Rightarrow> i) dk)
        else Some (dk, result) })"

text \<open>With \<open>secret\<close> the mode is the value of a logical conjunction, 1.\<close>

definition open_db ::
  "sync_env \<Rightarrow> 'w transport \<Rightarrow> ('c, 'w) SyncHandler \<Rightarrow> ('c, 'w) desk \<Rightarrow> (('c, 'w) desk \<times> int \<times> int) option" where
  "open_db env tr sh dk = do {
     (dk, handle, result) \<leftarrow>
       on_sock (dlp_OpenDB (se_heap env) tr 0 (if sh_secret sh then 1 else uint dlpOpenReadWrite) (sh_name sh)) dk;
     Some (dk, case handle of None \<Rightarrow> junk_handle env | Some h \<Rightarrow> h, result) }"

definition close_db :: "sync_env \<Rightarrow> 'w transport \<Rightarrow> int \<Rightarrow> ('c, 'w) desk \<Rightarrow> ('c, 'w) desk option" where
  "close_db env tr dbhandle dk = do {
     (dk, _) \<leftarrow> on_sock (dlp_CleanUpDatabase (se_heap env) tr dbhandle) dk;
     (dk, _) \<leftarrow> on_sock (dlp_ResetSyncFlags (se_heap env) tr dbhandle) dk;
     (dk, _) \<leftarrow> on_sock (dlp_CloseDB (se_heap env) tr dbhandle) dk;
     Some dk }"

section \<open>One record\<close>

text \<open>A checked call returns at once when its result is negative, and otherwise leaves its result
  in the variable that the function returns. \<open>Check g f\<close> is a call that is made when \<open>g\<close> holds,
  \<open>Do f\<close> a statement that does not change the result.\<close>

datatype ('c, 'w) sync_step =
    Check bool "('c, 'w) sync \<Rightarrow> (('c, 'w) sync \<times> int) option"
  | Do "('c, 'w) sync \<Rightarrow> ('c, 'w) sync option"

primrec run_steps :: "int \<Rightarrow> ('c, 'w) sync_step list \<Rightarrow> ('c, 'w) sync \<Rightarrow> (('c, 'w) sync \<times> int) option" where
  "run_steps result [] s = Some (s, result)"
| "run_steps result (st # sts) s =
     (case st of
        Check g f \<Rightarrow>
          if g then do { (s, r) \<leftarrow> f s; if r < 0 then Some (s, r) else run_steps r sts s }
          else run_steps result sts s
      | Do f \<Rightarrow> do { s \<leftarrow> f s; run_steps result sts s })"

definition callback :: "(('c, 'w) desk \<Rightarrow> ('c, 'w) desk \<times> int) \<Rightarrow> ('c, 'w) sync \<Rightarrow> (('c, 'w) sync \<times> int) option" where
  "callback f s = (let (dk, r) = f (sy_desk s) in Some (s\<lparr>sy_desk := dk\<rparr>, r))"

definition on_desk :: "(('c, 'w) desk \<Rightarrow> (('c, 'w) desk \<times> 'a) option) \<Rightarrow> ('c, 'w) sync \<Rightarrow> (('c, 'w) sync \<times> 'a) option" where
  "on_desk f s = do { (dk, a) \<leftarrow> f (sy_desk s); Some (s\<lparr>sy_desk := dk\<rparr>, a) }"

definition has_flag :: "int \<Rightarrow> u32 \<Rightarrow> bool" where
  "has_flag flags f \<longleftrightarrow> flags AND uint f \<noteq> 0"

definition forget_id :: "dptr \<Rightarrow> ('c, 'w) sync \<Rightarrow> ('c, 'w) sync option" where
  "forget_id d s =
     (let dk = sy_desk s; store = dk_store dk in
      Some (s\<lparr>sy_desk := dk\<lparr>dk_store := store(d := (store d)\<lparr>dr_recID := 0\<rparr>)\<rparr>\<rparr>))"

definition drec_flags :: "('c, 'w) sync \<Rightarrow> dptr option \<Rightarrow> int" where
  "drec_flags s drecord = (case drecord of None \<Rightarrow> 0 | Some d \<Rightarrow> dr_flags (dk_store (sy_desk s) d))"

definition prec_flags :: "PilotRecord option \<Rightarrow> int" where
  "prec_flags precord = (case precord of None \<Rightarrow> 0 | Some p \<Rightarrow> pr_flags p)"

definition sync_record ::
  "sync_env \<Rightarrow> 'w transport \<Rightarrow> ('c, 'w) SyncHandler \<Rightarrow> int \<Rightarrow> dptr option \<Rightarrow> PilotRecord option \<Rightarrow>
   RecordModifier \<Rightarrow> ('c, 'w) sync \<Rightarrow> (('c, 'w) sync \<times> int) option" where
  "sync_record env tr sh dbhandle drecord precord rec_mod s =
     (let pf = prec_flags precord;
          parch = has_flag pf dlpRecAttrArchived;
          pdel = has_flag pf dlpRecAttrDeleted;
          pchange = (has_flag pf dlpRecAttrDirty \<and> \<not> pdel);
          df = drec_flags s drecord;
          darch = has_flag df dlpRecAttrArchived;
          ddel = has_flag df dlpRecAttrDeleted;
          dchange = (has_flag df dlpRecAttrDirty \<and> \<not> ddel);
          desktop = Check (writes_desktop rec_mod);
          pilot = Check (writes_pilot rec_mod);
          always = Check True;
          compare = (\<lambda>p d. on_desk (\<lambda>dk. Some (sh_Compare sh p d dk)));
          add = (\<lambda>p. desktop (callback (sh_AddRecord sh p)));
          replace = (\<lambda>d p. desktop (callback (sh_ReplaceRecord sh d p)));
          archive = (\<lambda>d n. desktop (callback (sh_ArchiveRecord sh d n)));
          cleared = (\<lambda>d. desktop (callback (sh_SetStatusCleared sh d)));
          enqueue = (\<lambda>d. Do (add_record_queue (se_heap env) None (Some d)));
          delete_pilot = (\<lambda>p. pilot (on_desk (on_sock (dlp_DeleteRecord (se_heap env) tr dbhandle False (pr_recID p)))));
          delete = desktop (on_desk (delete_both env tr sh dbhandle drecord precord rec_mod))
      in
      if drecord = None \<and> \<not> parch \<and> pdel then Some (s, 0)
      else if precord \<noteq> None \<and> \<not> parch \<and> \<not> pdel \<and> drecord = None then do {
        p \<leftarrow> precord; run_steps 0 [add p] s }
      else if precord = None \<and> drecord \<noteq> None then do {
        d \<leftarrow> drecord; run_steps 0 [enqueue d] s }
      else if parch \<and> ddel then do {
        d \<leftarrow> drecord; p \<leftarrow> precord; run_steps 0 [replace d p, archive d 1, cleared d] s }
      else if parch \<and> \<not> darch \<and> \<not> dchange \<and> drecord \<noteq> None then do {
        d \<leftarrow> drecord; run_steps 0 [archive d 1] s }
      else if parch \<and> drecord = None then do {
        p \<leftarrow> precord;
        (s, r) \<leftarrow> run_steps 0 [add p] s;
        if r < 0 then Some (s, r)
        else do {
          (s, drecord, r) \<leftarrow> on_desk (\<lambda>dk. Some (sh_Match sh p None dk)) s;
          if r < 0 then Some (s, r)
          else case drecord of
            None \<Rightarrow> Some (s, -1)
          | Some d \<Rightarrow> run_steps r [archive d 1, always (callback (sh_FreeMatch sh d))] s } }
      else if parch \<and> pchange \<and> \<not> darch \<and> dchange then do {
        d \<leftarrow> drecord; p \<leftarrow> precord;
        (s, comp) \<leftarrow> compare p d s;
        if comp = 0 then run_steps 0 [archive d 1, delete_pilot p, cleared d] s
        else do {
          (s, newid, r) \<leftarrow>
            (if writes_pilot rec_mod
             then on_desk (on_sock (dlp_WriteRecord (se_heap env) tr dbhandle 0 0 (pr_catID p) (pr_buffer p) (pr_len p))) s
             else Some (s, None, 0));
          if r < 0 then Some (s, r)
          else run_steps r
            [add (p\<lparr>pr_recID := (case newid of None \<Rightarrow> pr_recID p | Some i \<Rightarrow> i)\<rparr>), enqueue d, cleared d] s } }
      else if parch \<and> \<not> pchange \<and> \<not> darch \<and> dchange then do {
        d \<leftarrow> drecord; p \<leftarrow> precord; run_steps 0 [delete_pilot p, enqueue d, cleared d] s }
      else if pchange \<and> darch \<and> dchange then do {
        d \<leftarrow> drecord; p \<leftarrow> precord;
        (s, comp) \<leftarrow> compare p d s;
        run_steps 0 ((if comp = 0 then [delete_pilot p] else [archive d 0, replace d p]) @ [cleared d]) s }
      else if pchange \<and> darch \<and> \<not> dchange then do {
        d \<leftarrow> drecord; p \<leftarrow> precord; run_steps 0 [archive d 0, replace d p, cleared d] s }
      else if pchange \<and> dchange then do {
        d \<leftarrow> drecord; p \<leftarrow> precord;
        (s, comp) \<leftarrow> compare p d s;
        run_steps 0 ((if comp \<noteq> 0 then [add p, Do (forget_id d), enqueue d] else []) @ [cleared d]) s }
      else if pchange \<and> ddel then do {
        d \<leftarrow> drecord; p \<leftarrow> precord; run_steps 0 [replace d p, cleared d] s }
      else if pchange \<and> \<not> dchange then do {
        d \<leftarrow> drecord; p \<leftarrow> precord; run_steps 0 [replace d p, cleared d] s }
      else if pdel \<and> dchange then do {
        d \<leftarrow> drecord; run_steps 0 [enqueue d, cleared d] s }
      else if pdel \<and> \<not> dchange then do {
        d \<leftarrow> drecord; run_steps 0 [delete, cleared d] s }
      else if \<not> pchange \<and> darch then do {
        d \<leftarrow> drecord; p \<leftarrow> precord; run_steps 0 [delete_pilot p, cleared d] s }
      else if \<not> pchange \<and> dchange then do {
        d \<leftarrow> drecord; p \<leftarrow> precord; run_steps 0 [delete_pilot p, enqueue d, cleared d] s }
      else if \<not> pchange \<and> ddel then do {
        d \<leftarrow> drecord; run_steps 0 [delete, cleared d] s }
      else Some (s, 0))"

end
