(* ===== verification/SyncMerge.thy ===== *)
theory SyncMerge
  imports Sync
begin

text \<open>
  The loops of the synchronisation engine and its five entry points (\<open>libpisync/sync.c\<close>,
  \<open>sync_CopyToPilot\<close> to \<open>sync_Synchronize\<close>). A loop returns the state and, when the function
  that it belongs to returns from inside it, that result.
\<close>

text \<open>The record just read: the out parameters of the call and the data, cut to the buffer.\<close>

definition load_record :: "rec_out \<Rightarrow> pi_buffer option \<Rightarrow> PilotRecord \<Rightarrow> PilotRecord option" where
  "load_record out recbuf p = do {
     buf \<leftarrow> recbuf;
     let len = (if DLP_BUF_SIZE < used buf then DLP_BUF_SIZE else used buf);
     block \<leftarrow> (if len = 0 then Some [] else data buf);
     bs \<leftarrow> get_block len block 0;
     b \<leftarrow> poke (pr_buffer p) 0 bs;
     Some (p\<lparr>pr_recID := (case rc_id out of None \<Rightarrow> pr_recID p | Some i \<Rightarrow> i),
             pr_flags := (case rc_attr out of None \<Rightarrow> pr_flags p | Some a \<Rightarrow> a),
             pr_catID := (case rc_cat out of None \<Rightarrow> pr_catID p | Some c \<Rightarrow> c),
             pr_len := len, pr_buffer := b\<rparr>) }"

definition want_id_attr_cat :: rec_want where
  "want_id_attr_cat = \<lparr>rw_id = True, rw_index = False, rw_attr = True, rw_cat = True\<rparr>"

definition want_attr_cat :: rec_want where
  "want_attr_cat = \<lparr>rw_id = False, rw_index = False, rw_attr = True, rw_cat = True\<rparr>"

text \<open>A call that reads a record, on the socket of the state.\<close>

definition read_record ::
  "('w pi_sock \<Rightarrow> ('w pi_sock \<times> rec_out \<times> pi_buffer option \<times> int) option) \<Rightarrow> ('c, 'w) sync \<Rightarrow>
   (('c, 'w) sync \<times> rec_out \<times> pi_buffer option \<times> int) option" where
  "read_record f = on_desk (on_sock f)"

section \<open>The queue\<close>

text \<open>The results of \<open>store_record_on_pilot\<close> and \<open>free_record_queue_list\<close> are not used.\<close>

primrec process_queue ::
  "sync_env \<Rightarrow> 'w transport \<Rightarrow> ('c, 'w) SyncHandler \<Rightarrow> int \<Rightarrow> RecordModifier \<Rightarrow> int \<Rightarrow> queue_item list \<Rightarrow>
   ('c, 'w) desk \<Rightarrow> (('c, 'w) desk \<times> int \<times> bool) option" where
  "process_queue env tr sh dbhandle rec_mod result [] dk = Some (dk, result, False)"
| "process_queue env tr sh dbhandle rec_mod result (item # rql) dk =
     (case item of
        Desktop_item d \<Rightarrow> do {
          (dk, _) \<leftarrow> store_record_on_pilot env tr sh dbhandle d rec_mod dk;
          process_queue env tr sh dbhandle rec_mod result rql dk }
      | Pilot_item p \<Rightarrow>
          if writes_pilot rec_mod then do {
            (dk, _, r) \<leftarrow> on_sock (dlp_WriteRecord (se_heap env) tr dbhandle 0 0 (pr_catID p) (pr_buffer p) (pr_len p)) dk;
            if r < 0 then Some (dk, r, True)
            else process_queue env tr sh dbhandle rec_mod r rql dk }
          else process_queue env tr sh dbhandle rec_mod result rql dk)"

definition sync_MergeFromPilot_process ::
  "sync_env \<Rightarrow> 'w transport \<Rightarrow> ('c, 'w) SyncHandler \<Rightarrow> int \<Rightarrow> RecordModifier \<Rightarrow> ('c, 'w) sync \<Rightarrow>
   (('c, 'w) desk \<times> int) option" where
  "sync_MergeFromPilot_process env tr sh dbhandle rec_mod s = do {
     (dk, result, returned) \<leftarrow> process_queue env tr sh dbhandle rec_mod 0 (sy_rq s) (sy_desk s);
     if returned then Some (dk, result)
     else Some (fst (free_record_queue_list sh (sy_rq s) dk), result) }"

text \<open>\<open>if (drecord && rq.count == count) ErrorCheck(sh->FreeMatch(sh, drecord))\<close>.\<close>

definition free_match ::
  "('c, 'w) SyncHandler \<Rightarrow> dptr option \<Rightarrow> nat \<Rightarrow> ('c, 'w) sync \<Rightarrow> (('c, 'w) sync \<times> int) option" where
  "free_match sh drecord count s =
     (case drecord of
        None \<Rightarrow> Some (s, 0)
      | Some d \<Rightarrow> if length (sy_rq s) = count then callback (sh_FreeMatch sh d) s else Some (s, 0))"

section \<open>From the device\<close>

partial_function (option) merge_from_fast_loop ::
  "sync_env \<Rightarrow> 'w transport \<Rightarrow> ('c, 'w) SyncHandler \<Rightarrow> int \<Rightarrow> RecordModifier \<Rightarrow> PilotRecord \<Rightarrow> dptr option \<Rightarrow>
   pi_buffer option \<Rightarrow> ('c, 'w) sync \<Rightarrow> (('c, 'w) sync \<times> int option) option" where
  "merge_from_fast_loop env tr sh dbhandle rec_mod precord drecord recbuf s = do {
     (s, out, recbuf, r) \<leftarrow> read_record (dlp_ReadNextModifiedRec (se_heap env) tr dbhandle want_id_attr_cat recbuf) s;
     if r < 0 then Some (s, None)
     else do {
       precord \<leftarrow> load_record out recbuf precord;
       let count = length (sy_rq s);
       (s, drecord, r) \<leftarrow> on_desk (\<lambda>dk. Some (sh_Match sh precord drecord dk)) s;
       if r < 0 then Some (s, Some r)
       else do {
         (s, r) \<leftarrow> sync_record env tr sh dbhandle drecord (Some precord) rec_mod s;
         if r < 0 then Some (s, Some r)
         else do {
           (s, r) \<leftarrow> free_match sh drecord count s;
           if r < 0 then Some (s, Some r)
           else merge_from_fast_loop env tr sh dbhandle rec_mod precord drecord recbuf s } } } }"

definition sync_MergeFromPilot_fast ::
  "sync_env \<Rightarrow> 'w transport \<Rightarrow> ('c, 'w) SyncHandler \<Rightarrow> int \<Rightarrow> RecordModifier \<Rightarrow> ('c, 'w) desk \<Rightarrow>
   (('c, 'w) desk \<times> int) option" where
  "sync_MergeFromPilot_fast env tr sh dbhandle rec_mod dk = do {
     precord \<leftarrow> sync_NewPilotRecord (se_heap env) DLP_BUF_SIZE;
     (s, ret) \<leftarrow> merge_from_fast_loop env tr sh dbhandle rec_mod precord None
        (pi_buffer_new (se_heap env) DLP_BUF_SIZE) \<lparr>sy_desk = dk, sy_rq = []\<rparr>;
     case ret of
       Some r \<Rightarrow> Some (sy_desk s, r)
     | None \<Rightarrow> sync_MergeFromPilot_process env tr sh dbhandle rec_mod s }"

text \<open>A slow synchronisation computes the flags: a record is dirty when it has no match or
  differs from it.\<close>

definition slow_flags :: "bool \<Rightarrow> int \<Rightarrow> int" where
  "slow_flags changed old =
     (if changed then uint dlpRecAttrDirty else 0) OR
     (if has_flag old dlpRecAttrArchived then uint dlpRecAttrArchived else 0) OR
     (if has_flag old dlpRecAttrSecret then uint dlpRecAttrSecret else 0)"

partial_function (option) merge_from_slow_loop ::
  "sync_env \<Rightarrow> 'w transport \<Rightarrow> ('c, 'w) SyncHandler \<Rightarrow> int \<Rightarrow> RecordModifier \<Rightarrow> int \<Rightarrow> PilotRecord \<Rightarrow> dptr option \<Rightarrow>
   pi_buffer option \<Rightarrow> ('c, 'w) sync \<Rightarrow> (('c, 'w) sync \<times> int option) option" where
  "merge_from_slow_loop env tr sh dbhandle rec_mod i precord drecord recbuf s = do {
     (s, out, recbuf, r) \<leftarrow> read_record (dlp_ReadRecordByIndex (se_heap env) tr dbhandle i want_id_attr_cat recbuf) s;
     if r \<le> 0 then Some (s, None)
     else do {
       let count = length (sy_rq s);
       precord \<leftarrow> load_record out recbuf precord;
       (s, drecord, r) \<leftarrow> on_desk (\<lambda>dk. Some (sh_Match sh precord drecord dk)) s;
       if r < 0 then Some (s, Some r)
       else do {
         let old = pr_flags precord;
         (s, changed) \<leftarrow>
           (case drecord of
              None \<Rightarrow> Some (s, True)
            | Some d \<Rightarrow> do {
                (s, comp) \<leftarrow> on_desk (\<lambda>dk. Some (sh_Compare sh (precord\<lparr>pr_flags := 0\<rparr>) d dk)) s;
                Some (s, comp \<noteq> 0) });
         let precord = precord\<lparr>pr_flags := slow_flags changed old\<rparr>;
         (s, r) \<leftarrow> sync_record env tr sh dbhandle drecord (Some precord) rec_mod s;
         if r < 0 then Some (s, Some r)
         else do {
           (s, r) \<leftarrow> free_match sh drecord count s;
           if r < 0 then Some (s, Some r)
           else merge_from_slow_loop env tr sh dbhandle rec_mod (i + 1) precord drecord recbuf s } } } }"

definition sync_MergeFromPilot_slow ::
  "sync_env \<Rightarrow> 'w transport \<Rightarrow> ('c, 'w) SyncHandler \<Rightarrow> int \<Rightarrow> RecordModifier \<Rightarrow> ('c, 'w) desk \<Rightarrow>
   (('c, 'w) desk \<times> int) option" where
  "sync_MergeFromPilot_slow env tr sh dbhandle rec_mod dk = do {
     precord \<leftarrow> sync_NewPilotRecord (se_heap env) DLP_BUF_SIZE;
     (s, ret) \<leftarrow> merge_from_slow_loop env tr sh dbhandle rec_mod 0 precord None
        (pi_buffer_new (se_heap env) DLP_BUF_SIZE) \<lparr>sy_desk = dk, sy_rq = []\<rparr>;
     case ret of
       Some r \<Rightarrow> Some (sy_desk s, r)
     | None \<Rightarrow> sync_MergeFromPilot_process env tr sh dbhandle rec_mod s }"

section \<open>To the device\<close>

text \<open>The device's version of a desktop record that has an identifier. The read is made, and
  its failure ends the merge, only when the device may be written; otherwise the buffer holds
  what it held.\<close>

definition fetch_counterpart ::
  "sync_env \<Rightarrow> 'w transport \<Rightarrow> int \<Rightarrow> RecordModifier \<Rightarrow> dptr \<Rightarrow> pi_buffer option \<Rightarrow> ('c, 'w) sync \<Rightarrow>
   (('c, 'w) sync \<times> pi_buffer option \<times> (int + PilotRecord option)) option" where
  "fetch_counterpart env tr dbhandle rec_mod d recbuf s =
     (let recID = dr_recID (dk_store (sy_desk s) d) in
      if recID = 0 then Some (s, recbuf, Inr None)
      else do {
        precord \<leftarrow> sync_NewPilotRecord (se_heap env) DLP_BUF_SIZE;
        let precord = precord\<lparr>pr_recID := word_of_int recID\<rparr>;
        (s, out, recbuf, r) \<leftarrow>
          (if writes_pilot rec_mod
           then read_record (dlp_ReadRecordById (se_heap env) tr dbhandle (pr_recID precord) want_attr_cat recbuf) s
           else Some (s, no_rec_out, recbuf, 0));
        if r < 0 then Some (s, recbuf, Inl r)
        else do {
          precord \<leftarrow> load_record out recbuf precord;
          Some (s, recbuf, Inr (Some precord)) } })"

partial_function (option) merge_to_fast_loop ::
  "sync_env \<Rightarrow> 'w transport \<Rightarrow> ('c, 'w) SyncHandler \<Rightarrow> int \<Rightarrow> RecordModifier \<Rightarrow> dptr option \<Rightarrow>
   pi_buffer option \<Rightarrow> ('c, 'w) sync \<Rightarrow> (('c, 'w) sync \<times> int option) option" where
  "merge_to_fast_loop env tr sh dbhandle rec_mod drecord recbuf s = do {
     (s, drecord, r) \<leftarrow> on_desk (\<lambda>dk. Some (sh_ForEachModified sh drecord dk)) s;
     if r \<noteq> 0 then Some (s, None)
     else case drecord of
       None \<Rightarrow> Some (s, None)
     | Some d \<Rightarrow> do {
         (s, recbuf, p) \<leftarrow> fetch_counterpart env tr dbhandle rec_mod d recbuf s;
         case p of
           Inl r \<Rightarrow> Some (s, Some r)
         | Inr precord \<Rightarrow> do {
             (s, r) \<leftarrow> sync_record env tr sh dbhandle (Some d) precord rec_mod s;
             if r < 0 then Some (s, Some r)
             else merge_to_fast_loop env tr sh dbhandle rec_mod (Some d) recbuf s } } }"

definition sync_MergeToPilot_fast ::
  "sync_env \<Rightarrow> 'w transport \<Rightarrow> ('c, 'w) SyncHandler \<Rightarrow> int \<Rightarrow> RecordModifier \<Rightarrow> ('c, 'w) desk \<Rightarrow>
   (('c, 'w) desk \<times> int) option" where
  "sync_MergeToPilot_fast env tr sh dbhandle rec_mod dk = do {
     (s, ret) \<leftarrow> merge_to_fast_loop env tr sh dbhandle rec_mod None
        (pi_buffer_new (se_heap env) DLP_BUF_SIZE) \<lparr>sy_desk = dk, sy_rq = []\<rparr>;
     case ret of
       Some r \<Rightarrow> Some (sy_desk s, r)
     | None \<Rightarrow> sync_MergeFromPilot_process env tr sh dbhandle rec_mod s }"

definition set_drec_flags :: "dptr \<Rightarrow> int \<Rightarrow> ('c, 'w) sync \<Rightarrow> ('c, 'w) sync" where
  "set_drec_flags d flags s =
     (let dk = sy_desk s; store = dk_store dk in
      s\<lparr>sy_desk := dk\<lparr>dk_store := store(d := (store d)\<lparr>dr_flags := flags\<rparr>)\<rparr>\<rparr>)"

partial_function (option) merge_to_slow_loop ::
  "sync_env \<Rightarrow> 'w transport \<Rightarrow> ('c, 'w) SyncHandler \<Rightarrow> int \<Rightarrow> RecordModifier \<Rightarrow> dptr option \<Rightarrow>
   pi_buffer option \<Rightarrow> ('c, 'w) sync \<Rightarrow> (('c, 'w) sync \<times> int option) option" where
  "merge_to_slow_loop env tr sh dbhandle rec_mod drecord recbuf s = do {
     (s, drecord, r) \<leftarrow> on_desk (\<lambda>dk. Some (sh_ForEach sh drecord dk)) s;
     if r \<noteq> 0 then Some (s, None)
     else case drecord of
       None \<Rightarrow> Some (s, None)
     | Some d \<Rightarrow> do {
         (s, recbuf, p) \<leftarrow> fetch_counterpart env tr dbhandle rec_mod d recbuf s;
         case p of
           Inl r \<Rightarrow> Some (s, Some r)
         | Inr precord \<Rightarrow> do {
             let old = dr_flags (dk_store (sy_desk s) d);
             let s = set_drec_flags d 0 s;
             (s, changed) \<leftarrow>
               (case precord of
                  None \<Rightarrow> Some (s, True)
                | Some p \<Rightarrow> do {
                    (s, comp) \<leftarrow> on_desk (\<lambda>dk. Some (sh_Compare sh p d dk)) s;
                    Some (s, comp \<noteq> 0) });
             let s = set_drec_flags d (dr_flags (dk_store (sy_desk s) d) OR slow_flags changed old) s;
             (s, r) \<leftarrow> sync_record env tr sh dbhandle (Some d) precord rec_mod s;
             if r < 0 then Some (s, Some r)
             else merge_to_slow_loop env tr sh dbhandle rec_mod (Some d) recbuf s } } }"

definition sync_MergeToPilot_slow ::
  "sync_env \<Rightarrow> 'w transport \<Rightarrow> ('c, 'w) SyncHandler \<Rightarrow> int \<Rightarrow> RecordModifier \<Rightarrow> ('c, 'w) desk \<Rightarrow>
   (('c, 'w) desk \<times> int) option" where
  "sync_MergeToPilot_slow env tr sh dbhandle rec_mod dk = do {
     (s, ret) \<leftarrow> merge_to_slow_loop env tr sh dbhandle rec_mod None
        (pi_buffer_new (se_heap env) DLP_BUF_SIZE) \<lparr>sy_desk = dk, sy_rq = []\<rparr>;
     case ret of
       Some r \<Rightarrow> Some (sy_desk s, r)
     | None \<Rightarrow> sync_MergeFromPilot_process env tr sh dbhandle rec_mod s }"

section \<open>The entry points\<close>

text \<open>The frame that all five share: open the database, \<open>Pre\<close>, the work, \<open>Post\<close> when nothing
  failed, and close the database in every case. \<open>pre_fails\<close> is the test of the result of \<open>Pre\<close>.\<close>

definition with_db ::
  "sync_env \<Rightarrow> 'w transport \<Rightarrow> ('c, 'w) SyncHandler \<Rightarrow> (int \<Rightarrow> bool) \<Rightarrow>
   (int \<Rightarrow> int \<Rightarrow> ('c, 'w) desk \<Rightarrow> (('c, 'w) desk \<times> int) option) \<Rightarrow> ('c, 'w) desk \<Rightarrow>
   (('c, 'w) desk \<times> int) option" where
  "with_db env tr sh pre_fails work dk = do {
     (dk, h, result) \<leftarrow> open_db env tr sh dk;
     (dk, result) \<leftarrow>
       (if result < 0 then Some (dk, result)
        else let (dk, slow, result) = sh_Pre sh h 0 dk in
             if pre_fails result then Some (dk, result)
             else do {
               (dk, result) \<leftarrow> work h slow dk;
               if result < 0 then Some (dk, result) else Some (sh_Post sh h dk) });
     dk \<leftarrow> close_db env tr h dk;
     Some (dk, result) }"

partial_function (option) copy_to_loop ::
  "sync_env \<Rightarrow> 'w transport \<Rightarrow> ('c, 'w) SyncHandler \<Rightarrow> int \<Rightarrow> int \<Rightarrow> dptr option \<Rightarrow> ('c, 'w) desk \<Rightarrow>
   (('c, 'w) desk \<times> int) option" where
  "copy_to_loop env tr sh dbhandle result drecord dk =
     (let (dk, drecord, r) = sh_ForEach sh drecord dk in
      if r \<noteq> 0 then Some (dk, result)
      else case drecord of
        None \<Rightarrow> Some (dk, result)
      | Some d \<Rightarrow> do {
          (dk, result) \<leftarrow> store_record_on_pilot env tr sh dbhandle d BOTH dk;
          if result < 0 then Some (dk, result)
          else copy_to_loop env tr sh dbhandle result (Some d) dk })"

definition sync_CopyToPilot ::
  "sync_env \<Rightarrow> 'w transport \<Rightarrow> ('c, 'w) SyncHandler \<Rightarrow> ('c, 'w) desk \<Rightarrow> (('c, 'w) desk \<times> int) option" where
  "sync_CopyToPilot env tr sh = with_db env tr sh (\<lambda>r. r < 0) (\<lambda>h slow dk. do {
     (dk, result) \<leftarrow> on_sock (dlp_DeleteRecord (se_heap env) tr h True 0) dk;
     if result < 0 then Some (dk, result) else copy_to_loop env tr sh h result None dk })"

partial_function (option) delete_desktop_loop ::
  "('c, 'w) SyncHandler \<Rightarrow> dptr option \<Rightarrow> ('c, 'w) desk \<Rightarrow> (('c, 'w) desk \<times> int) option" where
  "delete_desktop_loop sh drecord dk =
     (let (dk, drecord, r) = sh_ForEach sh drecord dk in
      if r \<noteq> 0 then Some (dk, 0)
      else case drecord of
        None \<Rightarrow> Some (dk, 0)
      | Some d \<Rightarrow>
          (let (dk, result) = sh_DeleteRecord sh d dk in
           if result < 0 then Some (dk, result) else delete_desktop_loop sh (Some d) dk))"

partial_function (option) copy_from_loop ::
  "sync_env \<Rightarrow> 'w transport \<Rightarrow> ('c, 'w) SyncHandler \<Rightarrow> int \<Rightarrow> int \<Rightarrow> PilotRecord \<Rightarrow> pi_buffer option \<Rightarrow>
   ('c, 'w) desk \<Rightarrow> (('c, 'w) desk \<times> int) option" where
  "copy_from_loop env tr sh dbhandle i precord recbuf dk = do {
     (dk, out, recbuf, r) \<leftarrow> on_sock (dlp_ReadRecordByIndex (se_heap env) tr dbhandle i want_id_attr_cat recbuf) dk;
     if r \<le> 0 then Some (dk, 0)
     else do {
       precord \<leftarrow> load_record out recbuf precord;
       let (dk, result) = sh_AddRecord sh precord dk;
       if result < 0 then Some (dk, result)
       else copy_from_loop env tr sh dbhandle (i + 1) precord recbuf dk } }"

definition sync_CopyFromPilot ::
  "sync_env \<Rightarrow> 'w transport \<Rightarrow> ('c, 'w) SyncHandler \<Rightarrow> ('c, 'w) desk \<Rightarrow> (('c, 'w) desk \<times> int) option" where
  "sync_CopyFromPilot env tr sh dk = do {
     precord \<leftarrow> sync_NewPilotRecord (se_heap env) DLP_BUF_SIZE;
     with_db env tr sh (\<lambda>r. r < 0) (\<lambda>h slow dk. do {
       (dk, result) \<leftarrow> delete_desktop_loop sh None dk;
       if result < 0 then Some (dk, result)
       else copy_from_loop env tr sh h 0 precord (pi_buffer_new (se_heap env) DLP_BUF_SIZE) dk }) dk }"

definition sync_MergeFromPilot ::
  "sync_env \<Rightarrow> 'w transport \<Rightarrow> ('c, 'w) SyncHandler \<Rightarrow> ('c, 'w) desk \<Rightarrow> (('c, 'w) desk \<times> int) option" where
  "sync_MergeFromPilot env tr sh = with_db env tr sh (\<lambda>r. r < 0) (\<lambda>h slow dk.
     if slow = 0 then sync_MergeFromPilot_fast env tr sh h DESKTOP dk
     else sync_MergeFromPilot_slow env tr sh h DESKTOP dk)"

text \<open>The results of the two merges are dropped: the variable tested after them holds the
  result of \<open>Pre\<close>.\<close>

definition sync_MergeToPilot ::
  "sync_env \<Rightarrow> 'w transport \<Rightarrow> ('c, 'w) SyncHandler \<Rightarrow> ('c, 'w) desk \<Rightarrow> (('c, 'w) desk \<times> int) option" where
  "sync_MergeToPilot env tr sh = with_db env tr sh (\<lambda>r. r < 0) (\<lambda>h slow dk. do {
     (dk, _) \<leftarrow> (if slow = 0 then sync_MergeToPilot_fast env tr sh h PILOT dk
                else sync_MergeToPilot_slow env tr sh h PILOT dk);
     Some (dk, 0) })"

definition sync_Synchronize ::
  "sync_env \<Rightarrow> 'w transport \<Rightarrow> ('c, 'w) SyncHandler \<Rightarrow> ('c, 'w) desk \<Rightarrow> (('c, 'w) desk \<times> int) option" where
  "sync_Synchronize env tr sh = with_db env tr sh (\<lambda>r. r \<noteq> 0) (\<lambda>h slow dk. do {
     (dk, result) \<leftarrow> (if slow = 0 then sync_MergeFromPilot_fast env tr sh h BOTH dk
                     else sync_MergeFromPilot_slow env tr sh h BOTH dk);
     if result < 0 then Some (dk, result)
     else if slow = 0 then sync_MergeToPilot_fast env tr sh h BOTH dk
     else sync_MergeToPilot_slow env tr sh h BOTH dk })"

end
