(* ===== verification/DlpRecProps.thy ===== *)
theory DlpRecProps
  imports DlpRes
begin

text \<open>
  What the record calls deliver on a device: \<open>dlp_ReadRecordById\<close>, which splits the read of a
  large record in two, returns the whole record; the resource calls report the first part when
  the second read fails.
\<close>

lemma expect_all_alloc: "all_alloc env \<Longrightarrow> snd (pi_buffer_expect env buf n)"
  by (cases "data buf") (simp_all add: pi_buffer_expect_def malloc_def realloc_def)

lemma append_counted_all:
  assumes "all_alloc env" "pi_buffer_wf buf" "length bs < 2 ^ 64" "off = length hdr"
  shows "\<exists>buf'. append_counted env buf (hdr @ bs) off (int (length bs)) = Some buf' \<and> pi_buffer_wf buf' \<and>
           content buf' = content buf @ bs"
proof -
  have k: "nat (int (length bs) mod 18446744073709551616) = length bs" using assms(3) by simp
  obtain b ok where e: "pi_buffer_expect env buf (length bs) = (b, ok)" by fastforce
  then have ok: "ok" using expect_all_alloc[OF assms(1), of buf "length bs"] by simp
  obtain b' ok' where a: "pi_buffer_append env buf bs = Some (b', ok')" "pi_buffer_wf b'"
    "content b' = (if ok' then content buf @ bs else [])"
    using pi_buffer_append_spec[OF assms(2)] by blast
  have "ok'" using a(1) e ok
    by (auto simp: pi_buffer_append_def split: prod.splits if_splits Option.bind_splits)
  then show ?thesis using e ok a assms(4)
    by (intro exI[of _ b']) (simp add: append_counted_def k get_block_def)
qed

lemma clear_append_all:
  assumes "all_alloc env" "pi_buffer_wf buf" "length bs < 2 ^ 64" "off = length hdr"
  shows "\<exists>buf'. clear_append env buf (hdr @ bs) off (int (length bs)) = Some buf' \<and> pi_buffer_wf buf' \<and>
           content buf' = bs"
proof -
  have "pi_buffer_wf (pi_buffer_clear env buf)" "content (pi_buffer_clear env buf) = []"
    using pi_buffer_clear_wf[OF assms(2)] by auto
  then show ?thesis
    using append_counted_all[OF assms(1) _ assms(3,4), of "pi_buffer_clear env buf"]
    by (simp add: clear_append_def)
qed

text \<open>An answer with one argument and no error.\<close>

definition answer :: "u8 \<Rightarrow> bytes \<Rightarrow> dlpResponse" where
  "answer cmd bs = \<lparr>rs_cmd = cmd, rs_err = 0, rs_argv = [\<lparr>arg_id = 0x20, arg_data = bs\<rparr>]\<rparr>"

context device_link begin

lemma call_answer:
  assumes "all_alloc env" "cmd AND 0x80 = 0" "length bs < 0xffff" "ready (sk_world sk) d0"
    "dev d0 (request_bytes \<lparr>rq_cmd = cmd, rq_argv = [\<lparr>arg_id = argid, arg_data = rq\<rparr>]\<rparr>) =
       (d, response_bytes (answer cmd bs))"
    and lim: "length rq + 8 \<le> limit" "length bs + 8 \<le> limit"
  shows "\<exists>w. ready w d \<and> dlp_call env tr cmd argid [rq] sk =
    Some (sk\<lparr>sk_world := w, sk_palmos_error := 0\<rparr>, Some (answer cmd bs), int (length bs))"
proof -
  let ?rq = "\<lparr>rq_cmd = cmd, rq_argv = [\<lparr>arg_id = argid, arg_data = rq\<rparr>]\<rparr>"
  have req: "dlp_request_new_with_argid env cmd argid [rq] = Some ?rq"
    using assms(1) by (simp add: dlp_request_new_with_argid_def dlp_arg_new_def)
  have fits: "response_fits (answer cmd bs)"
    using assms(2,3) by (simp add: response_fits_def answer_def arg_fits_def)
  have short: "arg_short \<lparr>arg_id = 0x20, arg_data = bs\<rparr>"
    using assms(3) by (simp add: arg_short_def PI_DLP_ARG_SHORT_LEN_def PI_DLP_ARG_FLAG_LONG_def)
  have v: "version_carries sk (rs_argv (answer cmd bs))"
    using short by (simp add: version_carries_def answer_def)
  have l: "length (request_bytes ?rq) \<le> limit" "length (response_bytes (answer cmd bs)) \<le> limit"
    using lim short by (auto simp: request_bytes_def response_bytes_def arg_bytes_def answer_def Let_def)
  show ?thesis
    unfolding dlp_call_def req option.case
    using exec[OF assms(1) fits v assms(4,5) l] by (simp add: Let_def cmd_accepted_def answer_def first_len_def)
qed

lemma call_error:
  assumes "all_alloc env" "cmd_accepted cmd (rs_cmd res)" "response_fits res" "rs_err res \<noteq> 0" "rs_argv res = []"
    "ready (sk_world sk) d0"
    "dev d0 (request_bytes \<lparr>rq_cmd = cmd, rq_argv = [\<lparr>arg_id = argid, arg_data = rq\<rparr>]\<rparr>) = (d, response_bytes res)"
    and lim: "length rq + 8 \<le> limit"
  shows "\<exists>w. ready w d \<and> dlp_call env tr cmd argid [rq] sk =
    Some (sk\<lparr>sk_world := w, sk_palmos_error := rs_err res, sk_last_error := PI_ERR_DLP_PALMOS\<rparr>,
          Some res, PI_ERR_DLP_PALMOS)"
proof -
  let ?rq = "\<lparr>rq_cmd = cmd, rq_argv = [\<lparr>arg_id = argid, arg_data = rq\<rparr>]\<rparr>"
  have req: "dlp_request_new_with_argid env cmd argid [rq] = Some ?rq"
    using assms(1) by (simp add: dlp_request_new_with_argid_def dlp_arg_new_def)
  have v: "version_carries sk (rs_argv res)" using assms(5) by (simp add: version_carries_def)
  have l: "length (request_bytes ?rq) \<le> limit" "length (response_bytes res) \<le> limit"
    using lim assms(5) by (auto simp: request_bytes_def response_bytes_def arg_bytes_def Let_def)
  show ?thesis
    unfolding dlp_call_def req option.case
    using exec[OF assms(1,3) v assms(6,7) l] assms(2,4) by (simp add: Let_def)
qed

end

section \<open>Records\<close>

definition record_header :: "u64 \<Rightarrow> u16 \<Rightarrow> u8 \<Rightarrow> u8 \<Rightarrow> nat \<Rightarrow> bytes" where
  "record_header recuid x a c n = set_long (ucast recuid) @ set_short x @ set_short (of_nat n) @ [a, c]"

text \<open>A device on which the record \<open>rec\<close> has the identifier \<open>recuid\<close>: it answers the request
  for \<open>n\<close> bytes from \<open>off\<close> with the header of the record and those bytes.\<close>

definition serves_record ::
  "('d \<Rightarrow> bytes \<Rightarrow> 'd \<times> bytes) \<Rightarrow> int \<Rightarrow> u64 \<Rightarrow> u16 \<Rightarrow> u8 \<Rightarrow> u8 \<Rightarrow> bytes \<Rightarrow> bool" where
  "serves_record dev h recuid x a c rec \<longleftrightarrow>
     (\<forall>d off n. off < 65536 \<longrightarrow> n < 65536 \<longrightarrow>
        (\<exists>d'. dev d (request_bytes \<lparr>rq_cmd = dlpFuncReadRecord, rq_argv = [\<lparr>arg_id = 0x20,
                   arg_data = record_by_id_request h recuid (int off) (int n)\<rparr>]\<rparr>) =
              (d', response_bytes (answer dlpFuncReadRecord
                     (record_header recuid x a c (length rec) @ take n (drop off rec))))))"

lemma record_header_fields:
  "length (record_header recuid x a c n) = 10"
  "get_short (record_header recuid x a c n @ bs) 4 = Some x"
  "get_byte (record_header recuid x a c n @ bs) 8 = Some a"
  "get_byte (record_header recuid x a c n @ bs) 9 = Some c"
  by (simp_all add: record_header_def mem_simps)

lemma request_length [simp]:
  "length (record_by_id_request h recuid off n) = 10" "length (resource_by_type_request h type resID off n) = 12"
  by (simp_all add: record_by_id_request_def resource_by_type_request_def)

context device_link begin

lemma serves_call:
  assumes env: "all_alloc env" and dev: "serves_record dev h recuid x a c rec" and rdy: "ready (sk_world sk) d"
    and n: "off < 65536" "n + 10 < 65535" "n + 18 \<le> limit" "18 \<le> limit"
  shows "\<exists>w d'. ready w d' \<and> dlp_call env tr dlpFuncReadRecord 0x20
              [record_by_id_request h recuid (int off) (int n)] sk =
    Some (sk\<lparr>sk_world := w, sk_palmos_error := 0\<rparr>,
          Some (answer dlpFuncReadRecord (record_header recuid x a c (length rec) @ take n (drop off rec))),
          10 + int (length (take n (drop off rec))))"
proof -
  let ?bs = "record_header recuid x a c (length rec) @ take n (drop off rec)"
  obtain d' where d: "dev d (request_bytes \<lparr>rq_cmd = dlpFuncReadRecord, rq_argv = [\<lparr>arg_id = 0x20,
       arg_data = record_by_id_request h recuid (int off) (int n)\<rparr>]\<rparr>) = (d', response_bytes (answer dlpFuncReadRecord ?bs))"
    using dev n by (fastforce simp: serves_record_def)
  have cmd: "dlpFuncReadRecord AND 0x80 = 0" by (simp add: dlpFuncReadRecord_def)
  have l: "length ?bs < 0xffff" "length ?bs + 8 \<le> limit" "length (record_by_id_request h recuid (int off) (int n)) + 8 \<le> limit"
    using n by (auto simp: record_header_fields)
  obtain w where "ready w d'" "dlp_call env tr dlpFuncReadRecord 0x20 [record_by_id_request h recuid (int off) (int n)] sk =
      Some (sk\<lparr>sk_world := w, sk_palmos_error := 0\<rparr>, Some (answer dlpFuncReadRecord ?bs), int (length ?bs))"
    using call_answer[OF env cmd l(1) rdy d l(3,2)] by blast
  then show ?thesis by (intro exI[of _ w] exI[of _ d']) (simp add: record_header_fields)
qed

lemma serves_exec:
  assumes env: "all_alloc env" and dev: "serves_record dev h recuid x a c rec" and rdy: "ready (sk_world sk) d"
    and n: "off < 65536" "n + 10 < 65535" "n + 18 \<le> limit" "18 \<le> limit"
  shows "\<exists>req w d'. dlp_request_new env dlpFuncReadRecord [record_by_id_request h recuid (int off) (int n)] = Some req \<and>
    ready w d' \<and> dlp_exec env tr req sk =
    Some (sk\<lparr>sk_world := w, sk_palmos_error := 0\<rparr>,
          Some (answer dlpFuncReadRecord (record_header recuid x a c (length rec) @ take n (drop off rec))),
          10 + int (length (take n (drop off rec))))"
proof -
  have "dlp_request_new env dlpFuncReadRecord [record_by_id_request h recuid (int off) (int n)] =
    dlp_request_new_with_argid env dlpFuncReadRecord 0x20 [record_by_id_request h recuid (int off) (int n)]"
    by (simp add: dlp_request_new_def dlp_request_new_with_argid_def PI_DLP_ARG_FIRST_ID_def)
  moreover obtain req where "dlp_request_new_with_argid env dlpFuncReadRecord 0x20
      [record_by_id_request h recuid (int off) (int n)] = Some req"
    using env by (simp add: dlp_request_new_with_argid_def dlp_arg_new_def)
  moreover obtain w d' where "ready w d'" "dlp_call env tr dlpFuncReadRecord 0x20
              [record_by_id_request h recuid (int off) (int n)] sk =
    Some (sk\<lparr>sk_world := w, sk_palmos_error := 0\<rparr>,
          Some (answer dlpFuncReadRecord (record_header recuid x a c (length rec) @ take n (drop off rec))),
          10 + int (length (take n (drop off rec))))"
    using serves_call[OF env dev rdy n] by blast
  ultimately show ?thesis
    by (intro exI[of _ req] exI[of _ w] exI[of _ d']) (simp add: dlp_call_def)
qed

end

lemma resp_data_answer: "resp_data (Some (answer cmd bs)) 0 = Some bs"
  by (simp add: resp_data_def answer_def)

lemma payload_len_append:
  "length hdr = n \<Longrightarrow> length bs < 0x80000000 \<Longrightarrow> payload_len (hdr @ bs) n = int (length bs)"
  by (simp add: payload_len_def to_int_id)

lemma read_outs_record:
  "read_outs (want_all\<lparr>rw_id := False\<rparr>) (record_header recuid x a c n @ bs) 8 =
     Some \<lparr>rc_id = None, rc_index = Some (uint x), rc_attr = Some (uint a), rc_cat = Some (uint c)\<rparr>"
  by (simp add: read_outs_def want_all_def fetch_def record_header_fields)

context device_link begin

lemma read_record_whole:
  assumes env: "all_alloc env" and wf: "pi_buffer_wf buf"
    and v: "sk_dlpversion sk \<noteq> 0" and m: "100 \<le> unat (sk_maxrecsize sk)" "unat (sk_maxrecsize sk) \<le> 0xffff"
    and dev: "serves_record dev h recuid x a c rec" and rdy: "ready (sk_world sk) d" and lim: "65536 \<le> limit"
    and len: "length rec \<le> unat (sk_maxrecsize sk)"
  shows "\<exists>sk' buf'. dlp_ReadRecordById env tr h recuid want_all (Some buf) sk =
      Some (sk', \<lparr>rc_id = None, rc_index = Some (uint x), rc_attr = Some (uint a), rc_cat = Some (uint c)\<rparr>,
            Some buf', int (length rec)) \<and> pi_buffer_wf buf' \<and> content buf' = rec"
proof -
  obtain maxb where maxb: "unat (sk_maxrecsize sk) = maxb + 100" "maxb \<le> 65435"
    using m le_Suc_ex[OF m(1)] by auto
  let ?tr = tr and ?hdr = "record_header recuid x a c (length rec)"
  let ?out = "\<lparr>rc_id = None, rc_index = Some (uint x), rc_attr = Some (uint a), rc_cat = Some (uint c)\<rparr>"
  let ?sk = "pi_reset_errors sk" and ?a = "take maxb rec" and ?b = "take 100 (drop maxb rec)"
  have rec: "?a @ ?b = rec" using len maxb(1) by simp
  have "(100 :: u64) \<le> sk_maxrecsize sk" using m by (simp add: word_le_nat_alt)
  then have "unat (sk_maxrecsize sk - 100) = maxb" using maxb(1) by (simp add: unat_sub)
  then have "uint (sk_maxrecsize sk - 100) = int maxb" by (metis uint_nat)
  then have mb: "max_buffer ?tr sk = (int maxb, sk)"
    using v maxb(2) by (simp add: max_buffer_def pi_maxrecsize_def pi_version_known RECORD_READ_SAFEGUARD_SIZE_def
        to_int_id)
  have small: "length ?a < 0x80000000" "length ?b < 0x80000000" "length ?a < 2 ^ 64" "length ?b < 2 ^ 64"
    using maxb(2) by simp_all
  note hl = record_header_fields(1)[of recuid x a c "length rec"]
  obtain w d1 where d1: "ready w d1" and 1: "dlp_call env ?tr dlpFuncReadRecord 0x20 [record_by_id_request h recuid 0 (int maxb)] ?sk =
      Some (?sk\<lparr>sk_world := w, sk_palmos_error := 0\<rparr>, Some (answer dlpFuncReadRecord (?hdr @ ?a)), 10 + int (length ?a))"
    using serves_call[OF env dev, of ?sk d 0 maxb] rdy lim maxb(2) by (auto simp: pi_reset_errors_def simp del: length_take)
  obtain b1 where b1: "clear_append env buf (?hdr @ ?a) 10 (int (length ?a)) = Some b1" "pi_buffer_wf b1" "content b1 = ?a"
    using clear_append_all[OF env wf small(3) hl[symmetric]] by blast
  note step = mb 1 resp_data_answer payload_len_append[OF hl small(1)]
    payload_len_append[OF hl small(2)] read_outs_record b1(1)
  show ?thesis
  proof (cases "length ?a = maxb")
    case False
    then have "length rec < maxb" by auto
    then show ?thesis using step b1 False
      by (simp add: dlp_ReadRecordById_def Let_def PI_DLP_ARG_FIRST_ID_def)
  next
    case True
    let ?sk1 = "?sk\<lparr>sk_world := w, sk_palmos_error := 0\<rparr>"
    obtain req w2 where 2: "dlp_request_new env dlpFuncReadRecord [record_by_id_request h recuid (int maxb) 100] = Some req"
      "dlp_exec env ?tr req ?sk1 = Some (?sk1\<lparr>sk_world := w2, sk_palmos_error := 0\<rparr>,
         Some (answer dlpFuncReadRecord (?hdr @ ?b)), 10 + int (length ?b))"
      using serves_exec[OF env dev, of ?sk1 d1 maxb 100] d1 lim maxb(2) by (auto simp del: length_take)
    obtain b2 where b2: "append_counted env b1 (?hdr @ ?b) 10 (int (length ?b)) = Some b2" "pi_buffer_wf b2"
      "content b2 = ?a @ ?b"
      using append_counted_all[OF env b1(2) small(4) hl[symmetric]] b1(3) by auto
    have "int (length ?b) + int maxb = int (length rec)" using rec True by (metis length_append of_nat_add add.commute)
    moreover have "to_int (int (length rec)) = int (length rec)" using len maxb by (intro to_int_id) auto
    ultimately show ?thesis using step 2 b2 True rec
      by (simp add: dlp_ReadRecordById_def Let_def PI_DLP_ARG_FIRST_ID_def RECORD_READ_SAFEGUARD_SIZE_def del: length_take)
  qed
qed

end

text \<open>C5: \<open>dlp_ReadRecordById\<close> delivers a whole record of any length that the connection allows,
  in one read or in two: the buffer holds exactly the record, the result is its length, and the
  header's fields are the record's.\<close>

theorem dlp_ReadRecordById_whole:
  assumes "all_alloc env" "pi_buffer_wf buf"
    "sk_dlpversion sk \<noteq> 0" "100 \<le> unat (sk_maxrecsize sk)" "unat (sk_maxrecsize sk) \<le> 0xffff"
    "serves_record dev h recuid x a c rec" "length rec \<le> unat (sk_maxrecsize sk)"
  shows "\<exists>sk' buf'. dlp_ReadRecordById env (device_transport dev vers) h recuid want_all (Some buf) sk =
      Some (sk', \<lparr>rc_id = None, rc_index = Some (uint x), rc_attr = Some (uint a), rc_cat = Some (uint c)\<rparr>,
            Some buf', int (length rec)) \<and> pi_buffer_wf buf' \<and> content buf' = rec"
  using direct.read_record_whole[OF assms(1-6) refl _ assms(7), where limit = 65536] by simp

text \<open>A device with one record, which takes the offset and the length from the request.\<close>

definition record_device :: "bytes \<Rightarrow> nat \<Rightarrow> bytes \<Rightarrow> nat \<times> bytes" where
  "record_device rec d rq =
     (d + 1, response_bytes (answer dlpFuncReadRecord (record_header 7 3 0x40 1 (length rec) @
               (case (get_short rq 10, get_short rq 12) of
                  (Some off, Some n) \<Rightarrow> take (unat n) (drop (unat off) rec)
                | _ \<Rightarrow> []))))"

lemma record_device_serves: "serves_record (record_device rec) h 7 3 0x40 1 rec"
proof -
  have "request_bytes \<lparr>rq_cmd = dlpFuncReadRecord, rq_argv = [\<lparr>arg_id = 0x20,
      arg_data = record_by_id_request h recuid off n\<rparr>]\<rparr> =
    ([dlpFuncReadRecord, 1, 0x20, 10] @ set_byte (word_of_int h) @ set_byte 0 @ set_long (ucast recuid)) @
      set_short (word_of_int off) @ set_short (word_of_int n)" for recuid off n
    by (simp add: request_bytes_def arg_bytes_def arg_tiny_def record_by_id_request_def PI_DLP_ARG_TINY_LEN_def
        PI_DLP_ARG_FLAG_SHORT_def PI_DLP_ARG_FLAG_LONG_def set_byte_def)
  moreover have "unat (word_of_int (int k) :: u16) = k" if "k < 65536" for k
    using that by (simp add: unat_of_nat)
  ultimately show ?thesis
    using get_set_short[of _ "[]"] by (simp add: serves_record_def record_device_def mem_simps)
qed

theorem dlp_ReadRecordById_whole_witness:
  "\<exists>sk buf. dlp_ReadRecordById calloc_env (device_transport (record_device [1, 2, 3, 4, 5, 6, 7]) 0) 1 7 want_all
      (Some (buf_of [])) (sample_sock\<lparr>sk_maxrecsize := 105\<rparr>) =
    Some (sk, \<lparr>rc_id = None, rc_index = Some 3, rc_attr = Some 0x40, rc_cat = Some 1\<rparr>, Some buf, 7) \<and>
    content buf = [1, 2, 3, 4, 5, 6, 7]"
proof -
  have "\<exists>sk buf. dlp_ReadRecordById calloc_env (device_transport (record_device [1, 2, 3, 4, 5, 6, 7]) 0) 1 7 want_all
      (Some (buf_of [])) (sample_sock\<lparr>sk_maxrecsize := 105\<rparr>) =
    Some (sk, \<lparr>rc_id = None, rc_index = Some (uint (3 :: u16)), rc_attr = Some (uint (0x40 :: u8)),
           rc_cat = Some (uint (1 :: u8))\<rparr>, Some buf, int (length [1, 2, 3, 4, 5, 6, 7 :: u8])) \<and>
    pi_buffer_wf buf \<and> content buf = [1, 2, 3, 4, 5, 6, 7]"
    by (rule dlp_ReadRecordById_whole) (simp_all add: record_device_serves sample_sock_def)
  then show ?thesis by (elim exE conjE) (intro exI conjI, simp_all)
qed

section \<open>Behaviour at the edges\<close>

text \<open>The reader of responses trusts their lengths: an answer of eight bytes that announces one
  argument of 65535 bytes makes it copy from outside its block.\<close>

definition short_answer :: bytes where
  "short_answer = [0xa0, 1, 0, 0, 0xa0, 0, 0xff, 0xff]"

text \<open>C30: an answer of eight bytes that announces an argument of 65535 bytes makes
  \<open>dlp_response_read\<close> read outside its buffer of \<open>DLP_BUF_SIZE\<close> bytes, whatever the device.\<close>

theorem dlp_response_read_overread:
  assumes "all_alloc env" "snd (sk_world sk) = short_answer"
  shows "dlp_response_read env (device_transport dev vers) sk = None"
proof -
  define d where "d = map (malloc_byte env) [0..<65535]"
  have d: "length d = 65535" by (simp add: d_def)
  obtain buf where buf: "pi_buffer_new env DLP_BUF_SIZE = Some buf" "data buf = Some d"
    using assms(1) by (simp add: pi_buffer_new_def malloc_def DLP_BUF_SIZE_def d_def)
  let ?block = "short_answer @ drop 8 d"
  have l: "length short_answer = 8" by (simp add: short_answer_def)
  have rd: "tr_read (device_transport dev vers) sk buf (allocated buf) =
      Some (sk, \<lparr>data = Some ?block, allocated = length ?block, used = 8\<rparr>, 8)"
    using assms(2) buf(2) by (simp add: device_transport_def Let_def l)
  have g: "get_byte ?block 0 = Some 0xa0" "get_byte ?block 1 = Some 1" "get_short ?block 2 = Some 0"
    "get_byte ?block 4 = Some 0xa0" "get_short ?block 6 = Some 0xffff" "length ?block = 65535"
    using d by (simp_all add: short_answer_def mem_simps get_short_def)
  show ?thesis
    unfolding dlp_response_read_def buf option.case Let_def rd prod.case
    using assms(1) g(6)
    by (simp add: g(1-5) g(2)[unfolded One_nat_def] dlp_response_new_ok_def read_args_def PI_DLP_ARG_FLAG_LONG_def PI_DLP_ARG_FLAG_SHORT_def
        get_block_def)
qed

theorem dlp_response_read_overread_witness:
  "dlp_response_read calloc_env (device_transport (\<lambda>n _. (n, [])) 0) (sample_sock\<lparr>sk_world := (0, short_answer)\<rparr>) = None"
  by (rule dlp_response_read_overread) simp_all

text \<open>C31: when the second part of a large resource cannot be read, \<open>dlp_ReadResourceByType\<close> still
  reports success: its result is the length of the first part, which is all that the buffer
  holds.\<close>

theorem resource_second_read_lost:
  assumes "max_buffer tr sk = (maxb, sk1)" "0 \<le> maxb"
    "dlp_call env tr 0x23 0x21 [resource_by_type_request h type resID 0 maxb] (pi_reset_errors sk1) =
       Some (sk2, Some res, result)" "0 < result" "resp_data (Some res) 0 = Some d"
    "payload_len d 10 = maxb" "clear_append env buf d 10 maxb = Some buf2"
    "dlp_request_new_with_argid env 0x23 0x21 [resource_by_type_request h type resID maxb 100] = Some req"
    "dlp_exec env tr req sk2 = Some (sk3, res3, err)" "err < 0"
  shows "dlp_ReadResourceByType env tr h type resID False (Some buf) sk = Some (sk3, None, Some buf2, maxb)"
  using assms by (simp add: dlp_ReadResourceByType_def read_second_def Let_def fetch_def RECORD_READ_SAFEGUARD_SIZE_def)

definition lost_device :: "nat \<Rightarrow> bytes \<Rightarrow> nat \<times> bytes" where
  "lost_device n rq = (n + 1, response_bytes
     (if n = 0 then answer 0x23 ([0, 0, 0, 0, 0, 0, 0, 0, 0, 0] @ [1, 2, 3, 4]) else \<lparr>rs_cmd = 0x23, rs_err = 5, rs_argv = []\<rparr>))"

theorem resource_second_read_lost_witness:
  "\<exists>sk buf. dlp_ReadResourceByType calloc_env (device_transport lost_device 0) 1 7 3 False (Some (buf_of []))
      (sample_sock\<lparr>sk_maxrecsize := 104\<rparr>) = Some (sk, None, Some buf, 4) \<and> content buf = [1, 2, 3, 4]"
proof -
  let ?sk = "sample_sock\<lparr>sk_maxrecsize := 104\<rparr>" and ?tr = "device_transport lost_device 0"
  let ?d = "[0, 0, 0, 0, 0, 0, 0, 0, 0, 0] @ [1, 2, 3, 4 :: u8]"
  obtain buf where buf: "clear_append calloc_env (buf_of []) ?d 10 4 = Some buf" "content buf = [1, 2, 3, 4]"
    using clear_append_all[of calloc_env "buf_of []" "[1, 2, 3, 4]" 10 "[0, 0, 0, 0, 0, 0, 0, 0, 0, 0]"] by auto
  let ?res = "\<lparr>rs_cmd = 0x23, rs_err = 5, rs_argv = []\<rparr>"
  obtain w where w: "fst w = 1" and 1: "dlp_call calloc_env ?tr 0x23 0x21 [resource_by_type_request 1 7 3 0 4] (pi_reset_errors ?sk) =
      Some ((pi_reset_errors ?sk)\<lparr>sk_world := w, sk_palmos_error := 0\<rparr>, Some (answer 0x23 ?d), int (length ?d))"
    using direct.call_answer[of calloc_env "0x23" ?d "pi_reset_errors ?sk" 0 lost_device "0x21" "resource_by_type_request 1 7 3 0 4"
        1 1000 0]
    by (auto simp: lost_device_def sample_sock_def pi_reset_errors_def)
  let ?sk2 = "(pi_reset_errors ?sk)\<lparr>sk_world := w, sk_palmos_error := 0\<rparr>"
  let ?rq = "\<lparr>rq_cmd = 0x23, rq_argv = [\<lparr>arg_id = 0x21, arg_data = resource_by_type_request 1 7 3 4 100\<rparr>]\<rparr>"
  have req: "dlp_request_new_with_argid calloc_env 0x23 0x21 [resource_by_type_request 1 7 3 4 100] = Some ?rq"
    by (simp add: dlp_request_new_with_argid_def dlp_arg_new_def)
  obtain sk3 where 2: "dlp_exec calloc_env ?tr ?rq ?sk2 = Some (sk3, Some ?res, PI_ERR_DLP_PALMOS)"
    using direct.call_error[of calloc_env "0x23" ?res ?sk2 1 lost_device "0x21" "resource_by_type_request 1 7 3 4 100" 2 1000 0] w
    by (auto simp: dlp_call_def req response_fits_def lost_device_def cmd_accepted_def)
  have "dlp_ReadResourceByType calloc_env ?tr 1 7 3 False (Some (buf_of [])) ?sk = Some (sk3, None, Some buf, 4)"
  proof (rule resource_second_read_lost[OF _ _ 1 _ _ _ _ req 2])
    show "max_buffer ?tr ?sk = (4, ?sk)"
      by (simp add: max_buffer_def pi_maxrecsize_def pi_version_def sample_sock_def RECORD_READ_SAFEGUARD_SIZE_def to_int_id)
  qed (use buf in \<open>simp_all add: resp_data_answer payload_len_def to_int_id PI_ERR_DLP_PALMOS_def\<close>)
  then show ?thesis using buf(2) by blast
qed

text \<open>C32: on a Palm OS 1.0 device \<open>dlp_WriteAppPreference\<close> sends the version and the preference
  without its last two bytes, under a length that does not count the version.\<close>

theorem write_preference_cuts:
  assumes "sk_dlpversion sk = 0x0100"
    "dlp_OpenDB env tr 0 (uint dlpOpenWrite) system_preferences (pi_reset_errors sk) = Some (sk1, Some db, r)" "0 \<le> r"
    "sk_dlpversion sk1 = 0x0100" "2 \<le> length pref" "length pref \<le> 65533"
  shows "dlp_WriteAppPreference env tr creator prefID backup version (Some pref) (length pref) sk = do {
     (sk, result) \<leftarrow> dlp_simple env tr dlpFuncWriteResource FIRST_ID
        [set_byte (word_of_int db) @ set_byte 0 @ set_long (ucast creator) @ set_short (word_of_int prefID) @
         set_short (of_nat (length pref)) @ set_short (word_of_int version) @ take (length pref - 2) pref]
        (pi_reset_errors sk1);
     sk \<leftarrow> close_keeping_error env tr db (result < 0) sk;
     Some (sk, result) }"
proof -
  have "get_block (length pref) (set_short (word_of_int version) @ pref) 0 =
      Some (set_short (word_of_int version) @ take (length pref - 2) pref)"
    using assms(5) by (simp add: get_block_def)
  moreover have "pi_version tr (pi_reset_errors sk1) = (0x0100, pi_reset_errors sk1)"
    "pi_version tr (pi_reset_errors sk) = (0x0100, pi_reset_errors sk)"
    using assms(1,4) by (simp_all add: pi_version_def pi_reset_errors_def)
  moreover have "get_block (length pref) pref 0 = Some pref" by (simp add: get_block_def)
  moreover have "pref \<noteq> []" using assms(5) by auto
  ultimately show ?thesis
    using assms(2,3,6) by (simp add: dlp_WriteAppPreference_def dlp_WriteResource_def Let_def DLP_BUF_SIZE_def)
qed

theorem write_preference_cuts_witness:
  "\<exists>sk1. dlp_WriteAppPreference calloc_env (device_transport (\<lambda>n _. (n + 1, response_bytes (answer 0x17 [5]))) 0)
       7 3 False 2 (Some [1, 2, 3, 4]) 4 (sample_sock\<lparr>sk_dlpversion := 0x0100\<rparr>) = do {
     (sk, result) \<leftarrow> dlp_simple calloc_env (device_transport (\<lambda>n _. (n + 1, response_bytes (answer 0x17 [5]))) 0)
        dlpFuncWriteResource FIRST_ID
        [set_byte 5 @ set_byte 0 @ set_long 7 @ set_short 3 @ set_short 4 @ set_short 2 @ [1, 2]] (pi_reset_errors sk1);
     sk \<leftarrow> close_keeping_error calloc_env (device_transport (\<lambda>n _. (n + 1, response_bytes (answer 0x17 [5]))) 0) 5
        (result < 0) sk;
     Some (sk, result) }"
proof -
  let ?dev = "\<lambda>n _. (n + 1, response_bytes (answer 0x17 [5]))"
  let ?sk = "sample_sock\<lparr>sk_dlpversion := 0x0100\<rparr>"
  let ?rq = "set_byte 0 @ set_byte (word_of_int (uint dlpOpenWrite)) @ c_string system_preferences"
  obtain w where w: "fst w = 1" and c: "dlp_call calloc_env (device_transport ?dev 0) 0x17 FIRST_ID [?rq]
      (pi_reset_errors (pi_reset_errors ?sk)) =
      Some ((pi_reset_errors (pi_reset_errors ?sk))\<lparr>sk_world := w, sk_palmos_error := 0\<rparr>, Some (answer 0x17 [5]), int (length [5 :: u8]))"
    using direct.call_answer[of calloc_env "0x17" "[5]" "pi_reset_errors (pi_reset_errors ?sk)" 0 ?dev FIRST_ID ?rq 1 1000 0]
    by (auto simp: sample_sock_def pi_reset_errors_def c_string_def system_preferences_def)
  let ?sk1 = "(pi_reset_errors (pi_reset_errors ?sk))\<lparr>sk_world := w, sk_palmos_error := 0\<rparr>"
  have 1: "dlp_OpenDB calloc_env (device_transport ?dev 0) 0 (uint dlpOpenWrite) system_preferences (pi_reset_errors ?sk) =
      Some (?sk1, Some 5, 1)"
    using c by (simp add: dlp_OpenDB_def resp_data_answer mem_simps)
  have four: "length [1, 2, 3, 4 :: u8] = 4" by simp
  show ?thesis
    using write_preference_cuts[OF _ 1, of "[1, 2, 3, 4]" 7 3 False 2, unfolded four]
    by (intro exI[of _ ?sk1]) (simp add: sample_sock_def pi_reset_errors_def)
qed

end
