(* ===== verification/SyncPlan.thy ===== *)
theory SyncPlan
  imports SyncMerge DlpRecProps
begin

text \<open>
  What the synchronisation of one record does, as a table: the device's version and the
  desktop's are each clean, changed or deleted, and archived or not; \<open>plan\<close> lists the operations
  for every pair. \<open>sync_record\<close> carries out the plan. The plan keeps every change of the desktop, and
  every change of the device but one: that of an archived record whose desktop version is clean.
\<close>

datatype status = Clean | Changed | Deleted

definition status_of :: "int \<Rightarrow> status" where
  "status_of flags =
     (if has_flag flags dlpRecAttrDeleted then Deleted
      else if has_flag flags dlpRecAttrDirty then Changed else Clean)"

definition archived :: "int \<Rightarrow> bool" where
  "archived flags = has_flag flags dlpRecAttrArchived"

datatype sync_op =
  Add | Replace | Archive int | Cleared | Enqueue | Forget_id | Delete_pilot | Delete_both | Rewrite

text \<open>The table; \<open>parch\<close> and \<open>darch\<close> say whether a version is archived, \<open>same\<close> whether the two
  have the same content.\<close>

definition plan :: "bool \<Rightarrow> status \<Rightarrow> bool \<Rightarrow> status \<Rightarrow> bool \<Rightarrow> sync_op list" where
  "plan parch p darch d same =
     (if parch \<and> d = Deleted then [Replace, Archive 1, Cleared]
      else if parch \<and> \<not> darch then
        (case (p, d) of
           (_, Clean) \<Rightarrow> [Archive 1]
         | (Changed, _) \<Rightarrow> if same then [Archive 1, Delete_pilot, Cleared] else [Rewrite, Add, Enqueue, Cleared]
         | _ \<Rightarrow> [Delete_pilot, Enqueue, Cleared])
      else
        (case (p, d) of
           (Changed, Changed) \<Rightarrow>
             if darch then (if same then [Delete_pilot, Cleared] else [Archive 0, Replace, Cleared])
             else if same then [Cleared] else [Add, Forget_id, Enqueue, Cleared]
         | (Changed, _) \<Rightarrow> if darch then [Archive 0, Replace, Cleared] else [Replace, Cleared]
         | (Deleted, Changed) \<Rightarrow> [Enqueue, Cleared]
         | (Deleted, _) \<Rightarrow> [Delete_both, Cleared]
         | (Clean, _) \<Rightarrow>
             if darch then [Delete_pilot, Cleared]
             else (case d of
                     Changed \<Rightarrow> [Delete_pilot, Enqueue, Cleared]
                   | Deleted \<Rightarrow> [Delete_both, Cleared]
                   | Clean \<Rightarrow> [])))"

text \<open>Carrying out a list of operations on the pair \<open>d\<close>, \<open>p\<close>. \<open>Rewrite\<close> stores the device's
  version as a new record and remembers its identifier.\<close>

primrec run_plan ::
  "sync_env \<Rightarrow> 'w transport \<Rightarrow> ('c, 'w) SyncHandler \<Rightarrow> int \<Rightarrow> dptr \<Rightarrow> RecordModifier \<Rightarrow> int \<Rightarrow> PilotRecord \<Rightarrow>
   sync_op list \<Rightarrow> ('c, 'w) sync \<Rightarrow> (('c, 'w) sync \<times> int) option" where
  "run_plan env tr sh h d rec_mod result p [] s = Some (s, result)"
| "run_plan env tr sh h d rec_mod result p (x # xs) s =
     (let check = (\<lambda>g f. if g then do { (s, r) \<leftarrow> f s; if r < 0 then Some (s, r) else run_plan env tr sh h d rec_mod r p xs s }
                         else run_plan env tr sh h d rec_mod result p xs s);
          desktop = check (writes_desktop rec_mod)
      in case x of
        Add \<Rightarrow> desktop (callback (sh_AddRecord sh p))
      | Replace \<Rightarrow> desktop (callback (sh_ReplaceRecord sh d p))
      | Archive n \<Rightarrow> desktop (callback (sh_ArchiveRecord sh d n))
      | Cleared \<Rightarrow> desktop (callback (sh_SetStatusCleared sh d))
      | Delete_both \<Rightarrow> desktop (on_desk (delete_both env tr sh h (Some d) (Some p) rec_mod))
      | Delete_pilot \<Rightarrow> check (writes_pilot rec_mod)
          (on_desk (on_sock (dlp_DeleteRecord (se_heap env) tr h False (pr_recID p))))
      | Enqueue \<Rightarrow> do { s \<leftarrow> add_record_queue (se_heap env) None (Some d) s; run_plan env tr sh h d rec_mod result p xs s }
      | Forget_id \<Rightarrow> do { s \<leftarrow> forget_id d s; run_plan env tr sh h d rec_mod result p xs s }
      | Rewrite \<Rightarrow> do {
          (s, newid, r) \<leftarrow>
            (if writes_pilot rec_mod
             then on_desk (on_sock (dlp_WriteRecord (se_heap env) tr h 0 0 (pr_catID p) (pr_buffer p) (pr_len p))) s
             else Some (s, None, 0));
          if r < 0 then Some (s, r)
          else run_plan env tr sh h d rec_mod r
                 (p\<lparr>pr_recID := (case newid of None \<Rightarrow> pr_recID p | Some i \<Rightarrow> i)\<rparr>) xs s })"

text \<open>The two versions are compared only when both have changed.\<close>

definition compare_step ::
  "('c, 'w) SyncHandler \<Rightarrow> status \<Rightarrow> status \<Rightarrow> PilotRecord \<Rightarrow> dptr \<Rightarrow> ('c, 'w) sync \<Rightarrow> (('c, 'w) sync \<times> int) option" where
  "compare_step sh ps ds p d s =
     (if ps = Changed \<and> ds = Changed then on_desk (\<lambda>dk. Some (sh_Compare sh p d dk)) s else Some (s, 0))"

lemmas plan_run_simps = plan_def compare_step_def status_of_def archived_def prec_flags_def drec_flags_def

lemma sync_record_by_plan:
  "sync_record env tr sh h (Some d) (Some p) m s = do {
     let pf = pr_flags p;
     let df = dr_flags (dk_store (sy_desk s) d);
     (s, comp) \<leftarrow> compare_step sh (status_of pf) (status_of df) p d s;
     run_plan env tr sh h d m 0 p (plan (archived pf) (status_of pf) (archived df) (status_of df) (comp = 0)) s }"
proof -
  let ?pf = "pr_flags p" and ?df = "dr_flags (dk_store (sy_desk s) d)"
  define pa where "pa = has_flag ?pf dlpRecAttrArchived"
  define pd where "pd = has_flag ?pf dlpRecAttrDeleted"
  define pc where "pc = has_flag ?pf dlpRecAttrDirty"
  define da where "da = has_flag ?df dlpRecAttrArchived"
  define dd where "dd = has_flag ?df dlpRecAttrDeleted"
  define dc where "dc = has_flag ?df dlpRecAttrDirty"
  note defs = pa_def[symmetric] pd_def[symmetric] pc_def[symmetric] da_def[symmetric] dd_def[symmetric] dc_def[symmetric]
  show ?thesis
    unfolding sync_record_def plan_run_simps option.case defs Let_def
    apply (cases pa; cases pd; cases pc; cases da; cases dd; cases dc)
    apply (simp_all add: Let_def case_prod_unfold cong: Option.bind_cong if_cong)
    apply (rule Option.bind_cong[OF refl], case_tac "snd a = 0"; simp add: Let_def case_prod_unfold cong: Option.bind_cong if_cong)+
    done
qed

text \<open>C6: for every pair of a device record and a desktop record, \<open>sync_record\<close> compares the two
  only when both have changed and then makes exactly the calls of the table \<open>plan\<close>, in its order,
  stopping at the first that fails.\<close>

theorem sync_record_plan:
  "sync_record env tr sh h (Some d) (Some p) m s = do {
     let pf = pr_flags p;
     let df = dr_flags (dk_store (sy_desk s) d);
     (s, comp) \<leftarrow> compare_step sh (status_of pf) (status_of df) p d s;
     run_plan env tr sh h d m 0 p (plan (archived pf) (status_of pf) (archived df) (status_of df) (comp = 0)) s }"
  by (rule sync_record_by_plan)

section \<open>What the table guarantees\<close>

text \<open>A version is overwritten by \<open>Replace\<close> and \<open>Delete_both\<close> on the desktop, by \<open>Delete_pilot\<close> and
  \<open>Delete_both\<close> on the device. \<open>saved_before ops x\<close>: an archived copy is made before \<open>x\<close>.\<close>

definition saved_before :: "sync_op list \<Rightarrow> sync_op \<Rightarrow> bool" where
  "saved_before ops x \<longleftrightarrow> x \<in> set ops \<longrightarrow> Archive 0 \<in> set (takeWhile (\<lambda>y. y \<noteq> x) ops)"

text \<open>The changed version of the device is on the desktop afterwards: it was there already, or is
  written there.\<close>

definition device_change_kept :: "status \<Rightarrow> bool \<Rightarrow> sync_op list \<Rightarrow> bool" where
  "device_change_kept d same ops \<longleftrightarrow> d = Changed \<and> same \<or> Add \<in> set ops \<or> Replace \<in> set ops"

text \<open>C7: what the table does with changed versions. A changed desktop version is never deleted, is
  overwritten only after it was archived, and, unless it is archived or the device has the same
  content, is queued for the device. A changed device version is deleted only when the changed desktop
  version has the same content, and it is on the desktop afterwards in all cases but exactly one: when
  it is archived and the desktop version is clean and not archived. Then its content is lost: all that
  is done is to archive the old version of the desktop.\<close>

theorem plan_changed_versions:
  "(d = Changed \<longrightarrow>
      Delete_both \<notin> set (plan parch p darch d same) \<and> saved_before (plan parch p darch d same) Replace \<and>
      (\<not> darch \<and> \<not> (p = Changed \<and> same) \<longrightarrow> Enqueue \<in> set (plan parch p darch d same))) \<and>
   (p = Changed \<longrightarrow>
      Delete_both \<notin> set (plan parch p darch d same) \<and>
      (Delete_pilot \<in> set (plan parch p darch d same) \<longrightarrow> d = Changed \<and> same) \<and>
      (device_change_kept d same (plan parch p darch d same) \<longleftrightarrow> \<not> (parch \<and> \<not> darch \<and> d = Clean)) \<and>
      (parch \<and> \<not> darch \<and> d = Clean \<longrightarrow> plan parch p darch d same = [Archive 1]))"
  by (cases p; cases d; cases parch; cases darch; cases same)
    (simp_all add: plan_def saved_before_def device_change_kept_def)

theorem plan_changed_versions_witness:
  "saved_before (plan False Changed True Changed False) Replace \<and>
   Delete_pilot \<notin> set (plan False Changed True Changed False) \<and>
   device_change_kept Changed False (plan False Changed True Changed False)"
  using plan_changed_versions[of Changed False Changed True False] by simp

text \<open>A merge that may change the device only (\<open>PILOT\<close>) leaves a record on the device that was
  deleted on the desktop and not changed on the device: the deletion is a call that is made only
  when the desktop may change.\<close>

lemma merge_to_pilot_keeps_deleted:
  assumes "status_of (pr_flags p) \<noteq> Changed" "\<not> archived (pr_flags p)"
    "status_of (dr_flags (dk_store (sy_desk s) d)) = Deleted" "\<not> archived (dr_flags (dk_store (sy_desk s) d))"
  shows "sync_record env tr sh h (Some d) (Some p) PILOT s = Some (s, 0)"
  using assms
  by (cases "status_of (pr_flags p)") (simp_all add: sync_record_by_plan compare_step_def plan_def writes_desktop_def)

text \<open>\<open>sync_MergeToPilot\<close> reports success, and runs \<open>Post\<close>, whatever the merge returned: its
  result is that of \<open>Post\<close>.\<close>

lemma merge_to_pilot_ignores_failure:
  assumes "open_db env tr sh dk = Some (dk1, h, r0)" "0 \<le> r0"
    "sh_Pre sh h 0 dk1 = (dk2, 0, r1)" "0 \<le> r1"
    "sync_MergeToPilot_fast env tr sh h PILOT dk2 = Some (dk3, r2)" "r2 < 0"
  shows "sync_MergeToPilot env tr sh dk = do {
     let (dk4, r) = sh_Post sh h dk3;
     dk \<leftarrow> close_db env tr h dk4;
     Some (dk, r) }"
  using assms by (simp add: sync_MergeToPilot_def with_db_def Let_def split: prod.split)

end
