(* ===== verification/Port.thy ===== *)
theory Port
  imports DlpCore
begin

text \<open>
  What the packet protocols stand on: the structure of a protocol in the socket's queue, the data
  that a serial connection keeps, and its device, the serial port of \<open>libpisock/unixserial.c\<close>.
  The system calls of the port (\<open>select\<close>, \<open>read\<close>, \<open>write\<close>, \<open>fcntl\<close>, \<open>recv\<close>, \<open>time\<close>) are the
  parameter \<open>os\<close>, functions on a state of any type. Every operation returns an option: None is an
  access outside an object or a call that never returns.
\<close>

section \<open>Constants\<close>

definition PI_SOCK_LISTEN :: int where "PI_SOCK_LISTEN = 0x01"
definition PI_SOCK_CONN_ACCEPT :: int where "PI_SOCK_CONN_ACCEPT = 0x02"
definition PI_SOCK_CONN_INIT :: int where "PI_SOCK_CONN_INIT = 0x04"
definition PI_SOCK_CONN_BREAK :: int where "PI_SOCK_CONN_BREAK = 0x08"
definition PI_FLUSH_INPUT :: int where "PI_FLUSH_INPUT = 0x01"
definition PI_MSG_PEEK :: int where "PI_MSG_PEEK = 0x01"

section \<open>The socket of a serial connection\<close>

record pi_serial_data =
  sd_buf :: bytes
  sd_buf_size :: nat
  sd_rate :: int
  sd_establishrate :: int
  sd_establishhighrate :: int
  sd_timeout :: int
  sd_rx_bytes :: int
  sd_rx_errors :: int
  sd_tx_bytes :: int
  sd_tx_errors :: int

record pi_slp_data =
  slp_dest :: int
  slp_last_dest :: int
  slp_src :: int
  slp_last_src :: int
  slp_type :: int
  slp_last_type :: int
  slp_txid :: u8
  slp_last_txid :: u8

record padp =
  pd_type :: u8
  pd_flags :: u8
  pd_size :: int

record pi_padp_data =
  padp_type :: int
  padp_last_type :: int
  padp_freeze_txid :: int
  padp_use_long_format :: int
  padp_txid :: u8
  padp_next_txid :: u32
  padp_last_ack_txid :: u8
  padp_last_ack :: padp

record pi_cmp_data =
  cmp_type :: u8
  cmp_flags :: u8
  cmp_version :: u32
  cmp_baudrate :: int

record pi_net_data =
  net_type :: int
  net_split_writes :: int
  net_write_chunksize :: nat
  net_txid :: u8

text \<open>The part of the socket below DLP: the operating system, the device, the state and the data of
  the protocols of the current queue.\<close>

record 'o port =
  pt_os :: 'o
  pt_serial :: pi_serial_data
  pt_state :: int
  pt_command :: int
  pt_slp :: pi_slp_data
  pt_padp :: pi_padp_data
  pt_cmp :: pi_cmp_data
  pt_net :: pi_net_data
  pt_sys_txid :: u8

type_synonym 'o psock = "'o port pi_sock"

text \<open>A protocol of the queue: \<open>struct pi_protocol\<close>.\<close>

record 'o pi_protocol =
  prot_read :: "'o psock \<Rightarrow> pi_buffer \<Rightarrow> nat \<Rightarrow> int \<Rightarrow> ('o psock \<times> pi_buffer \<times> int) option"
  prot_write :: "'o psock \<Rightarrow> bytes \<Rightarrow> int \<Rightarrow> ('o psock \<times> int) option"
  prot_flush :: "'o psock \<Rightarrow> int \<Rightarrow> ('o psock \<times> int) option"

definition on_port :: "('o port \<Rightarrow> 'o port) \<Rightarrow> 'o psock \<Rightarrow> 'o psock" where
  "on_port f sk = sk\<lparr>sk_world := f (sk_world sk)\<rparr>"

definition serial_of :: "'o psock \<Rightarrow> pi_serial_data" where "serial_of sk = pt_serial (sk_world sk)"
definition slp_of :: "'o psock \<Rightarrow> pi_slp_data" where "slp_of sk = pt_slp (sk_world sk)"
definition padp_of :: "'o psock \<Rightarrow> pi_padp_data" where "padp_of sk = pt_padp (sk_world sk)"
definition cmp_of :: "'o psock \<Rightarrow> pi_cmp_data" where "cmp_of sk = pt_cmp (sk_world sk)"
definition net_of :: "'o psock \<Rightarrow> pi_net_data" where "net_of sk = pt_net (sk_world sk)"
definition state_of :: "'o psock \<Rightarrow> int" where "state_of sk = pt_state (sk_world sk)"
definition os_of :: "'o psock \<Rightarrow> 'o" where "os_of sk = pt_os (sk_world sk)"

definition upd_serial :: "(pi_serial_data \<Rightarrow> pi_serial_data) \<Rightarrow> 'o psock \<Rightarrow> 'o psock" where
  "upd_serial f = on_port (\<lambda>p. p\<lparr>pt_serial := f (pt_serial p)\<rparr>)"
definition upd_slp :: "(pi_slp_data \<Rightarrow> pi_slp_data) \<Rightarrow> 'o psock \<Rightarrow> 'o psock" where
  "upd_slp f = on_port (\<lambda>p. p\<lparr>pt_slp := f (pt_slp p)\<rparr>)"
definition upd_padp :: "(pi_padp_data \<Rightarrow> pi_padp_data) \<Rightarrow> 'o psock \<Rightarrow> 'o psock" where
  "upd_padp f = on_port (\<lambda>p. p\<lparr>pt_padp := f (pt_padp p)\<rparr>)"
definition upd_cmp :: "(pi_cmp_data \<Rightarrow> pi_cmp_data) \<Rightarrow> 'o psock \<Rightarrow> 'o psock" where
  "upd_cmp f = on_port (\<lambda>p. p\<lparr>pt_cmp := f (pt_cmp p)\<rparr>)"
definition upd_net :: "(pi_net_data \<Rightarrow> pi_net_data) \<Rightarrow> 'o psock \<Rightarrow> 'o psock" where
  "upd_net f = on_port (\<lambda>p. p\<lparr>pt_net := f (pt_net p)\<rparr>)"
definition set_state :: "int \<Rightarrow> 'o psock \<Rightarrow> 'o psock" where
  "set_state st = on_port (\<lambda>p. p\<lparr>pt_state := st\<rparr>)"
definition set_os :: "'o \<Rightarrow> 'o psock \<Rightarrow> 'o psock" where
  "set_os w = on_port (\<lambda>p. p\<lparr>pt_os := w\<rparr>)"

lemmas port_defs = on_port_def serial_of_def slp_of_def padp_of_def cmp_of_def net_of_def state_of_def os_of_def
  upd_serial_def upd_slp_def upd_padp_def upd_cmp_def upd_net_def set_state_def set_os_def

text \<open>How a component of the socket changes under an update of another.\<close>

lemma port_simps [simp]:
  "serial_of (upd_serial f sk) = f (serial_of sk)" "serial_of (upd_slp g sk) = serial_of sk"
  "serial_of (upd_padp h sk) = serial_of sk" "serial_of (set_state st sk) = serial_of sk"
  "serial_of (set_os w sk) = serial_of sk"
  "slp_of (upd_slp g sk) = g (slp_of sk)" "slp_of (upd_serial f sk) = slp_of sk"
  "slp_of (upd_padp h sk) = slp_of sk" "slp_of (set_state st sk) = slp_of sk" "slp_of (set_os w sk) = slp_of sk"
  "padp_of (upd_padp h sk) = h (padp_of sk)" "padp_of (upd_serial f sk) = padp_of sk"
  "padp_of (upd_slp g sk) = padp_of sk" "padp_of (set_state st sk) = padp_of sk" "padp_of (set_os w sk) = padp_of sk"
  "state_of (set_state st sk) = st" "state_of (upd_serial f sk) = state_of sk"
  "state_of (upd_slp g sk) = state_of sk" "state_of (upd_padp h sk) = state_of sk" "state_of (set_os w sk) = state_of sk"
  "os_of (set_os w sk) = w" "os_of (upd_serial f sk) = os_of sk" "os_of (upd_slp g sk) = os_of sk"
  "os_of (upd_padp h sk) = os_of sk" "os_of (set_state st sk) = os_of sk"
  by (simp_all add: port_defs)

lemma port_simps_cmd [simp]:
  "cmp_of (upd_cmp f sk) = f (cmp_of sk)" "cmp_of (upd_serial g sk) = cmp_of sk" "cmp_of (upd_slp h sk) = cmp_of sk"
  "cmp_of (upd_padp k sk) = cmp_of sk" "cmp_of (set_state st sk) = cmp_of sk" "cmp_of (set_os w sk) = cmp_of sk"
  "net_of (upd_net l sk) = l (net_of sk)" "net_of (upd_serial g sk) = net_of sk" "net_of (set_os w sk) = net_of sk"
  "net_of (set_state st sk) = net_of sk" "serial_of (upd_cmp f sk) = serial_of sk" "serial_of (upd_net l sk) = serial_of sk"
  "os_of (upd_cmp f sk) = os_of sk" "os_of (upd_net l sk) = os_of sk" "state_of (upd_cmp f sk) = state_of sk"
  "state_of (upd_net l sk) = state_of sk" "padp_of (upd_cmp f sk) = padp_of sk" "slp_of (upd_cmp f sk) = slp_of sk"
  "padp_of (upd_net l sk) = padp_of sk" "slp_of (upd_net l sk) = slp_of sk"
  by (simp_all add: port_defs)

lemma sock_error_simps [simp]:
  "snd (pi_set_error sk e) = e"
  "serial_of (fst (pi_set_error sk e)) = serial_of sk" "slp_of (fst (pi_set_error sk e)) = slp_of sk"
  "padp_of (fst (pi_set_error sk e)) = padp_of sk" "state_of (fst (pi_set_error sk e)) = state_of sk"
  "os_of (fst (pi_set_error sk e)) = os_of sk" "cmp_of (fst (pi_set_error sk e)) = cmp_of sk"
  "net_of (fst (pi_set_error sk e)) = net_of sk"
  by (simp_all add: pi_set_error_def port_defs)

definition is_connected :: "'o psock \<Rightarrow> bool" where
  "is_connected sk \<longleftrightarrow> state_of sk = PI_SOCK_CONN_INIT \<or> state_of sk = PI_SOCK_CONN_ACCEPT"

section \<open>The serial port\<close>

text \<open>The outcome of \<open>select\<close> on one descriptor: it is ready; it is not; the time is up (the result
  is 0 and the descriptor is not ready).\<close>

datatype select_result = Ready | Not_ready | Expired

record 'o os =
  os_select_read :: "'o \<Rightarrow> int \<Rightarrow> ('o \<times> select_result) option"
  os_select_write :: "'o \<Rightarrow> int \<Rightarrow> ('o \<times> select_result) option"
  os_read :: "'o \<Rightarrow> nat \<Rightarrow> 'o \<times> bytes option"
  os_write :: "'o \<Rightarrow> bytes \<Rightarrow> 'o \<times> int"
  os_hangup :: "'o \<Rightarrow> bool"
  os_getfl :: "'o \<Rightarrow> 'o \<times> int"
  os_setfl :: "'o \<Rightarrow> int \<Rightarrow> 'o"
  os_recv :: "'o \<Rightarrow> 'o \<times> int"
  os_time :: "'o \<Rightarrow> 'o \<times> int"

definition O_NONBLOCK :: int where "O_NONBLOCK = 0x800"

definition s_poll :: "'o os \<Rightarrow> 'o psock \<Rightarrow> int \<Rightarrow> ('o psock \<times> int) option" where
  "s_poll os sk timeout = do {
     (w, r) \<leftarrow> os_select_read os (os_of sk) timeout;
     let sk = set_os w sk;
     if timeout \<noteq> 0 \<and> r = Expired then Some (pi_set_error sk PI_ERR_SOCK_TIMEOUT)
     else if r \<noteq> Ready then
       Some (pi_set_error (upd_serial (\<lambda>d. d\<lparr>sd_rx_errors := to_int (sd_rx_errors d + 1)\<rparr>) sk) PI_ERR_SOCK_TIMEOUT)
     else Some (sk, 0) }"

text \<open>The loop of \<open>s_write\<close>, which hands the whole block to \<open>write\<close> each time.\<close>

partial_function (option) s_write_loop :: "'o os \<Rightarrow> 'o psock \<Rightarrow> bytes \<Rightarrow> int \<Rightarrow> ('o psock \<times> int) option" where
  "s_write_loop os sk buf remain =
     (if remain > 0 then do {
        let timeout = sd_timeout (serial_of sk);
        (w, r) \<leftarrow> os_select_write os (os_of sk) timeout;
        let sk = set_os w sk;
        if timeout \<noteq> 0 \<and> r = Expired then Some (pi_set_error sk PI_ERR_SOCK_TIMEOUT)
        else if r \<noteq> Ready then Some (pi_set_error sk PI_ERR_SOCK_TIMEOUT)
        else do {
          let (w, nwrote) = os_write os (os_of sk) buf;
          let sk = set_os w sk;
          if nwrote < 0 then
            (if os_hangup os w
             then Some (pi_set_error (set_state PI_SOCK_CONN_BREAK sk) PI_ERR_SOCK_DISCONNECTED)
             else Some (pi_set_error sk PI_ERR_SOCK_IO))
          else s_write_loop os sk buf (remain - nwrote) } }
      else Some (sk, 0))"

definition s_write :: "'o os \<Rightarrow> 'o psock \<Rightarrow> bytes \<Rightarrow> int \<Rightarrow> ('o psock \<times> int) option" where
  "s_write os sk buf flags = do {
     (sk, r) \<leftarrow> s_write_loop os sk buf (int (length buf));
     if r < 0 then Some (sk, r)
     else Some (upd_serial (\<lambda>d. d\<lparr>sd_tx_bytes := to_int (sd_tx_bytes d + int (length buf))\<rparr>) sk, int (length buf)) }"

text \<open>Reading ahead: \<open>PI_MSG_PEEK\<close> keeps what it reads in a buffer of 256 bytes.\<close>

definition s_read_buf :: "heap_env \<Rightarrow> 'o psock \<Rightarrow> pi_buffer \<Rightarrow> nat \<Rightarrow> int \<Rightarrow> ('o psock \<times> pi_buffer \<times> int) option" where
  "s_read_buf env sk buf len flags =
     (let d = serial_of sk; rbuf = (if len < sd_buf_size d then len else sd_buf_size d) in do {
        bs \<leftarrow> get_block rbuf (sd_buf d) 0;
        (buf, ok) \<leftarrow> pi_buffer_append env buf bs;
        if \<not> ok then (let (sk, e) = pi_set_error sk PI_ERR_GENERIC_MEMORY in Some (sk, buf, e))
        else if flags \<noteq> PI_MSG_PEEK then do {
          let n = sd_buf_size d - rbuf;
          rest \<leftarrow> get_block n (sd_buf d) rbuf;
          m \<leftarrow> poke (sd_buf d) 0 rest;
          Some (upd_serial (\<lambda>d. d\<lparr>sd_buf := m, sd_buf_size := n\<rparr>) sk, buf, int rbuf) }
        else Some (sk, buf, int rbuf) })"

text \<open>The second part of \<open>s_read\<close>, on the descriptor: \<open>rbuf\<close> bytes are already in \<open>buf\<close>.\<close>

definition s_read_fd ::
  "'o os \<Rightarrow> heap_env \<Rightarrow> 'o psock \<Rightarrow> pi_buffer \<Rightarrow> nat \<Rightarrow> int \<Rightarrow> int \<Rightarrow> ('o psock \<times> pi_buffer \<times> int) option" where
  "s_read_fd os env sk buf len flags rbuf = do {
     let timeout = sd_timeout (serial_of sk);
     (w, r) \<leftarrow> os_select_read os (os_of sk) timeout;
     let sk = set_os w sk;
     if timeout \<noteq> 0 \<and> r = Expired then
       (let (sk, e) = pi_set_error sk PI_ERR_SOCK_TIMEOUT in Some (sk, buf, e))
     else if r = Ready then do {
       let len = (if flags = PI_MSG_PEEK \<and> 256 < len then 256 else len);
       let (buf, ok) = pi_buffer_expect env buf len;
       if \<not> ok then (let (sk, e) = pi_set_error sk PI_ERR_GENERIC_MEMORY in Some (sk, buf, e))
       else do {
         let (w, bs) = os_read os (os_of sk) len;
         let sk = set_os w sk;
         case bs of
           None \<Rightarrow> Some (sk, buf, -1)
         | Some [] \<Rightarrow> Some (sk, buf, rbuf)
         | Some bs \<Rightarrow> do {
             buf \<leftarrow> buf_poke buf (used buf) bs;
             sk \<leftarrow> (if flags = PI_MSG_PEEK
                   then do {
                     let d = serial_of sk;
                     m \<leftarrow> poke (sd_buf d) (sd_buf_size d) bs;
                     Some (upd_serial (\<lambda>d. d\<lparr>sd_buf := m, sd_buf_size := sd_buf_size d + length bs\<rparr>) sk) }
                   else Some sk);
             Some (upd_serial (\<lambda>d. d\<lparr>sd_rx_bytes := to_int (sd_rx_bytes d + int (length bs))\<rparr>) sk,
                   buf\<lparr>used := used buf + length bs\<rparr>, rbuf + int (length bs)) } } }
     else
       (let (sk, e) = pi_set_error (upd_serial (\<lambda>d. d\<lparr>sd_rx_errors := to_int (sd_rx_errors d + 1)\<rparr>) sk) PI_ERR_SOCK_TIMEOUT
        in Some (sk, buf, e)) }"

definition s_read :: "'o os \<Rightarrow> heap_env \<Rightarrow> 'o psock \<Rightarrow> pi_buffer \<Rightarrow> nat \<Rightarrow> int \<Rightarrow> ('o psock \<times> pi_buffer \<times> int) option" where
  "s_read os env sk buf len flags =
     (if sd_buf_size (serial_of sk) \<noteq> 0 then do {
        (sk, buf, rbuf) \<leftarrow> s_read_buf env sk buf len flags;
        if rbuf < 0 then Some (sk, buf, rbuf)
        else if int len - rbuf = 0 then Some (sk, buf, rbuf)
        else s_read_fd os env sk buf (len - nat rbuf) flags rbuf }
      else s_read_fd os env sk buf len flags 0)"

partial_function (option) drain :: "'o os \<Rightarrow> 'o psock \<Rightarrow> 'o psock option" where
  "drain os sk =
     (let (w, n) = os_recv os (os_of sk); sk = set_os w sk in if n > 0 then drain os sk else Some sk)"

definition s_flush :: "'o os \<Rightarrow> 'o psock \<Rightarrow> int \<Rightarrow> ('o psock \<times> int) option" where
  "s_flush os sk flags =
     (if flags AND PI_FLUSH_INPUT \<noteq> 0 then do {
        let sk = upd_serial (\<lambda>d. d\<lparr>sd_buf_size := 0\<rparr>) sk;
        let (w, fl) = os_getfl os (os_of sk);
        let sk = set_os w sk;
        if fl \<noteq> -1 then do {
          sk \<leftarrow> drain os (set_os (os_setfl os (os_of sk) (fl OR O_NONBLOCK)) sk);
          Some (set_os (os_setfl os (os_of sk) fl) sk, 0) }
        else Some (sk, 0) }
      else Some (sk, 0))"

definition pi_serial_protocol :: "'o os \<Rightarrow> heap_env \<Rightarrow> 'o pi_protocol" where
  "pi_serial_protocol os env = \<lparr>prot_read = s_read os env, prot_write = s_write os, prot_flush = s_flush os\<rparr>"

section \<open>Options of the port\<close>

text \<open>An option is read into, and set from, a block whose size the caller gives; every option of the
  port is an \<open>int\<close>. A wrong size is refused.\<close>

datatype dev_option = PI_DEV_RATE | PI_DEV_ESTRATE | PI_DEV_HIGHRATE | PI_DEV_TIMEOUT

definition pi_serial_getsockopt :: "'o psock \<Rightarrow> dev_option \<Rightarrow> nat \<Rightarrow> 'o psock \<times> int option \<times> int" where
  "pi_serial_getsockopt sk name len =
     (let d = serial_of sk in
      if len \<noteq> 4 then (let (sk, e) = pi_set_error sk PI_ERR_GENERIC_ARGUMENT in (sk, None, e))
      else (sk, Some (case name of
                        PI_DEV_RATE \<Rightarrow> sd_rate d
                      | PI_DEV_ESTRATE \<Rightarrow> sd_establishrate d
                      | PI_DEV_HIGHRATE \<Rightarrow> sd_establishhighrate d
                      | PI_DEV_TIMEOUT \<Rightarrow> sd_timeout d), 0))"

definition pi_serial_setsockopt :: "'o psock \<Rightarrow> dev_option \<Rightarrow> int \<Rightarrow> nat \<Rightarrow> 'o psock \<times> int" where
  "pi_serial_setsockopt sk name v len =
     (if name = PI_DEV_RATE then (sk, 0)
      else if len \<noteq> 4 then pi_set_error sk PI_ERR_GENERIC_ARGUMENT
      else (upd_serial (\<lambda>d. case name of
                PI_DEV_ESTRATE \<Rightarrow> d\<lparr>sd_establishrate := v\<rparr>
              | PI_DEV_HIGHRATE \<Rightarrow> d\<lparr>sd_establishhighrate := v\<rparr>
              | PI_DEV_TIMEOUT \<Rightarrow> d\<lparr>sd_timeout := v\<rparr>
              | PI_DEV_RATE \<Rightarrow> d) sk, 0))"

lemma set_timeout [simp]:
  "pi_serial_setsockopt sk PI_DEV_TIMEOUT v 4 = (upd_serial (\<lambda>d. d\<lparr>sd_timeout := v\<rparr>) sk, 0)"
  by (simp add: pi_serial_setsockopt_def)

end
