(* ===== verification/Crc.thy ===== *)
theory Crc
  imports Bytes
begin

text \<open>
  The checksum of the serial link, \<open>crc16\<close> in \<open>libpisock/utils.c\<close>. The code computes with an
  \<open>int\<close> whose upper half is never used; it is modelled as a 32-bit word, whose left shift is the
  one that compilers document for an \<open>int\<close> that overflows. The lemmas relate it to a register of
  16 bits, whose step is linear and injective, and to the division of polynomials that defines it.
\<close>

definition crc_bit :: "u32 \<Rightarrow> u32" where
  "crc_bit crc =
     (if crc AND 0x8000 \<noteq> 0 then push_bit 1 crc XOR 0x1021 else push_bit 1 crc)"

primrec crc_bytes :: "u32 \<Rightarrow> bytes \<Rightarrow> u32" where
  "crc_bytes crc [] = crc"
| "crc_bytes crc (b # bs) = crc_bytes ((crc_bit ^^ 8) (crc XOR push_bit 8 (ucast b))) bs"

definition crc16 :: "bytes \<Rightarrow> int" where
  "crc16 bs = uint (crc_bytes 0 bs AND 0xFFFF)"

section \<open>A register of 16 bits\<close>

definition crc_step :: "u16 \<Rightarrow> u16" where
  "crc_step w = (if bit w 15 then push_bit 1 w XOR 0x1021 else push_bit 1 w)"

primrec crc_reg :: "u16 \<Rightarrow> bytes \<Rightarrow> u16" where
  "crc_reg w [] = w"
| "crc_reg w (b # bs) = crc_reg ((crc_step ^^ 8) (w XOR push_bit 8 (ucast b))) bs"

lemma bit_twice: "bit (w * 2 :: 'a::len word) n \<longleftrightarrow> n \<noteq> 0 \<and> n < LENGTH('a) \<and> bit w (n - 1)"
  using bit_double_iff[of w n] by (auto simp: mult.commute dest: bit_imp_le_length)

lemma and_8000: "(c :: u32) AND 0x8000 \<noteq> 0 \<longleftrightarrow> bit c 15"
proof -
  have "(0x8000 :: u32) = push_bit 15 1" by simp
  then show ?thesis by (simp only: bit_iff_and_push_bit_not_eq_0)
qed

lemma ucast_push1: "ucast (push_bit 1 (c :: u32)) = push_bit 1 (ucast c :: u16)"
  by (rule bit_word_eqI) (auto simp: bit_simps bit_twice)

lemma ucast_xor: "ucast (a XOR b :: u32) = (ucast a :: u16) XOR ucast b"
  by (rule bit_word_eqI) (auto simp: bit_simps)

lemma crc_bit_step: "ucast (crc_bit c) = crc_step (ucast c)"
proof -
  have "bit (ucast c :: u16) 15 = bit c 15" by (simp add: bit_simps)
  then show ?thesis by (simp add: crc_bit_def crc_step_def and_8000 ucast_push1[simplified] ucast_xor)
qed

lemma crc_bit_steps: "ucast ((crc_bit ^^ n) c) = (crc_step ^^ n) (ucast c)"
  by (induction n) (simp_all add: crc_bit_step)

lemma ucast_push8: "ucast (push_bit 8 (ucast (b :: u8)) :: u32) = (push_bit 8 (ucast b) :: u16)"
  by (rule bit_word_eqI) (auto simp: bit_simps)

lemma crc_bytes_reg: "ucast (crc_bytes c bs) = crc_reg (ucast c) bs"
  by (induction bs arbitrary: c) (simp_all add: crc_bit_steps ucast_xor ucast_push8)

lemma crc16_reg: "crc16 bs = uint (crc_reg 0 bs)"
proof -
  have "ucast (crc_bytes 0 bs) = crc_reg 0 bs" by (simp add: crc_bytes_reg)
  moreover have "uint (c AND 0xFFFF) = uint (ucast c :: u16)" for c :: u32
  proof -
    have "(0xFFFF :: u32) = mask 16" by (simp add: mask_eq_exp_minus_1)
    then have "c AND 0xFFFF = take_bit 16 c" by (simp only: take_bit_eq_mask)
    then have "uint (c AND 0xFFFF) = take_bit 16 (uint c)" by (simp only: unsigned_take_bit_eq)
    also have "\<dots> = uint (ucast c :: u16)" by (simp add: unsigned_ucast_eq)
    finally show ?thesis .
  qed
  ultimately show ?thesis by (simp add: crc16_def)
qed

lemma crc_reg_append: "crc_reg w (xs @ ys) = crc_reg (crc_reg w xs) ys"
  by (induction xs arbitrary: w) simp_all

section \<open>The step is linear and injective\<close>

lemma bit_1021: "bit (0x1021 :: u16) n \<longleftrightarrow> n \<in> {0, 5, 12}"
proof -
  have "(0x1021 :: u16) = push_bit 12 1 OR push_bit 5 1 OR 1" by simp
  then show ?thesis by (auto simp only: bit_simps) auto
qed

lemma crc_step_bit: "n < 16 \<Longrightarrow>
  bit (crc_step w) n \<longleftrightarrow> (0 < n \<and> bit w (n - 1)) \<noteq> (n \<in> {0, 5, 12} \<and> bit w 15)"
  using bit_1021[of n] by (auto simp: crc_step_def bit_xor_iff bit_twice)

lemma crc_step_xor: "crc_step (v XOR w) = crc_step v XOR crc_step w"
  by (rule bit_word_eqI) (auto simp: crc_step_bit bit_simps)

lemma crc_step_inj: "crc_step v = crc_step w \<Longrightarrow> v = w"
proof (rule bit_word_eqI)
  fix n assume e: "crc_step v = crc_step w" and "n < LENGTH(16)"
  have top: "bit v 15 = bit w 15" using arg_cong[OF e, of "\<lambda>x. bit x 0"] by (simp add: crc_step_bit)
  show "bit v n = bit w n"
  proof (cases "n = 15")
    case False
    with \<open>n < LENGTH(16)\<close> have "Suc n < 16" by simp
    then show ?thesis using arg_cong[OF e, of "\<lambda>x. bit x (Suc n)"] top by (auto simp: crc_step_bit)
  qed (simp add: top)
qed

lemma crc_steps_inj: "(crc_step ^^ n) v = (crc_step ^^ n) w \<Longrightarrow> v = w"
  by (induction n) (auto dest: crc_step_inj)

lemma crc_steps_xor: "(crc_step ^^ n) (v XOR w) = (crc_step ^^ n) v XOR (crc_step ^^ n) w"
  by (induction n) (simp_all add: crc_step_xor)

lemma xor_cancel: "v XOR p = w XOR p \<Longrightarrow> v = (w :: 'a::len word)"
proof -
  assume "v XOR p = w XOR p"
  then have "(v XOR p) XOR p = (w XOR p) XOR p" by simp
  then show ?thesis by (simp only: xor.assoc bit.xor_self xor.right_neutral)
qed

lemma crc_reg_inj: "crc_reg v bs = crc_reg w bs \<Longrightarrow> v = w"
  by (induction bs arbitrary: v w) (auto dest!: crc_steps_inj dest: xor_cancel)

lemma crc_step_shift: "\<not> bit w 15 \<Longrightarrow> crc_step w = push_bit 1 w"
  by (simp add: crc_step_def)

lemma crc_steps_low: "n \<le> 8 \<Longrightarrow> (crc_step ^^ n) (ucast (b :: u8)) = push_bit n (ucast b)"
proof (induction n)
  case (Suc n)
  then have "\<not> bit (push_bit n (ucast b) :: u16) 15" by (auto simp: bit_simps dest: bit_imp_le_length)
  with Suc show ?case by (simp add: crc_step_shift)
qed simp

text \<open>Two bytes enter the register together, as a 16-bit number.\<close>

lemma crc_reg_two: "crc_reg w [a, b] = (crc_step ^^ 16) (w XOR (push_bit 8 (ucast a) XOR ucast b))"
proof -
  have "push_bit 8 (ucast b) = (crc_step ^^ 8) (ucast b :: u16)" by (simp only: crc_steps_low)
  then have "crc_reg w [a, b] = (crc_step ^^ 8) ((crc_step ^^ 8) (w XOR (push_bit 8 (ucast a)) XOR ucast b))"
    by (simp only: crc_reg.simps crc_steps_xor xor.assoc)
  also have "\<dots> = (crc_step ^^ (8 + 8)) (w XOR push_bit 8 (ucast a) XOR ucast b)"
    by (simp only: funpow_add o_apply)
  finally show ?thesis by (simp only: xor.assoc numeral_plus_numeral arith_simps)
qed

lemma two_bytes_inj:
  assumes "push_bit 8 (ucast (a :: u8)) XOR ucast (b :: u8) = (push_bit 8 (ucast c) XOR ucast d :: u16)"
  shows "a = c" "b = d"
proof -
  have low: "bit b n = bit d n" if "n < 8" for n
    using arg_cong[OF assms, of "\<lambda>x. bit x n"] that by (auto simp: bit_simps)
  have "bit a n = bit c n" if "n < 8" for n
    using arg_cong[OF assms, of "\<lambda>x. bit x (n + 8)"] that
    by (auto simp: bit_simps dest: bit_imp_le_length)
  with low show "a = c" "b = d" by (auto intro!: bit_word_eqI)
qed

lemma crc_self: "crc_reg w [ucast (drop_bit 8 w), ucast w] = 0"
proof -
  have "push_bit 8 (ucast (ucast (drop_bit 8 w) :: u8)) XOR ucast (ucast w :: u8) = w"
    by (rule bit_word_eqI) (auto simp: bit_simps)
  moreover have "(crc_step ^^ n) 0 = 0" for n by (induction n) (simp_all add: crc_step_def)
  ultimately show ?thesis by (simp only: crc_reg_two bit.xor_self)
qed

lemma crc_reg_detects:
  assumes "crc_reg w (pre @ [a, b] @ post) = crc_reg w (pre @ [c, d] @ post)"
  shows "a = c \<and> b = d"
proof -
  have "crc_reg (crc_reg w pre) [a, b] = crc_reg (crc_reg w pre) [c, d]"
    using assms by (auto simp only: crc_reg_append dest: crc_reg_inj)
  then have "crc_reg w pre XOR (push_bit 8 (ucast a) XOR ucast b) =
      crc_reg w pre XOR (push_bit 8 (ucast c) XOR ucast d)"
    unfolding crc_reg_two by (rule crc_steps_inj)
  then have "push_bit 8 (ucast a) XOR ucast b = (push_bit 8 (ucast c) XOR ucast d :: u16)"
    by (metis bit.xor_left_self)
  then show ?thesis using two_bytes_inj by blast
qed

section \<open>Division of polynomials\<close>

text \<open>A polynomial over the two-element field is the list of its coefficients, the leading one
  first. \<open>poly_mod\<close> is the long division by \<open>x^16 + x^12 + x^5 + 1\<close>: while the dividend has more than
  16 coefficients, the generator is subtracted when the leading one is 1, and it is dropped.\<close>

definition generator :: "bool list" where
  "generator = map (\<lambda>i. i \<in> {16, 12, 5, 0}) (rev [0..<17])"

primrec xor_onto :: "bool list \<Rightarrow> bool list \<Rightarrow> bool list" where
  "xor_onto [] ys = ys"
| "xor_onto (x # xs) ys = (x \<noteq> hd ys) # xor_onto xs (tl ys)"

lemma xor_onto_length: "length xs \<le> length ys \<Longrightarrow> length (xor_onto xs ys) = length ys"
  by (induction xs arbitrary: ys) (auto simp: Suc_le_length_iff)

lemma xor_onto_nth: "length xs \<le> length ys \<Longrightarrow> i < length ys \<Longrightarrow>
  xor_onto xs ys ! i = (if i < length xs then xs ! i \<noteq> ys ! i else ys ! i)"
  by (induction xs arbitrary: ys i) (auto simp: Suc_le_length_iff nth_Cons split: nat.split)

lemma generator_length: "length generator = 17"
  by (simp add: generator_def)

function poly_mod :: "bool list \<Rightarrow> bool list" where
  "poly_mod xs =
     (if length xs \<le> 16 then xs else poly_mod (tl (if hd xs then xor_onto generator xs else xs)))"
  by auto
termination by (relation "measure length") (auto simp: xor_onto_length generator_length)

declare poly_mod.simps [simp del]

definition word_bits :: "'a::len word \<Rightarrow> bool list" where
  "word_bits w = map (bit w) (rev [0..<LENGTH('a)])"

definition message_poly :: "bytes \<Rightarrow> bool list" where
  "message_poly bs = concat (map word_bits bs) @ replicate 16 False"

lemma word_bits_length: "length (word_bits (w :: 'a::len word)) = LENGTH('a)"
  by (simp add: word_bits_def)

lemma word_bits_nth: "i < LENGTH('a) \<Longrightarrow> word_bits (w :: 'a::len word) ! i = bit w (LENGTH('a) - 1 - i)"
  by (simp add: word_bits_def rev_nth)

lemma generator_nth: "i < 17 \<Longrightarrow> generator ! i = (16 - i \<in> {16, 12, 5, 0})"
  by (simp add: generator_def rev_nth)

text \<open>One step of the division is one step of the register.\<close>

definition bit_at :: "nat \<Rightarrow> u16" where
  "bit_at k = push_bit k 1"

lemma bit_bit_at: "k < 16 \<Longrightarrow> bit (bit_at k) n \<longleftrightarrow> n = k"
  by (auto simp only: bit_at_def bit_push_bit_iff bit_1_iff possible_bit_word) auto

definition feed_bit :: "u16 \<Rightarrow> bool \<Rightarrow> u16" where
  "feed_bit w c = crc_step (w XOR (if c then bit_at 15 else 0))"

lemma feed_bit_bit: "n < 16 \<Longrightarrow>
  bit (feed_bit w c) n \<longleftrightarrow> (0 < n \<and> bit w (n - 1)) \<noteq> (n \<in> {0, 5, 12} \<and> (bit w 15 \<noteq> c))"
  by (auto simp: feed_bit_def crc_step_bit bit_xor_iff bit_bit_at)

lemma poly_mod_feed:
  assumes "16 \<le> length rest"
  shows "poly_mod (xor_onto (word_bits (w :: u16)) (c # rest)) = poly_mod (xor_onto (word_bits (feed_bit w c)) rest)"
proof -
  let ?x = "xor_onto (word_bits w) (c # rest)"
  let ?y = "tl (if hd ?x then xor_onto generator ?x else ?x)"
  have lx: "length ?x = Suc (length rest)" using assms by (simp add: xor_onto_length word_bits_length)
  have hx: "hd ?x = (bit w 15 \<noteq> c)"
    using lx assms by (simp add: hd_conv_nth length_greater_0_conv[symmetric] xor_onto_nth word_bits_length word_bits_nth)
  have nx: "?x ! Suc i = (if i < 15 then bit w (14 - i) \<noteq> rest ! i else rest ! i)" if "i < length rest" for i
    using that assms by (simp add: xor_onto_nth word_bits_length word_bits_nth)
  have "?y = xor_onto (word_bits (feed_bit w c)) rest" (is "_ = ?z")
  proof (rule nth_equalityI)
    show "length ?y = length ?z" using lx assms by (simp add: xor_onto_length generator_length word_bits_length)
    fix i assume "i < length ?y"
    then have i: "i < length rest" using lx assms by (simp add: xor_onto_length generator_length split: if_splits)
    have "xor_onto generator ?x ! Suc i = (if i < 16 then (15 - i \<in> {12, 5, 0}) \<noteq> ?x ! Suc i else ?x ! Suc i)"
      using i lx assms by (auto simp: xor_onto_nth generator_length generator_nth)
    then have "?y ! i = (if i < 16 then ((bit w 15 \<noteq> c) \<and> 15 - i \<in> {12, 5, 0}) \<noteq> ?x ! Suc i else ?x ! Suc i)"
      using i lx assms hx by (auto simp: nth_tl xor_onto_length generator_length)
    also have "\<dots> = ?z ! i"
      using i assms by (auto simp: nx xor_onto_nth word_bits_length word_bits_nth feed_bit_bit)
    finally show "?y ! i = ?z ! i" .
  qed
  then show ?thesis using lx assms by (subst poly_mod.simps) simp
qed

lemma poly_mod_feeds:
  "16 \<le> length rest \<Longrightarrow>
   poly_mod (xor_onto (word_bits (w :: u16)) (cs @ rest)) = poly_mod (xor_onto (word_bits (foldl feed_bit w cs)) rest)"
  by (induction cs arbitrary: w) (simp_all add: poly_mod_feed)

lemma crc_steps_top: "n \<le> 15 \<Longrightarrow> (crc_step ^^ n) (bit_at (15 - n)) = bit_at 15"
proof (induction n)
  case (Suc n)
  have "crc_step (bit_at (15 - Suc n)) = bit_at (15 - n)"
    using Suc.prems by (intro bit_word_eqI) (auto simp: crc_step_bit bit_bit_at)
  then show ?case using Suc by (simp add: funpow_swap1)
qed simp

lemma feed_top:
  "n \<le> 8 \<Longrightarrow> foldl feed_bit w (take n (word_bits (b :: u8))) =
     (crc_step ^^ n) (w XOR push_bit 8 (ucast (b AND NOT (mask (8 - n)))))"
proof (induction n)
  case 0
  have "b AND NOT (mask 8) = 0" by (rule bit_word_eqI) (auto simp: bit_simps)
  then show ?case by simp
next
  case (Suc n)
  let ?c = "bit b (7 - n)"
  have t: "take (Suc n) (word_bits b) = take n (word_bits b) @ [?c]"
    using Suc.prems by (simp add: take_Suc_conv_app_nth word_bits_length word_bits_nth)
  have "(if ?c then bit_at 15 else 0) = (crc_step ^^ n) (if ?c then bit_at (15 - n) else 0)"
    using crc_steps_top[of n] crc_steps_xor[of n 0 0] Suc.prems by auto
  moreover have "push_bit 8 (ucast (b AND NOT (mask (8 - n)))) XOR (if ?c then bit_at (15 - n) else 0) =
      (push_bit 8 (ucast (b AND NOT (mask (8 - Suc n)))) :: u16)"
  proof (rule bit_word_eqI)
    fix k :: nat assume "k < LENGTH(16)"
    then show "bit (push_bit 8 (ucast (b AND NOT (mask (8 - n)))) XOR (if ?c then bit_at (15 - n) else 0) :: u16) k =
        bit (push_bit 8 (ucast (b AND NOT (mask (8 - Suc n)))) :: u16) k"
      using Suc.prems by (cases "k = 15 - n") (auto simp: bit_simps bit_bit_at)
  qed
  ultimately show ?case
    using Suc by (simp add: t feed_bit_def xor.assoc flip: crc_steps_xor)
qed

lemma feed_byte: "foldl feed_bit w (word_bits (b :: u8)) = (crc_step ^^ 8) (w XOR push_bit 8 (ucast b))"
  using feed_top[of 8 w b] by (simp add: word_bits_length)

lemma feed_bytes: "foldl feed_bit w (concat (map word_bits bs)) = crc_reg w bs"
  by (induction bs arbitrary: w) (simp_all add: feed_byte)

lemma crc_reg_division: "poly_mod (xor_onto (word_bits w) (message_poly bs)) = word_bits (crc_reg w bs)"
proof -
  have z: "xor_onto (word_bits v) (replicate 16 False) = word_bits (v :: u16)" for v
    by (rule nth_equalityI) (simp_all add: xor_onto_length xor_onto_nth word_bits_length)
  have "poly_mod (word_bits v) = word_bits (v :: u16)" for v
    by (subst poly_mod.simps) (simp add: word_bits_length)
  then show ?thesis by (simp add: message_poly_def poly_mod_feeds feed_bytes z)
qed

lemma crc16_detects: "crc16 (pre @ [a, b] @ post) = crc16 (pre @ [c, d] @ post) \<longleftrightarrow> a = c \<and> b = d"
  using crc_reg_detects[of 0 pre a b post c d] by (auto simp: crc16_reg dest: word_uint_eqI)

lemma crc16_self: "crc16 (bs @ set_short (word_of_int (crc16 bs))) = 0"
proof -
  have "set_short w = [ucast (drop_bit 8 w), ucast w]" for w :: u16
    by (simp add: set_short_def ucast_and_ff)
  then show ?thesis by (simp add: crc16_reg crc_reg_append crc_self del: crc_reg.simps)
qed

text \<open>C22: \<open>crc16\<close> is the remainder of the message, followed by 16 zero bits, in the division by the
  polynomial \<open>x^16 + x^12 + x^5 + 1\<close>.\<close>

theorem crc16_division: "word_bits (word_of_int (crc16 bs) :: u16) = poly_mod (message_poly bs)"
proof -
  have "xor_onto (word_bits (0 :: u16)) (message_poly bs) = message_poly bs" (is "?l = ?r")
    by (rule nth_equalityI) (simp_all add: xor_onto_length xor_onto_nth word_bits_length word_bits_nth message_poly_def)
  then show ?thesis using crc_reg_division[of 0 bs] by (simp add: crc16_reg)
qed

text \<open>C23: the checksum tells any two messages apart that differ only in two adjacent bytes: every
  error within them is found.\<close>

theorem crc16_finds_errors: "crc16 (pre @ [a, b] @ post) = crc16 (pre @ [c, d] @ post) \<longleftrightarrow> a = c \<and> b = d"
  by (rule crc16_detects)

end
