(* ===== verification/Slp.thy ===== *)
theory Slp
  imports Port Crc
begin

text \<open>
  The serial link protocol, \<open>libpisock/slp.c\<close>: a packet is a header of ten bytes with a signature
  and a sum, the data, and a CRC. \<open>slp_rx\<close> finds the packets in the bytes of the device below; its
  state machine is kept, with its read loop.
\<close>

definition PI_SLP_HEADER_LEN :: nat where "PI_SLP_HEADER_LEN = 10"
definition PI_SLP_FOOTER_LEN :: nat where "PI_SLP_FOOTER_LEN = 2"
definition PI_SLP_MTU :: nat where "PI_SLP_MTU = 0xffff"
definition PI_SLP_SIG_BYTE1 :: u8 where "PI_SLP_SIG_BYTE1 = 0xbe"
definition PI_SLP_SIG_BYTE2 :: u8 where "PI_SLP_SIG_BYTE2 = 0xef"
definition PI_SLP_SIG_BYTE3 :: u8 where "PI_SLP_SIG_BYTE3 = 0xed"
definition PI_SLP_OFFSET_DEST :: nat where "PI_SLP_OFFSET_DEST = 3"
definition PI_SLP_OFFSET_SRC :: nat where "PI_SLP_OFFSET_SRC = 4"
definition PI_SLP_OFFSET_TYPE :: nat where "PI_SLP_OFFSET_TYPE = 5"
definition PI_SLP_OFFSET_SIZE :: nat where "PI_SLP_OFFSET_SIZE = 6"
definition PI_SLP_OFFSET_TXID :: nat where "PI_SLP_OFFSET_TXID = 8"
definition PI_SLP_OFFSET_SUM :: nat where "PI_SLP_OFFSET_SUM = 9"
definition PI_SLP_SOCK_DLP :: int where "PI_SLP_SOCK_DLP = 3"
definition PI_SLP_TYPE_PADP :: int where "PI_SLP_TYPE_PADP = 2"
definition PI_SLP_TYPE_LOOP :: u8 where "PI_SLP_TYPE_LOOP = 3"

lemmas slp_const_defs = PI_SLP_HEADER_LEN_def PI_SLP_FOOTER_LEN_def PI_SLP_MTU_def PI_SLP_SIG_BYTE1_def
  PI_SLP_SIG_BYTE2_def PI_SLP_SIG_BYTE3_def PI_SLP_OFFSET_DEST_def PI_SLP_OFFSET_SRC_def PI_SLP_OFFSET_TYPE_def
  PI_SLP_OFFSET_SIZE_def PI_SLP_OFFSET_TXID_def PI_SLP_OFFSET_SUM_def PI_SLP_SOCK_DLP_def PI_SLP_TYPE_PADP_def
  PI_SLP_TYPE_LOOP_def

text \<open>The data of a new protocol.\<close>

definition slp_protocol_data :: pi_slp_data where
  "slp_protocol_data = \<lparr>slp_dest = PI_SLP_SOCK_DLP, slp_last_dest = -1, slp_src = PI_SLP_SOCK_DLP,
     slp_last_src = -1, slp_type = PI_SLP_TYPE_PADP, slp_last_type = -1, slp_txid = 0xfe, slp_last_txid = 0xff\<rparr>"

section \<open>Sending\<close>

text \<open>\<open>struct slp\<close> with its ten bytes; the sum is over the first nine.\<close>

definition slp_header :: "pi_slp_data \<Rightarrow> nat \<Rightarrow> bytes" where
  "slp_header d len =
     (let h = [0xbe, 0xef, 0xed, word_of_int (slp_dest d), word_of_int (slp_src d), word_of_int (slp_type d)] @
              set_short (of_nat len) @ [slp_txid d];
          n = sum_list (map ucast h :: u32 list)
      in h @ [ucast (0xff AND n)])"

definition slp_tx :: "heap_env \<Rightarrow> 'o pi_protocol \<Rightarrow> 'o psock \<Rightarrow> bytes \<Rightarrow> int \<Rightarrow> ('o psock \<times> int) option" where
  "slp_tx env nxt sk buf flags =
     (let len = length buf in
      case malloc env (PI_SLP_HEADER_LEN + PI_SLP_MTU + PI_SLP_FOOTER_LEN) of
        None \<Rightarrow> Some (pi_set_error sk PI_ERR_GENERIC_MEMORY)
      | Some slp_buf \<Rightarrow> do {
          slp_buf \<leftarrow> poke slp_buf 0 (slp_header (slp_of sk) len);
          slp_buf \<leftarrow> poke slp_buf PI_SLP_HEADER_LEN buf;
          frame \<leftarrow> get_block (PI_SLP_HEADER_LEN + len) slp_buf 0;
          slp_buf \<leftarrow> poke slp_buf (PI_SLP_HEADER_LEN + len) (set_short (word_of_int (crc16 frame)));
          packet \<leftarrow> get_block (PI_SLP_HEADER_LEN + len + PI_SLP_FOOTER_LEN) slp_buf 0;
          prot_write nxt sk packet flags })"

section \<open>Receiving\<close>

text \<open>One round of the switch of \<open>slp_rx\<close>. \<open>Inl\<close> is a return: the socket, the caller's buffer and
  the result. \<open>Inr\<close> goes on to read: the packet buffer, the state, the bytes expected and the
  length of the packet.\<close>

definition slp_rx_switch ::
  "heap_env \<Rightarrow> nat \<Rightarrow> 'o psock \<Rightarrow> pi_buffer \<Rightarrow> pi_buffer \<Rightarrow> nat \<Rightarrow> int \<Rightarrow> int \<Rightarrow>
   (('o psock \<times> pi_buffer \<times> int) + (pi_buffer \<times> nat \<times> int \<times> int)) option" where
  "slp_rx_switch env len sk buf slp_buf state expect packet_len =
     (if state = 0 then Some (Inr (slp_buf, 1, 3, packet_len))
      else if state = 1 then do {
        d \<leftarrow> data slp_buf;
        b1 \<leftarrow> get_byte d 0;
        b2 \<leftarrow> get_byte d 1;
        b3 \<leftarrow> get_byte d 2;
        if b1 = PI_SLP_SIG_BYTE1 \<and> b2 = PI_SLP_SIG_BYTE2 \<and> b3 = PI_SLP_SIG_BYTE3
        then Some (Inr (slp_buf, 2, int PI_SLP_HEADER_LEN - 3, packet_len))
        else do {
          d \<leftarrow> poke d 0 [b2];
          d \<leftarrow> poke d 1 [b3];
          Some (Inr (slp_buf\<lparr>data := Some d, used := 2\<rparr>, 1, 1, packet_len)) } }
      else if state = 2 then do {
        d \<leftarrow> data slp_buf;
        h \<leftarrow> get_block 9 d 0;
        csum \<leftarrow> get_byte d PI_SLP_OFFSET_SUM;
        if sum_list h = csum then do {
          size \<leftarrow> get_short d PI_SLP_OFFSET_SIZE;
          let packet_len = uint size;
          if packet_len > to_int (int len)
          then (let (sk, e) = pi_set_error sk PI_ERR_PROT_BADPACKET in Some (Inl (sk, buf, e)))
          else Some (Inr (slp_buf, 3, packet_len, packet_len)) }
        else Some (Inl (sk, buf, 0)) }
      else if state = 3 then Some (Inr (slp_buf, 4, int PI_SLP_FOOTER_LEN, packet_len))
      else if state = 4 then do {
        d \<leftarrow> data slp_buf;
        let n = PI_SLP_HEADER_LEN + nat packet_len;
        frame \<leftarrow> get_block n d 0;
        received \<leftarrow> get_short d n;
        type \<leftarrow> get_byte d PI_SLP_OFFSET_TYPE;
        let computed = crc16 frame;
        let computed = (if type = PI_SLP_TYPE_LOOP \<and> computed \<noteq> uint received
                        then computed OR 0x00e0 else computed);
        if computed \<noteq> uint received then Some (Inl (sk, buf, 0))
        else do {
          dest \<leftarrow> get_byte d PI_SLP_OFFSET_DEST;
          src \<leftarrow> get_byte d PI_SLP_OFFSET_SRC;
          txid \<leftarrow> get_byte d PI_SLP_OFFSET_TXID;
          let sk = upd_slp (\<lambda>s. s\<lparr>slp_last_dest := uint dest, slp_last_src := uint src,
                                  slp_last_type := uint type, slp_last_txid := txid\<rparr>) sk;
          payload \<leftarrow> get_block (nat packet_len) d PI_SLP_HEADER_LEN;
          (buf, ok) \<leftarrow> pi_buffer_append env buf payload;
          if \<not> ok then (let (sk, e) = pi_set_error sk PI_ERR_GENERIC_MEMORY in Some (Inl (sk, buf, e)))
          else Some (Inl (sk, buf, packet_len)) } }
      else Some (Inr (slp_buf, state, expect, packet_len)))"

text \<open>The loop \<open>do ... while (expect > 0)\<close>: \<open>Inl\<close> a read error.\<close>

partial_function (option) slp_read ::
  "'o pi_protocol \<Rightarrow> 'o psock \<Rightarrow> pi_buffer \<Rightarrow> int \<Rightarrow> int \<Rightarrow> ('o psock \<times> pi_buffer \<times> int) option" where
  "slp_read nxt sk slp_buf expect flags = do {
     (sk, slp_buf, bytes) \<leftarrow> prot_read nxt sk slp_buf (nat expect) flags;
     if bytes < 0 then Some (sk, slp_buf, bytes)
     else if expect - bytes > 0 then slp_read nxt sk slp_buf (expect - bytes) flags
     else Some (sk, slp_buf, 0) }"

partial_function (option) slp_rx_loop ::
  "heap_env \<Rightarrow> 'o pi_protocol \<Rightarrow> nat \<Rightarrow> int \<Rightarrow> 'o psock \<Rightarrow> pi_buffer \<Rightarrow> pi_buffer \<Rightarrow> nat \<Rightarrow> int \<Rightarrow> int \<Rightarrow>
   ('o psock \<times> pi_buffer \<times> int) option" where
  "slp_rx_loop env nxt len flags sk buf slp_buf state expect packet_len = do {
     r \<leftarrow> slp_rx_switch env len sk buf slp_buf state expect packet_len;
     case r of
       Inl res \<Rightarrow> Some res
     | Inr (slp_buf, state, expect, packet_len) \<Rightarrow> do {
         (sk, slp_buf, e) \<leftarrow> slp_read nxt sk slp_buf expect flags;
         if e < 0 then Some (sk, buf, e)
         else slp_rx_loop env nxt len flags sk buf slp_buf state expect packet_len } }"

definition slp_rx ::
  "heap_env \<Rightarrow> 'o pi_protocol \<Rightarrow> 'o psock \<Rightarrow> pi_buffer \<Rightarrow> nat \<Rightarrow> int \<Rightarrow> ('o psock \<times> pi_buffer \<times> int) option" where
  "slp_rx env nxt sk buf len flags =
     (case pi_buffer_new env (PI_SLP_HEADER_LEN + PI_SLP_MTU + PI_SLP_FOOTER_LEN) of
        None \<Rightarrow> (let (sk, e) = pi_set_error sk PI_ERR_GENERIC_MEMORY in Some (sk, buf, e))
      | Some slp_buf \<Rightarrow> slp_rx_loop env nxt len flags sk buf slp_buf 0 0 0)"

definition slp_flush :: "'o pi_protocol \<Rightarrow> 'o psock \<Rightarrow> int \<Rightarrow> ('o psock \<times> int) option" where
  "slp_flush nxt sk flags = prot_flush nxt sk flags"

definition slp_protocol :: "heap_env \<Rightarrow> 'o pi_protocol \<Rightarrow> 'o pi_protocol" where
  "slp_protocol env nxt = \<lparr>prot_read = slp_rx env nxt, prot_write = slp_tx env nxt, prot_flush = slp_flush nxt\<rparr>"

section \<open>Options\<close>

datatype slp_option =
  PI_SLP_DEST | PI_SLP_LASTDEST | PI_SLP_SRC | PI_SLP_LASTSRC | PI_SLP_TYPE | PI_SLP_LASTTYPE | PI_SLP_TXID | PI_SLP_LASTTXID

definition slp_option_size :: "slp_option \<Rightarrow> nat" where
  "slp_option_size name = (if name = PI_SLP_TXID \<or> name = PI_SLP_LASTTXID then 1 else 4)"

definition slp_option_value :: "pi_slp_data \<Rightarrow> slp_option \<Rightarrow> int" where
  "slp_option_value d name = (case name of
       PI_SLP_DEST \<Rightarrow> slp_dest d | PI_SLP_LASTDEST \<Rightarrow> slp_last_dest d | PI_SLP_SRC \<Rightarrow> slp_src d
     | PI_SLP_LASTSRC \<Rightarrow> slp_last_src d | PI_SLP_TYPE \<Rightarrow> slp_type d | PI_SLP_LASTTYPE \<Rightarrow> slp_last_type d
     | PI_SLP_TXID \<Rightarrow> uint (slp_txid d) | PI_SLP_LASTTXID \<Rightarrow> uint (slp_last_txid d))"

text \<open>The value and the length stored, or nothing.\<close>

definition slp_getsockopt :: "'o psock \<Rightarrow> slp_option \<Rightarrow> nat \<Rightarrow> 'o psock \<times> (int \<times> nat) option \<times> int" where
  "slp_getsockopt sk name len =
     (if len < slp_option_size name
      then (let (sk, e) = pi_set_error sk PI_ERR_GENERIC_ARGUMENT in (sk, None, e))
      else (sk, Some (slp_option_value (slp_of sk) name, slp_option_size name), 0))"

definition slp_setsockopt :: "'o psock \<Rightarrow> slp_option \<Rightarrow> int \<Rightarrow> nat \<Rightarrow> 'o psock \<times> int" where
  "slp_setsockopt sk name v len =
     (if name \<notin> {PI_SLP_DEST, PI_SLP_SRC, PI_SLP_TYPE, PI_SLP_TXID} then (sk, 0)
      else if len \<noteq> slp_option_size name then pi_set_error sk PI_ERR_GENERIC_ARGUMENT
      else (upd_slp (\<lambda>d. case name of
                PI_SLP_DEST \<Rightarrow> d\<lparr>slp_dest := v\<rparr>
              | PI_SLP_SRC \<Rightarrow> d\<lparr>slp_src := v\<rparr>
              | PI_SLP_TYPE \<Rightarrow> d\<lparr>slp_type := v\<rparr>
              | _ \<Rightarrow> d\<lparr>slp_txid := word_of_int v\<rparr>) sk, 0))"

lemma slp_setsockopt_simps [simp]:
  "slp_setsockopt sk PI_SLP_TYPE v 4 = (upd_slp (\<lambda>d. d\<lparr>slp_type := v\<rparr>) sk, 0)"
  "slp_setsockopt sk PI_SLP_DEST v 4 = (upd_slp (\<lambda>d. d\<lparr>slp_dest := v\<rparr>) sk, 0)"
  "slp_setsockopt sk PI_SLP_SRC v 4 = (upd_slp (\<lambda>d. d\<lparr>slp_src := v\<rparr>) sk, 0)"
  "slp_setsockopt sk PI_SLP_TXID v (Suc 0) = (upd_slp (\<lambda>d. d\<lparr>slp_txid := word_of_int v\<rparr>) sk, 0)"
  by (simp_all add: slp_setsockopt_def slp_option_size_def)

lemma slp_getsockopt_simps [simp]:
  "slp_getsockopt sk PI_SLP_LASTTYPE 4 = (sk, Some (slp_last_type (slp_of sk), 4), 0)"
  "slp_getsockopt sk PI_SLP_LASTTXID (Suc 0) = (sk, Some (uint (slp_last_txid (slp_of sk)), 1), 0)"
  by (simp_all add: slp_getsockopt_def slp_option_size_def slp_option_value_def)

end
