(* ===== verification/SlpLink.thy ===== *)
theory SlpLink
  imports Slp DlpRecProps
begin

text \<open>
  \<open>slp_rx\<close> refines a decoder of byte strings. The device below is the locale \<open>byte_link\<close>: a read
  delivers at least one of the bytes that wait, in pieces of any size; on the serial port it is
  interpreted at the end. What the receiver does depends on the waiting bytes alone
  (\<open>slp_decode\<close>), however the device cuts them.
\<close>

section \<open>The decoder\<close>

text \<open>The bytes after the first signature.\<close>

fun sig_split :: "bytes \<Rightarrow> bytes option" where
  "sig_split (x # y # z # xs) =
     (if x = 0xbe \<and> y = 0xef \<and> z = 0xed then Some xs else sig_split (y # z # xs))"
| "sig_split _ = None"

record slp_info =
  si_dest :: u8
  si_src :: u8
  si_type :: u8
  si_txid :: u8

datatype slp_outcome =
  Starved | Bad_header bytes | Too_long bytes | Bad_crc bytes | Packet slp_info bytes bytes

definition slp_crc_ok :: "u8 \<Rightarrow> bytes \<Rightarrow> u16 \<Rightarrow> bool" where
  "slp_crc_ok type frame received \<longleftrightarrow>
     crc16 frame = uint received \<or> type = 3 \<and> crc16 frame OR 0xe0 = uint received"

fun slp_decode_body :: "nat \<Rightarrow> bytes \<Rightarrow> slp_outcome" where
  "slp_decode_body len (dest # src # type # n1 # n2 # txid # csum # xs) =
     (let h = [0xbe, 0xef, 0xed, dest, src, type, n1, n2, txid];
          n = unat (push_bit 8 (ucast n1) OR ucast n2 :: u16)
      in if sum_list h \<noteq> csum then Bad_header xs
         else if len < n then Too_long xs
         else if length xs < n + 2 then Starved
         else if slp_crc_ok type (h @ csum # take n xs) (push_bit 8 (ucast (xs ! n)) OR ucast (xs ! (n + 1)))
         then Packet \<lparr>si_dest = dest, si_src = src, si_type = type, si_txid = txid\<rparr> (take n xs) (drop (n + 2) xs)
         else Bad_crc (drop (n + 2) xs))"
| "slp_decode_body len _ = Starved"

definition slp_decode :: "nat \<Rightarrow> bytes \<Rightarrow> slp_outcome" where
  "slp_decode len bs = (case sig_split bs of None \<Rightarrow> Starved | Some xs \<Rightarrow> slp_decode_body len xs)"

lemma decode_body_short: "length xs < 7 \<Longrightarrow> slp_decode_body len xs = Starved"
  by (cases "(len, xs)" rule: slp_decode_body.cases) auto

section \<open>The device below\<close>

text \<open>Two sockets that differ in the device alone.\<close>

definition same_stack :: "'o psock \<Rightarrow> 'o psock \<Rightarrow> bool" where
  "same_stack s s' \<longleftrightarrow> (\<exists>w d. s' = set_os w (upd_serial (\<lambda>_. d) s))"

lemma same_stack_refl [simp]: "same_stack s s"
  unfolding same_stack_def by (intro exI[of _ "os_of s"] exI[of _ "serial_of s"]) (simp add: port_defs)

lemma same_stack_trans: "same_stack s s' \<Longrightarrow> same_stack s' s'' \<Longrightarrow> same_stack s s''"
  by (force simp: same_stack_def port_defs)

lemma same_stack_set: "same_stack s (set_os w (upd_serial f s))" "same_stack s (set_os w s)"
  "same_stack s (upd_serial f s)"
  unfolding same_stack_def
  by (intro exI[of _ w] exI[of _ "f (serial_of s)"] exI[of _ "serial_of s"] exI[of _ "os_of s"]; simp add: port_defs)+

lemma same_stackD: "same_stack s s' \<Longrightarrow>
  slp_of s' = slp_of s \<and> padp_of s' = padp_of s \<and> cmp_of s' = cmp_of s \<and> net_of s' = net_of s \<and>
  state_of s' = state_of s"
  by (auto simp: same_stack_def port_defs)

lemma same_stack_upd_slp: "same_stack s s' \<Longrightarrow> same_stack (upd_slp f s) (upd_slp f s')"
proof -
  assume "same_stack s s'"
  then obtain w d where "s' = set_os w (upd_serial (\<lambda>_. d) s)" by (auto simp: same_stack_def)
  then have "upd_slp f s' = set_os w (upd_serial (\<lambda>_. d) (upd_slp f s))" by (simp add: port_defs)
  then show ?thesis unfolding same_stack_def by blast
qed

lemma net_device_commute: "upd_net f (set_os w (upd_serial g s)) = set_os w (upd_serial g (upd_net f s))"
  by (simp add: port_defs)

lemma same_stack_upd_net: "same_stack s s' \<Longrightarrow> same_stack (upd_net f s) (upd_net f s')"
  unfolding same_stack_def by (metis net_device_commute)

lemma same_stack_under_net: "same_stack (upd_net f s) s' \<Longrightarrow> \<exists>s''. s' = upd_net f s'' \<and> same_stack s s''"
  unfolding same_stack_def by (metis net_device_commute)

text \<open>A computation that ends in an error, or never.\<close>

definition lost :: "('o psock \<times> 'b \<times> int) option \<Rightarrow> bool" where
  "lost m \<longleftrightarrow> m = None \<or> (\<exists>s b r. m = Some (s, b, r) \<and> r < 0)"

text \<open>What a receiver makes of the outcome of the decoder, for a device whose waiting bytes are
  \<open>pending\<close>: nothing; no packet; an error; the packet, appended to the caller's buffer.\<close>

definition received :: "slp_info \<Rightarrow> pi_slp_data \<Rightarrow> pi_slp_data" where
  "received i d = d\<lparr>slp_last_dest := uint (si_dest i), slp_last_src := uint (si_src i),
     slp_last_type := uint (si_type i), slp_last_txid := si_txid i\<rparr>"

definition slp_delivers ::
  "('o \<Rightarrow> pi_serial_data \<Rightarrow> bytes) \<Rightarrow> ('o \<Rightarrow> pi_serial_data \<Rightarrow> bool) \<Rightarrow> 'o psock \<Rightarrow> pi_buffer \<Rightarrow> slp_outcome \<Rightarrow>
   ('o psock \<times> pi_buffer \<times> int) option \<Rightarrow> bool" where
  "slp_delivers pending ok s buf outcome m \<longleftrightarrow>
     (let leaves = (\<lambda>rest s'. same_stack s s' \<and> ok (os_of s') (serial_of s') \<and> pending (os_of s') (serial_of s') = rest)
      in case outcome of
           Starved \<Rightarrow> lost m
         | Bad_header rest \<Rightarrow> (\<exists>s'. m = Some (s', buf, 0) \<and> leaves rest s')
         | Bad_crc rest \<Rightarrow> (\<exists>s'. m = Some (s', buf, 0) \<and> leaves rest s')
         | Too_long rest \<Rightarrow> (\<exists>s'. m = Some (fst (pi_set_error s' PI_ERR_PROT_BADPACKET), buf, PI_ERR_PROT_BADPACKET) \<and>
             leaves rest s')
         | Packet i p rest \<Rightarrow> (\<exists>s' buf'. m = Some (upd_slp (received i) s', buf', int (length p)) \<and> leaves rest s' \<and>
             pi_buffer_wf buf' \<and> content buf' = content buf @ p \<and> allocated buf \<le> allocated buf'))"

lemma append_grows: "pi_buffer_append env b bs = Some (b', True) \<Longrightarrow> allocated b \<le> allocated b'"
  by (auto simp: pi_buffer_append_def pi_buffer_expect_def buf_poke_def bind_eq_Some_conv
      split: if_splits option.splits prod.splits)

text \<open>A read of at most \<open>n\<close> bytes, at least one unless \<open>n\<close> is 0.\<close>

definition link_reads ::
  "('o \<Rightarrow> pi_serial_data \<Rightarrow> bytes) \<Rightarrow> ('o \<Rightarrow> pi_serial_data \<Rightarrow> bool) \<Rightarrow> 'o psock \<Rightarrow> pi_buffer \<Rightarrow> nat \<Rightarrow>
   ('o psock \<times> pi_buffer \<times> int) option \<Rightarrow> bool" where
  "link_reads pending ok s b n m \<longleftrightarrow>
     (\<exists>s' b' k. m = Some (s', b', int k) \<and> same_stack s s' \<and> pi_buffer_wf b' \<and>
        k \<le> n \<and> k \<le> length (pending (os_of s) (serial_of s)) \<and> (0 < n \<longrightarrow> 0 < k) \<and>
        content b' = content b @ take k (pending (os_of s) (serial_of s)) \<and>
        pending (os_of s') (serial_of s') = drop k (pending (os_of s) (serial_of s)) \<and>
        ok (os_of s') (serial_of s') \<and> allocated b \<le> allocated b')"

locale byte_link =
  fixes nxt :: "'o pi_protocol"
    and pending :: "'o \<Rightarrow> pi_serial_data \<Rightarrow> bytes"
    and ok :: "'o \<Rightarrow> pi_serial_data \<Rightarrow> bool"
  assumes read_enough:
      "ok (os_of s) (serial_of s) \<Longrightarrow> pi_buffer_wf b \<Longrightarrow> fl \<noteq> PI_MSG_PEEK \<Longrightarrow>
       pending (os_of s) (serial_of s) \<noteq> [] \<Longrightarrow> n \<le> length (pending (os_of s) (serial_of s)) \<Longrightarrow>
       link_reads pending ok s b n (prot_read nxt s b n fl)"
    and read_short:
      "ok (os_of s) (serial_of s) \<Longrightarrow> pi_buffer_wf b \<Longrightarrow> fl \<noteq> PI_MSG_PEEK \<Longrightarrow>
       pending (os_of s) (serial_of s) \<noteq> [] \<Longrightarrow>
       lost (prot_read nxt s b n fl) \<or> link_reads pending ok s b n (prot_read nxt s b n fl)"
    and read_none:
      "ok (os_of s) (serial_of s) \<Longrightarrow> pi_buffer_wf b \<Longrightarrow> fl \<noteq> PI_MSG_PEEK \<Longrightarrow>
       pending (os_of s) (serial_of s) = [] \<Longrightarrow> lost (prot_read nxt s b n fl)"
begin

definition pend :: "'o psock \<Rightarrow> bytes" where "pend s = pending (os_of s) (serial_of s)"
definition good :: "'o psock \<Rightarrow> bool" where "good s = ok (os_of s) (serial_of s)"

lemma read_some:
  assumes "good s" "pi_buffer_wf b" "fl \<noteq> PI_MSG_PEEK" "pend s \<noteq> []" "n \<le> length (pend s)"
  obtains s' b' k where "prot_read nxt s b n fl = Some (s', b', int k)" "same_stack s s'" "pi_buffer_wf b'"
    "k \<le> n" "k \<le> length (pend s)" "0 < n \<longrightarrow> 0 < k" "content b' = content b @ take k (pend s)"
    "pend s' = drop k (pend s)" "good s'" "allocated b \<le> allocated b'"
proof -
  have "link_reads pending ok s b n (prot_read nxt s b n fl)"
    using read_enough[of s b fl n] assms by (simp add: good_def pend_def)
  then show ?thesis using that unfolding link_reads_def good_def pend_def by blast
qed

lemma read_starved:
  assumes "good s" "pi_buffer_wf b" "fl \<noteq> PI_MSG_PEEK"
  obtains "lost (prot_read nxt s b n fl)"
  | s' b' k where "pend s \<noteq> []" "prot_read nxt s b n fl = Some (s', b', int k)" "pi_buffer_wf b'"
    "k \<le> n" "k \<le> length (pend s)" "0 < n \<longrightarrow> 0 < k" "pend s' = drop k (pend s)" "good s'"
proof (cases "pend s = []")
  case True
  then show ?thesis using read_none[of s b fl n] assms that(1) by (simp add: good_def pend_def)
next
  case False
  then have "lost (prot_read nxt s b n fl) \<or> link_reads pending ok s b n (prot_read nxt s b n fl)"
    using read_short[of s b fl n] assms by (simp add: good_def pend_def)
  then show ?thesis using that False unfolding link_reads_def good_def pend_def by blast
qed

lemma pend_upd [simp]: "pend (upd_slp f s) = pend s" "good (upd_slp f s) = good s"
  "pend (upd_net g s) = pend s" "good (upd_net g s) = good s"
  "pend (fst (pi_set_error s e)) = pend s" "good (fst (pi_set_error s e)) = good s"
  by (simp_all add: pend_def good_def)

text \<open>A loop \<open>f\<close> that reads \<open>n\<close> bytes, whatever it does at the end of them.\<close>

lemma reads_all:
  assumes step: "\<And>s b n s' b' k. 0 < k \<Longrightarrow> k \<le> n \<Longrightarrow> prot_read nxt s b n fl = Some (s', b', int k) \<Longrightarrow> f s b n = f s' b' (n - k)"
    and "good s" "pi_buffer_wf b" "fl \<noteq> PI_MSG_PEEK" "n \<le> length (pend s)"
  shows "\<exists>s' b'. f s b n = f s' b' 0 \<and> same_stack s s' \<and> pi_buffer_wf b' \<and>
           content b' = content b @ take n (pend s) \<and> pend s' = drop n (pend s) \<and> good s' \<and> allocated b \<le> allocated b'"
  using assms(2-)
proof (induction n arbitrary: s b rule: less_induct)
  case (less n)
  show ?case
  proof (cases "n = 0")
    case False
    then have "pend s \<noteq> []" using less.prems(4) by auto
    with False obtain s1 b1 k where r: "prot_read nxt s b n fl = Some (s1, b1, int k)" "same_stack s s1" "pi_buffer_wf b1"
      "0 < k" "k \<le> n" "k \<le> length (pend s)" "content b1 = content b @ take k (pend s)" "pend s1 = drop k (pend s)" "good s1"
      "allocated b \<le> allocated b1"
      using read_some[of s b fl n] less.prems False by (metis not_gr0)
    have "\<exists>s' b'. f s1 b1 (n - k) = f s' b' 0 \<and> same_stack s1 s' \<and> pi_buffer_wf b' \<and>
           content b' = content b1 @ take (n - k) (pend s1) \<and> pend s' = drop (n - k) (pend s1) \<and> good s' \<and> allocated b1 \<le> allocated b'"
      using less.prems r by (intro less.IH) auto
    moreover have "take k (pend s) @ take (n - k) (drop k (pend s)) = take n (pend s)"
      using r(5) by (simp add: take_add[symmetric])
    ultimately show ?thesis using r step[OF r(4,5,1)] by (auto intro: same_stack_trans order_trans)
  next
    case True
    then show ?thesis using less.prems by (intro exI[of _ s] exI[of _ b]) simp
  qed
qed

lemma reads_starved:
  assumes step: "\<And>s b n s' b' k. 0 < k \<Longrightarrow> k \<le> n \<Longrightarrow> prot_read nxt s b n fl = Some (s', b', int k) \<Longrightarrow> f s b n = f s' b' (n - k)"
    and fail: "\<And>s b n. 0 < n \<Longrightarrow> lost (prot_read nxt s b n fl) \<Longrightarrow> P (f s b n)"
    and "good s" "pi_buffer_wf b" "fl \<noteq> PI_MSG_PEEK" "length (pend s) < n"
  shows "P (f s b n)"
  using assms(3-)
proof (induction n arbitrary: s b rule: less_induct)
  case (less n)
  then have n: "0 < n" by simp
  show ?case
  proof (rule read_starved[OF less.prems(1-3), of n])
    assume "lost (prot_read nxt s b n fl)"
    then show ?thesis by (rule fail[OF n])
  next
    fix s1 b1 k
    assume r: "prot_read nxt s b n fl = Some (s1, b1, int k)" "pi_buffer_wf b1"
      "k \<le> n" "k \<le> length (pend s)" "0 < n \<longrightarrow> 0 < k" "pend s1 = drop k (pend s)" "good s1"
    have "P (f s1 b1 (n - k))" using less.prems n r by (intro less.IH) auto
    then show ?thesis using step[OF _ r(3,1)] r(5) n by simp
  qed
qed

text \<open>A read of \<open>n\<close> bytes that all wait.\<close>

lemma slp_read_all:
  assumes "good s" "pi_buffer_wf b" "fl \<noteq> PI_MSG_PEEK" "n \<le> length (pend s)" "n = 0 \<longrightarrow> pend s \<noteq> []"
  shows "\<exists>s' b'. slp_read nxt s b (int n) fl = Some (s', b', 0) \<and> same_stack s s' \<and> pi_buffer_wf b' \<and>
           content b' = content b @ take n (pend s) \<and> pend s' = drop n (pend s) \<and> good s'"
  using assms
proof (induction n arbitrary: s b rule: less_induct)
  case (less n)
  have "pend s \<noteq> []" using less.prems(4,5) by (cases n) auto
  then obtain s1 b1 k where r: "prot_read nxt s b n fl = Some (s1, b1, int k)" "same_stack s s1" "pi_buffer_wf b1"
    "k \<le> n" "k \<le> length (pend s)" "0 < n \<longrightarrow> 0 < k" "content b1 = content b @ take k (pend s)"
    "pend s1 = drop k (pend s)" "good s1"
    using read_some[of s b fl n] less.prems by metis
  show ?case
  proof (cases "k < n")
    case False
    then have k: "k = n" using r(4) by simp
    show ?thesis
      by (subst slp_read.simps, rule exI[of _ s1], rule exI[of _ b1]) (simp add: r(1)[unfolded k] r(2-9)[unfolded k])
  next
    case True
    have "\<exists>s' b'. slp_read nxt s1 b1 (int (n - k)) fl = Some (s', b', 0) \<and> same_stack s1 s' \<and> pi_buffer_wf b' \<and>
           content b' = content b1 @ take (n - k) (pend s1) \<and> pend s' = drop (n - k) (pend s1) \<and> good s'"
      using less.prems(3,4) True r by (intro less.IH) auto
    then obtain s' b' where "slp_read nxt s1 b1 (int (n - k)) fl = Some (s', b', 0)" "same_stack s1 s'" "pi_buffer_wf b'"
      "content b' = content b1 @ take (n - k) (pend s1)" "pend s' = drop (n - k) (pend s1)" "good s'"
      by blast
    moreover have "take k (pend s) @ take (n - k) (drop k (pend s)) = take n (pend s)"
      using True by (simp add: take_add[symmetric])
    moreover have "slp_read nxt s b (int n) fl = slp_read nxt s1 b1 (int (n - k)) fl"
      using True by (subst slp_read.simps) (simp add: r(1) of_nat_diff)
    ultimately show ?thesis using True r(2,7,8) by (auto intro: same_stack_trans)
  qed
qed

lemma slp_read_starved:
  assumes "good s" "pi_buffer_wf b" "fl \<noteq> PI_MSG_PEEK" "length (pend s) < n \<or> pend s = []"
  shows "lost (slp_read nxt s b (int n) fl)"
  using assms
proof (induction n arbitrary: s b rule: less_induct)
  case (less n)
  show ?case
  proof (rule read_starved[OF less.prems(1-3), of n])
    assume "lost (prot_read nxt s b n fl)"
    then show ?thesis by (subst slp_read.simps) (auto simp: lost_def)
  next
    fix s1 b1 k
    assume r: "pend s \<noteq> []" "prot_read nxt s b n fl = Some (s1, b1, int k)" "pi_buffer_wf b1"
      "k \<le> n" "k \<le> length (pend s)" "0 < n \<longrightarrow> 0 < k" "pend s1 = drop k (pend s)" "good s1"
    have "lost (slp_read nxt s1 b1 (int (n - k)) fl)"
      using less.prems r by (intro less.IH) auto
    moreover have "slp_read nxt s b (int n) fl = slp_read nxt s1 b1 (int (n - k)) fl"
      using r(5) less.prems(4) r(1) by (subst slp_read.simps) (simp add: r(2) of_nat_diff)
    ultimately show ?thesis by simp
  qed
qed

lemma switch_sync:
  assumes "pi_buffer_wf b" "content b = [x, y, z]"
  shows "if x = 0xbe \<and> y = 0xef \<and> z = 0xed
     then slp_rx_switch env len s buf b 1 e pl = Some (Inr (b, 2, 7, pl))
     else \<exists>b'. slp_rx_switch env len s buf b 1 e pl = Some (Inr (b', 1, 1, pl)) \<and> pi_buffer_wf b' \<and> content b' = [y, z]"
proof -
  obtain ys where "data b = Some ([x, y, z] @ ys)" "used b = length [x, y, z]"
    using content_data[OF assms] by blast
  then have d: "data b = Some (x # y # z # ys)" "used b = 3" by simp_all
  have g: "get_byte (x # y # z # ys) 0 = Some x" "get_byte (x # y # z # ys) (Suc 0) = Some y"
    "get_byte (x # y # z # ys) 2 = Some z" by (simp_all add: mem_simps)
  have p: "poke (x # y # z # ys) 0 [y] = Some (y # y # z # ys)" "poke (y # y # z # ys) (Suc 0) [z] = Some (y # z # z # ys)"
    by (simp_all add: poke_def)
  have "slp_rx_switch env len s buf b 1 e pl =
      (if x = 0xbe \<and> y = 0xef \<and> z = 0xed then Some (Inr (b, 2, 7, pl))
       else Some (Inr (b\<lparr>data := Some (y # z # z # ys), used := 2\<rparr>, 1, 1, pl)))"
    by (simp add: slp_rx_switch_def d g p slp_const_defs)
  moreover have "pi_buffer_wf (b\<lparr>data := Some (y # z # z # ys), used := 2\<rparr>)"
    "content (b\<lparr>data := Some (y # z # z # ys), used := 2\<rparr>) = [y, z]"
    using assms(1) d by (simp_all add: pi_buffer_wf_def content_def)
  ultimately show ?thesis by simp
qed

lemma rx_loop_Inr:
  assumes "slp_rx_switch env len s buf b st e pl = Some (Inr (b1, st1, int n, pl1))"
    "slp_read nxt s b1 (int n) fl = Some (s2, b2, 0)"
  shows "slp_rx_loop env nxt len fl s buf b st e pl = slp_rx_loop env nxt len fl s2 buf b2 st1 (int n) pl1"
  by (subst slp_rx_loop.simps) (simp add: assms)

lemma rx_loop_lost:
  assumes "slp_rx_switch env len s buf b st e pl = Some (Inr (b1, st1, int n, pl1))" "lost (slp_read nxt s b1 (int n) fl)"
  shows "lost (slp_rx_loop env nxt len fl s buf b st e pl)"
  using assms(2) unfolding lost_def by (subst slp_rx_loop.simps, subst slp_rx_loop.simps) (auto simp: assms(1))

lemma rx_sync:
  assumes "good s" "pi_buffer_wf b" "fl \<noteq> PI_MSG_PEEK" "content b = [x, y, z]"
    "sig_split (x # y # z # pend s) = Some xs" "7 \<le> length xs"
  shows "\<exists>s' b'. slp_rx_loop env nxt len fl s buf b 1 e pl = slp_rx_loop env nxt len fl s' buf b' 2 7 pl \<and>
     same_stack s s' \<and> good s' \<and> pi_buffer_wf b' \<and> content b' = [0xbe, 0xef, 0xed] @ take 7 xs \<and> pend s' = drop 7 xs"
  using assms
proof (induction "length (pend s)" arbitrary: s b x y z e rule: less_induct)
  case less
  note sw = switch_sync[OF less.prems(2,4), of env len s buf e pl]
  show ?case
  proof (cases "x = 0xbe \<and> y = 0xef \<and> z = 0xed")
    case True
    then have xs: "pend s = xs" using less.prems(5) by simp
    obtain s' b' where r: "slp_read nxt s b (int 7) fl = Some (s', b', 0)" "same_stack s s'" "pi_buffer_wf b'"
      "content b' = content b @ take 7 (pend s)" "pend s' = drop 7 (pend s)" "good s'"
      using slp_read_all[of s b fl 7] less.prems xs by auto
    have "slp_rx_switch env len s buf b 1 e pl = Some (Inr (b, 2, int 7, pl))" using sw True by simp
    from rx_loop_Inr[OF this r(1)] show ?thesis
      using r True less.prems(4) xs by (intro exI[of _ s'] exI[of _ b']) simp
  next
    case False
    then obtain b1 where b1: "slp_rx_switch env len s buf b 1 e pl = Some (Inr (b1, 1, int 1, pl))" "pi_buffer_wf b1"
      "content b1 = [y, z]" using sw by auto
    from less.prems(5) False have sp: "sig_split (y # z # pend s) = Some xs" by (simp split: if_splits)
    then obtain w ws where p: "pend s = w # ws" by (cases "pend s") auto
    obtain s' b' where r: "slp_read nxt s b1 (int 1) fl = Some (s', b', 0)" "same_stack s s'" "pi_buffer_wf b'"
      "content b' = content b1 @ take 1 (pend s)" "pend s' = drop 1 (pend s)" "good s'"
      using slp_read_all[of s b1 fl 1] less.prems b1(2) p by auto
    have c: "content b' = [y, z, w]" "pend s' = ws" using r b1(3) p by simp_all
    obtain s2 b2 where "slp_rx_loop env nxt len fl s' buf b' 1 (int 1) pl = slp_rx_loop env nxt len fl s2 buf b2 2 7 pl"
      "same_stack s' s2" "good s2" "pi_buffer_wf b2" "content b2 = [0xbe, 0xef, 0xed] @ take 7 xs" "pend s2 = drop 7 xs"
      using less.hyps[of s' b' y z w "int 1"] r less.prems(3,6) c p sp by auto
    then show ?thesis using rx_loop_Inr[OF b1(1) r(1)] r(2) by (metis same_stack_trans)
  qed
qed

lemma rx_sync_starved:
  assumes "good s" "pi_buffer_wf b" "fl \<noteq> PI_MSG_PEEK" "content b = [x, y, z]"
    "case sig_split (x # y # z # pend s) of None \<Rightarrow> True | Some xs \<Rightarrow> length xs < 7"
  shows "lost (slp_rx_loop env nxt len fl s buf b 1 e pl)"
  using assms
proof (induction "length (pend s)" arbitrary: s b x y z e rule: less_induct)
  case less
  note sw = switch_sync[OF less.prems(2,4), of env len s buf e pl]
  show ?case
  proof (cases "x = 0xbe \<and> y = 0xef \<and> z = 0xed")
    case True
    then have "slp_rx_switch env len s buf b 1 e pl = Some (Inr (b, 2, int 7, pl))" using sw by simp
    moreover have "lost (slp_read nxt s b (int 7) fl)"
      using less.prems True by (intro slp_read_starved) auto
    ultimately show ?thesis by (rule rx_loop_lost)
  next
    case False
    then obtain b1 where b1: "slp_rx_switch env len s buf b 1 e pl = Some (Inr (b1, 1, int 1, pl))" "pi_buffer_wf b1"
      "content b1 = [y, z]" using sw by auto
    show ?thesis
    proof (cases "pend s")
      case Nil
      then have "lost (slp_read nxt s b1 (int 1) fl)" using less.prems b1(2) by (intro slp_read_starved) auto
      with b1(1) show ?thesis by (rule rx_loop_lost)
    next
      case (Cons w ws)
      obtain s' b' where r: "slp_read nxt s b1 (int 1) fl = Some (s', b', 0)" "pi_buffer_wf b'"
        "content b' = content b1 @ take 1 (pend s)" "pend s' = drop 1 (pend s)" "good s'"
        using slp_read_all[of s b1 fl 1] less.prems b1(2) Cons by auto
      have "lost (slp_rx_loop env nxt len fl s' buf b' 1 (int 1) pl)"
        using less.hyps[of s' b' y z w "int 1"] r less.prems(3,5) False b1(3) Cons by auto
      then show ?thesis using rx_loop_Inr[OF b1(1) r(1)] by simp
    qed
  qed
qed

lemma switch_header:
  assumes "pi_buffer_wf b" "content b = [0xbe, 0xef, 0xed, dest, src, type, n1, n2, txid, csum]" "len < 2 ^ 31"
  shows "slp_rx_switch env len s buf b 2 e pl =
     (let n = unat (push_bit 8 (ucast n1) OR ucast n2 :: u16)
      in if sum_list [0xbe, 0xef, 0xed, dest, src, type, n1, n2, txid] \<noteq> csum then Some (Inl (s, buf, 0))
         else if len < n then Some (Inl (fst (pi_set_error s PI_ERR_PROT_BADPACKET), buf, PI_ERR_PROT_BADPACKET))
         else Some (Inr (b, 3, int n, int n)))"
proof -
  let ?h = "[0xbe, 0xef, 0xed, dest, src, type, n1, n2, txid]"
  obtain ys where "data b = Some ([0xbe, 0xef, 0xed, dest, src, type, n1, n2, txid, csum] @ ys)"
    using content_data[OF assms(1,2)] by blast
  then have d: "data b = Some (?h @ csum # ys)" by simp
  have g: "get_block 9 (?h @ csum # ys) 0 = Some ?h" "get_byte (?h @ csum # ys) 9 = Some csum"
    "get_short (?h @ csum # ys) 6 = Some (push_bit 8 (ucast n1) OR ucast n2)"
    by (simp_all add: mem_simps get_short_def get_block_def)
  define w :: u16 where "w = push_bit 8 (ucast n1) OR ucast n2"
  define c where "c = (sum_list ?h = csum)"
  have "to_int (int len) = int len" using assms(3) by (simp add: to_int_id)
  moreover have "int len < uint w \<longleftrightarrow> len < unat w" by (metis of_nat_less_iff uint_nat)
  ultimately have "slp_rx_switch env len s buf b 2 e pl =
      (if \<not> c then Some (Inl (s, buf, 0))
       else if len < unat w then Some (Inl (fst (pi_set_error s PI_ERR_PROT_BADPACKET), buf, PI_ERR_PROT_BADPACKET))
       else Some (Inr (b, 3, int (unat w), int (unat w))))"
    unfolding slp_rx_switch_def d PI_SLP_OFFSET_SUM_def PI_SLP_OFFSET_SIZE_def Option.bind.simps g c_def[symmetric] w_def[symmetric]
    by (simp add: Let_def pi_set_error_def)
  then show ?thesis by (simp add: Let_def c_def w_def)
qed

lemma switch_body:
  assumes "pi_buffer_wf b" "content b = ([0xbe, 0xef, 0xed, dest, src, type, n1, n2, txid, csum] @ xs) @ [c1, c2]"
    "all_alloc env" "pi_buffer_wf buf"
  shows "let h = [0xbe, 0xef, 0xed, dest, src, type, n1, n2, txid, csum];
             i = \<lparr>si_dest = dest, si_src = src, si_type = type, si_txid = txid\<rparr>
     in if slp_crc_ok type (h @ xs) (push_bit 8 (ucast c1) OR ucast c2)
        then \<exists>buf'. slp_rx_switch env len s buf b 4 e (int (length xs)) =
               Some (Inl (upd_slp (received i) s, buf', int (length xs))) \<and> pi_buffer_wf buf' \<and> content buf' = content buf @ xs \<and>
               allocated buf \<le> allocated buf'
        else slp_rx_switch env len s buf b 4 e (int (length xs)) = Some (Inl (s, buf, 0))"
proof -
  let ?h = "[0xbe, 0xef, 0xed, dest, src, type, n1, n2, txid, csum]" and ?c = "push_bit 8 (ucast c1) OR ucast c2 :: u16"
  obtain ys where "data b = Some ((?h @ xs @ [c1, c2]) @ ys)"
    using content_data[OF assms(1,2)] by auto
  then have d: "data b = Some ((?h @ xs) @ c1 # c2 # ys)" by simp
  have l: "10 + length xs = length (?h @ xs)" by simp
  have g: "get_block (10 + length xs) ((?h @ xs) @ c1 # c2 # ys) 0 = Some (?h @ xs)"
    "get_short ((?h @ xs) @ c1 # c2 # ys) (10 + length xs) = Some ?c"
    "get_byte ((?h @ xs) @ c1 # c2 # ys) 5 = Some type"
    "get_byte ((?h @ xs) @ c1 # c2 # ys) 3 = Some dest" "get_byte ((?h @ xs) @ c1 # c2 # ys) 4 = Some src"
    "get_byte ((?h @ xs) @ c1 # c2 # ys) 8 = Some txid"
    "get_block (length xs) ((?h @ xs) @ c1 # c2 # ys) 10 = Some xs"
    unfolding l by (simp_all add: mem_simps) (simp_all add: get_short_def get_block_def mem_simps)
  obtain buf' ok where a: "pi_buffer_append env buf xs = Some (buf', ok)" "pi_buffer_wf buf'"
    "content buf' = (if ok then content buf @ xs else [])"
    using pi_buffer_append_spec[OF assms(4)] by blast
  have "ok"
    using a(1) expect_all_alloc[OF assms(3), of buf "length xs"]
    by (auto simp: pi_buffer_append_def split: prod.splits if_splits Option.bind_splits)
  with a have a': "pi_buffer_append env buf xs = Some (buf', True)" "content buf' = content buf @ xs" by simp_all
  have "slp_crc_ok type (?h @ xs) ?c \<longleftrightarrow>
      (if type = 3 \<and> crc16 (?h @ xs) \<noteq> uint ?c then crc16 (?h @ xs) OR 0xe0 else crc16 (?h @ xs)) = uint ?c"
    by (auto simp: slp_crc_ok_def)
  then have "slp_rx_switch env len s buf b 4 e (int (length xs)) =
      (if slp_crc_ok type (?h @ xs) ?c
       then Some (Inl (upd_slp (received \<lparr>si_dest = dest, si_src = src, si_type = type, si_txid = txid\<rparr>) s, buf', int (length xs)))
       else Some (Inl (s, buf, 0)))"
    unfolding slp_rx_switch_def d slp_const_defs
    by (simp only: Option.bind.simps g nat_int Let_def a') (simp add: received_def[abs_def])
  then show ?thesis using a(2) a'(2) append_grows[OF a'(1)] by (simp add: Let_def)
qed

lemma rx_loop_Inl:
  "slp_rx_switch env len s buf b st e pl = Some (Inl r) \<Longrightarrow> slp_rx_loop env nxt len fl s buf b st e pl = Some r"
  by (subst slp_rx_loop.simps) simp

lemma rx_body:
  assumes good: "good s" and wf: "pi_buffer_wf b" "pi_buffer_wf buf" and fl: "fl \<noteq> PI_MSG_PEEK"
    and len: "len < 2 ^ 31" and env: "all_alloc env"
    and c: "content b = [0xbe, 0xef, 0xed, dest, src, type, n1, n2, txid, csum]"
  shows "slp_delivers pending ok s buf (slp_decode_body len ([dest, src, type, n1, n2, txid, csum] @ pend s))
     (slp_rx_loop env nxt len fl s buf b 2 e pl)"
proof -
  let ?h = "[0xbe, 0xef, 0xed, dest, src, type, n1, n2, txid, csum]" and ?p = "pend s"
  define n where "n = unat (push_bit 8 (ucast n1) OR ucast n2 :: u16)"
  note sw = switch_header[OF wf(1) c len, of env s buf e pl, unfolded Let_def, folded n_def]
  have leaves: "ok (os_of s) (serial_of s)" "pending (os_of s) (serial_of s) = ?p" using good by (simp_all add: good_def pend_def)
  consider (sum) "sum_list [0xbe, 0xef, 0xed, dest, src, type, n1, n2, txid] \<noteq> csum"
    | (long) "sum_list [0xbe, 0xef, 0xed, dest, src, type, n1, n2, txid] = csum" "len < n"
    | (cut) "sum_list [0xbe, 0xef, 0xed, dest, src, type, n1, n2, txid] = csum" "n \<le> len" "length ?p < n + 2"
    | (all) "sum_list [0xbe, 0xef, 0xed, dest, src, type, n1, n2, txid] = csum" "n \<le> len" "n + 2 \<le> length ?p"
    by linarith
  then show ?thesis
  proof cases
    case sum
    then have dec: "slp_decode_body len ([dest, src, type, n1, n2, txid, csum] @ ?p) = Bad_header ?p" by (simp add: Let_def)
    have "slp_rx_loop env nxt len fl s buf b 2 e pl = Some (s, buf, 0)" using sum by (intro rx_loop_Inl) (simp only: sw, simp)
    then show ?thesis unfolding dec slp_delivers_def Let_def slp_outcome.case using leaves by (intro exI[of _ s]) simp
  next
    case long
    then have dec: "slp_decode_body len ([dest, src, type, n1, n2, txid, csum] @ ?p) = Too_long ?p"
      by (simp add: Let_def n_def)
    have "slp_rx_loop env nxt len fl s buf b 2 e pl = Some (fst (pi_set_error s PI_ERR_PROT_BADPACKET), buf, PI_ERR_PROT_BADPACKET)"
      using long by (intro rx_loop_Inl) (simp only: sw, simp)
    then show ?thesis unfolding dec slp_delivers_def Let_def slp_outcome.case using leaves by (intro exI[of _ s]) simp
  next
    case cut
    then have dec: "slp_decode_body len ([dest, src, type, n1, n2, txid, csum] @ ?p) = Starved"
      by (simp add: Let_def n_def)
    have sw2: "slp_rx_switch env len s buf b 2 e pl = Some (Inr (b, 3, int n, int n))" using cut by (simp only: sw, simp)
    have "lost (slp_rx_loop env nxt len fl s buf b 2 e pl)"
    proof (cases "length ?p < n \<or> ?p = []")
      case True
      then have "lost (slp_read nxt s b (int n) fl)" using good wf fl by (intro slp_read_starved) auto
      with sw2 show ?thesis by (rule rx_loop_lost)
    next
      case False
      then obtain s' b' where r: "slp_read nxt s b (int n) fl = Some (s', b', 0)" "pi_buffer_wf b'" "pend s' = drop n ?p" "good s'"
        using slp_read_all[of s b fl n] good wf fl by auto
      have "slp_rx_switch env len s' buf b' 3 (int n) (int n) = Some (Inr (b', 4, int 2, int n))"
        by (simp add: slp_rx_switch_def slp_const_defs)
      moreover have "lost (slp_read nxt s' b' (int 2) fl)" using r cut fl by (intro slp_read_starved) auto
      ultimately have "lost (slp_rx_loop env nxt len fl s' buf b' 3 (int n) (int n))" by (rule rx_loop_lost)
      then show ?thesis using rx_loop_Inr[OF sw2 r(1)] by simp
    qed
    then show ?thesis unfolding dec slp_delivers_def Let_def slp_outcome.case .
  next
    case all
    have sw2: "slp_rx_switch env len s buf b 2 e pl = Some (Inr (b, 3, int n, int n))" using all by (simp only: sw, simp)
    obtain s1 b1 where r1: "slp_read nxt s b (int n) fl = Some (s1, b1, 0)" "same_stack s s1" "pi_buffer_wf b1"
      "content b1 = content b @ take n ?p" "pend s1 = drop n ?p" "good s1"
      using slp_read_all[of s b fl n] good wf fl all(3) by fastforce
    have sw3: "slp_rx_switch env len s1 buf b1 3 (int n) (int n) = Some (Inr (b1, 4, int 2, int n))"
      by (simp add: slp_rx_switch_def slp_const_defs)
    have two_left: "2 \<le> length (pend s1)" using r1(5) all(3) by simp
    obtain s2 b2 where r2: "slp_read nxt s1 b1 (int 2) fl = Some (s2, b2, 0)" "same_stack s1 s2" "pi_buffer_wf b2"
      "content b2 = content b1 @ take 2 (drop n ?p)" "pend s2 = drop (n + 2) ?p" "good s2"
      using slp_read_all[OF r1(6,3) fl two_left] r1(5) by (auto simp: add.commute)
    have loop: "slp_rx_loop env nxt len fl s buf b 2 e pl = slp_rx_loop env nxt len fl s2 buf b2 4 (int 2) (int n)"
      using rx_loop_Inr[OF sw2 r1(1)] rx_loop_Inr[OF sw3 r2(1)] by simp
    have two: "take 2 (drop n ?p) = [?p ! n, ?p ! (n + 1)]"
      using all(3) by (auto simp: take_Suc_conv_app_nth numeral_2_eq_2 Cons_nth_drop_Suc[symmetric])
    have st: "same_stack s s2" using r1(2) r2(2) by (rule same_stack_trans)
    have nn: "length (take n ?p) = n" using all(3) by simp
    have c2: "content b2 = (?h @ take n ?p) @ [?p ! n, ?p ! (n + 1)]" using r2(4) r1(4) c two by simp
    note sw4 = switch_body[OF r2(3) c2 env wf(2), where s = s2 and e = "int 2" and len = len, unfolded nn Let_def]
    define okc where "okc = slp_crc_ok type (?h @ take n ?p) (push_bit 8 (ucast (?p ! n)) OR ucast (?p ! (n + 1)))"
    have dec: "slp_decode_body len ([dest, src, type, n1, n2, txid, csum] @ ?p) =
        (if okc then Packet \<lparr>si_dest = dest, si_src = src, si_type = type, si_txid = txid\<rparr> (take n ?p) (drop (n + 2) ?p)
         else Bad_crc (drop (n + 2) ?p))"
      using all by (simp add: Let_def n_def okc_def)
    have leaves: "same_stack s s2 \<and> ok (os_of s2) (serial_of s2) \<and> pending (os_of s2) (serial_of s2) = drop (n + 2) ?p"
      using st r2(5,6) by (simp add: good_def pend_def)
    show ?thesis
    proof (cases okc)
      case True
      then obtain buf' where sw4': "slp_rx_switch env len s2 buf b2 4 (int 2) (int n) =
          Some (Inl (upd_slp (received \<lparr>si_dest = dest, si_src = src, si_type = type, si_txid = txid\<rparr>) s2, buf', int n))"
        "pi_buffer_wf buf'" "content buf' = content buf @ take n ?p" "allocated buf \<le> allocated buf'"
        using sw4 by (auto simp: okc_def)
      have dec': "slp_decode_body len ([dest, src, type, n1, n2, txid, csum] @ ?p) =
          Packet \<lparr>si_dest = dest, si_src = src, si_type = type, si_txid = txid\<rparr> (take n ?p) (drop (n + 2) ?p)"
        unfolding dec using True by (rule if_P)
      show ?thesis
        unfolding dec' loop rx_loop_Inl[OF sw4'(1)] slp_delivers_def Let_def slp_outcome.case
        by (rule exI[of _ s2], rule exI[of _ buf']) (simp only: nn leaves sw4'(2-4))
    next
      case False
      then have sw4': "slp_rx_switch env len s2 buf b2 4 (int 2) (int n) = Some (Inl (s2, buf, 0))"
        using sw4 by (simp add: okc_def)
      have dec': "slp_decode_body len ([dest, src, type, n1, n2, txid, csum] @ ?p) = Bad_crc (drop (n + 2) ?p)"
        unfolding dec using False by (rule if_not_P)
      show ?thesis
        unfolding dec' loop rx_loop_Inl[OF sw4'] slp_delivers_def Let_def slp_outcome.case
        by (rule exI[of _ s2]) (simp only: leaves)
    qed
  qed
qed

text \<open>The receiver delivers what the decoder finds in the waiting bytes.\<close>

lemma rx_decode:
  assumes good: "good s" and wf: "pi_buffer_wf buf" and fl: "fl \<noteq> PI_MSG_PEEK"
    and len: "len < 2 ^ 31" and env: "all_alloc env"
  shows "slp_delivers pending ok s buf (slp_decode len (pend s)) (slp_rx env nxt s buf len fl)"
proof -
  let ?n = "PI_SLP_HEADER_LEN + PI_SLP_MTU + PI_SLP_FOOTER_LEN"
  obtain b where b: "pi_buffer_new env ?n = Some b"
    using env by (simp add: pi_buffer_new_def malloc_def Let_def)
  then have wb: "pi_buffer_wf b" "content b = []" using pi_buffer_new_wf by blast+
  have rx: "slp_rx env nxt s buf len fl = slp_rx_loop env nxt len fl s buf b 0 0 0" by (simp add: slp_rx_def b)
  have sw: "slp_rx_switch env len s buf b 0 0 0 = Some (Inr (b, 1, int 3, 0))" by (simp add: slp_rx_switch_def)
  show ?thesis
  proof (cases "length (pend s) < 3")
    case True
    then have "sig_split (pend s) = None" by (cases "pend s" rule: sig_split.cases) auto
    moreover have "lost (slp_rx_loop env nxt len fl s buf b 0 0 0)"
      by (rule rx_loop_lost[OF sw slp_read_starved]) (use True good wb fl in auto)
    ultimately show ?thesis by (simp add: rx slp_decode_def slp_delivers_def)
  next
    case False
    then obtain x y z ps where p: "pend s = x # y # z # ps"
      by (metis One_nat_def Suc_le_length_iff not_less numeral_3_eq_3)
    obtain s1 b1 where r: "slp_read nxt s b (int 3) fl = Some (s1, b1, 0)" "same_stack s s1" "pi_buffer_wf b1"
      "content b1 = content b @ take 3 (pend s)" "pend s1 = drop 3 (pend s)" "good s1"
      using slp_read_all[of s b fl 3] good wb fl p by auto
    have c: "content b1 = [x, y, z]" "pend s1 = ps" using r(4,5) wb(2) p by simp_all
    have loop: "slp_rx env nxt s buf len fl = slp_rx_loop env nxt len fl s1 buf b1 1 (int 3) 0"
      unfolding rx by (rule rx_loop_Inr[OF sw r(1)])
    show ?thesis
    proof (cases "case sig_split (pend s) of None \<Rightarrow> True | Some xs \<Rightarrow> length xs < 7")
      case True
      then have "slp_decode len (pend s) = Starved"
        by (auto simp: slp_decode_def decode_body_short split: option.splits)
      moreover have "lost (slp_rx_loop env nxt len fl s1 buf b1 1 (int 3) 0)"
        using r(3,6) fl c True p by (intro rx_sync_starved) auto
      ultimately show ?thesis unfolding loop by (simp add: slp_delivers_def)
    next
      case False
      then obtain xs where xs: "sig_split (pend s) = Some xs" "7 \<le> length xs" by (auto split: option.splits)
      then obtain dest src type n1 n2 txid csum ps' where h: "xs = [dest, src, type, n1, n2, txid, csum] @ ps'"
        by (auto simp: Suc_le_length_iff eval_nat_numeral)
      obtain s2 b2 where 2: "slp_rx_loop env nxt len fl s1 buf b1 1 (int 3) 0 = slp_rx_loop env nxt len fl s2 buf b2 2 7 0"
        "same_stack s1 s2" "good s2" "pi_buffer_wf b2" "content b2 = [0xbe, 0xef, 0xed] @ take 7 xs" "pend s2 = drop 7 xs"
        using rx_sync[of s1 b1 fl x y z xs env len buf "int 3" 0] r(3,6) fl c xs p by auto
      have "slp_delivers pending ok s2 buf (slp_decode_body len ([dest, src, type, n1, n2, txid, csum] @ pend s2))
          (slp_rx_loop env nxt len fl s2 buf b2 2 7 0)"
        using 2 h by (intro rx_body[OF _ _ wf fl len env]) auto
      moreover have "pend s2 = ps'" using 2(6) h by simp
      moreover have "same_stack s s2" using r(2) 2(2) by (rule same_stack_trans)
      ultimately show ?thesis
        unfolding loop 2(1) slp_decode_def xs(1) option.case h slp_delivers_def Let_def
        by (auto split: slp_outcome.splits intro: same_stack_trans)
    qed
  qed
qed

end

section \<open>Packets\<close>

text \<open>The packet that \<open>slp_tx\<close> writes.\<close>

definition slp_packet :: "pi_slp_data \<Rightarrow> bytes \<Rightarrow> bytes" where
  "slp_packet d buf =
     (let frame = slp_header d (length buf) @ buf in frame @ set_short (word_of_int (crc16 frame)))"

lemma slp_header_length: "length (slp_header d n) = 10"
  by (simp add: slp_header_def Let_def)

lemma poke_at: "length bs \<le> length ys \<Longrightarrow> poke (xs @ ys) (length xs) bs = Some ((xs @ bs) @ drop (length bs) ys)"
  by (simp add: poke_right poke_here)

lemma slp_tx_packet:
  assumes "all_alloc env" "length buf \<le> PI_SLP_MTU"
  shows "slp_tx env nxt sk buf fl = prot_write nxt sk (slp_packet (slp_of sk) buf) fl"
proof -
  let ?N = "PI_SLP_HEADER_LEN + PI_SLP_MTU + PI_SLP_FOOTER_LEN" and ?h = "slp_header (slp_of sk) (length buf)"
  let ?c = "set_short (word_of_int (crc16 (?h @ buf)))"
  define n where "n = 65537 - length buf"
  obtain m where m: "malloc env ?N = Some m" "length m = 10 + (length buf + n)" "2 \<le> n"
    using assms by (simp add: malloc_def slp_const_defs n_def)
  obtain r where r: "poke m 0 ?h = Some (?h @ r)" "length r = length buf + n"
    using m(2) by (simp add: poke_def slp_header_length)
  obtain r2 where r2: "poke (?h @ r) 10 buf = Some ((?h @ buf) @ r2)" "length r2 = n"
    using poke_at[of buf r ?h] r(2) by (simp add: slp_header_length)
  obtain r3 where r3: "poke ((?h @ buf) @ r2) (10 + length buf) ?c = Some ((?h @ buf @ ?c) @ r3)"
    using poke_at[of ?c r2 "?h @ buf"] r2(2) m(3) by (simp add: slp_header_length)
  have g: "get_block (10 + length buf) ((?h @ buf) @ r2) 0 = Some (?h @ buf)"
    by (rule get_block_here) (simp add: slp_header_length)
  have g2: "get_block (10 + length buf + 2) ((?h @ buf @ ?c) @ r3) 0 = Some (?h @ buf @ ?c)"
    by (rule get_block_here) (simp add: slp_header_length)
  show ?thesis
    unfolding slp_tx_def Let_def m(1) option.case
    unfolding PI_SLP_HEADER_LEN_def PI_SLP_FOOTER_LEN_def r(1) Option.bind.simps r2(1) g r3 g2
    by (simp add: slp_packet_def Let_def)
qed

end
