(* ===== verification/SlpProps.thy ===== *)
theory SlpProps
  imports SlpLink
begin

text \<open>
  The serial link on the serial port: \<open>byte_link\<close> is interpreted on \<open>s_read\<close>, for a port that
  delivers its input in pieces of any size; a packet that \<open>slp_tx\<close> sends is received behind any
  noise, and a packet with a damaged pair of bytes is refused.
\<close>

section \<open>A port\<close>

text \<open>An operating system whose descriptor delivers the bytes \<open>wi_in\<close>, at most \<open>grain\<close> of them at
  once, and hands what is written to a peer, whose answer is added to the input. A \<open>select\<close>
  without a time limit and without input never returns. The descriptor is a terminal, as \<open>s_open\<close>
  requires, and no socket: \<open>recv\<close> fails on it and takes nothing away.\<close>

record 'p wire =
  wi_in :: bytes
  wi_peer :: 'p

definition wire_os :: "(nat \<Rightarrow> nat) \<Rightarrow> ('p \<Rightarrow> bytes \<Rightarrow> 'p \<times> bytes) \<Rightarrow> 'p wire os" where
  "wire_os grain peer = \<lparr>
     os_select_read = (\<lambda>w t. if wi_in w \<noteq> [] then Some (w, Ready) else if t = 0 then None else Some (w, Expired)),
     os_select_write = (\<lambda>w t. Some (w, Ready)),
     os_read = (\<lambda>w n. let k = min n (max 1 (grain (length (wi_in w))))
                      in (w\<lparr>wi_in := drop k (wi_in w)\<rparr>, Some (take k (wi_in w)))),
     os_write = (\<lambda>w bs. let (p, answer) = peer (wi_peer w) bs
                        in (\<lparr>wi_in = wi_in w @ answer, wi_peer = p\<rparr>, int (length bs))),
     os_hangup = (\<lambda>w. False),
     os_getfl = (\<lambda>w. (w, 0)), os_setfl = (\<lambda>w fl. w),
     os_recv = (\<lambda>w. (w, -1)),
     os_time = (\<lambda>w. (w, 0))\<rparr>"

text \<open>What waits: the bytes read ahead and those on the wire.\<close>

definition wire_pending :: "'p wire \<Rightarrow> pi_serial_data \<Rightarrow> bytes" where
  "wire_pending w d = take (sd_buf_size d) (sd_buf d) @ wi_in w"

text \<open>At most \<open>m\<close> bytes are read ahead; the peer and the time limit are \<open>keep\<close>, as no read changes them.\<close>

definition wire_held :: "nat \<Rightarrow> heap_env \<Rightarrow> 'p \<times> int \<Rightarrow> 'p wire \<Rightarrow> pi_serial_data \<Rightarrow> bool" where
  "wire_held m env keep w d \<longleftrightarrow> all_alloc env \<and> sd_buf_size d \<le> m \<and> sd_buf_size d \<le> length (sd_buf d) \<and>
     (wi_peer w, sd_timeout d) = keep"

abbreviation wire_ok :: "heap_env \<Rightarrow> 'p \<times> int \<Rightarrow> 'p wire \<Rightarrow> pi_serial_data \<Rightarrow> bool" where
  "wire_ok \<equiv> wire_held 0"

lemma wire_ok_def: "wire_ok env keep w d \<longleftrightarrow> all_alloc env \<and> sd_buf_size d = 0 \<and> (wi_peer w, sd_timeout d) = keep"
  by (auto simp: wire_held_def)

lemma expect_poke:
  assumes "all_alloc env" "pi_buffer_wf b" "length bs \<le> n"
  obtains b1 b2 where "pi_buffer_expect env b n = (b1, True)" "buf_poke b1 (used b1) bs = Some b2"
    "pi_buffer_wf (b2\<lparr>used := used b2 + length bs\<rparr>)" "content (b2\<lparr>used := used b2 + length bs\<rparr>) = content b @ bs"
    "pi_buffer_wf b1" "content b1 = content b" "allocated b \<le> allocated b1" "allocated b1 \<le> allocated b2"
proof -
  obtain b1 ok where e: "pi_buffer_expect env b n = (b1, ok)" by fastforce
  then have ok using expect_all_alloc[OF assms(1), of b n] by simp
  note ex = pi_buffer_expect_wf[OF assms(2) e]
  have b: "used b1 = used b" "used b + n \<le> allocated b1" "content b1 = content b" using ex(2)[OF \<open>ok\<close>] by auto
  obtain b2 where b2: "buf_poke b1 (used b1) bs = Some b2" using buf_poke_Some[OF ex(1), of "used b1" bs] b assms(3) by auto
  have "content (b2\<lparr>used := used b2 + length bs\<rparr>) = content b @ bs \<and> pi_buffer_wf (b2\<lparr>used := used b2 + length bs\<rparr>)"
    using b2 b ex(1) assms(2,3)
    by (auto simp: buf_poke_def pi_buffer_wf_def content_def poke_def min_def split: option.splits if_splits)
  moreover have "allocated b \<le> allocated b1" using e \<open>ok\<close> by (auto simp: pi_buffer_expect_def split: if_splits option.splits)
  moreover have "allocated b1 \<le> allocated b2" using b2 by (auto simp: buf_poke_def bind_eq_Some_conv split: option.splits if_splits)
  ultimately show ?thesis using that[of b1 b2] e \<open>ok\<close> b2 b(3) ex(1) by simp
qed

text \<open>Reading from the descriptor, behind \<open>r\<close> bytes that were read ahead.\<close>

lemma wire_read_fd:
  assumes "all_alloc env" "pi_buffer_wf b" "fl \<noteq> PI_MSG_PEEK" "wi_in (os_of s) \<noteq> []"
  shows "\<exists>s' b' k. s_read_fd (wire_os grain peer) env s b n fl r = Some (s', b', r + int k) \<and> same_stack s s' \<and>
         pi_buffer_wf b' \<and> k \<le> n \<and> k \<le> length (wi_in (os_of s)) \<and> (0 < n \<longrightarrow> 0 < k) \<and>
         content b' = content b @ take k (wi_in (os_of s)) \<and> wi_in (os_of s') = drop k (wi_in (os_of s)) \<and>
         wi_peer (os_of s') = wi_peer (os_of s) \<and> sd_timeout (serial_of s') = sd_timeout (serial_of s) \<and>
         sd_buf_size (serial_of s') = sd_buf_size (serial_of s) \<and> sd_buf (serial_of s') = sd_buf (serial_of s) \<and>
         allocated b \<le> allocated b'"
proof -
  define w where "w = os_of s"
  define k where "k = min n (max 1 (grain (length (wi_in w))))"
  let ?bs = "take k (wi_in w)" and ?w = "w\<lparr>wi_in := drop k (wi_in w)\<rparr>"
  have "length ?bs \<le> n" by (simp add: k_def)
  then obtain b1 b2 where b: "pi_buffer_expect env b n = (b1, True)" "buf_poke b1 (used b1) ?bs = Some b2"
    "pi_buffer_wf (b2\<lparr>used := used b2 + length ?bs\<rparr>)" "content (b2\<lparr>used := used b2 + length ?bs\<rparr>) = content b @ ?bs"
    "pi_buffer_wf b1" "content b1 = content b" "allocated b \<le> allocated b1" "allocated b1 \<le> allocated b2"
    using expect_poke[OF assms(1,2)] by metis
  have rd: "os_read (wire_os grain peer) w n = (?w, Some ?bs)" by (simp add: wire_os_def Let_def k_def)
  have sel: "os_select_read (wire_os grain peer) w t = Some (w, Ready)" for t
    using assms(4) by (simp add: wire_os_def w_def)
  have pos: "0 < n \<Longrightarrow> 0 < length ?bs" using assms(4) by (auto simp: k_def w_def)
  let ?s = "set_os ?w (set_os w s)"
  show ?thesis
  proof (cases "?bs")
    case Nil
    then have "n = 0" "k = 0" using pos assms(4) by (auto simp: k_def w_def)
    then have "s_read_fd (wire_os grain peer) env s b n fl r = Some (?s, b1, r + int 0)"
      using assms(3) b(1) rd by (simp add: s_read_fd_def sel w_def[symmetric] Let_def)
    moreover have "same_stack s ?s" by (auto intro: same_stack_trans same_stack_set)
    ultimately show ?thesis
      using b \<open>k = 0\<close> \<open>n = 0\<close> by (intro exI[of _ ?s] exI[of _ b1] exI[of _ 0]) (simp add: w_def)
  next
    case (Cons x xs)
    let ?s' = "upd_serial (\<lambda>d. d\<lparr>sd_rx_bytes := to_int (sd_rx_bytes d + int (length ?bs))\<rparr>) ?s"
    let ?b' = "b2\<lparr>used := used b2 + length ?bs\<rparr>"
    have "s_read_fd (wire_os grain peer) env s b n fl r = Some (?s', ?b', r + int (length ?bs))"
      using assms(3) b(1) rd b(2)[unfolded Cons]
      by (simp add: s_read_fd_def sel w_def[symmetric] Let_def Cons)
    moreover have "same_stack s ?s'" by (intro same_stack_trans[OF _ same_stack_set(3)] same_stack_trans[OF _ same_stack_set(2)]) simp
    moreover have "take (length ?bs) (wi_in w) = ?bs" "drop (length ?bs) (wi_in w) = drop k (wi_in w)"
      by (simp_all add: min_def)
    ultimately show ?thesis
      using b pos by (intro exI[of _ ?s'] exI[of _ ?b'] exI[of _ "length ?bs"]) (simp add: w_def k_def)
  qed
qed

lemma wire_read_fd_empty:
  "wi_in (os_of s) = [] \<Longrightarrow> lost (s_read_fd (wire_os grain peer) env s b n fl r)"
  by (auto simp: lost_def s_read_fd_def wire_os_def Let_def pi_set_error_def PI_ERR_SOCK_TIMEOUT_def)

text \<open>What was read ahead comes first.\<close>

lemma wire_read_buf:
  assumes "all_alloc env" "pi_buffer_wf b" "fl \<noteq> PI_MSG_PEEK" "sd_buf_size (serial_of s) \<le> length (sd_buf (serial_of s))"
    and k_def: "k = min n (sd_buf_size (serial_of s))"
  shows "\<exists>s' b'. s_read_buf env s b n fl = Some (s', b', int k) \<and> same_stack s s' \<and> os_of s' = os_of s \<and> pi_buffer_wf b' \<and>
         content b' = content b @ take k (sd_buf (serial_of s)) \<and> allocated b \<le> allocated b' \<and>
         sd_timeout (serial_of s') = sd_timeout (serial_of s) \<and> sd_buf_size (serial_of s') = sd_buf_size (serial_of s) - k \<and>
         length (sd_buf (serial_of s')) = length (sd_buf (serial_of s)) \<and>
         take (sd_buf_size (serial_of s) - k) (sd_buf (serial_of s')) =
           drop k (take (sd_buf_size (serial_of s)) (sd_buf (serial_of s)))"
proof -
  let ?d = "serial_of s" and ?m = "sd_buf (serial_of s)"
  let ?n = "sd_buf_size ?d - k"
  have kd: "(if n < sd_buf_size ?d then n else sd_buf_size ?d) = k" by (simp add: k_def)
  have g: "get_block k ?m 0 = Some (take k ?m)" using assms(4) by (simp add: get_block_def k_def)
  obtain b' ok where "pi_buffer_append env b (take k ?m) = Some (b', ok)" "pi_buffer_wf b'"
    "content b' = (if ok then content b @ take k ?m else [])"
    using pi_buffer_append_spec[OF assms(2)] by blast
  moreover have ok using calculation(1) expect_all_alloc[OF assms(1), of b "length (take k ?m)"]
    by (auto simp: pi_buffer_append_def split: prod.splits if_splits Option.bind_splits)
  ultimately have a: "pi_buffer_append env b (take k ?m) = Some (b', True)" "pi_buffer_wf b'" "content b' = content b @ take k ?m"
    by simp_all
  define rest where "rest = take ?n (drop k ?m)"
  have r: "get_block ?n ?m k = Some rest" "length rest = ?n" using assms(4) by (auto simp: get_block_def rest_def k_def)
  have p: "poke ?m 0 rest = Some (rest @ drop ?n ?m)" using r(2) assms(4) by (simp add: poke_def)
  let ?s = "upd_serial (\<lambda>d. d\<lparr>sd_buf := rest @ drop ?n ?m, sd_buf_size := ?n\<rparr>) s"
  have "s_read_buf env s b n fl = Some (?s, b', int k)"
    using assms(3) by (simp add: s_read_buf_def Let_def kd g a(1) r(1) p)
  moreover have "take ?n (rest @ drop ?n ?m) = drop k (take (sd_buf_size ?d) ?m)"
    using r(2) by (simp add: rest_def take_drop k_def)
  ultimately show ?thesis
    using a append_grows[OF a(1)] r(2) assms(4)
    by (intro exI[of _ ?s] exI[of _ b']) (simp add: same_stack_set(3))
qed

lemma wire_read:
  assumes "wire_held m env keep (os_of s) (serial_of s)" "pi_buffer_wf b" "fl \<noteq> PI_MSG_PEEK"
    "wire_pending (os_of s) (serial_of s) \<noteq> []"
    "n \<le> sd_buf_size (serial_of s) \<or> wi_in (os_of s) \<noteq> []"
  shows "link_reads wire_pending (wire_held m env keep) s b n (s_read (wire_os grain peer) env s b n fl)"
proof (cases "sd_buf_size (serial_of s) = 0")
  case True
  have env: "all_alloc env" using assms(1) by (simp add: wire_held_def)
  have "wi_in (os_of s) \<noteq> []" using assms(4) True by (simp add: wire_pending_def)
  from wire_read_fd[OF env assms(2,3) this, of grain peer n 0] True assms(1) show ?thesis
    by (fastforce simp: s_read_def link_reads_def wire_pending_def wire_held_def)
next
  case False
  let ?d = "serial_of s" and ?k = "min n (sd_buf_size (serial_of s))"
  have env: "all_alloc env" and l: "sd_buf_size ?d \<le> length (sd_buf ?d)" "sd_buf_size ?d \<le> m"
    and keep: "(wi_peer (os_of s), sd_timeout ?d) = keep" using assms(1) by (simp_all add: wire_held_def)
  obtain s1 b1 where r: "s_read_buf env s b n fl = Some (s1, b1, int ?k)" "same_stack s s1" "os_of s1 = os_of s"
    "pi_buffer_wf b1" "content b1 = content b @ take ?k (sd_buf ?d)" "allocated b \<le> allocated b1"
    "sd_timeout (serial_of s1) = sd_timeout ?d" "sd_buf_size (serial_of s1) = sd_buf_size ?d - ?k"
    "length (sd_buf (serial_of s1)) = length (sd_buf ?d)"
    "take (sd_buf_size ?d - ?k) (sd_buf (serial_of s1)) = drop ?k (take (sd_buf_size ?d) (sd_buf ?d))"
    using wire_read_buf[OF env assms(2,3) l(1) refl, where n = n] by blast
  have tk: "take k (take (sd_buf_size ?d) (sd_buf ?d) @ xs) = take k (sd_buf ?d)" if "k \<le> sd_buf_size ?d" for k xs
    using that l(1) by simp
  have dk: "drop k (take (sd_buf_size ?d) (sd_buf ?d) @ xs) = drop k (take (sd_buf_size ?d) (sd_buf ?d)) @ xs"
    if "k \<le> sd_buf_size ?d" for k xs using that l(1) by simp
  show ?thesis
  proof (cases "n \<le> sd_buf_size ?d")
    case True
    then have "s_read (wire_os grain peer) env s b n fl = Some (s1, b1, int n)" using False r(1) by (simp add: s_read_def min_def)
    then show ?thesis
      using r l keep env True tk[OF True] dk[OF True] unfolding link_reads_def wire_pending_def wire_held_def
      by (intro exI[of _ s1] exI[of _ b1] exI[of _ n]) (auto simp: min_def)
  next
    case more: False
    then have k: "?k = sd_buf_size ?d" by simp
    have "wi_in (os_of s1) \<noteq> []" using assms(5) more r(3) by simp
    moreover have "0 < n - sd_buf_size ?d" using more by simp
    ultimately obtain s2 b2 j where q: "s_read_fd (wire_os grain peer) env s1 b1 (n - sd_buf_size ?d) fl (int (sd_buf_size ?d)) =
        Some (s2, b2, int (sd_buf_size ?d) + int j)" "same_stack s1 s2" "pi_buffer_wf b2" "j \<le> n - sd_buf_size ?d"
      "j \<le> length (wi_in (os_of s1))" "0 < j" "content b2 = content b1 @ take j (wi_in (os_of s1))"
      "wi_in (os_of s2) = drop j (wi_in (os_of s1))" "wi_peer (os_of s2) = wi_peer (os_of s1)"
      "sd_timeout (serial_of s2) = sd_timeout (serial_of s1)" "sd_buf_size (serial_of s2) = sd_buf_size (serial_of s1)"
      "sd_buf (serial_of s2) = sd_buf (serial_of s1)" "allocated b1 \<le> allocated b2"
      using wire_read_fd[OF env r(4) assms(3), of s1 grain peer "n - sd_buf_size ?d" "int (sd_buf_size ?d)"] by auto
    have "int n - int (sd_buf_size ?d) \<noteq> 0" using more by simp
    then have rd: "s_read (wire_os grain peer) env s b n fl = Some (s2, b2, int (sd_buf_size ?d + j))"
      using False r(1) q(1) unfolding k by (simp add: s_read_def)
    have "same_stack s s2" using r(2) q(2) by (rule same_stack_trans)
    moreover have "content b2 = content b @ take (sd_buf_size ?d + j) (wire_pending (os_of s) ?d)"
      using q(7) r(3,5) l(1) unfolding k by (simp add: wire_pending_def)
    moreover have "sd_buf_size ?d + j \<le> n" using q(4) more by simp
    ultimately show ?thesis
      using rd q r l keep env False unfolding link_reads_def k wire_held_def
      by (intro exI[of _ s2] exI[of _ b2] exI[of _ "sd_buf_size ?d + j"]) (simp add: wire_pending_def)
  qed
qed

lemma wire_read_lost:
  assumes "wire_held m env keep (os_of s) (serial_of s)" "pi_buffer_wf b" "fl \<noteq> PI_MSG_PEEK"
    "sd_buf_size (serial_of s) < n \<or> sd_buf_size (serial_of s) = 0" "wi_in (os_of s) = []"
  shows "lost (s_read (wire_os grain peer) env s b n fl)"
proof (cases "sd_buf_size (serial_of s) = 0")
  case True
  then show ?thesis using assms(5) by (simp add: s_read_def wire_read_fd_empty)
next
  case False
  let ?d = "serial_of s"
  have env: "all_alloc env" and l: "sd_buf_size ?d \<le> length (sd_buf ?d)" using assms(1) by (simp_all add: wire_held_def)
  from False assms(4) have n: "min n (sd_buf_size ?d) = sd_buf_size ?d" "int n - int (sd_buf_size ?d) \<noteq> 0" by auto
  obtain s1 b1 where r: "s_read_buf env s b n fl = Some (s1, b1, int (sd_buf_size ?d))" "os_of s1 = os_of s"
    using wire_read_buf[OF env assms(2,3) l refl, where n = n] unfolding n(1) by blast
  have "lost (s_read_fd (wire_os grain peer) env s1 b1 (n - sd_buf_size ?d) fl (int (sd_buf_size ?d)))"
    by (rule wire_read_fd_empty) (simp add: r(2) assms(5))
  then show ?thesis using False r(1) n(2) by (simp add: s_read_def)
qed

text \<open>Flushing the port drops what was read ahead, and nothing of what the descriptor still holds.\<close>

lemma wire_flush:
  "\<exists>t. s_flush (wire_os grain peer) s PI_FLUSH_INPUT = Some (t, 0) \<and> same_stack s t \<and> os_of t = os_of s \<and>
     serial_of t = (serial_of s)\<lparr>sd_buf_size := 0\<rparr>"
proof -
  let ?s = "upd_serial (\<lambda>d. d\<lparr>sd_buf_size := 0\<rparr>) s"
  have set: "set_os (os_of s) (set_os (os_of s) ?s) = set_os (os_of s) ?s" by (simp add: port_defs)
  have "drain (wire_os grain peer) t = Some (set_os (os_of t) t)" for t
    by (subst drain.simps) (simp add: wire_os_def)
  then have "s_flush (wire_os grain peer) s PI_FLUSH_INPUT = Some (set_os (os_of s) ?s, 0)"
    unfolding s_flush_def by (simp add: PI_FLUSH_INPUT_def set wire_os_def Let_def)
  then show ?thesis by (intro exI[of _ "set_os (os_of s) ?s"]) (simp add: same_stack_set)
qed

interpretation serial_link: byte_link "pi_serial_protocol (wire_os grain peer) env" wire_pending "wire_held m env keep"
  for grain peer env keep m
proof (unfold_locales, goal_cases)
  case (1 s b fl n)
  moreover have "n \<le> sd_buf_size (serial_of s) \<or> wi_in (os_of s) \<noteq> []"
    using 1(1,5) by (auto simp: wire_pending_def wire_held_def)
  ultimately show ?case unfolding pi_serial_protocol_def pi_protocol.select_convs by (intro wire_read)
next
  case (2 s b fl n)
  show ?case
  proof (cases "n \<le> sd_buf_size (serial_of s) \<or> wi_in (os_of s) \<noteq> []")
    case True
    then show ?thesis using wire_read[OF 2] by (simp add: pi_serial_protocol_def)
  next
    case False
    then show ?thesis using wire_read_lost[OF 2(1-3), of n] by (simp add: pi_serial_protocol_def)
  qed
next
  case (3 s b fl n)
  then show ?case using wire_read_lost[OF 3(1-3), of n] by (auto simp: wire_pending_def wire_held_def pi_serial_protocol_def)
qed

section \<open>The decoder on packets\<close>

lemma sig_split_noise:
  "sig_split (g @ [0xbe, 0xef]) = None \<Longrightarrow> sig_split (g @ 0xbe # 0xef # 0xed # xs) = Some xs"
proof (induction g rule: sig_split.induct)
  case (1 x y z g)
  then show ?case by (cases g) (auto split: if_splits)
qed (simp_all split: if_splits)

lemma ucast_plus: "(ucast (a + b :: u32) :: u8) = ucast a + ucast b"
proof (rule word_uint_eqI)
  have "take_bit 8 (x + y) = take_bit 8 (take_bit 8 x + take_bit 8 y)" for x y :: int by (simp add: take_bit_add)
  from this[of "take_bit 32 (uint a + uint b)" 0] this[of "uint a" "uint b"]
  show "uint (ucast (a + b) :: u8) = uint (ucast a + ucast b :: u8)"
    by (simp add: unsigned_ucast_eq uint_word_ariths take_bit_eq_mod mod_mod_cancel)
qed

lemma ucast_up_down: "(ucast (ucast (b :: u8) :: u32) :: u8) = b"
  by (rule bit_word_eqI) (auto simp: bit_simps)

lemma header_sum: "ucast (0xff AND sum_list (map ucast h :: u32 list)) = (sum_list h :: u8)"
proof -
  have "(ucast (sum_list (map ucast h :: u32 list)) :: u8) = sum_list h"
    by (induction h) (simp_all add: ucast_plus ucast_up_down)
  moreover have "(ucast (0xff AND x) :: u8) = ucast x" for x :: u32
    unfolding and.commute[of "0xff" x] by (rule ucast_and_ff) simp
  ultimately show ?thesis by simp
qed

lemma crc16_range: "0 \<le> crc16 bs \<and> crc16 bs < 65536"
  using uint_bounded[of "crc_reg 0 bs"] by (simp add: crc16_reg)

lemma set_short_bytes: "set_short v = [ucast (drop_bit 8 v), ucast v]"
  by (simp add: set_short_def ucast_and_ff)

text \<open>A packet of the header \<open>d\<close> with the data \<open>p'\<close> and the checksum of \<open>p\<close>.\<close>

definition slp_frame :: "pi_slp_data \<Rightarrow> bytes \<Rightarrow> bytes \<Rightarrow> bytes" where
  "slp_frame d p p' = slp_header d (length p) @ p' @ set_short (word_of_int (crc16 (slp_header d (length p) @ p)))"

lemma slp_packet_frame: "slp_packet d p = slp_frame d p p"
  by (simp add: slp_packet_def slp_frame_def Let_def)

lemma decode_frame:
  assumes "sig_split (g @ [0xbe, 0xef]) = None" "length p \<le> len" "length p \<le> 0xffff" "length p' = length p"
  shows "slp_decode len (g @ slp_frame d p p' @ rest) =
     (if slp_crc_ok (word_of_int (slp_type d)) (slp_header d (length p) @ p')
           (word_of_int (crc16 (slp_header d (length p) @ p)))
      then Packet \<lparr>si_dest = word_of_int (slp_dest d), si_src = word_of_int (slp_src d),
             si_type = word_of_int (slp_type d), si_txid = slp_txid d\<rparr> p' rest
      else Bad_crc rest)"
proof -
  define v :: u16 where "v = of_nat (length p)"
  define c :: u16 where "c = word_of_int (crc16 (slp_header d (length p) @ p))"
  let ?h = "[0xbe, 0xef, 0xed, word_of_int (slp_dest d), word_of_int (slp_src d), word_of_int (slp_type d),
      ucast (drop_bit 8 v), ucast v, slp_txid d] :: bytes"
  have v: "unat v = length p" using assms(3) by (simp add: v_def unat_of_nat)
  have h: "slp_header d (length p) = ?h @ [sum_list ?h]"
    by (simp only: slp_header_def Let_def set_short_bytes header_sum v_def append.simps)
  define S where "S = sum_list ?h"
  let ?xs = "p' @ ucast (drop_bit 8 c) # ucast c # rest"
  have f: "slp_frame d p p' @ rest = 0xbe # 0xef # 0xed # ([word_of_int (slp_dest d), word_of_int (slp_src d),
      word_of_int (slp_type d), ucast (drop_bit 8 v), ucast v, slp_txid d, S] @ ?xs)"
    unfolding slp_frame_def c_def[symmetric] unfolding h S_def by (simp add: set_short_bytes)
  have t: "take (length p) ?xs = p'" "drop (length p + 2) ?xs = rest" "?xs ! length p = ucast (drop_bit 8 c)"
    "?xs ! (length p + 1) = ucast c" "length ?xs = length p + 2 + length rest"
    using assms(4) by (simp_all add: nth_append)
  have ss: "sum_list ?h = S" by (simp add: S_def)
  have hh: "slp_header d (length p) @ p' = ?h @ S # p'" unfolding h S_def by simp
  show ?thesis
    unfolding f slp_decode_def sig_split_noise[OF assms(1)] option.case
    unfolding append.simps slp_decode_body.simps(1) Let_def short_join v t ss
    unfolding hh append.simps using assms(2) by (simp only: c_def[symmetric]) simp
qed

lemma decode_packet:
  assumes "sig_split (g @ [0xbe, 0xef]) = None" "length p \<le> len" "length p \<le> 0xffff"
  shows "slp_decode len (g @ slp_packet d p @ rest) =
     Packet \<lparr>si_dest = word_of_int (slp_dest d), si_src = word_of_int (slp_src d),
       si_type = word_of_int (slp_type d), si_txid = slp_txid d\<rparr> p rest"
proof -
  have "uint (word_of_int (crc16 bs) :: u16) = crc16 bs" for bs using crc16_range[of bs] by (simp add: uint_word_of_int)
  then show ?thesis unfolding slp_packet_frame by (simp only: decode_frame[OF assms refl] slp_crc_ok_def) simp
qed

lemma decode_damaged:
  assumes "sig_split (g @ [0xbe, 0xef]) = None" "p = pre @ [a, b] @ post" "length p \<le> len" "length p \<le> 0xffff"
    "(c, d') \<noteq> (a, b)" "word_of_int (slp_type d) \<noteq> (3 :: u8)"
  shows "slp_decode len (g @ slp_frame d p (pre @ [c, d'] @ post) @ rest) = Bad_crc rest"
proof -
  let ?h = "slp_header d (length p)"
  have "crc16 ((?h @ pre) @ [c, d'] @ post) \<noteq> crc16 ((?h @ pre) @ [a, b] @ post)"
    using assms(5) unfolding crc16_detects by simp
  moreover have "uint (word_of_int (crc16 bs) :: u16) = crc16 bs" for bs using crc16_range[of bs] by (simp add: uint_word_of_int)
  ultimately have "\<not> slp_crc_ok (word_of_int (slp_type d)) (?h @ pre @ [c, d'] @ post) (word_of_int (crc16 (?h @ p)))"
    using assms(2,6) by (simp add: slp_crc_ok_def)
  moreover have "length (pre @ [c, d'] @ post) = length p" using assms(2) by simp
  ultimately show ?thesis by (simp only: decode_frame[OF assms(1,3,4)] if_False)
qed

section \<open>Properties\<close>

text \<open>A socket on a port with the waiting bytes \<open>bs\<close>.\<close>

definition port_sock :: "bytes \<Rightarrow> 'p \<Rightarrow> 'p wire psock" where
  "port_sock bs p =
     \<lparr>sk_world = \<lparr>pt_os = \<lparr>wi_in = bs, wi_peer = p\<rparr>,
        pt_serial = \<lparr>sd_buf = replicate 256 0, sd_buf_size = 0, sd_rate = 9600, sd_establishrate = -1,
           sd_establishhighrate = -1, sd_timeout = 1000, sd_rx_bytes = 0, sd_rx_errors = 0, sd_tx_bytes = 0, sd_tx_errors = 0\<rparr>,
        pt_state = PI_SOCK_CONN_ACCEPT, pt_command = 0, pt_slp = slp_protocol_data,
        pt_padp = \<lparr>padp_type = 1, padp_last_type = -1, padp_freeze_txid = 0, padp_use_long_format = 0, padp_txid = 0xff,
           padp_next_txid = 0xff, padp_last_ack_txid = 0, padp_last_ack = \<lparr>pd_type = 0, pd_flags = 0, pd_size = 0\<rparr>\<rparr>,
        pt_cmp = \<lparr>cmp_type = 0, cmp_flags = 0, cmp_version = 0, cmp_baudrate = 0\<rparr>,
        pt_net = \<lparr>net_type = 1, net_split_writes = 1, net_write_chunksize = 4096, net_txid = 0\<rparr>, pt_sys_txid = 0\<rparr>,
      sk_last_error = 0, sk_palmos_error = 0, sk_cmp = True, sk_dlpversion = 0, sk_maxrecsize = 0,
      sk_dlprecord = 0, sk_honor_rx_to = 1, sk_ended = False\<rparr>"

lemma port_sock_simps [simp]:
  "wi_in (os_of (port_sock bs p)) = bs" "sd_buf_size (serial_of (port_sock bs p)) = 0"
  "slp_of (port_sock bs p) = slp_protocol_data" "wi_peer (os_of (port_sock bs p)) = p"
  "sd_timeout (serial_of (port_sock bs p)) = 1000"
  by (simp_all add: port_sock_def port_defs)

text \<open>C9: on a serial port that delivers its input in pieces of any size, \<open>slp_rx\<close> is a decoder of the
  waiting bytes: what it returns, what it appends to the caller's buffer and what it leaves on the
  port is what \<open>slp_decode\<close> says of them; without enough bytes it ends in an error, or waits for
  ever when no time limit is set.\<close>

theorem slp_rx_refines_decoder:
  assumes "all_alloc env" "sd_buf_size (serial_of s) = 0" "pi_buffer_wf buf" "fl \<noteq> PI_MSG_PEEK" "len < 2 ^ 31"
  shows "slp_delivers wire_pending (wire_ok env (wi_peer (os_of s), sd_timeout (serial_of s))) s buf (slp_decode len (wi_in (os_of s)))
     (slp_rx env (pi_serial_protocol (wire_os grain peer) env) s buf len fl)"
  using serial_link.rx_decode[of 0 env "(wi_peer (os_of s), sd_timeout (serial_of s))" s buf fl len env grain peer] assms
  by (simp add: serial_link.good_def serial_link.pend_def wire_ok_def wire_pending_def)

theorem slp_rx_refines_decoder_witness:
  "slp_delivers wire_pending (wire_ok calloc_env ((), 1000)) (port_sock [1, 2, 3] ()) (buf_of []) Starved
     (slp_rx calloc_env (pi_serial_protocol (wire_os (\<lambda>_. 2) (\<lambda>p _. (p, []))) calloc_env) (port_sock [1, 2, 3] ()) (buf_of []) 100 0)"
  using slp_rx_refines_decoder[of calloc_env "port_sock [1, 2, 3] ()" "buf_of []" 0 100 "\<lambda>_. 2" "\<lambda>p _. (p, [])"]
  by (simp add: PI_MSG_PEEK_def slp_decode_def)

text \<open>C10: what \<open>slp_tx\<close> hands to the port, behind any noise in which no signature begins and before
  any other bytes, is delivered by \<open>slp_rx\<close>: the data are appended to the buffer, the result is their
  length, the addresses, the type and the transaction are remembered, and the bytes behind the
  packet stay on the port.\<close>

theorem slp_roundtrip:
  assumes "all_alloc env" "length p \<le> PI_SLP_MTU" "length p \<le> len" "len < 2 ^ 31"
    "sig_split (noise @ [0xbe, 0xef]) = None"
    "wi_in (os_of s) = noise @ slp_packet (slp_of s') p @ rest" "sd_buf_size (serial_of s) = 0"
    "pi_buffer_wf buf" "fl \<noteq> PI_MSG_PEEK"
  shows "slp_tx env nxt s' p fl' = prot_write nxt s' (slp_packet (slp_of s') p) fl' \<and>
    (\<exists>t buf'. slp_rx env (pi_serial_protocol (wire_os grain peer) env) s buf len fl =
       Some (upd_slp (\<lambda>d. d\<lparr>slp_last_dest := slp_dest (slp_of s') mod 256, slp_last_src := slp_src (slp_of s') mod 256,
               slp_last_type := slp_type (slp_of s') mod 256, slp_last_txid := slp_txid (slp_of s')\<rparr>) t,
             buf', int (length p)) \<and>
       same_stack s t \<and> wi_in (os_of t) = rest \<and> pi_buffer_wf buf' \<and> content buf' = content buf @ p)"
proof -
  have "length p \<le> 0xffff" using assms(2) by (simp add: PI_SLP_MTU_def)
  note dec = decode_packet[OF assms(5,3) this, of "slp_of s'" rest]
  have "slp_delivers wire_pending (wire_ok env (wi_peer (os_of s), sd_timeout (serial_of s))) s buf (slp_decode len (wi_in (os_of s)))
     (slp_rx env (pi_serial_protocol (wire_os grain peer) env) s buf len fl)"
    using serial_link.rx_decode[of 0 env "(wi_peer (os_of s), sd_timeout (serial_of s))" s buf fl len env grain peer] assms
    by (simp add: serial_link.good_def serial_link.pend_def wire_ok_def wire_pending_def)
  then show ?thesis
    unfolding assms(6) dec slp_delivers_def using slp_tx_packet[OF assms(1,2)]
    by (auto simp: Let_def wire_ok_def wire_pending_def received_def[abs_def] uint_word_of_int)
qed

theorem slp_roundtrip_witness:
  "\<exists>t buf. slp_rx calloc_env (pi_serial_protocol (wire_os (\<lambda>_. 2) (\<lambda>p _. (p, []))) calloc_env)
      (port_sock ([0xbe, 0xbe, 0xef] @ slp_packet slp_protocol_data [7, 8, 9] @ [1]) ()) (buf_of []) 100 0 = Some (t, buf, 3) \<and>
    content buf = [7, 8, 9]"
  using slp_roundtrip[of calloc_env "[7, 8, 9]" 100 "[0xbe, 0xbe, 0xef]"
      "port_sock ([0xbe, 0xbe, 0xef] @ slp_packet slp_protocol_data [7, 8, 9] @ [1]) ()" "port_sock [] ()" "[1]" "buf_of []" 0]
  by (fastforce simp: PI_MSG_PEEK_def PI_SLP_MTU_def)

text \<open>C11: a packet of which two adjacent bytes of data were damaged on the way is not delivered:
  \<open>slp_rx\<close> returns 0 and leaves the buffer as it was, unless the packet is of the loopback type.\<close>

theorem slp_damage_refused:
  assumes "all_alloc env" "sd_buf_size (serial_of s) = 0" "pi_buffer_wf buf" "fl \<noteq> PI_MSG_PEEK" "len < 2 ^ 31"
    "p = pre @ [a, b] @ post" "(c, d') \<noteq> (a, b)" "length p \<le> len" "length p \<le> 0xffff"
    "word_of_int (slp_type d) \<noteq> (3 :: u8)" "sig_split (noise @ [0xbe, 0xef]) = None"
    "wi_in (os_of s) = noise @ slp_frame d p (pre @ [c, d'] @ post) @ rest"
  shows "\<exists>t. slp_rx env (pi_serial_protocol (wire_os grain peer) env) s buf len fl = Some (t, buf, 0) \<and>
    same_stack s t \<and> wi_in (os_of t) = rest"
proof -
  have "slp_delivers wire_pending (wire_ok env (wi_peer (os_of s), sd_timeout (serial_of s))) s buf (slp_decode len (wi_in (os_of s)))
     (slp_rx env (pi_serial_protocol (wire_os grain peer) env) s buf len fl)"
    using serial_link.rx_decode[of 0 env "(wi_peer (os_of s), sd_timeout (serial_of s))" s buf fl len env grain peer] assms(1-5)
    by (simp add: serial_link.good_def serial_link.pend_def wire_ok_def wire_pending_def)
  then show ?thesis
    unfolding assms(12) decode_damaged[OF assms(11,6,8,9,7,10)] slp_delivers_def
    by (auto simp: Let_def wire_ok_def wire_pending_def)
qed

theorem slp_damage_refused_witness:
  "\<exists>t. slp_rx calloc_env (pi_serial_protocol (wire_os (\<lambda>_. 5) (\<lambda>p _. (p, []))) calloc_env)
      (port_sock ([4] @ slp_frame slp_protocol_data [7, 8, 9] [7, 8, 10] @ []) ()) (buf_of []) 100 0 = Some (t, buf_of [], 0)"
proof -
  have "\<exists>t. slp_rx calloc_env (pi_serial_protocol (wire_os (\<lambda>_. 5) (\<lambda>p _. (p, []))) calloc_env)
      (port_sock ([4] @ slp_frame slp_protocol_data [7, 8, 9] [7, 8, 10] @ []) ()) (buf_of []) 100 0 = Some (t, buf_of [], 0) \<and>
    same_stack (port_sock ([4] @ slp_frame slp_protocol_data [7, 8, 9] [7, 8, 10] @ []) ()) t \<and> wi_in (os_of t) = []"
    by (rule slp_damage_refused[where p = "[7, 8, 9]" and pre = "[7]" and a = 8 and b = 9 and c = 8 and d' = 10 and post = "[]"
          and noise = "[4]" and d = slp_protocol_data])
      (simp_all add: PI_MSG_PEEK_def slp_protocol_data_def PI_SLP_TYPE_PADP_def del: append_Nil2)
  then show ?thesis by (elim exE conjE) (rule exI)
qed

end
