(* ===== verification/Padp.thy ===== *)
theory Padp
  imports SlpLink
begin

text \<open>
  The packet assembly and disassembly protocol, \<open>libpisock/padp.c\<close>: a message is cut into packets
  of 1024 bytes, each acknowledged before the next is sent and repeated ten times at most. The
  protocol below (\<open>nxt\<close>), the options it sets on it and on the device, and the clock are those of
  the socket. None is an access outside an object, or a loop that does not end.
\<close>

definition PI_PADP_HEADER_LEN :: nat where "PI_PADP_HEADER_LEN = 4"
definition PI_PADP_MTU :: nat where "PI_PADP_MTU = 1024"
definition PI_PADP_OFFSET_TYPE :: nat where "PI_PADP_OFFSET_TYPE = 0"
definition PI_PADP_OFFSET_FLGS :: nat where "PI_PADP_OFFSET_FLGS = 1"
definition PI_PADP_OFFSET_SIZE :: nat where "PI_PADP_OFFSET_SIZE = 2"
definition padData :: int where "padData = 0x01"
definition padAck :: int where "padAck = 0x02"
definition padTickle :: int where "padTickle = 0x04"
definition padWake :: int where "padWake = 0x101"
definition PADP_FL_FIRST :: u8 where "PADP_FL_FIRST = 0x80"
definition PADP_FL_LAST :: u8 where "PADP_FL_LAST = 0x40"
definition PADP_FL_MEMERROR :: u8 where "PADP_FL_MEMERROR = 0x20"
definition PADP_FL_LONG :: u8 where "PADP_FL_LONG = 0x10"
definition PI_PADP_TX_TIMEOUT :: int where "PI_PADP_TX_TIMEOUT = 2 * 1000"
definition PI_PADP_TX_RETRIES :: nat where "PI_PADP_TX_RETRIES = 10"
definition PI_PADP_RX_BLOCK_TO :: int where "PI_PADP_RX_BLOCK_TO = 30 * 1000"
definition PI_PADP_RX_SEGMENT_TO :: int where "PI_PADP_RX_SEGMENT_TO = 30 * 1000"

lemmas padp_const_defs = PI_PADP_HEADER_LEN_def PI_PADP_MTU_def PI_PADP_OFFSET_TYPE_def PI_PADP_OFFSET_FLGS_def
  PI_PADP_OFFSET_SIZE_def padData_def padAck_def padTickle_def padWake_def PADP_FL_FIRST_def PADP_FL_LAST_def
  PADP_FL_MEMERROR_def PADP_FL_LONG_def

text \<open>The data of a new protocol; the acknowledgement remembered is not initialised.\<close>

definition padp_protocol_data :: "u8 \<Rightarrow> padp \<Rightarrow> pi_padp_data" where
  "padp_protocol_data junk_txid junk_ack = \<lparr>padp_type = padData, padp_last_type = -1, padp_freeze_txid = 0,
     padp_use_long_format = 0, padp_txid = 0xff, padp_next_txid = 0xff, padp_last_ack_txid = junk_txid,
     padp_last_ack = junk_ack\<rparr>"

definition is_long :: "u8 \<Rightarrow> bool" where
  "is_long flags \<longleftrightarrow> flags AND PADP_FL_LONG \<noteq> 0"

text \<open>The header of a packet in a block.\<close>

definition padp_parse :: "bytes \<Rightarrow> padp option" where
  "padp_parse d = do {
     type \<leftarrow> get_byte d PI_PADP_OFFSET_TYPE;
     flags \<leftarrow> get_byte d PI_PADP_OFFSET_FLGS;
     size \<leftarrow> (if is_long flags then map_option (\<lambda>l. to_int (uint l)) (get_long d PI_PADP_OFFSET_SIZE)
             else map_option uint (get_short d PI_PADP_OFFSET_SIZE));
     Some \<lparr>pd_type = type, pd_flags = flags, pd_size = size\<rparr> }"

text \<open>The options set on the link before a packet is sent.\<close>

definition padp_address :: "u8 \<Rightarrow> 'o psock \<Rightarrow> 'o psock" where
  "padp_address txid sk =
     (let sk = fst (slp_setsockopt sk PI_SLP_TYPE PI_SLP_TYPE_PADP 4);
          sk = fst (slp_setsockopt sk PI_SLP_DEST PI_SLP_SOCK_DLP 4);
          sk = fst (slp_setsockopt sk PI_SLP_SRC PI_SLP_SOCK_DLP 4)
      in fst (slp_setsockopt sk PI_SLP_TXID (uint txid) 1))"

section \<open>Acknowledging\<close>

definition padp_ack_bytes :: "padp \<Rightarrow> bytes" where
  "padp_ack_bytes p =
     set_byte (word_of_int padAck) @ set_byte (pd_flags p) @
     (if is_long (pd_flags p) then set_long (word_of_int (pd_size p)) else set_short (word_of_int (pd_size p)))"

definition padp_sendack :: "'o pi_protocol \<Rightarrow> 'o psock \<Rightarrow> u8 \<Rightarrow> padp \<Rightarrow> int \<Rightarrow> ('o psock \<times> int) option" where
  "padp_sendack nxt sk txid p flags = do {
     (sk, result) \<leftarrow> prot_write nxt (padp_address txid sk) (padp_ack_bytes p) flags;
     let sk = (if result \<ge> 0
               then upd_padp (\<lambda>d. d\<lparr>padp_last_ack_txid := txid, padp_last_ack := p\<rparr>) sk
               else sk);
     Some (sk, result) }"

section \<open>Sending\<close>

datatype tx_result = Tx_done int | Tx_ack | Tx_tickle | Tx_again | Tx_exhausted | Tx_disconnected

text \<open>Building a packet in the block \<open>d\<close>: \<open>fl\<close> is not 0 in the first packet of a message, \<open>len\<close>
  the bytes still to be sent, \<open>count\<close> those sent before.\<close>

definition padp_header :: "pi_padp_data \<Rightarrow> u8 \<Rightarrow> nat \<Rightarrow> nat \<Rightarrow> int \<Rightarrow> bytes" where
  "padp_header pd fl len tlen count =
     (let long = padp_use_long_format pd \<noteq> 0; size = (if fl \<noteq> 0 then int len else count) in
      set_byte (word_of_int (padp_type pd)) @
      set_byte (fl OR (if len = tlen then PADP_FL_LAST else 0) OR (if long then PADP_FL_LONG else 0)) @
      (if long then set_long (word_of_int size) else set_short (word_of_int size)))"

definition padp_build :: "pi_padp_data \<Rightarrow> u8 \<Rightarrow> bytes \<Rightarrow> int \<Rightarrow> bytes \<Rightarrow> (bytes \<times> bytes) option" where
  "padp_build pd fl buf count d = do {
     let len = length buf;
     let tlen = (if len > PI_PADP_MTU then PI_PADP_MTU else len);
     let header_size = (if padp_use_long_format pd \<noteq> 0 then PI_PADP_HEADER_LEN + 2 else PI_PADP_HEADER_LEN);
     d \<leftarrow> poke d PI_PADP_OFFSET_TYPE (padp_header pd fl len tlen count);
     d \<leftarrow> poke d header_size (take tlen buf);
     packet \<leftarrow> get_block (header_size + tlen) d 0;
     Some (d, packet) }"

text \<open>The part of \<open>padp_tx\<close> from the label \<open>keepwaiting\<close>: what is read is appended to \<open>padp_buf\<close>, and
  its first packet is looked at.\<close>

partial_function (option) padp_tx_wait ::
  "'o pi_protocol \<Rightarrow> int \<Rightarrow> bool \<Rightarrow> int \<Rightarrow> 'o psock \<Rightarrow> pi_buffer \<Rightarrow> ('o psock \<times> pi_buffer \<times> tx_result) option"
  where
  "padp_tx_wait nxt flags final count sk padp_buf = do {
     (sk, padp_buf, result) \<leftarrow> prot_read nxt sk padp_buf (PI_PADP_HEADER_LEN + 2 + PI_PADP_MTU) flags;
     if result > 0 then do {
       d \<leftarrow> data padp_buf;
       p \<leftarrow> padp_parse d;
       let type = slp_last_type (slp_of sk);
       let txid = slp_last_txid (slp_of sk);
       let pd = padp_of sk;
       let mine = (type = PI_SLP_TYPE_PADP \<and> txid = padp_txid pd);
       if mine \<and> pd_type p = word_of_int padData \<and> final then Some (sk, padp_buf, Tx_done count)
       else if pd_type p = word_of_int padTickle then padp_tx_wait nxt flags final count sk padp_buf
       else if mine \<and> pd_type p = word_of_int padAck then
         Some (sk, padp_buf, if pd_flags p AND PADP_FL_MEMERROR \<noteq> 0 then Tx_done (-1) else Tx_ack)
       else if type = PI_SLP_TYPE_PADP \<and> p = padp_last_ack pd \<and> txid = padp_last_ack_txid pd then do {
         (sk, _) \<leftarrow> padp_sendack nxt sk txid p flags;
         Some (sk, padp_buf, Tx_again) }
       else Some (sk, padp_buf, Tx_done (-1)) }
     else if result = PI_ERR_SOCK_DISCONNECTED then Some (sk, padp_buf, Tx_disconnected)
     else Some (sk, padp_buf, Tx_again) }"

text \<open>The inner loop, with the number of tries left.\<close>

primrec padp_tx_try ::
  "nat \<Rightarrow> 'o pi_protocol \<Rightarrow> int \<Rightarrow> u8 \<Rightarrow> bytes \<Rightarrow> int \<Rightarrow> 'o psock \<Rightarrow> pi_buffer \<Rightarrow>
   ('o psock \<times> pi_buffer \<times> tx_result) option" where
  "padp_tx_try 0 nxt flags fl buf count sk padp_buf = Some (sk, padp_buf, Tx_exhausted)"
| "padp_tx_try (Suc retries) nxt flags fl buf count sk padp_buf = do {
     let tlen = (if length buf > PI_PADP_MTU then PI_PADP_MTU else length buf);
     let sk = padp_address (padp_txid (padp_of sk)) sk;
     let sk = fst (pi_serial_setsockopt sk PI_DEV_TIMEOUT PI_PADP_TX_TIMEOUT 4);
     d \<leftarrow> data padp_buf;
     (d, packet) \<leftarrow> padp_build (padp_of sk) fl buf count d;
     let padp_buf = padp_buf\<lparr>data := Some d, used := 0\<rparr>;
     (sk, result) \<leftarrow> prot_write nxt sk packet flags;
     if result = PI_ERR_SOCK_DISCONNECTED then Some (sk, padp_buf, Tx_disconnected)
     else if padp_type (padp_of sk) = padTickle then Some (sk, padp_buf, Tx_tickle)
     else do {
       (sk, padp_buf, r) \<leftarrow> padp_tx_wait nxt flags (length buf = tlen) (to_int (count + int tlen)) sk padp_buf;
       if r = Tx_again then padp_tx_try retries nxt flags fl buf count sk padp_buf
       else Some (sk, padp_buf, r) } }"

definition padp_tx_broken :: "'o psock \<Rightarrow> 'o psock \<times> int" where
  "padp_tx_broken sk = pi_set_error (set_state PI_SOCK_CONN_BREAK sk) PI_ERR_SOCK_DISCONNECTED"

definition padp_tx_done :: "'o psock \<Rightarrow> int \<Rightarrow> 'o psock \<times> int" where
  "padp_tx_done sk count =
     (if padp_type (padp_of sk) \<noteq> padAck \<and> state_of sk = PI_SOCK_CONN_INIT
      then upd_padp (\<lambda>d. d\<lparr>padp_txid := ucast (padp_next_txid d)\<rparr>) sk else sk, count)"

text \<open>The outer loop, over the packets of the message.\<close>

partial_function (option) padp_tx_loop ::
  "'o pi_protocol \<Rightarrow> int \<Rightarrow> u8 \<Rightarrow> bytes \<Rightarrow> int \<Rightarrow> 'o psock \<Rightarrow> pi_buffer \<Rightarrow> ('o psock \<times> int) option" where
  "padp_tx_loop nxt flags fl buf count sk padp_buf = do {
     let tlen = (if length buf > PI_PADP_MTU then PI_PADP_MTU else length buf);
     (sk, padp_buf, r) \<leftarrow> padp_tx_try PI_PADP_TX_RETRIES nxt flags fl buf count sk padp_buf;
     case r of
       Tx_done c \<Rightarrow> Some (padp_tx_done sk c)
     | Tx_ack \<Rightarrow>
         if length buf - tlen \<noteq> 0
         then padp_tx_loop nxt flags 0 (drop tlen buf) (to_int (count + int tlen)) sk padp_buf
         else Some (padp_tx_done sk (to_int (count + int tlen)))
     | Tx_tickle \<Rightarrow>
         if length buf \<noteq> 0 then padp_tx_loop nxt flags fl buf count sk padp_buf
         else Some (padp_tx_done sk count)
     | _ \<Rightarrow> Some (padp_tx_broken sk) }"

text \<open>The transaction of the message.\<close>

definition padp_tx_txid :: "'o psock \<Rightarrow> 'o psock" where
  "padp_tx_txid sk =
     (let sk = (if padp_type (padp_of sk) = padWake then upd_padp (\<lambda>d. d\<lparr>padp_txid := 0xff\<rparr>) sk else sk);
          pd = padp_of sk;
          sk = (if padp_freeze_txid pd = 0 then
                  (if padp_txid pd = 0 then upd_padp (\<lambda>d. d\<lparr>padp_txid := 0x10\<rparr>) sk
                   else if padp_txid pd \<ge> 0xfe then upd_padp (\<lambda>d. d\<lparr>padp_next_txid := 1\<rparr>) sk
                   else upd_padp (\<lambda>d. d\<lparr>padp_next_txid := ucast (padp_txid d) + 1\<rparr>) sk)
                else sk)
      in if padp_type (padp_of sk) \<noteq> padAck \<and> state_of sk = PI_SOCK_CONN_ACCEPT
         then upd_padp (\<lambda>d. d\<lparr>padp_txid := ucast (padp_next_txid d)\<rparr>) sk
         else sk)"

definition padp_tx :: "heap_env \<Rightarrow> 'o pi_protocol \<Rightarrow> 'o psock \<Rightarrow> bytes \<Rightarrow> int \<Rightarrow> ('o psock \<times> int) option" where
  "padp_tx env nxt sk buf flags =
     (let sk = padp_tx_txid sk in
      case pi_buffer_new env (PI_PADP_HEADER_LEN + 2 + PI_PADP_MTU) of
        None \<Rightarrow> Some (pi_set_error sk PI_ERR_GENERIC_MEMORY)
      | Some padp_buf \<Rightarrow> do {
          sk \<leftarrow> (if is_connected sk then map_option fst (prot_flush nxt sk PI_FLUSH_INPUT) else Some sk);
          padp_tx_loop nxt flags PADP_FL_FIRST buf 0 sk padp_buf })"

section \<open>Receiving\<close>

datatype rx_result = Rx_error int | Rx_memerror | Rx_packet nat nat padp

text \<open>Reading until the header is there: the bytes read and the size of the header.\<close>

partial_function (option) padp_rx_head ::
  "'o pi_protocol \<Rightarrow> int \<Rightarrow> 'o psock \<Rightarrow> pi_buffer \<Rightarrow> nat \<Rightarrow> nat \<Rightarrow> ('o psock \<times> pi_buffer \<times> (int + nat \<times> nat)) option"
  where
  "padp_rx_head nxt flags sk padp_buf total_bytes header_size =
     (if total_bytes < header_size then do {
        (sk, padp_buf, bytes) \<leftarrow> prot_read nxt sk padp_buf (header_size + PI_PADP_MTU - total_bytes) flags;
        if bytes < 0 then Some (sk, padp_buf, Inl bytes)
        else do {
          let total_bytes = total_bytes + nat bytes;
          long \<leftarrow> (if header_size = PI_PADP_HEADER_LEN \<and> total_bytes \<ge> PI_PADP_HEADER_LEN
                  then do { d \<leftarrow> data padp_buf; fl \<leftarrow> get_byte d PI_PADP_OFFSET_FLGS; Some (is_long fl) }
                  else Some False);
          padp_rx_head nxt flags sk padp_buf total_bytes (if long then header_size + 2 else header_size) } }
      else Some (sk, padp_buf, Inr (total_bytes, header_size)))"

definition now :: "'o os \<Rightarrow> 'o psock \<Rightarrow> 'o psock \<times> int" where
  "now os sk = (let (w, t) = os_time os (os_of sk) in (set_os w sk, t))"

text \<open>The two loops that wait for a packet, the first of a message or a later one.\<close>

partial_function (option) padp_rx_await ::
  "'o os \<Rightarrow> 'o pi_protocol \<Rightarrow> int \<Rightarrow> bool \<Rightarrow> int \<Rightarrow> 'o psock \<Rightarrow> pi_buffer \<Rightarrow> ('o psock \<times> pi_buffer \<times> rx_result) option"
  where
  "padp_rx_await os nxt flags first endtime sk padp_buf = do {
     let honor = (sk_honor_rx_to sk \<noteq> 0);
     let (sk, late) = (if honor then let (sk, t) = now os sk in (sk, t > endtime) else (sk, False));
     if late then
       (let (sk, e) = pi_set_error (set_state PI_SOCK_CONN_BREAK sk) PI_ERR_SOCK_DISCONNECTED
        in Some (sk, padp_buf, Rx_error e))
     else do {
       let sk = fst (pi_serial_setsockopt sk PI_DEV_TIMEOUT (if honor then PI_PADP_RX_BLOCK_TO + 2000 else 0) 4);
       (sk, padp_buf, r) \<leftarrow> padp_rx_head nxt flags sk (padp_buf\<lparr>used := 0\<rparr>) 0 PI_PADP_HEADER_LEN;
       case r of
         Inl bytes \<Rightarrow>
           (let (sk, e) = (if first then (sk, bytes) else pi_set_error sk bytes) in Some (sk, padp_buf, Rx_error e))
       | Inr (total_bytes, header_size) \<Rightarrow> do {
           d \<leftarrow> data padp_buf;
           p \<leftarrow> padp_parse d;
           let type = slp_last_type (slp_of sk);
           let txid = slp_last_txid (slp_of sk);
           if pd_flags p AND PADP_FL_MEMERROR \<noteq> 0 then
             (if txid = padp_txid (padp_of sk) then Some (sk, padp_buf, Rx_memerror)
              else padp_rx_await os nxt flags first endtime sk padp_buf)
           else if pd_type p = word_of_int padTickle then
             (let (sk, t) = now os sk
              in padp_rx_await os nxt flags first (t + PI_PADP_RX_BLOCK_TO div 1000) sk padp_buf)
           else if type \<noteq> PI_SLP_TYPE_PADP \<or> pd_type p \<noteq> word_of_int padData \<or> txid \<noteq> padp_txid (padp_of sk) \<or>
                   (pd_flags p AND PADP_FL_FIRST \<noteq> 0) \<noteq> first then
             padp_rx_await os nxt flags first endtime sk padp_buf
           else Some (sk, padp_buf, Rx_packet total_bytes header_size p) } } }"

definition padp_rx_done :: "'o psock \<Rightarrow> pi_buffer \<Rightarrow> int \<Rightarrow> 'o psock \<times> pi_buffer \<times> int" where
  "padp_rx_done sk buf ouroffset = (upd_padp (\<lambda>d. d\<lparr>padp_txid := ucast (padp_next_txid d)\<rparr>) sk, buf, ouroffset)"

text \<open>The loop over the packets of a message; \<open>got\<close>, \<open>hs\<close>, \<open>p\<close> describe the one in \<open>padp_buf\<close>.\<close>

partial_function (option) padp_rx_loop ::
  "'o os \<Rightarrow> heap_env \<Rightarrow> 'o pi_protocol \<Rightarrow> int \<Rightarrow> 'o psock \<Rightarrow> pi_buffer \<Rightarrow> pi_buffer \<Rightarrow> nat \<Rightarrow> nat \<Rightarrow> padp \<Rightarrow> int \<Rightarrow>
   ('o psock \<times> pi_buffer \<times> int) option" where
  "padp_rx_loop os env nxt flags sk buf padp_buf got hs p ouroffset = do {
     (sk, _) \<leftarrow> padp_sendack nxt sk (padp_txid (padp_of sk)) p flags;
     let offset = (if pd_flags p AND PADP_FL_FIRST \<noteq> 0 then 0 else pd_size p);
     let got = got - PI_PADP_HEADER_LEN;
     (buf, ok, ouroffset) \<leftarrow>
       (if offset = ouroffset then do {
          d \<leftarrow> data padp_buf;
          bs \<leftarrow> get_block got d hs;
          (buf, ok) \<leftarrow> pi_buffer_append env buf bs;
          Some (buf, ok, to_int (ouroffset + int got)) }
        else Some (buf, True, ouroffset));
     if \<not> ok then (let (sk, e) = pi_set_error sk PI_ERR_GENERIC_MEMORY in Some (sk, buf, e))
     else if pd_flags p AND PADP_FL_LAST \<noteq> 0 then Some (padp_rx_done sk buf ouroffset)
     else do {
       let (sk, t) = now os sk;
       (sk, padp_buf, r) \<leftarrow> padp_rx_await os nxt flags False (t + PI_PADP_RX_SEGMENT_TO div 1000) sk padp_buf;
       case r of
         Rx_error e \<Rightarrow> Some (sk, buf, e)
       | Rx_memerror \<Rightarrow> Some (padp_rx_done sk buf (-1))
       | Rx_packet got hs p \<Rightarrow> padp_rx_loop os env nxt flags sk buf padp_buf got hs p ouroffset } }"

definition padp_rx_txid :: "'o psock \<Rightarrow> 'o psock" where
  "padp_rx_txid sk =
     (if padp_freeze_txid (padp_of sk) = 0 then
        (if state_of sk = PI_SOCK_CONN_ACCEPT then
           (if padp_txid (padp_of sk) \<ge> 0xfe then upd_padp (\<lambda>d. d\<lparr>padp_next_txid := 1\<rparr>) sk
            else upd_padp (\<lambda>d. d\<lparr>padp_next_txid := ucast (padp_txid d) + 1\<rparr>) sk)
         else upd_padp (\<lambda>d. d\<lparr>padp_next_txid := ucast (padp_txid d)\<rparr>) sk)
      else sk)"

definition padp_rx ::
  "'o os \<Rightarrow> heap_env \<Rightarrow> 'o pi_protocol \<Rightarrow> 'o psock \<Rightarrow> pi_buffer \<Rightarrow> nat \<Rightarrow> int \<Rightarrow> ('o psock \<times> pi_buffer \<times> int) option"
  where
  "padp_rx os env nxt sk buf expect flags =
     (case pi_buffer_new env (PI_PADP_HEADER_LEN + PI_PADP_MTU) of
        None \<Rightarrow> (let (sk, e) = pi_set_error sk PI_ERR_GENERIC_MEMORY in Some (sk, buf, e))
      | Some padp_buf \<Rightarrow> do {
          let (sk, t) = now os (padp_rx_txid sk);
          (sk, padp_buf, r) \<leftarrow> padp_rx_await os nxt flags True (t + PI_PADP_RX_BLOCK_TO div 1000) sk padp_buf;
          case r of
            Rx_error e \<Rightarrow> Some (sk, buf, e)
          | Rx_memerror \<Rightarrow> Some (padp_rx_done sk buf (-1))
          | Rx_packet got hs p \<Rightarrow> do {
              let (sk, t) = now os sk;
              padp_rx_loop os env nxt flags sk buf padp_buf got hs p 0 } })"

definition padp_flush :: "'o pi_protocol \<Rightarrow> 'o psock \<Rightarrow> int \<Rightarrow> ('o psock \<times> int) option" where
  "padp_flush nxt sk flags = prot_flush nxt sk flags"

definition padp_protocol :: "'o os \<Rightarrow> heap_env \<Rightarrow> 'o pi_protocol \<Rightarrow> 'o pi_protocol" where
  "padp_protocol os env nxt = \<lparr>prot_read = padp_rx os env nxt, prot_write = padp_tx env nxt, prot_flush = padp_flush nxt\<rparr>"

section \<open>Options\<close>

datatype padp_option = PI_PADP_TYPE | PI_PADP_LASTTYPE | PI_PADP_FREEZE_TXID | PI_PADP_USE_LONG_FORMAT

definition padp_getsockopt :: "'o psock \<Rightarrow> padp_option \<Rightarrow> nat \<Rightarrow> 'o psock \<times> int option \<times> int" where
  "padp_getsockopt sk name len =
     (if len \<noteq> 4 then (let (sk, e) = pi_set_error sk PI_ERR_GENERIC_ARGUMENT in (sk, None, e))
      else (sk, Some (case name of
                  PI_PADP_TYPE \<Rightarrow> padp_type (padp_of sk)
                | PI_PADP_LASTTYPE \<Rightarrow> padp_last_type (padp_of sk)
                | PI_PADP_FREEZE_TXID \<Rightarrow> padp_freeze_txid (padp_of sk)
                | PI_PADP_USE_LONG_FORMAT \<Rightarrow> padp_use_long_format (padp_of sk)), 0))"

definition padp_setsockopt :: "'o psock \<Rightarrow> padp_option \<Rightarrow> int \<Rightarrow> nat \<Rightarrow> 'o psock \<times> int" where
  "padp_setsockopt sk name v len =
     (if name = PI_PADP_LASTTYPE then (sk, 0)
      else if len \<noteq> 4 then pi_set_error sk PI_ERR_GENERIC_ARGUMENT
      else (upd_padp (\<lambda>d. case name of
                PI_PADP_TYPE \<Rightarrow> d\<lparr>padp_type := v\<rparr>
              | PI_PADP_FREEZE_TXID \<Rightarrow>
                  (let was_frozen = padp_freeze_txid d; d = d\<lparr>padp_freeze_txid := v\<rparr> in
                   if was_frozen \<noteq> 0 \<and> v = 0
                   then (let n = padp_next_txid d + 1 in d\<lparr>padp_next_txid := (if n \<ge> 0xfe then 1 else n)\<rparr>)
                   else d)
              | PI_PADP_USE_LONG_FORMAT \<Rightarrow> d\<lparr>padp_use_long_format := v\<rparr>
              | PI_PADP_LASTTYPE \<Rightarrow> d) sk, 0))"

end
