(* ===== verification/PadpLink.thy ===== *)
theory PadpLink
  imports Padp SlpProps
begin

text \<open>
  The contract of the link below PADP (\<open>packet_link\<close>): packets wait in a queue; a read delivers the
  first; a write is recorded, and the device at the other end answers it with packets. The lemmas
  proved from it say what PADP sends and what it delivers. The contract is interpreted on the
  serial link protocol over the serial port.
\<close>

type_synonym packet = "slp_info \<times> bytes"

definition info_of :: "pi_slp_data \<Rightarrow> slp_info" where
  "info_of d = \<lparr>si_dest = word_of_int (slp_dest d), si_src = word_of_int (slp_src d),
     si_type = word_of_int (slp_type d), si_txid = slp_txid d\<rparr>"

section \<open>The contract\<close>

locale packet_link =
  fixes nxt :: "'o pi_protocol" and os :: "'o os"
    and waits :: "'o \<Rightarrow> pi_serial_data \<Rightarrow> packet list \<Rightarrow> bool"
    and sent :: "'o \<Rightarrow> packet list" and dev :: "'o \<Rightarrow> 'p"
    and react :: "'p \<Rightarrow> slp_info \<Rightarrow> bytes \<Rightarrow> 'p \<times> packet list"
  assumes read_law:
      "waits (os_of s) (serial_of s) ((i, b) # ps) \<Longrightarrow> pi_buffer_wf buf \<Longrightarrow> fl \<noteq> PI_MSG_PEEK \<Longrightarrow>
       length b \<le> n \<Longrightarrow> n < 2 ^ 31 \<Longrightarrow>
       \<exists>t buf'. prot_read nxt s buf n fl = Some (upd_slp (received i) t, buf', int (length b)) \<and> same_stack s t \<and>
         waits (os_of t) (serial_of t) ps \<and> sent (os_of t) = sent (os_of s) \<and> dev (os_of t) = dev (os_of s) \<and>
         sd_timeout (serial_of t) = sd_timeout (serial_of s) \<and>
         pi_buffer_wf buf' \<and> content buf' = content buf @ b \<and> allocated buf \<le> allocated buf'"
    and empty_law:
      "waits (os_of s) (serial_of s) [] \<Longrightarrow> pi_buffer_wf buf \<Longrightarrow> fl \<noteq> PI_MSG_PEEK \<Longrightarrow> sd_timeout (serial_of s) \<noteq> 0 \<Longrightarrow>
       n < 2 ^ 31 \<Longrightarrow>
       \<exists>t. prot_read nxt s buf n fl = Some (fst (pi_set_error t PI_ERR_SOCK_TIMEOUT), buf, PI_ERR_SOCK_TIMEOUT) \<and>
         same_stack s t \<and> waits (os_of t) (serial_of t) [] \<and> sent (os_of t) = sent (os_of s) \<and> dev (os_of t) = dev (os_of s) \<and>
         sd_timeout (serial_of t) = sd_timeout (serial_of s)"
    and write_law:
      "waits (os_of s) (serial_of s) ps \<Longrightarrow> length b \<le> 0xffff \<Longrightarrow>
       \<forall>(j, c) \<in> set (snd (react (dev (os_of s)) (info_of (slp_of s)) b)). length c \<le> 0xffff \<Longrightarrow>
       \<exists>t r. prot_write nxt s b fl = Some (t, r) \<and> 0 \<le> r \<and> same_stack s t \<and>
         waits (os_of t) (serial_of t) (ps @ snd (react (dev (os_of s)) (info_of (slp_of s)) b)) \<and>
         dev (os_of t) = fst (react (dev (os_of s)) (info_of (slp_of s)) b) \<and>
         sent (os_of t) = sent (os_of s) @ [(info_of (slp_of s), b)] \<and>
         sd_timeout (serial_of t) = sd_timeout (serial_of s)"
    and flush_law:
      "waits (os_of s) (serial_of s) ps \<Longrightarrow>
       \<exists>t r. prot_flush nxt s PI_FLUSH_INPUT = Some (t, r) \<and> same_stack s t \<and> waits (os_of t) (serial_of t) ps \<and>
         sent (os_of t) = sent (os_of s) \<and> dev (os_of t) = dev (os_of s)"
    and timeout_law: "waits w d ps \<Longrightarrow> waits w (d\<lparr>sd_timeout := v\<rparr>) ps"
    and clock_law: "os_time os w = (w, 0)"

section \<open>Interpretation on the serial link\<close>

text \<open>The wire image of a packet, and a device that speaks in packets: it decodes what is written,
  keeps a record of it, and sends its answers.\<close>

definition data_of :: "slp_info \<Rightarrow> pi_slp_data" where
  "data_of i = \<lparr>slp_dest = uint (si_dest i), slp_last_dest = 0, slp_src = uint (si_src i), slp_last_src = 0,
     slp_type = uint (si_type i), slp_last_type = 0, slp_txid = si_txid i, slp_last_txid = 0\<rparr>"

definition encode :: "packet \<Rightarrow> bytes" where
  "encode p = slp_packet (data_of (fst p)) (snd p)"

definition packet_peer ::
  "('p \<Rightarrow> slp_info \<Rightarrow> bytes \<Rightarrow> 'p \<times> packet list) \<Rightarrow> 'p \<times> packet list \<Rightarrow> bytes \<Rightarrow> ('p \<times> packet list) \<times> bytes" where
  "packet_peer react pl raw =
     (case slp_decode 0xffff raw of
        Packet i b _ \<Rightarrow> (let (p, answer) = react (fst pl) i b in ((p, snd pl @ [(i, b)]), concat (map encode answer)))
      | _ \<Rightarrow> (pl, []))"

definition packet_os :: "(nat \<Rightarrow> nat) \<Rightarrow> ('p \<Rightarrow> slp_info \<Rightarrow> bytes \<Rightarrow> 'p \<times> packet list) \<Rightarrow> ('p \<times> packet list) wire os" where
  "packet_os grain react = wire_os grain (packet_peer react)"

definition serial_stack ::
  "(nat \<Rightarrow> nat) \<Rightarrow> ('p \<Rightarrow> slp_info \<Rightarrow> bytes \<Rightarrow> 'p \<times> packet list) \<Rightarrow> heap_env \<Rightarrow> ('p \<times> packet list) wire pi_protocol" where
  "serial_stack grain react env = slp_protocol env (pi_serial_protocol (packet_os grain react) env)"

definition packets_wait :: "heap_env \<Rightarrow> ('p \<times> packet list) wire \<Rightarrow> pi_serial_data \<Rightarrow> packet list \<Rightarrow> bool" where
  "packets_wait env w d ps \<longleftrightarrow> wire_ok env (wi_peer w, sd_timeout d) w d \<and> wi_in w = concat (map encode ps) \<and> (\<forall>(i, b) \<in> set ps. length b \<le> 0xffff)"

definition packets_sent :: "('p \<times> packet list) wire \<Rightarrow> packet list" where "packets_sent w = snd (wi_peer w)"
definition device_state :: "('p \<times> packet list) wire \<Rightarrow> 'p" where "device_state w = fst (wi_peer w)"

lemma slp_packet_info: "slp_packet d p = encode (info_of d, p)"
  by (simp add: encode_def slp_packet_def slp_header_def Let_def data_of_def info_of_def)

lemma decode_encode:
  assumes "length b \<le> len" "length b \<le> 0xffff"
  shows "slp_decode len (encode (i, b) @ rest) = Packet i b rest"
  using decode_packet[of "[]" b len "data_of i" rest] assms
  by (simp add: encode_def data_of_def)

lemma stack_read:
  assumes "packets_wait env (os_of s) (serial_of s) ((i, b) # ps)" "pi_buffer_wf buf" "fl \<noteq> PI_MSG_PEEK"
    "length b \<le> n" "n < 2 ^ 31"
  shows "\<exists>t buf'. prot_read (serial_stack grain react env) s buf n fl = Some (upd_slp (received i) t, buf', int (length b)) \<and>
     same_stack s t \<and> packets_wait env (os_of t) (serial_of t) ps \<and> packets_sent (os_of t) = packets_sent (os_of s) \<and>
     device_state (os_of t) = device_state (os_of s) \<and> sd_timeout (serial_of t) = sd_timeout (serial_of s) \<and>
     pi_buffer_wf buf' \<and> content buf' = content buf @ b \<and> allocated buf \<le> allocated buf'"
proof -
  let ?keep = "(wi_peer (os_of s), sd_timeout (serial_of s))"
  have w: "wire_ok env ?keep (os_of s) (serial_of s)" "wi_in (os_of s) = encode (i, b) @ concat (map encode ps)"
    "length b \<le> 0xffff" "\<forall>(i, b) \<in> set ps. length b \<le> 0xffff" "all_alloc env"
    using assms(1) by (auto simp: packets_wait_def wire_ok_def)
  have "slp_delivers wire_pending (wire_ok env ?keep) s buf (slp_decode n (wi_in (os_of s)))
      (slp_rx env (pi_serial_protocol (packet_os grain react) env) s buf n fl)"
    using serial_link.rx_decode[of 0 env ?keep s buf fl n env grain "packet_peer react"] w assms
    by (simp add: serial_link.good_def serial_link.pend_def wire_ok_def wire_pending_def packet_os_def)
  then obtain t buf' where "slp_rx env (pi_serial_protocol (packet_os grain react) env) s buf n fl =
      Some (upd_slp (received i) t, buf', int (length b))" "same_stack s t" "wire_ok env ?keep (os_of t) (serial_of t)"
    "wi_in (os_of t) = concat (map encode ps)" "pi_buffer_wf buf'" "content buf' = content buf @ b" "allocated buf \<le> allocated buf'"
    unfolding w(2) decode_encode[OF assms(4) w(3)] by (auto simp: slp_delivers_def Let_def wire_ok_def wire_pending_def)
  then show ?thesis
    using w(4) by (intro exI[of _ t] exI[of _ buf'])
      (auto simp: serial_stack_def slp_protocol_def packets_wait_def wire_ok_def packets_sent_def device_state_def)
qed

lemma stack_read_empty:
  assumes "packets_wait env (os_of s) (serial_of s) []" "fl \<noteq> PI_MSG_PEEK" "sd_timeout (serial_of s) \<noteq> 0"
  shows "\<exists>t. prot_read (serial_stack grain react env) s buf n fl = Some (fst (pi_set_error t PI_ERR_SOCK_TIMEOUT), buf, PI_ERR_SOCK_TIMEOUT) \<and>
     same_stack s t \<and> packets_wait env (os_of t) (serial_of t) [] \<and> packets_sent (os_of t) = packets_sent (os_of s) \<and>
     device_state (os_of t) = device_state (os_of s) \<and> sd_timeout (serial_of t) = sd_timeout (serial_of s)"
proof -
  have w: "wi_in (os_of s) = []" "all_alloc env" "sd_buf_size (serial_of s) = 0"
    using assms(1) by (auto simp: packets_wait_def wire_ok_def)
  let ?t = "set_os (os_of s) s"
  obtain b where b: "pi_buffer_new env (PI_SLP_HEADER_LEN + PI_SLP_MTU + PI_SLP_FOOTER_LEN) = Some b"
    using w(2) by (simp add: pi_buffer_new_def malloc_def Let_def)
  have rd: "s_read (packet_os grain react) env s b 3 fl = Some (fst (pi_set_error ?t PI_ERR_SOCK_TIMEOUT), b, PI_ERR_SOCK_TIMEOUT)"
    using w assms(3) by (simp add: s_read_def s_read_fd_def packet_os_def wire_os_def pi_set_error_def)
  have neg: "PI_ERR_SOCK_TIMEOUT < 0" by (simp add: PI_ERR_SOCK_TIMEOUT_def)
  have "slp_read (pi_serial_protocol (packet_os grain react) env) s b 3 fl =
      Some (fst (pi_set_error ?t PI_ERR_SOCK_TIMEOUT), b, PI_ERR_SOCK_TIMEOUT)"
    by (subst slp_read.simps) (simp add: pi_serial_protocol_def rd neg)
  then have "prot_read (serial_stack grain react env) s buf n fl = Some (fst (pi_set_error ?t PI_ERR_SOCK_TIMEOUT), buf, PI_ERR_SOCK_TIMEOUT)"
    by (simp add: serial_stack_def slp_protocol_def slp_rx_def b) (subst slp_rx_loop.simps, simp add: slp_rx_switch_def neg)
  then show ?thesis
    using assms(1) by (intro exI[of _ ?t]) (simp add: same_stack_set)
qed

lemma encode_pos: "0 < length (encode p)"
  by (simp add: encode_def slp_packet_def Let_def slp_header_length)

lemma stack_write:
  assumes "packets_wait env (os_of s) (serial_of s) ps" "length b \<le> 0xffff"
    "\<forall>(j, c) \<in> set (snd (react (device_state (os_of s)) (info_of (slp_of s)) b)). length c \<le> 0xffff"
  shows "\<exists>t r. prot_write (serial_stack grain react env) s b fl = Some (t, r) \<and> 0 \<le> r \<and> same_stack s t \<and>
     packets_wait env (os_of t) (serial_of t) (ps @ snd (react (device_state (os_of s)) (info_of (slp_of s)) b)) \<and>
     device_state (os_of t) = fst (react (device_state (os_of s)) (info_of (slp_of s)) b) \<and>
     packets_sent (os_of t) = packets_sent (os_of s) @ [(info_of (slp_of s), b)] \<and>
     sd_timeout (serial_of t) = sd_timeout (serial_of s)"
proof -
  let ?i = "info_of (slp_of s)" and ?w = "os_of s"
  let ?e = "encode (?i, b)"
  obtain p ans where r: "react (device_state ?w) ?i b = (p, ans)" by fastforce
  let ?w' = "\<lparr>wi_in = wi_in ?w @ concat (map encode ans), wi_peer = (p, packets_sent ?w @ [(?i, b)])\<rparr>"
  let ?t = "set_os ?w' (set_os ?w s)"
  let ?t' = "upd_serial (\<lambda>d. d\<lparr>sd_tx_bytes := to_int (sd_tx_bytes d + int (length ?e))\<rparr>) ?t"
  have w: "all_alloc env" "sd_buf_size (serial_of s) = 0" "wi_in ?w = concat (map encode ps)" "\<forall>(i, b) \<in> set ps. length b \<le> 0xffff"
    using assms(1) by (auto simp: packets_wait_def wire_ok_def)
  have "packet_peer react (wi_peer ?w) ?e = ((p, packets_sent ?w @ [(?i, b)]), concat (map encode ans))"
    using decode_encode[OF assms(2,2), of ?i "[]"] r
    by (simp add: packet_peer_def device_state_def packets_sent_def)
  then have "s_write_loop (packet_os grain react) s ?e (int (length ?e)) = Some (?t, 0)"
    using encode_pos[of "(?i, b)"]
    by (subst s_write_loop.simps) (simp add: packet_os_def wire_os_def, subst s_write_loop.simps, simp)
  then have "prot_write (serial_stack grain react env) s b fl = Some (?t', int (length ?e))"
    using slp_tx_packet[OF w(1), of b "pi_serial_protocol (packet_os grain react) env" s fl] assms(2)
    by (simp add: serial_stack_def slp_protocol_def pi_serial_protocol_def s_write_def slp_packet_info PI_SLP_MTU_def)
  moreover have "same_stack s ?t'"
    by (intro same_stack_trans[OF _ same_stack_set(3)] same_stack_trans[OF _ same_stack_set(2)]) simp
  ultimately show ?thesis
    using w assms(3) r by (intro exI[of _ ?t'] exI[of _ "int (length ?e)"])
      (auto simp: packets_wait_def wire_ok_def device_state_def packets_sent_def)
qed

lemma stack_flush:
  assumes "packets_wait env (os_of s) (serial_of s) ps"
  shows "\<exists>t r. prot_flush (serial_stack grain react env) s PI_FLUSH_INPUT = Some (t, r) \<and> same_stack s t \<and>
     packets_wait env (os_of t) (serial_of t) ps \<and> packets_sent (os_of t) = packets_sent (os_of s) \<and>
     device_state (os_of t) = device_state (os_of s)"
proof -
  obtain t where t: "s_flush (packet_os grain react) s PI_FLUSH_INPUT = Some (t, 0)" "same_stack s t" "os_of t = os_of s"
    "serial_of t = (serial_of s)\<lparr>sd_buf_size := 0\<rparr>" using wire_flush unfolding packet_os_def by blast
  then show ?thesis
    using assms by (intro exI[of _ t] exI[of _ 0])
      (auto simp: serial_stack_def slp_protocol_def slp_flush_def pi_serial_protocol_def packets_wait_def wire_ok_def)
qed

interpretation slp_link: packet_link "serial_stack grain react env" "packet_os grain react" "packets_wait env" packets_sent
    device_state react
  for grain react env
proof (unfold_locales, goal_cases)
  case (1 s i b ps buf fl n) then show ?case by (rule stack_read)
next
  case (2 s buf fl n) then show ?case by (intro stack_read_empty)
next
  case (3 s ps b fl) then show ?case by (rule stack_write)
next
  case (4 s ps) then show ?case by (rule stack_flush)
next
  case (5 w d ps v) then show ?case by (auto simp: packets_wait_def wire_ok_def)
next
  case (6 w) show ?case by (simp add: packet_os_def wire_os_def)
qed

end
