(* ===== verification/PadpProps.thy ===== *)
theory PadpProps
  imports PadpLink
begin

text \<open>
  What PADP does over a link with the contract \<open>packet_link\<close>: the packets a message is sent in, the
  message that is put together from packets, the acknowledgements, and what happens when nothing
  answers.
\<close>

section \<open>Packets of a message\<close>

text \<open>The packets in which \<open>padp_tx\<close> sends a message: pieces of 1024 bytes, the header of the first
  with the length of the message, of the others with their offset.\<close>

function padp_fragments :: "pi_padp_data \<Rightarrow> u8 \<Rightarrow> int \<Rightarrow> bytes \<Rightarrow> bytes list" where
  "padp_fragments pd fl count msg =
     (if length msg > 1024
      then (padp_header pd fl (length msg) 1024 count @ take 1024 msg) #
           padp_fragments pd 0 (count + 1024) (drop 1024 msg)
      else [padp_header pd fl (length msg) (length msg) count @ msg])"
  by auto
termination by (relation "measure (\<lambda>(pd, fl, count, msg). length msg)") auto

declare padp_fragments.simps [simp del]

lemma padp_parse_short:
  "\<not> is_long fl \<Longrightarrow> padp_parse (ty # fl # set_short v @ rest) = Some \<lparr>pd_type = ty, pd_flags = fl, pd_size = uint v\<rparr>"
  by (simp add: padp_parse_def padp_const_defs mem_simps)

lemma padp_parse_long:
  "is_long fl \<Longrightarrow> padp_parse (ty # fl # set_long v @ rest) = Some \<lparr>pd_type = ty, pd_flags = fl, pd_size = to_int (uint v)\<rparr>"
  by (simp add: padp_parse_def padp_const_defs mem_simps)

lemma padp_parse_bytes: "\<not> is_long y \<Longrightarrow> padp_parse (x # y # z # w # rest) =
    Some \<lparr>pd_type = x, pd_flags = y, pd_size = uint (push_bit 8 (ucast z) OR ucast w :: u16)\<rparr>"
  by (simp add: padp_parse_def padp_const_defs mem_simps get_short_def)

lemma padp_parse_shape:
  assumes "padp_parse b = Some h" "4 \<le> length b" "\<not> is_long (pd_flags h)"
  obtains x y z w b' where "b = x # y # z # w # b'" "y = pd_flags h" "\<And>rest. padp_parse (b @ rest) = Some h"
proof -
  obtain x y z w b' where b: "b = x # y # z # w # b'" using assms(2) by (auto simp: Suc_le_length_iff eval_nat_numeral)
  have "y = pd_flags h" using assms(1) by (auto simp: b padp_parse_def padp_const_defs mem_simps bind_eq_Some_conv)
  then show ?thesis using that[of x y z w b'] assms(1,3) by (simp add: b padp_parse_bytes)
qed

text \<open>The flags of a packet.\<close>

definition fragment_flags :: "pi_padp_data \<Rightarrow> u8 \<Rightarrow> bool \<Rightarrow> u8" where
  "fragment_flags pd fl final =
     fl OR (if final then PADP_FL_LAST else 0) OR (if padp_use_long_format pd \<noteq> 0 then PADP_FL_LONG else 0)"

lemma fragment_flags_facts:
  assumes "fl \<in> {0, 0x80}"
  shows "is_long (fragment_flags pd fl final) \<longleftrightarrow> padp_use_long_format pd \<noteq> 0"
    "fragment_flags pd fl final AND PADP_FL_MEMERROR = 0"
    "fragment_flags pd fl final AND PADP_FL_FIRST \<noteq> 0 \<longleftrightarrow> fl \<noteq> 0"
    "fragment_flags pd fl final AND PADP_FL_LAST \<noteq> 0 \<longleftrightarrow> final"
  using assms by (auto simp: fragment_flags_def is_long_def padp_const_defs)

lemma padp_header_bytes:
  "padp_header pd fl len tlen count =
     word_of_int (padp_type pd) # fragment_flags pd fl (len = tlen) #
     (if padp_use_long_format pd \<noteq> 0 then set_long (word_of_int (if fl \<noteq> 0 then int len else count))
      else set_short (word_of_int (if fl \<noteq> 0 then int len else count)))"
  by (simp add: padp_header_def Let_def set_byte_def fragment_flags_def)

lemma padp_header_parse:
  assumes "fl \<in> {0, 0x80}"
  obtains sz where "padp_parse (padp_header pd fl len tlen count @ rest) =
    Some \<lparr>pd_type = word_of_int (padp_type pd), pd_flags = fragment_flags pd fl (len = tlen), pd_size = sz\<rparr>"
  using fragment_flags_facts(1)[OF assms, of pd "len = tlen"]
  by (cases "padp_use_long_format pd \<noteq> 0") (auto simp: padp_header_bytes padp_parse_short padp_parse_long)

lemma padp_header_length: "length (padp_header pd fl len tlen count) = (if padp_use_long_format pd \<noteq> 0 then 6 else 4)"
  by (simp add: padp_header_bytes)

lemma padp_build_packet:
  assumes "1030 \<le> length d"
  shows "\<exists>d'. length d' = length d \<and> padp_build pd fl buf count d =
     Some (d', padp_header pd fl (length buf) (min 1024 (length buf)) count @ take 1024 buf)"
proof -
  define n where "n = min 1024 (length buf)"
  define h where "h = padp_header pd fl (length buf) n count"
  define hs where "hs = (if padp_use_long_format pd \<noteq> 0 then PI_PADP_HEADER_LEN + 2 else PI_PADP_HEADER_LEN)"
  have hl: "length h = hs" by (simp add: h_def hs_def padp_header_length padp_const_defs)
  have n: "(if length buf > PI_PADP_MTU then PI_PADP_MTU else length buf) = n" "n \<le> 1024" "n \<le> length buf"
    "take n buf = take 1024 buf"
    by (cases "1024 \<le> length buf"; auto simp: n_def padp_const_defs min_def)+
  have "hs \<le> 6" by (simp add: hs_def padp_const_defs)
  then have ll: "length h + n \<le> length d" using assms n(2) hl by simp
  then obtain r where r: "poke d 0 h = Some (h @ r)" "length r + length h = length d" by (simp add: poke_def)
  have "poke (h @ r) hs (take n buf) = Some ((h @ take n buf) @ drop n r)"
    using poke_at[of "take n buf" r h] r(2) ll hl n(3) by (simp add: min_def)
  moreover have "get_block (hs + n) ((h @ take n buf) @ drop n r) 0 = Some (h @ take n buf)"
    using n(3) by (intro get_block_here) (simp add: hl)
  ultimately have "padp_build pd fl buf count d = Some ((h @ take n buf) @ drop n r, h @ take n buf)"
    unfolding padp_build_def Let_def n(1) PI_PADP_OFFSET_TYPE_def
    using r(1) by (simp add: h_def hs_def padp_const_defs)
  moreover have "length ((h @ take n buf) @ drop n r) = length d" using r(2) ll n(3) by simp
  ultimately show ?thesis
    unfolding n_def[symmetric] h_def[symmetric] n(4)[symmetric] by blast
qed

section \<open>Acknowledgements\<close>

lemma ack_parse:
  obtains sz where "padp_parse (padp_ack_bytes p @ rest) =
    Some \<lparr>pd_type = 2, pd_flags = pd_flags p, pd_size = sz\<rparr>"
  by (cases "is_long (pd_flags p)") (auto simp: padp_ack_bytes_def set_byte_def padAck_def padp_parse_short padp_parse_long)

lemma ack_length: "length (padp_ack_bytes p) \<le> 6" "0 < length (padp_ack_bytes p)"
  by (simp_all add: padp_ack_bytes_def)

text \<open>A device that acknowledges every packet of data, under the transaction of the packet.\<close>

definition acks :: "('p \<Rightarrow> slp_info \<Rightarrow> bytes \<Rightarrow> 'p \<times> packet list) \<Rightarrow> bool" where
  "acks react \<longleftrightarrow> (\<forall>p i b h. padp_parse b = Some h \<and> pd_type h = 1 \<longrightarrow> snd (react p i b) = [(i, padp_ack_bytes h)])"

text \<open>A tickle, and a device whose answers are never heard: it does not answer, or its answers begin
  with a tickle.\<close>

definition is_tickle :: "bytes \<Rightarrow> bool" where
  "is_tickle b \<longleftrightarrow> 4 \<le> length b \<and> b ! 0 = 4 \<and> \<not> is_long (b ! 1)"

definition unheard :: "('p \<Rightarrow> slp_info \<Rightarrow> bytes \<Rightarrow> 'p \<times> packet list) \<Rightarrow> bool" where
  "unheard react \<longleftrightarrow> (\<forall>p i b. case snd (react p i b) of [] \<Rightarrow> True
     | (j, c) # ps \<Rightarrow> is_tickle c \<and> (\<forall>(k, d) \<in> set ((j, c) # ps). 0 < length d \<and> length d \<le> 1030))"

lemma is_tickle_more: "is_tickle b \<Longrightarrow> is_tickle (b @ c)"
  by (cases b) (auto simp: is_tickle_def nth_append)

lemma is_tickle_parse:
  assumes "is_tickle b"
  obtains h where "padp_parse b = Some h" "pd_type h = 4"
proof -
  obtain x y z w b' where "b = x # y # z # w # b'"
    using assms by (auto simp: is_tickle_def Suc_le_length_iff eval_nat_numeral)
  with assms that show ?thesis by (simp add: is_tickle_def padp_parse_bytes)
qed

lemma unheard_answers:
  assumes "unheard react" "snd (react p i b) = ps"
  shows "\<forall>(j, c) \<in> set ps. 0 < length c \<and> length c \<le> 1030" "ps \<noteq> [] \<Longrightarrow> is_tickle (snd (hd ps))"
proof -
  have "case ps of [] \<Rightarrow> True
     | (j, c) # ps \<Rightarrow> is_tickle c \<and> (\<forall>(k, d) \<in> set ((j, c) # ps). 0 < length d \<and> length d \<le> 1030)"
    using assms unfolding unheard_def by blast
  then show "\<forall>(j, c) \<in> set ps. 0 < length c \<and> length c \<le> 1030" "ps \<noteq> [] \<Longrightarrow> is_tickle (snd (hd ps))"
    by (cases ps; auto)+
qed

text \<open>The address that PADP uses.\<close>

definition padp_info :: "u8 \<Rightarrow> slp_info" where
  "padp_info txid = \<lparr>si_dest = 3, si_src = 3, si_type = 2, si_txid = txid\<rparr>"

text \<open>The acknowledgements of the packets of a message, and a device that goes on with the packets \<open>L\<close>
  when they are acknowledged: after each acknowledgement it sends some of those left, at least one.\<close>

definition acks_of :: "u8 \<Rightarrow> bytes list \<Rightarrow> packet list" where
  "acks_of txid frags = map (\<lambda>b. (padp_info txid, padp_ack_bytes (the (padp_parse b)))) frags"

definition goes_on :: "('p \<Rightarrow> slp_info \<Rightarrow> bytes \<Rightarrow> 'p \<times> packet list) \<Rightarrow> ('p \<Rightarrow> packet list \<Rightarrow> bool) \<Rightarrow> bool" where
  "goes_on react stream \<longleftrightarrow> (\<forall>p i h L. stream p L \<longrightarrow> (let b = padp_ack_bytes h in
     \<exists>L'. L = snd (react p i b) @ L' \<and> stream (fst (react p i b)) L' \<and> (L \<noteq> [] \<longrightarrow> snd (react p i b) \<noteq> [])))"

lemma padp_fragments_nonempty: "padp_fragments pd fl count msg \<noteq> []"
  by (subst padp_fragments.simps) simp

lemma fragment_head:
  "hd (padp_fragments pd fl count msg) = padp_header pd fl (length msg) (min 1024 (length msg)) count @ take 1024 msg"
  by (subst padp_fragments.simps) (simp add: min_def)

text \<open>The PADP data but for the acknowledgement last sent.\<close>

definition same_but_ack :: "pi_padp_data \<Rightarrow> pi_padp_data \<Rightarrow> bool" where
  "same_but_ack d e \<longleftrightarrow> (\<exists>x h. e = d\<lparr>padp_last_ack_txid := x, padp_last_ack := h\<rparr>)"

lemma same_but_ackI: "same_but_ack d (d\<lparr>padp_last_ack_txid := x, padp_last_ack := h\<rparr>)"
  unfolding same_but_ack_def by blast

lemma same_but_ack_trans: "same_but_ack d e \<Longrightarrow> same_but_ack e f \<Longrightarrow> same_but_ack d f"
  unfolding same_but_ack_def by force

lemma address_info: "info_of (slp_of (padp_address txid s)) = padp_info txid"
  by (simp add: padp_address_def Let_def info_of_def padp_info_def slp_const_defs)

lemma address_simps [simp]:
  "os_of (padp_address txid s) = os_of s" "serial_of (padp_address txid s) = serial_of s"
  "padp_of (padp_address txid s) = padp_of s" "state_of (padp_address txid s) = state_of s"
  "cmp_of (padp_address txid s) = cmp_of s"
  by (simp_all add: padp_address_def Let_def)

lemma sock_stays [simp]: "sk_honor_rx_to (upd_slp f s) = sk_honor_rx_to s" "sk_honor_rx_to (upd_serial g s) = sk_honor_rx_to s"
  "sk_honor_rx_to (upd_padp h s) = sk_honor_rx_to s" "sk_honor_rx_to (padp_address txid s) = sk_honor_rx_to s"
  by (simp_all add: port_defs padp_address_def Let_def slp_setsockopt_def slp_option_size_def)

lemma same_stack_honor: "same_stack s s' \<Longrightarrow> sk_honor_rx_to s' = sk_honor_rx_to s"
  by (auto simp: same_stack_def port_defs)

lemma received_simps: "slp_last_type (received i d) = uint (si_type i)" "slp_last_txid (received i d) = si_txid i"
  by (simp_all add: received_def)

section \<open>Sending\<close>

context packet_link
begin

lemma timeout_waits: "waits (os_of s) (serial_of s) ps \<Longrightarrow>
  waits (os_of (upd_serial (\<lambda>d. d\<lparr>sd_timeout := v\<rparr>) s)) (serial_of (upd_serial (\<lambda>d. d\<lparr>sd_timeout := v\<rparr>) s)) ps"
  using timeout_law by simp

lemma wait_acked:
  assumes "waits (os_of s) (serial_of s) [(i, padp_ack_bytes h)]" "pi_buffer_wf buf" "content buf = []" "fl \<noteq> PI_MSG_PEEK"
    "si_type i = 2" "si_txid i = padp_txid (padp_of s)" "pd_flags h AND PADP_FL_MEMERROR = 0"
  shows "\<exists>t buf'. padp_tx_wait nxt fl final count s buf = Some (t, buf', Tx_ack) \<and> padp_of t = padp_of s \<and>
     state_of t = state_of s \<and> cmp_of t = cmp_of s \<and> waits (os_of t) (serial_of t) [] \<and> sent (os_of t) = sent (os_of s) \<and>
     dev (os_of t) = dev (os_of s) \<and> pi_buffer_wf buf' \<and> allocated buf \<le> allocated buf'"
proof -
  obtain t buf' where r: "prot_read nxt s buf 1030 fl = Some (upd_slp (received i) t, buf', int (length (padp_ack_bytes h)))"
    "same_stack s t" "waits (os_of t) (serial_of t) []" "sent (os_of t) = sent (os_of s)" "dev (os_of t) = dev (os_of s)"
    "pi_buffer_wf buf'" "content buf' = padp_ack_bytes h" "allocated buf \<le> allocated buf'"
    using read_law[OF assms(1,2,4), of 1030] ack_length(1)[of h] assms(3) by auto
  obtain ys where d: "data buf' = Some (padp_ack_bytes h @ ys)"
    using content_data[OF r(6,7)] ack_length(2)[of h] by auto
  obtain sz where p: "padp_parse (padp_ack_bytes h @ ys) = Some \<lparr>pd_type = 2, pd_flags = pd_flags h, pd_size = sz\<rparr>"
    using ack_parse by blast
  have st: "padp_of t = padp_of s" "state_of t = state_of s" "cmp_of t = cmp_of s" using same_stackD[OF r(2)] by simp_all
  have "padp_tx_wait nxt fl final count s buf = Some (upd_slp (received i) t, buf', Tx_ack)"
    using ack_length(2)[of h] assms(5-7)
    by (subst padp_tx_wait.simps)
      (simp add: r(1) d p st received_simps PI_PADP_HEADER_LEN_def PI_PADP_MTU_def PI_SLP_TYPE_PADP_def padData_def padTickle_def padAck_def)
  then show ?thesis using r st by (intro exI[of _ "upd_slp (received i) t"] exI[of _ buf']) simp
qed

lemma try_acked:
  assumes acks: "acks react" and w: "waits (os_of s) (serial_of s) []" and ty: "padp_type (padp_of s) = padData"
    and buf: "pi_buffer_wf buf" "1030 \<le> allocated buf" and fl: "fl \<in> {0, 0x80}" "flags \<noteq> PI_MSG_PEEK"
  shows "\<exists>t buf'. padp_tx_try (Suc n) nxt flags fl msg count s buf = Some (t, buf', Tx_ack) \<and> padp_of t = padp_of s \<and>
     state_of t = state_of s \<and> cmp_of t = cmp_of s \<and> waits (os_of t) (serial_of t) [] \<and>
     sent (os_of t) = sent (os_of s) @
       [(padp_info (padp_txid (padp_of s)), padp_header (padp_of s) fl (length msg) (min 1024 (length msg)) count @ take 1024 msg)] \<and>
     pi_buffer_wf buf' \<and> 1030 \<le> allocated buf'"
proof -
  define pd where "pd = padp_of s"
  define tlen where "tlen = min 1024 (length msg)"
  have tlen: "(if length msg > PI_PADP_MTU then PI_PADP_MTU else length msg) = tlen" by (auto simp: tlen_def PI_PADP_MTU_def)
  let ?h = "padp_header pd fl (length msg) tlen count" and ?i = "padp_info (padp_txid pd)"
  let ?packet = "?h @ take 1024 msg"
  define s1 where "s1 = upd_serial (\<lambda>d. d\<lparr>sd_timeout := PI_PADP_TX_TIMEOUT\<rparr>) (padp_address (padp_txid pd) s)"
  have s1: "fst (pi_serial_setsockopt (padp_address (padp_txid pd) s) PI_DEV_TIMEOUT PI_PADP_TX_TIMEOUT 4) = s1"
    "padp_of s1 = pd" "state_of s1 = state_of s" "os_of s1 = os_of s" "info_of (slp_of s1) = ?i"
    "waits (os_of s1) (serial_of s1) []"
    using timeout_waits[of "padp_address (padp_txid pd) s" "[]" PI_PADP_TX_TIMEOUT] w address_info[of "padp_txid pd" s]
    by (simp_all add: s1_def pd_def)
  have cmp1: "cmp_of s1 = cmp_of s" by (simp add: s1_def)
  obtain d where d: "data buf = Some d" "length d = allocated buf"
    using buf by (auto simp: pi_buffer_wf_def split: option.splits)
  obtain d' where b: "padp_build pd fl msg count d = Some (d', ?packet)" "length d' = length d"
    using padp_build_packet[of d pd fl msg count] buf(2) d(2) by (auto simp: tlen_def)
  let ?buf = "buf\<lparr>data := Some d', used := 0\<rparr>"
  have wf: "pi_buffer_wf ?buf" "content ?buf = []" using buf d b(2) by (simp_all add: pi_buffer_wf_def content_def)
  obtain sz where p: "padp_parse ?packet = Some \<lparr>pd_type = 1, pd_flags = fragment_flags pd fl (length msg = tlen), pd_size = sz\<rparr>"
    using padp_header_parse[OF fl(1)] ty by (metis pd_def padData_def word_of_int_1)
  let ?ack = "\<lparr>pd_type = 1, pd_flags = fragment_flags pd fl (length msg = tlen), pd_size = sz\<rparr> :: padp"
  have ans: "snd (react (dev (os_of s1)) (info_of (slp_of s1)) ?packet) = [(?i, padp_ack_bytes ?ack)]"
    using acks p unfolding acks_def s1(5) by fastforce
  have len: "length ?packet \<le> 0xffff" "length (padp_ack_bytes ?ack) \<le> 0xffff"
    using ack_length(1)[of ?ack] by (auto simp: padp_header_length min_def)
  obtain s2 r where w2: "prot_write nxt s1 ?packet flags = Some (s2, r)" "0 \<le> r" "same_stack s1 s2"
    "waits (os_of s2) (serial_of s2) [(?i, padp_ack_bytes ?ack)]" "sent (os_of s2) = sent (os_of s1) @ [(?i, ?packet)]"
    using write_law[OF s1(6) len(1), of flags] ans len(2) s1(5) by auto
  have st2: "padp_of s2 = pd" "state_of s2 = state_of s" "cmp_of s2 = cmp_of s"
    using same_stackD[OF w2(3)] s1(2,3) cmp1 by simp_all
  obtain t buf' where t: "padp_tx_wait nxt flags (length msg = tlen) (to_int (count + int tlen)) s2 ?buf = Some (t, buf', Tx_ack)"
    "padp_of t = pd" "state_of t = state_of s" "waits (os_of t) (serial_of t) []" "sent (os_of t) = sent (os_of s2)"
    "pi_buffer_wf buf'" "allocated buf \<le> allocated buf'" "cmp_of t = cmp_of s"
    using wait_acked[OF w2(4) wf fl(2), of "length msg = tlen" "to_int (count + int tlen)"] fragment_flags_facts(2)[OF fl(1), of pd "length msg = tlen"] st2
    by (auto simp: padp_info_def)
  have nd: "r \<noteq> PI_ERR_SOCK_DISCONNECTED" using w2(2) by (simp add: PI_ERR_SOCK_DISCONNECTED_def)
  have "padp_tx_try (Suc n) nxt flags fl msg count s buf = Some (t, buf', Tx_ack)"
    unfolding padp_tx_try.simps Let_def tlen pd_def[symmetric] s1 d(1) Option.bind.simps b(1) prod.case w2(1)
    using nd ty st2(1) by (simp add: pd_def t(1) padTickle_def padData_def)
  then show ?thesis
    using t w2(5) s1(4) buf(2) by (intro exI[of _ t] exI[of _ buf']) (simp add: pd_def tlen_def)
qed

lemma loop_acked:
  assumes "acks react" "waits (os_of s) (serial_of s) []" "padp_type (padp_of s) = padData"
    "pi_buffer_wf buf" "1030 \<le> allocated buf" "fl \<in> {0, 0x80}" "flags \<noteq> PI_MSG_PEEK" "0 \<le> count" "count + int (length msg) < 2 ^ 31"
  shows "\<exists>t. padp_tx_loop nxt flags fl msg count s buf = Some (padp_tx_done t (count + int (length msg))) \<and>
     padp_of t = padp_of s \<and> state_of t = state_of s \<and> cmp_of t = cmp_of s \<and>
     sent (os_of t) = sent (os_of s) @ map (Pair (padp_info (padp_txid (padp_of s)))) (padp_fragments (padp_of s) fl count msg)"
  using assms
proof (induction "length msg" arbitrary: s buf fl count msg rule: less_induct)
  case less
  define tlen where "tlen = min 1024 (length msg)"
  have tlen: "(if length msg > PI_PADP_MTU then PI_PADP_MTU else length msg) = tlen" by (auto simp: tlen_def PI_PADP_MTU_def)
  obtain t buf' where t: "padp_tx_try PI_PADP_TX_RETRIES nxt flags fl msg count s buf = Some (t, buf', Tx_ack)"
    "padp_of t = padp_of s" "state_of t = state_of s" "waits (os_of t) (serial_of t) []"
    "sent (os_of t) = sent (os_of s) @
       [(padp_info (padp_txid (padp_of s)), padp_header (padp_of s) fl (length msg) (min 1024 (length msg)) count @ take 1024 msg)]"
    "pi_buffer_wf buf'" "1030 \<le> allocated buf'" "cmp_of t = cmp_of s"
    using try_acked[OF less.prems(1-7), of 9 msg count] by (auto simp: PI_PADP_TX_RETRIES_def eval_nat_numeral)
  have ti: "to_int (count + int tlen) = count + int tlen" using less.prems(8,9) by (intro to_int_id) (auto simp: tlen_def)
  show ?case
  proof (cases "length msg > 1024")
    case True
    then have l: "tlen = 1024" by (simp add: tlen_def)
    have "\<exists>t2. padp_tx_loop nxt flags 0 (drop 1024 msg) (count + 1024) t buf' =
        Some (padp_tx_done t2 ((count + 1024) + int (length (drop 1024 msg)))) \<and> padp_of t2 = padp_of t \<and> state_of t2 = state_of t \<and>
      cmp_of t2 = cmp_of t \<and>
      sent (os_of t2) = sent (os_of t) @ map (Pair (padp_info (padp_txid (padp_of t)))) (padp_fragments (padp_of t) 0 (count + 1024) (drop 1024 msg))"
      using less.prems t(2,4,6,7) True by (intro less.hyps) auto
    then obtain t2 where "padp_tx_loop nxt flags 0 (drop 1024 msg) (count + 1024) t buf' =
        Some (padp_tx_done t2 ((count + 1024) + int (length (drop 1024 msg))))" "padp_of t2 = padp_of t" "state_of t2 = state_of t"
      "cmp_of t2 = cmp_of t"
      "sent (os_of t2) = sent (os_of t) @ map (Pair (padp_info (padp_txid (padp_of t)))) (padp_fragments (padp_of t) 0 (count + 1024) (drop 1024 msg))"
      by blast
    then show ?thesis
      using True t ti l
      by (intro exI[of _ t2], subst padp_tx_loop.simps, subst padp_fragments.simps) (simp add: tlen min_def)
  next
    case False
    then have l: "tlen = length msg" by (simp add: tlen_def)
    show ?thesis
      using False t ti l
      by (intro exI[of _ t], subst padp_tx_loop.simps, subst padp_fragments.simps) (simp add: tlen)
  qed
qed

lemma new_padp_buf:
  assumes "all_alloc env"
  obtains b where "pi_buffer_new env (PI_PADP_HEADER_LEN + 2 + PI_PADP_MTU) = Some b" "pi_buffer_wf b" "allocated b = 1030"
proof -
  obtain b where b: "pi_buffer_new env (PI_PADP_HEADER_LEN + 2 + PI_PADP_MTU) = Some b" "allocated b = 1030"
    using assms by (simp add: pi_buffer_new_def malloc_def PI_PADP_HEADER_LEN_def PI_PADP_MTU_def)
  then show ?thesis using that pi_buffer_new_wf by blast
qed

text \<open>The socket with which \<open>padp_tx\<close> enters its loops.\<close>

lemma tx_start:
  assumes "all_alloc env" "waits (os_of s) (serial_of s) []"
  shows "\<exists>t b. padp_tx env nxt s msg flags = padp_tx_loop nxt flags PADP_FL_FIRST msg 0 t b \<and>
     same_stack (padp_tx_txid s) t \<and> waits (os_of t) (serial_of t) [] \<and> sent (os_of t) = sent (os_of s) \<and>
     dev (os_of t) = dev (os_of s) \<and> pi_buffer_wf b \<and> allocated b = 1030"
proof -
  let ?s = "padp_tx_txid s"
  obtain b where b: "pi_buffer_new env (PI_PADP_HEADER_LEN + 2 + PI_PADP_MTU) = Some b" "pi_buffer_wf b" "allocated b = 1030"
    using new_padp_buf[OF assms(1)] .
  have k: "os_of ?s = os_of s" "serial_of ?s = serial_of s" "state_of ?s = state_of s"
    by (simp_all add: padp_tx_txid_def Let_def)
  obtain t r where t: "prot_flush nxt ?s PI_FLUSH_INPUT = Some (t, r)" "same_stack ?s t" "waits (os_of t) (serial_of t) []"
    "sent (os_of t) = sent (os_of s)" "dev (os_of t) = dev (os_of s)"
    using flush_law[of ?s "[]"] assms(2) k by auto
  show ?thesis
  proof (cases "is_connected ?s")
    case True
    then have "padp_tx env nxt s msg flags = padp_tx_loop nxt flags PADP_FL_FIRST msg 0 t b"
      unfolding padp_tx_def Let_def b(1) option.case by (simp add: t(1))
    then show ?thesis using t b by blast
  next
    case False
    then have "padp_tx env nxt s msg flags = padp_tx_loop nxt flags PADP_FL_FIRST msg 0 ?s b"
      using k unfolding padp_tx_def Let_def b(1) option.case by (simp add: is_connected_def)
    then show ?thesis using b assms(2) k same_stack_refl[of ?s] by metis
  qed
qed

lemma tx_acked:
  assumes "all_alloc env" "acks react" "waits (os_of s) (serial_of s) []" "padp_type (padp_of s) = padData"
    "flags \<noteq> PI_MSG_PEEK" "length msg < 2 ^ 31"
  shows "\<exists>t. padp_tx env nxt s msg flags = Some (t, int (length msg)) \<and> cmp_of t = cmp_of s \<and>
     sent (os_of t) = sent (os_of s) @ map (Pair (padp_info (padp_txid (padp_of (padp_tx_txid s)))))
       (padp_fragments (padp_of (padp_tx_txid s)) PADP_FL_FIRST 0 msg)"
proof -
  obtain t b where t: "padp_tx env nxt s msg flags = padp_tx_loop nxt flags PADP_FL_FIRST msg 0 t b"
    "same_stack (padp_tx_txid s) t" "waits (os_of t) (serial_of t) []" "sent (os_of t) = sent (os_of s)"
    "pi_buffer_wf b" "allocated b = 1030"
    using tx_start[OF assms(1,3)] by blast
  have pd: "padp_of t = padp_of (padp_tx_txid s)" using same_stackD[OF t(2)] by simp
  have cmp: "cmp_of t = cmp_of s" using same_stackD[OF t(2)] by (simp add: padp_tx_txid_def Let_def)
  have "padp_type (padp_of t) = padData" using assms(4) unfolding pd by (simp add: padp_tx_txid_def Let_def)
  then obtain t2 where "padp_tx_loop nxt flags PADP_FL_FIRST msg 0 t b = Some (padp_tx_done t2 (int (length msg)))"
    "cmp_of t2 = cmp_of s"
    "sent (os_of t2) = sent (os_of t) @ map (Pair (padp_info (padp_txid (padp_of t)))) (padp_fragments (padp_of t) PADP_FL_FIRST 0 msg)"
    using loop_acked[of t b PADP_FL_FIRST flags 0 msg] assms t cmp by (auto simp: PADP_FL_FIRST_def)
  then show ?thesis
    unfolding t(1) pd t(4) by (auto simp: padp_tx_done_def)
qed

section \<open>No answer\<close>

lemma wait_unheard:
  assumes "waits (os_of s) (serial_of s) ps" "pi_buffer_wf buf" "fl \<noteq> PI_MSG_PEEK" "sd_timeout (serial_of s) \<noteq> 0"
    "\<forall>(j, c) \<in> set ps. 0 < length c \<and> length c \<le> 1030" "ps \<noteq> [] \<Longrightarrow> is_tickle (content buf @ snd (hd ps))"
  shows "\<exists>t buf'. padp_tx_wait nxt fl final count s buf = Some (t, buf', Tx_again) \<and> padp_of t = padp_of s \<and>
     state_of t = state_of s \<and> waits (os_of t) (serial_of t) [] \<and> sent (os_of t) = sent (os_of s) \<and>
     pi_buffer_wf buf' \<and> allocated buf \<le> allocated buf'"
  using assms
proof (induction ps arbitrary: s buf)
  case Nil
  obtain t where t: "prot_read nxt s buf 1030 fl = Some (fst (pi_set_error t PI_ERR_SOCK_TIMEOUT), buf, PI_ERR_SOCK_TIMEOUT)"
    "same_stack s t" "waits (os_of t) (serial_of t) []" "sent (os_of t) = sent (os_of s)"
    using empty_law[OF Nil(1-4), of 1030] by auto
  have "padp_tx_wait nxt fl final count s buf = Some (fst (pi_set_error t PI_ERR_SOCK_TIMEOUT), buf, Tx_again)"
    by (subst padp_tx_wait.simps)
      (simp add: t(1) PI_PADP_HEADER_LEN_def PI_PADP_MTU_def PI_ERR_SOCK_TIMEOUT_def PI_ERR_SOCK_DISCONNECTED_def)
  then show ?case
    using t Nil(2) same_stackD[OF t(2)] by (intro exI[of _ "fst (pi_set_error t PI_ERR_SOCK_TIMEOUT)"] exI[of _ buf]) simp
next
  case (Cons p ps)
  obtain i b where p: "p = (i, b)" by fastforce
  have b: "0 < length b" "length b \<le> 1030" using Cons.prems(5) p by auto
  obtain t buf1 where t: "prot_read nxt s buf 1030 fl = Some (upd_slp (received i) t, buf1, int (length b))"
    "same_stack s t" "waits (os_of t) (serial_of t) ps" "sent (os_of t) = sent (os_of s)"
    "sd_timeout (serial_of t) = sd_timeout (serial_of s)"
    "pi_buffer_wf buf1" "content buf1 = content buf @ b" "allocated buf \<le> allocated buf1"
    using read_law[OF Cons.prems(1)[unfolded p] Cons.prems(2,3) b(2)] by auto
  have tk: "is_tickle (content buf1)" using Cons.prems(6) t(7) p by simp
  then have "content buf1 \<noteq> []" by (auto simp: is_tickle_def)
  then obtain ys where d: "data buf1 = Some (content buf1 @ ys)" using content_data[OF t(6) refl] by blast
  obtain h where h: "padp_parse (content buf1 @ ys) = Some h" "pd_type h = 4"
    using is_tickle_parse[OF is_tickle_more[OF tk]] by metis
  let ?t = "upd_slp (received i) t"
  have step: "padp_tx_wait nxt fl final count s buf = padp_tx_wait nxt fl final count ?t buf1"
    using b(1) by (subst padp_tx_wait.simps)
      (simp add: t(1) d h PI_PADP_HEADER_LEN_def PI_PADP_MTU_def padData_def padTickle_def)
  have "\<exists>t' buf'. padp_tx_wait nxt fl final count ?t buf1 = Some (t', buf', Tx_again) \<and> padp_of t' = padp_of ?t \<and>
     state_of t' = state_of ?t \<and> waits (os_of t') (serial_of t') [] \<and> sent (os_of t') = sent (os_of ?t) \<and>
     pi_buffer_wf buf' \<and> allocated buf1 \<le> allocated buf'"
    by (rule Cons.IH) (use t Cons.prems(3-5) is_tickle_more[OF tk] in auto)
  then show ?case unfolding step using same_stackD[OF t(2)] t(4,8) by (auto intro: order_trans)
qed

lemma try_unheard:
  assumes "unheard react" "waits (os_of s) (serial_of s) []" "padp_type (padp_of s) \<noteq> padTickle"
    "pi_buffer_wf buf" "1030 \<le> allocated buf" "flags \<noteq> PI_MSG_PEEK"
  shows "\<exists>t buf'. padp_tx_try n nxt flags fl msg count s buf = Some (t, buf', Tx_exhausted) \<and> padp_of t = padp_of s \<and>
     state_of t = state_of s \<and>
     sent (os_of t) = sent (os_of s) @ replicate n
       (padp_info (padp_txid (padp_of s)), padp_header (padp_of s) fl (length msg) (min 1024 (length msg)) count @ take 1024 msg)"
  using assms(2-)
proof (induction n arbitrary: s buf)
  case (Suc n)
  define pd where "pd = padp_of s"
  define tlen where "tlen = min 1024 (length msg)"
  have tlen: "(if length msg > PI_PADP_MTU then PI_PADP_MTU else length msg) = tlen" by (auto simp: tlen_def PI_PADP_MTU_def)
  let ?h = "padp_header pd fl (length msg) tlen count" and ?i = "padp_info (padp_txid pd)"
  let ?packet = "?h @ take 1024 msg"
  define s1 where "s1 = upd_serial (\<lambda>d. d\<lparr>sd_timeout := PI_PADP_TX_TIMEOUT\<rparr>) (padp_address (padp_txid pd) s)"
  have s1: "fst (pi_serial_setsockopt (padp_address (padp_txid pd) s) PI_DEV_TIMEOUT PI_PADP_TX_TIMEOUT 4) = s1"
    "padp_of s1 = pd" "state_of s1 = state_of s" "os_of s1 = os_of s" "info_of (slp_of s1) = ?i"
    "waits (os_of s1) (serial_of s1) []" "sd_timeout (serial_of s1) = 2000"
    using timeout_waits[of "padp_address (padp_txid pd) s" "[]" PI_PADP_TX_TIMEOUT] Suc.prems(1) address_info[of "padp_txid pd" s]
    by (simp_all add: s1_def pd_def PI_PADP_TX_TIMEOUT_def)
  obtain d where d: "data buf = Some d" "length d = allocated buf"
    using Suc.prems(3,4) by (auto simp: pi_buffer_wf_def split: option.splits)
  obtain d' where b: "padp_build pd fl msg count d = Some (d', ?packet)" "length d' = length d"
    using padp_build_packet[of d pd fl msg count] Suc.prems(4) d(2) by (auto simp: tlen_def)
  let ?buf = "buf\<lparr>data := Some d', used := 0\<rparr>"
  have wf: "pi_buffer_wf ?buf" using Suc.prems(3) d b(2) by (simp add: pi_buffer_wf_def)
  have empty: "content ?buf = []" by (simp add: content_def)
  have "length ?packet \<le> 0xffff" by (auto simp: padp_header_length min_def)
  then obtain s2 r where w2: "prot_write nxt s1 ?packet flags = Some (s2, r)" "0 \<le> r" "same_stack s1 s2"
    "waits (os_of s2) (serial_of s2) (snd (react (dev (os_of s)) ?i ?packet))"
    "sent (os_of s2) = sent (os_of s1) @ [(?i, ?packet)]" "sd_timeout (serial_of s2) = 2000"
    using write_law[OF s1(6), of ?packet flags] unheard_answers(1)[OF assms(1) refl, of "dev (os_of s)" ?i ?packet] s1(4,5,7)
    by fastforce
  have st2: "padp_of s2 = pd" "state_of s2 = state_of s" using same_stackD[OF w2(3)] s1(2,3) by simp_all
  obtain t buf1 where t: "padp_tx_wait nxt flags (length msg = tlen) (to_int (count + int tlen)) s2 ?buf = Some (t, buf1, Tx_again)"
    "padp_of t = pd" "state_of t = state_of s" "waits (os_of t) (serial_of t) []" "sent (os_of t) = sent (os_of s2)"
    "pi_buffer_wf buf1" "allocated ?buf \<le> allocated buf1"
    using wait_unheard[OF w2(4) wf Suc.prems(5) _ unheard_answers(1)[OF assms(1) refl],
        of "length msg = tlen" "to_int (count + int tlen)"] w2(6) st2 empty
      unheard_answers(2)[OF assms(1) refl, of "dev (os_of s)" ?i ?packet] by auto
  have nd: "r \<noteq> PI_ERR_SOCK_DISCONNECTED" using w2(2) by (simp add: PI_ERR_SOCK_DISCONNECTED_def)
  have step: "padp_tx_try (Suc n) nxt flags fl msg count s buf = padp_tx_try n nxt flags fl msg count t buf1"
    unfolding padp_tx_try.simps Let_def tlen pd_def[symmetric] s1(1,2) d(1) Option.bind.simps b(1) prod.case w2(1)
    using nd Suc.prems(2) st2(1) by (simp add: pd_def t(1))
  have "padp_type (padp_of t) \<noteq> padTickle" "1030 \<le> allocated buf1" using Suc.prems(2,4) t(2,7) by (simp_all add: pd_def)
  from Suc.IH[OF t(4) this(1) t(6) this(2) Suc.prems(5)] obtain t2 buf2 where
    "padp_tx_try n nxt flags fl msg count t buf1 = Some (t2, buf2, Tx_exhausted)" "padp_of t2 = padp_of t" "state_of t2 = state_of t"
    "sent (os_of t2) = sent (os_of t) @ replicate n
       (padp_info (padp_txid (padp_of t)), padp_header (padp_of t) fl (length msg) (min 1024 (length msg)) count @ take 1024 msg)"
    by blast
  then show ?case
    unfolding step using t w2(5) s1(4) by (intro exI[of _ t2] exI[of _ buf2]) (simp add: pd_def tlen_def)
qed simp

lemma tx_unheard:
  assumes "all_alloc env" "unheard react" "waits (os_of s) (serial_of s) []"
    "padp_type (padp_of s) \<noteq> padTickle" "flags \<noteq> PI_MSG_PEEK"
  shows "\<exists>t. padp_tx env nxt s msg flags = Some (t, PI_ERR_SOCK_DISCONNECTED) \<and> state_of t = PI_SOCK_CONN_BREAK \<and>
     sent (os_of t) = sent (os_of s) @ replicate PI_PADP_TX_RETRIES
       (padp_info (padp_txid (padp_of (padp_tx_txid s))),
        hd (padp_fragments (padp_of (padp_tx_txid s)) PADP_FL_FIRST 0 msg))"
proof -
  obtain t b where t: "padp_tx env nxt s msg flags = padp_tx_loop nxt flags PADP_FL_FIRST msg 0 t b"
    "same_stack (padp_tx_txid s) t" "waits (os_of t) (serial_of t) []" "sent (os_of t) = sent (os_of s)"
    "pi_buffer_wf b" "allocated b = 1030"
    using tx_start[OF assms(1,3)] by blast
  have pd: "padp_of t = padp_of (padp_tx_txid s)" using same_stackD[OF t(2)] by simp
  have ty: "padp_type (padp_of t) \<noteq> padTickle" using assms(4) unfolding pd by (simp add: padp_tx_txid_def Let_def)
  obtain t2 b2 where t2: "padp_tx_try PI_PADP_TX_RETRIES nxt flags PADP_FL_FIRST msg 0 t b = Some (t2, b2, Tx_exhausted)"
    "sent (os_of t2) = sent (os_of t) @ replicate PI_PADP_TX_RETRIES
       (padp_info (padp_txid (padp_of t)), padp_header (padp_of t) PADP_FL_FIRST (length msg) (min 1024 (length msg)) 0 @ take 1024 msg)"
    using try_unheard[OF assms(2) t(3) ty t(5) _ assms(5)] t(6) by (metis order_refl)
  have hd: "hd (padp_fragments (padp_of t) PADP_FL_FIRST 0 msg) =
      padp_header (padp_of t) PADP_FL_FIRST (length msg) (min 1024 (length msg)) 0 @ take 1024 msg"
    by (subst padp_fragments.simps) (simp add: min_def)
  have "padp_tx env nxt s msg flags = Some (padp_tx_broken t2)"
    unfolding t(1) by (subst padp_tx_loop.simps) (simp add: t2(1))
  then show ?thesis
    using t2(2) t(4) hd pd
    by (intro exI[of _ "fst (padp_tx_broken t2)"]) (simp add: padp_tx_broken_def pi_set_error_def port_defs)
qed

section \<open>Receiving\<close>

lemma now_clock: "now os s = (s, 0)"
  by (simp add: now_def clock_law) (simp add: port_defs)

text \<open>A packet with a short header.\<close>

lemma head_read:
  assumes "waits (os_of s) (serial_of s) ((i, b) # ps)" "pi_buffer_wf buf" "flags \<noteq> PI_MSG_PEEK" "content buf = []"
    "4 \<le> length b" "length b \<le> 1028" "padp_parse b = Some h" "\<not> is_long (pd_flags h)"
  shows "\<exists>t buf'. padp_rx_head nxt flags s buf 0 PI_PADP_HEADER_LEN = Some (upd_slp (received i) t, buf', Inr (length b, 4)) \<and>
     same_stack s t \<and> waits (os_of t) (serial_of t) ps \<and> sent (os_of t) = sent (os_of s) \<and> dev (os_of t) = dev (os_of s) \<and>
     pi_buffer_wf buf' \<and> content buf' = b"
proof -
  obtain t buf' where t: "prot_read nxt s buf 1028 flags = Some (upd_slp (received i) t, buf', int (length b))"
    "same_stack s t" "waits (os_of t) (serial_of t) ps" "sent (os_of t) = sent (os_of s)" "dev (os_of t) = dev (os_of s)"
    "pi_buffer_wf buf'" "content buf' = b"
    using read_law[OF assms(1,2,3,6)] assms(4) by auto
  have "b \<noteq> []" using assms(5) by auto
  then obtain ys where d: "data buf' = Some (b @ ys)" using content_data[OF t(6,7)] by metis
  obtain x y z w b' where b: "b = x # y # z # w # b'" and y: "y = pd_flags h"
    using padp_parse_shape[OF assms(7,5,8)] by metis
  have c: "PI_PADP_HEADER_LEN = 4" "PI_PADP_MTU = 1024" "PI_PADP_OFFSET_FLGS = 1" by (simp_all add: padp_const_defs)
  have g: "get_byte (b @ ys) 1 = Some y" by (simp add: b mem_simps)
  have "padp_rx_head nxt flags s buf 0 4 = padp_rx_head nxt flags (upd_slp (received i) t) buf' (length b) 4"
    using assms(5,8) by (subst padp_rx_head.simps) (simp add: c t(1) d g[simplified] y)
  also have "\<dots> = Some (upd_slp (received i) t, buf', Inr (length b, 4))"
    using assms(5) by (subst padp_rx_head.simps) simp
  finally have "padp_rx_head nxt flags s buf 0 PI_PADP_HEADER_LEN = Some (upd_slp (received i) t, buf', Inr (length b, 4))"
    unfolding c .
  with t show ?thesis by blast
qed

lemma await_packet:
  assumes w: "waits (os_of s) (serial_of s) ((i, b) # ps)" and buf: "pi_buffer_wf buf" and fl: "flags \<noteq> PI_MSG_PEEK"
    and b: "4 \<le> length b" "length b \<le> 1028" "padp_parse b = Some h" "\<not> is_long (pd_flags h)"
    and h: "pd_flags h AND PADP_FL_MEMERROR = 0" "pd_type h = 1" "pd_flags h AND PADP_FL_FIRST \<noteq> 0 \<longleftrightarrow> first"
    and i: "si_type i = 2" "si_txid i = padp_txid (padp_of s)" and e: "0 \<le> endtime"
  shows "\<exists>t buf'. padp_rx_await os nxt flags first endtime s buf = Some (t, buf', Rx_packet (length b) 4 h) \<and>
     padp_of t = padp_of s \<and> state_of t = state_of s \<and> sk_honor_rx_to t = sk_honor_rx_to s \<and>
     waits (os_of t) (serial_of t) ps \<and> sent (os_of t) = sent (os_of s) \<and>
     dev (os_of t) = dev (os_of s) \<and> pi_buffer_wf buf' \<and> content buf' = b"
proof -
  define honor where "honor = (sk_honor_rx_to s \<noteq> 0)"
  define s1 where "s1 = upd_serial (\<lambda>d. d\<lparr>sd_timeout := if honor then PI_PADP_RX_BLOCK_TO + 2000 else 0\<rparr>) s"
  have s1: "padp_of s1 = padp_of s" "state_of s1 = state_of s" "os_of s1 = os_of s" "sk_honor_rx_to s1 = sk_honor_rx_to s"
    "waits (os_of s1) (serial_of s1) ((i, b) # ps)"
    using timeout_waits[OF w] by (simp_all add: s1_def)
  have wf: "pi_buffer_wf (buf\<lparr>used := 0\<rparr>)" "content (buf\<lparr>used := 0\<rparr>) = []"
    using buf by (auto simp: pi_buffer_wf_def content_def split: option.splits)
  obtain t buf' where t: "padp_rx_head nxt flags s1 (buf\<lparr>used := 0\<rparr>) 0 PI_PADP_HEADER_LEN =
      Some (upd_slp (received i) t, buf', Inr (length b, 4))"
    "same_stack s1 t" "waits (os_of t) (serial_of t) ps" "sent (os_of t) = sent (os_of s)" "dev (os_of t) = dev (os_of s)"
    "pi_buffer_wf buf'" "content buf' = b"
    using head_read[OF s1(5) wf(1) fl wf(2) b] s1(3) by auto
  have "b \<noteq> []" using b(1) by auto
  then obtain ys where d: "data buf' = Some (b @ ys)" using content_data[OF t(6,7)] by metis
  have st: "padp_of t = padp_of s" "state_of t = state_of s" "sk_honor_rx_to t = sk_honor_rx_to s"
    using same_stackD[OF t(2)] same_stack_honor[OF t(2)] s1 by simp_all
  have "padp_parse (b @ ys) = Some h" using padp_parse_shape[OF b(3,1,4)] by metis
  moreover have "(if honor then let (sk, t) = now os s in (sk, t > endtime) else (s, False)) = (s, False)"
    using e by (simp add: now_clock)
  ultimately have "padp_rx_await os nxt flags first endtime s buf = Some (upd_slp (received i) t, buf', Rx_packet (length b) 4 h)"
    using h i st by (subst padp_rx_await.simps)
      (simp add: honor_def[symmetric] s1_def[symmetric] t(1) d received_simps PI_SLP_TYPE_PADP_def padTickle_def
        padData_def split del: if_split)
  then show ?thesis using t st by (intro exI[of _ "upd_slp (received i) t"] exI[of _ buf']) simp
qed

lemma sendack:
  assumes "waits (os_of s) (serial_of s) ps"
    "\<forall>(j, c) \<in> set (snd (react (dev (os_of s)) (padp_info txid) (padp_ack_bytes h))). length c \<le> 0xffff"
  shows "\<exists>t r. padp_sendack nxt s txid h flags = Some (t, r) \<and>
     padp_of t = (padp_of s)\<lparr>padp_last_ack_txid := txid, padp_last_ack := h\<rparr> \<and> state_of t = state_of s \<and>
     waits (os_of t) (serial_of t) (ps @ snd (react (dev (os_of s)) (padp_info txid) (padp_ack_bytes h))) \<and>
     dev (os_of t) = fst (react (dev (os_of s)) (padp_info txid) (padp_ack_bytes h)) \<and>
     sent (os_of t) = sent (os_of s) @ [(padp_info txid, padp_ack_bytes h)]"
proof -
  let ?s = "padp_address txid s"
  have "length (padp_ack_bytes h) \<le> 0xffff" using ack_length(1)[of h] by simp
  then obtain t r where t: "prot_write nxt ?s (padp_ack_bytes h) flags = Some (t, r)" "0 \<le> r" "same_stack ?s t"
    "waits (os_of t) (serial_of t) (ps @ snd (react (dev (os_of s)) (padp_info txid) (padp_ack_bytes h)))"
    "dev (os_of t) = fst (react (dev (os_of s)) (padp_info txid) (padp_ack_bytes h))"
    "sent (os_of t) = sent (os_of s) @ [(padp_info txid, padp_ack_bytes h)]"
    using write_law[of ?s ps "padp_ack_bytes h" flags] assms address_info[of txid s] by auto
  then show ?thesis
    using same_stackD[OF t(3)]
    by (intro exI[of _ "upd_padp (\<lambda>d. d\<lparr>padp_last_ack_txid := txid, padp_last_ack := h\<rparr>) t"] exI[of _ r])
      (simp add: padp_sendack_def)
qed

lemma fragment_short:
  assumes "fl \<in> {0, 0x80}" "padp_use_long_format pd = 0" "padp_type pd = padData"
  shows "padp_parse (padp_header pd fl len tlen count @ rest) =
    Some \<lparr>pd_type = 1, pd_flags = fragment_flags pd fl (len = tlen), pd_size = uint (word_of_int (if fl \<noteq> 0 then int len else count) :: u16)\<rparr>"
  using fragment_flags_facts(1)[OF assms(1), of pd "len = tlen"] assms(2,3)
  by (simp add: padp_header_bytes padp_parse_short padData_def)

lemma fragment_lengths: "padp_use_long_format pd = 0 \<Longrightarrow> b \<in> set (padp_fragments pd fl count msg) \<Longrightarrow> length b \<le> 1028"
proof (induction pd fl count msg rule: padp_fragments.induct)
  case (1 pd fl count msg)
  then show ?case by (subst (asm) (2) padp_fragments.simps) (auto simp: padp_header_length split: if_splits)
qed

lemma rx_message:
  assumes dev: "goes_on react stream" "stream (dev (os_of s)) L" "waits (os_of s) (serial_of s) ps"
    and frags: "map (Pair i) (tl (padp_fragments pd fl count msg)) = ps @ L"
    and pd: "padp_use_long_format pd = 0" "padp_type pd = padData"
    and fl: "fl \<in> {0, 0x80}" "fl \<noteq> 0 \<longrightarrow> count = 0" "flags \<noteq> PI_MSG_PEEK"
    and count: "0 \<le> count" "count + int (length msg) \<le> 0xffff"
    and buf: "pi_buffer_wf padp_buf" "content padp_buf = hd (padp_fragments pd fl count msg)" "pi_buffer_wf buf" "all_alloc env"
    and i: "si_type i = 2" "si_txid i = padp_txid (padp_of s)"
  shows "\<exists>t buf'. padp_rx_loop os env nxt flags s buf padp_buf (length (hd (padp_fragments pd fl count msg))) 4
       (the (padp_parse (hd (padp_fragments pd fl count msg)))) count = Some (padp_rx_done t buf' (count + int (length msg))) \<and>
     pi_buffer_wf buf' \<and> content buf' = content buf @ msg \<and> same_but_ack (padp_of s) (padp_of t) \<and>
     waits (os_of t) (serial_of t) [] \<and> state_of t = state_of s \<and>
     sent (os_of t) = sent (os_of s) @ acks_of (padp_txid (padp_of s)) (padp_fragments pd fl count msg)"
  using assms
proof (induction "length msg" arbitrary: s L ps fl count msg padp_buf buf rule: less_induct)
  case less
  note dev = less.prems(1-3) and frags = less.prems(4) and pd = less.prems(5,6) and fl = less.prems(7-9)
    and count = less.prems(10,11) and buf = less.prems(12-15) and i = less.prems(16,17)
  define n where "n = min 1024 (length msg)"
  define txid where "txid = padp_txid (padp_of s)"
  define b where "b = padp_header pd fl (length msg) n count @ take 1024 msg"
  define h where "h = \<lparr>pd_type = 1, pd_flags = fragment_flags pd fl (length msg = n),
      pd_size = uint (word_of_int (if fl \<noteq> 0 then int (length msg) else count) :: u16)\<rparr>"
  have hd: "hd (padp_fragments pd fl count msg) = b" by (simp add: fragment_head b_def n_def)
  have ph: "padp_parse b = Some h" unfolding b_def h_def by (rule fragment_short[OF fl(1) pd])
  have lb: "length b = 4 + n" "drop 4 b = take 1024 msg" using pd(1) by (simp_all add: b_def padp_header_length n_def)
  have offset: "(if pd_flags h AND PADP_FL_FIRST \<noteq> 0 then 0 else pd_size h) = count"
    using fragment_flags_facts(3)[OF fl(1), of pd "length msg = n"] fl(2) count
    by (auto simp: h_def uint_word_of_int)
  have final: "pd_flags h AND PADP_FL_LAST \<noteq> 0 \<longleftrightarrow> length msg \<le> 1024"
    using fragment_flags_facts(4)[OF fl(1), of pd "length msg = n"] by (auto simp: h_def n_def)
  have short: "length c \<le> 0xffff" if "(j, c) \<in> set L" for j c
  proof -
    have "(j, c) \<in> set (map (Pair i) (tl (padp_fragments pd fl count msg)))" using that unfolding frags by simp
    then have "c \<in> set (padp_fragments pd fl count msg)" by (auto intro: list.set_sel(2) simp: padp_fragments.simps[of pd fl count msg])
    from fragment_lengths[OF pd(1) this] show ?thesis by simp
  qed
  let ?ack = "padp_ack_bytes h"
  let ?ans = "snd (react (dev (os_of s)) (padp_info txid) ?ack)"
  obtain L' where L': "L = ?ans @ L'" "stream (fst (react (dev (os_of s)) (padp_info txid) ?ack)) L'" "L \<noteq> [] \<longrightarrow> ?ans \<noteq> []"
    using dev(1,2) unfolding goes_on_def Let_def by blast
  have "\<forall>(j, c) \<in> set ?ans. length c \<le> 0xffff" using short L'(1) by fastforce
  from sendack[OF dev(3) this] obtain s1 r where s1: "padp_sendack nxt s txid h flags = Some (s1, r)"
    "padp_of s1 = (padp_of s)\<lparr>padp_last_ack_txid := txid, padp_last_ack := h\<rparr>"
    "waits (os_of s1) (serial_of s1) (ps @ ?ans)" "dev (os_of s1) = fst (react (dev (os_of s)) (padp_info txid) ?ack)"
    "sent (os_of s1) = sent (os_of s) @ [(padp_info txid, ?ack)]" "state_of s1 = state_of s"
    by blast
  have sba: "same_but_ack (padp_of s) (padp_of s1)" unfolding s1(2) by (rule same_but_ackI)
  have "b \<noteq> []" using lb(1) by auto
  then obtain ys where d: "data padp_buf = Some (b @ ys)" using content_data[OF buf(1), of b] buf(2) hd by metis
  have get: "get_block n (b @ ys) 4 = Some (take 1024 msg)"
    using lb by (simp add: get_block_def n_def min_def)
  obtain buf1 where a: "pi_buffer_append env buf (take 1024 msg) = Some (buf1, True)" "pi_buffer_wf buf1"
    "content buf1 = content buf @ take 1024 msg"
  proof -
    obtain b' ok where a: "pi_buffer_append env buf (take 1024 msg) = Some (b', ok)" "pi_buffer_wf b'"
      "content b' = (if ok then content buf @ take 1024 msg else [])"
      using pi_buffer_append_spec[OF buf(3)] by blast
    have "ok" using a(1) expect_all_alloc[OF buf(4), of buf "length (take 1024 msg)"]
      by (auto simp: pi_buffer_append_def split: prod.splits if_splits Option.bind_splits)
    with a that show ?thesis by simp
  qed
  have ti: "to_int (count + int n) = count + int n" using count by (intro to_int_id) (auto simp: n_def)
  have ack1: "acks_of txid [b] = [(padp_info txid, ?ack)]" by (simp add: acks_of_def ph)
  note step = padp_rx_loop.simps[of os env nxt flags s buf padp_buf "length b" 4 h count]
  have c: "PI_PADP_HEADER_LEN = 4" by (simp add: PI_PADP_HEADER_LEN_def)
  show ?case
  proof (cases "length msg \<le> 1024")
    case True
    then have all: "padp_fragments pd fl count msg = [b]" "take 1024 msg = msg" "n = length msg"
      by (simp_all add: padp_fragments.simps b_def n_def)
    have "padp_rx_loop os env nxt flags s buf padp_buf (length b) 4 h count = Some (padp_rx_done s1 buf1 (count + int n))"
      unfolding step txid_def[symmetric] s1(1) Let_def offset using True final
      by (simp add: c lb(1) d get[unfolded all(2)] a(1)[unfolded all(2)] ti all(3)[symmetric])
    moreover have "ps @ ?ans = []" using frags L'(1) all(1) by simp
    then have "waits (os_of s1) (serial_of s1) []" using s1(3) by simp
    ultimately show ?thesis
      using a(2,3) s1(5,6) sba ack1 all by (intro exI[of _ s1] exI[of _ buf1]) (simp add: hd ph txid_def)
  next
    case False
    then have n: "n = 1024" by (simp add: n_def)
    define rest where "rest = padp_fragments pd 0 (count + 1024) (drop 1024 msg)"
    have fr: "padp_fragments pd fl count msg = b # rest" using False by (subst padp_fragments.simps) (simp add: b_def n rest_def)
    then have wait: "map (Pair i) rest = (ps @ ?ans) @ L'" using frags L'(1) by simp
    obtain b2 rest2 where rest: "rest = b2 # rest2" using padp_fragments_nonempty[of pd 0 "count + 1024" "drop 1024 msg"] by (cases rest) (auto simp: rest_def)
    have "ps @ ?ans \<noteq> []" using wait L'(1,3) rest by auto
    then obtain ps2 where ps2: "ps @ ?ans = (i, b2) # ps2" "map (Pair i) rest2 = ps2 @ L'"
      using wait unfolding rest by (cases "ps @ ?ans") auto
    define msg2 where "msg2 = drop 1024 msg"
    define h2 where "h2 = the (padp_parse b2)"
    have b2: "b2 = padp_header pd 0 (length msg2) (min 1024 (length msg2)) (count + 1024) @ take 1024 msg2"
      using fragment_head[of pd 0 "count + 1024" msg2] rest by (simp add: rest_def msg2_def)
    have p2: "padp_parse b2 = Some \<lparr>pd_type = 1, pd_flags = fragment_flags pd 0 (length msg2 = min 1024 (length msg2)),
        pd_size = uint (word_of_int (count + 1024) :: u16)\<rparr>"
      unfolding b2 using fragment_short[OF _ pd, of 0] by simp
    then have ph2: "padp_parse b2 = Some h2" "pd_type h2 = 1" "\<not> is_long (pd_flags h2)" "pd_flags h2 AND PADP_FL_MEMERROR = 0"
      "\<not> pd_flags h2 AND PADP_FL_FIRST \<noteq> 0"
      using fragment_flags_facts[of 0 pd "length msg2 = min 1024 (length msg2)"] pd(1) by (simp_all add: h2_def)
    have lb2: "4 \<le> length b2" "length b2 \<le> 1028" using pd(1) by (auto simp: b2 padp_header_length)
    have w1: "waits (os_of s1) (serial_of s1) ((i, b2) # ps2)" using s1(3) ps2(1) by simp
    have ix: "si_txid i = padp_txid (padp_of s1)" using i(2) s1(2) by simp
    obtain t1 buf2 where t1: "padp_rx_await os nxt flags False (0 + PI_PADP_RX_SEGMENT_TO div 1000) s1 padp_buf =
        Some (t1, buf2, Rx_packet (length b2) 4 h2)" "padp_of t1 = padp_of s1" "waits (os_of t1) (serial_of t1) ps2"
      "sent (os_of t1) = sent (os_of s1)" "dev (os_of t1) = dev (os_of s1)" "pi_buffer_wf buf2" "content buf2 = b2"
      "state_of t1 = state_of s1"
      using await_packet[OF w1 buf(1) fl(3) lb2 ph2(1,3,4,2) _ i(1) ix, of False "0 + PI_PADP_RX_SEGMENT_TO div 1000"] ph2(5)
      by (auto simp: PI_PADP_RX_SEGMENT_TO_def)
    have loop: "padp_rx_loop os env nxt flags s buf padp_buf (length b) 4 h count =
        padp_rx_loop os env nxt flags t1 buf1 buf2 (length b2) 4 h2 (count + 1024)"
      unfolding step txid_def[symmetric] s1(1) Let_def offset using False final t1(1) n
      by (simp add: c lb(1) d get[unfolded n] a(1) ti[unfolded n, simplified] now_clock)
    have "\<exists>t buf'. padp_rx_loop os env nxt flags t1 buf1 buf2 (length (hd (padp_fragments pd 0 (count + 1024) msg2))) 4
       (the (padp_parse (hd (padp_fragments pd 0 (count + 1024) msg2)))) (count + 1024) =
         Some (padp_rx_done t buf' ((count + 1024) + int (length msg2))) \<and>
       pi_buffer_wf buf' \<and> content buf' = content buf1 @ msg2 \<and> same_but_ack (padp_of t1) (padp_of t) \<and>
       waits (os_of t) (serial_of t) [] \<and> state_of t = state_of t1 \<and>
       sent (os_of t) = sent (os_of t1) @ acks_of (padp_txid (padp_of t1)) (padp_fragments pd 0 (count + 1024) msg2)"
    proof (rule less.hyps)
      show "length msg2 < length msg" using False by (simp add: msg2_def)
      show "stream (dev (os_of t1)) L'" using L'(2) t1(5) s1(4) by simp
      show "map (Pair i) (tl (padp_fragments pd 0 (count + 1024) msg2)) = ps2 @ L'"
        using ps2(2) rest by (simp add: rest_def msg2_def)
      show "content buf2 = hd (padp_fragments pd 0 (count + 1024) msg2)" using t1(7) rest by (simp add: rest_def msg2_def)
      show "si_txid i = padp_txid (padp_of t1)" using ix t1(2) by simp
      show "count + 1024 + int (length msg2) \<le> 0xffff" using count False by (simp add: msg2_def)
    qed (use dev(1) t1(3,6) pd fl(3) count a(2) buf(4) i(1) in auto)
    moreover have "padp_fragments pd 0 (count + 1024) msg2 = b2 # rest2" using rest by (simp add: rest_def msg2_def)
    ultimately obtain t buf' where t: "padp_rx_loop os env nxt flags t1 buf1 buf2 (length b2) 4 h2 (count + 1024) =
        Some (padp_rx_done t buf' ((count + 1024) + int (length msg2)))" "pi_buffer_wf buf'" "content buf' = content buf1 @ msg2"
      "same_but_ack (padp_of t1) (padp_of t)"
      "waits (os_of t) (serial_of t) []" "state_of t = state_of t1" "sent (os_of t) = sent (os_of t1) @ acks_of (padp_txid (padp_of t1)) rest"
      by (auto simp: h2_def rest)
    have "acks_of txid (b # rest) = (padp_info txid, ?ack) # acks_of txid rest" by (simp add: acks_of_def ph)
    moreover have "(count + 1024) + int (length msg2) = count + int (length msg)" using False by (simp add: msg2_def)
    ultimately show ?thesis
      unfolding fr list.sel(1) ph option.sel loop
      using t a(3) s1(2,5,6) t1(2,4,8) same_but_ack_trans[OF sba] by (intro exI[of _ t] exI[of _ buf']) (simp add: txid_def msg2_def)
  qed
qed

lemma rx_whole:
  assumes "all_alloc env" "goes_on react stream" "stream (dev (os_of s)) L"
    "waits (os_of s) (serial_of s) (map (Pair i) (take 1 frags) @ ps)" "map (Pair i) (drop 1 frags) = ps @ L"
    "frags = padp_fragments pd PADP_FL_FIRST 0 msg" "padp_use_long_format pd = 0" "padp_type pd = padData"
    "length msg \<le> 0xffff" "si_type i = 2" "si_txid i = padp_txid (padp_of s)" "pi_buffer_wf buf" "flags \<noteq> PI_MSG_PEEK"
  shows "\<exists>t buf'. padp_rx os env nxt s buf expect flags = Some (t, buf', int (length msg)) \<and>
     pi_buffer_wf buf' \<and> content buf' = content buf @ msg \<and>
     (\<exists>e. same_but_ack (padp_of (padp_rx_txid s)) e \<and> padp_of t = e\<lparr>padp_txid := ucast (padp_next_txid e)\<rparr>) \<and>
     waits (os_of t) (serial_of t) [] \<and> state_of t = state_of s \<and>
     sent (os_of t) = sent (os_of s) @ acks_of (padp_txid (padp_of s)) frags"
proof -
  let ?s = "padp_rx_txid s"
  define b where "b = hd frags"
  define h where "h = the (padp_parse b)"
  have k: "os_of ?s = os_of s" "serial_of ?s = serial_of s" "padp_txid (padp_of ?s) = padp_txid (padp_of s)" "state_of ?s = state_of s"
    by (simp_all add: padp_rx_txid_def)
  have fr: "frags = b # tl frags" unfolding b_def assms(6) by (simp add: padp_fragments_nonempty)
  have w: "waits (os_of ?s) (serial_of ?s) ((i, b) # ps)" using assms(4) k by (subst (asm) fr) simp
  have bh: "b = padp_header pd PADP_FL_FIRST (length msg) (min 1024 (length msg)) 0 @ take 1024 msg"
    by (simp add: b_def assms(6) fragment_head)
  have p: "padp_parse b = Some \<lparr>pd_type = 1, pd_flags = fragment_flags pd PADP_FL_FIRST (length msg = min 1024 (length msg)),
      pd_size = uint (word_of_int (if PADP_FL_FIRST \<noteq> 0 then int (length msg) else 0) :: u16)\<rparr>"
    unfolding bh using fragment_short[OF _ assms(7,8), of PADP_FL_FIRST] by (simp add: PADP_FL_FIRST_def)
  have fl: "PADP_FL_FIRST \<in> {0, 0x80}" "PADP_FL_FIRST \<noteq> 0" by (simp_all add: PADP_FL_FIRST_def)
  have ph: "padp_parse b = Some h" "pd_type h = 1" "\<not> is_long (pd_flags h)" "pd_flags h AND PADP_FL_MEMERROR = 0"
    "pd_flags h AND PADP_FL_FIRST \<noteq> 0"
    using p fragment_flags_facts[OF fl(1), of pd "length msg = min 1024 (length msg)"] assms(7) fl(2) by (simp_all add: h_def)
  have lb: "4 \<le> length b" "length b \<le> 1028" using assms(7) by (auto simp: bh padp_header_length)
  obtain pb where pb: "pi_buffer_new env (PI_PADP_HEADER_LEN + PI_PADP_MTU) = Some pb" "pi_buffer_wf pb"
  proof -
    obtain pb where "pi_buffer_new env (PI_PADP_HEADER_LEN + PI_PADP_MTU) = Some pb"
      using assms(1) by (simp add: pi_buffer_new_def malloc_def PI_PADP_HEADER_LEN_def PI_PADP_MTU_def)
    then show ?thesis using that pi_buffer_new_wf by blast
  qed
  obtain t1 pb2 where t1: "padp_rx_await os nxt flags True (0 + PI_PADP_RX_BLOCK_TO div 1000) ?s pb =
      Some (t1, pb2, Rx_packet (length b) 4 h)" "padp_of t1 = padp_of ?s" "waits (os_of t1) (serial_of t1) ps"
    "sent (os_of t1) = sent (os_of s)" "dev (os_of t1) = dev (os_of s)" "pi_buffer_wf pb2" "content pb2 = b"
    "state_of t1 = state_of s"
    using await_packet[OF w pb(2) assms(13) lb ph(1,3,4,2) _ assms(10), of True "0 + PI_PADP_RX_BLOCK_TO div 1000"] ph(5) assms(11) k
    by (auto simp: PI_PADP_RX_BLOCK_TO_def)
  have "\<exists>t buf'. padp_rx_loop os env nxt flags t1 buf pb2 (length (hd (padp_fragments pd PADP_FL_FIRST 0 msg))) 4
       (the (padp_parse (hd (padp_fragments pd PADP_FL_FIRST 0 msg)))) 0 = Some (padp_rx_done t buf' (0 + int (length msg))) \<and>
     pi_buffer_wf buf' \<and> content buf' = content buf @ msg \<and> same_but_ack (padp_of t1) (padp_of t) \<and>
       waits (os_of t) (serial_of t) [] \<and> state_of t = state_of t1 \<and>
     sent (os_of t) = sent (os_of t1) @ acks_of (padp_txid (padp_of t1)) (padp_fragments pd PADP_FL_FIRST 0 msg)"
  proof (rule rx_message[OF assms(2)])
    show "stream (dev (os_of t1)) L" using assms(3) t1(5) by simp
    show "map (Pair i) (tl (padp_fragments pd PADP_FL_FIRST 0 msg)) = ps @ L" using assms(5) by (simp add: assms(6) drop_Suc)
    show "content pb2 = hd (padp_fragments pd PADP_FL_FIRST 0 msg)" using t1(7) by (simp add: b_def assms(6))
    show "si_txid i = padp_txid (padp_of t1)" using assms(11) t1(2) k by simp
  qed (use t1(3,6) assms fl(1) in auto)
  then obtain t buf' where "padp_rx_loop os env nxt flags t1 buf pb2 (length b) 4 h 0 = Some (padp_rx_done t buf' (int (length msg)))"
    "pi_buffer_wf buf'" "content buf' = content buf @ msg" "same_but_ack (padp_of ?s) (padp_of t)"
    "waits (os_of t) (serial_of t) []" "state_of t = state_of s"
    "sent (os_of t) = sent (os_of s) @ acks_of (padp_txid (padp_of s)) frags"
    using t1(2,4,8) k by (auto simp: h_def b_def assms(6))
  then show ?thesis
    unfolding padp_rx_def pb(1) option.case now_clock Let_def prod.case t1(1) Option.bind.simps rx_result.case
    by (auto simp: padp_rx_done_def)
qed

end

section \<open>Properties\<close>

text \<open>Devices for the witnesses, and a socket on a port with packets.\<close>

definition acking :: "unit \<Rightarrow> slp_info \<Rightarrow> bytes \<Rightarrow> unit \<times> packet list" where
  "acking p i b = ((), case padp_parse b of Some h \<Rightarrow> [(i, padp_ack_bytes h)] | None \<Rightarrow> [])"

definition tickling :: "unit \<Rightarrow> slp_info \<Rightarrow> bytes \<Rightarrow> unit \<times> packet list" where
  "tickling p i b = ((), (i, [4, 0, 0, 0]) # snd (acking p i b))"

definition sending :: "packet list \<Rightarrow> slp_info \<Rightarrow> bytes \<Rightarrow> packet list \<times> packet list" where
  "sending L i b = (tl L, take 1 L)"

definition packet_sock :: "packet list \<Rightarrow> 'p \<Rightarrow> ('p \<times> packet list) wire psock" where
  "packet_sock ps p = port_sock (concat (map encode ps)) (p, [])"

lemma packet_sock_simps [simp]:
  "packets_sent (os_of (packet_sock ps p)) = []" "device_state (os_of (packet_sock ps p)) = p"
  "is_connected (packet_sock ps p)" "padp_type (padp_of (packet_sock ps p)) = 1"
  "padp_txid (padp_of (packet_sock ps p)) = 0xff"
  by (simp_all add: packet_sock_def packets_sent_def device_state_def port_sock_def port_defs is_connected_def)

lemma packet_sock_waits:
  "\<forall>(i, b) \<in> set ps. length b \<le> 0xffff \<Longrightarrow> packets_wait calloc_env (os_of (packet_sock ps p)) (serial_of (packet_sock ps p)) ps"
  by (simp add: packets_wait_def wire_ok_def packet_sock_def)

text \<open>C12: a message of any length is sent in the packets \<open>padp_fragments\<close>, each once and in order,
  when no packet waits on the port and the device acknowledges every packet; the result is the length
  of the message. (A packet that waits is not flushed off a serial port and would be taken for the
  answer.)\<close>

theorem padp_tx_sends_fragments:
  assumes "all_alloc env" "acks react" "packets_wait env (os_of s) (serial_of s) []"
    "padp_type (padp_of s) = padData" "length msg < 2 ^ 31"
  shows "\<exists>t. padp_tx env (serial_stack grain react env) s msg 0 = Some (t, int (length msg)) \<and> cmp_of t = cmp_of s \<and>
     packets_sent (os_of t) = packets_sent (os_of s) @ map (Pair (padp_info (padp_txid (padp_of (padp_tx_txid s)))))
       (padp_fragments (padp_of (padp_tx_txid s)) PADP_FL_FIRST 0 msg)"
  by (rule slp_link.tx_acked) (use assms in \<open>simp_all add: PI_MSG_PEEK_def\<close>)

theorem padp_tx_sends_fragments_witness:
  "\<exists>t. padp_tx calloc_env (serial_stack (\<lambda>_. 7) acking calloc_env) (packet_sock [] ()) (replicate 2000 9) 0 = Some (t, 2000) \<and>
     length (packets_sent (os_of t)) = 2"
proof -
  have "acks acking" by (simp add: acks_def acking_def)
  from padp_tx_sends_fragments[OF _ this, of calloc_env "packet_sock [] ()" "replicate 2000 9" "\<lambda>_. 7"]
  obtain t where "padp_tx calloc_env (serial_stack (\<lambda>_. 7) acking calloc_env) (packet_sock [] ()) (replicate 2000 9) 0 = Some (t, 2000)"
    "length (packets_sent (os_of t)) =
      length (padp_fragments (padp_of (padp_tx_txid (packet_sock [] ()))) PADP_FL_FIRST 0 (replicate 2000 9))"
    using packet_sock_waits[of "[]" "()"] by (auto simp: padData_def)
  then show ?thesis by (simp add: padp_fragments.simps drop_replicate)
qed

text \<open>C14: when no packet waits on the port and the device never answers, or its answers to a packet
  begin with a tickle, \<open>padp_tx\<close> sends the first packet ten times, marks the connection as broken and
  reports a disconnection: it always returns. An acknowledgement behind a tickle is not seen, because the tickle stays at the front of
  the buffer that is looked at.\<close>

theorem padp_tx_gives_up:
  assumes "all_alloc env" "unheard react" "packets_wait env (os_of s) (serial_of s) []"
    "padp_type (padp_of s) \<noteq> padTickle"
  shows "\<exists>t. padp_tx env (serial_stack grain react env) s msg 0 = Some (t, PI_ERR_SOCK_DISCONNECTED) \<and>
     state_of t = PI_SOCK_CONN_BREAK \<and>
     packets_sent (os_of t) = packets_sent (os_of s) @ replicate PI_PADP_TX_RETRIES
       (padp_info (padp_txid (padp_of (padp_tx_txid s))), hd (padp_fragments (padp_of (padp_tx_txid s)) PADP_FL_FIRST 0 msg))"
  by (rule slp_link.tx_unheard) (use assms in \<open>simp_all add: PI_MSG_PEEK_def\<close>)

theorem padp_tx_gives_up_witness:
  "\<exists>t. padp_tx calloc_env (serial_stack (\<lambda>_. 7) tickling calloc_env) (packet_sock [] ()) [1, 2, 3] 0 = Some (t, PI_ERR_SOCK_DISCONNECTED) \<and>
     state_of t = PI_SOCK_CONN_BREAK \<and> length (packets_sent (os_of t)) = 10"
proof -
  have "unheard tickling"
    using ack_length by (auto simp: unheard_def tickling_def acking_def is_tickle_def is_long_def PADP_FL_LONG_def
        split: option.splits intro: order_trans[of _ 6])
  from padp_tx_gives_up[OF _ this, of calloc_env "packet_sock [] ()" "\<lambda>_. 7" "[1, 2, 3]"]
  show ?thesis using packet_sock_waits[of "[]" "()"] by (auto simp: padTickle_def PI_PADP_TX_RETRIES_def)
qed

text \<open>C13: \<open>padp_rx\<close> puts the message together from the packets that \<open>padp_tx\<close> sends it in, whether they
  wait on the port or come as answers to the acknowledgements: it delivers the message, acknowledges
  each packet once and in order, and moves to the next transaction.\<close>

theorem padp_rx_delivers_message:
  assumes "all_alloc env" "goes_on react stream" "stream (device_state (os_of s)) L"
    "packets_wait env (os_of s) (serial_of s) (map (Pair i) (take 1 frags) @ ps)" "map (Pair i) (drop 1 frags) = ps @ L"
    "frags = padp_fragments pd PADP_FL_FIRST 0 msg" "padp_use_long_format pd = 0" "padp_type pd = padData"
    "length msg \<le> 0xffff" "si_type i = 2" "si_txid i = padp_txid (padp_of s)" "pi_buffer_wf buf"
  shows "\<exists>t buf'. padp_rx (packet_os grain react) env (serial_stack grain react env) s buf expect 0 = Some (t, buf', int (length msg)) \<and>
     pi_buffer_wf buf' \<and> content buf' = content buf @ msg \<and>
     (\<exists>e. same_but_ack (padp_of (padp_rx_txid s)) e \<and> padp_of t = e\<lparr>padp_txid := ucast (padp_next_txid e)\<rparr>) \<and>
     packets_wait env (os_of t) (serial_of t) [] \<and> state_of t = state_of s \<and>
     packets_sent (os_of t) = packets_sent (os_of s) @ acks_of (padp_txid (padp_of s)) frags"
  by (rule slp_link.rx_whole[OF assms]) (simp add: PI_MSG_PEEK_def)

theorem padp_rx_delivers_message_witness:
  "\<exists>t buf'. padp_rx (packet_os (\<lambda>_. 7) sending) calloc_env (serial_stack (\<lambda>_. 7) sending calloc_env)
      (packet_sock [(padp_info 0xff, hd (padp_fragments (padp_protocol_data 0 undefined) PADP_FL_FIRST 0 (replicate 2000 9)))]
         (map (Pair (padp_info 0xff)) (tl (padp_fragments (padp_protocol_data 0 undefined) PADP_FL_FIRST 0 (replicate 2000 9)))))
      (buf_of [5]) 5000 0 = Some (t, buf', 2000) \<and> content buf' = 5 # replicate 2000 9"
proof -
  let ?i = "padp_info 0xff" and ?pd = "padp_protocol_data 0 undefined" and ?m = "replicate 2000 9 :: bytes"
  define frags where "frags = padp_fragments ?pd PADP_FL_FIRST 0 ?m"
  let ?L = "map (Pair ?i) (drop 1 frags)"
  let ?s = "packet_sock [(?i, hd frags)] ?L"
  have pd: "padp_use_long_format ?pd = 0" "padp_type ?pd = padData" by (simp_all add: padp_protocol_data_def)
  have h: "[hd frags] = take 1 frags" by (simp add: frags_def take_Suc padp_fragments_nonempty)
  have "length (hd frags) \<le> 1028" unfolding frags_def fragment_head using pd(1) by (simp add: padp_header_length)
  then have w: "packets_wait calloc_env (os_of ?s) (serial_of ?s) (map (Pair ?i) (take 1 frags) @ [])"
    using packet_sock_waits[of "[(?i, hd frags)]" ?L] h[symmetric] by simp
  have go: "goes_on sending (=)" unfolding goes_on_def sending_def by (auto simp: neq_Nil_conv) (metis append_take_drop_id drop0 drop_Suc)
  have "\<exists>t buf'. padp_rx (packet_os (\<lambda>_. 7) sending) calloc_env (serial_stack (\<lambda>_. 7) sending calloc_env) ?s (buf_of [5]) 5000 0 =
      Some (t, buf', int (length ?m)) \<and> pi_buffer_wf buf' \<and> content buf' = content (buf_of [5]) @ ?m \<and>
     (\<exists>e. same_but_ack (padp_of (padp_rx_txid ?s)) e \<and> padp_of t = e\<lparr>padp_txid := ucast (padp_next_txid e)\<rparr>) \<and>
     packets_wait calloc_env (os_of t) (serial_of t) [] \<and> state_of t = state_of ?s \<and>
     packets_sent (os_of t) = packets_sent (os_of ?s) @ acks_of (padp_txid (padp_of ?s)) frags"
    by (rule padp_rx_delivers_message[OF _ go _ w _ frags_def pd, of ?L]) (simp_all add: padp_info_def)
  then show ?thesis by (auto simp: frags_def drop_Suc)
qed

end
