(* ===== verification/Net.thy ===== *)
theory Net
  imports Padp
begin

text \<open>
  The NET protocol, \<open>libpisock/net.c\<close>, which carries DLP over USB, Bluetooth and TCP/IP: a header of
  six bytes before each message, tickles between them, and the handshake at the start. The time
  limit that \<open>net_rx\<close> sets is the option \<open>PI_DEV_TIMEOUT\<close> of the device. None is an access outside an
  object, or a loop that does not end.
\<close>

definition PI_NET_HEADER_LEN :: nat where "PI_NET_HEADER_LEN = 6"
definition PI_NET_OFFSET_TYPE :: nat where "PI_NET_OFFSET_TYPE = 0"
definition PI_NET_OFFSET_TXID :: nat where "PI_NET_OFFSET_TXID = 1"
definition PI_NET_OFFSET_SIZE :: nat where "PI_NET_OFFSET_SIZE = 2"
definition PI_NET_TYPE_DATA :: int where "PI_NET_TYPE_DATA = 1"
definition PI_NET_TYPE_TCKL :: int where "PI_NET_TYPE_TCKL = 2"
definition PI_NET_TIMEOUT :: int where "PI_NET_TIMEOUT = 30 * 1000"

lemmas net_const_defs = PI_NET_HEADER_LEN_def PI_NET_OFFSET_TYPE_def PI_NET_OFFSET_TXID_def PI_NET_OFFSET_SIZE_def
  PI_NET_TYPE_DATA_def PI_NET_TYPE_TCKL_def PI_NET_TIMEOUT_def

definition net_protocol_data :: pi_net_data where
  "net_protocol_data = \<lparr>net_type = PI_NET_TYPE_DATA, net_split_writes = 1, net_write_chunksize = 4096, net_txid = 0\<rparr>"

section \<open>Sending\<close>

definition net_header :: "pi_net_data \<Rightarrow> nat \<Rightarrow> bytes" where
  "net_header d len =
     [word_of_int (net_type d), if net_type d = PI_NET_TYPE_TCKL then 0xff else net_txid d] @ set_long (of_nat len)"

text \<open>The loop that writes the rest of the block \<open>buf\<close>; \<open>Inl\<close> is a return out of it.\<close>

partial_function (option) net_tx_loop ::
  "'o pi_protocol \<Rightarrow> int \<Rightarrow> bytes \<Rightarrow> 'o psock \<Rightarrow> nat \<Rightarrow> int \<Rightarrow> ('o psock \<times> int option) option" where
  "net_tx_loop nxt flags buf sk offset remain =
     (if remain > 0 then do {
        let chunk = net_write_chunksize (net_of sk);
        let tosend = (if chunk \<noteq> 0 then (if nat remain > chunk then chunk else nat remain) else nat remain);
        bs \<leftarrow> get_block tosend buf offset;
        (sk, bytes) \<leftarrow> prot_write nxt sk bs flags;
        if bytes < int tosend then Some (sk, Some bytes)
        else net_tx_loop nxt flags buf sk (offset + nat bytes) (remain - bytes) }
      else Some (sk, None))"

definition net_tx :: "heap_env \<Rightarrow> 'o pi_protocol \<Rightarrow> 'o psock \<Rightarrow> bytes \<Rightarrow> int \<Rightarrow> ('o psock \<times> int) option" where
  "net_tx env nxt sk msg flags =
     (let len = length msg in
      case malloc env (PI_NET_HEADER_LEN + len) of
        None \<Rightarrow> Some (pi_set_error sk PI_ERR_GENERIC_MEMORY)
      | Some buf \<Rightarrow> do {
          buf \<leftarrow> poke buf PI_NET_OFFSET_TYPE (net_header (net_of sk) len);
          buf \<leftarrow> poke buf PI_NET_HEADER_LEN msg;
          (sk, r, offset, remain) \<leftarrow>
            (if net_split_writes (net_of sk) \<noteq> 0 then do {
               h \<leftarrow> get_block PI_NET_HEADER_LEN buf 0;
               (sk, bytes) \<leftarrow> prot_write nxt sk h flags;
               Some (sk, if bytes < int PI_NET_HEADER_LEN then Some bytes else None, PI_NET_HEADER_LEN, to_int (int len)) }
             else Some (sk, None, 0, to_int (int (PI_NET_HEADER_LEN + len))));
          case r of
            Some bytes \<Rightarrow> Some (sk, bytes)
          | None \<Rightarrow> do {
              (sk, r) \<leftarrow> net_tx_loop nxt flags buf sk offset remain;
              case r of Some bytes \<Rightarrow> Some (sk, bytes) | None \<Rightarrow> Some (sk, int len) } })"

section \<open>Receiving\<close>

text \<open>Reading what is left of the header.\<close>

partial_function (option) net_rx_header ::
  "'o pi_protocol \<Rightarrow> int \<Rightarrow> 'o psock \<Rightarrow> pi_buffer \<Rightarrow> int \<Rightarrow> ('o psock \<times> pi_buffer \<times> int option) option" where
  "net_rx_header nxt flags sk header total_bytes =
     (if total_bytes < int PI_NET_HEADER_LEN then do {
        (sk, header, bytes) \<leftarrow> prot_read nxt sk header (nat (int PI_NET_HEADER_LEN - total_bytes)) flags;
        if bytes \<le> 0 then Some (sk, header, Some bytes)
        else net_rx_header nxt flags sk header (total_bytes + bytes) }
      else Some (sk, header, None))"

text \<open>Looking for a packet without header: the bytes read of the header, or None for a packet without
  one, whose header is made up.\<close>

definition net_rx_peek ::
  "'o pi_protocol \<Rightarrow> int \<Rightarrow> 'o psock \<Rightarrow> pi_buffer \<Rightarrow> ('o psock \<times> pi_buffer \<times> (int + int option)) option" where
  "net_rx_peek nxt flags sk header =
     (if net_txid (net_of sk) = 0 then do {
        (sk, header, bytes) \<leftarrow> prot_read nxt sk header 1 flags;
        if bytes \<le> 0 then Some (sk, header, Inl bytes)
        else do {
          d \<leftarrow> data header;
          b \<leftarrow> get_byte d 0;
          if b = 0x90 then do {
            d \<leftarrow> poke d PI_NET_OFFSET_TYPE [word_of_int PI_NET_TYPE_DATA];
            d \<leftarrow> poke d PI_NET_OFFSET_TXID [0x01];
            d \<leftarrow> poke d PI_NET_OFFSET_SIZE (set_long 21);
            Some (sk, header\<lparr>data := Some d\<rparr>, Inr None) }
          else Some (sk, header, Inr (Some bytes)) } }
      else Some (sk, header, Inr (Some 0)))"

text \<open>The loop that skips tickles; the last component is a return out of it.\<close>

partial_function (option) net_rx_start ::
  "'o pi_protocol \<Rightarrow> int \<Rightarrow> 'o psock \<Rightarrow> pi_buffer \<Rightarrow> ('o psock \<times> pi_buffer \<times> int option) option" where
  "net_rx_start nxt flags sk header = do {
     (sk, header, r) \<leftarrow> net_rx_peek nxt flags sk header;
     case r of
       Inl bytes \<Rightarrow> Some (sk, header, Some bytes)
     | Inr None \<Rightarrow> Some (sk, header, None)
     | Inr (Some total_bytes) \<Rightarrow> do {
         (sk, header, r) \<leftarrow> net_rx_header nxt flags sk header total_bytes;
         case r of
           Some bytes \<Rightarrow> Some (sk, header, Some bytes)
         | None \<Rightarrow> do {
             d \<leftarrow> data header;
             size \<leftarrow> get_long d PI_NET_OFFSET_SIZE;
             ty \<leftarrow> get_byte d PI_NET_OFFSET_TYPE;
             let packet_len = to_int (uint size);
             let sk = upd_net (\<lambda>n. n\<lparr>net_type := uint ty\<rparr>) sk;
             if uint ty = PI_NET_TYPE_TCKL then
               (if packet_len \<noteq> 0
                then (let (sk, e) = pi_set_error sk PI_ERR_PROT_BADPACKET in Some (sk, header, Some e))
                else net_rx_start nxt flags sk (header\<lparr>used := 0\<rparr>))
             else if uint ty = PI_NET_TYPE_DATA then Some (sk, header, None)
             else (let (sk, e) = pi_set_error sk PI_ERR_PROT_BADPACKET in Some (sk, header, Some e)) } } }"

partial_function (option) net_rx_data ::
  "'o pi_protocol \<Rightarrow> int \<Rightarrow> int \<Rightarrow> 'o psock \<Rightarrow> pi_buffer \<Rightarrow> int \<Rightarrow> ('o psock \<times> pi_buffer \<times> int option) option" where
  "net_rx_data nxt flags packet_len sk msg total_bytes =
     (if total_bytes < packet_len then do {
        (sk, msg, bytes) \<leftarrow> prot_read nxt sk msg (nat (packet_len - total_bytes)) flags;
        if bytes < 0 then Some (sk, msg, Some bytes)
        else net_rx_data nxt flags packet_len sk msg (total_bytes + bytes) }
      else Some (sk, msg, None))"

definition net_next_txid :: "u8 \<Rightarrow> u8" where
  "net_next_txid x = (if x + 1 = 0xff then 1 else x + 1)"

text \<open>The part of \<open>net_rx\<close> behind the header.\<close>

definition net_rx_body ::
  "'o pi_protocol \<Rightarrow> int \<Rightarrow> 'o psock \<Rightarrow> pi_buffer \<Rightarrow> pi_buffer \<Rightarrow> ('o psock \<times> pi_buffer \<times> int) option" where
  "net_rx_body nxt flags sk header msg = do {
     d \<leftarrow> data header;
     size \<leftarrow> get_long d PI_NET_OFFSET_SIZE;
     let packet_len = to_int (uint size);
     if packet_len < 0 \<or> packet_len > 0x100000 then do {
       (sk, _) \<leftarrow> prot_flush nxt sk PI_FLUSH_INPUT;
       let (sk, e) = pi_set_error sk PI_ERR_PROT_BADPACKET;
       Some (sk, msg, e) }
     else do {
       (sk, msg, r) \<leftarrow> net_rx_data nxt flags packet_len sk msg 0;
       case r of
         Some bytes \<Rightarrow> Some (sk, msg, bytes)
       | None \<Rightarrow> do {
           txid \<leftarrow> get_byte d PI_NET_OFFSET_TXID;
           let sk = upd_net (\<lambda>n. n\<lparr>net_txid :=
             (if state_of sk = PI_SOCK_CONN_INIT \<or> pt_command (sk_world sk) = 1 then txid
              else net_next_txid (net_txid n))\<rparr>) sk;
           Some (sk, msg, packet_len) } } }"

definition net_rx ::
  "heap_env \<Rightarrow> 'o pi_protocol \<Rightarrow> 'o psock \<Rightarrow> pi_buffer \<Rightarrow> nat \<Rightarrow> int \<Rightarrow> ('o psock \<times> pi_buffer \<times> int) option" where
  "net_rx env nxt sk msg len flags =
     (let timeout = (if sk_honor_rx_to sk \<noteq> 0 then PI_NET_TIMEOUT else 0);
          sk = fst (pi_serial_setsockopt sk PI_DEV_TIMEOUT timeout 4) in
      case pi_buffer_new env PI_NET_HEADER_LEN of
        None \<Rightarrow> (let (sk, e) = pi_set_error sk PI_ERR_GENERIC_MEMORY in Some (sk, msg, e))
      | Some header \<Rightarrow> do {
          (sk, header, r) \<leftarrow> net_rx_start nxt flags sk header;
          case r of
            Some bytes \<Rightarrow> Some (sk, msg, bytes)
          | None \<Rightarrow> net_rx_body nxt flags sk header msg })"

definition net_flush :: "'o pi_protocol \<Rightarrow> 'o psock \<Rightarrow> int \<Rightarrow> ('o psock \<times> int) option" where
  "net_flush nxt sk flags = prot_flush nxt sk flags"

definition net_protocol :: "heap_env \<Rightarrow> 'o pi_protocol \<Rightarrow> 'o pi_protocol" where
  "net_protocol env nxt = \<lparr>prot_read = net_rx env nxt, prot_write = net_tx env nxt, prot_flush = net_flush nxt\<rparr>"

section \<open>The handshake\<close>

definition net_rx_msg1 :: bytes where
  "net_rx_msg1 = [0x12, 0x01, 0, 0, 0, 0, 0, 0, 0, 0x20, 0, 0, 0, 0x24, 0xff, 0xff, 0xff, 0xff, 0x3c, 0, 0x3c, 0, 0, 0, 0, 0,
     0, 0, 0, 0, 0xc0, 0xa8, 0xa5, 0x1f, 0x04, 0x27, 0, 0, 0, 0, 0, 0, 0, 0, 0, 0, 0, 0, 0, 0]"
definition net_rx_msg2 :: bytes where
  "net_rx_msg2 = [0x13, 0x01, 0, 0, 0, 0, 0, 0, 0, 0x20, 0, 0, 0, 0x20, 0xff, 0xff, 0xff, 0xff, 0, 0x3c, 0, 0x3c, 0, 0, 0, 0,
     0, 0, 0, 0x01, 0, 0, 0, 0, 0, 0, 0, 0, 0, 0, 0, 0, 0, 0, 0, 0]"
definition net_tx_msg1 :: bytes where
  "net_tx_msg1 = [0x90, 0x01, 0, 0, 0, 0, 0, 0, 0, 0x20, 0, 0, 0, 0x08, 0x01, 0, 0, 0, 0, 0, 0, 0]"
definition net_tx_msg2 :: bytes where
  "net_tx_msg2 = [0x92, 0x01, 0, 0, 0, 0, 0, 0, 0, 0x20, 0, 0, 0, 0x24, 0xff, 0xff, 0xff, 0xff, 0, 0x3c, 0, 0x3c, 0x40, 0, 0, 0,
     0x01, 0, 0, 0, 0xc0, 0xa8, 0xa5, 0x1e, 0x04, 0x01, 0, 0, 0, 0, 0, 0, 0, 0, 0, 0, 0, 0, 0, 0]"
definition net_tx_msg3 :: bytes where
  "net_tx_msg3 = [0x93, 0, 0, 0, 0, 0, 0, 0]"

text \<open>A handshake is a sequence of calls that stops at the first negative result.\<close>

datatype handshake_step = Receive nat | Send bytes

primrec net_handshake ::
  "heap_env \<Rightarrow> 'o pi_protocol \<Rightarrow> handshake_step list \<Rightarrow> 'o psock \<Rightarrow> pi_buffer \<Rightarrow> ('o psock \<times> int) option" where
  "net_handshake env nxt [] sk buffer = Some (sk, 0)"
| "net_handshake env nxt (c # cs) sk buffer = do {
     (sk, buffer, err) \<leftarrow> (case c of
         Receive n \<Rightarrow> net_rx env nxt sk buffer n 0
       | Send msg \<Rightarrow> do { (sk, err) \<leftarrow> net_tx env nxt sk msg 0; Some (sk, buffer, err) });
     if err \<ge> 0 then net_handshake env nxt cs sk buffer else Some (sk, err) }"

definition net_rx_handshake :: "heap_env \<Rightarrow> 'o pi_protocol \<Rightarrow> 'o psock \<Rightarrow> ('o psock \<times> int) option" where
  "net_rx_handshake env nxt sk =
     (case pi_buffer_new env 256 of
        None \<Rightarrow> Some (pi_set_error sk PI_ERR_GENERIC_MEMORY)
      | Some buffer \<Rightarrow>
          net_handshake env nxt [Receive 256, Send net_rx_msg1, Receive 50, Send net_rx_msg2, Receive 8] sk buffer)"

definition net_tx_handshake :: "heap_env \<Rightarrow> 'o pi_protocol \<Rightarrow> 'o psock \<Rightarrow> ('o psock \<times> int) option" where
  "net_tx_handshake env nxt sk =
     (case pi_buffer_new env 256 of
        None \<Rightarrow> Some (pi_set_error sk PI_ERR_GENERIC_MEMORY)
      | Some buffer \<Rightarrow>
          net_handshake env nxt [Send net_tx_msg1, Receive 256, Send net_tx_msg2, Receive 256, Send net_tx_msg3] sk buffer)"

section \<open>Options\<close>

datatype net_option = PI_NET_TYPE | PI_NET_SPLIT_WRITES | PI_NET_WRITE_CHUNKSIZE

definition net_getsockopt :: "'o psock \<Rightarrow> net_option \<Rightarrow> nat \<Rightarrow> 'o psock \<times> int option \<times> int" where
  "net_getsockopt sk name len =
     (if name = PI_NET_TYPE then
        (if len \<noteq> 4 then (let (sk, e) = pi_set_error sk PI_ERR_GENERIC_ARGUMENT in (sk, None, e))
         else (sk, Some (net_type (net_of sk)), 0))
      else (sk, None, 0))"

definition net_option_size :: "net_option \<Rightarrow> nat" where
  "net_option_size name = (if name = PI_NET_WRITE_CHUNKSIZE then 8 else 4)"

definition net_setsockopt :: "'o psock \<Rightarrow> net_option \<Rightarrow> int \<Rightarrow> nat \<Rightarrow> 'o psock \<times> int" where
  "net_setsockopt sk name v len =
     (if len \<noteq> net_option_size name then pi_set_error sk PI_ERR_GENERIC_ARGUMENT
      else (upd_net (\<lambda>d. case name of
                PI_NET_TYPE \<Rightarrow> d\<lparr>net_type := v\<rparr>
              | PI_NET_SPLIT_WRITES \<Rightarrow> d\<lparr>net_split_writes := v\<rparr>
              | PI_NET_WRITE_CHUNKSIZE \<Rightarrow> d\<lparr>net_write_chunksize := nat v\<rparr>) sk, 0))"

end
