(* ===== verification/NetLink.thy ===== *)
theory NetLink
  imports Net SlpProps
begin

text \<open>
  \<open>net_rx\<close> refines a decoder of byte strings over any device with the contract of \<open>byte_link\<close> whose flush
  drops only bytes that were read ahead (\<open>flushing_link\<close>, interpreted on the serial port), and what \<open>net_tx\<close> writes is one
  string of bytes, whatever the options that cut it.
\<close>

section \<open>The decoder\<close>

definition net_len :: "bytes \<Rightarrow> int" where
  "net_len h = (case get_long h 2 of Some v \<Rightarrow> to_int (uint v) | None \<Rightarrow> 0)"

text \<open>Looking for a header behind tickles: the type last seen, the header and the bytes behind it.
  A connection that has no transaction yet may be sent a packet without header, which begins with
  the byte \<open>0x90\<close>: that byte is dropped.\<close>

datatype net_head = Head_starved | Head_bad int bytes | Head_ok int bytes bytes

function find_head :: "bool \<Rightarrow> int \<Rightarrow> bytes \<Rightarrow> net_head" where
  "find_head fresh t bs =
     (if fresh \<and> bs \<noteq> [] \<and> hd bs = 0x90 then Head_ok t ([1, 1] @ set_long 21) (tl bs)
      else if length bs < 6 then Head_starved
      else if bs ! 0 = 2 then (if net_len bs \<noteq> 0 then Head_bad 2 (drop 6 bs) else find_head fresh 2 (drop 6 bs))
      else if bs ! 0 = 1 then Head_ok 1 (take 6 bs) (drop 6 bs)
      else Head_bad (uint (bs ! 0)) (drop 6 bs))"
  by auto
termination by (relation "measure (\<lambda>(fresh, t, bs). length bs)") auto

declare find_head.simps [simp del]

datatype net_outcome = Net_starved | Net_bad int bytes | Net_huge int bytes | Net_packet int u8 bytes bytes

definition net_decode :: "bool \<Rightarrow> int \<Rightarrow> bytes \<Rightarrow> net_outcome" where
  "net_decode fresh t bs = (case find_head fresh t bs of
       Head_starved \<Rightarrow> Net_starved
     | Head_bad t rest \<Rightarrow> Net_bad t rest
     | Head_ok t h rest \<Rightarrow>
         (let n = net_len h in
          if n < 0 \<or> 0x100000 < n then Net_huge t rest
          else if length rest < nat n then Net_starved
          else Net_packet t (h ! 1) (take (nat n) rest) (drop (nat n) rest)))"

section \<open>The contract\<close>

locale flushing_link = byte_link +
  fixes ahead :: nat
  assumes flush_ahead:
    "ok (os_of s) (serial_of s) \<Longrightarrow>
     \<exists>s' r k. prot_flush nxt s PI_FLUSH_INPUT = Some (s', r) \<and> same_stack s s' \<and> ok (os_of s') (serial_of s') \<and>
       k \<le> ahead \<and> pending (os_of s') (serial_of s') = drop k (pending (os_of s) (serial_of s))"

text \<open>What \<open>net_rx\<close> makes of an outcome. An absurd length is followed by a flush, which drops at most the
  \<open>ahead\<close> bytes that the device has read ahead.\<close>

definition net_txid_after :: "'o psock \<Rightarrow> u8 \<Rightarrow> u8" where
  "net_txid_after s x = (if state_of s = PI_SOCK_CONN_INIT \<or> pt_command (sk_world s) = 1 then x
     else net_next_txid (net_txid (net_of s)))"

definition net_delivers ::
  "nat \<Rightarrow> ('o \<Rightarrow> pi_serial_data \<Rightarrow> bytes) \<Rightarrow> ('o \<Rightarrow> pi_serial_data \<Rightarrow> bool) \<Rightarrow> 'o psock \<Rightarrow> pi_buffer \<Rightarrow> net_outcome \<Rightarrow>
   ('o psock \<times> pi_buffer \<times> int) option \<Rightarrow> bool" where
  "net_delivers ahead pending ok s msg outcome m \<longleftrightarrow>
     (let leaves = (\<lambda>rest s'. same_stack s s' \<and> ok (os_of s') (serial_of s') \<and> pending (os_of s') (serial_of s') = rest);
          refused = (\<lambda>t s'. m = Some (fst (pi_set_error (upd_net (\<lambda>n. n\<lparr>net_type := t\<rparr>) s') PI_ERR_PROT_BADPACKET),
                                     msg, PI_ERR_PROT_BADPACKET))
      in case outcome of
           Net_starved \<Rightarrow> lost m
         | Net_bad t rest \<Rightarrow> (\<exists>s'. refused t s' \<and> leaves rest s')
         | Net_huge t rest \<Rightarrow> (\<exists>s' k. refused t s' \<and> k \<le> ahead \<and> leaves (drop k rest) s')
         | Net_packet t x p rest \<Rightarrow>
             (\<exists>s' msg'. m = Some (upd_net (\<lambda>n. n\<lparr>net_type := t, net_txid := net_txid_after s x\<rparr>) s', msg', int (length p)) \<and>
                leaves rest s' \<and> pi_buffer_wf msg' \<and> content msg' = content msg @ p))"

context byte_link
begin

lemma header_rest:
  assumes "good s" "pi_buffer_wf b" "fl \<noteq> PI_MSG_PEEK" "k \<le> 6"
  shows "if 6 - k \<le> length (pend s)
    then \<exists>s' b'. net_rx_header nxt fl s b (int k) = Some (s', b', None) \<and> same_stack s s' \<and> pi_buffer_wf b' \<and>
      content b' = content b @ take (6 - k) (pend s) \<and> pend s' = drop (6 - k) (pend s) \<and> good s' \<and> allocated b \<le> allocated b'
    else net_rx_header nxt fl s b (int k) = None \<or>
      (\<exists>s' b' r. net_rx_header nxt fl s b (int k) = Some (s', b', Some r) \<and> r < 0)"
proof -
  define f where "f = (\<lambda>s b n. net_rx_header nxt fl s b (6 - int n))"
  have H: "PI_NET_HEADER_LEN = 6" by (simp add: PI_NET_HEADER_LEN_def)
  have k: "net_rx_header nxt fl s b (int k) = f s b (6 - k)" using assms(4) by (simp add: f_def of_nat_diff)
  have step: "f s b m = f s' b' (m - k)"
    if "0 < k" "k \<le> m" "prot_read nxt s b m fl = Some (s', b', int k)" for s b m s' b' k
  proof -
    have e: "6 - int (m - k) = 6 - int m + int k" using that(2) by (simp add: of_nat_diff)
    show ?thesis unfolding f_def e using that(1,2)
      by (subst net_rx_header.simps) (simp add: H that(3))
  qed
  have fail: "f s b n = None \<or> (\<exists>s' b' r. f s b n = Some (s', b', Some r) \<and> r < 0)"
    if "0 < n" "lost (prot_read nxt s b n fl)" for s b n
  proof -
    have "f s b n = do { (sk, header, bytes) \<leftarrow> prot_read nxt s b n fl;
        if bytes \<le> 0 then Some (sk, header, Some bytes) else net_rx_header nxt fl sk header (6 - int n + bytes) }"
      unfolding f_def using that(1) by (subst net_rx_header.simps) (simp add: H)
    with that(2)[unfolded lost_def] show ?thesis by (elim disjE exE conjE) simp_all
  qed
  show ?thesis
  proof (cases "6 - k \<le> length (pend s)")
    case True
    have "f t b 0 = Some (t, b, None)" for t b by (subst f_def, subst net_rx_header.simps) (simp add: H)
    moreover obtain s' b' where r: "f s b (6 - k) = f s' b' 0" "same_stack s s'" "pi_buffer_wf b'"
      "content b' = content b @ take (6 - k) (pend s)" "pend s' = drop (6 - k) (pend s)" "good s'" "allocated b \<le> allocated b'"
      using reads_all[of fl f s b "6 - k", OF step assms(1-3) True] by blast
    ultimately have "f s b (6 - k) = Some (s', b', None)" by simp
    with r(2-7) show ?thesis unfolding k if_P[OF True] by blast
  next
    case False
    then have "length (pend s) < 6 - k" by simp
    from reads_starved[of fl f "\<lambda>m. m = None \<or> (\<exists>s' b' r. m = Some (s', b', Some r) \<and> r < 0)" s b "6 - k",
        OF step fail assms(1-3) this]
    show ?thesis unfolding k if_not_P[OF False] by blast
  qed
qed

lemma data_rest:
  assumes "good s" "pi_buffer_wf b" "fl \<noteq> PI_MSG_PEEK"
  shows "if n \<le> length (pend s)
    then \<exists>s' b'. net_rx_data nxt fl (int n) s b 0 = Some (s', b', None) \<and> same_stack s s' \<and> pi_buffer_wf b' \<and>
      content b' = content b @ take n (pend s) \<and> pend s' = drop n (pend s) \<and> good s'
    else net_rx_data nxt fl (int n) s b 0 = None \<or>
      (\<exists>s' b' r. net_rx_data nxt fl (int n) s b 0 = Some (s', b', Some r) \<and> r < 0)"
proof -
  define f where "f = (\<lambda>s b k. net_rx_data nxt fl (int n) s b (int n - int k))"
  have k: "net_rx_data nxt fl (int n) s b 0 = f s b n" by (simp add: f_def)
  have step: "f s b m = f s' b' (m - k)"
    if "0 < k" "k \<le> m" "prot_read nxt s b m fl = Some (s', b', int k)" for s b m s' b' k
  proof -
    have e: "int n - int (m - k) = int n - int m + int k" using that(2) by (simp add: of_nat_diff)
    show ?thesis unfolding f_def e using that(1,2)
      by (subst net_rx_data.simps) (simp add: that(3))
  qed
  have fail: "f s b m = None \<or> (\<exists>s' b' r. f s b m = Some (s', b', Some r) \<and> r < 0)"
    if "0 < m" "lost (prot_read nxt s b m fl)" for s b m
  proof -
    have "f s b m = do { (sk, msg, bytes) \<leftarrow> prot_read nxt s b m fl;
        if bytes < 0 then Some (sk, msg, Some bytes) else net_rx_data nxt fl (int n) sk msg (int n - int m + bytes) }"
      unfolding f_def using that(1) by (subst net_rx_data.simps) simp
    with that(2)[unfolded lost_def] show ?thesis by (elim disjE exE conjE) simp_all
  qed
  show ?thesis
  proof (cases "n \<le> length (pend s)")
    case True
    have "f t b 0 = Some (t, b, None)" for t b by (subst f_def, subst net_rx_data.simps) simp
    moreover obtain s' b' where r: "f s b n = f s' b' 0" "same_stack s s'" "pi_buffer_wf b'"
      "content b' = content b @ take n (pend s)" "pend s' = drop n (pend s)" "good s'"
      using reads_all[of fl f s b n, OF step assms True] by blast
    ultimately have "f s b n = Some (s', b', None)" by simp
    with r(2-6) show ?thesis unfolding k if_P[OF True] by blast
  next
    case False
    then have "length (pend s) < n" by simp
    from reads_starved[of fl f "\<lambda>m. m = None \<or> (\<exists>s' b' r. m = Some (s', b', Some r) \<and> r < 0)" s b n, OF step fail assms this]
    show ?thesis unfolding k if_not_P[OF False] by blast
  qed
qed

lemma peek_header:
  assumes "good s" "pi_buffer_wf b" "content b = []" "fl \<noteq> PI_MSG_PEEK"
    "\<not> (net_txid (net_of s) = 0 \<and> (pend s = [] \<or> hd (pend s) = 0x90))"
  shows "\<exists>s' b' k. net_rx_peek nxt fl s b = Some (s', b', Inr (Some (int k))) \<and> k \<le> 1 \<and> k \<le> length (pend s) \<and>
    same_stack s s' \<and> pi_buffer_wf b' \<and> content b' = take k (pend s) \<and> pend s' = drop k (pend s) \<and> good s' \<and> allocated b \<le> allocated b'"
proof (cases "net_txid (net_of s) = 0")
  case False
  then show ?thesis using assms by (intro exI[of _ s] exI[of _ b] exI[of _ 0]) (simp add: net_rx_peek_def)
next
  case True
  then have p: "pend s \<noteq> []" "hd (pend s) \<noteq> 0x90" using assms(5) by auto
  obtain s1 b1 k where r: "prot_read nxt s b 1 fl = Some (s1, b1, int k)" "same_stack s s1" "pi_buffer_wf b1"
    "0 < k" "k \<le> 1" "content b1 = content b @ take k (pend s)" "pend s1 = drop k (pend s)" "good s1"
    "allocated b \<le> allocated b1"
    using read_some[of s b fl 1] assms p by (metis One_nat_def Suc_leI length_greater_0_conv zero_less_one)
  then have k: "k = 1" by simp
  have c: "content b1 = [hd (pend s)]" using r(6) p(1) assms(3) k by (cases "pend s") auto
  then obtain ys where "data b1 = Some ([hd (pend s)] @ ys)" using content_data[OF r(3)] by blast
  then have "net_rx_peek nxt fl s b = Some (s1, b1, Inr (Some (int 1)))"
    using r(1) p(2) True k by (simp add: net_rx_peek_def mem_simps)
  then show ?thesis using r k assms(3) p(1) by (intro exI[of _ s1] exI[of _ b1] exI[of _ 1]) (auto simp: Suc_le_eq)
qed

lemma net_len_content:
  assumes "6 \<le> length bs"
  shows "\<exists>v. get_long (take 6 bs @ ys) 2 = Some v \<and> net_len bs = to_int (uint v) \<and> net_len (take 6 bs) = to_int (uint v)"
    "get_byte (take 6 bs @ ys) 0 = Some (bs ! 0)" "get_byte (take 6 bs @ ys) 1 = Some (bs ! 1)"
proof -
  obtain a b c d e f r where bs: "bs = a # b # c # d # e # f # r"
    using assms by (auto simp: Suc_le_length_iff eval_nat_numeral)
  show "\<exists>v. get_long (take 6 bs @ ys) 2 = Some v \<and> net_len bs = to_int (uint v) \<and> net_len (take 6 bs) = to_int (uint v)"
    "get_byte (take 6 bs @ ys) 0 = Some (bs ! 0)" "get_byte (take 6 bs @ ys) 1 = Some (bs ! 1)"
    by (simp_all add: bs net_len_def get_long_def mem_simps)
qed

text \<open>The loop that skips tickles finds what \<open>find_head\<close> says.\<close>

lemma type_twice: "upd_net (\<lambda>n. n\<lparr>net_type := t\<rparr>) (upd_net (\<lambda>n. n\<lparr>net_type := u\<rparr>) s) = upd_net (\<lambda>n. n\<lparr>net_type := t\<rparr>) s"
  by (simp add: port_defs)

lemma start_head:
  assumes "good s" "pi_buffer_wf b" "content b = []" "fl \<noteq> PI_MSG_PEEK" "6 \<le> allocated b"
  shows "case find_head (net_txid (net_of s) = 0) (net_type (net_of s)) (pend s) of
       Head_starved \<Rightarrow> net_rx_start nxt fl s b = None \<or> (\<exists>s' b' r. net_rx_start nxt fl s b = Some (s', b', Some r) \<and> r < 0)
     | Head_bad t rest \<Rightarrow> \<exists>s' b'. net_rx_start nxt fl s b =
           Some (fst (pi_set_error (upd_net (\<lambda>n. n\<lparr>net_type := t\<rparr>) s') PI_ERR_PROT_BADPACKET), b', Some PI_ERR_PROT_BADPACKET) \<and>
           same_stack s s' \<and> good s' \<and> pend s' = rest
     | Head_ok t h rest \<Rightarrow> \<exists>s' b' ys. net_rx_start nxt fl s b = Some (upd_net (\<lambda>n. n\<lparr>net_type := t\<rparr>) s', b', None) \<and>
           data b' = Some (h @ ys) \<and> length h = 6 \<and> same_stack s s' \<and> good s' \<and> pend s' = rest"
  using assms
proof (induction "length (pend s)" arbitrary: s b rule: less_induct)
  case less
  let ?fresh = "net_txid (net_of s) = 0" and ?t = "net_type (net_of s)" and ?p = "pend s"
  have keep: "upd_net (\<lambda>n. n\<lparr>net_type := net_type (net_of s')\<rparr>) s' = s'" for s' :: "'a psock" by (simp add: port_defs)
  show ?case
  proof (cases "?fresh \<and> (?p = [] \<or> hd ?p = 0x90)")
    case True
    show ?thesis
    proof (cases "?p = []")
      case empty: True
      then have "prot_read nxt s b 1 fl = None \<or> (\<exists>s' b' r. prot_read nxt s b 1 fl = Some (s', b', r) \<and> r < 0)"
        using read_none[of s b fl 1] less.prems by (simp add: good_def pend_def lost_def)
      then have "net_rx_peek nxt fl s b = None \<or> (\<exists>s' b' r. net_rx_peek nxt fl s b = Some (s', b', Inl r) \<and> r < 0)"
        using True by (auto simp: net_rx_peek_def)
      then have "net_rx_start nxt fl s b = None \<or> (\<exists>s' b' r. net_rx_start nxt fl s b = Some (s', b', Some r) \<and> r < 0)"
        by (subst (1 2) net_rx_start.simps) (elim disjE exE conjE, simp_all)
      then show ?thesis using empty by (simp add: find_head.simps)
    next
      case False
      with True have h: "hd ?p = 0x90" by simp
      obtain s1 b1 k where r: "prot_read nxt s b 1 fl = Some (s1, b1, int k)" "same_stack s s1" "pi_buffer_wf b1"
        "0 < k" "k \<le> 1" "content b1 = content b @ take k ?p" "pend s1 = drop k ?p" "good s1" "allocated b \<le> allocated b1"
        using read_some[of s b fl 1] less.prems False by (metis One_nat_def Suc_leI length_greater_0_conv zero_less_one)
      then have k: "k = 1" by simp
      have c: "content b1 = [0x90]" using r(6) False h less.prems(3) k by (cases "?p") auto
      then obtain ys where d: "data b1 = Some (0x90 # ys)" using content_data[OF r(3), of "[0x90]"] by auto
      then have "5 \<le> length ys" using r(3,9) less.prems(5) by (auto simp: pi_buffer_wf_def)
      then obtain y1 y2 y3 y4 y5 zs where ys: "ys = y1 # y2 # y3 # y4 # y5 # zs"
        by (auto simp: Suc_le_length_iff eval_nat_numeral)
      let ?b = "b1\<lparr>data := Some (([1, 1] @ set_long 21) @ zs)\<rparr>"
      have "net_rx_peek nxt fl s b = Some (s1, ?b, Inr None)"
        using True r(1) k by (simp add: net_rx_peek_def d ys mem_simps poke_def net_const_defs set_long_def)
      then have "net_rx_start nxt fl s b = Some (s1, ?b, None)" by (subst net_rx_start.simps) simp
      moreover have "net_type (net_of s1) = ?t" using same_stackD[OF r(2)] by simp
      ultimately show ?thesis
        using True False h r k keep[of s1] by (subst find_head.simps) (auto intro!: exI[of _ s1] exI[of _ ?b] simp: drop_Suc)
    qed
  next
    case False
    obtain s1 b1 k where pk: "net_rx_peek nxt fl s b = Some (s1, b1, Inr (Some (int k)))" "k \<le> 1" "k \<le> length ?p" "same_stack s s1"
      "pi_buffer_wf b1" "content b1 = take k ?p" "pend s1 = drop k ?p" "good s1" "allocated b \<le> allocated b1"
      using peek_header[OF less.prems(1-4) False] by blast
    note fh = find_head.simps[of ?fresh ?t ?p]
    have nf: "\<not> (?fresh \<and> ?p \<noteq> [] \<and> hd ?p = 0x90)" using False by blast
    have start: "net_rx_start nxt fl s b = do {
         (sk, header, r) \<leftarrow> net_rx_header nxt fl s1 b1 (int k);
         case r of
           Some bytes \<Rightarrow> Some (sk, header, Some bytes)
         | None \<Rightarrow> do {
             d \<leftarrow> data header;
             size \<leftarrow> get_long d PI_NET_OFFSET_SIZE;
             ty \<leftarrow> get_byte d PI_NET_OFFSET_TYPE;
             let packet_len = to_int (uint size);
             let sk = upd_net (\<lambda>n. n\<lparr>net_type := uint ty\<rparr>) sk;
             if uint ty = PI_NET_TYPE_TCKL then
               (if packet_len \<noteq> 0
                then (let (sk, e) = pi_set_error sk PI_ERR_PROT_BADPACKET in Some (sk, header, Some e))
                else net_rx_start nxt fl sk (header\<lparr>used := 0\<rparr>))
             else if uint ty = PI_NET_TYPE_DATA then Some (sk, header, None)
             else (let (sk, e) = pi_set_error sk PI_ERR_PROT_BADPACKET in Some (sk, header, Some e)) } }"
      by (subst net_rx_start.simps) (simp add: pk(1))
    note rest = header_rest[OF pk(8,5) less.prems(4), of k]
    show ?thesis
    proof (cases "length ?p < 6")
      case True
      then have "\<not> 6 - k \<le> length (pend s1)" using pk(2,3,7) by auto
      with rest pk(2) have "net_rx_header nxt fl s1 b1 (int k) = None \<or>
          (\<exists>s' b' r. net_rx_header nxt fl s1 b1 (int k) = Some (s', b', Some r) \<and> r < 0)" by simp
      then have "net_rx_start nxt fl s b = None \<or> (\<exists>s' b' r. net_rx_start nxt fl s b = Some (s', b', Some r) \<and> r < 0)"
        unfolding start by (elim disjE exE conjE) simp_all
      then show ?thesis unfolding fh if_not_P[OF nf] if_P[OF True] net_head.case .
    next
      case long: False
      then have "6 - k \<le> length (pend s1)" using pk(7) by simp
      with rest pk(2) obtain s2 b2 where h: "net_rx_header nxt fl s1 b1 (int k) = Some (s2, b2, None)" "same_stack s1 s2"
        "pi_buffer_wf b2" "content b2 = content b1 @ take (6 - k) (pend s1)" "pend s2 = drop (6 - k) (pend s1)" "good s2"
        "allocated b1 \<le> allocated b2"
        by auto
      have c: "content b2 = take 6 ?p" "pend s2 = drop 6 ?p"
        using h(4,5) pk(2,3,6,7) by (simp_all add: take_add[symmetric])
      have "take 6 ?p \<noteq> []" using long by auto
      then obtain ys where d: "data b2 = Some (take 6 ?p @ ys)" using content_data[OF h(3) c(1)] by blast
      obtain v where v: "get_long (take 6 ?p @ ys) 2 = Some v" "net_len ?p = to_int (uint v)"
        "get_byte (take 6 ?p @ ys) 0 = Some (?p ! 0)"
        using net_len_content[of ?p ys] long by auto
      have st: "same_stack s s2" using pk(4) h(2) by (rule same_stack_trans)
      have start2: "net_rx_start nxt fl s b =
         (let sk = upd_net (\<lambda>n. n\<lparr>net_type := uint (?p ! 0)\<rparr>) s2 in
          if ?p ! 0 = 2 then
            (if net_len ?p \<noteq> 0 then Some (fst (pi_set_error sk PI_ERR_PROT_BADPACKET), b2, Some PI_ERR_PROT_BADPACKET)
             else net_rx_start nxt fl sk (b2\<lparr>used := 0\<rparr>))
          else if ?p ! 0 = 1 then Some (sk, b2, None)
          else Some (fst (pi_set_error sk PI_ERR_PROT_BADPACKET), b2, Some PI_ERR_PROT_BADPACKET))"
      proof -
        have "uint (?p ! 0) = 2 \<longleftrightarrow> ?p ! 0 = 2" "uint (?p ! 0) = 1 \<longleftrightarrow> ?p ! 0 = 1" by (simp_all add: word_uint_eq_iff)
        then show ?thesis
          unfolding start by (simp add: h(1) d v net_const_defs Let_def split_beta cong: if_cong)
      qed
      show ?thesis
      proof (cases "?p ! 0 = 2 \<and> net_len ?p = 0")
        case False
        then show ?thesis
          using h(6) c(2) st d long unfolding fh if_not_P[OF nf] if_not_P[OF long] start2
          by (auto simp: Let_def)
      next
        case True
        let ?s = "upd_net (\<lambda>n. n\<lparr>net_type := 2\<rparr>) s2" and ?b = "b2\<lparr>used := 0\<rparr>"
        have e1: "find_head ?fresh ?t ?p = find_head (net_txid (net_of ?s) = 0) (net_type (net_of ?s)) (pend ?s)"
          using True c(2) same_stackD[OF st] unfolding fh if_not_P[OF nf] if_not_P[OF long] by simp
        have e2: "net_rx_start nxt fl s b = net_rx_start nxt fl ?s ?b" using True unfolding start2 by simp
        have wb: "pi_buffer_wf ?b" "content ?b = []" using h(3) by (auto simp: pi_buffer_wf_def content_def split: option.splits)
        have shorter: "length (pend ?s) < length ?p" using long c(2) by auto
        have ih: "case find_head ?fresh ?t ?p of
             Head_starved \<Rightarrow> net_rx_start nxt fl s b = None \<or> (\<exists>s' b' r. net_rx_start nxt fl s b = Some (s', b', Some r) \<and> r < 0)
           | Head_bad t rest \<Rightarrow> \<exists>s' b'. net_rx_start nxt fl s b =
                 Some (fst (pi_set_error (upd_net (\<lambda>n. n\<lparr>net_type := t\<rparr>) s') PI_ERR_PROT_BADPACKET), b', Some PI_ERR_PROT_BADPACKET) \<and>
                 same_stack ?s s' \<and> good s' \<and> pend s' = rest
           | Head_ok t h rest \<Rightarrow> \<exists>s' b' ys. net_rx_start nxt fl s b = Some (upd_net (\<lambda>n. n\<lparr>net_type := t\<rparr>) s', b', None) \<and>
                 data b' = Some (h @ ys) \<and> length h = 6 \<and> same_stack ?s s' \<and> good s' \<and> pend s' = rest"
          unfolding e1 e2 by (rule less.hyps[OF shorter]) (use wb less.prems(4,5) h(6,7) pk(9) in simp_all)
        have under: "\<exists>s''. upd_net (\<lambda>n. n\<lparr>net_type := t\<rparr>) s' = upd_net (\<lambda>n. n\<lparr>net_type := t\<rparr>) s'' \<and>
            same_stack s s'' \<and> good s'' = good s' \<and> pend s'' = pend s'" if st2: "same_stack ?s s'" for s' t
        proof -
          obtain s'' where "s' = upd_net (\<lambda>n. n\<lparr>net_type := 2\<rparr>) s''" "same_stack s2 s''"
            using same_stack_under_net[OF st2] by blast
          then show ?thesis
            using same_stack_trans[OF st] by (intro exI[of _ s'']) (simp add: type_twice)
        qed
        show ?thesis
          using ih under by (cases "find_head ?fresh ?t ?p") (auto, metis+)
      qed
    qed
  qed
qed

end

lemma same_stack_command: "same_stack s s' \<Longrightarrow> pt_command (sk_world s') = pt_command (sk_world s)"
  by (auto simp: same_stack_def port_defs)

context flushing_link
begin

lemma net_rx_decode:
  assumes "all_alloc env" "pi_buffer_wf msg" "fl \<noteq> PI_MSG_PEEK" "t = net_type (net_of s)"
    "s0 = upd_serial (\<lambda>d. d\<lparr>sd_timeout := (if sk_honor_rx_to s \<noteq> 0 then PI_NET_TIMEOUT else 0)\<rparr>) s" "good s0"
  shows "net_delivers ahead pending ok s0 msg (net_decode (net_txid (net_of s) = 0) t (pend s0)) (net_rx env nxt s msg n fl)"
proof -
  obtain h0 where h0: "pi_buffer_new env PI_NET_HEADER_LEN = Some h0"
    using assms(1) by (simp add: pi_buffer_new_def malloc_def Let_def)
  have wf: "pi_buffer_wf h0" "content h0 = []" "6 \<le> allocated h0"
    using pi_buffer_new_wf[OF h0] h0 by (auto simp: pi_buffer_new_def PI_NET_HEADER_LEN_def Let_def split: option.splits if_splits)
  have rx: "net_rx env nxt s msg n fl = do {
          (sk, header, r) \<leftarrow> net_rx_start nxt fl s0 h0;
          case r of Some bytes \<Rightarrow> Some (sk, msg, bytes) | None \<Rightarrow> net_rx_body nxt fl sk header msg }"
    by (simp add: net_rx_def h0 assms(5) Let_def)
  have net: "net_of s0 = net_of s" by (simp add: assms(5))
  note st = start_head[OF assms(6) wf(1,2) assms(3) wf(3)]
  show ?thesis
  proof (cases "find_head (net_txid (net_of s0) = 0) (net_type (net_of s0)) (pend s0)")
    case Head_starved
    with st have "lost (net_rx env nxt s msg n fl)" unfolding rx by (auto simp: lost_def)
    then show ?thesis using Head_starved by (simp add: net_decode_def net assms(4) net_delivers_def)
  next
    case (Head_bad t' rest)
    with st show ?thesis unfolding rx by (auto simp: net_decode_def net assms(4) net_delivers_def good_def pend_def)
  next
    case (Head_ok t' hb rest)
    define m where "m = net_len hb"
    define x where "x = hb ! 1"
    obtain s1 h1 ys where s1: "net_rx_start nxt fl s0 h0 = Some (upd_net (\<lambda>n. n\<lparr>net_type := t'\<rparr>) s1, h1, None)"
      "data h1 = Some (hb @ ys)" "length hb = 6" "same_stack s0 s1" "good s1" "pend s1 = rest"
      using st unfolding Head_ok net_head.case by blast
    let ?s = "upd_net (\<lambda>n. n\<lparr>net_type := t'\<rparr>) s1"
    obtain v where v: "get_long (hb @ ys) 2 = Some v" "m = to_int (uint v)" "get_byte (hb @ ys) 1 = Some x"
      using net_len_content[of hb ys] s1(3) by (auto simp: m_def x_def)
    have body: "net_rx env nxt s msg n fl =
       (if m < 0 \<or> 0x100000 < m then do {
          (sk, _) \<leftarrow> prot_flush nxt ?s PI_FLUSH_INPUT;
          Some (fst (pi_set_error sk PI_ERR_PROT_BADPACKET), msg, PI_ERR_PROT_BADPACKET) }
        else do {
          (sk, msg, r) \<leftarrow> net_rx_data nxt fl m ?s msg 0;
          case r of
            Some bytes \<Rightarrow> Some (sk, msg, bytes)
          | None \<Rightarrow> Some (upd_net (\<lambda>n. n\<lparr>net_txid := (if state_of sk = PI_SOCK_CONN_INIT \<or> pt_command (sk_world sk) = 1
              then x else net_next_txid (net_txid n))\<rparr>) sk, msg, m) })"
      unfolding rx s1(1) by (simp add: net_rx_body_def s1(2) net_const_defs v(1) v(2)[symmetric] v(3)[unfolded One_nat_def] Let_def split_beta cong: if_cong)
    have dec: "net_decode (net_txid (net_of s) = 0) t (pend s0) =
        (if m < 0 \<or> 0x100000 < m then Net_huge t' rest
         else if length rest < nat m then Net_starved
         else Net_packet t' (x) (take (nat m) rest) (drop (nat m) rest))"
      using Head_ok by (simp add: net_decode_def net assms(4) m_def x_def Let_def)
    consider (huge) "m < 0 \<or> 0x100000 < m" | (short) "0 \<le> m" "m \<le> 0x100000" "length rest < nat m"
      | (whole) "0 \<le> m" "m \<le> 0x100000" "nat m \<le> length rest" by linarith
    then show ?thesis
    proof cases
      case huge
      obtain s2 r k where f: "prot_flush nxt ?s PI_FLUSH_INPUT = Some (s2, r)" "same_stack ?s s2" "good s2"
        "pend s2 = drop k rest" "k \<le> ahead"
        using flush_ahead[of ?s] s1(5,6) by (auto simp: good_def pend_def)
      obtain s3 where s3: "s2 = upd_net (\<lambda>n. n\<lparr>net_type := t'\<rparr>) s3" "same_stack s1 s3"
        using same_stack_under_net[OF f(2)] by blast
      have "same_stack s0 s3" using s1(4) s3(2) by (rule same_stack_trans)
      then show ?thesis
        using huge f(3-5) unfolding body dec by (simp add: f(1) net_delivers_def s3(1)) (auto simp: good_def pend_def)
    next
      case short
      then have "net_rx_data nxt fl m ?s msg 0 = None \<or> (\<exists>s' b' r. net_rx_data nxt fl m ?s msg 0 = Some (s', b', Some r) \<and> r < 0)"
        using data_rest[of ?s msg fl "nat m"] s1(5,6) assms(2,3) by simp
      then have "lost (net_rx env nxt s msg n fl)" using short unfolding body lost_def by (elim disjE exE conjE) simp_all
      then show ?thesis using short unfolding dec by (simp add: net_delivers_def)
    next
      case whole
      then obtain s2 msg' where d: "net_rx_data nxt fl m ?s msg 0 = Some (s2, msg', None)" "same_stack ?s s2" "pi_buffer_wf msg'"
        "content msg' = content msg @ take (nat m) rest" "pend s2 = drop (nat m) rest" "good s2"
        using data_rest[of ?s msg fl "nat m"] s1(5,6) assms(2,3) by auto
      obtain s3 where s3: "s2 = upd_net (\<lambda>n. n\<lparr>net_type := t'\<rparr>) s3" "same_stack s1 s3"
        using same_stack_under_net[OF d(2)] by blast
      have s03: "same_stack s0 s3" using s1(4) s3(2) by (rule same_stack_trans)
      have "net_rx env nxt s msg n fl =
          Some (upd_net (\<lambda>n. n\<lparr>net_type := t', net_txid := net_txid_after s0 (x)\<rparr>) s3, msg', int (length (take (nat m) rest)))"
        using whole same_stackD[OF s03] same_stack_command[OF s03] unfolding body
        by (simp add: d(1) s3(1) net_txid_after_def) (simp add: port_defs)
      then show ?thesis
        using whole d(3-6) s03 unfolding dec by (auto simp: net_delivers_def good_def pend_def s3(1))
    qed
  qed
qed

end

end
