(* ===== verification/NetProps.thy ===== *)
theory NetProps
  imports NetLink
begin

text \<open>
  NET on the serial port: the contract of \<open>NetLink\<close> is interpreted there, what \<open>net_tx\<close> writes is the
  header and the message however the options cut it, and \<open>net_rx\<close> delivers it behind any tickles.
\<close>

section \<open>The port\<close>

interpretation serial_net: flushing_link "pi_serial_protocol (wire_os grain peer) env" wire_pending "wire_held m env keep" m
  for grain peer env keep m
proof (unfold_locales, goal_cases)
  case (1 s)
  obtain t where "s_flush (wire_os grain peer) s PI_FLUSH_INPUT = Some (t, 0)" "same_stack s t" "os_of t = os_of s"
    "serial_of t = (serial_of s)\<lparr>sd_buf_size := 0\<rparr>" using wire_flush by blast
  with 1 show ?case
    by (intro exI[of _ t] exI[of _ 0] exI[of _ "sd_buf_size (serial_of s)"])
      (auto simp: pi_serial_protocol_def wire_held_def wire_pending_def)
qed

section \<open>Sending\<close>

text \<open>A link that takes every block it is given: what has become of the other side, \<open>seen\<close>, depends on
  the bytes alone, however they are cut into blocks.\<close>

locale byte_sink =
  fixes nxt :: "'o pi_protocol" and seen :: "'o psock \<Rightarrow> 'x" and put :: "'x \<Rightarrow> bytes \<Rightarrow> 'x"
  assumes write_all:
      "length b < 2 ^ 31 \<Longrightarrow> \<exists>s'. prot_write nxt s b fl = Some (s', int (length b)) \<and> same_stack s s' \<and>
         seen s' = put (seen s) b"
    and put_append: "put (put x a) b = put x (a @ b)"
    and put_Nil: "put x [] = x"
begin

lemma tx_loop_writes:
  assumes "length buf < 2 ^ 31" "off \<le> length buf"
  shows "\<exists>s'. net_tx_loop nxt fl buf s off (int (length buf - off)) = Some (s', None) \<and> same_stack s s' \<and>
     seen s' = put (seen s) (drop off buf)"
  using assms(2)
proof (induction "length buf - off" arbitrary: s off rule: less_induct)
  case less
  show ?case
  proof (cases "off = length buf")
    case True
    then show ?thesis by (subst net_tx_loop.simps) (simp add: put_Nil)
  next
    case False
    define c where "c = net_write_chunksize (net_of s)"
    define r where "r = length buf - off"
    define n where "n = (if c \<noteq> 0 then (if r > c then c else r) else r)"
    have nn: "(if 0 < c then if c < nat (int r) then c else nat (int r) else nat (int r)) = n" by (simp add: n_def)
    have n: "0 < n" "n \<le> r" using False less.prems by (auto simp: n_def r_def)
    define bs where "bs = take n (drop off buf)"
    have bs: "get_block n buf off = Some bs" "length bs = n"
      using n(2) less.prems by (simp_all add: bs_def get_block_def r_def)
    then have "length bs < 2 ^ 31" using n(2) assms(1) by (simp add: r_def)
    then obtain s1 where s1: "prot_write nxt s bs fl = Some (s1, int n)" "same_stack s s1"
      "seen s1 = put (seen s) bs"
      using write_all[of bs s fl] bs(2) by auto
    have left: "int r - int n = int (length buf - (off + n))" using n(2) by (simp add: r_def of_nat_diff)
    have "\<exists>s'. net_tx_loop nxt fl buf s1 (off + n) (int (length buf - (off + n))) = Some (s', None) \<and> same_stack s1 s' \<and>
        seen s' = put (seen s1) (drop (off + n) buf)"
      using n less.prems by (intro less.hyps) (auto simp: r_def)
    moreover have "net_tx_loop nxt fl buf s off (int r) = net_tx_loop nxt fl buf s1 (off + n) (int (length buf - (off + n)))"
      using n by (subst net_tx_loop.simps)
        (simp add: c_def[symmetric] nn Let_def bs s1(1) left del: of_nat_diff split del: if_split)
    moreover have "bs @ drop (off + n) buf = drop off buf"
      unfolding bs_def by (metis add.commute append_take_drop_id drop_drop)
    ultimately show ?thesis using s1(2,3) unfolding r_def by (auto simp: put_append intro: same_stack_trans)
  qed
qed

lemma tx_writes:
  assumes "all_alloc env" "6 + length msg < 2 ^ 31"
  shows "\<exists>s'. net_tx env nxt s msg fl = Some (s', int (length msg)) \<and> same_stack s s' \<and>
     seen s' = put (seen s) (net_header (net_of s) (length msg) @ msg)"
proof -
  define h where "h = net_header (net_of s) (length msg)"
  have h: "length h = 6" by (simp add: h_def net_header_def)
  obtain m where m: "malloc env (6 + length msg) = Some m" "length m = 6 + length msg"
    using assms(1) by (simp add: malloc_def)
  then obtain r where r: "poke m 0 h = Some (h @ r)" "length r = length msg" by (simp add: poke_def h)
  have p: "poke (h @ r) 6 msg = Some (h @ msg)" using poke_at[of msg r h] r(2) h by simp
  have g: "get_block 6 (h @ msg) 0 = Some h" by (rule get_block_here) (rule h)
  have ti: "to_int (int (length msg)) = int (length msg)" "to_int (int (6 + length msg)) = int (6 + length msg)"
    using assms(2) by (intro to_int_id; simp)+
  note ti = ti ti(2)[simplified]
  note un = net_tx_def Let_def net_const_defs m(1) option.case h_def[symmetric] r(1) Option.bind.simps p g
  show ?thesis
  proof (cases "net_split_writes (net_of s) \<noteq> 0")
    case True
    obtain s1 where s1: "prot_write nxt s h fl = Some (s1, 6)" "same_stack s s1" "seen s1 = put (seen s) h"
      using write_all[of h s fl] h by auto
    obtain s2 where "net_tx_loop nxt fl (h @ msg) s1 6 (int (length msg)) = Some (s2, None)" "same_stack s1 s2"
      "seen s2 = put (seen s1) msg"
      using tx_loop_writes[of "h @ msg" 6 fl s1] assms(2) h by auto
    then show ?thesis
      using s1 True unfolding un by (auto simp: ti put_append intro: same_stack_trans)
  next
    case False
    obtain s2 where "net_tx_loop nxt fl (h @ msg) s 0 (int (6 + length msg)) = Some (s2, None)" "same_stack s s2"
      "seen s2 = put (seen s) (h @ msg)"
      using tx_loop_writes[of "h @ msg" 0 fl s] assms(2) h by auto
    then show ?thesis using False unfolding un by (auto simp: ti)
  qed
qed

end

text \<open>A peer that takes its input byte by byte.\<close>

primrec feed :: "('p \<Rightarrow> u8 \<Rightarrow> 'p \<times> bytes) \<Rightarrow> 'p \<Rightarrow> bytes \<Rightarrow> 'p \<times> bytes" where
  "feed step p [] = (p, [])"
| "feed step p (x # xs) = (let (p, a) = step p x; (p, b) = feed step p xs in (p, a @ b))"

lemma feed_append: "feed step p (xs @ ys) =
  (let (p, a) = feed step p xs; (p, b) = feed step p ys in (p, a @ b))"
  by (induction xs arbitrary: p) (simp_all add: Let_def split: prod.splits)

definition take_bytes :: "('p \<Rightarrow> u8 \<Rightarrow> 'p \<times> bytes) \<Rightarrow> 'p wire \<times> 'k \<Rightarrow> bytes \<Rightarrow> 'p wire \<times> 'k" where
  "take_bytes step x b = (let (w, k) = x; (p, answer) = feed step (wi_peer w) b
     in (\<lparr>wi_in = wi_in w @ answer, wi_peer = p\<rparr>, k))"

definition wire_seen :: "'p wire psock \<Rightarrow> 'p wire \<times> bytes \<times> nat \<times> int" where
  "wire_seen s = (os_of s, sd_buf (serial_of s), sd_buf_size (serial_of s), sd_timeout (serial_of s))"

interpretation serial_sink: byte_sink "pi_serial_protocol (wire_os grain (feed step)) env" wire_seen "take_bytes step"
  for grain env step
proof (unfold_locales, goal_cases)
  case (1 b s fl)
  let ?f = "feed step (wi_peer (os_of s)) b"
  let ?w = "\<lparr>wi_in = wi_in (os_of s) @ snd ?f, wi_peer = fst ?f\<rparr>"
  have loop: "s_write_loop (wire_os grain (feed step)) s b (int (length b)) =
      Some (if b = [] then s else set_os ?w (set_os (os_of s) s), 0)"
  proof (cases "b = []")
    case True
    then show ?thesis by (subst s_write_loop.simps) simp
  next
    case False
    then show ?thesis
      by (subst s_write_loop.simps, subst s_write_loop.simps) (simp add: wire_os_def split_def Let_def)
  qed
  let ?u = "if b = [] then s else set_os ?w (set_os (os_of s) s)"
  let ?t = "upd_serial (\<lambda>d. d\<lparr>sd_tx_bytes := to_int (sd_tx_bytes d + int (length b))\<rparr>) ?u"
  have "same_stack s ?u" by (auto intro: same_stack_trans[OF same_stack_set(2) same_stack_set(2)])
  then have "same_stack s ?t" by (rule same_stack_trans[OF _ same_stack_set(3)])
  moreover have "wire_seen ?t = take_bytes step (wire_seen s) b"
    by (simp add: wire_seen_def take_bytes_def split_def Let_def)
  moreover have "prot_write (pi_serial_protocol (wire_os grain (feed step)) env) s b fl = Some (?t, int (length b))"
    by (simp add: pi_serial_protocol_def s_write_def loop)
  ultimately show ?case by blast
qed (simp_all add: take_bytes_def feed_append Let_def split: prod.splits)

text \<open>A peer that records what it is sent.\<close>

definition recorder :: "bytes \<Rightarrow> bytes \<Rightarrow> bytes \<times> bytes" where
  "recorder p bs = (p @ bs, [])"

lemma recorder_feed: "recorder = feed (\<lambda>p x. (p @ [x], []))"
proof (intro ext)
  show "recorder p bs = feed (\<lambda>p x. (p @ [x], [])) p bs" for p bs
    by (induction bs arbitrary: p) (simp_all add: recorder_def split_def, metis append_Cons append_Nil append_assoc fst_conv)
qed

section \<open>Messages behind tickles\<close>

definition net_tickle :: "u8 \<Rightarrow> bytes" where "net_tickle x = [2, x, 0, 0, 0, 0]"

lemma net_len_header: "length msg < 2 ^ 31 \<Longrightarrow> net_len (net_header d (length msg) @ rest) = int (length msg)"
  by (simp add: net_len_def net_header_def mem_simps unsigned_of_nat take_bit_nat_eq_self to_int_id)

lemma find_head_tickles: "find_head fresh t (concat (map net_tickle xs) @ bs) = find_head fresh (if xs = [] then t else 2) bs"
proof (induction xs arbitrary: t)
  case (Cons x xs)
  have "net_len (net_tickle x @ ys) = 0" for ys
    by (simp add: net_len_def net_tickle_def mem_simps get_long_def to_int_def)
  then have "find_head fresh t (net_tickle x @ ys) = find_head fresh 2 ys" for ys
    by (subst find_head.simps) (simp add: net_tickle_def)
  with Cons.IH show ?case by simp
qed simp

lemma decode_message:
  assumes "net_type d = PI_NET_TYPE_DATA" "length msg \<le> 0x100000"
  shows "net_decode fresh t (concat (map net_tickle xs) @ net_header d (length msg) @ msg @ rest) = Net_packet 1 (net_txid d) msg rest"
proof -
  let ?h = "net_header d (length msg)"
  have h: "length ?h = 6" "?h ! 0 = 1" "?h ! 1 = net_txid d" "hd ?h = 1"
    using assms(1) by (simp_all add: net_header_def net_const_defs)
  then have "hd (?h @ ys) = 1" for ys by (cases ?h) auto
  then have "find_head fresh u (?h @ ys) = Head_ok 1 ?h ys" for u ys
    using h by (subst find_head.simps) (auto simp: nth_append)
  moreover have "net_len ?h = int (length msg)" using net_len_header[of msg d "[]"] assms(2) by simp
  ultimately show ?thesis
    using assms(2) h by (simp add: net_decode_def find_head_tickles)
qed

section \<open>Properties\<close>

text \<open>C15: over a port that delivers its input in pieces of any size, \<open>net_rx\<close> is a decoder of the waiting
  bytes: it skips tickles, refuses a tickle with data, an unknown type and an absurd length (all of
  them leave the bytes behind the header on the port: the flush that follows an absurd length takes
  nothing off a serial port, so that the next packet is looked for there), takes a message without header on a fresh connection, and appends the
  data to the caller's buffer; without enough bytes it ends in an error, or waits for ever when no
  time limit is set.\<close>

theorem net_rx_refines_decoder:
  assumes "all_alloc env" "sd_buf_size (serial_of s) = 0" "pi_buffer_wf msg" "fl \<noteq> PI_MSG_PEEK"
    "to = (if sk_honor_rx_to s \<noteq> 0 then PI_NET_TIMEOUT else 0)"
  shows "net_delivers 0 wire_pending (wire_ok env (wi_peer (os_of s), to)) (upd_serial (\<lambda>d. d\<lparr>sd_timeout := to\<rparr>) s) msg
     (net_decode (net_txid (net_of s) = 0) (net_type (net_of s)) (wi_in (os_of s)))
     (net_rx env (pi_serial_protocol (wire_os grain peer) env) s msg n fl)"
  using serial_net.net_rx_decode[of env msg fl "net_type (net_of s)" s "upd_serial (\<lambda>d. d\<lparr>sd_timeout := to\<rparr>) s" 0 env
      "(wi_peer (os_of s), to)" grain peer n] assms
  by (simp add: serial_link.good_def serial_link.pend_def wire_ok_def wire_pending_def)

theorem net_rx_refines_decoder_witness:
  "net_delivers 0 wire_pending (wire_ok calloc_env ((), PI_NET_TIMEOUT))
     (upd_serial (\<lambda>d. d\<lparr>sd_timeout := PI_NET_TIMEOUT\<rparr>) (port_sock [3, 0, 0, 0, 0, 0, 7] ())) (buf_of []) (Net_bad 3 [7])
     (net_rx calloc_env (pi_serial_protocol (wire_os (\<lambda>_. 2) (\<lambda>p _. (p, []))) calloc_env)
       (port_sock [3, 0, 0, 0, 0, 0, 7] ()) (buf_of []) 0 0)"
proof -
  let ?s = "port_sock [3, 0, 0, 0, 0, 0, 7] ()"
  have k: "sk_honor_rx_to ?s = 1" "net_txid (net_of ?s) = 0" "net_type (net_of ?s) = 1" by (simp_all add: port_sock_def port_defs)
  have "net_decode True 1 [3, 0, 0, 0, 0, 0, 7] = Net_bad 3 [7]"
    by (simp add: net_decode_def find_head.simps)
  then show ?thesis
    using net_rx_refines_decoder[of calloc_env ?s "buf_of []" 0 PI_NET_TIMEOUT "\<lambda>_. 2" "\<lambda>p _. (p, [])" 0] k
    by (simp add: PI_MSG_PEEK_def)
qed

text \<open>C16: what \<open>net_tx\<close> writes to the port is the header and the message, whatever the options that split
  and cut the writes; \<open>net_rx\<close> delivers the message behind any tickles and leaves the bytes behind it on
  the port.\<close>

theorem net_roundtrip:
  assumes "all_alloc env" "length p \<le> 0x100000" "net_type (net_of s') = PI_NET_TYPE_DATA"
    "wi_in (os_of s) = concat (map net_tickle xs) @ net_header (net_of s') (length p) @ p @ rest"
    "sd_buf_size (serial_of s) = 0" "pi_buffer_wf msg" "fl \<noteq> PI_MSG_PEEK"
  shows "(\<exists>t. net_tx env (pi_serial_protocol (wire_os grain recorder) env) s' p fl' = Some (t, int (length p)) \<and>
       wi_peer (os_of t) = wi_peer (os_of s') @ net_header (net_of s') (length p) @ p) \<and>
    (\<exists>t msg'. net_rx env (pi_serial_protocol (wire_os grain' peer) env) s msg n fl = Some (t, msg', int (length p)) \<and>
       wi_in (os_of t) = rest \<and> content msg' = content msg @ p \<and> net_txid (net_of t) = net_txid_after s (net_txid (net_of s')))"
proof (rule conjI)
  have "6 + length p < 2 ^ 31" using assms(2) by simp
  from serial_sink.tx_writes[OF assms(1) this, of grain "\<lambda>p x. (p @ [x], [])" env s' fl'] show
    "\<exists>t. net_tx env (pi_serial_protocol (wire_os grain recorder) env) s' p fl' = Some (t, int (length p)) \<and>
       wi_peer (os_of t) = wi_peer (os_of s') @ net_header (net_of s') (length p) @ p"
    by (auto simp: wire_seen_def take_bytes_def recorder_feed[symmetric]) (simp add: recorder_def)
  define to where "to = (if sk_honor_rx_to s \<noteq> 0 then PI_NET_TIMEOUT else 0)"
  have a: "net_txid_after (upd_serial f s) x = net_txid_after s x" for f x
    by (simp add: net_txid_after_def) (simp add: port_defs)
  from serial_net.net_rx_decode[of env msg fl "net_type (net_of s)" s "upd_serial (\<lambda>d. d\<lparr>sd_timeout := to\<rparr>) s" 0 env
      "(wi_peer (os_of s), to)" grain' peer n] assms(1,5-7)
  have "net_delivers 0 wire_pending (wire_ok env (wi_peer (os_of s), to)) (upd_serial (\<lambda>d. d\<lparr>sd_timeout := to\<rparr>) s) msg
     (net_decode (net_txid (net_of s) = 0) (net_type (net_of s)) (wi_in (os_of s)))
     (net_rx env (pi_serial_protocol (wire_os grain' peer) env) s msg n fl)"
    by (simp add: serial_link.good_def serial_link.pend_def wire_ok_def wire_pending_def to_def)
  then show "\<exists>t msg'. net_rx env (pi_serial_protocol (wire_os grain' peer) env) s msg n fl = Some (t, msg', int (length p)) \<and>
       wi_in (os_of t) = rest \<and> content msg' = content msg @ p \<and> net_txid (net_of t) = net_txid_after s (net_txid (net_of s'))"
    unfolding assms(4) decode_message[OF assms(3,2)] net_delivers_def
    by (auto simp: Let_def wire_ok_def wire_pending_def a)
qed

theorem net_roundtrip_witness:
  "\<exists>t msg'. net_rx calloc_env (pi_serial_protocol (wire_os (\<lambda>_. 4) (\<lambda>p _. (p, []))) calloc_env)
      (port_sock (concat (map net_tickle [9, 9]) @ net_header net_protocol_data 3 @ [7, 8, 9] @ [1]) ()) (buf_of [5]) 0 0 =
      Some (t, msg', 3) \<and> content msg' = [5, 7, 8, 9] \<and> wi_in (os_of t) = [1]"
proof -
  let ?s = "port_sock (concat (map net_tickle [9, 9]) @ net_header net_protocol_data 3 @ [7, 8, 9] @ [1]) ()"
  let ?s' = "port_sock [] []"
  have n: "net_of ?s' = net_protocol_data" by (simp add: port_sock_def port_defs net_protocol_data_def net_const_defs)
  have "net_type (net_of ?s') = PI_NET_TYPE_DATA" unfolding n by (simp add: net_protocol_data_def)
  moreover have "wi_in (os_of ?s) = concat (map net_tickle [9, 9]) @ net_header (net_of ?s') (length [7, 8, 9 :: u8]) @ [7, 8, 9] @ [1]"
    unfolding n by (simp add: eval_nat_numeral)
  ultimately show ?thesis
    using net_roundtrip[of calloc_env "[7, 8, 9]" ?s' ?s "[9, 9]" "[1]" "buf_of [5]" 0 "\<lambda>_. 4" 0 "\<lambda>_. 4" "\<lambda>p _. (p, [])" 0]
    by (fastforce simp: PI_MSG_PEEK_def)
qed

end
