(* ===== verification/Cmp.thy ===== *)
theory Cmp
  imports Padp
begin

text \<open>
  The connection management protocol, \<open>libpisock/cmp.c\<close>: the packets in which the two sides of a
  serial connection agree on a version and a speed. The protocol below (\<open>nxt\<close>) is PADP.
\<close>

definition PI_CMP_HEADER_LEN :: nat where "PI_CMP_HEADER_LEN = 10"
definition PI_CMP_OFFSET_TYPE :: nat where "PI_CMP_OFFSET_TYPE = 0"
definition PI_CMP_OFFSET_FLGS :: nat where "PI_CMP_OFFSET_FLGS = 1"
definition PI_CMP_OFFSET_VERS :: nat where "PI_CMP_OFFSET_VERS = 2"
definition PI_CMP_OFFSET_RESV :: nat where "PI_CMP_OFFSET_RESV = 4"
definition PI_CMP_OFFSET_BAUD :: nat where "PI_CMP_OFFSET_BAUD = 6"
definition PI_CMP_TYPE_WAKE :: u8 where "PI_CMP_TYPE_WAKE = 0x01"
definition PI_CMP_TYPE_INIT :: u8 where "PI_CMP_TYPE_INIT = 0x02"
definition PI_CMP_TYPE_ABRT :: u8 where "PI_CMP_TYPE_ABRT = 0x03"
definition PI_CMP_VERSION :: u32 where "PI_CMP_VERSION = 0x0102"
definition CMP_FL_CHANGE_BAUD_RATE :: u8 where "CMP_FL_CHANGE_BAUD_RATE = 0x80"
definition CMP_FL_LONG_PACKET_SUPPORT :: u8 where "CMP_FL_LONG_PACKET_SUPPORT = 0x10"

lemmas cmp_const_defs = PI_CMP_HEADER_LEN_def PI_CMP_OFFSET_TYPE_def PI_CMP_OFFSET_FLGS_def PI_CMP_OFFSET_VERS_def
  PI_CMP_OFFSET_RESV_def PI_CMP_OFFSET_BAUD_def PI_CMP_TYPE_WAKE_def PI_CMP_TYPE_INIT_def PI_CMP_TYPE_ABRT_def
  PI_CMP_VERSION_def CMP_FL_CHANGE_BAUD_RATE_def CMP_FL_LONG_PACKET_SUPPORT_def

definition cmp_protocol_data :: pi_cmp_data where
  "cmp_protocol_data = \<lparr>cmp_type = 0, cmp_flags = 0, cmp_version = 0, cmp_baudrate = 0\<rparr>"

section \<open>Packets\<close>

text \<open>The ten bytes of \<open>cmp_buf\<close>.\<close>

definition cmp_packet :: "pi_cmp_data \<Rightarrow> bytes" where
  "cmp_packet d =
     set_byte (cmp_type d) @ set_byte (cmp_flags d) @
     set_short (ucast (if cmp_version d > PI_CMP_VERSION then PI_CMP_VERSION else cmp_version d)) @
     set_short 0 @ set_long (word_of_int (cmp_baudrate d))"

definition cmp_tx :: "'o pi_protocol \<Rightarrow> 'o psock \<Rightarrow> int \<Rightarrow> ('o psock \<times> int) option" where
  "cmp_tx nxt sk flags = do {
     let sk = fst (padp_setsockopt sk PI_PADP_TYPE padData 4);
     (sk, bytes) \<leftarrow> prot_write nxt sk (cmp_packet (cmp_of sk)) flags;
     if bytes < 10 then Some (if bytes < 0 then (sk, bytes) else pi_set_error sk PI_ERR_PROT_ABORTED)
     else Some (sk, 0) }"

definition cmp_rx :: "'o pi_protocol \<Rightarrow> 'o psock \<Rightarrow> pi_buffer \<Rightarrow> nat \<Rightarrow> int \<Rightarrow> ('o psock \<times> pi_buffer \<times> int) option" where
  "cmp_rx nxt sk msg len flags = do {
     (sk, msg, bytes) \<leftarrow> prot_read nxt sk msg len flags;
     if bytes < 10 then
       (let (sk, e) = pi_set_error sk (if bytes < 0 then bytes else PI_ERR_PROT_ABORTED) in Some (sk, msg, e))
     else do {
       d \<leftarrow> data msg;
       ty \<leftarrow> get_byte d PI_CMP_OFFSET_TYPE;
       fl \<leftarrow> get_byte d PI_CMP_OFFSET_FLGS;
       v \<leftarrow> get_short d PI_CMP_OFFSET_VERS;
       baud \<leftarrow> get_long d PI_CMP_OFFSET_BAUD;
       Some (upd_cmp (\<lambda>c. c\<lparr>cmp_type := ty, cmp_flags := fl, cmp_version := ucast v, cmp_baudrate := to_int (uint baud)\<rparr>) sk,
             msg, 0) } }"

definition cmp_flush :: "'o pi_protocol \<Rightarrow> 'o psock \<Rightarrow> int \<Rightarrow> ('o psock \<times> int) option" where
  "cmp_flush nxt sk flags = prot_flush nxt sk flags"

definition cmp_protocol :: "'o pi_protocol \<Rightarrow> 'o pi_protocol" where
  "cmp_protocol nxt = \<lparr>prot_read = cmp_rx nxt, prot_write = (\<lambda>sk bs. cmp_tx nxt sk), prot_flush = cmp_flush nxt\<rparr>"

section \<open>The handshake\<close>

definition cmp_init :: "'o pi_protocol \<Rightarrow> 'o psock \<Rightarrow> int \<Rightarrow> ('o psock \<times> int) option" where
  "cmp_init nxt sk baudrate =
     (let sk = upd_cmp (\<lambda>d. d\<lparr>cmp_type := PI_CMP_TYPE_INIT, cmp_flags := CMP_FL_LONG_PACKET_SUPPORT\<rparr>) sk;
          sk = (if baudrate \<noteq> 9600 then upd_cmp (\<lambda>d. d\<lparr>cmp_flags := CMP_FL_CHANGE_BAUD_RATE\<rparr>) sk else sk)
      in cmp_tx nxt (upd_cmp (\<lambda>d. d\<lparr>cmp_baudrate := baudrate\<rparr>) sk) 0)"

definition cmp_abort :: "'o pi_protocol \<Rightarrow> 'o psock \<Rightarrow> int \<Rightarrow> ('o psock \<times> int) option" where
  "cmp_abort nxt sk reason =
     cmp_tx nxt (upd_cmp (\<lambda>d. d\<lparr>cmp_type := PI_CMP_TYPE_ABRT, cmp_flags := word_of_int reason\<rparr>) sk) 0"

definition cmp_wakeup :: "'o pi_protocol \<Rightarrow> 'o psock \<Rightarrow> int \<Rightarrow> ('o psock \<times> int) option" where
  "cmp_wakeup nxt sk maxbaud =
     cmp_tx nxt (upd_cmp (\<lambda>d. d\<lparr>cmp_type := PI_CMP_TYPE_WAKE, cmp_flags := 0, cmp_version := PI_CMP_VERSION,
       cmp_baudrate := maxbaud\<rparr>) sk) 0"

text \<open>The speed that \<open>cmp_rx_handshake\<close> settles on.\<close>

definition cmp_rate :: "int \<Rightarrow> int \<Rightarrow> int \<Rightarrow> int" where
  "cmp_rate establishrate establishhighrate baudrate =
     (if establishrate \<noteq> -1 then
        (if establishrate > baudrate then (if establishhighrate \<noteq> 0 then establishrate else baudrate)
         else establishrate)
      else baudrate)"

definition cmp_rx_handshake ::
  "heap_env \<Rightarrow> 'o pi_protocol \<Rightarrow> 'o psock \<Rightarrow> int \<Rightarrow> int \<Rightarrow> ('o psock \<times> int) option" where
  "cmp_rx_handshake env nxt sk establishrate establishhighrate =
     (case pi_buffer_new env PI_CMP_HEADER_LEN of
        None \<Rightarrow> Some (pi_set_error sk PI_ERR_GENERIC_MEMORY)
      | Some buf \<Rightarrow> do {
          (sk, buf, bytes) \<leftarrow> cmp_rx nxt sk buf PI_CMP_HEADER_LEN 0;
          if bytes < 0 then Some (sk, bytes)
          else if cmp_version (cmp_of sk) AND 0xFF00 = 0x0100 then do {
            let sk = upd_cmp (\<lambda>d. d\<lparr>cmp_baudrate := cmp_rate establishrate establishhighrate (cmp_baudrate d)\<rparr>) sk;
            (sk, bytes) \<leftarrow> cmp_init nxt sk (cmp_baudrate (cmp_of sk));
            Some (sk, if bytes < 0 then bytes else 0) }
          else do {
            (sk, _) \<leftarrow> cmp_abort nxt sk 0x80;
            Some (pi_set_error sk PI_ERR_PROT_INCOMPATIBLE) } })"

section \<open>Options\<close>

datatype cmp_option = PI_CMP_TYPE | PI_CMP_FLAGS | PI_CMP_VERS | PI_CMP_BAUD

definition cmp_option_size :: "cmp_option \<Rightarrow> nat" where
  "cmp_option_size name = (if name = PI_CMP_TYPE \<or> name = PI_CMP_FLAGS then 1 else 4)"

definition cmp_getsockopt :: "'o psock \<Rightarrow> cmp_option \<Rightarrow> nat \<Rightarrow> 'o psock \<times> int option \<times> int" where
  "cmp_getsockopt sk name len =
     (if len \<noteq> cmp_option_size name
      then (let (sk, e) = pi_set_error sk PI_ERR_GENERIC_ARGUMENT in (sk, None, e))
      else (sk, Some (case name of
                  PI_CMP_TYPE \<Rightarrow> uint (cmp_type (cmp_of sk))
                | PI_CMP_FLAGS \<Rightarrow> uint (cmp_flags (cmp_of sk))
                | PI_CMP_VERS \<Rightarrow> uint (cmp_version (cmp_of sk))
                | PI_CMP_BAUD \<Rightarrow> cmp_baudrate (cmp_of sk)), 0))"

text \<open>Setting an option of CMP sets the type of PADP: the option's number is that of \<open>PI_PADP_TYPE\<close>.\<close>

definition cmp_setsockopt :: "'o psock \<Rightarrow> cmp_option \<Rightarrow> int \<Rightarrow> nat \<Rightarrow> 'o psock \<times> int" where
  "cmp_setsockopt sk name v len =
     (if name = PI_CMP_TYPE then
        (if len \<noteq> 4 then pi_set_error sk PI_ERR_GENERIC_ARGUMENT
         else (upd_padp (\<lambda>d. d\<lparr>padp_type := v\<rparr>) sk, 0))
      else (sk, 0))"

end
