(* ===== verification/CmpProps.thy ===== *)
theory CmpProps
  imports Cmp PadpProps
begin

text \<open>
  The handshake of a serial connection, over PADP, the serial link and the port: what the desktop
  sends, and the speed on which both sides agree.
\<close>

lemma cmp_packet_length: "length (cmp_packet c) = 10"
  by (simp add: cmp_packet_def)

definition padp_short :: "u8 \<Rightarrow> bytes \<Rightarrow> bytes" where
  "padp_short ty msg = [ty, 0xC0] @ set_short (of_nat (length msg)) @ msg"

lemma fragments_short:
  assumes "padp_use_long_format pd = 0" "padp_type pd = padData" "length msg \<le> 1024"
  shows "padp_fragments pd PADP_FL_FIRST 0 msg = [padp_short 1 msg]"
  using assms by (subst padp_fragments.simps)
    (simp add: padp_header_bytes padp_short_def padp_const_defs fragment_flags_def)

lemma acks_short: "length msg \<le> 0xffff \<Longrightarrow> acks_of txid [padp_short 1 msg] =
    [(padp_info txid, [2, 0xC0] @ set_short (of_nat (length msg)))]"
  by (simp add: acks_of_def padp_short_def padp_parse_short is_long_def padp_const_defs padp_ack_bytes_def set_byte_def)

text \<open>The packet the other side sent, as \<open>cmp_rx\<close> sees it.\<close>

definition cmp_seen :: "pi_cmp_data \<Rightarrow> pi_cmp_data" where
  "cmp_seen c = c\<lparr>cmp_version := ucast (ucast (if cmp_version c > PI_CMP_VERSION then PI_CMP_VERSION else cmp_version c) :: u16)\<rparr>"

lemma cmp_rx_packet:
  assumes "prot_read nxt s b 10 0 = Some (t, b', 10)" "data b' = Some (cmp_packet c @ ys)"
    "0 \<le> cmp_baudrate c" "cmp_baudrate c < 2 ^ 31"
  shows "cmp_rx nxt s b 10 0 = Some (upd_cmp (\<lambda>_. cmp_seen c) t, b', 0)"
proof -
  have "to_int (uint (word_of_int (cmp_baudrate c) :: u32)) = cmp_baudrate c"
    using assms(3,4) by (simp add: uint_word_of_int to_int_id)
  moreover have "upd_cmp (\<lambda>d. d\<lparr>cmp_type := a, cmp_flags := f, cmp_version := v, cmp_baudrate := r\<rparr>) u =
      upd_cmp (\<lambda>_. \<lparr>cmp_type = a, cmp_flags = f, cmp_version = v, cmp_baudrate = r\<rparr>) u" for a f v r and u :: "'a psock"
    by (simp add: port_defs)
  ultimately show ?thesis
    by (simp add: cmp_rx_def assms(1,2) cmp_const_defs cmp_packet_def set_byte_def mem_simps cmp_seen_def)
      (cases c; simp)
qed

text \<open>The packet with which the handshake answers.\<close>

definition cmp_answer :: "int \<Rightarrow> int \<Rightarrow> pi_cmp_data \<Rightarrow> pi_cmp_data" where
  "cmp_answer rate high c =
     (let r = cmp_rate rate high (cmp_baudrate c)
      in (cmp_seen c)\<lparr>cmp_type := PI_CMP_TYPE_INIT,
           cmp_flags := (if r = 9600 then CMP_FL_LONG_PACKET_SUPPORT else CMP_FL_CHANGE_BAUD_RATE), cmp_baudrate := r\<rparr>)"

lemma cmp_init_answer:
  assumes "cmp_of t = cmp_seen c" "r = cmp_rate rate high (cmp_baudrate c)"
  shows "cmp_init nxt (upd_cmp (\<lambda>d. d\<lparr>cmp_baudrate := cmp_rate rate high (cmp_baudrate d)\<rparr>) t) r =
    cmp_tx nxt (upd_cmp (\<lambda>_. cmp_answer rate high c) t) 0"
proof -
  have "upd_cmp (\<lambda>d. d\<lparr>cmp_baudrate := r\<rparr>) (if r \<noteq> 9600 then upd_cmp (\<lambda>d. d\<lparr>cmp_flags := CMP_FL_CHANGE_BAUD_RATE\<rparr>) u else u) =
      upd_cmp (\<lambda>_. cmp_answer rate high c) t"
    if "u = upd_cmp (\<lambda>d. d\<lparr>cmp_type := PI_CMP_TYPE_INIT, cmp_flags := CMP_FL_LONG_PACKET_SUPPORT\<rparr>)
      (upd_cmp (\<lambda>d. d\<lparr>cmp_baudrate := cmp_rate rate high (cmp_baudrate d)\<rparr>) t)" for u
    using assms unfolding that by (simp add: port_defs cmp_answer_def cmp_seen_def Let_def)
  then show ?thesis by (simp only: cmp_init_def Let_def)
qed

lemma handshake_padp:
  assumes "padp_txid (padp_of s) = 0xff" "padp_freeze_txid (padp_of s) = 0" "padp_use_long_format (padp_of s) = 0"
    "state_of s \<noteq> PI_SOCK_CONN_ACCEPT" "same_but_ack (padp_of (padp_rx_txid s)) e"
    "padp_of t = e\<lparr>padp_txid := ucast (padp_next_txid e), padp_type := padData\<rparr>" "state_of t = state_of s"
  shows "padp_txid (padp_of (padp_tx_txid t)) = 0xff" "padp_use_long_format (padp_of (padp_tx_txid t)) = 0"
    "padp_type (padp_of (padp_tx_txid t)) = padData"
proof -
  have rx: "padp_of (padp_rx_txid s) = (padp_of s)\<lparr>padp_next_txid := 0xff\<rparr>" using assms(1-4) by (simp add: padp_rx_txid_def)
  then obtain x h where "e = (padp_of s)\<lparr>padp_next_txid := 0xff, padp_last_ack_txid := x, padp_last_ack := h\<rparr>"
    using assms(5) unfolding rx same_but_ack_def by auto
  then have e: "padp_txid (padp_of t) = 0xff" "padp_freeze_txid (padp_of t) = 0" "padp_use_long_format (padp_of t) = 0"
    "padp_type (padp_of t) = padData"
    using assms(1-3,6) by simp_all
  then show "padp_txid (padp_of (padp_tx_txid t)) = 0xff" "padp_use_long_format (padp_of (padp_tx_txid t)) = 0"
    "padp_type (padp_of (padp_tx_txid t)) = padData"
    using assms(4,7) by (simp_all add: padp_tx_txid_def Let_def padData_def padWake_def)
qed

text \<open>What the handshake receives, and what it sends.\<close>

lemma handshake_receives:
  assumes "all_alloc env" "\<forall>p i h. snd (react p i (padp_ack_bytes h)) = []"
    "packets_wait env (os_of s) (serial_of s) [(i, padp_short 1 (cmp_packet c))]" "si_type i = 2" "si_txid i = padp_txid (padp_of s)"
    "pi_buffer_wf b" "content b = []" "0 \<le> cmp_baudrate c" "cmp_baudrate c < 2 ^ 31"
  shows "\<exists>t b' e. cmp_rx (padp_protocol (packet_os grain react) env (serial_stack grain react env)) s b 10 0 =
       Some (upd_cmp (\<lambda>_. cmp_seen c) t, b', 0) \<and>
     same_but_ack (padp_of (padp_rx_txid s)) e \<and> padp_of t = e\<lparr>padp_txid := ucast (padp_next_txid e)\<rparr> \<and>
     packets_wait env (os_of t) (serial_of t) [] \<and> state_of t = state_of s \<and>
     packets_sent (os_of t) = packets_sent (os_of s) @ [(padp_info (padp_txid (padp_of s)), [2, 0xC0, 0, 10])]"
proof -
  let ?os = "packet_os grain react" and ?link = "serial_stack grain react env" and ?m = "cmp_packet c"
  let ?pd = "padp_protocol_data 0 undefined" and ?frags = "[padp_short 1 (cmp_packet c)]"
  have pd: "padp_use_long_format ?pd = 0" "padp_type ?pd = padData" by (simp_all add: padp_protocol_data_def)
  have fr: "?frags = padp_fragments ?pd PADP_FL_FIRST 0 ?m"
    using fragments_short[OF pd, of ?m] by (simp add: cmp_packet_length)
  have go: "goes_on react (\<lambda>p L. L = [])" using assms(2) by (simp add: goes_on_def Let_def)
  have w: "packets_wait env (os_of s) (serial_of s) (map (Pair i) (take 1 ?frags) @ [])" using assms(3) by simp
  have l: "length ?m \<le> 0xffff" "(0::int) \<noteq> PI_MSG_PEEK" by (simp_all add: cmp_packet_length PI_MSG_PEEK_def)
  have dr: "map (Pair i) (drop 1 ?frags) = [] @ []" by simp
  from slp_link.rx_whole[OF assms(1) go refl w dr fr pd l(1) assms(4,5,6) l(2), of grain 10]
  obtain t b' e where t: "padp_rx ?os env ?link s b 10 0 = Some (t, b', int (length ?m))" "pi_buffer_wf b'" "content b' = content b @ ?m"
    "same_but_ack (padp_of (padp_rx_txid s)) e" "padp_of t = e\<lparr>padp_txid := ucast (padp_next_txid e)\<rparr>"
    "packets_wait env (os_of t) (serial_of t) []" "state_of t = state_of s"
    "packets_sent (os_of t) = packets_sent (os_of s) @ acks_of (padp_txid (padp_of s)) ?frags"
    by blast
  have "?m \<noteq> []" using cmp_packet_length[of c] by auto
  then obtain ys where d: "data b' = Some (?m @ ys)" using content_data[OF t(2), of ?m] t(3) assms(7) by auto
  have "cmp_rx (padp_protocol ?os env ?link) s b 10 0 = Some (upd_cmp (\<lambda>_. cmp_seen c) t, b', 0)"
    using t(1) by (intro cmp_rx_packet[OF _ d assms(8,9)]) (simp add: padp_protocol_def cmp_packet_length)
  moreover have "acks_of (padp_txid (padp_of s)) ?frags = [(padp_info (padp_txid (padp_of s)), [2, 0xC0, 0, 10])]"
    by (simp add: acks_short cmp_packet_length set_short_def)
  ultimately show ?thesis using t(4-8) by auto
qed

lemma handshake_answers:
  assumes "all_alloc env" "acks react" "packets_wait env (os_of t) (serial_of t) []"
    "padp_txid (padp_of (padp_tx_txid t1)) = 0xff" "padp_use_long_format (padp_of (padp_tx_txid t1)) = 0"
    "padp_type (padp_of (padp_tx_txid t1)) = padData" "t1 = fst (padp_setsockopt t PI_PADP_TYPE padData 4)"
  shows "\<exists>t2. cmp_tx (padp_protocol (packet_os grain react) env (serial_stack grain react env)) t 0 = Some (t2, 0) \<and>
     cmp_of t2 = cmp_of t \<and> packets_sent (os_of t2) = packets_sent (os_of t) @ [(padp_info 0xff, padp_short 1 (cmp_packet (cmp_of t)))]"
proof -
  let ?m = "cmp_packet (cmp_of t)"
  have t1: "os_of t1 = os_of t" "serial_of t1 = serial_of t" "cmp_of t1 = cmp_of t" "padp_type (padp_of t1) = padData"
    by (simp_all add: assms(7) padp_setsockopt_def)
  have fr: "padp_fragments (padp_of (padp_tx_txid t1)) PADP_FL_FIRST 0 ?m = [padp_short 1 ?m]"
    by (rule fragments_short[OF assms(5,6)]) (simp add: cmp_packet_length)
  have w: "packets_wait env (os_of t1) (serial_of t1) []" using assms(3) t1(1,2) by simp
  have l: "(0::int) \<noteq> PI_MSG_PEEK" "length ?m < 2 ^ 31" by (simp_all add: cmp_packet_length PI_MSG_PEEK_def)
  from slp_link.tx_acked[OF assms(1,2) w t1(4) l, of grain]
  obtain t2 where t2: "padp_tx env (serial_stack grain react env) t1 ?m 0 = Some (t2, 10)" "cmp_of t2 = cmp_of t"
    "packets_sent (os_of t2) = packets_sent (os_of t) @ [(padp_info 0xff, padp_short 1 ?m)]"
    using t1 assms(4) fr by (auto simp: cmp_packet_length)
  then show ?thesis
    unfolding cmp_tx_def assms(7)[symmetric] Let_def by (simp add: t1(3) padp_protocol_def)
qed

section \<open>Properties\<close>

text \<open>C17: when a device announces itself with a version 1.x, the handshake acknowledges the packet,
  answers with one that carries the agreed speed, and returns 0; the speed is the wanted one if the
  device can reach it or the caller insists, else the device's.\<close>

theorem cmp_handshake_agrees:
  assumes "all_alloc env" "acks react" "\<forall>p i h. snd (react p i (padp_ack_bytes h)) = []"
    "packets_wait env (os_of s) (serial_of s) [(i, padp_short 1 (cmp_packet c))]" "si_type i = 2" "si_txid i = 0xff"
    "padp_txid (padp_of s) = 0xff" "padp_freeze_txid (padp_of s) = 0" "padp_use_long_format (padp_of s) = 0"
    "state_of s \<noteq> PI_SOCK_CONN_ACCEPT" "cmp_version (cmp_seen c) AND 0xFF00 = 0x0100"
    "0 \<le> cmp_baudrate c" "cmp_baudrate c < 2 ^ 31"
  shows "\<exists>t. cmp_rx_handshake env (padp_protocol (packet_os grain react) env (serial_stack grain react env)) s rate high = Some (t, 0) \<and>
     cmp_baudrate (cmp_of t) = cmp_rate rate high (cmp_baudrate c) \<and>
     packets_sent (os_of t) = packets_sent (os_of s) @
       [(padp_info 0xff, [2, 0xC0, 0, 10]), (padp_info 0xff, padp_short 1 (cmp_packet (cmp_answer rate high c)))]"
proof -
  let ?nxt = "padp_protocol (packet_os grain react) env (serial_stack grain react env)" and ?A = "cmp_answer rate high c"
  obtain b where b: "pi_buffer_new env PI_CMP_HEADER_LEN = Some b" "pi_buffer_wf b" "content b = []"
  proof -
    obtain b where "pi_buffer_new env PI_CMP_HEADER_LEN = Some b"
      using assms(1) by (simp add: pi_buffer_new_def malloc_def PI_CMP_HEADER_LEN_def)
    then show ?thesis using that pi_buffer_new_wf by blast
  qed
  have ix: "si_txid i = padp_txid (padp_of s)" using assms(6,7) by simp
  obtain t b' e where t: "cmp_rx ?nxt s b 10 0 = Some (upd_cmp (\<lambda>_. cmp_seen c) t, b', 0)"
    "same_but_ack (padp_of (padp_rx_txid s)) e" "padp_of t = e\<lparr>padp_txid := ucast (padp_next_txid e)\<rparr>"
    "packets_wait env (os_of t) (serial_of t) []" "state_of t = state_of s"
    "packets_sent (os_of t) = packets_sent (os_of s) @ [(padp_info (padp_txid (padp_of s)), [2, 0xC0, 0, 10])]"
    using handshake_receives[OF assms(1,3,4,5) ix b(2,3) assms(12,13), of grain] by blast
  let ?t = "upd_cmp (\<lambda>_. ?A) (upd_cmp (\<lambda>_. cmp_seen c) t)"
  define t1 where "t1 = fst (padp_setsockopt ?t PI_PADP_TYPE padData 4)"
  have t1: "state_of t1 = state_of s" "padp_of t1 = e\<lparr>padp_txid := ucast (padp_next_txid e), padp_type := padData\<rparr>"
    using t(3,5) by (simp_all add: t1_def padp_setsockopt_def)
  have w: "packets_wait env (os_of ?t) (serial_of ?t) []" using t(4) by simp
  from handshake_answers[OF assms(1,2) w handshake_padp[OF assms(7-10) t(2) t1(2,1)] t1_def, of grain]
  obtain t2 where t2: "cmp_tx ?nxt ?t 0 = Some (t2, 0)" "cmp_of t2 = cmp_of ?t"
    "packets_sent (os_of t2) = packets_sent (os_of ?t) @ [(padp_info 0xff, padp_short 1 (cmp_packet (cmp_of ?t)))]"
    by blast
  have a: "cmp_of ?t = ?A" "os_of ?t = os_of t" by simp_all
  let ?u = "upd_cmp (\<lambda>_. cmp_seen c) t"
  have u: "cmp_of ?u = cmp_seen c" by simp
  have v: "cmp_baudrate (cmp_of (upd_cmp (\<lambda>d. d\<lparr>cmp_baudrate := cmp_rate rate high (cmp_baudrate d)\<rparr>) ?u)) =
      cmp_rate rate high (cmp_baudrate c)"
    by (simp add: cmp_seen_def)
  have "cmp_rx_handshake env ?nxt s rate high = Some (t2, 0)"
    unfolding cmp_rx_handshake_def PI_CMP_HEADER_LEN_def b(1)[unfolded PI_CMP_HEADER_LEN_def] option.case t(1) Option.bind.simps prod.case u Let_def v
      cmp_init_answer[OF u refl] t2(1) if_P[OF assms(11)] by simp
  then show ?thesis
    using t2(2,3)[unfolded a] t(6) assms(7) by (intro exI[of _ t2]) (simp add: cmp_answer_def Let_def)
qed

text \<open>A device for the witness, that acknowledges data and is silent otherwise.\<close>

definition quiet :: "unit \<Rightarrow> slp_info \<Rightarrow> bytes \<Rightarrow> unit \<times> packet list" where
  "quiet p i b = ((), case padp_parse b of Some h \<Rightarrow> if pd_type h = 1 then [(i, padp_ack_bytes h)] else [] | None \<Rightarrow> [])"

theorem cmp_handshake_agrees_witness:
  "\<exists>t. cmp_rx_handshake calloc_env (padp_protocol (packet_os (\<lambda>_. 7) quiet) calloc_env (serial_stack (\<lambda>_. 7) quiet calloc_env))
      (set_state PI_SOCK_LISTEN (packet_sock [(padp_info 0xff, padp_short 1 (cmp_packet
         \<lparr>cmp_type = 1, cmp_flags = 0, cmp_version = 0x0103, cmp_baudrate = 57600\<rparr>))] ())) 115200 0 = Some (t, 0) \<and>
     cmp_baudrate (cmp_of t) = 57600 \<and> length (packets_sent (os_of t)) = 2"
proof -
  let ?c = "\<lparr>cmp_type = 1, cmp_flags = 0, cmp_version = 0x0103, cmp_baudrate = 57600\<rparr> :: pi_cmp_data"
  let ?ps = "[(padp_info 0xff, padp_short 1 (cmp_packet ?c))]"
  let ?s = "set_state PI_SOCK_LISTEN (packet_sock ?ps ())"
  have q: "acks quiet" "\<forall>p i h. snd (quiet p i (padp_ack_bytes h)) = []"
  proof -
    show "acks quiet" by (simp add: acks_def quiet_def)
    have "snd (quiet p i (padp_ack_bytes h)) = []" for p i h
    proof -
      obtain sz where "padp_parse (padp_ack_bytes h @ []) = Some \<lparr>pd_type = 2, pd_flags = pd_flags h, pd_size = sz\<rparr>"
        using ack_parse[of h "[]"] by blast
      then show ?thesis by (simp add: quiet_def)
    qed
    then show "\<forall>p i h. snd (quiet p i (padp_ack_bytes h)) = []" by blast
  qed
  have w: "packets_wait calloc_env (os_of ?s) (serial_of ?s) ?ps"
    using packet_sock_waits[of ?ps "()"] by (simp add: padp_short_def cmp_packet_length)
  have k: "padp_freeze_txid (padp_of ?s) = 0" "padp_use_long_format (padp_of ?s) = 0"
    by (simp_all add: packet_sock_def port_sock_def port_defs)
  have v: "cmp_version (cmp_seen ?c) AND 0xFF00 = 0x0100" by (simp add: cmp_seen_def PI_CMP_VERSION_def)
  have "\<exists>t. cmp_rx_handshake calloc_env (padp_protocol (packet_os (\<lambda>_. 7) quiet) calloc_env (serial_stack (\<lambda>_. 7) quiet calloc_env))
      ?s 115200 0 = Some (t, 0) \<and>
     cmp_baudrate (cmp_of t) = cmp_rate 115200 0 (cmp_baudrate ?c) \<and>
     packets_sent (os_of t) = packets_sent (os_of ?s) @
       [(padp_info 0xff, [2, 0xC0, 0, 10]), (padp_info 0xff, padp_short 1 (cmp_packet (cmp_answer 115200 0 ?c)))]"
    by (rule cmp_handshake_agrees[OF _ q w _ _ _ k _ v])
      (simp_all add: padp_info_def PI_SOCK_LISTEN_def PI_SOCK_CONN_ACCEPT_def)
  then show ?thesis by (auto simp: cmp_rate_def)
qed

end
