(* ===== verification/Sys.thy ===== *)
theory Sys
  imports Slp
begin

text \<open>
  The protocol of the debugger and the console, \<open>libpisock/sys.c\<close>: a layer over SLP that addresses
  every packet to the console and numbers it.
\<close>

definition PI_SLP_TYPE_RDCP :: int where "PI_SLP_TYPE_RDCP = 0"
definition PI_SLP_SOCK_CON :: int where "PI_SLP_SOCK_CON = 1"

definition sys_txid_of :: "'o psock \<Rightarrow> u8" where "sys_txid_of sk = pt_sys_txid (sk_world sk)"

definition set_sys_txid :: "u8 \<Rightarrow> 'o psock \<Rightarrow> 'o psock" where
  "set_sys_txid x = on_port (\<lambda>p. p\<lparr>pt_sys_txid := x\<rparr>)"

definition sys_first_txid :: "u8 \<Rightarrow> u8" where
  "sys_first_txid x = (if x = 0 \<or> x = 0xff then 0x11 else x)"

definition sys_next_txid :: "u8 \<Rightarrow> u8" where
  "sys_next_txid x = sys_first_txid (sys_first_txid x + 1)"

definition sys_address :: "'o psock \<Rightarrow> 'o psock" where
  "sys_address sk =
     (let sk = fst (slp_setsockopt sk PI_SLP_TYPE PI_SLP_TYPE_RDCP 4);
          sk = fst (slp_setsockopt sk PI_SLP_DEST PI_SLP_SOCK_CON 4);
          sk = fst (slp_setsockopt sk PI_SLP_SRC PI_SLP_SOCK_CON 4)
      in fst (slp_setsockopt sk PI_SLP_TXID (uint (sys_txid_of sk)) 1))"

definition sys_tx :: "'o pi_protocol \<Rightarrow> 'o psock \<Rightarrow> bytes \<Rightarrow> int \<Rightarrow> ('o psock \<times> int) option" where
  "sys_tx nxt sk buf flags =
     prot_write nxt (sys_address (set_sys_txid (sys_next_txid (sys_txid_of sk)) sk)) buf flags"

definition sys_rx :: "'o pi_protocol \<Rightarrow> 'o psock \<Rightarrow> pi_buffer \<Rightarrow> nat \<Rightarrow> int \<Rightarrow> ('o psock \<times> pi_buffer \<times> int) option" where
  "sys_rx nxt sk buf len flags = prot_read nxt sk buf len flags"

definition sys_flush :: "'o pi_protocol \<Rightarrow> 'o psock \<Rightarrow> int \<Rightarrow> ('o psock \<times> int) option" where
  "sys_flush nxt sk flags = prot_flush nxt sk flags"

definition sys_protocol :: "'o pi_protocol \<Rightarrow> 'o pi_protocol" where
  "sys_protocol nxt = \<lparr>prot_read = sys_rx nxt, prot_write = sys_tx nxt, prot_flush = sys_flush nxt\<rparr>"

text \<open>A packet never carries the transaction 0 or 255.\<close>

lemma sys_txid_valid: "sys_next_txid x \<noteq> 0 \<and> sys_next_txid x \<noteq> 0xff"
  by (simp add: sys_next_txid_def sys_first_txid_def)

end
