(* ===== verification/Socket.thy ===== *)
theory Socket
  imports Cmp Net Sys DlpDb
begin

text \<open>
  The socket layer, \<open>libpisock/socket.c\<close>: the list of sockets, the queues of protocols and how they
  are built (with the detection of the protocol from the first bytes of the device), reading and
  writing through the queue, options and tickles. A queue is the list of its levels; None is a null
  pointer, which the constructor of a protocol returns when it gets no memory and which is stored
  in the queue unseen. The protocol of a level stands on the rest of the list. Every protocol keeps
  its data in each queue: those of the queue in use are in the port, those of the other queue are
  \<open>so_parked\<close>. CMP and SYS occur in one queue only.
\<close>

definition PI_SOCK_STREAM :: int where "PI_SOCK_STREAM = 0x0010"
definition PI_SOCK_RAW :: int where "PI_SOCK_RAW = 0x0030"
definition PI_CMD_CMP :: int where "PI_CMD_CMP = 0x01"
definition PI_CMD_NET :: int where "PI_CMD_NET = 0x02"
definition PI_CMD_SYS :: int where "PI_CMD_SYS = 0x03"
definition PI_PF_DEV :: int where "PI_PF_DEV = 0x01"
definition PI_PF_SLP :: int where "PI_PF_SLP = 0x02"
definition PI_PF_SYS :: int where "PI_PF_SYS = 0x03"
definition PI_PF_PADP :: int where "PI_PF_PADP = 0x04"
definition PI_PF_NET :: int where "PI_PF_NET = 0x05"
definition PI_PF_DLP :: int where "PI_PF_DLP = 0x06"
definition PI_LEVEL_DEV :: int where "PI_LEVEL_DEV = 0"
definition PI_LEVEL_SLP :: int where "PI_LEVEL_SLP = 1"
definition PI_LEVEL_PADP :: int where "PI_LEVEL_PADP = 2"
definition PI_LEVEL_NET :: int where "PI_LEVEL_NET = 3"
definition PI_LEVEL_SYS :: int where "PI_LEVEL_SYS = 4"
definition PI_LEVEL_CMP :: int where "PI_LEVEL_CMP = 5"
definition PI_LEVEL_SOCK :: int where "PI_LEVEL_SOCK = 7"
definition PI_SOCK_CLOSE :: int where "PI_SOCK_CLOSE = 0x20"

lemmas pf_defs = PI_PF_DEV_def PI_PF_SLP_def PI_PF_SYS_def PI_PF_PADP_def PI_PF_NET_def PI_PF_DLP_def
lemmas level_defs = PI_LEVEL_DEV_def PI_LEVEL_SLP_def PI_LEVEL_PADP_def PI_LEVEL_NET_def PI_LEVEL_SYS_def
  PI_LEVEL_CMP_def PI_LEVEL_SOCK_def

section \<open>Lists of sockets\<close>

text \<open>The elements are sockets, or what stands for them; \<open>sd\<close> reads the descriptor.\<close>

definition sizeof_list_elem :: nat where "sizeof_list_elem = 16"

definition ps_list_append :: "heap_env \<Rightarrow> 's list \<Rightarrow> 's \<Rightarrow> 's list" where
  "ps_list_append env list ps = (if malloc_ok env sizeof_list_elem then list @ [ps] else list)"

fun ps_list_find :: "('s \<Rightarrow> int) \<Rightarrow> 's list \<Rightarrow> int \<Rightarrow> 's option" where
  "ps_list_find sd [] pi_sd = None"
| "ps_list_find sd (ps # list) pi_sd = (if sd ps = pi_sd then Some ps else ps_list_find sd list pi_sd)"

fun ps_list_remove :: "('s \<Rightarrow> int) \<Rightarrow> 's list \<Rightarrow> int \<Rightarrow> 's list" where
  "ps_list_remove sd [] pi_sd = []"
| "ps_list_remove sd (ps # list) pi_sd = (if sd ps = pi_sd then list else ps # ps_list_remove sd list pi_sd)"

definition ps_list_copy :: "heap_env \<Rightarrow> 's list \<Rightarrow> 's list" where
  "ps_list_copy env list = fold (\<lambda>ps new_list. ps_list_append env new_list ps) list []"

section \<open>The socket\<close>

record queue_data =
  qd_slp :: pi_slp_data
  qd_padp :: pi_padp_data
  qd_net :: pi_net_data

text \<open>The kinds of device that the modelled build knows.\<close>

datatype pi_device = PI_SERIAL_DEV | PI_INET_DEV

record 'o pi_socket =
  so_sd :: int
  so_type :: int
  so_protocol :: int
  so_cmd :: int
  so_queue :: "int option list"
  so_cmd_queue :: "int option list"
  so_parked :: queue_data
  so_accept_to :: int
  so_device :: "pi_device option"
  so_addr :: "string option"
  so_sock :: "'o psock"

definition command_of :: "'o pi_socket \<Rightarrow> int" where
  "command_of so = pt_command (sk_world (so_sock so))"

definition current_queue :: "'o pi_socket \<Rightarrow> int option list" where
  "current_queue so = (if command_of so \<noteq> 0 then so_cmd_queue so else so_queue so)"

text \<open>\<open>ps->command = c\<close>: the data in use are those of the other queue when the state changes.\<close>

definition set_command :: "int \<Rightarrow> 'o pi_socket \<Rightarrow> 'o pi_socket" where
  "set_command c so =
     (let sk = on_port (\<lambda>p. p\<lparr>pt_command := c\<rparr>) (so_sock so) in
      if (c \<noteq> 0) = (command_of so \<noteq> 0) then so\<lparr>so_sock := sk\<rparr>
      else so\<lparr>so_parked := \<lparr>qd_slp = slp_of sk, qd_padp = padp_of sk, qd_net = net_of sk\<rparr>,
              so_sock := upd_slp (\<lambda>_. qd_slp (so_parked so)) (upd_padp (\<lambda>_. qd_padp (so_parked so))
                           (upd_net (\<lambda>_. qd_net (so_parked so)) sk))\<rparr>)"

section \<open>Queues of protocols\<close>

text \<open>The constructors: the structure of the protocol and, but for the device, that of its data are
  allocated; None when one of the two is not.\<close>

definition sizeof_pi_protocol :: nat where "sizeof_pi_protocol = 72"

definition sizeof_protocol_data :: "int \<Rightarrow> nat" where
  "sizeof_protocol_data level =
     (if level = PI_LEVEL_SLP then 28 else if level = PI_LEVEL_PADP then 36 else if level = PI_LEVEL_NET then 24
      else if level = PI_LEVEL_CMP then 12 else 1)"

definition new_protocol :: "heap_env \<Rightarrow> int \<Rightarrow> int option" where
  "new_protocol env level =
     (if malloc_ok env sizeof_pi_protocol \<and> (level = PI_LEVEL_DEV \<or> malloc_ok env (sizeof_protocol_data level))
      then Some level else None)"

definition protocol_queue_add :: "heap_env \<Rightarrow> int option list \<Rightarrow> int option \<Rightarrow> int option list" where
  "protocol_queue_add env queue prot =
     (if malloc_ok env (sizeof_ptr * (length queue + 1)) then queue @ [prot] else [])"

definition protocol_cmd_queue_add :: "heap_env \<Rightarrow> int option list \<Rightarrow> int option \<Rightarrow> int option list" where
  "protocol_cmd_queue_add env queue prot =
     (if malloc_ok env (sizeof_ptr * (length queue + 1)) then queue @ [prot] else [])"

text \<open>A protocol of the queue in use is named by its place in it. The search reads the level of every
  entry on its way: it is undefined when it comes to a null pointer.\<close>

fun level_index :: "int option list \<Rightarrow> int \<Rightarrow> nat option option" where
  "level_index [] level = Some None"
| "level_index (None # ls) level = None"
| "level_index (Some l # ls) level =
     (if l = level then Some (Some 0) else map_option (map_option Suc) (level_index ls level))"

definition protocol_queue_find :: "'o pi_socket \<Rightarrow> int \<Rightarrow> nat option option" where
  "protocol_queue_find so level = level_index (current_queue so) level"

text \<open>The entry behind a level; a null pointer there is as good as none.\<close>

definition protocol_queue_find_next :: "'o pi_socket \<Rightarrow> int \<Rightarrow> nat option option" where
  "protocol_queue_find_next so level =
     (let q = current_queue so in do {
        i \<leftarrow> (if q = [] then Some None
             else if level = 0 then Some (Some 0)
             else map_option (map_option Suc) (level_index (butlast q) level));
        Some (case i of None \<Rightarrow> None | Some i \<Rightarrow> if q ! i = None then None else Some i) })"

text \<open>A protocol with nothing below it refuses every call.\<close>

definition invalid_protocol :: "'o pi_protocol" where
  "invalid_protocol = \<lparr>
     prot_read = (\<lambda>sk buf n flags. let (sk, e) = pi_set_error sk PI_ERR_SOCK_INVALID in Some (sk, buf, e)),
     prot_write = (\<lambda>sk bs flags. Some (pi_set_error sk PI_ERR_SOCK_INVALID)),
     prot_flush = (\<lambda>sk flags. Some (pi_set_error sk PI_ERR_SOCK_INVALID))\<rparr>"

text \<open>The functions of the first protocol of a queue; each stands on the next. PADP looks for the device
  to set its time limit and so for every entry on the way to it.\<close>

fun queue_protocol :: "heap_env \<Rightarrow> 'o os \<Rightarrow> int option list \<Rightarrow> 'o pi_protocol option" where
  "queue_protocol env os [] = None"
| "queue_protocol env os (None # queue) = None"
| "queue_protocol env os (Some level # queue) =
     (if level = PI_LEVEL_DEV then Some (pi_serial_protocol os env)
      else if queue = [] \<or> hd queue = None then Some invalid_protocol
      else do {
        nxt \<leftarrow> queue_protocol env os queue;
        if level = PI_LEVEL_SLP then Some (slp_protocol env nxt)
        else if level = PI_LEVEL_PADP then
          Some (if None \<in> set queue
                then (padp_protocol os env nxt)\<lparr>prot_read := \<lambda>sk buf n flags. None, prot_write := \<lambda>sk bs flags. None\<rparr>
                else padp_protocol os env nxt)
        else if level = PI_LEVEL_NET then Some (net_protocol env nxt)
        else if level = PI_LEVEL_SYS then Some (sys_protocol nxt)
        else if level = PI_LEVEL_CMP then Some (cmp_protocol nxt)
        else None })"

section \<open>Detecting the protocol\<close>

text \<open>What the first ten bytes are: \<open>Inl\<close> a protocol, \<open>Inr\<close> the number of bytes to skip.\<close>

definition recognise :: "bytes \<Rightarrow> int + nat" where
  "recognise d =
     (if d ! 0 = PI_SLP_SIG_BYTE1 \<and> d ! 1 = PI_SLP_SIG_BYTE2 \<and> d ! 2 = PI_SLP_SIG_BYTE3 then
        (if sum_list (take 9 d) = d ! 9 then
           (if uint (d ! 3) = PI_SLP_SOCK_DLP \<and> uint (d ! 4) = PI_SLP_SOCK_DLP \<and> uint (d ! 5) = PI_SLP_TYPE_PADP \<and>
               d ! 8 = 0xff
            then Inl PI_PF_PADP else Inr 10)
         else Inr 3)
      else if d ! 0 = 1 \<and> d ! 2 = 0 \<and> d ! 3 = 0 \<and> d ! 4 = 0 \<and> d ! 5 > 0 \<and> d ! 6 = 0x90 then Inl PI_PF_NET
      else if take 10 d = [0x90, 1, 0, 0, 0, 0, 0, 0, 0, 0x20] then Inl PI_PF_NET
      else Inr 1)"

text \<open>The loop; the result is the protocol, or None after an error of the device.\<close>

partial_function (option) detect_loop ::
  "heap_env \<Rightarrow> 'o pi_protocol \<Rightarrow> 'o psock \<Rightarrow> pi_buffer \<Rightarrow> ('o psock \<times> int option) option" where
  "detect_loop env dev sk buf = do {
     (sk, buf, result) \<leftarrow> prot_read dev sk buf 10 PI_MSG_PEEK;
     if result < 0 then Some (sk, None)
     else if result \<noteq> 10 then detect_loop env dev sk (pi_buffer_clear env buf)
     else do {
       d \<leftarrow> data buf;
       d \<leftarrow> get_block 10 d 0;
       case recognise d of
         Inl protocol \<Rightarrow> Some (sk, Some protocol)
       | Inr n \<Rightarrow> do {
           (sk, buf, result) \<leftarrow> prot_read dev sk buf n 0;
           if result < 0 then Some (sk, None)
           else detect_loop env dev sk (pi_buffer_clear env buf) } } }"

definition detect_protocol :: "heap_env \<Rightarrow> 'o pi_protocol \<Rightarrow> 'o psock \<Rightarrow> ('o psock \<times> int) option" where
  "detect_protocol env dev sk = do {
     buf \<leftarrow> pi_buffer_new env 64;
     (sk, protocol) \<leftarrow> detect_loop env dev sk buf;
     Some (sk, case protocol of None \<Rightarrow> PI_PF_PADP | Some p \<Rightarrow> p) }"

text \<open>The levels above the device, and the command protocol (0 leaves it as it is).\<close>

definition queue_levels :: "int \<Rightarrow> int list" where
  "queue_levels protocol =
     (if protocol = PI_PF_PADP then [PI_LEVEL_PADP, PI_LEVEL_SLP]
      else if protocol = PI_PF_SLP then [PI_LEVEL_SLP]
      else if protocol = PI_PF_NET then [PI_LEVEL_NET]
      else if protocol = PI_PF_SYS then [PI_LEVEL_SYS, PI_LEVEL_SLP]
      else [])"

definition cmd_queue_levels :: "int \<Rightarrow> int list" where
  "cmd_queue_levels protocol =
     (if protocol = PI_PF_PADP \<or> protocol = PI_PF_SLP then [PI_LEVEL_CMP, PI_LEVEL_PADP, PI_LEVEL_SLP]
      else if protocol = PI_PF_NET then [PI_LEVEL_NET]
      else [])"

definition command_protocol :: "int \<Rightarrow> int" where
  "command_protocol protocol =
     (if protocol = PI_PF_PADP \<or> protocol = PI_PF_SLP then PI_CMD_CMP
      else if protocol = PI_PF_NET then PI_CMD_NET
      else if protocol = PI_PF_SYS then PI_CMD_SYS
      else 0)"

text \<open>The data of new protocols; \<open>junk\<close> is what is not initialised of PADP's.\<close>

definition new_queue_data :: "u8 \<times> padp \<Rightarrow> queue_data" where
  "new_queue_data junk = \<lparr>qd_slp = slp_protocol_data, qd_padp = padp_protocol_data (fst junk) (snd junk),
     qd_net = net_protocol_data\<rparr>"

definition install_data :: "queue_data \<Rightarrow> 'o psock \<Rightarrow> 'o psock" where
  "install_data q sk = on_port (\<lambda>p. p\<lparr>pt_slp := qd_slp q, pt_padp := qd_padp q, pt_net := qd_net q,
     pt_cmp := cmp_protocol_data, pt_sys_txid := 0\<rparr>) sk"

definition protocol_queue_build ::
  "heap_env \<Rightarrow> 'o os \<Rightarrow> u8 \<times> padp \<Rightarrow> 'o pi_socket \<Rightarrow> bool \<Rightarrow> 'o pi_socket option" where
  "protocol_queue_build env os junk so autodetect =
     (let dev_prot = new_protocol env PI_LEVEL_DEV; dev_cmd_prot = new_protocol env PI_LEVEL_DEV in
      if so_type so = PI_SOCK_RAW then
        Some (so\<lparr>so_queue := protocol_queue_add env (so_queue so) dev_prot,
                 so_cmd_queue := protocol_cmd_queue_add env (so_cmd_queue so) dev_cmd_prot\<rparr>)
      else do {
        (sk, protocol) \<leftarrow>
          (if so_protocol so = PI_PF_DLP then
             (if autodetect then
                (if dev_prot = None then None
                 else detect_protocol env (pi_serial_protocol os env) (so_sock so))
              else Some (so_sock so, PI_PF_PADP))
           else Some (so_sock so, so_protocol so));
        let q = new_queue_data junk;
        let cmd = command_protocol protocol;
        Some (so\<lparr>
          so_queue := foldl (protocol_queue_add env) (so_queue so)
            (map (new_protocol env) (queue_levels protocol) @ [dev_prot]),
          so_cmd_queue := foldl (protocol_cmd_queue_add env) (so_cmd_queue so)
            (map (new_protocol env) (cmd_queue_levels protocol) @ [dev_cmd_prot]),
          so_cmd := (if cmd = 0 then so_cmd so else cmd),
          so_parked := q,
          so_sock := (install_data q sk)\<lparr>sk_cmp := (if cmd = 0 then sk_cmp sk else cmd = PI_CMD_CMP)\<rparr>\<rparr>) })"

section \<open>Reading and writing\<close>

definition pi_send ::
  "heap_env \<Rightarrow> 'o os \<Rightarrow> int option list \<Rightarrow> 'o psock \<Rightarrow> bytes \<Rightarrow> int \<Rightarrow> ('o psock \<times> int) option" where
  "pi_send env os queue sk msg flags =
     (if \<not> is_connected sk then Some (sk, PI_ERR_SOCK_DISCONNECTED)
      else do { p \<leftarrow> queue_protocol env os queue; prot_write p sk msg flags })"

definition pi_recv ::
  "heap_env \<Rightarrow> 'o os \<Rightarrow> int option list \<Rightarrow> 'o psock \<Rightarrow> pi_buffer \<Rightarrow> nat \<Rightarrow> int \<Rightarrow> ('o psock \<times> pi_buffer \<times> int) option" where
  "pi_recv env os queue sk msg len flags =
     (if \<not> is_connected sk then Some (sk, msg, PI_ERR_SOCK_DISCONNECTED)
      else do { p \<leftarrow> queue_protocol env os queue; prot_read p sk msg len flags })"

definition pi_read ::
  "heap_env \<Rightarrow> 'o os \<Rightarrow> int option list \<Rightarrow> 'o psock \<Rightarrow> pi_buffer \<Rightarrow> nat \<Rightarrow> ('o psock \<times> pi_buffer \<times> int) option" where
  "pi_read env os queue sk msg len = pi_recv env os queue sk msg len 0"

definition pi_write :: "heap_env \<Rightarrow> 'o os \<Rightarrow> int option list \<Rightarrow> 'o psock \<Rightarrow> bytes \<Rightarrow> ('o psock \<times> int) option" where
  "pi_write env os queue sk msg = pi_send env os queue sk msg 0"

definition pi_flush :: "heap_env \<Rightarrow> 'o os \<Rightarrow> int option list \<Rightarrow> 'o psock \<Rightarrow> int \<Rightarrow> 'o psock option" where
  "pi_flush env os queue sk flags =
     (if \<not> is_connected sk then Some sk
      else do { p \<leftarrow> queue_protocol env os queue; (sk, _) \<leftarrow> prot_flush p sk flags; Some sk })"

text \<open>What DLP stands on, for a socket with the given queue. The version that a CMP device told is an
  option of its protocol.\<close>

definition socket_transport :: "heap_env \<Rightarrow> 'o os \<Rightarrow> int option list \<Rightarrow> 'o port transport" where
  "socket_transport env os queue = \<lparr>
     tr_read = pi_read env os queue,
     tr_write = pi_write env os queue,
     tr_flush = (\<lambda>sk. pi_flush env os queue sk PI_FLUSH_INPUT),
     tr_cmp_vers = (\<lambda>sk. uint (cmp_version (cmp_of sk)))\<rparr>"

section \<open>Options\<close>

datatype sock_option = PI_SOCK_STATE | PI_SOCK_HONOR_RX_TIMEOUT

datatype any_option =
  Sock_option sock_option | Dev_option dev_option | Slp_option slp_option | Padp_option padp_option |
  Net_option net_option | Cmp_option cmp_option | Sys_option int

fun option_level :: "any_option \<Rightarrow> int" where
  "option_level (Sock_option _) = PI_LEVEL_SOCK"
| "option_level (Dev_option _) = PI_LEVEL_DEV"
| "option_level (Slp_option _) = PI_LEVEL_SLP"
| "option_level (Padp_option _) = PI_LEVEL_PADP"
| "option_level (Net_option _) = PI_LEVEL_NET"
| "option_level (Cmp_option _) = PI_LEVEL_CMP"
| "option_level (Sys_option _) = PI_LEVEL_SYS"

text \<open>The value stored with its length, or nothing.\<close>

definition sized :: "nat \<Rightarrow> 'o psock \<times> int option \<times> int \<Rightarrow> 'o psock \<times> (int \<times> nat) option \<times> int" where
  "sized len r = (let (sk, v, e) = r in (sk, map_option (\<lambda>x. (x, len)) v, e))"

definition pi_getsockopt ::
  "'o pi_socket \<Rightarrow> any_option \<Rightarrow> nat \<Rightarrow> ('o pi_socket \<times> (int \<times> nat) option \<times> int) option" where
  "pi_getsockopt so opt len = do {
     let sk = so_sock so;
     (sk, v, e) \<leftarrow>
       (case opt of
          Sock_option name \<Rightarrow> Some
            (if len \<noteq> 4 then (let (sk, e) = pi_set_error sk PI_ERR_GENERIC_ARGUMENT in (sk, None, e))
             else (sk, Some (case name of PI_SOCK_STATE \<Rightarrow> state_of sk | PI_SOCK_HONOR_RX_TIMEOUT \<Rightarrow> sk_honor_rx_to sk, 4), 0))
        | _ \<Rightarrow> do {
            prot \<leftarrow> protocol_queue_find so (option_level opt);
            Some
              (if prot = None then (let (sk, e) = pi_set_error sk PI_ERR_SOCK_INVALID in (sk, None, e))
               else (case opt of
                       Dev_option name \<Rightarrow> sized len (pi_serial_getsockopt sk name len)
                     | Slp_option name \<Rightarrow> slp_getsockopt sk name len
                     | Padp_option name \<Rightarrow> sized len (padp_getsockopt sk name len)
                     | Net_option name \<Rightarrow> sized len (net_getsockopt sk name len)
                     | Cmp_option name \<Rightarrow> sized len (cmp_getsockopt sk name len)
                     | _ \<Rightarrow> (sk, None, 0))) });
     Some (so\<lparr>so_sock := sk\<rparr>, v, e) }"

definition pi_setsockopt :: "'o pi_socket \<Rightarrow> any_option \<Rightarrow> int \<Rightarrow> nat \<Rightarrow> ('o pi_socket \<times> int) option" where
  "pi_setsockopt so opt v len = do {
     let sk = so_sock so;
     (sk, e) \<leftarrow>
       (case opt of
          Sock_option name \<Rightarrow> Some
            (if len \<noteq> 4 then pi_set_error sk PI_ERR_GENERIC_ARGUMENT
             else ((case name of PI_SOCK_STATE \<Rightarrow> set_state v sk
                               | PI_SOCK_HONOR_RX_TIMEOUT \<Rightarrow> sk\<lparr>sk_honor_rx_to := v\<rparr>), 0))
        | _ \<Rightarrow> do {
            prot \<leftarrow> protocol_queue_find so (option_level opt);
            Some
              (if prot = None then (sk, PI_ERR_SOCK_INVALID)
               else (case opt of
                       Dev_option name \<Rightarrow> pi_serial_setsockopt sk name v len
                     | Slp_option name \<Rightarrow> slp_setsockopt sk name v len
                     | Padp_option name \<Rightarrow> padp_setsockopt sk name v len
                     | Net_option name \<Rightarrow> net_setsockopt sk name v len
                     | Cmp_option name \<Rightarrow> cmp_setsockopt sk name v len
                     | _ \<Rightarrow> (sk, 0))) });
     Some (so\<lparr>so_sock := sk\<rparr>, e) }"

section \<open>Tickles\<close>

text \<open>The type of the next packet before the option is read is the uninitialised \<open>oldtype\<close>; it stays
  so when there is no PADP in the queue.\<close>

definition pi_tickle :: "heap_env \<Rightarrow> 'o os \<Rightarrow> int \<Rightarrow> 'o pi_socket \<Rightarrow> ('o pi_socket \<times> int) option" where
  "pi_tickle env os oldtype so =
     (if \<not> is_connected (so_sock so) then Some (so, PI_ERR_SOCK_DISCONNECTED)
      else if so_cmd so = PI_CMD_CMP then do {
        (so, v, _) \<leftarrow> pi_getsockopt so (Padp_option PI_PADP_TYPE) 4;
        let oldtype = (case v of Some (t, _) \<Rightarrow> t | None \<Rightarrow> oldtype);
        (so, _) \<leftarrow> pi_setsockopt so (Padp_option PI_PADP_TYPE) padTickle 4;
        p \<leftarrow> queue_protocol env os (so_queue so);
        (sk, result) \<leftarrow> prot_write p (so_sock so) [] 0;
        (so, _) \<leftarrow> pi_setsockopt (so\<lparr>so_sock := sk\<rparr>) (Padp_option PI_PADP_TYPE) oldtype 4;
        Some (so, result) }
      else if so_cmd so = PI_CMD_NET then do {
        let so = set_command 1 so;
        (so, _) \<leftarrow> pi_setsockopt so (Net_option PI_NET_TYPE) PI_NET_TYPE_TCKL 4;
        p \<leftarrow> queue_protocol env os (so_cmd_queue so);
        (sk, result) \<leftarrow> prot_write p (so_sock so) [] 0;
        Some (set_command 0 (so\<lparr>so_sock := sk\<rparr>), result) }
      else Some (so, 0))"

end
