(* ===== verification/Connect.thy ===== *)
theory Connect
  imports Socket
begin

text \<open>
  How a connection comes to be: \<open>pi_socket\<close>, \<open>pi_bind\<close>, \<open>pi_listen\<close>, \<open>pi_accept\<close> and \<open>pi_close\<close> of
  \<open>libpisock/socket.c\<close>, and the serial device that does the work, \<open>libpisock/serial.c\<close> with
  \<open>s_open\<close>, \<open>s_changebaud\<close> and \<open>s_close\<close> of \<open>libpisock/unixserial.c\<close>. The system calls are the
  parameter \<open>tty\<close>. A device of another kind is the parameter \<open>inet\<close>. The build is that of Linux
  without USB and Bluetooth. None is an access outside an object, \<open>abort()\<close> or a wait for ever.
\<close>

definition PI_ERR_SOCK_LISTENER :: int where [err_defs]: "PI_ERR_SOCK_LISTENER = -205"

section \<open>The terminal\<close>

text \<open>\<open>ty_open\<close> and \<open>ty_dup2\<close> give a descriptor, negative for a failure; \<open>ty_nodev\<close> says that the
  last failure was \<open>ENODEV\<close>; \<open>ty_setattr\<close> sets the speed.\<close>

record 'o tty =
  ty_open :: "'o \<Rightarrow> string \<Rightarrow> 'o \<times> int"
  ty_nodev :: "'o \<Rightarrow> bool"
  ty_isatty :: "'o \<Rightarrow> int \<Rightarrow> bool"
  ty_getattr :: "'o \<Rightarrow> bool"
  ty_setattr :: "'o \<Rightarrow> int \<Rightarrow> 'o \<times> bool"
  ty_dup2 :: "'o \<Rightarrow> int \<Rightarrow> int \<Rightarrow> 'o \<times> int"
  ty_close :: "'o \<Rightarrow> int \<Rightarrow> 'o"
  ty_delay :: "'o \<Rightarrow> int \<Rightarrow> 'o"

abbreviation on_sock :: "('o psock \<Rightarrow> 'o psock) \<Rightarrow> 'o pi_socket \<Rightarrow> 'o pi_socket" where
  "on_sock f so \<equiv> so\<lparr>so_sock := f (so_sock so)\<rparr>"

definition so_os :: "'o pi_socket \<Rightarrow> 'o" where "so_os so = os_of (so_sock so)"

definition so_error :: "'o pi_socket \<Rightarrow> int \<Rightarrow> 'o pi_socket" where
  "so_error so e = on_sock (\<lambda>sk. fst (pi_set_error sk e)) so"

text \<open>The speeds that a terminal has; any other ends the program.\<close>

definition calcrate :: "int \<Rightarrow> int option" where
  "calcrate baudrate =
     (if baudrate \<in> set [50, 75, 110, 134, 150, 200, 300, 600, 1200, 1800, 2400, 4800, 9600, 19200, 38400, 57600,
        115200, 230400, 460800] then Some baudrate else None)"

text \<open>The descriptor of the terminal replaces the one that the socket was created with.\<close>

definition pi_socket_setsd :: "'o tty \<Rightarrow> 'o pi_socket \<Rightarrow> int \<Rightarrow> 'o pi_socket \<times> int" where
  "pi_socket_setsd tty so pi_sd =
     (let (w, sd) = ty_dup2 tty (so_os so) pi_sd (so_sd so);
          so = on_sock (set_os w) (so\<lparr>so_sd := sd\<rparr>) in
      if sd = -1 then (so_error so PI_ERR_GENERIC_SYSTEM, PI_ERR_GENERIC_SYSTEM)
      else if sd \<noteq> pi_sd then (on_sock (\<lambda>sk. set_os (ty_close tty (os_of sk) pi_sd) sk) so, 0)
      else (so, 0))"

text \<open>The last component: \<open>errno\<close> is \<open>ENODEV\<close>.\<close>

definition s_open :: "'o os \<Rightarrow> 'o tty \<Rightarrow> 'o pi_socket \<Rightarrow> string \<Rightarrow> ('o pi_socket \<times> int \<times> bool) option" where
  "s_open os tty so name =
     (let (w, fd) = ty_open tty (so_os so) name;
          so = on_sock (set_os w) so in
      if fd < 0 then Some (so_error so PI_ERR_GENERIC_SYSTEM, PI_ERR_GENERIC_SYSTEM, ty_nodev tty w)
      else if \<not> ty_isatty tty w fd then
        Some (so_error (on_sock (set_os (ty_close tty w fd)) so) PI_ERR_GENERIC_SYSTEM, PI_ERR_GENERIC_SYSTEM, False)
      else do {
        speed \<leftarrow> calcrate (sd_rate (serial_of (so_sock so)));
        let (w, _) = ty_setattr tty w speed;
        let (w, fl) = os_getfl os w;
        let w = (if fl \<noteq> -1 then os_setfl os w (fl AND NOT O_NONBLOCK) else w);
        let (so, i) = pi_socket_setsd tty (on_sock (set_os w) so) fd;
        Some (so, if i < 0 then i else fd, False) })"

definition s_changebaud :: "'o tty \<Rightarrow> 'o pi_socket \<Rightarrow> ('o pi_socket \<times> int) option" where
  "s_changebaud tty so =
     (if \<not> ty_getattr tty (so_os so) then Some (so_error so PI_ERR_GENERIC_SYSTEM, PI_ERR_GENERIC_SYSTEM)
      else do {
        speed \<leftarrow> calcrate (sd_rate (serial_of (so_sock so)));
        let (w, ok) = ty_setattr tty (so_os so) speed;
        let so = on_sock (set_os w) so;
        if \<not> ok then Some (so_error so PI_ERR_GENERIC_SYSTEM, PI_ERR_GENERIC_SYSTEM)
        else Some (so, 0) })"

definition s_close :: "'o tty \<Rightarrow> 'o pi_socket \<Rightarrow> 'o pi_socket" where
  "s_close tty so = on_sock (\<lambda>sk. set_os (ty_close tty (os_of sk) (so_sd so)) sk) so"

section \<open>The speed of the environment\<close>

definition isdigit :: "char \<Rightarrow> bool" where "isdigit c \<longleftrightarrow> 48 \<le> (of_char c :: nat) \<and> (of_char c :: nat) \<le> 57"
definition isspace :: "char \<Rightarrow> bool" where
  "isspace c \<longleftrightarrow> (of_char c :: nat) = 32 \<or> 9 \<le> (of_char c :: nat) \<and> (of_char c :: nat) \<le> 13"

fun digits :: "int \<Rightarrow> string \<Rightarrow> int" where
  "digits acc [] = acc"
| "digits acc (c # cs) = (if isdigit c then digits (acc * 10 + (of_char c - 48)) cs else acc)"

text \<open>A number that is no \<open>int\<close> is undefined behaviour.\<close>

definition atoi :: "string \<Rightarrow> int option" where
  "atoi s =
     (let s = dropWhile isspace s;
          v = (case s of CHR ''-'' # cs \<Rightarrow> - digits 0 cs | CHR ''+'' # cs \<Rightarrow> digits 0 cs | _ \<Rightarrow> digits 0 s)
      in if - (2 ^ 31) \<le> v \<and> v < 2 ^ 31 then Some v else None)"

text \<open>\<open>PILOTRATE\<close>: an \<open>H\<close> before the number asks for it even when the device is slower.\<close>

definition get_pilot_rate :: "string option \<Rightarrow> int \<Rightarrow> (int \<times> int) option" where
  "get_pilot_rate rate_env establishhighrate =
     (case rate_env of
        None \<Rightarrow> Some (-1, establishhighrate)
      | Some s \<Rightarrow>
          if s \<noteq> [] \<and> hd s = CHR ''H'' then do { r \<leftarrow> atoi (tl s); Some (r, 1) }
          else do { r \<leftarrow> atoi s; Some (r, 0) })"

section \<open>The serial device\<close>

definition sizeof_pi_device :: nat where "sizeof_pi_device = 72"
definition sizeof_pi_serial_data :: nat where "sizeof_pi_serial_data = 424"
definition sizeof_pi_sockaddr :: nat where "sizeof_pi_sockaddr = 258"

text \<open>\<open>buf\<close>: the 256 bytes of the buffer for reading ahead, not initialised.\<close>

definition pi_serial_device :: "heap_env \<Rightarrow> bytes \<Rightarrow> pi_serial_data option" where
  "pi_serial_device env buf =
     (if malloc_ok env sizeof_pi_device \<and> malloc_ok env sizeof_pi_serial_data
      then Some \<lparr>sd_buf = buf, sd_buf_size = 0, sd_rate = -1, sd_establishrate = -1, sd_establishhighrate = -1,
        sd_timeout = 0, sd_rx_bytes = 0, sd_rx_errors = 0, sd_tx_bytes = 0, sd_tx_errors = 0\<rparr>
      else None)"

text \<open>Opening the port; while there is no device behind it, six more times.\<close>

fun bind_open :: "'o os \<Rightarrow> 'o tty \<Rightarrow> string \<Rightarrow> nat \<Rightarrow> 'o pi_socket \<Rightarrow> ('o pi_socket \<times> int) option" where
  "bind_open os tty name n so = do {
     (so, err, nodev) \<leftarrow> s_open os tty so name;
     if err < 0 \<and> nodev then
       (case n of
          0 \<Rightarrow> Some (so, err)
        | Suc n \<Rightarrow> bind_open os tty name n (on_sock (\<lambda>sk. set_os (ty_delay tty (os_of sk) 2000) sk) so))
     else Some (so, err) }"

declare bind_open.simps [simp del]

definition set_rates :: "int \<Rightarrow> int \<Rightarrow> int \<Rightarrow> 'o pi_socket \<Rightarrow> 'o pi_socket" where
  "set_rates rate est high =
     on_sock (upd_serial (\<lambda>d. d\<lparr>sd_rate := rate, sd_establishrate := est, sd_establishhighrate := high\<rparr>))"

definition pi_serial_bind ::
  "heap_env \<Rightarrow> 'o os \<Rightarrow> 'o tty \<Rightarrow> string option \<Rightarrow> 'o pi_socket \<Rightarrow> string \<Rightarrow> ('o pi_socket \<times> int) option" where
  "pi_serial_bind env os tty rate_env so name =
     (let d = serial_of (so_sock so) in do {
        so \<leftarrow>
          (if so_type so = PI_SOCK_STREAM then do {
             (est, high) \<leftarrow> (if sd_establishrate d = -1 then get_pilot_rate rate_env (sd_establishhighrate d)
                             else Some (sd_establishrate d, sd_establishhighrate d));
             Some (set_rates 9600 est high so) }
           else if so_type so = PI_SOCK_RAW then Some (set_rates 57600 57600 (sd_establishhighrate d) so)
           else Some so);
        (so, err) \<leftarrow> bind_open os tty name 6 so;
        if err < 0 then Some (so, err)
        else if malloc_ok env sizeof_pi_sockaddr then Some (so\<lparr>so_addr := Some name\<rparr>, 0)
        else None })"

definition pi_serial_listen :: "'o tty \<Rightarrow> 'o pi_socket \<Rightarrow> ('o pi_socket \<times> int) option" where
  "pi_serial_listen tty so = do {
     (so, result) \<leftarrow> s_changebaud tty so;
     Some (if result = 0 then on_sock (set_state PI_SOCK_LISTEN) so else so, result) }"

definition pi_serial_close :: "'o tty \<Rightarrow> 'o pi_socket \<Rightarrow> ('o pi_socket \<times> int) option" where
  "pi_serial_close tty so =
     (let so = (if so_sd so \<noteq> 0 then (s_close tty so)\<lparr>so_sd := 0\<rparr> else so)
      in Some (so\<lparr>so_addr := None\<rparr>, 0))"

section \<open>Accepting a connection\<close>

text \<open>The protocol below a level of the queue in use.\<close>

definition next_protocol :: "heap_env \<Rightarrow> 'o os \<Rightarrow> 'o pi_socket \<Rightarrow> int \<Rightarrow> 'o pi_protocol option option" where
  "next_protocol env os so level = do {
     nxt \<leftarrow> protocol_queue_find_next so level;
     case nxt of
       None \<Rightarrow> Some None
     | Some i \<Rightarrow> do { p \<leftarrow> queue_protocol env os (drop i (current_queue so)); Some (Some p) } }"

definition net_wake_bytes :: bytes where "net_wake_bytes = [1, 0, 0, 0, 0, 0]"

text \<open>A handshake needs its protocol in the command queue.\<close>

definition with_next ::
  "heap_env \<Rightarrow> 'o os \<Rightarrow> int \<Rightarrow> 'o pi_socket \<Rightarrow> ('o pi_protocol \<Rightarrow> 'o psock \<Rightarrow> ('o psock \<times> int) option) \<Rightarrow>
     ('o pi_socket \<times> int) option" where
  "with_next env os level so f = do {
     nxt \<leftarrow> next_protocol env os so level;
     case nxt of
       None \<Rightarrow> Some (so_error so PI_ERR_SOCK_INVALID, PI_ERR_SOCK_INVALID)
     | Some nxt \<Rightarrow> do { (sk, r) \<leftarrow> f nxt (so_sock so); Some (so\<lparr>so_sock := sk\<rparr>, r) } }"

text \<open>The flag for long packets is set in PADP of both queues.\<close>

definition use_long_format :: "'o pi_socket \<Rightarrow> 'o pi_socket option" where
  "use_long_format so = do {
     (so, _) \<leftarrow> pi_setsockopt so (Padp_option PI_PADP_USE_LONG_FORMAT) 1 4;
     let so = set_command (command_of so XOR 1) so;
     (so, _) \<leftarrow> pi_setsockopt so (Padp_option PI_PADP_USE_LONG_FORMAT) 1 4;
     Some (set_command (command_of so XOR 1) so) }"

text \<open>The part of \<open>pi_serial_accept\<close> for CMP. The flags stay uninitialised when CMP is not there, which
  the handshake has excluded.\<close>

definition accept_cmp :: "heap_env \<Rightarrow> 'o os \<Rightarrow> 'o tty \<Rightarrow> 'o pi_socket \<Rightarrow> ('o pi_socket \<times> int) option" where
  "accept_cmp env os tty so = do {
     let d = serial_of (so_sock so);
     (so, err) \<leftarrow> with_next env os PI_LEVEL_CMP so
        (\<lambda>nxt sk. cmp_rx_handshake env nxt sk (sd_establishrate d) (sd_establishhighrate d));
     if err < 0 then Some (so, err)
     else do {
       (so, v, _) \<leftarrow> pi_getsockopt so (Cmp_option PI_CMP_FLAGS) 1;
       (flags, _) \<leftarrow> v;
       so \<leftarrow> (if word_of_int flags AND CMP_FL_LONG_PACKET_SUPPORT \<noteq> 0 then use_long_format so else Some so);
       (so, v, _) \<leftarrow> pi_getsockopt so (Cmp_option PI_CMP_BAUD) 4;
       let so = (case v of Some (rate, _) \<Rightarrow> on_sock (upd_serial (\<lambda>d. d\<lparr>sd_rate := rate\<rparr>)) so | None \<Rightarrow> so);
       (so, err) \<leftarrow> s_changebaud tty so;
       if err < 0 then Some (so, err)
       else Some (on_sock (\<lambda>sk. set_os (ty_delay tty (os_of sk) 50) sk) so, err) } }"

definition pi_serial_accept ::
  "heap_env \<Rightarrow> 'o os \<Rightarrow> 'o tty \<Rightarrow> u8 \<times> padp \<Rightarrow> 'o pi_socket \<Rightarrow> ('o pi_socket \<times> int) option" where
  "pi_serial_accept env os tty junk so = do {
     so \<leftarrow> (if so_accept_to so \<noteq> 0 then do {
              (sk, result) \<leftarrow> s_poll os (so_sock so) 1000;
              if result < 0 then do {
                (sk, _) \<leftarrow> s_write os sk net_wake_bytes 1000;
                Some (so\<lparr>so_sock := sk\<rparr>) }
              else Some (so\<lparr>so_sock := sk\<rparr>) }
            else Some so);
     (sk, err) \<leftarrow> s_poll os (so_sock so) (to_int (so_accept_to so * 1000));
     let so = so\<lparr>so_sock := sk\<rparr>;
     if err < 0 then Some (so, err)
     else do {
       let so = on_sock (upd_serial (\<lambda>d. d\<lparr>sd_timeout := to_int (so_accept_to so * 1000)\<rparr>)) so;
       so \<leftarrow> protocol_queue_build env os junk so True;
       (so, err) \<leftarrow>
         (if so_type so = PI_SOCK_STREAM then do {
            (so, err) \<leftarrow> (if so_cmd so = PI_CMD_CMP then accept_cmp env os tty so
                          else if so_cmd so = PI_CMD_NET then
                            with_next env os PI_LEVEL_NET so (net_rx_handshake env)
                          else Some (so, 0));
            Some (if err < 0 then so else on_sock (\<lambda>sk. sk\<lparr>sk_dlprecord := 0\<rparr>) so, err) }
          else Some (so, 0));
       if err < 0 then Some (so, err)
       else do {
         let so = on_sock (upd_serial (\<lambda>d. d\<lparr>sd_timeout := 0\<rparr>)) so;
         let so = on_sock (set_state PI_SOCK_CONN_ACCEPT) (set_command 0 so);
         Some (so, so_sd so) } } }"

section \<open>Devices and sockets\<close>

text \<open>The functions of a device (\<open>struct pi_device\<close>).\<close>

record 'o device_ops =
  dev_bind :: "'o pi_socket \<Rightarrow> string \<Rightarrow> ('o pi_socket \<times> int) option"
  dev_listen :: "'o pi_socket \<Rightarrow> ('o pi_socket \<times> int) option"
  dev_accept :: "'o pi_socket \<Rightarrow> ('o pi_socket \<times> int) option"
  dev_close :: "'o pi_socket \<Rightarrow> ('o pi_socket \<times> int) option"

definition serial_ops :: "heap_env \<Rightarrow> 'o os \<Rightarrow> 'o tty \<Rightarrow> string option \<Rightarrow> u8 \<times> padp \<Rightarrow> 'o device_ops" where
  "serial_ops env os tty rate_env junk = \<lparr>
     dev_bind = pi_serial_bind env os tty rate_env,
     dev_listen = pi_serial_listen tty,
     dev_accept = pi_serial_accept env os tty junk,
     dev_close = pi_serial_close tty\<rparr>"

text \<open>\<open>ps->device->\<dots>\<close>: a null pointer is dereferenced when there is no device.\<close>

definition device_of :: "'o device_ops \<Rightarrow> 'o device_ops \<Rightarrow> 'o pi_socket \<Rightarrow> 'o device_ops option" where
  "device_of serial inet so =
     (case so_device so of
        None \<Rightarrow> None
      | Some PI_SERIAL_DEV \<Rightarrow> Some serial
      | Some PI_INET_DEV \<Rightarrow> Some inet)"

text \<open>A new socket; \<open>absent\<close> holds the data of protocols and device that it does not have yet. The
  descriptor is one of the null device.\<close>

definition sizeof_pi_socket :: nat where "sizeof_pi_socket = 144"

definition pi_socket_create ::
  "heap_env \<Rightarrow> 'o tty \<Rightarrow> 'o psock \<Rightarrow> queue_data \<Rightarrow> int \<Rightarrow> int \<Rightarrow> 'o \<times> 'o pi_socket option" where
  "pi_socket_create env tty absent parked type protocol =
     (let protocol = (if protocol = 0 then
                        (if type = PI_SOCK_STREAM then PI_PF_DLP else if type = PI_SOCK_RAW then PI_PF_DEV else protocol)
                      else protocol) in
      if \<not> malloc_ok env sizeof_pi_socket then (os_of absent, None)
      else
        (let (w, sd) = ty_open tty (os_of absent) ''/dev/null'' in
         if sd = -1 then (w, None)
         else (w, Some \<lparr>so_sd = sd, so_type = type, so_protocol = protocol, so_cmd = 0, so_queue = [], so_cmd_queue = [],
            so_parked = parked, so_accept_to = 0, so_device = None, so_addr = None,
            so_sock = (on_port (\<lambda>p. p\<lparr>pt_state := PI_SOCK_CLOSE, pt_command := 1\<rparr>) (set_os w absent))\<lparr>
              sk_last_error := 0, sk_palmos_error := 0, sk_cmp := False, sk_dlpversion := 0, sk_maxrecsize := 0,
              sk_dlprecord := 0, sk_honor_rx_to := 1, sk_ended := False\<rparr>\<rparr>)))"

text \<open>The prefix of a port names the kind of device; the array for the name has 255 bytes, and a name
  that fills it is read past its end.\<close>

definition port_device :: "string \<Rightarrow> pi_device \<times> string" where
  "port_device port =
     (if take 7 port = ''serial:'' then (PI_SERIAL_DEV, drop 7 port)
      else if take 4 port = ''net:'' then (PI_INET_DEV, drop 4 port)
      else (PI_SERIAL_DEV, port))"

text \<open>None inside the result: no port is given and none is in the environment.\<close>

definition pi_devsocket ::
  "heap_env \<Rightarrow> bytes \<Rightarrow> string option \<Rightarrow> string option \<Rightarrow> 'o pi_socket \<Rightarrow> ('o pi_socket \<times> string) option option" where
  "pi_devsocket env buf pilotport port so =
     (case (case port of None \<Rightarrow> pilotport | _ \<Rightarrow> port) of
        None \<Rightarrow> Some None
      | Some port \<Rightarrow>
          (let (kind, name) = port_device port in
           if 255 \<le> length name then None
           else if kind = PI_SERIAL_DEV then
             (case pi_serial_device env buf of
                None \<Rightarrow> Some (Some (so\<lparr>so_device := None\<rparr>, name))
              | Some d \<Rightarrow> Some (Some (on_sock (upd_serial (\<lambda>_. d)) (so\<lparr>so_device := Some PI_SERIAL_DEV\<rparr>), name)))
           else Some (Some (so\<lparr>so_device := Some kind\<rparr>, name))))"

definition pi_bind ::
  "heap_env \<Rightarrow> 'o device_ops \<Rightarrow> 'o device_ops \<Rightarrow> bytes \<Rightarrow> string option \<Rightarrow> string option \<Rightarrow> 'o pi_socket \<Rightarrow>
     ('o pi_socket \<times> int) option" where
  "pi_bind env serial inet buf pilotport port so = do {
     r \<leftarrow> pi_devsocket env buf pilotport port so;
     case r of
       None \<Rightarrow> Some (so, PI_ERR_SOCK_INVALID)
     | Some (so, name) \<Rightarrow> do {
         dev \<leftarrow> device_of serial inet so;
         (so, bind_return) \<leftarrow> dev_bind dev so name;
         Some (if bind_return < 0 then so\<lparr>so_device := None\<rparr> else so, bind_return) } }"

definition pi_listen :: "'o device_ops \<Rightarrow> 'o device_ops \<Rightarrow> 'o pi_socket \<Rightarrow> ('o pi_socket \<times> int) option" where
  "pi_listen serial inet so = do { dev \<leftarrow> device_of serial inet so; dev_listen dev so }"

definition is_listener :: "'o psock \<Rightarrow> bool" where
  "is_listener sk \<longleftrightarrow> state_of sk = PI_SOCK_LISTEN"

text \<open>The protocol that \<open>pi_read\<close> and \<open>pi_write\<close> enter is the first of the connected queue, but the
  protocols find themselves, and each other, in the queue in use: one that is not there refuses every
  call. The device does not look for itself. An empty list stands for a null pointer that is read.\<close>

definition entry_queue :: "'o pi_socket \<Rightarrow> int option list" where
  "entry_queue so =
     (case so_queue so of
        [] \<Rightarrow> []
      | None # _ \<Rightarrow> []
      | Some level # _ \<Rightarrow>
          if level = PI_LEVEL_DEV then [Some level]
          else
            (case level_index (current_queue so) level of
               None \<Rightarrow> []
             | Some None \<Rightarrow> [Some level]
             | Some (Some i) \<Rightarrow> drop i (current_queue so)))"

text \<open>Every protocol of the two queues is freed through its own pointer.\<close>

definition protocol_queue_destroy :: "'o pi_socket \<Rightarrow> unit option" where
  "protocol_queue_destroy so = (if None \<in> set (so_queue so) \<union> set (so_cmd_queue so) then None else Some ())"

text \<open>Closing; the flag of the result says whether the socket is gone.\<close>

definition pi_close ::
  "heap_env \<Rightarrow> 'o os \<Rightarrow> 'o device_ops \<Rightarrow> 'o device_ops \<Rightarrow> 'o pi_socket \<Rightarrow> ('o pi_socket \<times> bool \<times> int) option" where
  "pi_close env os serial inet so = do {
     (so, result) \<leftarrow>
       (if so_type so = PI_SOCK_STREAM \<and> so_cmd so \<noteq> PI_CMD_SYS \<and> is_connected (so_sock so) then do {
          let so = set_command 1 so;
          (sk, result) \<leftarrow> dlp_EndOfSync env (socket_transport env os (entry_queue so)) 0 (so_sock so);
          Some (set_command 0 (so\<lparr>so_sock := sk\<rparr>), result) }
        else Some (so, 0));
     if result = 0 then do {
       (so, result) \<leftarrow> (case so_device so of
          None \<Rightarrow> Some (so, 0)
        | Some _ \<Rightarrow> do { dev \<leftarrow> device_of serial inet so; dev_close dev so });
       protocol_queue_destroy so;
       Some (so\<lparr>so_queue := [], so_cmd_queue := [], so_device := None\<rparr>, True, result) }
     else Some (so, False, result) }"

definition pi_accept_to ::
  "heap_env \<Rightarrow> 'o os \<Rightarrow> 'o device_ops \<Rightarrow> 'o device_ops \<Rightarrow> int \<Rightarrow> 'o pi_socket \<Rightarrow> ('o pi_socket \<times> bool \<times> int) option" where
  "pi_accept_to env os serial inet timeout so =
     (if \<not> is_listener (so_sock so) then Some (so, False, PI_ERR_SOCK_LISTENER)
      else do {
        let so = so\<lparr>so_accept_to := timeout\<rparr>;
        dev \<leftarrow> device_of serial inet so;
        (so, result) \<leftarrow> dev_accept dev so;
        if result < 0 then do { (so, gone, _) \<leftarrow> pi_close env os serial inet so; Some (so, gone, result) }
        else Some (so, False, result) })"

definition pi_accept ::
  "heap_env \<Rightarrow> 'o os \<Rightarrow> 'o device_ops \<Rightarrow> 'o device_ops \<Rightarrow> 'o pi_socket \<Rightarrow> ('o pi_socket \<times> bool \<times> int) option" where
  "pi_accept env os serial inet so = pi_accept_to env os serial inet 0 so"

end
