(* ===== verification/DlpNet.thy ===== *)
theory DlpNet
  imports Socket NetProps
begin

text \<open>
  DLP over NET over the serial port. The device speaks NET: it collects the bytes it is sent until a
  message is complete and answers it with the device's answer, under a NET header. The socket's
  \<open>pi_flush\<close>, \<open>pi_write\<close> and \<open>pi_read\<close> are then a \<open>device_link\<close>, so that what is proved of DLP on such
  a link holds over the whole stack, however the writes and reads are cut.
\<close>

section \<open>A device that speaks NET\<close>

record 'd net_peer =
  np_device :: 'd
  np_got :: bytes

definition net_answer :: "u8 \<Rightarrow> bytes \<Rightarrow> bytes" where
  "net_answer x resp = [1, x] @ set_long (of_nat (length resp)) @ resp"

definition net_complete :: "bytes \<Rightarrow> bool" where
  "net_complete got \<longleftrightarrow> 6 \<le> length got \<and> int (length got) = 6 + net_len got"

definition net_step :: "('d \<Rightarrow> bytes \<Rightarrow> 'd \<times> bytes) \<Rightarrow> 'd net_peer \<Rightarrow> u8 \<Rightarrow> 'd net_peer \<times> bytes" where
  "net_step dev p x =
     (let got = np_got p @ [x] in
      if \<not> net_complete got then (p\<lparr>np_got := got\<rparr>, [])
      else if got ! 0 = 1 then
        (let (d, resp) = dev (np_device p) (drop 6 got) in (\<lparr>np_device = d, np_got = []\<rparr>, net_answer (got ! 1) resp))
      else (p\<lparr>np_got := []\<rparr>, []))"

lemma net_len_take: "6 \<le> k \<Longrightarrow> net_len (take k bs) = net_len bs"
proof -
  assume "6 \<le> k"
  then have "get_long (take k bs) 2 = get_long bs 2" by (simp add: get_long_def get_byte_def)
  then show ?thesis by (simp add: net_len_def)
qed

lemma feed_partial:
  assumes "int (length bs) = 6 + net_len bs" "k < length bs"
  shows "feed (net_step dev) \<lparr>np_device = d, np_got = []\<rparr> (take k bs) = (\<lparr>np_device = d, np_got = take k bs\<rparr>, [])"
  using assms(2)
proof (induction k)
  case (Suc k)
  have "\<not> net_complete (take (Suc k) bs)"
    using assms(1) Suc.prems net_len_take[of "Suc k" bs] by (auto simp: net_complete_def)
  then show ?case
    using Suc by (simp add: take_Suc_conv_app_nth feed_append net_step_def)
qed simp

lemma feed_message:
  assumes "int (length bs) = 6 + net_len bs" "6 \<le> length bs" "bs ! 0 = 1"
  shows "feed (net_step dev) \<lparr>np_device = d, np_got = []\<rparr> bs =
    (let (d', resp) = dev d (drop 6 bs) in (\<lparr>np_device = d', np_got = []\<rparr>, net_answer (bs ! 1) resp))"
proof -
  let ?k = "length bs - 1"
  have bs: "bs = take ?k bs @ [bs ! ?k]" using assms(2) take_Suc_conv_app_nth[of ?k bs] by simp
  have "net_complete bs" using assms(1,2) by (simp add: net_complete_def)
  then have "net_step dev \<lparr>np_device = d, np_got = take ?k bs\<rparr> (bs ! ?k) =
    (let (d', resp) = dev d (drop 6 bs) in (\<lparr>np_device = d', np_got = []\<rparr>, net_answer (bs ! 1) resp))"
    using bs assms(3) by (simp add: net_step_def)
  moreover have "feed (net_step dev) \<lparr>np_device = d, np_got = []\<rparr> (take ?k bs) = (\<lparr>np_device = d, np_got = take ?k bs\<rparr>, [])"
    using assms(1,2) by (intro feed_partial) auto
  moreover have "feed (net_step dev) p bs = feed (net_step dev) p (take ?k bs @ [bs ! ?k])" for p
    using bs by simp
  ultimately show ?thesis by (simp add: feed_append split_def)
qed

section \<open>The link\<close>

definition net_os :: "(nat \<Rightarrow> nat) \<Rightarrow> ('d \<Rightarrow> bytes \<Rightarrow> 'd \<times> bytes) \<Rightarrow> 'd net_peer wire os" where
  "net_os grain dev = wire_os grain (feed (net_step dev))"

definition net_queue :: "int option list" where "net_queue = [Some PI_LEVEL_NET, Some PI_LEVEL_DEV]"

definition net_transport ::
  "heap_env \<Rightarrow> (nat \<Rightarrow> nat) \<Rightarrow> ('d \<Rightarrow> bytes \<Rightarrow> 'd \<times> bytes) \<Rightarrow> 'd net_peer wire port transport" where
  "net_transport env grain dev = socket_transport env (net_os grain dev) net_queue"

text \<open>The device behind the port is in the state \<open>d\<close> and waits for a message; the bytes \<open>bs\<close> wait to be
  read, some of them ahead in the port's buffer.\<close>

definition net_line :: "heap_env \<Rightarrow> 'd net_peer wire psock \<Rightarrow> 'd \<Rightarrow> bytes \<Rightarrow> bool" where
  "net_line env s d bs \<longleftrightarrow> all_alloc env \<and> net_type (net_of s) = PI_NET_TYPE_DATA \<and>
     sd_buf_size (serial_of s) \<le> length (sd_buf (serial_of s)) \<and> wire_pending (os_of s) (serial_of s) = bs \<and>
     wi_peer (os_of s) = \<lparr>np_device = d, np_got = []\<rparr>"

lemma net_line_held: "net_line env s d bs \<Longrightarrow>
  wire_held (sd_buf_size (serial_of s)) env (wi_peer (os_of s), sd_timeout (serial_of s)) (os_of s) (serial_of s)"
  by (simp add: net_line_def wire_held_def)

lemma net_stack: "queue_protocol env os net_queue = Some (net_protocol env (pi_serial_protocol os env))"
  by (simp add: net_queue_def level_defs)

text \<open>Sockets that differ in the device alone are one socket with another world.\<close>

lemma same_stack_world: "same_stack s t \<Longrightarrow> \<exists>w. t = s\<lparr>sk_world := w\<rparr>"
  by (auto simp: same_stack_def port_defs)

lemma net_line_flush:
  assumes "net_line env s d []"
  shows "\<exists>t r. prot_flush (pi_serial_protocol (net_os grain dev) env) s PI_FLUSH_INPUT = Some (t, r) \<and> same_stack s t \<and>
     net_line env t d []"
proof -
  obtain t where t: "s_flush (net_os grain dev) s PI_FLUSH_INPUT = Some (t, 0)" "same_stack s t" "os_of t = os_of s"
    "serial_of t = (serial_of s)\<lparr>sd_buf_size := 0\<rparr>" using wire_flush unfolding net_os_def by blast
  then show ?thesis
    using assms same_stackD[OF t(2)]
    by (intro exI[of _ t] exI[of _ 0]) (simp add: net_line_def wire_pending_def pi_serial_protocol_def)
qed

lemma net_line_tx:
  assumes "net_line env s d bs" "length rq < 2 ^ 31 - 6"
  shows "\<exists>t. net_tx env (pi_serial_protocol (net_os grain dev) env) s rq fl = Some (t, int (length rq)) \<and> same_stack s t \<and>
     net_line env t (fst (dev d rq)) (bs @ net_answer (net_txid (net_of s)) (snd (dev d rq)))"
proof -
  let ?h = "net_header (net_of s) (length rq)"
  have env: "all_alloc env" and ty: "net_type (net_of s) = PI_NET_TYPE_DATA" using assms(1) by (simp_all add: net_line_def)
  obtain t where t: "net_tx env (pi_serial_protocol (net_os grain dev) env) s rq fl = Some (t, int (length rq))" "same_stack s t"
    "wire_seen t = take_bytes (net_step dev) (wire_seen s) (?h @ rq)"
    using serial_sink.tx_writes[OF env, of rq grain "net_step dev" env s fl] assms(2) by (auto simp: net_os_def)
  have h: "length ?h = 6" "?h ! 0 = 1" "?h ! 1 = net_txid (net_of s)"
    using ty by (simp_all add: net_header_def net_const_defs)
  have nl: "net_len (?h @ rq) = int (length rq)" using net_len_header[of rq "net_of s" rq] assms(2) by simp
  have "feed (net_step dev) \<lparr>np_device = d, np_got = []\<rparr> (?h @ rq) =
      (\<lparr>np_device = fst (dev d rq), np_got = []\<rparr>, net_answer (net_txid (net_of s)) (snd (dev d rq)))"
    using feed_message[of "?h @ rq" dev d] h nl by (simp add: nth_append split_def Let_def)
  then show ?thesis
    using t assms(1) same_stackD[OF t(2)]
    by (intro exI[of _ t]) (auto simp: net_line_def wire_seen_def take_bytes_def wire_pending_def)
qed

lemma net_line_rx:
  assumes "net_line env s d (net_answer x resp @ bs)" "length resp \<le> 0x100000" "pi_buffer_wf buf"
  shows "\<exists>t buf' f. net_rx env (pi_serial_protocol (net_os grain dev) env) s buf n 0 = Some (upd_net f t, buf', int (length resp)) \<and>
     same_stack s t \<and> net_line env (upd_net f t) d bs \<and> pi_buffer_wf buf' \<and> content buf' = content buf @ resp"
proof -
  define hd where "hd = \<lparr>net_type = PI_NET_TYPE_DATA, net_split_writes = 0, net_write_chunksize = 0, net_txid = x\<rparr>"
  have a: "net_answer x resp = net_header hd (length resp) @ resp"
    by (simp add: net_answer_def net_header_def hd_def net_const_defs)
  define to where "to = (if sk_honor_rx_to s \<noteq> 0 then PI_NET_TIMEOUT else 0)"
  let ?m = "sd_buf_size (serial_of s)" and ?keep = "(wi_peer (os_of s), to)"
  have l: "all_alloc env" "?m \<le> length (sd_buf (serial_of s))" "wire_pending (os_of s) (serial_of s) = net_answer x resp @ bs"
    "wi_peer (os_of s) = \<lparr>np_device = d, np_got = []\<rparr>" using assms(1) by (simp_all add: net_line_def)
  have dec: "net_decode fresh t (net_answer x resp @ bs) = Net_packet 1 x resp bs" for fresh t
    using decode_message[of hd resp fresh t "[]" bs] assms(2) by (simp add: a hd_def)
  let ?s0 = "upd_serial (\<lambda>d. d\<lparr>sd_timeout := to\<rparr>) s"
  have "wire_pending (os_of ?s0) (serial_of ?s0) = net_answer x resp @ bs" using l(3) by (simp add: wire_pending_def)
  then have "net_delivers ?m wire_pending (wire_held ?m env ?keep) ?s0 buf (Net_packet 1 x resp bs)
      (net_rx env (pi_serial_protocol (net_os grain dev) env) s buf n 0)"
    using serial_net.net_rx_decode[of env buf 0 "net_type (net_of s)" s ?s0 ?m env ?keep grain "feed (net_step dev)" n] l assms(3) dec
    by (simp add: serial_link.good_def serial_link.pend_def wire_held_def to_def net_os_def PI_MSG_PEEK_def)
  then obtain s' buf' f where t: "net_rx env (pi_serial_protocol (net_os grain dev) env) s buf n 0 =
      Some (upd_net f s', buf', int (length resp))" "\<And>y. net_type (f y) = PI_NET_TYPE_DATA" "same_stack ?s0 s'"
    "wire_held ?m env ?keep (os_of s') (serial_of s')" "wire_pending (os_of s') (serial_of s') = bs" "pi_buffer_wf buf'"
    "content buf' = content buf @ resp"
    by (force simp: net_delivers_def Let_def PI_NET_TYPE_DATA_def)
  have "same_stack s s'" using same_stack_trans[OF same_stack_set(3) t(3)] .
  moreover have "net_line env (upd_net f s') d bs" using t(2,4,5) l(4) by (auto simp: net_line_def wire_held_def)
  ultimately show ?thesis using t(1,6,7) by blast
qed

text \<open>The states of the link: connected, with no bytes waiting, or the answer.\<close>

definition net_port :: "heap_env \<Rightarrow> 'd net_peer wire port \<Rightarrow> 'd \<Rightarrow> bytes \<Rightarrow> bool" where
  "net_port env w d bs \<longleftrightarrow> (\<forall>s. sk_world s = w \<longrightarrow> is_connected s \<and> net_line env s d bs)"

lemma net_port_of: "net_port env (sk_world s) d bs \<longleftrightarrow> is_connected s \<and> net_line env s d bs"
  unfolding net_port_def net_line_def is_connected_def port_defs by auto

definition net_ready :: "heap_env \<Rightarrow> 'd net_peer wire port \<Rightarrow> 'd \<Rightarrow> bool" where
  "net_ready env w d \<longleftrightarrow> net_port env w d []"

definition net_waiting :: "heap_env \<Rightarrow> 'd net_peer wire port \<Rightarrow> 'd \<Rightarrow> bytes \<Rightarrow> bool" where
  "net_waiting env w d resp \<longleftrightarrow> (\<exists>x. net_port env w d (net_answer x resp))"

lemma same_stack_connected: "same_stack s t \<Longrightarrow> is_connected t = is_connected s"
  using same_stackD[of s t] by (simp add: is_connected_def)

text \<open>Messages of up to a megabyte, the limit of \<open>net_rx\<close>.\<close>

definition net_limit :: nat where "net_limit = 0x100000"

interpretation net: device_link "net_transport env grain dev" "net_ready env" "net_waiting env" dev net_limit
  for env grain dev
proof (unfold_locales, goal_cases)
  case 1
  show ?case by (simp add: net_limit_def)
next
  case (2 sk d rq)
  note 1 = 2
  let ?tr = "net_transport env grain dev"
  from 1(1) have c: "is_connected sk" "net_line env sk d []" by (simp_all add: net_ready_def net_port_of)
  obtain t r where t: "prot_flush (pi_serial_protocol (net_os grain dev) env) sk PI_FLUSH_INPUT = Some (t, r)" "same_stack sk t"
    "net_line env t d []"
    using net_line_flush[OF c(2), of grain dev] by blast
  have ct: "is_connected t" using c(1) same_stack_connected[OF t(2)] by simp
  obtain u where u: "net_tx env (pi_serial_protocol (net_os grain dev) env) t rq 0 = Some (u, int (length rq))" "same_stack t u"
    "net_line env u (fst (dev d rq)) (net_answer (net_txid (net_of t)) (snd (dev d rq)))"
    using net_line_tx[OF t(3), of rq grain dev 0] 1(2) by (auto simp: net_limit_def)
  have "tr_flush ?tr sk = Some t"
    using c(1) t(1) by (simp add: net_transport_def socket_transport_def pi_flush_def net_stack net_protocol_def net_flush_def)
  moreover have "tr_write ?tr t rq = Some (u, int (length rq))"
    using ct u(1) by (simp add: net_transport_def socket_transport_def pi_write_def pi_send_def net_stack net_protocol_def)
  moreover have "net_waiting env (sk_world u) (fst (dev d rq)) (snd (dev d rq))"
    using ct u(3) same_stack_connected[OF u(2)] unfolding net_waiting_def net_port_of by blast
  moreover obtain w where "u = sk\<lparr>sk_world := w\<rparr>" using same_stack_world[OF same_stack_trans[OF t(2) u(2)]] ..
  ultimately show ?case by (intro exI[of _ t] exI[of _ w]) simp
next
  case (3 sk d resp buf n)
  note 2 = 3
  let ?tr = "net_transport env grain dev"
  from 2(1) obtain x where c: "is_connected sk" "net_line env sk d (net_answer x resp @ [])"
    by (auto simp: net_waiting_def net_port_of)
  obtain t buf' f where t: "net_rx env (pi_serial_protocol (net_os grain dev) env) sk buf n 0 =
      Some (upd_net f t, buf', int (length resp))" "same_stack sk t" "net_line env (upd_net f t) d []" "pi_buffer_wf buf'"
    "content buf' = content buf @ resp"
    using net_line_rx[OF c(2) _ 2(3), of grain dev n] 2(2) by (auto simp: net_limit_def)
  have "is_connected (upd_net f t)" using c(1) same_stack_connected[OF t(2)] by (simp add: is_connected_def)
  then have "net_ready env (sk_world (upd_net f t)) d" using t(3) unfolding net_ready_def net_port_of by simp
  moreover have "tr_read ?tr sk buf n = Some (upd_net f t, buf', int (length resp))"
    using c(1) t(1) by (simp add: net_transport_def socket_transport_def pi_read_def pi_recv_def net_stack net_protocol_def)
  moreover obtain w where "upd_net f t = sk\<lparr>sk_world := w\<rparr>"
    using same_stack_world[OF t(2)] by (auto simp: upd_net_def on_port_def)
  ultimately show ?case using t(4,5) 2(4) by (intro exI[of _ w] exI[of _ buf']) simp
qed

section \<open>Properties\<close>

text \<open>C18: the whole stack, DLP on the socket's queue NET over the serial port, executes a request as the
  device itself would: whatever the sizes in which the port delivers its input and the options that
  cut the writes, the device behind the port receives the encoded request and moves to its next
  state, and the arguments of its answer are returned, with the errors recorded in the socket.\<close>

theorem dlp_exec_over_net:
  assumes "net_ready env (sk_world sk) d0" "response_fits res" "version_carries sk (rs_argv res)"
    "dev d0 (request_bytes req) = (d, response_bytes res)"
    "length (request_bytes req) \<le> net_limit" "length (response_bytes res) \<le> net_limit"
  shows "\<exists>w. net_ready env w d \<and> dlp_exec env (net_transport env grain dev) req sk =
    (let sk' = sk\<lparr>sk_world := w, sk_palmos_error := rs_err res\<rparr> in
     if \<not> cmd_accepted (rq_cmd req) (rs_cmd res)
     then Some (sk'\<lparr>sk_last_error := PI_ERR_DLP_COMMAND\<rparr>, Some res, PI_ERR_DLP_COMMAND)
     else if rs_err res \<noteq> 0
     then Some (sk'\<lparr>sk_last_error := PI_ERR_DLP_PALMOS\<rparr>, Some res, PI_ERR_DLP_PALMOS)
     else Some (sk', Some res, first_len (rs_argv res)))"
proof -
  have "all_alloc env" using assms(1) by (simp add: net_ready_def net_port_of net_line_def)
  from net.exec[where dev = dev and ?d0.0 = d0 and d = d and grain = grain, OF this assms(2,3,1,4-6)]
  show ?thesis .
qed

text \<open>C19: over the same stack \<open>dlp_ReadRecordById\<close> delivers a whole record, in one exchange or in two.\<close>

theorem dlp_ReadRecordById_over_net:
  assumes "net_ready env (sk_world sk) d" "pi_buffer_wf buf"
    "sk_dlpversion sk \<noteq> 0" "100 \<le> unat (sk_maxrecsize sk)" "unat (sk_maxrecsize sk) \<le> 0xffff"
    "serves_record dev h recuid x a c rec" "length rec \<le> unat (sk_maxrecsize sk)"
  shows "\<exists>sk' buf'. dlp_ReadRecordById env (net_transport env grain dev) h recuid want_all (Some buf) sk =
      Some (sk', \<lparr>rc_id = None, rc_index = Some (uint x), rc_attr = Some (uint a), rc_cat = Some (uint c)\<rparr>,
            Some buf', int (length rec)) \<and> pi_buffer_wf buf' \<and> content buf' = rec"
proof -
  have "all_alloc env" using assms(1) by (simp add: net_ready_def net_port_of net_line_def)
  moreover have "65536 \<le> net_limit" by (simp add: net_limit_def)
  ultimately show ?thesis using assms by (intro net.read_record_whole)
qed

text \<open>A connected socket with a device in the state 0.\<close>

definition net_sock :: "nat net_peer wire psock" where
  "net_sock = (port_sock [] \<lparr>np_device = 0, np_got = []\<rparr>)\<lparr>sk_dlpversion := 0x0102, sk_maxrecsize := 105\<rparr>"

lemma net_sock_ready: "net_ready calloc_env (sk_world net_sock) 0"
  unfolding net_ready_def net_port_of
  by (simp add: net_line_def wire_pending_def is_connected_def net_sock_def port_sock_def port_defs net_const_defs)

theorem dlp_exec_over_net_witness:
  "\<exists>sk res. dlp_exec calloc_env (net_transport calloc_env (\<lambda>_. 2) lost_device) \<lparr>rq_cmd = 0x23, rq_argv = []\<rparr> net_sock =
     Some (sk, Some res, 14) \<and> net_ready calloc_env (sk_world sk) 1"
proof -
  let ?res = "answer 0x23 ([0, 0, 0, 0, 0, 0, 0, 0, 0, 0] @ [1, 2, 3, 4])"
  have "response_fits ?res" by (simp add: response_fits_def arg_fits_def answer_def)
  moreover have "version_carries net_sock (rs_argv ?res)"
    by (simp add: version_carries_def arg_short_def answer_def PI_DLP_ARG_SHORT_LEN_def PI_DLP_ARG_FLAG_LONG_def)
  moreover have "length (response_bytes ?res) \<le> net_limit"
    by (simp add: response_bytes_def answer_def arg_bytes_def net_limit_def Let_def)
  ultimately obtain w where "net_ready calloc_env w 1" "dlp_exec calloc_env (net_transport calloc_env (\<lambda>_. 2) lost_device)
      \<lparr>rq_cmd = 0x23, rq_argv = []\<rparr> net_sock =
      Some (net_sock\<lparr>sk_world := w, sk_palmos_error := 0\<rparr>, Some ?res, 14)"
    using dlp_exec_over_net[OF net_sock_ready, of ?res lost_device "\<lparr>rq_cmd = 0x23, rq_argv = []\<rparr>" 1 "\<lambda>_. 2"]
    by (auto simp: Let_def cmd_accepted_def first_len_def lost_device_def request_bytes_def net_limit_def answer_def)
  then show ?thesis
    by (intro exI[of _ "net_sock\<lparr>sk_world := w, sk_palmos_error := 0\<rparr>"] exI[of _ ?res]) simp
qed

theorem dlp_ReadRecordById_over_net_witness:
  "\<exists>sk buf. dlp_ReadRecordById calloc_env (net_transport calloc_env (\<lambda>_. 3) (record_device [1, 2, 3, 4, 5, 6, 7])) 1 7 want_all
      (Some (buf_of [])) net_sock =
    Some (sk, \<lparr>rc_id = None, rc_index = Some 3, rc_attr = Some 0x40, rc_cat = Some 1\<rparr>, Some buf, 7) \<and>
    content buf = [1, 2, 3, 4, 5, 6, 7]"
  using dlp_ReadRecordById_over_net[where buf = "buf_of []" and grain = "\<lambda>_. 3" and rec = "[1, 2, 3, 4, 5, 6, 7]",
      OF net_sock_ready _ _ _ _ record_device_serves[of "[1, 2, 3, 4, 5, 6, 7]" 1]]
  by (auto simp: net_sock_def)

end
