(* ===== verification/Detect.thy ===== *)
theory Detect
  imports Socket NetProps
begin

text \<open>
  The detection of the protocol on the serial port. It peeks at ten bytes, which the port keeps in its
  buffer, and skips some when they are the start of no packet it knows; what it finds depends on the
  bytes that wait alone (\<open>detect_bytes\<close>), and the packet it recognised is left to be read.
\<close>

section \<open>The decoder\<close>

lemma recognise_skips: "recognise d = Inr n \<Longrightarrow> n = 1 \<or> n = 3 \<or> n = 10"
  by (auto simp: recognise_def split: if_splits)

function detect_bytes :: "bytes \<Rightarrow> (int \<times> bytes) option" where
  "detect_bytes bs =
     (if length bs < 10 then None
      else case recognise (take 10 bs) of
             Inl protocol \<Rightarrow> Some (protocol, bs)
           | Inr n \<Rightarrow> detect_bytes (drop n bs))"
  by auto
termination
  by (relation "measure length") (auto dest: recognise_skips)

declare detect_bytes.simps [simp del]

section \<open>Peeking\<close>

lemma wire_peek_fd:
  assumes "all_alloc env" "pi_buffer_wf b" "wi_in (os_of s) \<noteq> []" "0 < n" "n \<le> 256"
    "sd_buf_size (serial_of s) + n \<le> length (sd_buf (serial_of s))"
  shows "\<exists>s' b' k. s_read_fd (wire_os grain peer) env s b n PI_MSG_PEEK r = Some (s', b', r + int k) \<and> same_stack s s' \<and>
    pi_buffer_wf b' \<and> 0 < k \<and> k \<le> n \<and> content b' = content b @ take k (wi_in (os_of s)) \<and>
    wi_in (os_of s') = drop k (wi_in (os_of s)) \<and> wi_peer (os_of s') = wi_peer (os_of s) \<and>
    sd_timeout (serial_of s') = sd_timeout (serial_of s) \<and>
    sd_buf_size (serial_of s') = sd_buf_size (serial_of s) + k \<and>
    length (sd_buf (serial_of s')) = length (sd_buf (serial_of s)) \<and>
    take (sd_buf_size (serial_of s) + k) (sd_buf (serial_of s')) =
      take (sd_buf_size (serial_of s)) (sd_buf (serial_of s)) @ take k (wi_in (os_of s))"
proof -
  define w where "w = os_of s"
  define m where "m = sd_buf_size (serial_of s)"
  define bs where "bs = take (min n (max 1 (grain (length (wi_in w))))) (wi_in w)"
  let ?w = "w\<lparr>wi_in := drop (length bs) (wi_in w)\<rparr>" and ?mem = "sd_buf (serial_of s)"
  have bs: "0 < length bs" "length bs \<le> n" "take (length bs) (wi_in w) = bs"
    using assms(3,4) by (auto simp: bs_def w_def min_def)
  obtain b1 b2 where b: "pi_buffer_expect env b n = (b1, True)" "buf_poke b1 (used b1) bs = Some b2"
    "pi_buffer_wf (b2\<lparr>used := used b2 + length bs\<rparr>)" "content (b2\<lparr>used := used b2 + length bs\<rparr>) = content b @ bs"
    using expect_poke[OF assms(1,2) bs(2)] by metis
  have rd: "os_read (wire_os grain peer) w n = (?w, Some bs)"
    by (simp add: wire_os_def Let_def bs_def) (simp add: min_def)
  have sel: "os_select_read (wire_os grain peer) w t = Some (w, Ready)" for t
    using assms(3) by (simp add: wire_os_def w_def)
  define mem' where "mem' = take m ?mem @ bs @ drop (m + length bs) ?mem"
  have p: "poke ?mem m bs = Some mem'" using assms(6) bs(2) by (simp add: poke_def mem'_def m_def)
  have mem': "length mem' = length ?mem" "take (m + length bs) mem' = take m ?mem @ bs"
    using assms(6) bs(2) by (simp_all add: mem'_def m_def)
  let ?s = "set_os ?w (set_os w s)"
  let ?s' = "upd_serial (\<lambda>d. d\<lparr>sd_rx_bytes := to_int (sd_rx_bytes d + int (length bs))\<rparr>)
    (upd_serial (\<lambda>d. d\<lparr>sd_buf := mem', sd_buf_size := sd_buf_size d + length bs\<rparr>) ?s)"
  let ?b' = "b2\<lparr>used := used b2 + length bs\<rparr>"
  obtain y ys where y: "bs = y # ys" using bs(1) by (cases bs) auto
  have "s_read_fd (wire_os grain peer) env s b n PI_MSG_PEEK r = Some (?s', ?b', r + int (length bs))"
    using assms(5) b(1) rd b(2) p
    unfolding y by (simp add: s_read_fd_def sel w_def[symmetric] m_def Let_def)
  moreover have "same_stack s ?s'"
    by (intro same_stack_trans[OF _ same_stack_set(3)] same_stack_trans[OF _ same_stack_set(2)]) simp
  ultimately show ?thesis
    using b(3,4) bs mem' by (intro exI[of _ ?s'] exI[of _ ?b'] exI[of _ "length bs"]) (simp add: w_def m_def)
qed

text \<open>The invariant of the loop: at most the ten bytes of a header are read ahead.\<close>

definition peekable :: "heap_env \<Rightarrow> 'p \<times> int \<Rightarrow> 'p wire psock \<Rightarrow> bool" where
  "peekable env keep s \<longleftrightarrow> wire_held 10 env keep (os_of s) (serial_of s) \<and> 10 \<le> length (sd_buf (serial_of s))"

abbreviation pend_of :: "'p wire psock \<Rightarrow> bytes" where
  "pend_of s \<equiv> wire_pending (os_of s) (serial_of s)"

lemma wire_peek:
  assumes "peekable env keep s" "pi_buffer_wf b" "content b = []" "sd_buf_size (serial_of s) = 10 \<or> wi_in (os_of s) \<noteq> []"
  shows "\<exists>s' b'. s_read (wire_os grain peer) env s b 10 PI_MSG_PEEK = Some (s', b', int (sd_buf_size (serial_of s'))) \<and>
    same_stack s s' \<and> peekable env keep s' \<and> pi_buffer_wf b' \<and> pend_of s' = pend_of s \<and>
    content b' = take (sd_buf_size (serial_of s')) (pend_of s) \<and>
    (sd_buf_size (serial_of s') = 10 \<or> sd_buf_size (serial_of s) < sd_buf_size (serial_of s'))"
proof -
  let ?d = "serial_of s" and ?m = "sd_buf_size (serial_of s)"
  have env: "all_alloc env" and m: "?m \<le> 10" "?m \<le> length (sd_buf ?d)" "10 \<le> length (sd_buf ?d)"
    and keep: "(wi_peer (os_of s), sd_timeout ?d) = keep"
    using assms(1) by (simp_all add: peekable_def wire_held_def)
  have fd: "\<exists>s' b' k. s_read_fd (wire_os grain peer) env s b1 (10 - ?m) PI_MSG_PEEK (int ?m) = Some (s', b', int (?m + k)) \<and>
      same_stack s s' \<and> peekable env keep s' \<and> pi_buffer_wf b' \<and> pend_of s' = pend_of s \<and>
      content b' = content b1 @ take k (wi_in (os_of s)) \<and> 0 < k \<and> sd_buf_size (serial_of s') = ?m + k"
    if lt: "?m < 10" and wf1: "pi_buffer_wf b1" for b1
  proof -
    have ne: "wi_in (os_of s) \<noteq> []" using assms(4) lt by simp
    have c: "0 < 10 - ?m" "10 - ?m \<le> 256" "?m + (10 - ?m) \<le> length (sd_buf ?d)" using lt m by simp_all
    obtain s' b' k where "s_read_fd (wire_os grain peer) env s b1 (10 - ?m) PI_MSG_PEEK (int ?m) = Some (s', b', int ?m + int k)"
      "same_stack s s'" "pi_buffer_wf b'" "0 < k" "k \<le> 10 - ?m" "content b' = content b1 @ take k (wi_in (os_of s))"
      "wi_in (os_of s') = drop k (wi_in (os_of s))" "wi_peer (os_of s') = wi_peer (os_of s)"
      "sd_timeout (serial_of s') = sd_timeout ?d" "sd_buf_size (serial_of s') = ?m + k"
      "length (sd_buf (serial_of s')) = length (sd_buf ?d)"
      "take (?m + k) (sd_buf (serial_of s')) = take ?m (sd_buf ?d) @ take k (wi_in (os_of s))"
      using wire_peek_fd[OF env wf1 ne c, of grain peer "int ?m"] by blast
    then show ?thesis
      using env m keep lt
      by (intro exI[of _ s'] exI[of _ b'] exI[of _ k]) (auto simp: peekable_def wire_held_def wire_pending_def)
  qed
  show ?thesis
  proof (cases "?m = 0")
    case True
    with fd[OF _ assms(2)] obtain s' b' k where
      "s_read_fd (wire_os grain peer) env s b 10 PI_MSG_PEEK 0 = Some (s', b', int k)"
      "same_stack s s'" "peekable env keep s'" "pi_buffer_wf b'" "pend_of s' = pend_of s"
      "content b' = content b @ take k (wi_in (os_of s))" "0 < k" "sd_buf_size (serial_of s') = k" by auto
    then show ?thesis
      using True assms(3) by (intro exI[of _ s'] exI[of _ b']) (simp add: s_read_def wire_pending_def)
  next
    case False
    have k: "(if 10 < ?m then 10 else ?m) = ?m" "min ?m (length (sd_buf ?d)) = ?m" using m(1,2) by simp_all
    obtain b1 ok where a: "pi_buffer_append env b (take ?m (sd_buf ?d)) = Some (b1, ok)" "pi_buffer_wf b1"
      "content b1 = (if ok then content b @ take ?m (sd_buf ?d) else [])"
      using pi_buffer_append_spec[OF assms(2)] by blast
    moreover have ok using a(1) expect_all_alloc[OF env, of b "length (take ?m (sd_buf ?d))"]
      by (auto simp: pi_buffer_append_def split: prod.splits if_splits Option.bind_splits)
    ultimately have a: "pi_buffer_append env b (take ?m (sd_buf ?d)) = Some (b1, True)" "pi_buffer_wf b1"
      "content b1 = take ?m (sd_buf ?d)" using assms(3) by simp_all
    have rb: "s_read_buf env s b 10 PI_MSG_PEEK = Some (s, b1, int ?m)"
      using a(1) m by (simp add: s_read_buf_def Let_def get_block_def min_def)
    show ?thesis
    proof (cases "?m = 10")
      case True
      then show ?thesis using rb a assms(1) m(3)
        by (intro exI[of _ s] exI[of _ b1]) (simp add: s_read_def wire_pending_def)
    next
      case less: False
      with m(1) have "?m < 10" by simp
      from fd[OF this a(2)] obtain s' b' k where
        "s_read_fd (wire_os grain peer) env s b1 (10 - ?m) PI_MSG_PEEK (int ?m) = Some (s', b', int (?m + k))"
        "same_stack s s'" "peekable env keep s'" "pi_buffer_wf b'" "pend_of s' = pend_of s"
        "content b' = content b1 @ take k (wi_in (os_of s))" "0 < k" "sd_buf_size (serial_of s') = ?m + k" by blast
      moreover have "int 10 - int ?m \<noteq> 0" using less by simp
      ultimately show ?thesis
        using False rb a(3) m(2) by (intro exI[of _ s'] exI[of _ b']) (simp add: s_read_def wire_pending_def)
    qed
  qed
qed

lemma wire_peek_lost:
  assumes "peekable env keep s" "pi_buffer_wf b" "sd_buf_size (serial_of s) < 10" "wi_in (os_of s) = []"
  shows "lost (s_read (wire_os grain peer) env s b 10 PI_MSG_PEEK)"
proof (cases "sd_buf_size (serial_of s) = 0")
  case True
  then show ?thesis using assms(4) by (simp add: s_read_def wire_read_fd_empty)
next
  case False
  let ?d = "serial_of s"
  have l: "sd_buf_size ?d \<le> length (sd_buf ?d)" using assms(1) by (simp add: peekable_def wire_held_def)
  obtain b1 ok where a: "pi_buffer_append env b (take (sd_buf_size ?d) (sd_buf ?d)) = Some (b1, ok)"
    using pi_buffer_append_spec[OF assms(2)] by blast
  have "int 10 - int (sd_buf_size ?d) \<noteq> 0" using assms(3) by simp
  then show ?thesis
    using False a l assms(3) wire_read_fd_empty[OF assms(4)]
    by (simp add: s_read_def s_read_buf_def Let_def get_block_def pi_set_error_def)
      (auto simp: lost_def PI_ERR_GENERIC_MEMORY_def)
qed

section \<open>The loop\<close>

lemma detect_loop_bytes:
  assumes "peekable env keep s" "pi_buffer_wf b" "content b = []"
  shows "case detect_bytes (pend_of s) of
      Some (protocol, rest) \<Rightarrow>
        \<exists>s'. detect_loop env (pi_serial_protocol (wire_os grain peer) env) s b = Some (s', Some protocol) \<and> same_stack s s' \<and>
          peekable env keep s' \<and> pend_of s' = rest
    | None \<Rightarrow> detect_loop env (pi_serial_protocol (wire_os grain peer) env) s b = None \<or>
        (\<exists>s'. detect_loop env (pi_serial_protocol (wire_os grain peer) env) s b = Some (s', None))"
  using assms
proof (induction "(length (pend_of s), 10 - sd_buf_size (serial_of s))" arbitrary: s b rule: wf_induct_rule[OF wf_lex_prod[OF wf_less wf_less]])
  case (1 s b)
  let ?dev = "pi_serial_protocol (wire_os grain peer) env"
  let ?m = "sd_buf_size (serial_of s)"
  have prd: "prot_read ?dev = s_read (wire_os grain peer) env" by (simp add: pi_serial_protocol_def)
  have m: "?m \<le> 10" "?m \<le> length (sd_buf (serial_of s))" using 1(2) by (simp_all add: peekable_def wire_held_def)
  show ?case
  proof (cases "?m = 10 \<or> wi_in (os_of s) \<noteq> []")
    case False
    then have "lost (s_read (wire_os grain peer) env s b 10 PI_MSG_PEEK)" using wire_peek_lost[OF 1(2,3)] m(1) by auto
    then have "detect_loop env ?dev s b = None \<or> (\<exists>s'. detect_loop env ?dev s b = Some (s', None))"
      by (subst (1 2) detect_loop.simps) (auto simp: lost_def prd)
    moreover have "length (pend_of s) < 10" using False m by (auto simp: wire_pending_def)
    ultimately show ?thesis by (simp add: detect_bytes.simps)
  next
    case True
    obtain s1 b1 where p: "s_read (wire_os grain peer) env s b 10 PI_MSG_PEEK = Some (s1, b1, int (sd_buf_size (serial_of s1)))"
      "same_stack s s1" "peekable env keep s1" "pi_buffer_wf b1" "pend_of s1 = pend_of s"
      "content b1 = take (sd_buf_size (serial_of s1)) (pend_of s)"
      "sd_buf_size (serial_of s1) = 10 \<or> ?m < sd_buf_size (serial_of s1)"
      using wire_peek[OF 1(2-4) True, of grain peer] by blast
    have m1: "sd_buf_size (serial_of s1) \<le> 10" "sd_buf_size (serial_of s1) \<le> length (sd_buf (serial_of s1))"
      "all_alloc env" using p(3) by (simp_all add: peekable_def wire_held_def)
    show ?thesis
    proof (cases "sd_buf_size (serial_of s1) = 10")
      case False
      let ?b = "pi_buffer_clear env b1"
      have e: "detect_loop env ?dev s b = detect_loop env ?dev s1 ?b"
        using p(1) False by (subst detect_loop.simps) (simp add: prd)
      have "case detect_bytes (pend_of s1) of
          Some (protocol, rest) \<Rightarrow>
            \<exists>s'. detect_loop env ?dev s1 ?b = Some (s', Some protocol) \<and> same_stack s1 s' \<and> peekable env keep s' \<and> pend_of s' = rest
        | None \<Rightarrow> detect_loop env ?dev s1 ?b = None \<or> (\<exists>s'. detect_loop env ?dev s1 ?b = Some (s', None))"
        using p(3,5,7) m1(1) False pi_buffer_clear_wf[OF p(4), of env] by (intro 1(1)) auto
      then show ?thesis unfolding e p(5) using p(2) by (auto split: option.splits intro: same_stack_trans)
    next
      case ten: True
      have "content b1 = take 10 (pend_of s)" using p(6) ten by simp
      moreover have long: "\<not> length (pend_of s) < 10" using ten m1(2) unfolding p(5)[symmetric] by (simp add: wire_pending_def)
      ultimately obtain ys where d: "data b1 = Some (take 10 (pend_of s) @ ys)"
        using content_data[OF p(4), of "take 10 (pend_of s)"] by fastforce
      have g: "get_block 10 (take 10 (pend_of s) @ ys) 0 = Some (take 10 (pend_of s))"
        using long by (intro get_block_here) simp
      show ?thesis
      proof (cases "recognise (take 10 (pend_of s))")
        case (Inl protocol)
        then have "detect_loop env ?dev s b = Some (s1, Some protocol)"
          using p(1) ten d g by (subst detect_loop.simps) (simp add: prd)
        then show ?thesis using p(2,3,5) Inl long by (subst detect_bytes.simps) simp
      next
        case (Inr n)
        then have n: "0 < n" "n \<le> 10" using recognise_skips by fastforce+
        have np: "0 \<noteq> PI_MSG_PEEK" by (simp add: PI_MSG_PEEK_def)
        obtain s2 b2 where q: "s_read_buf env s1 b1 n 0 = Some (s2, b2, int n)" "same_stack s1 s2" "os_of s2 = os_of s1"
          "pi_buffer_wf b2" "sd_timeout (serial_of s2) = sd_timeout (serial_of s1)" "sd_buf_size (serial_of s2) = 10 - n"
          "length (sd_buf (serial_of s2)) = length (sd_buf (serial_of s1))"
          "take (10 - n) (sd_buf (serial_of s2)) = drop n (take 10 (sd_buf (serial_of s1)))"
          using wire_read_buf[OF m1(3) p(4) np m1(2) refl, where n = n] n ten by (auto simp: min_def)
        have rd: "s_read (wire_os grain peer) env s1 b1 n 0 = Some (s2, b2, int n)" using q(1) ten by (simp add: s_read_def)
        have pk: "peekable env keep s2" using p(3) q(3,5,6,7) n by (auto simp: peekable_def wire_held_def)
        have "pend_of s2 = drop n (pend_of s1)"
          using q(3,6,8) n m1(2) ten by (simp add: wire_pending_def)
        then have pd: "pend_of s2 = drop n (pend_of s)" by (simp add: p(5))
        let ?b = "pi_buffer_clear env b2"
        have e: "detect_loop env ?dev s b = detect_loop env ?dev s2 ?b"
          using p(1) ten d g Inr rd by (subst detect_loop.simps) (simp add: prd)
        have "case detect_bytes (pend_of s2) of
            Some (protocol, rest) \<Rightarrow>
              \<exists>s'. detect_loop env ?dev s2 ?b = Some (s', Some protocol) \<and> same_stack s2 s' \<and> peekable env keep s' \<and> pend_of s' = rest
          | None \<Rightarrow> detect_loop env ?dev s2 ?b = None \<or> (\<exists>s'. detect_loop env ?dev s2 ?b = Some (s', None))"
          using pk pi_buffer_clear_wf[OF q(4), of env] pd n long by (intro 1(1)) auto
        moreover have "detect_bytes (pend_of s) = detect_bytes (pend_of s2)"
          using Inr long pd by (subst detect_bytes.simps) simp
        ultimately show ?thesis unfolding e using same_stack_trans[OF p(2) q(2)]
          by (auto split: option.splits intro: same_stack_trans)
      qed
    qed
  qed
qed

lemma detect_protocol_loop:
  assumes "all_alloc env" "sd_buf_size (serial_of s) = 0" "10 \<le> length (sd_buf (serial_of s))"
  shows "\<exists>buf. pi_buffer_new env 64 = Some buf \<and> pi_buffer_wf buf \<and> content buf = [] \<and> pend_of s = wi_in (os_of s) \<and>
    peekable env (wi_peer (os_of s), sd_timeout (serial_of s)) s"
proof -
  obtain buf where buf: "pi_buffer_new env 64 = Some buf" using assms(1) by (simp add: pi_buffer_new_def malloc_def)
  then show ?thesis using pi_buffer_new_wf[OF buf] assms
    by (simp add: peekable_def wire_held_def wire_pending_def)
qed

lemma detect_protocol_found:
  assumes "all_alloc env" "sd_buf_size (serial_of s) = 0" "10 \<le> length (sd_buf (serial_of s))"
    "detect_bytes (wi_in (os_of s)) = Some (protocol, rest)"
  shows "\<exists>s'. detect_protocol env (pi_serial_protocol (wire_os grain peer) env) s = Some (s', protocol) \<and> same_stack s s' \<and>
    wire_held 10 env (wi_peer (os_of s), sd_timeout (serial_of s)) (os_of s') (serial_of s') \<and>
    wire_pending (os_of s') (serial_of s') = rest"
proof -
  from detect_protocol_loop[OF assms(1-3)] obtain buf where buf: "pi_buffer_new env 64 = Some buf" "pi_buffer_wf buf" "content buf = []"
    "pend_of s = wi_in (os_of s)" "peekable env (wi_peer (os_of s), sd_timeout (serial_of s)) s" by blast
  from detect_loop_bytes[OF buf(5,2,3), of grain peer] buf(1,4) assms(4) show ?thesis
    by (auto simp: detect_protocol_def peekable_def)
qed

text \<open>C20: on a serial port that delivers its input in pieces of any size, the protocol that a new
  connection is given depends on the waiting bytes alone: PADP or NET, whichever the first header
  says that can be framed in them, with that header and all behind it left to be read; without one
  the detection waits for ever, or falls back on PADP after an error of the port.\<close>

theorem detect_protocol_refines_decoder:
  assumes "all_alloc env" "sd_buf_size (serial_of s) = 0" "10 \<le> length (sd_buf (serial_of s))"
  shows "case detect_bytes (wi_in (os_of s)) of
      Some (protocol, rest) \<Rightarrow>
        \<exists>s'. detect_protocol env (pi_serial_protocol (wire_os grain peer) env) s = Some (s', protocol) \<and> same_stack s s' \<and>
          wire_held 10 env (wi_peer (os_of s), sd_timeout (serial_of s)) (os_of s') (serial_of s') \<and>
          wire_pending (os_of s') (serial_of s') = rest
    | None \<Rightarrow> detect_protocol env (pi_serial_protocol (wire_os grain peer) env) s = None \<or>
        (\<exists>s'. detect_protocol env (pi_serial_protocol (wire_os grain peer) env) s = Some (s', PI_PF_PADP))"
proof -
  from detect_protocol_loop[OF assms] obtain buf where buf: "pi_buffer_new env 64 = Some buf" "pi_buffer_wf buf" "content buf = []"
    "pend_of s = wi_in (os_of s)" "peekable env (wi_peer (os_of s), sd_timeout (serial_of s)) s" by blast
  from detect_loop_bytes[OF buf(5,2,3), of grain peer] buf(1,4) show ?thesis
    by (auto simp: detect_protocol_def peekable_def split: option.splits)
qed

text \<open>Two bytes of noise, a header of SLP for another socket, the header of NET.\<close>

theorem detect_protocol_refines_decoder_witness:
  "\<exists>s. detect_protocol calloc_env (pi_serial_protocol (wire_os (\<lambda>_. 4) (\<lambda>p _. (p, []))) calloc_env)
      (port_sock ([7, 8] @ [0xbe, 0xef, 0xed, 1, 1, 0, 0, 4, 9, 0xa9] @ [1, 1, 0, 0, 0, 22, 0x90, 1, 0, 0, 5]) ()) = Some (s, PI_PF_NET) \<and>
    wire_pending (os_of s) (serial_of s) = [1, 1, 0, 0, 0, 22, 0x90, 1, 0, 0, 5]"
proof -
  let ?s = "port_sock ([7, 8] @ [0xbe, 0xef, 0xed, 1, 1, 0, 0, 4, 9, 0xa9] @ [1, 1, 0, 0, 0, 22, 0x90, 1, 0, 0, 5]) ()"
  have "detect_bytes (wi_in (os_of ?s)) = Some (PI_PF_NET, [1, 1, 0, 0, 0, 22, 0x90, 1, 0, 0, 5])"
    by (simp add: detect_bytes.simps recognise_def slp_const_defs)
  moreover have "10 \<le> length (sd_buf (serial_of ?s))" by (simp add: port_sock_def port_defs)
  ultimately show ?thesis
    using detect_protocol_refines_decoder[of calloc_env ?s "\<lambda>_. 4" "\<lambda>p _. (p, [])"] by auto
qed

end
