(* ===== verification/ConnectProps.thy ===== *)
theory ConnectProps
  imports Connect DlpNet Detect
begin

text \<open>
  A connection over NET from the creation of the socket to the first DLP call: on a terminal whose
  system calls succeed, behind any noise, the protocol is detected and the handshake completed, and
  the socket is in the state in which \<open>dlp_exec_over_net\<close> applies.
\<close>

section \<open>The handshake\<close>

lemma handshake_receive:
  assumes "net_line env s d (net_answer x resp @ bs)" "length resp \<le> 0x100000" "pi_buffer_wf buf"
  shows "\<exists>t buf'. net_handshake env (pi_serial_protocol (net_os grain dev) env) (Receive n # cs) s buf =
      net_handshake env (pi_serial_protocol (net_os grain dev) env) cs t buf' \<and> net_line env t d bs \<and> pi_buffer_wf buf'"
proof -
  obtain t buf' f where "net_rx env (pi_serial_protocol (net_os grain dev) env) s buf n 0 =
      Some (upd_net f t, buf', int (length resp))" "net_line env (upd_net f t) d bs" "pi_buffer_wf buf'"
    using net_line_rx[OF assms, of grain dev n] by blast
  then show ?thesis by (intro exI[of _ "upd_net f t"] exI[of _ buf']) simp
qed

lemma handshake_send:
  assumes "net_line env s d bs" "dev d rq = (d', resp)" "length rq \<le> 256"
  shows "\<exists>t x. net_handshake env (pi_serial_protocol (net_os grain dev) env) (Send rq # cs) s buf =
      net_handshake env (pi_serial_protocol (net_os grain dev) env) cs t buf \<and> net_line env t d' (bs @ net_answer x resp)"
proof -
  obtain t where "net_tx env (pi_serial_protocol (net_os grain dev) env) s rq 0 = Some (t, int (length rq))"
    "net_line env t d' (bs @ net_answer (net_txid (net_of s)) resp)"
    using net_line_tx[OF assms(1), of rq grain dev 0] assms(2,3) by auto
  then show ?thesis by (intro exI[of _ t] exI[of _ "net_txid (net_of s)"]) simp
qed

text \<open>A device that plays its part of the handshake and is then in the state \<open>d2\<close>.\<close>

definition shakes_hands :: "('d \<Rightarrow> bytes \<Rightarrow> 'd \<times> bytes) \<Rightarrow> 'd \<Rightarrow> 'd \<Rightarrow> bool" where
  "shakes_hands dev d0 d2 \<longleftrightarrow> (\<exists>d1. dev d0 net_rx_msg1 = (d1, net_tx_msg2) \<and> dev d1 net_rx_msg2 = (d2, net_tx_msg3))"

lemma net_rx_handshake_line:
  assumes "net_line env s d0 (net_answer x net_tx_msg1)" "shakes_hands dev d0 d2"
  shows "\<exists>t. net_rx_handshake env (pi_serial_protocol (net_os grain dev) env) s = Some (t, 0) \<and> net_line env t d2 []"
proof -
  define hs where "hs = net_handshake env (pi_serial_protocol (net_os grain dev) env)"
  note receive = handshake_receive[where env = env and grain = grain and dev = dev, folded hs_def]
  note send = handshake_send[where env = env and grain = grain and dev = dev, folded hs_def]
  obtain d1 where d: "dev d0 net_rx_msg1 = (d1, net_tx_msg2)" "dev d1 net_rx_msg2 = (d2, net_tx_msg3)"
    using assms(2) unfolding shakes_hands_def by blast
  have "all_alloc env" using assms(1) by (simp add: net_line_def)
  then obtain b0 where b0: "pi_buffer_new env 256 = Some b0" by (simp add: pi_buffer_new_def malloc_def)
  have wf0: "pi_buffer_wf b0" using pi_buffer_new_wf[OF b0] by simp
  have l: "length net_tx_msg1 \<le> 0x100000" "length net_tx_msg2 \<le> 0x100000" "length net_tx_msg3 \<le> 0x100000"
    "length net_rx_msg1 \<le> 256" "length net_rx_msg2 \<le> 256"
    by (simp_all add: net_tx_msg1_def net_tx_msg2_def net_tx_msg3_def net_rx_msg1_def net_rx_msg2_def)
  have s0: "net_line env s d0 (net_answer x net_tx_msg1 @ [])" using assms(1) by simp
  obtain t1 b1 where 1: "hs [Receive 256, Send net_rx_msg1, Receive 50, Send net_rx_msg2, Receive 8] s b0 =
      hs [Send net_rx_msg1, Receive 50, Send net_rx_msg2, Receive 8] t1 b1" "net_line env t1 d0 []" "pi_buffer_wf b1"
    using receive[OF s0 l(1) wf0, of 256 "[Send net_rx_msg1, Receive 50, Send net_rx_msg2, Receive 8]"] by blast
  obtain t2 y where 2: "hs [Send net_rx_msg1, Receive 50, Send net_rx_msg2, Receive 8] t1 b1 =
      hs [Receive 50, Send net_rx_msg2, Receive 8] t2 b1" "net_line env t2 d1 (net_answer y net_tx_msg2)"
    using send[OF 1(2) d(1) l(4), of "[Receive 50, Send net_rx_msg2, Receive 8]" b1] unfolding append_Nil by blast
  have s2: "net_line env t2 d1 (net_answer y net_tx_msg2 @ [])" using 2(2) by simp
  obtain t3 b3 where 3: "hs [Receive 50, Send net_rx_msg2, Receive 8] t2 b1 = hs [Send net_rx_msg2, Receive 8] t3 b3"
    "net_line env t3 d1 []" "pi_buffer_wf b3"
    using receive[OF s2 l(2) 1(3), of 50 "[Send net_rx_msg2, Receive 8]"] by blast
  obtain t4 z where 4: "hs [Send net_rx_msg2, Receive 8] t3 b3 = hs [Receive 8] t4 b3"
    "net_line env t4 d2 (net_answer z net_tx_msg3)"
    using send[OF 3(2) d(2) l(5), of "[Receive 8]" b3] unfolding append_Nil by blast
  have s4: "net_line env t4 d2 (net_answer z net_tx_msg3 @ [])" using 4(2) by simp
  obtain t5 b5 where 5: "hs [Receive 8] t4 b3 = hs [] t5 b5" "net_line env t5 d2 []"
    using receive[OF s4 l(3) 3(3), of 8 "[]"] by blast
  have "net_rx_handshake env (pi_serial_protocol (net_os grain dev) env) s = hs [] t5 b5"
    unfolding net_rx_handshake_def b0 option.case hs_def[symmetric] 1(1) 2(1) 3(1) 4(1) 5(1) by (rule refl)
  moreover have "hs [] t5 b5 = Some (t5, 0)" by (simp add: hs_def)
  ultimately show ?thesis using 5(2) by auto
qed

section \<open>From the bind to the connection\<close>

text \<open>A terminal whose system calls succeed.\<close>

definition plain_tty :: "'o tty" where
  "plain_tty = \<lparr>ty_open = (\<lambda>w name. (w, if name = ''/dev/null'' then 3 else 4)), ty_nodev = (\<lambda>w. False),
     ty_isatty = (\<lambda>w fd. True), ty_getattr = (\<lambda>w. True), ty_setattr = (\<lambda>w rate. (w, True)),
     ty_dup2 = (\<lambda>w old new. (w, new)), ty_close = (\<lambda>w fd. w), ty_delay = (\<lambda>w ms. w)\<rparr>"

lemma set_os_same [simp]: "set_os (os_of sk) sk = sk"
  by (simp add: port_defs)

lemma upd_serial_os [simp]: "upd_serial f (set_os w sk) = set_os w (upd_serial f sk)"
  by (simp add: port_defs)

definition net_ops ::
  "heap_env \<Rightarrow> (nat \<Rightarrow> nat) \<Rightarrow> ('d \<Rightarrow> bytes \<Rightarrow> 'd \<times> bytes) \<Rightarrow> string option \<Rightarrow> u8 \<times> padp \<Rightarrow> 'd net_peer wire device_ops" where
  "net_ops env grain dev rate junk = serial_ops env (net_os grain dev) plain_tty rate junk"

lemma net_os_getfl: "os_getfl (net_os grain dev) w = (w, 0)" "os_setfl (net_os grain dev) w fl = w"
  by (simp_all add: net_os_def wire_os_def)

lemma s_open_plain:
  assumes "calcrate (sd_rate (serial_of (so_sock so))) \<noteq> None" "0 \<le> so_sd so"
  shows "s_open (net_os grain dev) plain_tty so name = Some (so, if name = ''/dev/null'' then 3 else 4, False)"
  using assms by (auto simp: s_open_def so_os_def plain_tty_def net_os_getfl pi_socket_setsd_def)

text \<open>A socket that has been bound and listens; \<open>w\<close> is the state of its port.\<close>

definition listening :: "bytes \<Rightarrow> 'o \<Rightarrow> 'o pi_socket \<Rightarrow> bool" where
  "listening buf w so \<longleftrightarrow> is_listener (so_sock so) \<and> so_type so = PI_SOCK_STREAM \<and> so_protocol so = PI_PF_DLP \<and>
     so_queue so = [] \<and> so_cmd_queue so = [] \<and> so_device so = Some PI_SERIAL_DEV \<and> command_of so = 1 \<and>
     os_of (so_sock so) = w \<and> sd_buf (serial_of (so_sock so)) = buf \<and> sd_buf_size (serial_of (so_sock so)) = 0"

definition fresh_socket :: "'o pi_socket \<Rightarrow> bool" where
  "fresh_socket so \<longleftrightarrow> so_type so = PI_SOCK_STREAM \<and> so_protocol so = PI_PF_DLP \<and> so_queue so = [] \<and>
     so_cmd_queue so = [] \<and> command_of so = 1 \<and> 0 \<le> so_sd so"

lemma calcrate_9600: "calcrate 9600 = Some 9600"
  by (simp add: calcrate_def)

lemma bind_listen:
  assumes "all_alloc env" "fresh_socket so" "length name < 255" "port_device port = (PI_SERIAL_DEV, name)"
  shows "\<exists>so1 so2. pi_bind env (net_ops env grain dev None junk) inet buf pilotport (Some port) so = Some (so1, 0) \<and>
     pi_listen (net_ops env grain dev None junk) inet so1 = Some (so2, 0) \<and> listening buf (os_of (so_sock so)) so2 \<and>
     so_sd so2 = so_sd so"
proof -
  have m: "malloc_ok env n" for n using assms(1) by (simp add: all_alloc_def)
  obtain d where d: "pi_serial_device env buf = Some d" "sd_buf d = buf" "sd_buf_size d = 0" "sd_establishrate d = -1"
    by (simp add: pi_serial_device_def m)
  let ?sa = "on_sock (upd_serial (\<lambda>_. d)) (so\<lparr>so_device := Some PI_SERIAL_DEV\<rparr>)"
  let ?sb = "set_rates 9600 (-1) (sd_establishhighrate d) ?sa"
  let ?so1 = "?sb\<lparr>so_addr := Some name\<rparr>"
  let ?so2 = "on_sock (set_state PI_SOCK_LISTEN) ?so1"
  have rate: "sd_rate (serial_of (so_sock ?sb)) = 9600" by (simp add: set_rates_def)
  have "0 \<le> so_sd ?sb" using assms(2) by (simp add: fresh_socket_def set_rates_def)
  then have op: "\<exists>fd\<ge>0. bind_open (net_os grain dev) plain_tty name 6 ?sb = Some (?sb, fd)"
    using s_open_plain[of ?sb grain dev name] rate by (subst bind_open.simps) (auto simp: calcrate_9600)
  have ty: "so_type so = PI_SOCK_STREAM" "serial_of (so_sock ?sa) = d" using assms(2) by (simp_all add: fresh_socket_def)
  have "pi_serial_bind env (net_os grain dev) plain_tty None ?sa name = Some (?so1, 0)"
    using op by (auto simp: pi_serial_bind_def ty d(4) get_pilot_rate_def m)
  moreover have "pi_devsocket env buf pilotport (Some port) so = Some (Some (?sa, name))"
    using assms(3,4) d(1) by (simp add: pi_devsocket_def)
  ultimately have b: "pi_bind env (net_ops env grain dev None junk) inet buf pilotport (Some port) so = Some (?so1, 0)"
    by (simp add: pi_bind_def device_of_def net_ops_def serial_ops_def)
  have "s_changebaud plain_tty ?so1 = Some (?so1, 0)"
    using rate by (simp add: s_changebaud_def plain_tty_def so_os_def calcrate_9600)
  then have "pi_listen (net_ops env grain dev None junk) inet ?so1 = Some (?so2, 0)"
    by (simp add: pi_listen_def device_of_def net_ops_def serial_ops_def pi_serial_listen_def set_rates_def)
  moreover have "listening buf (os_of (so_sock so)) ?so2"
    using assms(2) d(2,3) by (simp add: listening_def fresh_socket_def is_listener_def set_rates_def) (simp add: command_of_def port_defs)
  moreover have "so_sd ?so2 = so_sd so" by (simp add: set_rates_def)
  ultimately show ?thesis using b by blast
qed

section \<open>Accepting\<close>

lemma queue_added:
  assumes "all_alloc env"
  shows "foldl (protocol_queue_add env) q ls = q @ ls" "foldl (protocol_cmd_queue_add env) q ls = q @ ls"
    "protocol_queue_add env q l = q @ [l]" "protocol_cmd_queue_add env q l = q @ [l]" "new_protocol env v = Some v"
proof -
  show "new_protocol env v = Some v" using assms by (simp add: new_protocol_def all_alloc_def)
  show 1: "protocol_queue_add env q l = q @ [l]" "protocol_cmd_queue_add env q l = q @ [l]" for q l
    using assms by (simp_all add: protocol_queue_add_def protocol_cmd_queue_add_def all_alloc_def)
  show "foldl (protocol_queue_add env) q ls = q @ ls" "foldl (protocol_cmd_queue_add env) q ls = q @ ls"
    by (induction ls arbitrary: q) (simp_all add: 1)
qed

lemma build_net:
  assumes "all_alloc env" "listening buf w so"
    "detect_protocol env (pi_serial_protocol os env) (so_sock so) = Some (s', PI_PF_NET)"
  shows "protocol_queue_build env os junk so True =
    Some (so\<lparr>so_queue := net_queue, so_cmd_queue := net_queue, so_cmd := PI_CMD_NET, so_parked := new_queue_data junk,
             so_sock := (install_data (new_queue_data junk) s')\<lparr>sk_cmp := False\<rparr>\<rparr>)"
proof -
  have "so_type so \<noteq> PI_SOCK_RAW" using assms(2) by (simp add: listening_def PI_SOCK_RAW_def PI_SOCK_STREAM_def)
  moreover have "queue_levels PI_PF_NET = [PI_LEVEL_NET]" "cmd_queue_levels PI_PF_NET = [PI_LEVEL_NET]"
    "command_protocol PI_PF_NET = PI_CMD_NET" "PI_CMD_NET \<noteq> 0" "PI_CMD_NET \<noteq> PI_CMD_CMP"
    by (simp_all add: queue_levels_def cmd_queue_levels_def command_protocol_def pf_defs PI_CMD_NET_def PI_CMD_CMP_def)
  ultimately show ?thesis
    using assms(2,3) by (simp add: protocol_queue_build_def listening_def queue_added[OF assms(1)] Let_def net_queue_def)
qed

lemma poll_ready:
  assumes "wi_in (os_of sk) \<noteq> []"
  shows "s_poll (net_os grain dev) sk t = Some (sk, 0)"
  using assms by (simp add: s_poll_def net_os_def wire_os_def)

text \<open>After a change of the limits, the state and the queue in use, the line is as it was.\<close>

lemma net_line_kept:
  assumes "net_line env s d bs" "net_type (net_of t) = PI_NET_TYPE_DATA" "os_of t = os_of s"
    "sd_buf (serial_of t) = sd_buf (serial_of s)" "sd_buf_size (serial_of t) = sd_buf_size (serial_of s)"
  shows "net_line env t d bs"
  using assms by (simp add: net_line_def wire_pending_def)

lemma accept_net:
  assumes env: "all_alloc env" and l: "listening buf \<lparr>wi_in = noise, wi_peer = \<lparr>np_device = d0, np_got = []\<rparr>\<rparr> so"
    and buf: "length buf = 256" and det: "detect_bytes noise = Some (PI_PF_NET, net_answer x net_tx_msg1)"
    and dev: "shakes_hands dev d0 d2" and sd: "0 \<le> so_sd so"
  shows "\<exists>so'. pi_accept_to env (net_os grain dev) (net_ops env grain dev None junk) inet to so = Some (so', False, so_sd so) \<and>
    net_ready env (sk_world (so_sock so')) d2 \<and> so_queue so' = net_queue \<and> so_cmd so' = PI_CMD_NET \<and> command_of so' = 0 \<and>
    so_sd so' = so_sd so \<and> sd_timeout (serial_of (so_sock so')) = 0"
proof -
  let ?os = "net_os grain dev"
  define so1 where "so1 = so\<lparr>so_accept_to := to\<rparr>"
  define so2 where "so2 = on_sock (upd_serial (\<lambda>d. d\<lparr>sd_timeout := to_int (to * 1000)\<rparr>)) so1"
  have ne: "noise \<noteq> []" using det by (auto simp: detect_bytes.simps)
  have os: "os_of (so_sock so) = \<lparr>wi_in = noise, wi_peer = \<lparr>np_device = d0, np_got = []\<rparr>\<rparr>"
    and ty: "so_type so = PI_SOCK_STREAM" and dv: "so_device so = Some PI_SERIAL_DEV" using l by (simp_all add: listening_def)
  have l2: "listening buf \<lparr>wi_in = noise, wi_peer = \<lparr>np_device = d0, np_got = []\<rparr>\<rparr> so2"
    using l by (simp add: listening_def so2_def so1_def is_listener_def) (simp add: command_of_def port_defs)
  obtain s' where s': "detect_protocol env (pi_serial_protocol ?os env) (so_sock so2) = Some (s', PI_PF_NET)"
    "same_stack (so_sock so2) s'" "wire_pending (os_of s') (serial_of s') = net_answer x net_tx_msg1"
    "wire_held 10 env (\<lparr>np_device = d0, np_got = []\<rparr>, sd_timeout (serial_of (so_sock so2))) (os_of s') (serial_of s')"
    using detect_protocol_found[of env "so_sock so2" PI_PF_NET "net_answer x net_tx_msg1" grain "feed (net_step dev)"] env l2 buf det
    by (auto simp: listening_def net_os_def)
  define so3 where "so3 = so2\<lparr>so_queue := net_queue, so_cmd_queue := net_queue, so_cmd := PI_CMD_NET,
    so_parked := new_queue_data junk, so_sock := (install_data (new_queue_data junk) s')\<lparr>sk_cmp := False\<rparr>\<rparr>"
  have b: "protocol_queue_build env ?os junk so2 True = Some so3" using build_net[OF env l2 s'(1)] by (simp add: so3_def)
  have nd: "net_type net_protocol_data = PI_NET_TYPE_DATA" by (simp add: net_protocol_data_def)
  have w3: "net_of (so_sock so3) = net_protocol_data" "os_of (so_sock so3) = os_of s'" "serial_of (so_sock so3) = serial_of s'"
    by (simp_all add: so3_def install_data_def new_queue_data_def port_defs)
  have c3: "command_of so3 = 1"
    using l2 same_stack_command[OF s'(2)] by (simp add: listening_def command_of_def so3_def install_data_def on_port_def)
  have line3: "net_line env (so_sock so3) d0 (net_answer x net_tx_msg1)"
    using s'(3,4) nd w3 by (simp add: net_line_def wire_held_def)
  have nxt: "next_protocol env ?os so3 PI_LEVEL_NET = Some (Some (pi_serial_protocol ?os env))"
  proof -
    have "current_queue so3 = net_queue" using c3 by (simp add: current_queue_def) (simp add: so3_def)
    then show ?thesis by (simp add: next_protocol_def protocol_queue_find_next_def Let_def net_queue_def level_defs)
  qed
  obtain t where t: "net_rx_handshake env (pi_serial_protocol ?os env) (so_sock so3) = Some (t, 0)" "net_line env t d2 []"
    using net_rx_handshake_line[OF line3 dev] by blast
  let ?so4 = "so3\<lparr>so_sock := t\<lparr>sk_dlprecord := 0\<rparr>\<rparr>"
  define so5 where "so5 = on_sock (set_state PI_SOCK_CONN_ACCEPT) (set_command 0 (on_sock (upd_serial (\<lambda>d. d\<lparr>sd_timeout := 0\<rparr>)) ?so4))"
  have k: "so_type so1 = PI_SOCK_STREAM" "so_cmd so3 = PI_CMD_NET" "PI_CMD_NET \<noteq> PI_CMD_CMP" "so_sock so1 = so_sock so"
    "so_type so3 = PI_SOCK_STREAM" "so_accept_to so1 = to"
    using ty by (simp_all add: so1_def so2_def so3_def PI_CMD_NET_def PI_CMD_CMP_def)
  have sd5: "so_sd so5 = so_sd so" by (simp add: so5_def set_command_def so3_def so2_def so1_def Let_def)
  have po: "s_poll ?os (so_sock so) ms = Some (so_sock so, 0)" for ms using poll_ready[of "so_sock so" grain dev ms] ne os by simp
  have same: "so1\<lparr>so_sock := so_sock so\<rparr> = so1" by (simp add: so1_def)
  have "pi_serial_accept env ?os plain_tty junk so1 = Some (so5, so_sd so5)"
    using t(1) nxt k b unfolding so2_def
    by (cases "to = 0") (simp_all add: pi_serial_accept_def po same Let_def k(6) with_next_def so5_def)
  then have "pi_accept_to env ?os (net_ops env grain dev None junk) inet to so = Some (so5, False, so_sd so)"
    using l dv sd sd5 by (simp add: pi_accept_to_def listening_def device_of_def net_ops_def serial_ops_def so1_def Let_def)
  moreover have "command_of so5 = 0" by (simp add: so5_def set_command_def command_of_def Let_def) (simp add: port_defs)
  moreover have "net_ready env (sk_world (so_sock so5)) d2"
  proof -
    have "net_type (net_of (so_sock so5)) = PI_NET_TYPE_DATA"
    proof (cases "command_of ?so4 = 0")
      case True
      then have "net_of (so_sock so5) = net_of t"
        by (simp add: so5_def set_command_def command_of_def Let_def) (simp add: port_defs)
      then show ?thesis using t(2) by (simp add: net_line_def)
    next
      case False
      then have "net_of (so_sock so5) = net_protocol_data"
        by (simp add: so5_def set_command_def command_of_def Let_def so3_def new_queue_data_def) (simp add: port_defs)
      then show ?thesis using nd by simp
    qed
    then have "net_line env (so_sock so5) d2 []"
      by (rule net_line_kept[OF t(2)]) (simp_all add: so5_def set_command_def Let_def port_defs)
    moreover have "is_connected (so_sock so5)" by (simp add: is_connected_def so5_def)
    ultimately show ?thesis by (simp add: net_ready_def net_port_of)
  qed
  moreover have "so_queue so5 = net_queue" "so_cmd so5 = PI_CMD_NET"
    by (simp_all add: so5_def set_command_def so3_def Let_def)
  moreover have "sd_timeout (serial_of (so_sock so5)) = 0"
    by (simp add: so5_def set_command_def Let_def port_defs)
  ultimately show ?thesis using sd5 by blast
qed

section \<open>Properties\<close>

text \<open>C21: a connection comes about. On a terminal whose system calls succeed, whatever noise precedes the
  device's first message and in whatever pieces the port delivers it, a new socket that is bound to a
  serial port, listens and accepts (with any time limit) ends connected: it returns its descriptor,
  the protocol found is NET, the socket has left the command state, the time limit is cleared, and
  the device has seen the whole handshake, so that the stack is ready for DLP.\<close>

theorem pi_accept_connects:
  assumes "all_alloc env" "length buf = 256" "shakes_hands dev d0 d2"
    "pi_socket_create env plain_tty absent parked PI_SOCK_STREAM 0 = (w, Some so)"
    "os_of absent = \<lparr>wi_in = noise, wi_peer = \<lparr>np_device = d0, np_got = []\<rparr>\<rparr>"
    "detect_bytes noise = Some (PI_PF_NET, net_answer x net_tx_msg1)"
    "port_device port = (PI_SERIAL_DEV, name)" "length name < 255"
  shows "\<exists>so1 so2 so3.
    pi_bind env (net_ops env grain dev None junk) inet buf pilotport (Some port) so = Some (so1, 0) \<and>
    pi_listen (net_ops env grain dev None junk) inet so1 = Some (so2, 0) \<and>
    pi_accept_to env (net_os grain dev) (net_ops env grain dev None junk) inet to so2 = Some (so3, False, so_sd so) \<and>
    net_ready env (sk_world (so_sock so3)) d2 \<and> so_queue so3 = [Some PI_LEVEL_NET, Some PI_LEVEL_DEV] \<and> command_of so3 = 0 \<and>
    sd_timeout (serial_of (so_sock so3)) = 0"
proof -
  have c: "w = os_of absent" "so_type so = PI_SOCK_STREAM" "so_protocol so = PI_PF_DLP" "so_queue so = []" "so_cmd_queue so = []"
    "so_sd so = 3" "command_of so = 1" "os_of (so_sock so) = os_of absent"
    using assms(1,4) by (auto simp: pi_socket_create_def plain_tty_def all_alloc_def command_of_def port_defs)
  then have "fresh_socket so" by (simp add: fresh_socket_def)
  from bind_listen[OF assms(1) this assms(8,7), of grain dev junk inet buf pilotport] c(8) assms(5) obtain so1 so2 where b:
    "pi_bind env (net_ops env grain dev None junk) inet buf pilotport (Some port) so = Some (so1, 0)"
    "pi_listen (net_ops env grain dev None junk) inet so1 = Some (so2, 0)"
    "listening buf \<lparr>wi_in = noise, wi_peer = \<lparr>np_device = d0, np_got = []\<rparr>\<rparr> so2" "so_sd so2 = so_sd so" by auto
  have "0 \<le> so_sd so2" using b(4) c(6) by simp
  from accept_net[OF assms(1) b(3) assms(2,6,3) this, of grain junk inet to] b(1,2,4) show ?thesis
    by (auto simp: net_queue_def)
qed

text \<open>The device of the witness: it counts the messages of the handshake.\<close>

definition hand_device :: "nat \<Rightarrow> bytes \<Rightarrow> nat \<times> bytes" where
  "hand_device n rq = (n + 1, if n = 0 then net_tx_msg2 else if n = 1 then net_tx_msg3 else [])"

theorem pi_accept_connects_witness:
  "\<exists>so1 so2 so3.
    pi_bind calloc_env (net_ops calloc_env (\<lambda>_. 5) hand_device None (0, \<lparr>pd_type = 0, pd_flags = 0, pd_size = 0\<rparr>))
      (net_ops calloc_env (\<lambda>_. 5) hand_device None (0, \<lparr>pd_type = 0, pd_flags = 0, pd_size = 0\<rparr>)) (replicate 256 0) None
      (Some ''/dev/ttyS0'')
      (the (snd (pi_socket_create calloc_env plain_tty
        (port_sock ([9, 9] @ net_answer 1 net_tx_msg1) \<lparr>np_device = 0, np_got = []\<rparr>)
        (new_queue_data (0, \<lparr>pd_type = 0, pd_flags = 0, pd_size = 0\<rparr>)) PI_SOCK_STREAM 0))) = Some (so1, 0) \<and>
    pi_listen (net_ops calloc_env (\<lambda>_. 5) hand_device None (0, \<lparr>pd_type = 0, pd_flags = 0, pd_size = 0\<rparr>))
      (net_ops calloc_env (\<lambda>_. 5) hand_device None (0, \<lparr>pd_type = 0, pd_flags = 0, pd_size = 0\<rparr>)) so1 = Some (so2, 0) \<and>
    pi_accept_to calloc_env (net_os (\<lambda>_. 5) hand_device)
      (net_ops calloc_env (\<lambda>_. 5) hand_device None (0, \<lparr>pd_type = 0, pd_flags = 0, pd_size = 0\<rparr>))
      (net_ops calloc_env (\<lambda>_. 5) hand_device None (0, \<lparr>pd_type = 0, pd_flags = 0, pd_size = 0\<rparr>)) 0 so2 = Some (so3, False, 3) \<and>
    net_ready calloc_env (sk_world (so_sock so3)) 2"
proof -
  let ?ops = "net_ops calloc_env (\<lambda>_. 5) hand_device None (0, \<lparr>pd_type = 0, pd_flags = 0, pd_size = 0\<rparr>)"
  let ?noise = "[9, 9] @ net_answer 1 net_tx_msg1"
  let ?absent = "port_sock ?noise \<lparr>np_device = 0, np_got = []\<rparr> :: nat net_peer wire psock"
  have al: "all_alloc calloc_env" by simp
  obtain so where so: "pi_socket_create calloc_env plain_tty ?absent (new_queue_data (0, \<lparr>pd_type = 0, pd_flags = 0, pd_size = 0\<rparr>))
      PI_SOCK_STREAM 0 = (os_of ?absent, Some so)" "so_sd so = 3"
    by (simp add: pi_socket_create_def plain_tty_def calloc_env_def)
  have os: "os_of ?absent = \<lparr>wi_in = ?noise, wi_peer = \<lparr>np_device = 0, np_got = []\<rparr>\<rparr>"
    by (simp add: port_sock_def port_defs)
  have sh: "shakes_hands hand_device 0 2" by (simp add: shakes_hands_def hand_device_def)
  have det: "detect_bytes ?noise = Some (PI_PF_NET, net_answer 1 net_tx_msg1)"
    by (simp add: detect_bytes.simps recognise_def slp_const_defs net_answer_def net_tx_msg1_def set_long_def)
  have pd: "port_device ''/dev/ttyS0'' = (PI_SERIAL_DEV, ''/dev/ttyS0'')" by (simp add: port_device_def)
  from pi_accept_connects[OF al _ sh so(1) os det pd, of "replicate 256 0" "\<lambda>_. 5" "(0, \<lparr>pd_type = 0, pd_flags = 0, pd_size = 0\<rparr>)" ?ops None 0]
  show ?thesis using so by auto
qed

end
