(* ===== verification/DlpVfs.thy ===== *)
theory DlpVfs
  imports DlpDb
begin

text \<open>
  The calls of the desktop link protocol for expansion cards and their file systems
  (\<open>libpisock/dlp.c\<close>, from \<open>dlp_ExpSlotEnumerate\<close> to the end). Each first tests the version of the
  protocol with a macro that returns the device's error number as it is, which is positive, and
  only then resets the errors. References of files are \<open>unsigned long\<close>; a C string is its bytes
  without the NUL. An array that a call fills has the length the caller gave it.
\<close>

definition dlpErrNotSupp :: int where "dlpErrNotSupp = 13"
definition vfsMAXFILENAME :: nat where "vfsMAXFILENAME = 256"

section \<open>The common part\<close>

definition RequireDLPVersion :: "'w transport \<Rightarrow> int \<Rightarrow> int \<Rightarrow> 'w pi_sock \<Rightarrow> 'w pi_sock \<times> bool" where
  "RequireDLPVersion tr major minor sk =
     (let (v, sk) = pi_version tr sk in (sk, \<not> v < (push_bit 8 major OR minor)))"

definition vfs_call_v ::
  "heap_env \<Rightarrow> 'w transport \<Rightarrow> int \<Rightarrow> u8 \<Rightarrow> bytes list \<Rightarrow> 'w pi_sock \<Rightarrow> ('w pi_sock \<times> dlpResponse option \<times> int) option" where
  "vfs_call_v env tr minor cmd datas sk =
     (let (sk, ok) = RequireDLPVersion tr 1 minor sk in
      if \<not> ok then Some (sk, None, dlpErrNotSupp)
      else dlp_call env tr cmd FIRST_ID datas (pi_reset_errors sk))"

definition vfs_call ::
  "heap_env \<Rightarrow> 'w transport \<Rightarrow> u8 \<Rightarrow> bytes list \<Rightarrow> 'w pi_sock \<Rightarrow> ('w pi_sock \<times> dlpResponse option \<times> int) option" where
  "vfs_call env tr = vfs_call_v env tr 2"

text \<open>A call without out parameters.\<close>

definition vfs_simple :: "heap_env \<Rightarrow> 'w transport \<Rightarrow> u8 \<Rightarrow> bytes list \<Rightarrow> 'w pi_sock \<Rightarrow> ('w pi_sock \<times> int) option" where
  "vfs_simple env tr cmd datas sk = do {
     (sk, res, result) \<leftarrow> vfs_call env tr cmd datas sk;
     Some (sk, result) }"

text \<open>A call that takes its answer apart by \<open>f\<close> when its result is positive and the version was
  sufficient.\<close>

definition vfs_read ::
  "('w pi_sock \<times> bool) \<Rightarrow> ('w pi_sock \<times> dlpResponse option \<times> int) option \<Rightarrow> (dlpResponse option \<Rightarrow> 'a option) \<Rightarrow>
     ('w pi_sock \<times> 'a option \<times> int) option" where
  "vfs_read version call f = do {
     (sk, res, result) \<leftarrow> call;
     if snd version \<and> result > 0 then do { a \<leftarrow> f res; Some (sk, Some a, result) }
     else Some (sk, None, result) }"

definition vfs_out ::
  "heap_env \<Rightarrow> 'w transport \<Rightarrow> u8 \<Rightarrow> bytes list \<Rightarrow> (dlpResponse option \<Rightarrow> 'a option) \<Rightarrow> 'w pi_sock \<Rightarrow>
     ('w pi_sock \<times> 'a option \<times> int) option" where
  "vfs_out env tr cmd datas f sk = vfs_read (RequireDLPVersion tr 1 2 sk) (vfs_call env tr cmd datas sk) f"

definition short :: "int \<Rightarrow> bytes" where "short v = set_short (word_of_int v)"
definition long :: "int \<Rightarrow> bytes" where "long v = set_long (word_of_int v)"
definition fileref :: "u64 \<Rightarrow> bytes" where "fileref r = set_long (ucast r)"

definition resp_long :: "nat \<Rightarrow> dlpResponse option \<Rightarrow> u32 option" where
  "resp_long i res = do { d \<leftarrow> resp_data res 0; get_long d i }"

section \<open>Slots and cards\<close>

text \<open>The references that fit into the caller's array.\<close>

fun read_refs :: "bytes \<Rightarrow> nat \<Rightarrow> nat \<Rightarrow> int list \<Rightarrow> int list option" where
  "read_refs d i 0 refs = Some refs"
| "read_refs d i (Suc n) refs = do {
     x \<leftarrow> get_short d (2 + 2 * i);
     if i < length refs then read_refs d (i + 1) n (refs[i := uint x]) else None }"

definition enumerate_refs :: "int \<Rightarrow> int list \<Rightarrow> dlpResponse option \<Rightarrow> (int \<times> int list) option" where
  "enumerate_refs limit refs res = do {
     d \<leftarrow> resp_data res 0;
     n \<leftarrow> get_short d 0;
     refs \<leftarrow> read_refs d 0 (min (unat n) (nat limit)) refs;
     Some (uint n, refs) }"

definition dlp_ExpSlotEnumerate ::
  "heap_env \<Rightarrow> 'w transport \<Rightarrow> int \<Rightarrow> int list \<Rightarrow> 'w pi_sock \<Rightarrow> ('w pi_sock \<times> (int \<times> int list) option \<times> int) option" where
  "dlp_ExpSlotEnumerate env tr numSlots slotRefs sk = vfs_out env tr 0x3c [] (enumerate_refs numSlots slotRefs) sk"

definition dlp_ExpCardPresent :: "heap_env \<Rightarrow> 'w transport \<Rightarrow> int \<Rightarrow> 'w pi_sock \<Rightarrow> ('w pi_sock \<times> int) option" where
  "dlp_ExpCardPresent env tr slotRef sk = vfs_simple env tr 0x3d [short slotRef] sk"

text \<open>The total length of \<open>n\<close> strings that stand one after the other.\<close>

fun strings_size :: "bytes \<Rightarrow> nat \<Rightarrow> nat \<Rightarrow> nat option" where
  "strings_size d i 0 = Some 0"
| "strings_size d i (Suc n) = do {
     s \<leftarrow> get_cstr d i;
     sz \<leftarrow> strings_size d (i + length s + 1) n;
     Some (length s + 1 + sz) }"

text \<open>\<open>want\<close>: a place for the strings is given. The strings, when they are read.\<close>

definition dlp_ExpCardInfo ::
  "heap_env \<Rightarrow> 'w transport \<Rightarrow> int \<Rightarrow> bool \<Rightarrow> 'w pi_sock \<Rightarrow> ('w pi_sock \<times> (u64 \<times> int \<times> bytes option) option \<times> int) option" where
  "dlp_ExpCardInfo env tr slotRef want sk = do {
     (sk, out, result) \<leftarrow> vfs_out env tr 0x3e [short slotRef]
       (\<lambda>res. do {
          d \<leftarrow> resp_data res 0;
          flags \<leftarrow> get_long d 0; n \<leftarrow> get_byte d 4;
          if want \<and> n \<noteq> 0 then do {
            sz \<leftarrow> strings_size d 8 (unat n);
            s \<leftarrow> get_block sz d 8;
            Some (ucast flags, uint n, Some s) }
          else Some (ucast flags, uint n, None) }) sk;
     case out of
       Some (flags, n, Some s) \<Rightarrow>
         if malloc_ok env (length s) then Some (sk, out, result)
         else (let (sk, e) = pi_set_error sk PI_ERR_GENERIC_MEMORY in Some (sk, Some (flags, n, None), e))
     | _ \<Rightarrow> Some (sk, out, result) }"

definition dlp_ExpSlotMediaType ::
  "heap_env \<Rightarrow> 'w transport \<Rightarrow> int \<Rightarrow> 'w pi_sock \<Rightarrow> ('w pi_sock \<times> u64 option \<times> int) option" where
  "dlp_ExpSlotMediaType env tr slotNum sk =
     vfs_read (RequireDLPVersion tr 1 4 sk) (vfs_call_v env tr 4 0x5d [short slotNum] sk) (\<lambda>res. map_option ucast (resp_long 0 res))"

section \<open>Files\<close>

text \<open>The name is copied without a NUL behind it, unless the device sent one.\<close>

definition dlp_VFSGetDefaultDir ::
  "heap_env \<Rightarrow> 'w transport \<Rightarrow> int \<Rightarrow> bytes \<Rightarrow> bytes \<Rightarrow> int \<Rightarrow> 'w pi_sock \<Rightarrow> ('w pi_sock \<times> (bytes \<times> int) option \<times> int) option" where
  "dlp_VFSGetDefaultDir env tr volRefNum type dir len sk = do {
     (sk, out, result) \<leftarrow> vfs_out env tr 0x40 [short volRefNum @ c_string type]
       (\<lambda>res. do {
          d \<leftarrow> resp_data res 0;
          buflen \<leftarrow> get_short d 0;
          if len < uint buflen + 1 then Some None
          else do {
            s \<leftarrow> (if buflen \<noteq> 0 then c_strncpy (unat buflen) d 2 else Some [0]);
            dir \<leftarrow> poke dir 0 s;
            Some (Some (dir, uint buflen)) } }) sk;
     case out of
       Some None \<Rightarrow> (let (sk, e) = pi_set_error sk PI_ERR_DLP_BUFSIZE in Some (sk, None, e))
     | Some (Some r) \<Rightarrow> Some (sk, Some r, result)
     | None \<Rightarrow> Some (sk, None, result) }"

definition dlp_VFSImportDatabaseFromFile ::
  "heap_env \<Rightarrow> 'w transport \<Rightarrow> int \<Rightarrow> bytes \<Rightarrow> 'w pi_sock \<Rightarrow> ('w pi_sock \<times> (int \<times> u64) option \<times> int) option" where
  "dlp_VFSImportDatabaseFromFile env tr volRefNum path sk =
     vfs_out env tr 0x41 [short volRefNum @ c_string path]
       (\<lambda>res. do { d \<leftarrow> resp_data res 0; c \<leftarrow> get_short d 0; i \<leftarrow> get_short d 2; Some (uint c, ucast i) }) sk"

definition dlp_VFSExportDatabaseToFile ::
  "heap_env \<Rightarrow> 'w transport \<Rightarrow> int \<Rightarrow> bytes \<Rightarrow> int \<Rightarrow> u32 \<Rightarrow> 'w pi_sock \<Rightarrow> ('w pi_sock \<times> int) option" where
  "dlp_VFSExportDatabaseToFile env tr volRefNum path cardno localid sk =
     vfs_simple env tr 0x42 [short volRefNum @ short cardno @ set_long localid @ c_string path] sk"

definition dlp_VFSFileCreate :: "heap_env \<Rightarrow> 'w transport \<Rightarrow> int \<Rightarrow> bytes \<Rightarrow> 'w pi_sock \<Rightarrow> ('w pi_sock \<times> int) option" where
  "dlp_VFSFileCreate env tr volRefNum name sk = vfs_simple env tr 0x43 [short volRefNum @ c_string name] sk"

definition dlp_VFSFileOpen ::
  "heap_env \<Rightarrow> 'w transport \<Rightarrow> int \<Rightarrow> bytes \<Rightarrow> int \<Rightarrow> 'w pi_sock \<Rightarrow> ('w pi_sock \<times> u64 option \<times> int) option" where
  "dlp_VFSFileOpen env tr volRefNum path openMode sk =
     vfs_out env tr 0x44 [short volRefNum @ short openMode @ c_string path] (\<lambda>res. map_option ucast (resp_long 0 res)) sk"

definition dlp_VFSFileClose :: "heap_env \<Rightarrow> 'w transport \<Rightarrow> u64 \<Rightarrow> 'w pi_sock \<Rightarrow> ('w pi_sock \<times> int) option" where
  "dlp_VFSFileClose env tr fileRef sk = vfs_simple env tr 0x45 [fileref fileRef] sk"

text \<open>Writing: the data follow the request outside the protocol, and a second response is read.\<close>

definition dlp_VFSFileWrite :: "heap_env \<Rightarrow> 'w transport \<Rightarrow> u64 \<Rightarrow> bytes \<Rightarrow> 'w pi_sock \<Rightarrow> ('w pi_sock \<times> int) option" where
  "dlp_VFSFileWrite env tr fileRef bs sk =
     (let (sk, ok) = RequireDLPVersion tr 1 2 sk in
      if \<not> ok then Some (sk, dlpErrNotSupp)
      else do {
        (sk, res, result) \<leftarrow> dlp_call env tr 0x46 FIRST_ID [fileref fileRef @ set_long (of_nat (length bs))] (pi_reset_errors sk);
        if result < 0 then Some (sk, result)
        else do {
          (sk, sent) \<leftarrow> tr_write tr sk bs;
          let sent = to_int sent;
          if sent < to_int (int (length bs)) then Some (sk, sent)
          else do {
            (sk, res, result) \<leftarrow> dlp_response_read env tr sk;
            let result = to_int result;
            if result > 0 then do {
              d \<leftarrow> resp_data res 0;
              e \<leftarrow> get_short d 2;
              Some (fst (pi_set_palmos_error sk (uint e)), sent) }
            else Some (sk, result) } } })"

text \<open>The loop of \<open>dlp_VFSFileRead\<close>: \<open>len\<close> bytes are still expected; the count is a \<open>size_t\<close> that wraps
  around when more arrive.\<close>

partial_function (option) vfs_read_loop ::
  "'w transport \<Rightarrow> 'w pi_sock \<Rightarrow> pi_buffer \<Rightarrow> nat \<Rightarrow> int \<Rightarrow> ('w pi_sock \<times> pi_buffer \<times> int) option" where
  "vfs_read_loop tr sk buf len got = do {
     (sk, buf, result) \<leftarrow> tr_read tr sk buf len;
     let result = to_int result;
     let len = (if result > 0 then size_sub len (nat result) else len);
     let got = (if result > 0 then got + result else got);
     if result > 0 \<and> len > 0 then vfs_read_loop tr sk buf len got
     else Some (sk, buf, if result \<ge> 0 then to_int got else result) }"

text \<open>\<open>freeze\<close> sets the option \<open>PI_PADP_FREEZE_TXID\<close> of the socket.\<close>

definition dlp_VFSFileRead ::
  "heap_env \<Rightarrow> 'w transport \<Rightarrow> (int \<Rightarrow> 'w pi_sock \<Rightarrow> 'w pi_sock) \<Rightarrow> u64 \<Rightarrow> pi_buffer \<Rightarrow> nat \<Rightarrow> 'w pi_sock \<Rightarrow>
     ('w pi_sock \<times> pi_buffer \<times> int) option" where
  "dlp_VFSFileRead env tr freeze fileRef buf len sk =
     (let (sk, ok) = RequireDLPVersion tr 1 2 sk in
      if \<not> ok then Some (sk, buf, dlpErrNotSupp)
      else let sk = pi_reset_errors sk in
        case dlp_request_new env 0x47 [fileref fileRef @ set_long (of_nat len)] of
          None \<Rightarrow> (let (sk, e) = pi_set_error sk PI_ERR_GENERIC_MEMORY in Some (sk, buf, e))
        | Some req \<Rightarrow> do {
            (sk, res, result) \<leftarrow> dlp_exec env tr req (freeze 1 sk);
            let buf = pi_buffer_clear env buf;
            (sk, buf, result) \<leftarrow>
              (if result \<ge> 0 then vfs_read_loop tr sk buf len 0 else Some (sk, buf, result));
            Some (freeze 0 sk, buf, result) })"

definition dlp_VFSFileDelete :: "heap_env \<Rightarrow> 'w transport \<Rightarrow> int \<Rightarrow> bytes \<Rightarrow> 'w pi_sock \<Rightarrow> ('w pi_sock \<times> int) option" where
  "dlp_VFSFileDelete env tr volRefNum path sk = vfs_simple env tr 0x48 [short volRefNum @ c_string path] sk"

definition dlp_VFSFileRename ::
  "heap_env \<Rightarrow> 'w transport \<Rightarrow> int \<Rightarrow> bytes \<Rightarrow> bytes \<Rightarrow> 'w pi_sock \<Rightarrow> ('w pi_sock \<times> int) option" where
  "dlp_VFSFileRename env tr volRefNum path newname sk =
     vfs_simple env tr 0x49 [short volRefNum @ short 2 @ c_string path @ c_string newname] sk"

definition dlp_VFSFileEOF :: "heap_env \<Rightarrow> 'w transport \<Rightarrow> u64 \<Rightarrow> 'w pi_sock \<Rightarrow> ('w pi_sock \<times> int) option" where
  "dlp_VFSFileEOF env tr fileRef sk = vfs_simple env tr 0x4a [fileref fileRef] sk"

definition dlp_VFSFileTell ::
  "heap_env \<Rightarrow> 'w transport \<Rightarrow> u64 \<Rightarrow> 'w pi_sock \<Rightarrow> ('w pi_sock \<times> int option \<times> int) option" where
  "dlp_VFSFileTell env tr fileRef sk =
     vfs_out env tr 0x4b [fileref fileRef] (\<lambda>res. map_option (\<lambda>x. to_int (uint x)) (resp_long 0 res)) sk"

definition dlp_VFSFileGetAttributes ::
  "heap_env \<Rightarrow> 'w transport \<Rightarrow> u64 \<Rightarrow> 'w pi_sock \<Rightarrow> ('w pi_sock \<times> u64 option \<times> int) option" where
  "dlp_VFSFileGetAttributes env tr fileRef sk =
     vfs_out env tr 0x4c [fileref fileRef] (\<lambda>res. map_option ucast (resp_long 0 res)) sk"

definition dlp_VFSFileSetAttributes ::
  "heap_env \<Rightarrow> 'w transport \<Rightarrow> u64 \<Rightarrow> u64 \<Rightarrow> 'w pi_sock \<Rightarrow> ('w pi_sock \<times> int) option" where
  "dlp_VFSFileSetAttributes env tr fileRef attributes sk =
     vfs_simple env tr 0x4d [fileref fileRef @ set_long (ucast attributes)] sk"

text \<open>The difference is computed on \<open>unsigned long\<close> and stored into a signed date.\<close>

definition dlp_VFSFileGetDate ::
  "heap_env \<Rightarrow> 'w transport \<Rightarrow> u64 \<Rightarrow> int \<Rightarrow> 'w pi_sock \<Rightarrow> ('w pi_sock \<times> int option \<times> int) option" where
  "dlp_VFSFileGetDate env tr fileRef which sk =
     vfs_out env tr 0x4e [fileref fileRef @ short which]
       (\<lambda>res. map_option (\<lambda>x. sint (ucast x - 2082852000 :: u64)) (resp_long 0 res)) sk"

definition dlp_VFSFileSetDate ::
  "heap_env \<Rightarrow> 'w transport \<Rightarrow> u64 \<Rightarrow> int \<Rightarrow> int \<Rightarrow> 'w pi_sock \<Rightarrow> ('w pi_sock \<times> int) option" where
  "dlp_VFSFileSetDate env tr fileRef which date sk =
     vfs_simple env tr 0x4f [fileref fileRef @ short which @ long (date + 2082852000)] sk"

definition dlp_VFSFileSeek ::
  "heap_env \<Rightarrow> 'w transport \<Rightarrow> u64 \<Rightarrow> int \<Rightarrow> int \<Rightarrow> 'w pi_sock \<Rightarrow> ('w pi_sock \<times> int) option" where
  "dlp_VFSFileSeek env tr fileRef origin offset sk =
     vfs_simple env tr 0x5a [fileref fileRef @ short origin @ long offset] sk"

definition dlp_VFSFileResize :: "heap_env \<Rightarrow> 'w transport \<Rightarrow> u64 \<Rightarrow> int \<Rightarrow> 'w pi_sock \<Rightarrow> ('w pi_sock \<times> int) option" where
  "dlp_VFSFileResize env tr fileRef newSize sk = vfs_simple env tr 0x5b [fileref fileRef @ long newSize] sk"

definition dlp_VFSFileSize ::
  "heap_env \<Rightarrow> 'w transport \<Rightarrow> u64 \<Rightarrow> 'w pi_sock \<Rightarrow> ('w pi_sock \<times> int option \<times> int) option" where
  "dlp_VFSFileSize env tr fileRef sk =
     vfs_out env tr 0x5c [fileref fileRef] (\<lambda>res. map_option (\<lambda>x. to_int (uint x)) (resp_long 0 res)) sk"

section \<open>Directories\<close>

definition dlp_VFSDirCreate :: "heap_env \<Rightarrow> 'w transport \<Rightarrow> int \<Rightarrow> bytes \<Rightarrow> 'w pi_sock \<Rightarrow> ('w pi_sock \<times> int) option" where
  "dlp_VFSDirCreate env tr volRefNum path sk = vfs_simple env tr 0x50 [short volRefNum @ c_string path] sk"

record VFSDirInfo =
  vd_attr :: u64
  vd_name :: bytes

text \<open>Some devices put the attributes into the high half.\<close>

definition dir_attr :: "u64 \<Rightarrow> u64" where
  "dir_attr a = (if a AND 0x0000FFFF = 0 \<and> a AND 0xFFFF0000 \<noteq> 0 then drop_bit 16 a else a)"

text \<open>The name in an array of 256 bytes whose last one is cleared.\<close>

definition dir_name :: "bytes \<Rightarrow> nat \<Rightarrow> bytes option" where
  "dir_name d i = do {
     s \<leftarrow> c_strncpy vfsMAXFILENAME d i;
     Some (s[vfsMAXFILENAME - 1 := 0]) }"

text \<open>The entries of the answer from \<open>from\<close> on; the first \<open>limit\<close> are stored. The array and the count.\<close>

fun dir_entries :: "bytes \<Rightarrow> nat \<Rightarrow> nat \<Rightarrow> nat \<Rightarrow> nat \<Rightarrow> VFSDirInfo list \<Rightarrow> (VFSDirInfo list \<times> nat) option" where
  "dir_entries d limit 0 at from infos = Some (infos, min at limit)"
| "dir_entries d limit (Suc n) at from infos = do {
     infos \<leftarrow> (if at < limit then do {
                 a \<leftarrow> get_long d from;
                 s \<leftarrow> dir_name d (from + 4);
                 if at < length infos then Some (infos[at := \<lparr>vd_attr = dir_attr (ucast a), vd_name = s\<rparr>]) else None }
               else Some infos);
     s \<leftarrow> get_cstr d (from + 4);
     let slen = length s + 1;
     dir_entries d limit n (at + 1) (from + (if odd slen then slen + 1 else slen) + 4) infos }"

text \<open>The result is kept in an \<open>unsigned int\<close>: a negative result counts as positive, so that the answer
  is taken apart after an error too. The iterator, the count and the array.\<close>

definition dlp_VFSDirEntryEnumerate ::
  "heap_env \<Rightarrow> 'w transport \<Rightarrow> u64 \<Rightarrow> u64 \<Rightarrow> int \<Rightarrow> VFSDirInfo list \<Rightarrow> 'w pi_sock \<Rightarrow>
     ('w pi_sock \<times> (u64 \<times> int \<times> VFSDirInfo list) option \<times> int) option" where
  "dlp_VFSDirEntryEnumerate env tr dirRefNum dirIterator maxDirItems infos sk =
     (let (sk, ok) = RequireDLPVersion tr 1 2 sk in
      if \<not> ok then Some (sk, None, dlpErrNotSupp)
      else let sk = pi_reset_errors sk in
        case dlp_request_new env 0x51
               [fileref dirRefNum @ set_long (ucast dirIterator) @ long (8 + maxDirItems * (4 + int vfsMAXFILENAME))] of
          None \<Rightarrow> (let (sk, e) = pi_set_error sk PI_ERR_GENERIC_MEMORY in Some (sk, None, e))
        | Some req \<Rightarrow> do {
            (sk, res, result) \<leftarrow> dlp_exec env tr req sk;
            if (word_of_int result :: u32) > 0 then do {
              d \<leftarrow> resp_data res 0;
              iter \<leftarrow> get_long d 0;
              entries \<leftarrow> get_long d 4;
              let limit = unat (word_of_int maxDirItems :: u32);
              (infos, count) \<leftarrow> dir_entries d limit (unat entries) 0 8 infos;
              Some (sk, Some (ucast iter, to_int (int count), infos), result) }
            else Some (sk, None, result) })"

section \<open>Volumes\<close>

record VFSSlotMountParam =
  vm_volRefNum :: u16
  vm_reserved :: u16
  vm_mountClass :: u64
  vm_slotLibRefNum :: u16
  vm_slotRefNum :: u16

text \<open>Eighteen bytes are stored into a block of four.\<close>

definition format_request :: "heap_env \<Rightarrow> u8 \<Rightarrow> int \<Rightarrow> VFSSlotMountParam \<Rightarrow> bytes \<Rightarrow> bytes option" where
  "format_request env flags fsLibRef param d = do {
     d \<leftarrow> poke d 0 (short fsLibRef);
     d \<leftarrow> poke d 2 (set_short 24);
     d \<leftarrow> poke d 4 [flags];
     d \<leftarrow> poke d 4 [0];
     d \<leftarrow> poke d 6 (set_short (vm_volRefNum param));
     d \<leftarrow> poke d 8 (set_short (vm_reserved param));
     d \<leftarrow> poke d 10 (set_long (ucast (vm_mountClass param)));
     d \<leftarrow> poke d 14 (set_short (vm_slotLibRefNum param));
     poke d 16 (set_short (vm_slotRefNum param)) }"

text \<open>\<open>block\<close>: the four bytes as they are allocated.\<close>

definition dlp_VFSVolumeFormat ::
  "heap_env \<Rightarrow> 'w transport \<Rightarrow> u8 \<Rightarrow> int \<Rightarrow> VFSSlotMountParam \<Rightarrow> bytes \<Rightarrow> 'w pi_sock \<Rightarrow> ('w pi_sock \<times> int) option" where
  "dlp_VFSVolumeFormat env tr flags fsLibRef param block sk =
     (let (sk, ok) = RequireDLPVersion tr 1 2 sk in
      if \<not> ok then Some (sk, dlpErrNotSupp)
      else let sk = pi_reset_errors sk in
        case dlp_request_new env 0x54 [take 4 block] of
          None \<Rightarrow> (let (sk, e) = pi_set_error sk PI_ERR_GENERIC_MEMORY in Some (sk, e))
        | Some _ \<Rightarrow> do {
            d \<leftarrow> format_request env flags fsLibRef param (take 4 block);
            dlp_simple env tr 0x54 FIRST_ID [d] sk })"

definition dlp_VFSVolumeEnumerate ::
  "heap_env \<Rightarrow> 'w transport \<Rightarrow> int \<Rightarrow> int list \<Rightarrow> 'w pi_sock \<Rightarrow> ('w pi_sock \<times> (int \<times> int list) \<times> int) option" where
  "dlp_VFSVolumeEnumerate env tr numVols volRefs sk =
     (let (sk, ok) = RequireDLPVersion tr 1 2 sk in
      if \<not> ok then Some (sk, (numVols, volRefs), dlpErrNotSupp)
      else let sk = pi_reset_errors sk in
        case dlp_request_new env 0x55 [] of
          None \<Rightarrow> (let (sk, e) = pi_set_error sk PI_ERR_GENERIC_MEMORY in Some (sk, (numVols, volRefs), e))
        | Some req \<Rightarrow> do {
            (sk, res, result) \<leftarrow> dlp_exec env tr req sk;
            if result > 0 then do { out \<leftarrow> enumerate_refs numVols volRefs res; Some (sk, out, result) }
            else Some (sk, (0, volRefs), result) })"

record VFSInfo =
  vi_attributes :: u64
  vi_fsType :: u64
  vi_fsCreator :: u64
  vi_mountClass :: u64
  vi_slotLibRefNum :: int
  vi_slotRefNum :: int
  vi_mediaType :: u64
  vi_reserved :: u64

definition dlp_VFSVolumeInfo ::
  "heap_env \<Rightarrow> 'w transport \<Rightarrow> int \<Rightarrow> 'w pi_sock \<Rightarrow> ('w pi_sock \<times> VFSInfo option \<times> int) option" where
  "dlp_VFSVolumeInfo env tr volRefNum sk =
     vfs_out env tr 0x56 [short volRefNum]
       (\<lambda>res. do {
          d \<leftarrow> resp_data res 0;
          a \<leftarrow> get_long d 0; t \<leftarrow> get_long d 4; c \<leftarrow> get_long d 8; m \<leftarrow> get_long d 12;
          lib \<leftarrow> get_short d 16; slot \<leftarrow> get_short d 18; mt \<leftarrow> get_long d 20; r \<leftarrow> get_long d 24;
          Some \<lparr>vi_attributes = ucast a, vi_fsType = ucast t, vi_fsCreator = ucast c, vi_mountClass = ucast m,
                vi_slotLibRefNum = uint lib, vi_slotRefNum = uint slot, vi_mediaType = ucast mt, vi_reserved = ucast r\<rparr> }) sk"

text \<open>The length of the label is taken from the caller's array, which is left without a NUL when the
  label fills it.\<close>

definition dlp_VFSVolumeGetLabel ::
  "heap_env \<Rightarrow> 'w transport \<Rightarrow> int \<Rightarrow> int \<Rightarrow> bytes \<Rightarrow> 'w pi_sock \<Rightarrow> ('w pi_sock \<times> (int \<times> bytes) option \<times> int) option" where
  "dlp_VFSVolumeGetLabel env tr volRefNum len name sk =
     vfs_out env tr 0x57 [short volRefNum]
       (\<lambda>res. do {
          d \<leftarrow> resp_data res 0;
          s \<leftarrow> c_strncpy (nat ((len - 1) mod 2 ^ 64)) d 0;
          name \<leftarrow> poke name 0 s;
          label \<leftarrow> get_cstr name 0;
          Some (to_int (int (length label)), name) }) sk"

definition dlp_VFSVolumeSetLabel ::
  "heap_env \<Rightarrow> 'w transport \<Rightarrow> int \<Rightarrow> bytes \<Rightarrow> 'w pi_sock \<Rightarrow> ('w pi_sock \<times> int) option" where
  "dlp_VFSVolumeSetLabel env tr volRefNum name sk = vfs_simple env tr 0x58 [short volRefNum @ c_string name] sk"

definition dlp_VFSVolumeSize ::
  "heap_env \<Rightarrow> 'w transport \<Rightarrow> int \<Rightarrow> 'w pi_sock \<Rightarrow> ('w pi_sock \<times> (int \<times> int) option \<times> int) option" where
  "dlp_VFSVolumeSize env tr volRefNum sk =
     vfs_out env tr 0x59 [short volRefNum]
       (\<lambda>res. do { u \<leftarrow> resp_long 0 res; t \<leftarrow> resp_long 4 res; Some (uint u, uint t) }) sk"

end
