(* ===== verification/Syspkt.thy ===== *)
theory Syspkt
  imports DlpDb
begin

text \<open>
  The system packets of \<open>libpisock/syspkt.c\<close>: the commands of the debugger and remote procedure calls,
  over the socket calls of \<open>transport\<close>. A request is stored straight into the block of a new buffer,
  whose count of used bytes stays 0, so that the first answer read into it overwrites the request and
  any later one is appended. None is an access outside an object, or a loop that does not end.
\<close>

section \<open>Registers and state\<close>

record Pilot_registers =
  rg_A :: "u64 list"
  rg_D :: "u64 list"
  rg_USP :: u64
  rg_SSP :: u64
  rg_PC :: u64
  rg_SR :: u64

record Pilot_breakpoint =
  bp_address :: u64
  bp_enabled :: int

text \<open>The instructions are an array of \<open>int\<close> of which 30 bytes are stored.\<close>

record Pilot_state =
  st_regs :: Pilot_registers
  st_reset :: int
  st_exception :: int
  st_instructions :: bytes
  st_breakpoint :: "Pilot_breakpoint list"
  st_func_start :: u64
  st_func_end :: u64
  st_func_name :: bytes
  st_trap_rev :: int

record Pilot_watch =
  wa_address :: u64
  wa_length :: u64
  wa_checksum :: u64

text \<open>\<open>n\<close> longs from \<open>i\<close> on.\<close>

fun get_longs :: "bytes \<Rightarrow> nat \<Rightarrow> nat \<Rightarrow> u64 list option" where
  "get_longs d i 0 = Some []"
| "get_longs d i (Suc n) = do { x \<leftarrow> get_long d i; xs \<leftarrow> get_longs d (i + 4) n; Some (ucast x # xs) }"

definition set_longs :: "u64 list \<Rightarrow> bytes" where
  "set_longs xs = concat (map (\<lambda>x. set_long (ucast x)) xs)"

definition sys_UnpackRegisters :: "bytes \<Rightarrow> nat \<Rightarrow> Pilot_registers option" where
  "sys_UnpackRegisters d i = do {
     ds \<leftarrow> get_longs d i 8; as \<leftarrow> get_longs d (i + 32) 7;
     usp \<leftarrow> get_long d (i + 60); ssp \<leftarrow> get_long d (i + 64); pc \<leftarrow> get_long d (i + 68);
     sr \<leftarrow> get_short d (i + 72);
     Some \<lparr>rg_A = as, rg_D = ds, rg_USP = ucast usp, rg_SSP = ucast ssp, rg_PC = ucast pc, rg_SR = ucast sr\<rparr> }"

text \<open>The arrays have 8 and 7 elements.\<close>

definition sys_PackRegisters :: "bytes \<Rightarrow> nat \<Rightarrow> Pilot_registers \<Rightarrow> bytes option" where
  "sys_PackRegisters d i r =
     (if length (rg_D r) \<noteq> 8 \<or> length (rg_A r) \<noteq> 7 then None
      else do {
        d \<leftarrow> poke d i (set_longs (rg_D r));
        d \<leftarrow> poke d (i + 32) (set_longs (rg_A r));
        d \<leftarrow> poke d (i + 60) (set_long (ucast (rg_USP r)));
        d \<leftarrow> poke d (i + 64) (set_long (ucast (rg_SSP r)));
        d \<leftarrow> poke d (i + 68) (set_long (ucast (rg_PC r)));
        poke d (i + 72) (set_short (ucast (rg_SR r))) })"

fun get_breakpoints :: "bytes \<Rightarrow> nat \<Rightarrow> nat \<Rightarrow> Pilot_breakpoint list option" where
  "get_breakpoints d i 0 = Some []"
| "get_breakpoints d i (Suc n) = do {
     a \<leftarrow> get_long d i; e \<leftarrow> get_byte d (i + 4);
     bs \<leftarrow> get_breakpoints d (i + 6) n;
     Some (\<lparr>bp_address = ucast a, bp_enabled = uint e\<rparr> # bs) }"

text \<open>\<open>s\<close> is the structure that is filled.\<close>

definition sys_UnpackState :: "bytes \<Rightarrow> Pilot_state \<Rightarrow> Pilot_state option" where
  "sys_UnpackState d s = do {
     reset \<leftarrow> get_short d 0; exc \<leftarrow> get_short d 2;
     fname \<leftarrow> get_block 32 d 152;
     ins \<leftarrow> get_block 30 d 78; ins \<leftarrow> poke (st_instructions s) 0 ins;
     fstart \<leftarrow> get_long d 144; fend \<leftarrow> get_long d 148;
     regs \<leftarrow> sys_UnpackRegisters d 4;
     bps \<leftarrow> get_breakpoints d 108 6;
     rev \<leftarrow> get_short d 184;
     Some \<lparr>st_regs = regs, st_reset = uint reset, st_exception = uint exc, st_instructions = ins, st_breakpoint = bps,
           st_func_start = ucast fstart, st_func_end = ucast fend, st_func_name = fname[31 := 0], st_trap_rev = uint rev\<rparr> }"

section \<open>Commands without an answer\<close>

definition sys_command :: "u8 \<Rightarrow> bytes" where "sys_command c = [0, 0, 0, 0, c, 0]"

text \<open>\<open>buf\<close>: the block on the stack.\<close>

definition sys_Continue ::
  "'w transport \<Rightarrow> bytes \<Rightarrow> Pilot_registers option \<Rightarrow> Pilot_watch option \<Rightarrow> 'w pi_sock \<Rightarrow> ('w pi_sock \<times> int) option" where
  "sys_Continue tr buf r w sk = do {
     buf \<leftarrow> poke buf 0 (sys_command 0x07);
     case r of
       None \<Rightarrow> do { bs \<leftarrow> get_block 6 buf 0; tr_write tr sk bs }
     | Some r \<Rightarrow> do {
         buf \<leftarrow> sys_PackRegisters buf 6 r;
         buf \<leftarrow> poke buf 80 (case w of
             None \<Rightarrow> [0, 0] @ set_long 0 @ set_long 0 @ set_long 0
           | Some w \<Rightarrow> [1, 0] @ set_long (ucast (wa_address w)) @ set_long (ucast (wa_length w)) @ set_long (ucast (wa_checksum w)));
         bs \<leftarrow> get_block 94 buf 0;
         tr_write tr sk bs } }"

definition sys_Step :: "'w transport \<Rightarrow> 'w pi_sock \<Rightarrow> ('w pi_sock \<times> int) option" where
  "sys_Step tr sk = tr_write tr sk (sys_command 0x03)"

text \<open>Two bytes are written of the six.\<close>

definition sys_QueryState :: "'w transport \<Rightarrow> 'w pi_sock \<Rightarrow> ('w pi_sock \<times> int) option" where
  "sys_QueryState tr sk = do { bs \<leftarrow> get_block 2 (sys_command 0) 0; tr_write tr sk bs }"

definition sys_RemoteEvent ::
  "'w transport \<Rightarrow> int \<Rightarrow> int \<Rightarrow> int \<Rightarrow> int \<Rightarrow> int \<Rightarrow> int \<Rightarrow> int \<Rightarrow> 'w pi_sock \<Rightarrow> ('w pi_sock \<times> int) option" where
  "sys_RemoteEvent tr penDown x y keypressed keymod keyasc keycode sk =
     tr_write tr sk ([0x0d, 0, word_of_int penDown, 0] @ set_short (word_of_int x) @ set_short (word_of_int y) @
       [word_of_int keypressed, 0] @ set_short (word_of_int keymod) @ set_short (word_of_int keyasc) @
       set_short (word_of_int keycode))"

section \<open>Commands with an answer\<close>

text \<open>A new buffer of \<open>cap\<close> bytes that holds the request \<open>req\<close>, of which \<open>n\<close> bytes are sent; the answer of
  at most \<open>m\<close> bytes is read into the same buffer. None inside the result: no memory.\<close>

definition sys_send :: "'w transport \<Rightarrow> pi_buffer \<Rightarrow> bytes \<Rightarrow> nat \<Rightarrow> 'w pi_sock \<Rightarrow> ('w pi_sock \<times> pi_buffer) option" where
  "sys_send tr buf req n sk = do {
     buf \<leftarrow> buf_poke buf 0 req;
     d \<leftarrow> data buf;
     bs \<leftarrow> get_block n d 0;
     (sk, _) \<leftarrow> tr_write tr sk bs;
     Some (sk, buf) }"

definition sys_exchange ::
  "heap_env \<Rightarrow> 'w transport \<Rightarrow> nat \<Rightarrow> bytes \<Rightarrow> nat \<Rightarrow> 'w pi_sock \<Rightarrow> ('w pi_sock \<times> (pi_buffer \<times> int) option) option" where
  "sys_exchange env tr cap req m sk =
     (case pi_buffer_new env cap of
        None \<Rightarrow> Some (fst (pi_set_error sk PI_ERR_GENERIC_MEMORY), None)
      | Some buf \<Rightarrow> do {
          (sk, buf) \<leftarrow> sys_send tr buf req (length req) sk;
          (sk, buf, idx) \<leftarrow> tr_read tr sk buf m;
          Some (sk, Some (buf, idx)) })"

text \<open>The answer is right when it has \<open>least\<close> bytes and the expected command.\<close>

definition sys_answered :: "pi_buffer \<Rightarrow> int \<Rightarrow> int \<Rightarrow> u8 \<Rightarrow> bool option" where
  "sys_answered buf idx least cmd =
     (if idx < least then Some False
      else do { d \<leftarrow> data buf; c \<leftarrow> get_byte d 4; Some (c = cmd) })"

text \<open>The caller gives six breakpoints.\<close>

definition sys_SetBreakpoints ::
  "heap_env \<Rightarrow> 'w transport \<Rightarrow> Pilot_breakpoint list \<Rightarrow> 'w pi_sock \<Rightarrow> ('w pi_sock \<times> int) option" where
  "sys_SetBreakpoints env tr b sk =
     (if length b < 6 then None
      else do {
        (sk, r) \<leftarrow> sys_exchange env tr 94
           (sys_command 0x0c @ concat (map (\<lambda>x. set_long (ucast (bp_address x)) @ [word_of_int (bp_enabled x), 0]) (take 6 b))) 6 sk;
        case r of
          None \<Rightarrow> Some (sk, PI_ERR_GENERIC_MEMORY)
        | Some (buf, idx) \<Rightarrow> do { ok \<leftarrow> sys_answered buf idx 1 0x8c; Some (sk, if ok then 1 else 0) } })"

definition sys_SetTrapBreaks ::
  "heap_env \<Rightarrow> 'w transport \<Rightarrow> int list \<Rightarrow> 'w pi_sock \<Rightarrow> ('w pi_sock \<times> int) option" where
  "sys_SetTrapBreaks env tr traps sk =
     (if length traps < 5 then None
      else do {
        (sk, r) \<leftarrow> sys_exchange env tr 32
           (sys_command 0x11 @ concat (map (\<lambda>t. set_short (word_of_int t)) (take 5 traps))) 6 sk;
        case r of
          None \<Rightarrow> Some (sk, PI_ERR_GENERIC_MEMORY)
        | Some (buf, idx) \<Rightarrow> do { ok \<leftarrow> sys_answered buf idx 1 0x91; Some (sk, if ok then 1 else 0) } })"

fun get_shorts :: "bytes \<Rightarrow> nat \<Rightarrow> nat \<Rightarrow> int list option" where
  "get_shorts d i 0 = Some []"
| "get_shorts d i (Suc n) = do { x \<leftarrow> get_short d i; xs \<leftarrow> get_shorts d (i + 2) n; Some (uint x # xs) }"

definition sys_GetTrapBreaks ::
  "heap_env \<Rightarrow> 'w transport \<Rightarrow> int list \<Rightarrow> 'w pi_sock \<Rightarrow> ('w pi_sock \<times> int list \<times> int) option" where
  "sys_GetTrapBreaks env tr traps sk = do {
     (sk, r) \<leftarrow> sys_exchange env tr 32 (sys_command 0x10) 16 sk;
     case r of
       None \<Rightarrow> Some (sk, traps, PI_ERR_GENERIC_MEMORY)
     | Some (buf, idx) \<Rightarrow> do {
         ok \<leftarrow> sys_answered buf idx 16 0x90;
         if ok then do { d \<leftarrow> data buf; ts \<leftarrow> get_shorts d 6 5; Some (sk, ts @ drop 5 traps, 1) }
         else Some (sk, traps, 0) } }"

definition sys_ToggleDbgBreaks :: "heap_env \<Rightarrow> 'w transport \<Rightarrow> 'w pi_sock \<Rightarrow> ('w pi_sock \<times> int) option" where
  "sys_ToggleDbgBreaks env tr sk = do {
     (sk, r) \<leftarrow> sys_exchange env tr 32 (sys_command 0x0d) 7 sk;
     case r of
       None \<Rightarrow> Some (sk, PI_ERR_GENERIC_MEMORY)
     | Some (buf, idx) \<Rightarrow> do {
         ok \<leftarrow> sys_answered buf idx 7 0x8d;
         if ok then do { d \<leftarrow> data buf; b \<leftarrow> get_byte d 6; Some (sk, uint b) } else Some (sk, 0) } }"

section \<open>Memory\<close>

text \<open>One turn of the loop of \<open>sys_ReadMemory\<close>: the request for \<open>todo\<close> bytes, and whether its answer is
  the one expected.\<close>

definition read_memory_turn ::
  "'w transport \<Rightarrow> u64 \<Rightarrow> nat \<Rightarrow> nat \<Rightarrow> pi_buffer \<Rightarrow> 'w pi_sock \<Rightarrow> ('w pi_sock \<times> pi_buffer \<times> bytes option) option" where
  "read_memory_turn tr addr todo d buf sk = do {
     (sk, buf) \<leftarrow> sys_send tr buf (sys_command 0x01 @ set_long (ucast (addr + of_nat d)) @ set_short (of_nat todo)) 12 sk;
     (sk, buf, result) \<leftarrow> tr_read tr sk buf (todo + 6);
     if result < 0 then Some (sk, buf, None)
     else do {
       m \<leftarrow> data buf;
       c \<leftarrow> get_byte m 4;
       if c = 0x81 \<and> result = int todo + 6 then do { bs \<leftarrow> get_block todo m 6; Some (sk, buf, Some bs) }
       else Some (sk, buf, None) } }"

partial_function (option) read_memory_loop ::
  "'w transport \<Rightarrow> u64 \<Rightarrow> nat \<Rightarrow> nat \<Rightarrow> pi_buffer \<Rightarrow> bytes \<Rightarrow> 'w pi_sock \<Rightarrow> ('w pi_sock \<times> bytes \<times> int) option" where
  "read_memory_loop tr addr len d buf dest sk = do {
     let todo = (if len > 256 then 256 else len);
     (sk, buf, r) \<leftarrow> read_memory_turn tr addr todo d buf sk;
     case r of
       None \<Rightarrow> Some (sk, dest, to_int (int d))
     | Some bs \<Rightarrow> do {
         dest \<leftarrow> poke dest d bs;
         if d + todo < len then read_memory_loop tr addr len (d + todo) buf dest sk
         else Some (sk, dest, to_int (int (d + todo))) } }"

definition sys_ReadMemory ::
  "heap_env \<Rightarrow> 'w transport \<Rightarrow> u64 \<Rightarrow> nat \<Rightarrow> bytes \<Rightarrow> 'w pi_sock \<Rightarrow> ('w pi_sock \<times> bytes \<times> int) option" where
  "sys_ReadMemory env tr addr len dest sk =
     (case pi_buffer_new env 0xFFFF of
        None \<Rightarrow> (let (sk, e) = pi_set_error sk PI_ERR_GENERIC_MEMORY in Some (sk, dest, e))
      | Some buf \<Rightarrow> read_memory_loop tr addr len 0 buf dest sk)"

text \<open>The counter is never advanced.\<close>

partial_function (option) write_memory_loop ::
  "'w transport \<Rightarrow> u64 \<Rightarrow> nat \<Rightarrow> pi_buffer \<Rightarrow> bytes \<Rightarrow> 'w pi_sock \<Rightarrow> ('w pi_sock \<times> int) option" where
  "write_memory_loop tr addr len buf src sk = do {
     let todo = (if len > 256 then 256 else len);
     bs \<leftarrow> get_block todo src 0;
     (sk, buf) \<leftarrow> sys_send tr buf (sys_command 0x02 @ set_long (ucast addr) @ set_short (of_nat len) @ bs) (len + 12) sk;
     (sk, buf, result) \<leftarrow> tr_read tr sk buf 6;
     if result < 0 then Some (sk, 0)
     else do {
       m \<leftarrow> data buf;
       c \<leftarrow> get_byte m 4;
       if c = 0x82 \<and> result = int todo + 6 then
         (if 0 < len then write_memory_loop tr addr len buf src sk else Some (sk, 0))
       else Some (sk, 0) } }"

definition sys_WriteMemory ::
  "heap_env \<Rightarrow> 'w transport \<Rightarrow> u64 \<Rightarrow> nat \<Rightarrow> bytes \<Rightarrow> 'w pi_sock \<Rightarrow> ('w pi_sock \<times> int) option" where
  "sys_WriteMemory env tr addr len src sk =
     (case pi_buffer_new env 0xFFFF of
        None \<Rightarrow> Some (pi_set_error sk PI_ERR_GENERIC_MEMORY)
      | Some buf \<Rightarrow> write_memory_loop tr addr len buf src sk)"

text \<open>The command is that of \<open>sys_SetTrapBreaks\<close>; the comment above the function says 0x13.\<close>

definition sys_Find ::
  "heap_env \<Rightarrow> 'w transport \<Rightarrow> u64 \<Rightarrow> u64 \<Rightarrow> int \<Rightarrow> bytes \<Rightarrow> 'w pi_sock \<Rightarrow> ('w pi_sock \<times> u64 option \<times> int) option" where
  "sys_Find env tr startaddr stopaddr caseinsensitive bs sk = do {
     (sk, r) \<leftarrow> sys_exchange env tr (length bs + 17)
        (sys_command 0x11 @ set_long (ucast startaddr) @ set_long (ucast stopaddr) @ set_short (of_nat (length bs)) @
         [word_of_int caseinsensitive] @ bs) 12 sk;
     case r of
       None \<Rightarrow> Some (sk, None, PI_ERR_GENERIC_MEMORY)
     | Some (buf, result) \<Rightarrow>
         if result < 0 then Some (sk, None, result)
         else do {
           d \<leftarrow> data buf;
           found \<leftarrow> get_long d 6;
           b \<leftarrow> get_byte d 10;
           Some (sk, Some (ucast found), uint b) } }"

section \<open>Remote procedure calls\<close>

text \<open>A parameter: \<open>rp_data\<close> is the object it points to, in the byte order of the machine (the least
  significant byte first), or NULL. A parameter by value points to the \<open>int\<close> in its structure.\<close>

record RPC_param =
  rp_byRef :: int
  rp_size :: nat
  rp_invert :: int
  rp_data :: "bytes option"

record RPC_params =
  rps_trap :: int
  rps_reply :: int
  rps_param :: "RPC_param list"

definition RPC_IntReply :: int where "RPC_IntReply = 2"
definition RPC_PtrReply :: int where "RPC_PtrReply = 1"
definition RPC_NoReply :: int where "RPC_NoReply = 0"

text \<open>Integers in memory.\<close>

definition put_le :: "nat \<Rightarrow> int \<Rightarrow> bytes" where
  "put_le n v = map (\<lambda>i. word_of_int (drop_bit (8 * i) v)) [0..<n]"

definition val_le :: "bytes \<Rightarrow> int" where
  "val_le bs = foldr (\<lambda>b v. uint b + 256 * v) bs 0"

definition get_le :: "nat \<Rightarrow> bytes \<Rightarrow> int option" where
  "get_le n d = map_option val_le (get_block n d 0)"

text \<open>\<open>htons\<close> and \<open>htonl\<close>, which are \<open>ntohs\<close> and \<open>ntohl\<close>: the bytes of the low part in reverse.\<close>

definition htons :: "int \<Rightarrow> int" where "htons v = val_le (rev (put_le 2 v))"
definition htonl :: "int \<Rightarrow> int" where "htonl v = val_le (rev (put_le 4 v))"

datatype rpc_arg = By_value nat int | By_ref nat "bytes option" int

definition RPC_Byte :: "int \<Rightarrow> rpc_arg" where "RPC_Byte v = By_value 2 (to_int (htons (push_bit 8 v)))"
definition RPC_Short :: "int \<Rightarrow> rpc_arg" where "RPC_Short v = By_value 2 (to_int (htons v))"
definition RPC_Long :: "int \<Rightarrow> rpc_arg" where "RPC_Long v = By_value 4 (to_int (htonl v))"
definition RPC_Ptr :: "bytes option \<Rightarrow> nat \<Rightarrow> rpc_arg" where "RPC_Ptr d len = By_ref len d 0"
definition RPC_LongPtr :: "bytes option \<Rightarrow> rpc_arg" where "RPC_LongPtr d = By_ref 4 d 1"
definition RPC_ShortPtr :: "bytes option \<Rightarrow> rpc_arg" where "RPC_ShortPtr d = By_ref 2 d 1"
definition RPC_BytePtr :: "bytes option \<Rightarrow> rpc_arg" where "RPC_BytePtr d = By_ref 2 d 2"

fun pack_param :: "rpc_arg \<Rightarrow> RPC_param" where
  "pack_param (By_value n v) = \<lparr>rp_byRef = 0, rp_size = n, rp_invert = 0, rp_data = Some (put_le 4 v)\<rparr>"
| "pack_param (By_ref n d kind) = \<lparr>rp_byRef = 1, rp_size = n, rp_invert = kind, rp_data = d\<rparr>"

text \<open>There is room for twenty parameters.\<close>

definition PackRPC :: "int \<Rightarrow> int \<Rightarrow> rpc_arg list \<Rightarrow> RPC_params option" where
  "PackRPC trap reply args =
     (if length args \<le> 20 then Some \<lparr>rps_trap = trap, rps_reply = reply, rps_param = map pack_param args\<rparr> else None)"

text \<open>The objects are changed to and from the device's byte order in place: an \<open>int\<close> for a size of two
  bytes, a \<open>long\<close> otherwise.\<close>

definition invert_data :: "RPC_param \<Rightarrow> RPC_param option" where
  "invert_data p =
     (if rp_invert p = 0 then Some p
      else do {
        d \<leftarrow> rp_data p;
        d \<leftarrow> (if rp_size p = 2 then do {
                v \<leftarrow> get_le 4 d;
                poke d 0 (put_le 4 (if rp_invert p = 2 then drop_bit 8 (htons v) else htons v)) }
              else do { v \<leftarrow> get_le 8 d; poke d 0 (put_le 8 (htonl v)) });
        Some (p\<lparr>rp_data := Some d\<rparr>) })"

fun invert_list :: "RPC_param list \<Rightarrow> RPC_param list option" where
  "invert_list [] = Some []"
| "invert_list (p # ps) = do { p \<leftarrow> invert_data p; ps \<leftarrow> invert_list ps; Some (p # ps) }"

definition InvertRPC :: "RPC_params \<Rightarrow> RPC_params option" where
  "InvertRPC p = do { ps \<leftarrow> invert_list (rps_param p); Some (p\<lparr>rps_param := ps\<rparr>) }"

definition UninvertRPC :: "RPC_params \<Rightarrow> RPC_params option" where
  "UninvertRPC p = do { ps \<leftarrow> invert_list (rps_param p); Some (p\<lparr>rps_param := ps\<rparr>) }"

text \<open>The parameters are sent last first, each with two bytes before it and padded to an even length; a
  parameter without data leaves the bytes of the buffer as they are.\<close>

fun put_params :: "RPC_param list \<Rightarrow> pi_buffer \<Rightarrow> nat \<Rightarrow> (pi_buffer \<times> nat) option" where
  "put_params [] buf c = Some (buf, c)"
| "put_params (p # ps) buf c = do {
     buf \<leftarrow> buf_poke buf c [word_of_int (rp_byRef p), of_nat (rp_size p)];
     buf \<leftarrow> (case rp_data p of
               None \<Rightarrow> Some buf
             | Some d \<Rightarrow> do { bs \<leftarrow> get_block (rp_size p) d 0; buf_poke buf (c + 2) bs });
     let c = c + 2 + rp_size p;
     if odd (rp_size p) then do { buf \<leftarrow> buf_poke buf c [0]; put_params ps buf (c + 1) }
     else put_params ps buf c }"

text \<open>The answer's parameters: those by reference are stored; \<open>step\<close> is the distance to the next one.\<close>

fun take_params :: "(RPC_param \<Rightarrow> bytes \<Rightarrow> nat \<Rightarrow> nat option) \<Rightarrow> RPC_param list \<Rightarrow> bytes \<Rightarrow> nat \<Rightarrow> RPC_param list option" where
  "take_params step [] m c = Some []"
| "take_params step (p # ps) m c = do {
     p' \<leftarrow> (case rp_data p of
              None \<Rightarrow> Some p
            | Some d \<Rightarrow>
                if rp_byRef p \<noteq> 0 then do {
                  bs \<leftarrow> get_block (rp_size p) m (c + 2);
                  d \<leftarrow> poke d 0 bs;
                  Some (p\<lparr>rp_data := Some d\<rparr>) }
                else Some p);
     n \<leftarrow> step p m c;
     ps \<leftarrow> take_params step ps m (c + 2 + n);
     Some (p' # ps) }"

definition even_up :: "nat \<Rightarrow> nat" where "even_up n = (if odd n then n + 1 else n)"

definition sys_RPC ::
  "heap_env \<Rightarrow> 'w transport \<Rightarrow> int \<Rightarrow> int \<Rightarrow> int \<Rightarrow> int \<Rightarrow> RPC_param list \<Rightarrow> bool \<Rightarrow> 'w pi_sock \<Rightarrow>
     ('w pi_sock \<times> int \<times> int \<times> RPC_param list \<times> int) option" where
  "sys_RPC env tr sockaddr trap D0 A0 param reply sk =
     (case pi_buffer_new env 4096 of
        None \<Rightarrow> (let (sk, e) = pi_set_error sk PI_ERR_GENERIC_MEMORY in Some (sk, D0, A0, param, e))
      | Some buf \<Rightarrow> do {
          buf \<leftarrow> buf_poke buf 0 [word_of_int sockaddr, word_of_int sockaddr, 0];
          buf \<leftarrow> buf_poke buf 4 ([0x0a, 0] @ set_short (word_of_int trap) @ set_long (word_of_int D0) @
                   set_long (word_of_int A0) @ set_short (of_nat (length param)));
          (buf, c) \<leftarrow> put_params (rev param) buf 18;
          buf \<leftarrow> (if sockaddr = 3 then buf_poke buf 4 (set_short (of_nat (c - 6))) else Some buf);
          m \<leftarrow> data buf;
          bs \<leftarrow> get_block (c - 4) m 4;
          (sk, _) \<leftarrow> tr_write tr sk bs;
          if \<not> reply then Some (sk, D0, A0, param, 0)
          else do {
            (sk, buf, l) \<leftarrow> tr_read tr sk buf 4096;
            if l < 0 then Some (sk, D0, A0, param, l)
            else do {
              m \<leftarrow> data buf;
              b \<leftarrow> get_byte m 0;
              if b \<noteq> 0x8a then (let (sk, e) = pi_set_error sk (-2) in Some (sk, D0, A0, param, e))
              else do {
                d0 \<leftarrow> get_long m 4; a0 \<leftarrow> get_long m 8;
                ps \<leftarrow> take_params (\<lambda>p m c. map_option (\<lambda>b. even_up (unat b)) (get_byte m (c + 1))) (rev param) m 14;
                Some (sk, uint d0, uint a0, rev ps, 0) } } } })"

text \<open>\<open>DoRPC\<close>: the value of the call, the error and the parameters.\<close>

definition DoRPC ::
  "heap_env \<Rightarrow> 'w transport \<Rightarrow> int \<Rightarrow> RPC_params \<Rightarrow> 'w pi_sock \<Rightarrow> ('w pi_sock \<times> RPC_params \<times> int \<times> u64) option" where
  "DoRPC env tr sockaddr p sk = do {
     p \<leftarrow> InvertRPC p;
     (sk, D0, A0, ps, err) \<leftarrow> sys_RPC env tr sockaddr (rps_trap p) 0 0 (rps_param p) (rps_reply p \<noteq> 0) sk;
     p \<leftarrow> UninvertRPC (p\<lparr>rps_param := ps\<rparr>);
     Some (sk, p, err,
       if rps_reply p = RPC_PtrReply then word_of_int A0
       else if rps_reply p = RPC_IntReply then word_of_int D0 else word_of_int err) }"

end
