(* ===== verification/DlpMisc.thy ===== *)
theory DlpMisc
  imports DlpVfs Syspkt
begin

text \<open>
  The calls of \<open>libpisock/dlp.c\<close> that go through all databases of the device (\<open>dlp_ReadDBList\<close>,
  \<open>dlp_FindDBInfo\<close>) and those that run a procedure on it (\<open>dlp_RPC\<close>, \<open>dlp_ReadFeature\<close>,
  \<open>dlp_GetROMToken\<close>). The list of databases is an array of structures in a byte buffer: the image of a
  structure in memory is the parameter \<open>struct_image\<close>.
\<close>

record struct_image =
  im_put :: "DBInfo \<Rightarrow> bytes"
  im_get :: "bytes \<Rightarrow> DBInfo"
  im_size :: nat

section \<open>The list of databases\<close>

definition dlpDBListRAM :: int where "dlpDBListRAM = 0x80"
definition dlpDBListROM :: int where "dlpDBListROM = 0x40"
definition dlpDBListMultiple :: int where "dlpDBListMultiple = 0x20"

text \<open>An entry of the answer; \<open>p\<close> is four bytes before it.\<close>

definition read_db :: "time_env \<Rightarrow> int \<Rightarrow> int \<Rightarrow> bytes \<Rightarrow> nat \<Rightarrow> DBInfo option" where
  "read_db tz version mr d p = do {
     misc \<leftarrow> (if version > 0x0100 then map_option uint (get_byte d (p + 5)) else Some 0);
     flags \<leftarrow> get_short d (p + 6); type \<leftarrow> get_long d (p + 8); creator \<leftarrow> get_long d (p + 12);
     ver \<leftarrow> get_short d (p + 16); modnum \<leftarrow> get_long d (p + 18);
     created \<leftarrow> dlp_ptohdate tz d (p + 22); modified \<leftarrow> dlp_ptohdate tz d (p + 30); backup \<leftarrow> dlp_ptohdate tz d (p + 38);
     index \<leftarrow> get_short d (p + 46);
     s \<leftarrow> c_strncpy 32 d (p + 48);
     Some \<lparr>di_more = mr, di_name = s @ [0, 0], di_flags = ucast flags, di_miscFlags = word_of_int misc,
           di_version = ucast ver, di_type = ucast type, di_creator = ucast creator, di_modnum = ucast modnum,
           di_index = ucast index, di_createDate = created, di_modifyDate = modified, di_backupDate = backup\<rparr> }"

fun read_dbs ::
  "heap_env \<Rightarrow> time_env \<Rightarrow> struct_image \<Rightarrow> int \<Rightarrow> int \<Rightarrow> bytes \<Rightarrow> nat \<Rightarrow> nat \<Rightarrow> pi_buffer \<Rightarrow> (pi_buffer \<times> bool) option" where
  "read_dbs env tz im version mr d 0 p info = Some (info, True)"
| "read_dbs env tz im version mr d (Suc n) p info = do {
     db \<leftarrow> read_db tz version mr d p;
     (info, ok) \<leftarrow> pi_buffer_append env info (im_put im db);
     if \<not> ok then Some (info, False)
     else do { sz \<leftarrow> get_byte d (p + 4); read_dbs env tz im version mr d n (p + unat sz) info } }"

definition dlp_ReadDBList ::
  "heap_env \<Rightarrow> 'w transport \<Rightarrow> time_env \<Rightarrow> struct_image \<Rightarrow> int \<Rightarrow> int \<Rightarrow> int \<Rightarrow> pi_buffer \<Rightarrow> 'w pi_sock \<Rightarrow>
     ('w pi_sock \<times> pi_buffer \<times> int) option" where
  "dlp_ReadDBList env tr tz im cardno flags start info sk =
     (let sk = pi_reset_errors sk in
      case dlp_request_new env 0x16 [replicate 4 0] of
        None \<Rightarrow> (let (sk, e) = pi_set_error sk PI_ERR_GENERIC_MEMORY in Some (sk, info, e))
      | Some _ \<Rightarrow> do {
          let info = pi_buffer_clear env info;
          let (version, sk) = pi_version tr sk;
          let flags = (if version < 0x0102 then flags AND NOT dlpDBListMultiple else flags);
          (sk, res, result) \<leftarrow> dlp_call env tr 0x16 FIRST_ID [[word_of_int flags, word_of_int cardno] @ short start] sk;
          if result > 0 then do {
            d \<leftarrow> resp_data res 0;
            mr \<leftarrow> get_byte d 2; count \<leftarrow> get_byte d 3;
            let (version, sk) = pi_version tr sk;
            (info, ok) \<leftarrow> read_dbs env tz im version (uint mr) d (unat count) 0 info;
            if ok then Some (sk, info, result)
            else (let (sk, e) = pi_set_error sk PI_ERR_GENERIC_MEMORY in Some (sk, info, e)) }
          else Some (sk, info, result) })"

text \<open>What is searched: a name, a type, a creator; NULL and 0 match everything.\<close>

definition db_matches :: "bytes option \<Rightarrow> u64 \<Rightarrow> u64 \<Rightarrow> DBInfo \<Rightarrow> bool" where
  "db_matches dbname type creator info \<longleftrightarrow>
     (case dbname of None \<Rightarrow> True | Some s \<Rightarrow> takeWhile (\<lambda>b. b \<noteq> 0) (di_name info) = s) \<and>
     (type = 0 \<or> di_type info = type) \<and> (creator = 0 \<or> di_creator info = creator)"

text \<open>The structures of the buffer in turn: the last one looked at, whether it was found, and the next
  index to ask for.\<close>

fun scan_dbs ::
  "struct_image \<Rightarrow> (DBInfo \<Rightarrow> bool) \<Rightarrow> bytes \<Rightarrow> nat \<Rightarrow> nat \<Rightarrow> DBInfo \<Rightarrow> int \<Rightarrow> (DBInfo \<times> bool \<times> int) option" where
  "scan_dbs im match d 0 j info i = Some (info, False, i)"
| "scan_dbs im match d (Suc n) j info i = do {
     s \<leftarrow> get_block (im_size im) d (j * im_size im);
     let info = im_get im s;
     if match info then Some (info, True, i)
     else scan_dbs im match d n (j + 1) info (to_int (uint (di_index info) + 1)) }"

text \<open>The loop of \<open>dlp_FindDBInfo\<close> over RAM or ROM; the flag says whether a database was found.\<close>

partial_function (option) find_db_loop ::
  "heap_env \<Rightarrow> 'w transport \<Rightarrow> time_env \<Rightarrow> struct_image \<Rightarrow> int \<Rightarrow> int \<Rightarrow> (DBInfo \<Rightarrow> bool) \<Rightarrow> pi_buffer \<Rightarrow> DBInfo \<Rightarrow> int \<Rightarrow>
     'w pi_sock \<Rightarrow> ('w pi_sock \<times> pi_buffer \<times> DBInfo \<times> bool) option" where
  "find_db_loop env tr tz im cardno flags match buf info i sk = do {
     (sk, buf, result) \<leftarrow> dlp_ReadDBList env tr tz im cardno flags i buf sk;
     if result \<ge> 0 then do {
       d \<leftarrow> (if used buf = 0 then Some [] else data buf);
       (info, found, i) \<leftarrow> scan_dbs im match d (used buf div im_size im) 0 info i;
       if found then Some (sk, buf, info, True)
       else find_db_loop env tr tz im cardno flags match buf info i sk }
     else Some (sk, buf, info, False) }"

definition dlp_FindDBInfo ::
  "heap_env \<Rightarrow> 'w transport \<Rightarrow> time_env \<Rightarrow> struct_image \<Rightarrow> int \<Rightarrow> int \<Rightarrow> bytes option \<Rightarrow> u64 \<Rightarrow> u64 \<Rightarrow> DBInfo \<Rightarrow>
     'w pi_sock \<Rightarrow> ('w pi_sock \<times> DBInfo \<times> int) option" where
  "dlp_FindDBInfo env tr tz im cardno start dbname type creator info sk =
     (let sk = pi_reset_errors sk; match = db_matches dbname type creator in
      case pi_buffer_new env (im_size im) of
        None \<Rightarrow> (let (sk, e) = pi_set_error sk PI_ERR_GENERIC_MEMORY in Some (sk, info, e))
      | Some buf \<Rightarrow> do {
          (sk, buf, info, found) \<leftarrow>
            (if start < 0x1000
             then find_db_loop env tr tz im cardno (dlpDBListRAM OR dlpDBListMultiple) match buf info start sk
             else Some (sk, buf, info, False));
          if found then Some (sk, info, 0)
          else do {
            let start = (if start < 0x1000 then 0x1000 else start);
            (sk, buf, info, found) \<leftarrow>
              find_db_loop env tr tz im cardno (dlpDBListROM OR dlpDBListMultiple) match buf info (start AND 0xFFF) sk;
            if found then Some (sk, info\<lparr>di_index := di_index info OR 0x1000\<rparr>, 0)
            else Some (sk, info, -1) } })"

section \<open>Procedures on the device\<close>

text \<open>\<open>dlp_RPC\<close> goes past the requests and responses of the protocol. The parameters with what the answer
  stored in them, the result D0 or A0 when one is wanted, and the error.\<close>

definition rpc_result :: "RPC_params \<Rightarrow> int \<Rightarrow> int \<Rightarrow> u64 option" where
  "rpc_result p D0 A0 =
     (if rps_reply p = RPC_PtrReply then Some (word_of_int A0)
      else if rps_reply p = RPC_IntReply then Some (word_of_int D0) else None)"

text \<open>The answer: \<open>Inl\<close> an error, or D0, A0 and the parameters.\<close>

definition rpc_answer ::
  "RPC_param list \<Rightarrow> pi_buffer \<Rightarrow> int \<Rightarrow> 'w pi_sock \<Rightarrow> ('w pi_sock \<times> (int + int \<times> int \<times> RPC_param list)) option" where
  "rpc_answer param buf l sk =
     (if l < 0 then Some (sk, Inl l)
      else if l < 6 then Some (sk, Inl (-1))
      else do {
        m \<leftarrow> data buf;
        b \<leftarrow> get_byte m 0;
        if b \<noteq> 0xad then Some (sk, Inl (-2))
        else do {
          e \<leftarrow> get_short m 2;
          if e \<noteq> 0 then Some (fst (pi_set_palmos_error sk (uint e)), Inl (- uint e))
          else do {
            d0 \<leftarrow> get_long m 8; a0 \<leftarrow> get_long m 12;
            ps \<leftarrow> take_params (\<lambda>p m c. Some (even_up (rp_size p))) (rev param) m 18;
            Some (sk, Inr (uint d0, uint a0, rev ps)) } } })"

definition dlp_RPC ::
  "heap_env \<Rightarrow> 'w transport \<Rightarrow> RPC_params \<Rightarrow> 'w pi_sock \<Rightarrow> ('w pi_sock \<times> RPC_params \<times> u64 option \<times> int) option" where
  "dlp_RPC env tr p sk =
     (let sk = pi_reset_errors sk in
      case pi_buffer_new env DLP_BUF_SIZE of
        None \<Rightarrow> (let (sk, e) = pi_set_error sk PI_ERR_GENERIC_MEMORY in Some (sk, p, None, e))
      | Some buf \<Rightarrow> do {
          p \<leftarrow> InvertRPC p;
          buf \<leftarrow> buf_poke buf 0 ([0x2d, 1, 0, 0] @ set_short (word_of_int (rps_trap p)) @ set_long 0 @ set_long 0 @
                   set_short (of_nat (length (rps_param p))));
          (buf, c) \<leftarrow> put_params (rev (rps_param p)) buf 16;
          m \<leftarrow> data buf;
          bs \<leftarrow> get_block c m 0;
          (sk, sent) \<leftarrow> tr_write tr sk bs;
          (sk, r) \<leftarrow>
            (if sent > 0 \<and> rps_reply p \<noteq> 0 then do {
               (sk, buf, l) \<leftarrow> tr_read tr sk buf (c + 2);
               rpc_answer (rps_param p) buf l sk }
             else Some (sk, Inr (0, 0, rps_param p)));
          let (D0, A0, ps, err) = (case r of Inl e \<Rightarrow> (0, 0, rps_param p, e) | Inr (d, a, ps) \<Rightarrow> (d, a, ps, 0));
          p \<leftarrow> UninvertRPC (p\<lparr>rps_param := ps\<rparr>);
          Some (sk, p, rpc_result p D0 A0, err) })"

text \<open>\<open>feature\<close>: the \<open>long\<close> that the pointer of the caller names, or NULL. A device before 1.1 is asked
  through a procedure.\<close>

definition dlp_ReadFeature ::
  "heap_env \<Rightarrow> 'w transport \<Rightarrow> u64 \<Rightarrow> int \<Rightarrow> u64 option \<Rightarrow> 'w pi_sock \<Rightarrow> ('w pi_sock \<times> u64 option \<times> int) option" where
  "dlp_ReadFeature env tr creator num feature sk =
     (let (version, sk) = pi_version tr (pi_reset_errors sk) in
      if version < 0x0101 then
        (case feature of
           None \<Rightarrow> Some (sk, None, 0)
         | Some _ \<Rightarrow> do {
             p \<leftarrow> PackRPC 0xA27B RPC_IntReply
                    [RPC_Long (uint creator), RPC_Short num, RPC_LongPtr (Some (put_le 8 0x12345678))];
             (sk, p, code, val) \<leftarrow> dlp_RPC env tr p sk;
             f \<leftarrow> rp_data (rps_param p ! 2);
             let feature = Some (word_of_int (val_le f));
             if val < 0 then Some (sk, feature, val)
             else do {
               code \<leftarrow> code;
               if code \<noteq> 0 then
                 (let sk = fst (pi_set_palmos_error sk (to_int (uint code)));
                      (sk, e) = pi_set_error sk PI_ERR_DLP_PALMOS
                  in Some (sk, feature, e))
               else Some (sk, feature, 0) } })
      else do {
        (sk, res, result) \<leftarrow> dlp_call env tr 0x38 FIRST_ID [set_long (ucast creator) @ short num] sk;
        if result > 0 then do { v \<leftarrow> resp_long 0 res; Some (sk, map_option (\<lambda>_. ucast v) feature, result) }
        else Some (sk, feature, result) })"

text \<open>The token is found by one procedure and copied by another. \<open>buffer_ptr\<close> and \<open>sz\<close> are the contents of
  the local variable and of the caller's \<open>size_t\<close>.\<close>

definition dlp_GetROMToken ::
  "heap_env \<Rightarrow> 'w transport \<Rightarrow> int \<Rightarrow> bytes option \<Rightarrow> bytes \<Rightarrow> bytes \<Rightarrow> 'w pi_sock \<Rightarrow>
     ('w pi_sock \<times> bytes option \<times> bytes \<times> int) option" where
  "dlp_GetROMToken env tr token buffer buffer_ptr sz sk = do {
     p \<leftarrow> PackRPC 0xa340 RPC_IntReply [RPC_Short 0, RPC_Long token, RPC_LongPtr (Some buffer_ptr), RPC_ShortPtr (Some sz)];
     (sk, p, result, val) \<leftarrow> dlp_RPC env tr p (pi_reset_errors sk);
     ptr \<leftarrow> rp_data (rps_param p ! 2);
     sz \<leftarrow> rp_data (rps_param p ! 3);
     (sk, buffer, result, val) \<leftarrow>
       (case buffer of
          None \<Rightarrow> Some (sk, None, result, val)
        | Some b \<Rightarrow> do {
            let n = nat (val_le sz);
            b \<leftarrow> poke b n [0];
            p \<leftarrow> PackRPC 0xa026 RPC_IntReply
                   [RPC_Ptr (Some b) n, RPC_Long (val_le ptr), RPC_Long (val_le sz)];
            (sk, p, r, val) \<leftarrow> dlp_RPC env tr p sk;
            Some (sk, rp_data (rps_param p ! 0), (case r of None \<Rightarrow> result | Some x \<Rightarrow> Some x), val) });
     if val < 0 then Some (sk, buffer, sz, val)
     else do {
       r \<leftarrow> result;
       Some (sk, buffer, sz, if r \<noteq> 0 then - to_int (uint r) else 0) } }"

end
