(* ===== verification/VfsProps.thy ===== *)
theory VfsProps
  imports DlpMisc DlpRecProps
begin

text \<open>
  What the expansion, file-system and system-packet calls do: the reads of a file, the behaviour on a
  device that is too old or reports an error, and the memory calls of the debugger.
\<close>

section \<open>Old devices\<close>

lemma old_device:
  assumes "sk_dlpversion sk \<noteq> 0" "sk_dlpversion sk < 0x0102"
  shows "RequireDLPVersion tr 1 2 sk = (sk, False)" "vfs_call env tr cmd datas sk = Some (sk, None, 13)"
proof -
  have v: "pi_version tr sk = (sk_dlpversion sk, sk)" using assms(1) by (simp add: pi_version_def)
  then show r: "RequireDLPVersion tr 1 2 sk = (sk, False)" using assms(2) by (simp add: RequireDLPVersion_def)
  show "vfs_call env tr cmd datas sk = Some (sk, None, 13)"
    by (simp add: vfs_call_def vfs_call_v_def r dlpErrNotSupp_def)
qed

lemma new_device:
  assumes "0x0102 \<le> sk_dlpversion sk"
  shows "RequireDLPVersion tr 1 2 sk = (sk, True)"
proof -
  have "pi_version tr sk = (sk_dlpversion sk, sk)" using assms by (simp add: pi_version_def)
  then show ?thesis using assms by (simp add: RequireDLPVersion_def)
qed

text \<open>C35: on a device whose protocol is older than 1.2 the calls for files report success: they return 13,
  the positive number of the device's error, set no error in the socket, send nothing and leave the
  caller's places as they were.\<close>

theorem vfs_old_device_succeeds:
  assumes "sk_dlpversion sk \<noteq> 0" "sk_dlpversion sk < 0x0102"
  shows "dlp_VFSFileOpen env tr vol path mode sk = Some (sk, None, 13) \<and>
    dlp_VFSFileWrite env tr ref bs sk = Some (sk, 13) \<and>
    dlp_VFSFileRead env tr freeze ref buf len sk = Some (sk, buf, 13) \<and>
    dlp_VFSVolumeEnumerate env tr n refs sk = Some (sk, (n, refs), 13) \<and>
    dlp_VFSDirEntryEnumerate env tr ref iter m infos sk = Some (sk, None, 13)"
  using old_device[OF assms]
  by (simp add: dlp_VFSFileOpen_def vfs_out_def vfs_read_def dlp_VFSFileWrite_def dlp_VFSFileRead_def
      dlp_VFSVolumeEnumerate_def dlp_VFSDirEntryEnumerate_def dlpErrNotSupp_def)

theorem vfs_old_device_succeeds_witness:
  "dlp_VFSFileWrite calloc_env (device_transport lost_device 0) 7 [1, 2, 3] (sample_sock\<lparr>sk_dlpversion := 0x0101\<rparr>) =
     Some (sample_sock\<lparr>sk_dlpversion := 0x0101\<rparr>, 13)"
  using vfs_old_device_succeeds[of "sample_sock\<lparr>sk_dlpversion := 0x0101\<rparr>"] by simp

section \<open>Reading a file\<close>

text \<open>The transport delivers the messages \<open>cs\<close> one after the other and the socket is then \<open>sk'\<close>.\<close>

fun delivers :: "'w transport \<Rightarrow> bytes list \<Rightarrow> 'w pi_sock \<Rightarrow> 'w pi_sock \<Rightarrow> bool" where
  "delivers tr [] sk sk' \<longleftrightarrow> sk' = sk"
| "delivers tr (c # cs) sk sk' \<longleftrightarrow>
     (\<exists>sk1. (\<forall>buf n. pi_buffer_wf buf \<longrightarrow>
               (\<exists>buf'. tr_read tr sk buf n = Some (sk1, buf', int (length c)) \<and> pi_buffer_wf buf' \<and>
                  content buf' = content buf @ c)) \<and>
            delivers tr cs sk1 sk')"

lemma read_loop_delivers:
  assumes "delivers tr cs sk sk'" "cs \<noteq> []" "[] \<notin> set cs" "length (concat cs) = len" "got + int len < 2 ^ 31" "0 \<le> got"
    "pi_buffer_wf buf"
  shows "\<exists>buf'. vfs_read_loop tr sk buf len got = Some (sk', buf', got + int len) \<and> pi_buffer_wf buf' \<and>
    content buf' = content buf @ concat cs"
  using assms
proof (induction cs arbitrary: sk buf len got)
  case (Cons c cs)
  obtain sk1 where d: "\<And>buf n. pi_buffer_wf buf \<Longrightarrow> \<exists>buf'. tr_read tr sk buf n = Some (sk1, buf', int (length c)) \<and>
      pi_buffer_wf buf' \<and> content buf' = content buf @ c" "delivers tr cs sk1 sk'" using Cons.prems(1) by auto
  obtain b1 where b1: "tr_read tr sk buf len = Some (sk1, b1, int (length c))" "pi_buffer_wf b1" "content b1 = content buf @ c"
    using d(1)[OF Cons.prems(7)] by blast
  have c: "0 < length c" "length c \<le> len" "len < 2 ^ 31" using Cons.prems(3-6) by auto
  have ti: "to_int (int (length c)) = int (length c)" using c by (intro to_int_id) simp_all
  have sz: "size_sub len (length c) = len - length c" using c by (intro size_sub_le) auto
  show ?case
  proof (cases "cs = []")
    case True
    then have "len = length c" "sk' = sk1" using Cons.prems(4) d(2) by simp_all
    then have "vfs_read_loop tr sk buf len got = Some (sk', b1, got + int len)"
      using b1(1) c Cons.prems(5,6) by (subst vfs_read_loop.simps) (simp add: ti Let_def to_int_id)
    then show ?thesis using b1 True by simp
  next
    case False
    have more: "0 < len - length c" using False Cons.prems(3,4) by (cases cs) auto
    have "\<exists>buf'. vfs_read_loop tr sk1 b1 (len - length c) (got + int (length c)) =
        Some (sk', buf', (got + int (length c)) + int (len - length c)) \<and> pi_buffer_wf buf' \<and> content buf' = content b1 @ concat cs"
      using False Cons.prems(3-6) c b1(2) d(2) by (intro Cons.IH) auto
    moreover have "vfs_read_loop tr sk buf len got = vfs_read_loop tr sk1 b1 (len - length c) (got + int (length c))"
      using b1(1) c more by (subst vfs_read_loop.simps) (simp add: sz ti Let_def)
    moreover have "(got + int (length c)) + int (len - length c) = got + int len" using c by simp
    ultimately show ?thesis using b1(3) by auto
  qed
qed simp

text \<open>C34: \<open>dlp_VFSFileRead\<close> collects a file: when the device accepts the request, the data that it then
  sends in messages of any sizes are delivered whole and in order, and the number of bytes asked for is
  returned; the option that keeps PADP's transaction is set before the request and cleared at the end.\<close>

theorem dlp_VFSFileRead_whole:
  assumes "0x0102 \<le> sk_dlpversion sk" "pi_buffer_wf buf" "0 < len" "len < 2 ^ 31"
    "dlp_request_new env 0x47 [fileref ref @ set_long (of_nat len)] = Some req"
    "dlp_exec env tr req (freeze 1 (pi_reset_errors sk)) = Some (sk1, res, result)" "0 \<le> result"
    "delivers tr cs sk1 sk2" "[] \<notin> set cs" "length (concat cs) = len"
  shows "\<exists>buf'. dlp_VFSFileRead env tr freeze ref buf len sk = Some (freeze 0 sk2, buf', int len) \<and>
    pi_buffer_wf buf' \<and> content buf' = concat cs"
proof -
  have "cs \<noteq> []" using assms(3,10) by auto
  with read_loop_delivers[OF assms(8) _ assms(9,10), of 0 "pi_buffer_clear env buf"] assms(2,4) pi_buffer_clear_wf[OF assms(2)]
  obtain buf' where "vfs_read_loop tr sk1 (pi_buffer_clear env buf) len 0 = Some (sk2, buf', int len)" "pi_buffer_wf buf'"
    "content buf' = concat cs" by auto
  then show ?thesis
    using assms(5-7) new_device[OF assms(1), of tr] by (simp add: dlp_VFSFileRead_def)
qed

text \<open>A device that answers a request with the messages of its world, the response first.\<close>

definition message_transport :: "bytes list transport" where
  "message_transport = \<lparr>
     tr_read = (\<lambda>sk buf n. case sk_world sk of
         [] \<Rightarrow> Some (sk, buf, 0)
       | m # ms \<Rightarrow> do { (buf, ok) \<leftarrow> pi_buffer_append calloc_env buf m; Some (sk\<lparr>sk_world := ms\<rparr>, buf, int (length m)) }),
     tr_write = (\<lambda>sk bs. Some (sk, int (length bs))),
     tr_flush = (\<lambda>sk. Some sk),
     tr_cmp_vers = (\<lambda>sk. 0)\<rparr>"

lemma message_append:
  assumes "pi_buffer_wf buf"
  shows "\<exists>buf'. pi_buffer_append calloc_env buf m = Some (buf', True) \<and> pi_buffer_wf buf' \<and> content buf' = content buf @ m"
proof -
  obtain buf' ok where a: "pi_buffer_append calloc_env buf m = Some (buf', ok)" "pi_buffer_wf buf'"
    "content buf' = (if ok then content buf @ m else [])" using pi_buffer_append_spec[OF assms] by blast
  moreover have ok using a(1) expect_all_alloc[OF all_alloc_calloc, of buf "length m"]
    by (auto simp: pi_buffer_append_def split: prod.splits if_splits Option.bind_splits)
  ultimately show ?thesis by auto
qed

lemma message_delivers: "delivers message_transport ms (sk\<lparr>sk_world := ms\<rparr>) (sk\<lparr>sk_world := []\<rparr>)"
proof (induction ms)
  case (Cons m ms)
  have "\<exists>buf'. tr_read message_transport (sk\<lparr>sk_world := m # ms\<rparr>) buf n = Some (sk\<lparr>sk_world := ms\<rparr>, buf', int (length m)) \<and>
      pi_buffer_wf buf' \<and> content buf' = content buf @ m" if "pi_buffer_wf buf" for buf n
    using message_append[OF that, of m] by (auto simp: message_transport_def)
  with Cons.IH show ?case by auto
qed simp

text \<open>As a device it answers a request with the next message, or with an empty one.\<close>

definition message_device :: "bytes list \<Rightarrow> bytes \<Rightarrow> bytes list \<times> bytes" where
  "message_device ms rq = (case ms of [] \<Rightarrow> ([], []) | m # ms \<Rightarrow> (ms, m))"

definition message_waiting :: "bytes list \<Rightarrow> bytes list \<Rightarrow> bytes \<Rightarrow> bool" where
  "message_waiting w ms m \<longleftrightarrow> w = m # ms \<or> w = [] \<and> ms = [] \<and> m = []"

interpretation messages: device_link message_transport "(=)" message_waiting message_device "0x100000"
proof (unfold_locales, goal_cases)
  case 1
  show ?case by simp
next
  case (2 sk d rq)
  then show ?case
    by (intro exI[of _ sk] exI[of _ "sk_world sk"])
      (auto simp: message_transport_def message_device_def message_waiting_def split: list.splits)
next
  case (3 sk d resp buf n)
  note 2 = 3
  show ?case
  proof (cases "sk_world sk")
    case Nil
    then show ?thesis using 2 by (intro exI[of _ "[]"] exI[of _ buf]) (auto simp: message_transport_def message_waiting_def)
  next
    case (Cons m ms)
    obtain buf' where "pi_buffer_append calloc_env buf m = Some (buf', True)" "pi_buffer_wf buf'" "content buf' = content buf @ m"
      using message_append[OF 2(3)] by blast
    then show ?thesis using 2(1,4) Cons
      by (intro exI[of _ ms] exI[of _ buf']) (simp add: message_transport_def message_waiting_def)
  qed
qed

text \<open>A socket of a device that speaks 1.2 and sends the messages \<open>ms\<close>.\<close>

definition message_sock :: "bytes list \<Rightarrow> bytes list pi_sock" where
  "message_sock ms = \<lparr>sk_world = ms, sk_last_error = 0, sk_palmos_error = 0, sk_cmp = False,
     sk_dlpversion = 0x0102, sk_maxrecsize = 0xffff, sk_dlprecord = 0, sk_honor_rx_to = 1, sk_ended = False\<rparr>"

lemma message_exec:
  assumes "response_fits res" "rs_argv res = []" "length (request_bytes req) \<le> 0x100000"
  shows "dlp_exec calloc_env message_transport req (message_sock (response_bytes res # ms)) =
    (let sk' = (message_sock ms)\<lparr>sk_palmos_error := rs_err res\<rparr> in
     if \<not> cmd_accepted (rq_cmd req) (rs_cmd res)
     then Some (sk'\<lparr>sk_last_error := PI_ERR_DLP_COMMAND\<rparr>, Some res, PI_ERR_DLP_COMMAND)
     else if rs_err res \<noteq> 0
     then Some (sk'\<lparr>sk_last_error := PI_ERR_DLP_PALMOS\<rparr>, Some res, PI_ERR_DLP_PALMOS)
     else Some (sk', Some res, 0))"
proof -
  let ?sk = "message_sock (response_bytes res # ms)"
  have "version_carries ?sk (rs_argv res)" by (simp add: version_carries_def assms(2))
  moreover have "message_device (response_bytes res # ms) (request_bytes req) = (ms, response_bytes res)"
    by (simp add: message_device_def)
  moreover have "length (response_bytes res) \<le> 0x100000" by (simp add: response_bytes_def assms(2))
  moreover have "sk_world ?sk = response_bytes res # ms" by (simp add: message_sock_def)
  ultimately obtain w where "ms = w" and e: "dlp_exec calloc_env message_transport req ?sk =
    (let sk' = ?sk\<lparr>sk_world := w, sk_palmos_error := rs_err res\<rparr> in
     if \<not> cmd_accepted (rq_cmd req) (rs_cmd res)
     then Some (sk'\<lparr>sk_last_error := PI_ERR_DLP_COMMAND\<rparr>, Some res, PI_ERR_DLP_COMMAND)
     else if rs_err res \<noteq> 0
     then Some (sk'\<lparr>sk_last_error := PI_ERR_DLP_PALMOS\<rparr>, Some res, PI_ERR_DLP_PALMOS)
     else Some (sk', Some res, first_len (rs_argv res)))"
    using messages.exec[OF all_alloc_calloc assms(1), of ?sk "response_bytes res # ms" req ms] assms(3) by auto
  have "?sk\<lparr>sk_world := ms, sk_palmos_error := x\<rparr> = (message_sock ms)\<lparr>sk_palmos_error := x\<rparr>" for x
    by (simp add: message_sock_def)
  with e \<open>ms = w\<close> show ?thesis by (simp add: assms(2) first_len_def Let_def)
qed

lemma single_request:
  "dlp_request_new calloc_env cmd [bs] = Some \<lparr>rq_cmd = cmd, rq_argv = [\<lparr>arg_id = PI_DLP_ARG_FIRST_ID, arg_data = bs\<rparr>]\<rparr>"
  by (simp add: dlp_request_new_def dlp_arg_new_def dlp_request_new_with_argid_def calloc_env_def)

lemma single_request_length:
  "length bs \<le> 100 \<Longrightarrow> length (request_bytes \<lparr>rq_cmd = cmd, rq_argv = [\<lparr>arg_id = x, arg_data = bs\<rparr>]\<rparr>) \<le> 0x100000"
  by (simp add: request_bytes_def arg_bytes_def Let_def)

theorem dlp_VFSFileRead_whole_witness:
  "\<exists>buf. dlp_VFSFileRead calloc_env message_transport (\<lambda>v sk. sk) 7 (buf_of [9]) 3
      (message_sock [response_bytes \<lparr>rs_cmd = 0x47, rs_err = 0, rs_argv = []\<rparr>, [1, 2], [3]]) =
    Some (message_sock [], buf, 3) \<and> content buf = [1, 2, 3]"
proof -
  let ?res = "\<lparr>rs_cmd = 0x47, rs_err = 0, rs_argv = []\<rparr>"
  let ?sk = "message_sock [response_bytes ?res, [1, 2], [3]]"
  let ?bs = "fileref 7 @ set_long (of_nat 3)"
  define req where "req = \<lparr>rq_cmd = 0x47, rq_argv = [\<lparr>arg_id = PI_DLP_ARG_FIRST_ID, arg_data = ?bs\<rparr>]\<rparr>"
  have req: "dlp_request_new calloc_env 0x47 [?bs] = Some req" "rq_cmd req = 0x47" "length (request_bytes req) \<le> 0x100000"
    by (simp add: single_request req_def, simp add: req_def, unfold req_def, rule single_request_length) (simp add: fileref_def)
  have "response_fits ?res" by (simp add: response_fits_def)
  from message_exec[OF this _ req(3), of "[[1, 2], [3]]"] req(2)
  have e: "dlp_exec calloc_env message_transport req ?sk = Some (message_sock [[1, 2], [3]], Some ?res, 0)"
    by (simp add: cmd_accepted_def message_sock_def)
  have r: "pi_reset_errors ?sk = ?sk" by (simp add: pi_reset_errors_def message_sock_def)
  have d: "delivers message_transport [[1, 2], [3]] (message_sock [[1, 2], [3]]) (message_sock [])"
    using message_delivers[of "[[1, 2], [3]]" "message_sock []"] by (simp add: message_sock_def)
  have v: "0x0102 \<le> sk_dlpversion ?sk" by (simp add: message_sock_def)
  have e': "dlp_exec calloc_env message_transport req (pi_reset_errors ?sk) = Some (message_sock [[1, 2], [3]], Some ?res, 0)"
    unfolding r by (rule e)
  from dlp_VFSFileRead_whole[of ?sk "buf_of [9]" 3 calloc_env 7 req message_transport "\<lambda>v sk. sk",
      OF v buf_of_wf(1) _ _ req(1) e' _ d]
  have "\<exists>buf'. dlp_VFSFileRead calloc_env message_transport (\<lambda>v sk. sk) 7 (buf_of [9]) 3 ?sk = Some (message_sock [], buf', 3) \<and>
      pi_buffer_wf buf' \<and> content buf' = [1, 2, 3]" by simp
  then show ?thesis by blast
qed

section \<open>Errors taken for answers\<close>

text \<open>C36: \<open>dlp_VFSDirEntryEnumerate\<close> keeps its result in an \<open>unsigned int\<close>: when the device or the link
  reports an error and there is no answer to take apart, it reads the answer all the same, outside of
  any object.\<close>

theorem dlp_VFSDirEntryEnumerate_error:
  assumes "0x0102 \<le> sk_dlpversion sk"
    "dlp_request_new env 0x51 [fileref ref @ set_long (ucast iter) @ long (8 + n * (4 + int vfsMAXFILENAME))] = Some req"
    "dlp_exec env tr req (pi_reset_errors sk) = Some (sk1, res, result)" "result < 0" "- (2 ^ 31) \<le> result"
    "case res of None \<Rightarrow> True | Some r \<Rightarrow> rs_argv r = []"
  shows "dlp_VFSDirEntryEnumerate env tr ref iter n infos sk = None"
proof -
  have "(word_of_int result :: u32) \<noteq> 0"
  proof
    assume "(word_of_int result :: u32) = 0"
    then have "sint (word_of_int result :: u32) = 0" by simp
    then have "to_int result = 0" by (simp add: to_int_def)
    then show False using assms(4,5) by (simp add: to_int_id)
  qed
  then have pos: "0 < (word_of_int result :: u32)" by (simp add: word_neq_0_conv)
  have none: "resp_data res 0 = None" using assms(6) by (auto simp: resp_data_def split: option.splits)
  show ?thesis
    unfolding dlp_VFSDirEntryEnumerate_def new_device[OF assms(1), of tr] Let_def prod.case assms(2) option.case
    by (simp add: assms(3) pos none)
qed

theorem dlp_VFSDirEntryEnumerate_error_witness:
  "dlp_VFSDirEntryEnumerate calloc_env message_transport 7 0 2 []
     (message_sock [response_bytes \<lparr>rs_cmd = 0x51, rs_err = 5, rs_argv = []\<rparr>]) = None"
proof -
  let ?res = "\<lparr>rs_cmd = 0x51, rs_err = 5, rs_argv = []\<rparr>"
  let ?sk = "message_sock [response_bytes ?res]"
  let ?bs = "fileref 7 @ set_long (ucast (0 :: u64)) @ long (8 + 2 * (4 + int vfsMAXFILENAME))"
  define req where "req = \<lparr>rq_cmd = 0x51, rq_argv = [\<lparr>arg_id = PI_DLP_ARG_FIRST_ID, arg_data = ?bs\<rparr>]\<rparr>"
  have req: "dlp_request_new calloc_env 0x51 [?bs] = Some req" "rq_cmd req = 0x51" "length (request_bytes req) \<le> 0x100000"
    by (simp add: single_request req_def, simp add: req_def, unfold req_def, rule single_request_length) (simp add: fileref_def long_def)
  have fits: "response_fits ?res" by (simp add: response_fits_def)
  have r: "pi_reset_errors ?sk = ?sk" by (simp add: pi_reset_errors_def message_sock_def)
  have e: "dlp_exec calloc_env message_transport req (pi_reset_errors ?sk) =
      Some ((message_sock [])\<lparr>sk_palmos_error := 5, sk_last_error := PI_ERR_DLP_PALMOS\<rparr>, Some ?res, PI_ERR_DLP_PALMOS)"
    unfolding r using message_exec[OF fits _ req(3), of "[]"] req(2) by (simp add: cmd_accepted_def Let_def)
  have v: "0x0102 \<le> sk_dlpversion ?sk" by (simp add: message_sock_def)
  show ?thesis
    by (rule dlp_VFSDirEntryEnumerate_error[OF v req(1) e]) (simp_all add: PI_ERR_DLP_PALMOS_def)
qed

end
