(* ===== verification/SysProps.thy ===== *)
theory SysProps
  imports VfsProps
begin

text \<open>
  The memory calls of the debugger over a transport whose reads append to the buffer, as the protocols'
  reads do.
\<close>

definition appends :: "'w transport \<Rightarrow> bool" where
  "appends tr \<longleftrightarrow> (\<forall>sk buf n sk' buf' r. pi_buffer_wf buf \<longrightarrow> tr_read tr sk buf n = Some (sk', buf', r) \<longrightarrow> 0 \<le> r \<longrightarrow>
     pi_buffer_wf buf' \<and> (\<exists>bs. content buf' = content buf @ bs \<and> int (length bs) = r))"

lemma message_appends: "appends message_transport"
proof -
  have "pi_buffer_wf buf' \<and> (\<exists>bs. content buf' = content buf @ bs \<and> int (length bs) = r)"
    if wf: "pi_buffer_wf buf" and rd: "tr_read message_transport sk buf n = Some (sk', buf', r)" for sk buf n sk' buf' r
  proof (cases "sk_world sk")
    case Nil
    then show ?thesis using wf rd by (auto simp: message_transport_def)
  next
    case (Cons m ms)
    obtain b where "pi_buffer_append calloc_env buf m = Some (b, True)" "pi_buffer_wf b" "content b = content buf @ m"
      using message_append[OF wf] by blast
    then show ?thesis using rd Cons by (auto simp: message_transport_def)
  qed
  then show ?thesis unfolding appends_def by blast
qed

text \<open>Storing the request over the used part of the buffer.\<close>

lemma send_content:
  assumes "pi_buffer_wf buf" "sys_send tr buf req n sk = Some (sk', buf')" "length req \<le> used buf" "req \<noteq> []"
  shows "pi_buffer_wf buf' \<and> used buf' = used buf \<and> take (length req) (content buf') = req"
proof -
  obtain d where d: "data buf = Some d" "poke d 0 req \<noteq> None" "buf' = buf\<lparr>data := poke d 0 req\<rparr>"
    using assms(2,4) by (auto simp: sys_send_def buf_poke_def bind_eq_Some_conv split: option.splits prod.splits)
  then show ?thesis
    using assms(1,3) by (auto simp: poke_def pi_buffer_wf_def content_def min_def split: if_splits)
qed

lemma send_empty:
  assumes "pi_buffer_wf buf" "sys_send tr buf req n sk = Some (sk', buf')" "req \<noteq> []"
  shows "pi_buffer_wf buf' \<and> used buf' = used buf"
proof -
  obtain b where b: "buf_poke buf 0 req = Some b" "buf' = b"
    using assms(2) by (auto simp: sys_send_def bind_eq_Some_conv split: prod.splits)
  then show ?thesis using assms(1,3)
    by (auto simp: buf_poke_def poke_def pi_buffer_wf_def split: option.splits if_splits)
qed

text \<open>A turn on a buffer that holds an earlier answer finds its own request where it looks for the command.\<close>

lemma second_turn:
  assumes "appends tr" "pi_buffer_wf buf" "12 \<le> used buf" "read_memory_turn tr addr todo d buf sk = Some (sk', buf', r)"
  shows "r = None"
proof (rule ccontr)
  let ?req = "sys_command 0x01 @ set_long (ucast (addr + of_nat d)) @ set_short (of_nat todo)"
  assume "r \<noteq> None"
  then obtain sk1 b1 b2 res m c where s: "sys_send tr buf ?req 12 sk = Some (sk1, b1)"
    "tr_read tr sk1 b1 (todo + 6) = Some (sk', b2, res)" "\<not> res < 0" "data b2 = Some m" "get_byte m 4 = Some c" "c = 0x81"
    using assms(4) by (auto simp: read_memory_turn_def bind_eq_Some_conv split: if_splits prod.splits)
  have l: "length ?req = 12" by (simp add: sys_command_def)
  have b1: "pi_buffer_wf b1" "used b1 = used buf" "take 12 (content b1) = ?req"
    using send_content[OF assms(2) s(1)] assms(3) l by (auto simp: sys_command_def)
  obtain bs where b2: "pi_buffer_wf b2" "content b2 = content b1 @ bs"
    using assms(1) s(2,3) b1(1) unfolding appends_def by (metis not_less)
  have lc: "12 \<le> length (content b1)" using b1 content_length[OF b1(1)] assms(3) by simp
  have "content b2 ! 4 = take 12 (content b1) ! 4" using lc by (simp add: b2(2) nth_append)
  then have "content b2 ! 4 = 1" unfolding b1(3) by (simp add: sys_command_def)
  moreover have "content b2 = take (used b2) m" using s(4) by (simp add: content_def)
  moreover have "4 < length (content b2)" using lc b2(2) by simp
  ultimately have "m ! 4 = 1" by (metis length_take min_less_iff_conj nth_take)
  moreover have "m ! 4 = c" using s(5) by (auto simp: get_byte_def split: if_splits)
  ultimately show False using s(6) by simp
qed

text \<open>C37: \<open>sys_ReadMemory\<close> never delivers more than 256 bytes. The buffer is not emptied between its
  requests, so that the second answer is appended behind the first and the request stands where the
  answer's command is looked for: whatever the device sends, what lies behind the first 256 bytes of the
  caller's memory is untouched and at most 256 are reported.\<close>

theorem sys_ReadMemory_cuts:
  assumes "appends tr" "sys_ReadMemory env tr addr len dest sk = Some (sk', dest', r)"
  shows "r \<le> 256 \<and> drop 256 dest' = drop 256 dest"
proof (cases "pi_buffer_new env 0xFFFF")
  case None
  then show ?thesis using assms(2) by (auto simp: sys_ReadMemory_def pi_set_error_def PI_ERR_GENERIC_MEMORY_def)
next
  case (Some buf)
  let ?todo = "if 256 < len then 256 else len"
  have wf: "pi_buffer_wf buf" using pi_buffer_new_wf[OF Some] by simp
  have loop: "read_memory_loop tr addr len 0 buf dest sk = Some (sk', dest', r)" using assms(2) Some by (simp add: sys_ReadMemory_def)
  obtain sk1 b1 r1 where t: "read_memory_turn tr addr ?todo 0 buf sk = Some (sk1, b1, r1)"
    using loop by (subst (asm) read_memory_loop.simps) (auto simp: bind_eq_Some_conv Let_def)
  show ?thesis
  proof (cases r1)
    case None
    then show ?thesis using loop t by (subst (asm) read_memory_loop.simps) (simp add: Let_def to_int_id split: if_splits)
  next
    case r1: (Some bs)
    let ?req = "sys_command 0x01 @ set_long (ucast addr) @ set_short (of_nat ?todo)"
    obtain sk0 b0 res where s: "sys_send tr buf ?req 12 sk = Some (sk0, b0)" "tr_read tr sk0 b0 (?todo + 6) = Some (sk1, b1, res)"
      "res = int ?todo + 6" "length bs = ?todo"
      using t r1 by (auto simp: read_memory_turn_def bind_eq_Some_conv get_block_def split: if_splits prod.splits)
    have b0: "pi_buffer_wf b0" using send_empty[OF wf s(1)] by (simp add: sys_command_def)
    obtain xs where b1: "pi_buffer_wf b1" "content b1 = content b0 @ xs" "int (length xs) = res"
      using assms(1) b0 s(2,3) unfolding appends_def by (metis add_nonneg_nonneg of_nat_0_le_iff zero_le_numeral)
    obtain d1 where d1: "poke dest 0 bs = Some d1"
      using loop t r1 by (subst (asm) read_memory_loop.simps) (auto simp: bind_eq_Some_conv Let_def split: if_splits)
    have d: "drop 256 d1 = drop 256 dest" using d1 s(4) by (auto simp: poke_def min_def split: if_splits)
    show ?thesis
    proof (cases "?todo < len")
      case False
      then have "dest' = d1" "r = to_int (int ?todo)"
        using loop t r1 d1 by (subst (asm) read_memory_loop.simps, simp add: Let_def split: if_splits)+
      then show ?thesis using d by (simp add: to_int_id)
    next
      case True
      then have todo: "?todo = 256" by (simp split: if_splits)
      have l2: "read_memory_loop tr addr len 256 b1 d1 sk1 = Some (sk', dest', r)"
        using loop t r1 d1 True by (subst (asm) read_memory_loop.simps) (simp add: Let_def split: if_splits)
      have "12 \<le> used b1" using content_length[OF b1(1)] b1(2,3) s(3) todo by simp
      note two = second_turn[OF assms(1) b1(1) this]
      obtain sk2 b2 r2 where t2: "read_memory_turn tr addr ?todo 256 b1 sk1 = Some (sk2, b2, r2)"
        using l2 by (subst (asm) read_memory_loop.simps) (auto simp: bind_eq_Some_conv Let_def)
      then have "r2 = None" by (rule two)
      with l2 t2 have "dest' = d1" "r = to_int 256"
        by (subst (asm) read_memory_loop.simps, simp add: Let_def)+
      then show ?thesis using d by (simp add: to_int_id)
    qed
  qed
qed

text \<open>A device that answers two requests in the expected way, for 300 bytes.\<close>

lemma send_message:
  assumes "pi_buffer_wf buf" "12 \<le> allocated buf" "length req = 12"
  shows "\<exists>b. sys_send message_transport buf req 12 sk = Some (sk, b) \<and> pi_buffer_wf b \<and> used b = used buf"
proof -
  obtain d where d: "data buf = Some d" "length d = allocated buf"
    using assms(1,2) by (auto simp: pi_buffer_wf_def split: option.splits)
  obtain d' where d': "poke d 0 req = Some d'" "length d' = length d" using assms(2,3) d(2) by (simp add: poke_def)
  have "sys_send message_transport buf req 12 sk = Some (sk, buf\<lparr>data := Some d'\<rparr>)"
    using d d' assms(2) by (simp add: sys_send_def buf_poke_def get_block_def message_transport_def)
  then show ?thesis using assms(1) d d' by (auto simp: pi_buffer_wf_def)
qed

definition memory_reply :: "bytes \<Rightarrow> bytes" where "memory_reply bs = [0, 0, 0, 0, 0x81, 0] @ bs"

lemma message_read:
  assumes "pi_buffer_wf buf"
  shows "\<exists>b. tr_read message_transport (message_sock (m # ms)) buf n = Some (message_sock ms, b, int (length m)) \<and>
    pi_buffer_wf b \<and> content b = content buf @ m"
  using message_append[OF assms, of m] by (auto simp: message_transport_def message_sock_def)

theorem sys_ReadMemory_cuts_witness:
  "\<exists>sk dest. sys_ReadMemory calloc_env message_transport 0 300 (replicate 300 1)
      (message_sock [memory_reply (replicate 256 7), memory_reply (replicate 44 7)]) = Some (sk, dest, 256) \<and>
    drop 256 dest = replicate 44 1"
proof -
  let ?r1 = "memory_reply (replicate 256 7)" and ?r2 = "memory_reply (replicate 44 7)"
  obtain buf where buf: "pi_buffer_new calloc_env 0xFFFF = Some buf" by (simp add: pi_buffer_new_def malloc_def calloc_env_def)
  have wf: "pi_buffer_wf buf" "content buf = []" using pi_buffer_new_wf[OF buf] by simp_all
  have al: "12 \<le> allocated buf" using buf by (auto simp: pi_buffer_new_def split: if_splits option.splits)
  let ?q = "\<lambda>d todo. sys_command 0x01 @ set_long (ucast (0 + of_nat d :: u64)) @ set_short (of_nat todo)"
  have q: "length (?q d todo) = 12" for d todo by (simp add: sys_command_def)
  obtain b0 where b0: "sys_send message_transport buf (?q 0 256) 12 (message_sock [?r1, ?r2]) = Some (message_sock [?r1, ?r2], b0)"
    "pi_buffer_wf b0" "used b0 = used buf" using send_message[OF wf(1) al q] by blast
  have c0: "content b0 = []" using content_length[OF wf(1)] content_length[OF b0(2)] b0(3) wf(2) by simp
  obtain b1 where b1: "tr_read message_transport (message_sock [?r1, ?r2]) b0 (256 + 6) = Some (message_sock [?r2], b1, int (length ?r1))"
    "pi_buffer_wf b1" "content b1 = content b0 @ ?r1" using message_read[OF b0(2)] by blast
  have r1: "content b1 = ?r1" "?r1 \<noteq> []" using b1(3) c0 by (simp_all add: memory_reply_def)
  obtain y1 where y1: "data b1 = Some (?r1 @ y1)" using content_data[OF b1(2) r1] by auto
  have t1: "read_memory_turn message_transport 0 256 0 buf (message_sock [?r1, ?r2]) = Some (message_sock [?r2], b1, Some (replicate 256 7))"
    using b0(1) b1(1) y1 by (simp add: read_memory_turn_def memory_reply_def get_byte_def get_block_def)
  have u1: "used b1 = 262" using content_length[OF b1(2)] r1(1) by (simp add: memory_reply_def)
  then have al1: "12 \<le> allocated b1" using b1(2) by (auto simp: pi_buffer_wf_def split: option.splits)
  obtain b2 where b2: "sys_send message_transport b1 (?q 256 256) 12 (message_sock [?r2]) = Some (message_sock [?r2], b2)"
    "pi_buffer_wf b2" "used b2 = used b1" using send_message[OF b1(2) al1 q] by blast
  have c2: "take 12 (content b2) = ?q 256 256" using send_content[OF b1(2) b2(1)] u1 q[of 256 256] by (simp add: sys_command_def)
  obtain b3 where b3: "tr_read message_transport (message_sock [?r2]) b2 (256 + 6) = Some (message_sock [], b3, int (length ?r2))"
    "pi_buffer_wf b3" "content b3 = content b2 @ ?r2" using message_read[OF b2(2)] by blast
  have "content b3 \<noteq> []" using b3(3) by (simp add: memory_reply_def)
  then obtain y3 where y3: "data b3 = Some (content b3 @ y3)" using content_data[OF b3(2) refl] by auto
  have "\<exists>c. get_byte (content b3 @ y3) 4 = Some c" using b3(3) by (simp add: get_byte_def memory_reply_def)
  then have "\<exists>r. read_memory_turn message_transport 0 256 256 b1 (message_sock [?r2]) = Some (message_sock [], b3, r)"
    using b2(1) b3(1) y3 by (auto simp: read_memory_turn_def memory_reply_def)
  moreover have "12 \<le> used b1" using u1 by simp
  ultimately have t2: "read_memory_turn message_transport 0 256 256 b1 (message_sock [?r2]) = Some (message_sock [], b3, None)"
    using second_turn[OF message_appends b1(2)] by blast
  let ?dest = "replicate 256 7 @ replicate 44 1 :: bytes"
  have p: "poke (replicate 300 1) 0 (replicate 256 7) = Some ?dest" by (simp add: poke_def)
  have e: "sys_ReadMemory calloc_env message_transport 0 300 (replicate 300 1) (message_sock [?r1, ?r2]) = Some (message_sock [], ?dest, 256)"
    unfolding sys_ReadMemory_def buf option.case
    by (subst read_memory_loop.simps, simp add: t1 p, subst read_memory_loop.simps, simp add: t2 to_int_id)
  with sys_ReadMemory_cuts[OF message_appends e] show ?thesis by (intro exI[of _ "message_sock []"] exI[of _ ?dest]) simp
qed

end
