(* ===== verification/PiFileXfer.thy ===== *)
theory PiFileXfer
  imports PiFile DlpRes
begin

text \<open>
  The transfer of a database file from and to a device: \<open>pi_file_retrieve\<close>, \<open>pi_file_install\<close> and
  \<open>pi_file_merge\<close> of \<open>libpisock/pi-file.c\<close>. What surrounds them is the parameter \<open>xfer_env\<close>: the
  allocator, the socket calls, the C library's time functions, the test whether the socket is still
  connected, the progress function of the caller (None for NULL) and the values that variables have
  which a call leaves unset. A call returns the socket, the file and the result.

  \<open>goto fail\<close> inside a loop is a result that the loop returns beside its state.
\<close>

section \<open>Accessors\<close>

text \<open>The block of the AppInfo pointer; using it when it dangles is undefined.\<close>

definition pi_file_get_info :: "pi_file \<Rightarrow> DBInfo" where
  "pi_file_get_info pf = pf_info pf"

definition pi_file_get_app_info :: "pi_file \<Rightarrow> mem_ptr \<times> u64" where
  "pi_file_get_app_info pf = (app_info pf, word_of_int (app_info_size pf))"

definition pi_file_get_sort_info :: "pi_file \<Rightarrow> mem_ptr \<times> u64" where
  "pi_file_get_sort_info pf = (sort_info pf, word_of_int (sort_info_size pf))"

definition pi_file_get_entries :: "pi_file \<Rightarrow> int" where
  "pi_file_get_entries pf = num_entries pf"

definition ptr_block :: "mem_ptr \<Rightarrow> bytes option" where
  "ptr_block p = (case p of Block bs \<Rightarrow> Some bs | Null \<Rightarrow> Some [] | Dangling \<Rightarrow> None)"

section \<open>Progress\<close>

definition PI_PROGRESS_SEND_DB :: int where "PI_PROGRESS_SEND_DB = 1"
definition PI_PROGRESS_RECEIVE_DB :: int where "PI_PROGRESS_RECEIVE_DB = 2"
definition PI_TRANSFER_STOP :: int where "PI_TRANSFER_STOP = 0"

record pi_progress =
  pg_type :: int
  pg_bytes :: int
  pg_size :: DBSizeInfo
  pg_records :: int

definition zero_DBSizeInfo :: DBSizeInfo where
  "zero_DBSizeInfo = \<lparr>ds_numRecords = 0, ds_totalBytes = 0, ds_dataBytes = 0, ds_appBlockSize = 0,
     ds_sortBlockSize = 0, ds_maxRecSize = 0\<rparr>"

record 'w xfer_env =
  xe_heap :: heap_env
  xe_tr :: "'w transport"
  xe_tz :: time_env
  xe_connected :: "'w pi_sock \<Rightarrow> bool"
  xe_report :: "(pi_file \<Rightarrow> pi_progress \<Rightarrow> 'w pi_sock \<Rightarrow> 'w pi_sock \<times> int) option"
  xe_junk :: rec_out
  xe_junk_int :: int
  xe_junk_long :: u64

text \<open>\<open>report_progress && report_progress(socket, &progress) == PI_TRANSFER_STOP\<close>.\<close>

definition stopped :: "'w xfer_env \<Rightarrow> pi_file \<Rightarrow> pi_progress \<Rightarrow> 'w pi_sock \<Rightarrow> 'w pi_sock \<times> bool" where
  "stopped xe pf pg sk =
     (case xe_report xe of
        None \<Rightarrow> (sk, False)
      | Some f \<Rightarrow> (let (sk, r) = f pf pg sk in (sk, r = PI_TRANSFER_STOP)))"

text \<open>\<open>progress.transferred_bytes += size\<close> with a \<open>size_t\<close>, and the count of the records.\<close>

definition count_record :: "nat \<Rightarrow> pi_progress \<Rightarrow> pi_progress option" where
  "count_record n pg = do {
     k \<leftarrow> add_int (pg_records pg) 1;
     Some (pg\<lparr>pg_bytes := to_int (pg_bytes pg + int n), pg_records := k\<rparr>) }"

definition buffer_data :: "pi_buffer \<Rightarrow> bytes" where
  "buffer_data buf = (case data buf of None \<Rightarrow> [] | Some d \<Rightarrow> d)"

definition the_or :: "'a option \<Rightarrow> 'a \<Rightarrow> 'a" where
  "the_or x d = (case x of None \<Rightarrow> d | Some v \<Rightarrow> v)"

section \<open>Retrieving\<close>

text \<open>The state of the loops, and the result with which they go to \<open>fail\<close>.\<close>

type_synonym 'w receiving = "'w pi_sock \<times> pi_file \<times> pi_progress \<times> pi_buffer \<times> int option"

definition receive_resource ::
  "'w xfer_env \<Rightarrow> int \<Rightarrow> u32 \<Rightarrow> 'w pi_sock \<Rightarrow> pi_file \<Rightarrow> pi_progress \<Rightarrow> pi_buffer \<Rightarrow> 'w receiving option" where
  "receive_resource xe db j sk pf pg buf = do {
     (sk, type, rid, b, result) \<leftarrow>
       dlp_ReadResourceByIndex (xe_heap xe) (xe_tr xe) db j (Some buf) True True sk;
     buf \<leftarrow> b;
     if result < 0 then Some (sk, pf, pg, buf, Some result)
     else do {
       (pf, result) \<leftarrow> pi_file_append_resource (xe_heap xe) pf (buffer_data buf) (used buf)
          (the_or type (xe_junk_long xe)) (the_or rid (xe_junk_int xe));
       if result < 0 then Some (fst (pi_set_error sk result), pf, pg, buf, Some result)
       else do {
         pg \<leftarrow> count_record (used buf) pg;
         let (sk, stop) = stopped xe pf pg sk;
         if stop then Some (fst (pi_set_error sk PI_ERR_FILE_ABORTED), pf, pg, buf, Some PI_ERR_FILE_ABORTED)
         else Some (sk, pf, pg, buf, None) } } }"

text \<open>A record that is archived or deleted is counted and left out.\<close>

definition receive_record ::
  "'w xfer_env \<Rightarrow> int \<Rightarrow> u32 \<Rightarrow> 'w pi_sock \<Rightarrow> pi_file \<Rightarrow> pi_progress \<Rightarrow> pi_buffer \<Rightarrow> 'w receiving option" where
  "receive_record xe db j sk pf pg buf = do {
     (sk, out, b, result) \<leftarrow>
       dlp_ReadRecordByIndex (xe_heap xe) (xe_tr xe) db (sint j) (want_all\<lparr>rw_index := False\<rparr>) (Some buf) sk;
     buf \<leftarrow> b;
     if result < 0 then Some (sk, pf, pg, buf, Some result)
     else do {
       let attr = the_or (rc_attr out) (the_or (rc_attr (xe_junk xe)) 0);
       let category = the_or (rc_cat out) (the_or (rc_cat (xe_junk xe)) 0);
       let uid = the_or (rc_id out) (the_or (rc_id (xe_junk xe)) 0);
       pg \<leftarrow> count_record (used buf) pg;
       let (sk, stop) = stopped xe pf pg sk;
       if stop then Some (fst (pi_set_error sk PI_ERR_FILE_ABORTED), pf, pg, buf, Some PI_ERR_FILE_ABORTED)
       else if attr AND uint (dlpRecAttrArchived OR dlpRecAttrDeleted) \<noteq> 0 then Some (sk, pf, pg, buf, None)
       else do {
         (pf, result) \<leftarrow> pi_file_append_record (xe_heap xe) pf (buffer_data buf) (used buf) attr category uid;
         if result < 0 then Some (fst (pi_set_error sk result), pf, pg, buf, Some result)
         else Some (sk, pf, pg, buf, None) } } }"

text \<open>\<open>for (j = 0; j < size_info.numRecords; j++)\<close> with an \<open>unsigned int\<close>: with a larger count,
  which no device sends, it would not end.\<close>

partial_function (option) receive_loop ::
  "('w xfer_env \<Rightarrow> int \<Rightarrow> u32 \<Rightarrow> 'w pi_sock \<Rightarrow> pi_file \<Rightarrow> pi_progress \<Rightarrow> pi_buffer \<Rightarrow> 'w receiving option) \<Rightarrow>
   'w xfer_env \<Rightarrow> int \<Rightarrow> u64 \<Rightarrow> u32 \<Rightarrow> 'w pi_sock \<Rightarrow> pi_file \<Rightarrow> pi_progress \<Rightarrow> pi_buffer \<Rightarrow> 'w receiving option" where
  "receive_loop step xe db n j sk pf pg buf =
     (if ucast j < n then do {
        (sk, pf, pg, buf, fail) \<leftarrow> step xe db j sk pf pg buf;
        if fail \<noteq> None then Some (sk, pf, pg, buf, fail)
        else receive_loop step xe db n (j + 1) sk pf pg buf }
      else Some (sk, pf, pg, buf, None))"

text \<open>The AppInfo block is read unless the database is in ROM and reports none; a failure is
  ignored. An abort here is not recorded in the socket.\<close>

definition receive_app_info ::
  "'w xfer_env \<Rightarrow> int \<Rightarrow> bool \<Rightarrow> 'w pi_sock \<Rightarrow> pi_file \<Rightarrow> pi_progress \<Rightarrow> pi_buffer \<Rightarrow> 'w receiving option" where
  "receive_app_info xe db wanted sk pf pg buf =
     (if \<not> wanted then Some (sk, pf, pg, buf, None)
      else do {
        (sk, b, result) \<leftarrow> dlp_ReadAppBlock (xe_heap xe) (xe_tr xe) db 0 (int DLP_BUF_SIZE) (Some buf) sk;
        buf \<leftarrow> b;
        if result \<le> 0 then Some (sk, pf, pg, buf, None)
        else do {
          (pf, _) \<leftarrow> pi_file_set_app_info (xe_heap xe) pf (buffer_data buf) (nat result);
          n \<leftarrow> add_int (pg_bytes pg) result;
          let pg = pg\<lparr>pg_bytes := n\<rparr>;
          let (sk, stop) = stopped xe pf pg sk;
          Some (sk, pf, pg, buf, if stop then Some PI_ERR_FILE_ABORTED else None) } })"

text \<open>The label \<open>fail\<close>: the database is closed, and the error codes are those of before.\<close>

definition close_quietly :: "'w xfer_env \<Rightarrow> int \<Rightarrow> 'w pi_sock \<Rightarrow> 'w pi_sock option" where
  "close_quietly xe db sk =
     (if db \<noteq> -1 \<and> xe_connected xe sk then do {
        (sk', _) \<leftarrow> dlp_CloseDB (xe_heap xe) (xe_tr xe) db sk;
        Some (sk'\<lparr>sk_last_error := sk_last_error sk, sk_palmos_error := sk_palmos_error sk\<rparr>) }
      else Some sk)"

definition file_error :: "int \<Rightarrow> 'w pi_sock \<Rightarrow> 'w pi_sock \<times> int" where
  "file_error result sk = (if 0 \<le> result then pi_set_error sk PI_ERR_FILE_ERROR else (sk, result))"

definition retrieve_fail ::
  "'w xfer_env \<Rightarrow> int \<Rightarrow> int \<Rightarrow> pi_file \<Rightarrow> 'w pi_sock \<Rightarrow> ('w pi_sock \<times> pi_file \<times> int) option" where
  "retrieve_fail xe db result pf sk = do {
     sk \<leftarrow> close_quietly xe db sk;
     let (sk, result) = file_error result sk;
     Some (sk, pf, result) }"

definition find_by_name_want :: find_want where
  "find_by_name_want = \<lparr>fw_cardno = False, fw_localid = False, fw_dbhandle = False,
     fw_info = Some zero_DBInfo, fw_size = Some zero_DBSizeInfo\<rparr>"

definition pi_file_retrieve ::
  "'w xfer_env \<Rightarrow> pi_file \<Rightarrow> int \<Rightarrow> 'w pi_sock \<Rightarrow> ('w pi_sock \<times> pi_file \<times> int) option" where
  "pi_file_retrieve xe pf cardno sk = do {
     let env = xe_heap xe;
     let tr = xe_tr xe;
     name \<leftarrow> get_cstr (di_name (pf_info pf)) 0;
     (sk, out, result) \<leftarrow> dlp_FindDBByName env tr (xe_tz xe) cardno name find_by_name_want (pi_reset_errors sk);
     let dbi = the_or (fo_info out) zero_DBInfo;
     let size_info = the_or (fo_size out) zero_DBSizeInfo;
     let old_device = (result < 0);
     if result < 0 \<and> result \<noteq> PI_ERR_DLP_UNSUPPORTED then retrieve_fail xe (-1) result pf sk
     else do {
       (sk, h, result) \<leftarrow> dlp_OpenDB env tr cardno (uint (dlpOpenRead OR dlpOpenSecret)) name sk;
       let db = the_or h (-1);
       if result < 0 then retrieve_fail xe db result pf sk
       else case pi_buffer_new env DLP_BUF_SIZE of
         None \<Rightarrow> (let (sk, result) = pi_set_error sk PI_ERR_GENERIC_MEMORY in retrieve_fail xe db result pf sk)
       | Some buf \<Rightarrow> do {
           (sk, count, result) \<leftarrow>
             (if old_device then do {
                (sk, n, result) \<leftarrow> dlp_ReadOpenDBInfo env tr db sk;
                Some (sk, word_of_int (the_or n (xe_junk_int xe)), result) }
              else Some (sk, ds_numRecords size_info, 0));
           if result < 0 then retrieve_fail xe db result pf sk
           else do {
             let size_info = size_info\<lparr>ds_numRecords := count\<rparr>;
             let pg = \<lparr>pg_type = PI_PROGRESS_RECEIVE_DB, pg_bytes = 0, pg_size = size_info, pg_records = 0\<rparr>;
             let wanted = (ds_appBlockSize size_info \<noteq> 0 \<or> di_miscFlags dbi AND dlpDBMiscFlagRamBased \<noteq> 0 \<or> old_device);
             (sk, pf, pg, buf, fail) \<leftarrow> receive_app_info xe db wanted sk pf pg buf;
             if fail \<noteq> None then retrieve_fail xe db (the fail) pf sk
             else do {
               (sk, pf, pg, buf, fail) \<leftarrow>
                 receive_loop (if is_resource_db (pf_info pf) then receive_resource else receive_record)
                   xe db count 0 sk pf pg buf;
               case fail of
                 Some result \<Rightarrow> retrieve_fail xe db result pf sk
               | None \<Rightarrow> do { (sk, result) \<leftarrow> dlp_CloseDB env tr db sk; Some (sk, pf, result) } } } } } }"

section \<open>Installing\<close>

definition mktag :: "u8 \<Rightarrow> u8 \<Rightarrow> u8 \<Rightarrow> u8 \<Rightarrow> u64" where
  "mktag a b c d = push_bit 24 (ucast a) OR push_bit 16 (ucast b) OR push_bit 8 (ucast c) OR ucast d"

definition tag_graf :: u64 where "tag_graf = mktag 0x67 0x72 0x61 0x66"
definition tag_ptch :: u64 where "tag_ptch = mktag 0x70 0x74 0x63 0x68"
definition tag_boot :: u64 where "tag_boot = mktag 0x62 0x6f 0x6f 0x74"

definition graffiti_shortcuts :: bytes where
  "graffiti_shortcuts = [0x47, 0x72, 0x61, 0x66, 0x66, 0x69, 0x74, 0x69, 0x20,
     0x53, 0x68, 0x6f, 0x72, 0x74, 0x43, 0x75, 0x74, 0x73]"

definition graffiti_shortcuts_blank :: bytes where
  "graffiti_shortcuts_blank = graffiti_shortcuts @ [0x20]"

definition memo_db :: bytes where "memo_db = [0x4d, 0x65, 0x6d, 0x6f, 0x44, 0x42]"

text \<open>The read of an entry that the file's kind calls for.\<close>

definition read_entry_of :: "heap_env \<Rightarrow> pi_file \<Rightarrow> int \<Rightarrow> bool \<Rightarrow> (pi_file \<times> int \<times> read_out option) option" where
  "read_entry_of env pf j want_buf =
     (if is_resource_db (pf_info pf) then pi_file_read_resource env pf j want_buf
      else pi_file_read_record env pf j want_buf)"

text \<open>The check of the sizes before the transfer: the total of the sizes, and the result with which it
  goes to \<open>fail\<close>. An entry that is too large leaves the result of the read, which is 0, unless the
  call is a merge, which sets the error code.\<close>

primrec check_sizes ::
  "'w xfer_env \<Rightarrow> bool \<Rightarrow> int \<Rightarrow> nat \<Rightarrow> int \<Rightarrow> pi_file \<Rightarrow> u64 \<Rightarrow> 'w pi_sock \<Rightarrow>
   ('w pi_sock \<times> pi_file \<times> u64 \<times> int option) option" where
  "check_sizes xe merge version 0 j pf dsum sk = Some (sk, pf, dsum, None)"
| "check_sizes xe merge version (Suc n) j pf dsum sk = do {
     (pf, result, out) \<leftarrow> read_entry_of (xe_heap xe) pf j False;
     if result < 0 then Some (sk, pf, dsum, Some result)
     else do {
       out \<leftarrow> out;
       if 65536 < ro_size out \<and> version < 0x0104
       then (if merge then let (sk, result) = pi_set_error sk PI_ERR_DLP_DATASIZE in Some (sk, pf, dsum, Some result)
             else Some (sk, pf, dsum, Some result))
       else check_sizes xe merge version n (j + 1) pf (dsum + of_nat (ro_size out)) sk } }"

text \<open>The loops of the transfer. The state, whether a reset is called for, and the result with which
  they go to \<open>fail\<close>.\<close>

type_synonym 'w transfer_state = "'w pi_sock \<times> pi_file \<times> pi_progress \<times> bool \<times> int option"

definition send_resource ::
  "'w xfer_env \<Rightarrow> int \<Rightarrow> int \<Rightarrow> 'w pi_sock \<Rightarrow> pi_file \<Rightarrow> pi_progress \<Rightarrow> bool \<Rightarrow> 'w transfer_state option" where
  "send_resource xe db j sk pf pg reset = do {
     (pf, result, out) \<leftarrow> pi_file_read_resource (xe_heap xe) pf j True;
     if result < 0 then Some (sk, pf, pg, reset, Some result)
     else do {
       out \<leftarrow> out;
       if ro_size out = 0 then Some (sk, pf, pg, reset, None)
       else do {
         buf \<leftarrow> ro_buf out;
         (sk, result) \<leftarrow> dlp_WriteResource (xe_heap xe) (xe_tr xe) db (ro_type out) (ro_id out) buf (ro_size out) sk;
         if result < 0 then Some (sk, pf, pg, reset, Some result)
         else do {
           pg \<leftarrow> count_record (ro_size out) pg;
           let (sk, stop) = stopped xe pf pg sk;
           if stop then Some (fst (pi_set_error sk PI_ERR_FILE_ABORTED), pf, pg, reset, Some PI_ERR_FILE_ABORTED)
           else Some (sk, pf, pg, reset \<or> ro_type out = tag_boot, None) } } } }"

text \<open>A merge gives every record a new identifier, and does not record an abort in the socket.\<close>

definition send_record ::
  "'w xfer_env \<Rightarrow> bool \<Rightarrow> int \<Rightarrow> int \<Rightarrow> int \<Rightarrow> 'w pi_sock \<Rightarrow> pi_file \<Rightarrow> pi_progress \<Rightarrow> bool \<Rightarrow> 'w transfer_state option" where
  "send_record xe merge version db j sk pf pg reset = do {
     (pf, result, out) \<leftarrow> pi_file_read_record (xe_heap xe) pf j True;
     if result < 0 then Some (sk, pf, pg, reset, Some result)
     else do {
       out \<leftarrow> out;
       if ro_attrs out AND uint (dlpRecAttrArchived OR dlpRecAttrDeleted) \<noteq> 0 \<and> version < 0x0101
       then Some (sk, pf, pg, reset, None)
       else do {
         let src = the_or (ro_buf out) [];
         (sk, i, result) \<leftarrow> dlp_WriteRecord (xe_heap xe) (xe_tr xe) db (ro_attrs out) (if merge then 0 else ro_uid out)
            (ro_category out) src (ro_size out) sk;
         if result < 0 then Some (sk, pf, pg, reset, Some result)
         else do {
           pg \<leftarrow> count_record (ro_size out) pg;
           let (sk, stop) = stopped xe pf pg sk;
           if stop then Some (if merge then sk else fst (pi_set_error sk PI_ERR_FILE_ABORTED), pf, pg, reset,
                              Some PI_ERR_FILE_ABORTED)
           else Some (sk, pf, pg, reset, None) } } } }"

primrec send_entries ::
  "'w xfer_env \<Rightarrow> bool \<Rightarrow> int \<Rightarrow> int \<Rightarrow> nat \<Rightarrow> int \<Rightarrow> 'w pi_sock \<Rightarrow> pi_file \<Rightarrow> pi_progress \<Rightarrow> bool \<Rightarrow> 'w transfer_state option" where
  "send_entries xe merge version db 0 j sk pf pg reset = Some (sk, pf, pg, reset, None)"
| "send_entries xe merge version db (Suc n) j sk pf pg reset = do {
     (sk, pf, pg, reset, fail) \<leftarrow>
       (if is_resource_db (pf_info pf) then send_resource xe db j sk pf pg reset
        else send_record xe merge version db j sk pf pg reset);
     if fail \<noteq> None then Some (sk, pf, pg, reset, fail)
     else send_entries xe merge version db n (j + 1) sk pf pg reset }"

text \<open>What follows the loops: the reset that the file asks for, and the end of the transfer.\<close>

definition finish_sending ::
  "'w xfer_env \<Rightarrow> int \<Rightarrow> bool \<Rightarrow> 'w pi_sock \<Rightarrow> pi_file \<Rightarrow> ('w pi_sock \<times> pi_file \<times> int) option" where
  "finish_sending xe db reset sk pf = do {
     sk \<leftarrow> (if reset then map_option fst (dlp_ResetSystem (xe_heap xe) (xe_tr xe) sk) else Some sk);
     (sk, result) \<leftarrow> dlp_CloseDB (xe_heap xe) (xe_tr xe) db sk;
     Some (sk, pf, result) }"

text \<open>The progress at the start: the number of entries and, as the count of bytes, the AppInfo block.\<close>

definition sending_size :: "pi_file \<Rightarrow> u64 \<Rightarrow> DBSizeInfo" where
  "sending_size pf maxrec =
     zero_DBSizeInfo\<lparr>ds_numRecords := word_of_int (num_entries pf), ds_dataBytes := word_of_int (app_info_size pf),
       ds_appBlockSize := word_of_int (app_info_size pf), ds_maxRecSize := maxrec\<rparr>"

definition with_total :: "pi_file \<Rightarrow> u64 \<Rightarrow> DBSizeInfo \<Rightarrow> DBSizeInfo" where
  "with_total pf dsum ds =
     ds\<lparr>ds_dataBytes := dsum,
        ds_totalBytes := dsum + of_nat (ent_hdr_size pf) * word_of_int (num_entries pf) + of_nat PI_HDR_SIZE + 2\<rparr>"

text \<open>The label \<open>fail\<close> of \<open>pi_file_install\<close>: the database is closed when it is open, and deleted.\<close>

definition install_fail ::
  "'w xfer_env \<Rightarrow> int \<Rightarrow> int \<Rightarrow> int \<Rightarrow> pi_file \<Rightarrow> 'w pi_sock \<Rightarrow> ('w pi_sock \<times> pi_file \<times> int) option" where
  "install_fail xe cardno db result pf sk = do {
     let err1 = sk_last_error sk;
     let err2 = sk_palmos_error sk;
     sk \<leftarrow> (if db \<noteq> -1 \<and> xe_connected xe sk then map_option fst (dlp_CloseDB (xe_heap xe) (xe_tr xe) db sk) else Some sk);
     sk \<leftarrow> (if xe_connected xe sk then do {
              name \<leftarrow> get_cstr (di_name (pf_info pf)) 0;
              map_option fst (dlp_DeleteDB (xe_heap xe) (xe_tr xe) cardno name sk) }
            else Some sk);
     let (sk, result) = file_error result (sk\<lparr>sk_last_error := err1, sk_palmos_error := err2\<rparr>);
     Some (sk, pf, result) }"

text \<open>The Graffiti shortcuts: the name with which the creation is tried again.\<close>

definition retry_name :: "u64 \<Rightarrow> bytes \<Rightarrow> bytes option" where
  "retry_name creator name =
     (if name = graffiti_shortcuts_blank then Some graffiti_shortcuts
      else if name = graffiti_shortcuts then Some graffiti_shortcuts_blank
      else if creator = tag_graf then Some graffiti_shortcuts
      else None)"

definition create_for_install ::
  "'w xfer_env \<Rightarrow> pi_file \<Rightarrow> int \<Rightarrow> u32 \<Rightarrow> bytes \<Rightarrow> 'w pi_sock \<Rightarrow> ('w pi_sock \<times> pi_file \<times> int option \<times> int) option" where
  "create_for_install xe pf cardno flags name sk =
     (let ip = pf_info pf;
          create = (\<lambda>name. dlp_CreateDB (xe_heap xe) (xe_tr xe) (di_creator ip) (di_type ip) cardno flags (di_version ip) name)
      in do {
        (sk, db, result) \<leftarrow> create name sk;
        if 0 \<le> result then Some (sk, pf, db, result)
        else case retry_name (di_creator ip) name of
          None \<Rightarrow> Some (sk, pf, db, result)
        | Some new \<Rightarrow> do {
            field \<leftarrow> poke (di_name ip) 0 (c_string new);
            (sk, db, result) \<leftarrow> create new sk;
            Some (sk, pf\<lparr>pf_info := ip\<lparr>di_name := field\<rparr>\<rparr>, db, result) } })"

text \<open>The AppInfo block to send; a short one of the Memo Pad is lengthened to 282 bytes, in memory whose
  allocation is not tested.\<close>

definition app_info_to_send :: "heap_env \<Rightarrow> int \<Rightarrow> bytes \<Rightarrow> pi_file \<Rightarrow> (bytes \<times> nat) option" where
  "app_info_to_send env version name pf =
     (let (p, n) = pi_file_get_app_info pf; l = unat n in
      if l = 0 then Some ([], 0)
      else do {
        bs \<leftarrow> ptr_block p;
        if version > 0x0100 \<and> name = memo_db \<and> l < 282
        then if malloc_ok env 282 then do {
               bs \<leftarrow> get_block l bs 0;
               b2 \<leftarrow> poke (replicate 282 0) 0 bs;
               Some (b2, 282) }
             else None
        else Some (bs, l) })"

definition send_app_info ::
  "'w xfer_env \<Rightarrow> int \<Rightarrow> bytes \<Rightarrow> nat \<Rightarrow> 'w pi_sock \<Rightarrow> pi_file \<Rightarrow> pi_progress \<Rightarrow>
   ('w pi_sock \<times> pi_progress \<times> int option) option" where
  "send_app_info xe db block l sk pf pg =
     (if l = 0 then Some (sk, pg, None)
      else do {
        (sk, result) \<leftarrow> dlp_WriteAppBlock (xe_heap xe) (xe_tr xe) db block l sk;
        if result < 0 then Some (sk, pg, Some result)
        else do {
          let pg = pg\<lparr>pg_bytes := to_int (int l)\<rparr>;
          let (sk, stop) = stopped xe pf pg sk;
          if stop then Some (fst (pi_set_error sk PI_ERR_FILE_ABORTED), pg, Some PI_ERR_FILE_ABORTED)
          else Some (sk, pg, None) } })"

text \<open>From the creation of the database on; \<open>blank\<close> says that the file had the name of the Graffiti
  shortcuts.\<close>

definition install_contents ::
  "'w xfer_env \<Rightarrow> int \<Rightarrow> int \<Rightarrow> DBSizeInfo \<Rightarrow> bool \<Rightarrow> int \<Rightarrow> 'w pi_sock \<Rightarrow> pi_file \<Rightarrow>
   ('w pi_sock \<times> pi_file \<times> int) option" where
  "install_contents xe cardno version ds blank db sk pf = do {
     name \<leftarrow> get_cstr (di_name (pf_info pf)) 0;
     (block, l) \<leftarrow> app_info_to_send (xe_heap xe) version name pf;
     let ds = (if unat (word_of_int (app_info_size pf) :: u64) \<noteq> l then ds\<lparr>ds_appBlockSize := 282\<rparr> else ds);
     let reset = (blank \<or> di_creator (pf_info pf) = tag_ptch \<or> di_flags (pf_info pf) AND dlpDBFlagReset \<noteq> 0);
     let pg = \<lparr>pg_type = PI_PROGRESS_SEND_DB, pg_bytes = 0, pg_size = ds, pg_records = 0\<rparr>;
     (sk, pg, fail) \<leftarrow> send_app_info xe db block l sk pf pg;
     case fail of
       Some result \<Rightarrow> install_fail xe cardno db result pf sk
     | None \<Rightarrow> do {
         (sk, pf, pg, reset, fail) \<leftarrow> send_entries xe False version db (length (entries pf)) 0 sk pf pg reset;
         case fail of
           Some result \<Rightarrow> install_fail xe cardno db result pf sk
         | None \<Rightarrow> finish_sending xe db reset sk pf } }"

text \<open>The flags for the device: those of the Graffiti shortcuts, which are in use when they are
  installed, are extended.\<close>

definition install_flags :: "DBInfo \<Rightarrow> bytes \<Rightarrow> u32" where
  "install_flags ip name =
     (let f = (if di_creator ip = tag_graf then di_flags ip OR dlpDBFlagNewer OR dlpDBFlagReset else di_flags ip)
      in if name = graffiti_shortcuts_blank then f OR 0x8000 else f)"

definition pi_file_install ::
  "'w xfer_env \<Rightarrow> pi_file \<Rightarrow> int \<Rightarrow> 'w pi_sock \<Rightarrow> ('w pi_sock \<times> pi_file \<times> int) option" where
  "pi_file_install xe pf cardno sk = do {
     let (version, sk) = pi_version (xe_tr xe) sk;
     let (maxrec, sk) = pi_maxrecsize (xe_tr xe) sk;
     (sk, pf, dsum, fail) \<leftarrow>
       check_sizes xe False version (length (entries pf)) 0 pf (word_of_int (app_info_size pf)) sk;
     case fail of
       Some result \<Rightarrow> install_fail xe cardno (-1) result pf sk
     | None \<Rightarrow> do {
         name \<leftarrow> get_cstr (di_name (pf_info pf)) 0;
         (sk, _) \<leftarrow> dlp_DeleteDB (xe_heap xe) (xe_tr xe) cardno name sk;
         (sk, pf, h, result) \<leftarrow> create_for_install xe pf cardno (install_flags (pf_info pf) name) name sk;
         if result < 0 then Some (sk, pf, result)
         else install_contents xe cardno version (with_total pf dsum (sending_size pf maxrec))
                (name = graffiti_shortcuts_blank) (the_or h (-1)) sk pf } }"

section \<open>Merging\<close>

definition merge_fail ::
  "'w xfer_env \<Rightarrow> int \<Rightarrow> int \<Rightarrow> pi_file \<Rightarrow> 'w pi_sock \<Rightarrow> ('w pi_sock \<times> pi_file \<times> int) option" where
  "merge_fail = retrieve_fail"

definition pi_file_merge ::
  "'w xfer_env \<Rightarrow> pi_file \<Rightarrow> int \<Rightarrow> 'w pi_sock \<Rightarrow> ('w pi_sock \<times> pi_file \<times> int) option" where
  "pi_file_merge xe pf cardno sk = do {
     let env = xe_heap xe;
     let tr = xe_tr xe;
     let n = length (entries pf);
     let (version, sk) = pi_version tr sk;
     let (maxrec, sk) = pi_maxrecsize tr sk;
     name \<leftarrow> get_cstr (di_name (pf_info pf)) 0;
     (sk, h, result) \<leftarrow> dlp_OpenDB env tr cardno (uint (dlpOpenReadWrite OR dlpOpenSecret)) name sk;
     if result < 0 then pi_file_install xe pf cardno sk
     else do {
       let db = the_or h (-1);
       (sk, pf, dsum, fail) \<leftarrow> check_sizes xe True version n 0 pf (word_of_int (app_info_size pf)) sk;
       case fail of
         Some result \<Rightarrow> merge_fail xe db result pf sk
       | None \<Rightarrow> do {
           let ds = with_total pf dsum (sending_size pf maxrec);
           let reset = (di_creator (pf_info pf) = tag_ptch \<or> di_flags (pf_info pf) AND dlpDBFlagReset \<noteq> 0);
           let pg = \<lparr>pg_type = PI_PROGRESS_SEND_DB, pg_bytes = 0, pg_size = ds, pg_records = 0\<rparr>;
           (sk, pf, pg, reset, fail) \<leftarrow> send_entries xe True version db n 0 sk pf pg reset;
           case fail of
             Some result \<Rightarrow> merge_fail xe db result pf sk
           | None \<Rightarrow> finish_sending xe db reset sk pf } } }"

end
