(* ===== verification/XferLink.thy ===== *)
theory XferLink
  imports PiFileXfer PiFileProps DlpRecProps
begin

text \<open>
  What a transfer says to the device. A conversation is the list of the requests that the device
  got and of its answers; the requests of a transfer are a function of the file and of the handle
  under which the device opened the database.
\<close>

section \<open>Conversations\<close>

type_synonym exchange = "dlpRequest \<times> dlpResponse"

inductive conversation :: "('d \<Rightarrow> bytes \<Rightarrow> 'd \<times> bytes) \<Rightarrow> 'd \<Rightarrow> exchange list \<Rightarrow> 'd \<Rightarrow> bool"
  for dev where
  conv_done: "conversation dev d [] d"
| conv_step: "dev d (request_bytes rq) = (d1, response_bytes rs) \<Longrightarrow> conversation dev d1 xs d' \<Longrightarrow>
    conversation dev d ((rq, rs) # xs) d'"

inductive_simps conversation_Nil [simp]: "conversation dev d [] d'"
inductive_simps conversation_Cons: "conversation dev d (x # xs) d'"

lemma conversation_append:
  "conversation dev d (xs @ ys) d' \<longleftrightarrow> (\<exists>d1. conversation dev d xs d1 \<and> conversation dev d1 ys d')"
  by (induction xs arbitrary: d) (auto simp: conversation_Cons)

text \<open>An answer that the protocol can carry, on a link of limited size and counted in an \<open>int\<close>, and one
  without an error.\<close>

definition carried :: "nat \<Rightarrow> int \<Rightarrow> exchange \<Rightarrow> bool" where
  "carried limit v x \<longleftrightarrow> (case x of (rq, rs) \<Rightarrow>
     cmd_accepted (rq_cmd rq) (rs_cmd rs) \<and> response_fits rs \<and> (list_all arg_short (rs_argv rs) \<or> 0x0104 \<le> v) \<and>
     length (request_bytes rq) \<le> min limit 0x7fffffff \<and> length (response_bytes rs) \<le> min limit 0x7fffffff)"

definition agreed :: "nat \<Rightarrow> int \<Rightarrow> exchange \<Rightarrow> bool" where
  "agreed limit v x \<longleftrightarrow> carried limit v x \<and> rs_err (snd x) = 0"

definition rq1 :: "u8 \<Rightarrow> int \<Rightarrow> bytes \<Rightarrow> dlpRequest" where
  "rq1 cmd argid bs = \<lparr>rq_cmd = cmd, rq_argv = [\<lparr>arg_id = argid, arg_data = bs\<rparr>]\<rparr>"

text \<open>The socket between two calls: without an error, the device behind it in some state.\<close>

definition clean :: "'w pi_sock \<Rightarrow> 'w \<Rightarrow> 'w pi_sock" where
  "clean sk w = sk\<lparr>sk_world := w, sk_last_error := 0, sk_palmos_error := 0\<rparr>"

lemma clean_simps [simp]:
  "clean (clean sk w) w' = clean sk w'" "sk_world (clean sk w) = w"
  "sk_dlpversion (clean sk w) = sk_dlpversion sk" "sk_maxrecsize (clean sk w) = sk_maxrecsize sk"
  "sk_last_error (clean sk w) = 0" "sk_palmos_error (clean sk w) = 0"
  "pi_reset_errors (clean sk w) = clean sk w"
  "(pi_reset_errors sk)\<lparr>sk_world := w, sk_palmos_error := 0\<rparr> = clean sk w"
  "(clean sk w)\<lparr>sk_world := w', sk_palmos_error := 0\<rparr> = clean sk w'"
  "sk_world (pi_reset_errors sk) = sk_world sk" "sk_dlpversion (pi_reset_errors sk) = sk_dlpversion sk"
  by (simp_all add: clean_def pi_reset_errors_def)

context device_link begin

lemma call_exchange:
  assumes env: "all_alloc env" and rdy: "ready (sk_world sk) d0"
    and dev: "dev d0 (request_bytes (rq1 cmd argid bs)) = (d, response_bytes rs)"
    and ok: "carried limit (sk_dlpversion sk) (rq1 cmd argid bs, rs)"
  shows "\<exists>w. ready w d \<and> dlp_call env tr cmd argid [bs] sk =
    (if rs_err rs \<noteq> 0
     then Some (sk\<lparr>sk_world := w, sk_palmos_error := rs_err rs, sk_last_error := PI_ERR_DLP_PALMOS\<rparr>, Some rs, PI_ERR_DLP_PALMOS)
     else Some (sk\<lparr>sk_world := w, sk_palmos_error := 0\<rparr>, Some rs, first_len (rs_argv rs)))"
proof -
  have req: "dlp_request_new_with_argid env cmd argid [bs] = Some (rq1 cmd argid bs)"
    using env by (simp add: dlp_request_new_with_argid_def dlp_arg_new_def rq1_def)
  show ?thesis
    unfolding dlp_call_def req option.case
    using exec[OF env _ _ rdy dev] ok by (auto simp: carried_def version_carries_def Let_def rq1_def)
qed

lemma call_agreed:
  assumes "all_alloc env" "ready (sk_world sk) d0"
    "dev d0 (request_bytes (rq1 cmd argid bs)) = (d, response_bytes rs)"
    "agreed limit (sk_dlpversion sk) (rq1 cmd argid bs, rs)"
  shows "\<exists>w. ready w d \<and> dlp_call env tr cmd argid [bs] sk =
    Some (sk\<lparr>sk_world := w, sk_palmos_error := 0\<rparr>, Some rs, first_len (rs_argv rs))"
  using call_exchange[OF assms(1-3)] assms(4) by (simp add: agreed_def)

lemma simple_agreed:
  assumes "all_alloc env" "ready (sk_world sk) d0"
    "dev d0 (request_bytes (rq1 cmd argid bs)) = (d, response_bytes rs)"
    "agreed limit (sk_dlpversion sk) (rq1 cmd argid bs, rs)"
  shows "\<exists>w. ready w d \<and> dlp_simple env tr cmd argid [bs] (pi_reset_errors sk) = Some (clean sk w, first_len (rs_argv rs))"
  using call_agreed[of env "pi_reset_errors sk", OF assms(1) _ assms(3)] assms(2,4) by (auto simp: dlp_simple_def)

end

lemma first_len_nonneg: "0 \<le> first_len argv"
  by (simp add: first_len_def split: list.split)

section \<open>The requests of a transfer\<close>

definition delete_request :: "int \<Rightarrow> bytes \<Rightarrow> dlpRequest" where
  "delete_request cardno name = rq1 0x1a 0x20 (set_byte (word_of_int cardno) @ set_byte 0 @ c_string name)"

definition create_request :: "int \<Rightarrow> DBInfo \<Rightarrow> u32 \<Rightarrow> bytes \<Rightarrow> dlpRequest" where
  "create_request cardno ip flags name = rq1 0x18 0x20
     (set_long (ucast (di_creator ip)) @ set_long (ucast (di_type ip)) @ set_byte (word_of_int cardno) @ set_byte 0 @
      set_short (ucast flags) @ set_short (ucast (di_version ip)) @ c_string name)"

definition open_request :: "int \<Rightarrow> u32 \<Rightarrow> bytes \<Rightarrow> dlpRequest" where
  "open_request cardno mode name =
     rq1 0x17 0x20 (set_byte (word_of_int cardno) @ set_byte (word_of_int (uint mode)) @ c_string name)"

definition close_request :: "u8 \<Rightarrow> dlpRequest" where
  "close_request h = rq1 0x19 0x20 (set_byte h)"

definition reset_request :: dlpRequest where
  "reset_request = \<lparr>rq_cmd = 0x29, rq_argv = []\<rparr>"

definition app_request :: "u8 \<Rightarrow> bytes \<Rightarrow> dlpRequest" where
  "app_request h bs = rq1 0x1c 0x20 (set_byte h @ set_byte 0 @ set_short (of_nat (length bs)) @ bs)"

definition record_request :: "int \<Rightarrow> u8 \<Rightarrow> int \<Rightarrow> u64 \<Rightarrow> int \<Rightarrow> bytes \<Rightarrow> dlpRequest" where
  "record_request v h attrs uid cat bs =
     (let hd = set_byte h @ set_byte 0x80 @ set_long (ucast uid) @ set_byte (word_of_int attrs) @ set_byte (word_of_int cat)
      in if 0x0104 \<le> v then rq1 0x5e 0x20 (hd @ set_long 0 @ bs) else rq1 0x21 0x20 (hd @ bs))"

definition resource_request :: "int \<Rightarrow> u8 \<Rightarrow> u64 \<Rightarrow> int \<Rightarrow> bytes \<Rightarrow> dlpRequest" where
  "resource_request v h ty rid bs =
     (let hd = set_byte h @ set_byte 0 @ set_long (ucast ty) @ set_short (word_of_int rid)
      in if 0x0104 \<le> v then rq1 0x5f 0x60 (hd @ set_long 0 @ bs)
         else rq1 0x24 0x20 (hd @ set_short (of_nat (length bs)) @ bs))"

text \<open>A record that carries the mark of deletion is sent to devices from version 1.1 only; an empty
  resource is not sent; a merge gives the record no identifier.\<close>

definition entry_requests :: "bool \<Rightarrow> int \<Rightarrow> u8 \<Rightarrow> bool \<Rightarrow> pi_file_entry \<Rightarrow> bytes \<Rightarrow> dlpRequest list" where
  "entry_requests merge v h resource e bs =
     (if resource then (if bs = [] then [] else [resource_request v h (pe_type e) (pe_resource_id e) bs])
      else if pe_attrs e AND 0x80 \<noteq> 0 \<and> v < 0x0101 then []
      else [record_request v h (pe_attrs e AND 0xf0) (if merge then 0 else pe_uid e) (pe_attrs e AND 0xf) bs])"

definition all_requests :: "bool \<Rightarrow> int \<Rightarrow> u8 \<Rightarrow> bool \<Rightarrow> (pi_file_entry \<times> bytes) list \<Rightarrow> dlpRequest list" where
  "all_requests merge v h resource es = concat (map (\<lambda>(e, bs). entry_requests merge v h resource e bs) es)"

definition boots :: "bool \<Rightarrow> (pi_file_entry \<times> bytes) list \<Rightarrow> bool" where
  "boots resource es \<longleftrightarrow> resource \<and> (\<exists>(e, bs) \<in> set es. bs \<noteq> [] \<and> pe_type e = tag_boot)"

section \<open>Sending the entries\<close>

definition silent :: "'w xfer_env \<Rightarrow> bool" where
  "silent xe \<longleftrightarrow> (\<forall>pf pg sk. stopped xe pf pg sk = (sk, False))"

lemma attr_bits:
  "(a AND 0xf0) AND uint (dlpRecAttrArchived OR dlpRecAttrDeleted) = (a :: int) AND 0x80"
proof -
  have "uint (dlpRecAttrArchived OR dlpRecAttrDeleted) = 0x88"
    by (simp add: dlpRecAttrArchived_def dlpRecAttrDeleted_def)
  then show ?thesis by (simp add: and.assoc)
qed

text \<open>The device answers the writing of a record with its identifier, or with nothing.\<close>

definition gives_id :: "exchange \<Rightarrow> bool" where
  "gives_id x \<longleftrightarrow> rq_cmd (fst x) \<noteq> 0x21 \<and> rq_cmd (fst x) \<noteq> 0x5e \<or> first_len (rs_argv (snd x)) = 0 \<or> 4 \<le> first_len (rs_argv (snd x))"

lemma resp_first: "first_len (rs_argv rs) > 0 \<Longrightarrow> \<exists>bs. resp_data (Some rs) 0 = Some bs \<and> int (length bs) = first_len (rs_argv rs)"
  by (cases "rs_argv rs") (auto simp: first_len_def resp_data_def)

lemma get_long_some: "4 \<le> length bs \<Longrightarrow> \<exists>v. get_long bs 0 = Some v"
  by (cases "get_long bs 0") (auto simp: get_long_def get_short_def get_byte_def bind_eq_None_conv split: if_splits)

context device_link begin

lemma write_record_agreed:
  assumes env: "all_alloc env" and rdy: "ready (sk_world sk) d0" and v: "sk_dlpversion sk = v" "v \<noteq> 0"
    and bs: "get_block n src 0 = Some bs" "n \<le> 0xfff0"
    and dev: "dev d0 (request_bytes (record_request v h attrs uid cat bs)) = (d, response_bytes rs)"
    and ok: "agreed limit v (record_request v h attrs uid cat bs, rs)" and i: "gives_id (record_request v h attrs uid cat bs, rs)"
  shows "\<exists>w i. ready w d \<and> dlp_WriteRecord env tr (uint h) attrs uid cat src n sk = Some (clean sk w, i, first_len (rs_argv rs))"
proof -
  let ?hd = "set_byte h @ set_byte 0x80 @ set_long (ucast uid) @ set_byte (word_of_int attrs) @ set_byte (word_of_int cat)"
  define call where "call = (if 0x0104 \<le> v then dlp_call env tr 0x5e FIRST_ID [?hd @ set_long 0 @ bs] (pi_reset_errors sk)
             else dlp_call env tr 0x21 FIRST_ID [?hd @ bs] (pi_reset_errors sk))"
  have "\<exists>w. ready w d \<and> call = Some (clean sk w, Some rs, first_len (rs_argv rs))"
    using call_agreed[of env "pi_reset_errors sk" d0 "0x5e" "0x20" "?hd @ set_long 0 @ bs" d rs]
      call_agreed[of env "pi_reset_errors sk" d0 "0x21" "0x20" "?hd @ bs" d rs] env rdy v dev ok
    unfolding call_def record_request_def Let_def
    by (cases "0x0104 \<le> v") (simp_all add: PI_DLP_ARG_FIRST_ID_def)
  then obtain w where w: "ready w d" "call = Some (clean sk w, Some rs, first_len (rs_argv rs))" by blast
  have n: "n \<noteq> 2 ^ 64 - 1" "\<not> DLP_BUF_SIZE < n + 8" using bs(2) by (simp_all add: DLP_BUF_SIZE_def)
  have wr: "dlp_WriteRecord env tr (uint h) attrs uid cat src n sk = do {
      (sk, res, result) \<leftarrow> call;
      if result > 0 then do { d \<leftarrow> resp_data res 0; i \<leftarrow> get_long d 0; Some (sk, Some (ucast i), result) }
      else Some (sk, None, result) }"
    using n bs(1) v unfolding dlp_WriteRecord_def call_def Let_def
    by (simp add: pi_version_known)
  show ?thesis
  proof (cases "0 < first_len (rs_argv rs)")
    case True
    then obtain b where b: "resp_data (Some rs) 0 = Some b" "int (length b) = first_len (rs_argv rs)"
      using resp_first by blast
    then obtain x where "get_long b 0 = Some x" using get_long_some[of b] i True by (auto simp: gives_id_def record_request_def rq1_def Let_def split: if_splits)
    then show ?thesis using w b True by (auto simp: wr)
  qed (use w in \<open>auto simp: wr\<close>)
qed

lemma write_resource_agreed:
  assumes env: "all_alloc env" and rdy: "ready (sk_world sk) d0" and v: "sk_dlpversion sk = v" "v \<noteq> 0"
    and bs: "get_block n src 0 = Some bs" "n \<le> 0xfff0"
    and dev: "dev d0 (request_bytes (resource_request v h ty rid bs)) = (d, response_bytes rs)"
    and ok: "agreed limit v (resource_request v h ty rid bs, rs)"
  shows "\<exists>w. ready w d \<and> dlp_WriteResource env tr (uint h) ty rid src n sk = Some (clean sk w, first_len (rs_argv rs))"
proof -
  have n: "length bs = n" using bs(1) by (rule get_block_length)
  have long: "PI_DLP_ARG_FIRST_ID OR PI_DLP_ARG_FLAG_LONG = 0x60"
    by (simp add: PI_DLP_ARG_FIRST_ID_def PI_DLP_ARG_FLAG_LONG_def)
  let ?hd = "set_byte h @ set_byte 0 @ set_long (ucast ty) @ set_short (word_of_int rid)"
  show ?thesis
    using simple_agreed[of env sk d0 "0x5f" "0x60" "?hd @ set_long 0 @ bs" d rs]
      simple_agreed[of env sk d0 "0x24" "0x20" "?hd @ set_short (of_nat n) @ bs" d rs] env rdy v dev ok bs n
    unfolding resource_request_def Let_def dlp_WriteResource_def long
    by (cases "0x0104 \<le> v") (auto simp: PI_DLP_ARG_FIRST_ID_def pi_version_known dlpFuncWriteResource_def)
qed

end

lemma count_record_ok:
  "0 \<le> pg_records pg \<Longrightarrow> pg_records pg < 0x7fffffff \<Longrightarrow>
   \<exists>pg'. count_record n pg = Some pg' \<and> pg_records pg' = pg_records pg + 1"
  by (simp add: count_record_def add_int_def)

lemma silent_stopped [simp]: "silent xe \<Longrightarrow> stopped xe pf pg sk = (sk, False)"
  by (simp add: silent_def)

lemma take_all_length: "take (length bs) b = bs \<Longrightarrow> length bs \<le> length b"
  by (metis length_take min.cobounded1)

lemma out_block:
  "ro_size r \<noteq> 0 \<Longrightarrow> out_data r = bs \<Longrightarrow> ro_size r = length bs \<Longrightarrow>
   \<exists>b. ro_buf r = Some b \<and> get_block (ro_size r) b 0 = Some bs"
  by (cases "ro_buf r") (auto simp: out_data_def get_block_def dest: take_all_length)

lemma out_block_or:
  "out_data r = bs \<Longrightarrow> ro_size r = length bs \<Longrightarrow> get_block (ro_size r) (the_or (ro_buf r) []) 0 = Some bs"
  by (auto simp: out_data_def get_block_def the_or_def dest: take_all_length split: option.splits)

lemma set_rbuf_frame: "pi_file_set_rbuf_size env pf n = (pf', r) \<Longrightarrow> pf_info pf' = pf_info pf"
  by (auto simp: pi_file_set_rbuf_size_def Let_def split: if_splits option.splits)

lemma fill_rbuf_frame: "fill_rbuf env pf e = Some (pf', r) \<Longrightarrow> pf_info pf' = pf_info pf"
  by (auto simp: fill_rbuf_def Let_def bind_eq_Some_conv dest!: set_rbuf_frame
      split: if_splits option.splits prod.splits)

lemma read_frame:
  "pi_file_read_record env pf i b = Some (pf', r, out) \<Longrightarrow> pf_info pf' = pf_info pf"
  "pi_file_read_resource env pf i b = Some (pf', r, out) \<Longrightarrow> pf_info pf' = pf_info pf"
  by (auto simp: pi_file_read_record_def pi_file_read_resource_def Let_def bind_eq_Some_conv
      dest: fill_rbuf_frame split: if_splits)

text \<open>A transfer over a link to a device: nothing runs out of memory and nobody stops it.\<close>

definition undisturbed :: "'w transport \<Rightarrow> 'w xfer_env \<Rightarrow> bool" where
  "undisturbed tr xe \<longleftrightarrow> all_alloc (xe_heap xe) \<and> xe_tr xe = tr \<and> silent xe"

lemma undisturbed_D: "undisturbed tr xe \<Longrightarrow> all_alloc (xe_heap xe)" "undisturbed tr xe \<Longrightarrow> xe_tr xe = tr"
  "undisturbed tr xe \<Longrightarrow> stopped xe pf pg sk = (sk, False)"
  by (simp_all add: undisturbed_def)

context device_link begin

lemma send_record_ok:
  assumes xe: "undisturbed tr xe" and b: "building src chunks" "opened src chunks pf" "\<not> resource_flag src" "i < length chunks"
      "length (chunks ! i) \<le> 0xfff0"
    and v: "sk_dlpversion sk = v" "v \<noteq> 0" and rdy: "ready w0 d0"
    and conv: "conversation dev d0 xs d" "map fst xs = entry_requests merge v h False (entries src ! i) (chunks ! i)"
      "list_all (agreed limit v) xs" "list_all gives_id xs"
    and pg: "0 \<le> pg_records pg" "pg_records pg < 0x7fffffff"
  shows "\<exists>w pf' pg'. send_record xe merge v (uint h) (int i) (clean sk w0) pf pg reset =
      Some (clean sk w, pf', pg', reset, None) \<and> ready w d \<and> opened src chunks pf' \<and>
      pf_info pf' = pf_info pf \<and> 0 \<le> pg_records pg' \<and> pg_records pg' \<le> pg_records pg + 1"
proof -
  obtain pf' r where r: "pi_file_read_record (xe_heap xe) pf (int i) True = Some (pf', 0, Some r)" "opened src chunks pf'"
    "out_data r = chunks ! i" "ro_size r = length (chunks ! i)"
    "ro_attrs r = pe_attrs (entries src ! i) AND 0xf0" "ro_category r = pe_attrs (entries src ! i) AND 0xf"
    "ro_uid r = pe_uid (entries src ! i)"
    using opened_read_record[OF b(1,2) undisturbed_D(1)[OF xe] b(3,4)] by (elim exE conjE)
  note fr = read_frame(1)[OF r(1)]
  show ?thesis
  proof (cases "pe_attrs (entries src ! i) AND 0x80 \<noteq> 0 \<and> v < 0x0101")
    case True
    then have "xs = []" using conv(2) by (simp add: entry_requests_def)
    then show ?thesis using True r fr conv(1) rdy pg by (auto simp: send_record_def attr_bits)
  next
    case False
    let ?rq = "record_request v h (ro_attrs r) (if merge then 0 else ro_uid r) (ro_category r) (chunks ! i)"
    obtain rs where xs: "xs = [(?rq, rs)]" using conv(2) False r by (auto simp: entry_requests_def)
    have n: "ro_size r \<le> 0xfff0" using r b(5) by simp
    have dev: "dev d0 (request_bytes ?rq) = (d, response_bytes rs)" and ok: "agreed limit v (?rq, rs)" "gives_id (?rq, rs)"
      using conv xs by (auto simp: conversation_Cons)
    obtain w i' where w: "ready w d" "dlp_WriteRecord (xe_heap xe) tr (uint h) (ro_attrs r)
        (if merge then 0 else ro_uid r) (ro_category r) (the_or (ro_buf r) []) (ro_size r) (clean sk w0) =
      Some (clean sk w, i', first_len (rs_argv rs))"
      using write_record_agreed[OF undisturbed_D(1)[OF xe], of "clean sk w0" d0 v, OF _ _ v(2) out_block_or[OF r(3,4)] n dev ok] v rdy by auto
    obtain pg' where pg': "count_record (ro_size r) pg = Some pg'" "pg_records pg' = pg_records pg + 1"
      using count_record_ok[OF pg] by blast
    show ?thesis using r fr w False pg' pg undisturbed_D(2,3)[OF xe] first_len_nonneg[of "rs_argv rs"]
      by (intro exI[of _ w] exI[of _ pf'] exI[of _ pg']) (auto simp: send_record_def attr_bits Let_def)
  qed
qed

lemma send_resource_ok:
  assumes xe: "undisturbed tr xe" and b: "building src chunks" "opened src chunks pf" "resource_flag src" "i < length chunks"
      "length (chunks ! i) \<le> 0xfff0"
    and v: "sk_dlpversion sk = v" "v \<noteq> 0" and rdy: "ready w0 d0"
    and conv: "conversation dev d0 xs d" "map fst xs = entry_requests merge v h True (entries src ! i) (chunks ! i)"
      "list_all (agreed limit v) xs"
    and pg: "0 \<le> pg_records pg" "pg_records pg < 0x7fffffff"
  shows "\<exists>w pf' pg'. send_resource xe (uint h) (int i) (clean sk w0) pf pg reset =
      Some (clean sk w, pf', pg', reset \<or> boots True [(entries src ! i, chunks ! i)], None) \<and> ready w d \<and>
      opened src chunks pf' \<and> pf_info pf' = pf_info pf \<and> 0 \<le> pg_records pg' \<and> pg_records pg' \<le> pg_records pg + 1"
proof -
  obtain pf' r where r: "pi_file_read_resource (xe_heap xe) pf (int i) True = Some (pf', 0, Some r)" "opened src chunks pf'"
    "out_data r = chunks ! i" "ro_size r = length (chunks ! i)"
    "ro_type r = pe_type (entries src ! i)" "ro_id r = pe_resource_id (entries src ! i)"
    using opened_read_resource[OF b(1,2) undisturbed_D(1)[OF xe] b(3,4)] by (elim exE conjE)
  note fr = read_frame(2)[OF r(1)]
  show ?thesis
  proof (cases "chunks ! i = []")
    case True
    then have "xs = []" using conv(2) by (simp add: entry_requests_def)
    then show ?thesis using True r fr conv(1) rdy pg by (auto simp: send_resource_def boots_def)
  next
    case False
    let ?rq = "resource_request v h (ro_type r) (ro_id r) (chunks ! i)"
    obtain rs where xs: "xs = [(?rq, rs)]" using conv(2) False r by (auto simp: entry_requests_def)
    have n: "ro_size r \<le> 0xfff0" "ro_size r \<noteq> 0" using r b(5) False by simp_all
    obtain blk where blk: "ro_buf r = Some blk" "get_block (ro_size r) blk 0 = Some (chunks ! i)"
      using out_block[OF n(2) r(3,4)] by blast
    have dev: "dev d0 (request_bytes ?rq) = (d, response_bytes rs)" and ok: "agreed limit v (?rq, rs)"
      using conv xs by (auto simp: conversation_Cons)
    obtain w where w: "ready w d" "dlp_WriteResource (xe_heap xe) tr (uint h) (ro_type r) (ro_id r) blk (ro_size r)
        (clean sk w0) = Some (clean sk w, first_len (rs_argv rs))"
      using write_resource_agreed[OF undisturbed_D(1)[OF xe], of "clean sk w0" d0 v, OF _ _ v(2) blk(2) n(1) dev ok] v rdy by auto
    obtain pg' where pg': "count_record (ro_size r) pg = Some pg'" "pg_records pg' = pg_records pg + 1"
      using count_record_ok[OF pg] by blast
    show ?thesis using r fr w False pg' pg undisturbed_D(2,3)[OF xe] n blk(1) first_len_nonneg[of "rs_argv rs"]
      by (intro exI[of _ w] exI[of _ pf'] exI[of _ pg']) (simp add: send_resource_def Let_def boots_def)
  qed
qed

lemma send_entries_ok:
  assumes xe: "undisturbed tr xe" and b: "building src chunks" "is_resource_db (pf_info pf) = resource_flag src" "opened src chunks pf"
      "list_all (\<lambda>c. length c \<le> 0xfff0) chunks" "n \<le> length chunks"
    and v: "sk_dlpversion sk = v" "v \<noteq> 0" and rdy: "ready w0 d0"
    and conv: "conversation dev d0 xs d"
      "map fst xs = all_requests merge v h (resource_flag src) (drop (length chunks - n) (zip (entries src) chunks))"
      "list_all (agreed limit v) xs" "resource_flag src \<or> list_all gives_id xs"
    and pg: "0 \<le> pg_records pg" "pg_records pg + int n \<le> 0x7fffffff"
  shows "\<exists>w pf' pg'. send_entries xe merge v (uint h) n (int (length chunks - n)) (clean sk w0) pf pg reset =
      Some (clean sk w, pf', pg', reset \<or> boots (resource_flag src) (drop (length chunks - n) (zip (entries src) chunks)), None) \<and>
      ready w d \<and> pf_info pf' = pf_info pf"
  using b(2,3,5) rdy conv pg
proof (induction n arbitrary: pf w0 d0 xs pg reset)
  case 0
  then show ?case using building_length[OF b(1)] by (auto simp: all_requests_def boots_def)
next
  case (Suc n)
  define i where "i = length chunks - Suc n"
  let ?e = "entries src ! i" and ?c = "chunks ! i" and ?R = "resource_flag src"
    and ?rest = "drop (length chunks - n) (zip (entries src) chunks)"
  have i: "i < length chunks" "length chunks - n = Suc i" "int (length chunks - n) = int i + 1"
    using Suc.prems(3) by (simp_all add: i_def)
  have d: "drop i (zip (entries src) chunks) = (?e, ?c) # ?rest"
    unfolding i(2) using i(1) building_length[OF b(1)] by (simp add: Cons_nth_drop_Suc[symmetric])
  have "map fst xs = entry_requests merge v h ?R ?e ?c @ all_requests merge v h ?R ?rest"
    using Suc.prems(6) d by (simp add: all_requests_def i_def)
  then obtain ys zs where xs: "xs = ys @ zs" "map fst ys = entry_requests merge v h ?R ?e ?c"
    "map fst zs = all_requests merge v h ?R ?rest" by (auto simp: map_eq_append_conv)
  obtain d1 where c: "conversation dev d0 ys d1" "conversation dev d1 zs d"
    using Suc.prems(5) by (auto simp: xs(1) conversation_append)
  have len: "length ?c \<le> 0xfff0" using b(4) i(1) by (simp add: list_all_length)
  have ag: "list_all (agreed limit v) ys" "list_all (agreed limit v) zs" "?R \<or> list_all gives_id ys"
    "?R \<or> list_all gives_id zs" using Suc.prems(7,8) by (auto simp: xs(1))
  have p: "pg_records pg < 0x7fffffff" using Suc.prems(10) by simp
  define r1 where "r1 = (reset \<or> boots ?R [(?e, ?c)])"
  have "\<exists>w pf' pg'. (if ?R then send_resource xe (uint h) (int i) (clean sk w0) pf pg reset
         else send_record xe merge v (uint h) (int i) (clean sk w0) pf pg reset) =
      Some (clean sk w, pf', pg', r1, None) \<and> ready w d1 \<and> opened src chunks pf' \<and> pf_info pf' = pf_info pf \<and>
      0 \<le> pg_records pg' \<and> pg_records pg' \<le> pg_records pg + 1"
  proof (cases ?R)
    case True
    then show ?thesis unfolding r1_def
      using send_resource_ok[OF xe b(1) Suc.prems(2) True i(1) len v Suc.prems(4) c(1) _ ag(1) Suc.prems(9) p, of merge h reset] xs(2)
      by simp
  next
    case False
    then have "r1 = reset" by (simp add: r1_def boots_def)
    then show ?thesis
      using send_record_ok[OF xe b(1) Suc.prems(2) False i(1) len v Suc.prems(4) c(1) _ ag(1) _ Suc.prems(9) p, of merge h reset]
        xs(2) ag(3) False by simp
  qed
  then obtain w1 pf1 pg1 where 1: "(if ?R then send_resource xe (uint h) (int i) (clean sk w0) pf pg reset
         else send_record xe merge v (uint h) (int i) (clean sk w0) pf pg reset) =
      Some (clean sk w1, pf1, pg1, r1, None)" "ready w1 d1" "opened src chunks pf1" "pf_info pf1 = pf_info pf"
      "0 \<le> pg_records pg1" "pg_records pg1 \<le> pg_records pg + 1" by (elim exE conjE)
  have "is_resource_db (pf_info pf1) = ?R" "pg_records pg1 + int n \<le> 0x7fffffff" "n \<le> length chunks"
    using Suc.prems(1,3,10) 1(4,6) by simp_all
  from Suc.IH[OF this(1) 1(3) this(3) 1(2) c(2) xs(3) ag(2,4) 1(5) this(2), of r1]
  obtain w pf' pg' where 2: "send_entries xe merge v (uint h) n (int (length chunks - n)) (clean sk w1) pf1 pg1 r1 =
      Some (clean sk w, pf', pg', r1 \<or> boots ?R ?rest, None)" "ready w d" "pf_info pf' = pf_info pf1"
    by (elim exE conjE)
  have "r1 \<or> boots ?R ?rest \<longleftrightarrow> reset \<or> boots ?R ((?e, ?c) # ?rest)" by (auto simp: r1_def boots_def)
  then show ?case
    using 1(1,4) 2 Suc.prems(1) i(3) d unfolding i_def[symmetric]
    by (intro exI[of _ w] exI[of _ pf'] exI[of _ pg']) simp
qed

end

section \<open>Installing\<close>

definition handle_of :: "dlpResponse \<Rightarrow> u8 option" where
  "handle_of rs = (case rs_argv rs of [] \<Rightarrow> None | a # _ \<Rightarrow> (case arg_data a of [] \<Rightarrow> None | h # _ \<Rightarrow> Some h))"

lemma handle_first:
  "handle_of rs = Some h \<Longrightarrow> \<exists>bs. resp_data (Some rs) 0 = Some (h # bs) \<and> 0 < first_len (rs_argv rs)"
  by (auto simp: handle_of_def resp_data_def first_len_def split: list.splits)

text \<open>The AppInfo block as the device gets it.\<close>

definition install_app :: "int \<Rightarrow> bytes \<Rightarrow> bytes \<Rightarrow> bytes" where
  "install_app v name app =
     (if v > 0x0100 \<and> name = memo_db \<and> app \<noteq> [] \<and> length app < 282
      then app @ replicate (282 - length app) 0 else app)"

definition install_reset :: "DBInfo \<Rightarrow> bytes \<Rightarrow> bool" where
  "install_reset ip name \<longleftrightarrow>
     name = graffiti_shortcuts_blank \<or> di_creator ip = tag_ptch \<or> di_flags ip AND dlpDBFlagReset \<noteq> 0"

definition install_requests ::
  "int \<Rightarrow> int \<Rightarrow> u8 \<Rightarrow> DBInfo \<Rightarrow> bytes \<Rightarrow> bytes \<Rightarrow> (pi_file_entry \<times> bytes) list \<Rightarrow> dlpRequest list" where
  "install_requests v cardno h ip name app es =
     [delete_request cardno name, create_request cardno ip (install_flags ip name) name] @
     (if app = [] then [] else [app_request h (install_app v name app)]) @
     all_requests False v h (is_resource_db ip) es @
     (if install_reset ip name \<or> boots (is_resource_db ip) es then [reset_request] else []) @
     [close_request h]"

lemma check_sizes_ok:
  assumes b: "building src chunks" "opened src chunks pf" "is_resource_db (pf_info pf) = resource_flag src"
    and len: "list_all (\<lambda>c. length c \<le> 0xfff0) chunks"
  shows "n \<le> length chunks \<Longrightarrow>
    \<exists>t'. check_sizes xe merge v n (int (length chunks - n)) pf t sk = Some (sk, pf, t', None)"
proof (induction n arbitrary: t)
  case (Suc n)
  define i where "i = length chunks - Suc n"
  have i: "i < length chunks" "int (length chunks - n) = int i + 1" using Suc.prems by (auto simp: i_def)
  note e = opened_entry[OF b(1,2) i(1)]
  have w: "\<not> for_writing pf" "resource_flag pf = resource_flag src" using b(2) by (auto simp: opened_def)
  have r: "read_entry_of env pf (int i) False = Some (pf, 0, Some (entry_out None (entries pf ! i)))" for env
    using w e(1) b(3)
    by (simp add: read_entry_of_def pi_file_read_resource_def pi_file_read_record_def num_entries_def)
  have "\<not> 65536 < ro_size (entry_out None (entries pf ! i))"
    using e(2) len i(1) by (auto simp: entry_out_def list_all_length)
  then show ?case using Suc.IH[OF Suc_leD[OF Suc.prems]] r i(2) unfolding i_def[symmetric] by simp
qed simp

lemma app_info_ok:
  assumes "ptr_holds (app_info pf) (app_info_size pf)" "length (block_bytes (app_info pf)) < 2 ^ 31" "all_alloc env"
  shows "app_info_to_send env v name pf =
    Some (install_app v name (block_bytes (app_info pf)), length (install_app v name (block_bytes (app_info pf))))"
proof (cases "app_info pf")
  case (Block bs)
  then have bs: "app_info_size pf = int (length bs)" "bs \<noteq> []" "length bs < 2 ^ 31"
    using assms by (auto simp: ptr_holds_def block_bytes_def)
  then have "unat (word_of_int (app_info_size pf) :: u64) = length bs" by (simp add: unat_of_nat)
  then show ?thesis using Block bs assms(3)
    by (auto simp: app_info_to_send_def pi_file_get_app_info_def ptr_block_def block_bytes_def install_app_def
        get_block_def poke_def)
qed (use assms in \<open>auto simp: app_info_to_send_def pi_file_get_app_info_def ptr_holds_def block_bytes_def install_app_def\<close>)

context device_link begin

lemma delete_any:
  assumes env: "all_alloc env" and rdy: "ready (sk_world sk) d0"
    and dev: "dev d0 (request_bytes (delete_request cardno name)) = (d, response_bytes rs)"
    and ok: "carried limit (sk_dlpversion sk) (delete_request cardno name, rs)"
  shows "\<exists>sk' w r. dlp_DeleteDB env tr cardno name sk = Some (sk', r) \<and> ready w d \<and> pi_reset_errors sk' = clean sk w"
  using call_exchange[of env "pi_reset_errors sk" d0 "0x1a" "0x20", OF env _ dev[unfolded delete_request_def]] rdy ok
  by (cases "rs_err rs = 0")
    (auto simp: dlp_DeleteDB_def dlp_simple_def delete_request_def PI_DLP_ARG_FIRST_ID_def clean_def pi_reset_errors_def)

lemma create_ok:
  assumes env: "all_alloc env" and sk: "pi_reset_errors sk = clean s w0" and rdy: "ready w0 d0"
    and dev: "dev d0 (request_bytes (create_request cardno ip flags name)) = (d, response_bytes rs)"
    and ok: "agreed limit (sk_dlpversion s) (create_request cardno ip flags name, rs)" and h: "handle_of rs = Some h"
  shows "\<exists>w. dlp_CreateDB env tr (di_creator ip) (di_type ip) cardno flags (di_version ip) name sk =
    Some (clean s w, Some (uint h), first_len (rs_argv rs)) \<and> ready w d \<and> 0 < first_len (rs_argv rs)"
proof -
  obtain bs where bs: "resp_data (Some rs) 0 = Some (h # bs)" "0 < first_len (rs_argv rs)"
    using handle_first[OF h] by blast
  obtain w where "ready w d" "dlp_call env tr 0x18 0x20 [set_long (ucast (di_creator ip)) @ set_long (ucast (di_type ip)) @
      set_byte (word_of_int cardno) @ set_byte 0 @ set_short (ucast flags) @ set_short (ucast (di_version ip)) @ c_string name]
      (clean s w0) = Some (clean s w, Some rs, first_len (rs_argv rs))"
    using call_agreed[of env "clean s w0" d0 "0x18" "0x20", OF env _ dev[unfolded create_request_def]] rdy ok
    by (auto simp: create_request_def)
  then show ?thesis using bs sk
    by (intro exI[of _ w]) (simp add: dlp_CreateDB_def PI_DLP_ARG_FIRST_ID_def mem_simps)
qed

lemma app_ok:
  assumes env: "all_alloc env" and rdy: "ready w0 d0" and len: "length bs \<le> 0xfff0"
    and dev: "dev d0 (request_bytes (app_request h bs)) = (d, response_bytes rs)"
    and ok: "agreed limit (sk_dlpversion s) (app_request h bs, rs)"
  shows "\<exists>w. dlp_WriteAppBlock env tr (uint h) bs (length bs) (clean s w0) = Some (clean s w, first_len (rs_argv rs)) \<and> ready w d"
  using simple_agreed[of env "clean s w0" d0 "0x1c" "0x20", OF env _ dev[unfolded app_request_def]] rdy ok len
  by (auto simp: dlp_WriteAppBlock_def write_block_call_def app_request_def DLP_BUF_SIZE_def PI_DLP_ARG_FIRST_ID_def
      mem_simps)

lemma close_ok:
  assumes env: "all_alloc env" and rdy: "ready w0 d0"
    and dev: "dev d0 (request_bytes (close_request h)) = (d, response_bytes rs)"
    and ok: "agreed limit (sk_dlpversion s) (close_request h, rs)"
  shows "\<exists>w. dlp_CloseDB env tr (uint h) (clean s w0) = Some (clean s w, first_len (rs_argv rs)) \<and> ready w d"
  using simple_agreed[of env "clean s w0" d0 "0x19" "0x20", OF env _ dev[unfolded close_request_def]] rdy ok
  by (auto simp: dlp_CloseDB_def close_request_def PI_DLP_ARG_FIRST_ID_def)

lemma reset_ok:
  assumes env: "all_alloc env" and rdy: "ready w0 d0"
    and dev: "dev d0 (request_bytes reset_request) = (d, response_bytes rs)"
    and ok: "agreed limit (sk_dlpversion s) (reset_request, rs)"
  shows "\<exists>w r. dlp_ResetSystem env tr (clean s w0) = Some (clean s w, r) \<and> ready w d"
proof -
  have "dlp_request_new env 0x29 [] = Some reset_request"
    using env by (simp add: dlp_request_new_def reset_request_def)
  then show ?thesis
    using exec[OF env _ _ _ dev, of "clean s w0"] rdy ok
    by (auto simp: dlp_ResetSystem_def agreed_def carried_def version_carries_def)
qed

lemma finish_ok:
  assumes xe: "undisturbed tr xe" and rdy: "ready w0 d0"
    and conv: "conversation dev d0 xs d" "map fst xs = (if reset then [reset_request] else []) @ [close_request h]"
      "list_all (agreed limit (sk_dlpversion s)) xs"
  shows "\<exists>w. finish_sending xe (uint h) reset (clean s w0) pf =
    Some (clean s w, pf, first_len (rs_argv (snd (last xs)))) \<and> ready w d"
proof (cases reset)
  case True
  then obtain r1 r2 where xs: "xs = [(reset_request, r1), (close_request h, r2)]"
    using conv(2) by (auto simp: map_eq_Cons_conv)
  then obtain d1 where d: "dev d0 (request_bytes reset_request) = (d1, response_bytes r1)"
    "dev d1 (request_bytes (close_request h)) = (d, response_bytes r2)"
    using conv(1) by (auto simp: conversation_Cons)
  then show ?thesis
    using reset_ok[OF undisturbed_D(1)[OF xe] rdy d(1), of s] close_ok[OF undisturbed_D(1)[OF xe] _ d(2), of _ s] conv(3) xs True
    by (fastforce simp: finish_sending_def undisturbed_D(2)[OF xe])
next
  case False
  then obtain r2 where xs: "xs = [(close_request h, r2)]" using conv(2) by (auto simp: map_eq_Cons_conv)
  then show ?thesis
    using close_ok[OF undisturbed_D(1)[OF xe] rdy, of h d r2 s] conv False
    by (auto simp: finish_sending_def undisturbed_D(2)[OF xe] conversation_Cons)
qed

end

lemma install_app_length: "length app \<le> 0xfff0 \<Longrightarrow> length (install_app v name app) \<le> 0xfff0"
  "app = [] \<longleftrightarrow> install_app v name app = []"
  by (auto simp: install_app_def)

text \<open>A conversation with the requests \<open>A @ B\<close> is one with \<open>A\<close> and then one with \<open>B\<close>.\<close>

lemma conversation_split:
  assumes "conversation dev d0 xs d" "map fst xs = as @ bs"
  shows "\<exists>ys zs d1. xs = ys @ zs \<and> map fst ys = as \<and> map fst zs = bs \<and> conversation dev d0 ys d1 \<and>
    conversation dev d1 zs d"
proof -
  obtain ys zs where "xs = ys @ zs" "map fst ys = as" "map fst zs = bs"
    using assms(2) by (auto simp: map_eq_append_conv)
  then show ?thesis using assms(1) by (auto simp: conversation_append)
qed

context device_link begin

lemma install_sends:
  assumes xe: "undisturbed tr xe" and b: "building src chunks" "opened src chunks pf"
      "is_resource_db (pf_info pf) = resource_flag src" "list_all (\<lambda>c. length c \<le> 0xfff0) chunks" "length chunks < 65536"
    and nm: "get_cstr (di_name (pf_info pf)) 0 = Some name"
    and app: "ptr_holds (app_info pf) (app_info_size pf)" "length (block_bytes (app_info pf)) \<le> 0xfff0"
    and v: "sk_dlpversion sk = v" "v \<noteq> 0" and rdy: "ready (sk_world sk) d0"
    and conv: "conversation dev d0 (del # cre # xs) d"
      "map fst (del # cre # xs) = install_requests v cardno h (pf_info pf) name (block_bytes (app_info pf)) (zip (entries src) chunks)"
      "carried limit v del" "agreed limit v cre" "handle_of (snd cre) = Some h"
      "list_all (agreed limit v) xs" "list_all gives_id xs"
  shows "\<exists>sk' pf'. pi_file_install xe pf cardno sk = Some (sk', pf', first_len (rs_argv (snd (last xs)))) \<and>
    ready (sk_world sk') d \<and> sk_last_error sk' = 0 \<and> sk_palmos_error sk' = 0"
proof -
  let ?env = "xe_heap xe" and ?ip = "pf_info pf" and ?bs = "block_bytes (app_info pf)" and ?n = "length chunks"
    and ?R = "resource_flag src" and ?es = "zip (entries src) chunks"
  let ?app = "install_app v name ?bs"
  note u = undisturbed_D[OF xe]
  have n: "length (entries pf) = ?n" using building_length[OF b(1)] b(2)
    by (metis length_map opened_def place_length)
  obtain dsum where cs: "check_sizes xe False v ?n 0 pf (word_of_int (app_info_size pf)) sk = Some (sk, pf, dsum, None)"
    using check_sizes_ok[OF b(1-4) order_refl, of xe False v "word_of_int (app_info_size pf)" sk] by auto
  obtain r0 r1 where dc: "del = (delete_request cardno name, r0)"
    "cre = (create_request cardno ?ip (install_flags ?ip name) name, r1)"
    using conv(2) by (cases del; cases cre) (simp add: install_requests_def)
  obtain d1 d2 where d12: "dev d0 (request_bytes (delete_request cardno name)) = (d1, response_bytes r0)"
    "dev d1 (request_bytes (create_request cardno ?ip (install_flags ?ip name) name)) = (d2, response_bytes r1)"
    "conversation dev d2 xs d" using conv(1) by (auto simp: dc conversation_Cons)
  obtain sk1 w1 r where 1: "dlp_DeleteDB ?env tr cardno name sk = Some (sk1, r)" "ready w1 d1" "pi_reset_errors sk1 = clean sk w1"
    using delete_any[OF u(1) rdy d12(1)] conv(3) v dc by auto
  obtain w2 where 2: "dlp_CreateDB ?env tr (di_creator ?ip) (di_type ?ip) cardno (install_flags ?ip name) (di_version ?ip) name sk1 =
      Some (clean sk w2, Some (uint h), first_len (rs_argv r1))" "ready w2 d2" "0 < first_len (rs_argv r1)"
    using create_ok[OF u(1) 1(3,2) d12(2)] conv(4,5) v dc by auto
  have xs: "map fst xs = (if ?bs = [] then [] else [app_request h ?app]) @ all_requests False v h ?R ?es @
     (if install_reset ?ip name \<or> boots ?R ?es then [reset_request] else []) @ [close_request h]"
    using conv(2) b(3) by (simp add: install_requests_def)
  obtain xa x1 da where xa: "xs = xa @ x1" "map fst xa = (if ?bs = [] then [] else [app_request h ?app])"
    "map fst x1 = all_requests False v h ?R ?es @
      (if install_reset ?ip name \<or> boots ?R ?es then [reset_request] else []) @ [close_request h]"
    "conversation dev d2 xa da" "conversation dev da x1 d" using conversation_split[OF d12(3) xs] by blast
  obtain xb xc db where xb: "x1 = xb @ xc" "map fst xb = all_requests False v h ?R ?es"
    "map fst xc = (if install_reset ?ip name \<or> boots ?R ?es then [reset_request] else []) @ [close_request h]"
    "conversation dev da xb db" "conversation dev db xc d" using conversation_split[OF xa(5,3)] by blast
  have ag: "list_all (agreed limit v) xa" "list_all (agreed limit v) xb" "list_all (agreed limit v) xc" "list_all gives_id xb"
    using conv(6,7) by (auto simp: xa(1) xb(1))
  obtain m where ver: "pi_version tr sk = (v, sk)" "pi_maxrecsize tr sk = (m, sk)"
    using v by (auto simp: pi_version_known pi_maxrecsize_def)
  define ds where "ds = with_total pf dsum (sending_size pf m)"
  define pg where "pg = \<lparr>pg_type = PI_PROGRESS_SEND_DB, pg_bytes = 0,
     pg_size = (if unat (word_of_int (app_info_size pf) :: u64) \<noteq> length ?app then ds\<lparr>ds_appBlockSize := 282\<rparr> else ds),
     pg_records = 0\<rparr>"
  have "\<exists>w pg'. send_app_info xe (uint h) ?app (length ?app) (clean sk w2) pf pg = Some (clean sk w, pg', None) \<and> ready w da \<and> pg_records pg' = 0"
  proof (cases "?bs = []")
    case True
    then show ?thesis using xa(2,4) 2(2) by (auto simp: send_app_info_def install_app_def pg_def)
  next
    case False
    then obtain r3 where x: "xa = [(app_request h ?app, r3)]" using xa(2) by auto
    then have dv: "dev d2 (request_bytes (app_request h ?app)) = (da, response_bytes r3)"
      using xa(4) by (auto simp: conversation_Cons)
    obtain w where "dlp_WriteAppBlock ?env tr (uint h) ?app (length ?app) (clean sk w2) =
        Some (clean sk w, first_len (rs_argv r3))" "ready w da"
      using app_ok[OF u(1) 2(2) install_app_length(1)[OF app(2)] dv, of sk] ag(1) x v by auto
    then show ?thesis using False first_len_nonneg[of "rs_argv r3"] install_app_length(2)[of ?bs v name]
      by (intro exI[of _ w] exI[of _ "pg\<lparr>pg_bytes := to_int (int (length ?app))\<rparr>"])
        (simp add: send_app_info_def u(2,3) Let_def pg_def)
  qed
  then obtain w3 pg3 where 3: "send_app_info xe (uint h) ?app (length ?app) (clean sk w2) pf pg = Some (clean sk w3, pg3, None)" "ready w3 da" "pg_records pg3 = 0" by blast
  obtain w4 pf4 pg4 where 4: "send_entries xe False v (uint h) ?n 0 (clean sk w3) pf pg3 (install_reset ?ip name) =
      Some (clean sk w4, pf4, pg4, install_reset ?ip name \<or> boots ?R ?es, None)" "ready w4 db"
    using send_entries_ok[OF xe b(1,3,2,4) order_refl v 3(2) xb(4) _ ag(2), of False h pg3 "install_reset ?ip name"]
      xb(2) ag(4) 3(3) b(5) by auto
  obtain w5 where 5: "finish_sending xe (uint h) (install_reset ?ip name \<or> boots ?R ?es) (clean sk w4) pf4 =
      Some (clean sk w5, pf4, first_len (rs_argv (snd (last xc))))" "ready w5 d"
    using finish_ok[OF xe 4(2) xb(5,3)] ag(3) v by auto
  have "last xs = last xc" using xb(1,3) xa(1) by (metis append_is_Nil_conv last_appendR list.map_disc_iff not_Cons_self2)
  have cr: "create_for_install xe pf cardno (install_flags ?ip name) name sk1 =
      Some (clean sk w2, pf, Some (uint h), first_len (rs_argv r1))"
    using 2(1,3) by (simp add: create_for_install_def u(2) Let_def)
  have ap: "app_info_to_send ?env v name pf = Some (?app, length ?app)"
    using app_info_ok[OF app(1) _ u(1)] app(2) by simp
  have np: "\<not> first_len (rs_argv r1) < 0" using 2(3) by simp
  have co: "install_contents xe cardno v ds (name = graffiti_shortcuts_blank) (uint h) (clean sk w2) pf =
      Some (clean sk w5, pf4, first_len (rs_argv (snd (last xs))))"
    using 4(1) 5(1) \<open>last xs = last xc\<close>
    unfolding install_contents_def nm ap bind.bind_lunit prod.case Let_def pg_def[symmetric] 3(1) n install_reset_def
    by simp
  have "pi_file_install xe pf cardno sk = Some (clean sk w5, pf4, first_len (rs_argv (snd (last xs))))"
    unfolding pi_file_install_def u(2)
    by (simp add: ver n cs nm 1(1) cr np co the_or_def ds_def[symmetric])
  then show ?thesis using 5(2) by auto
qed

end

section \<open>Retrieving\<close>

text \<open>A record of the device, and its answer to the request for a record by its index.\<close>

record palm_record =
  pr_uid :: u32
  pr_attr :: u8
  pr_cat :: u8
  pr_data :: bytes

definition find_request :: "int \<Rightarrow> bytes \<Rightarrow> dlpRequest" where
  "find_request cardno name = rq1 0x39 0x20 (set_byte 0xc0 @ set_byte (word_of_int cardno) @ c_string name)"

definition read_app_request :: "u8 \<Rightarrow> dlpRequest" where
  "read_app_request h = rq1 0x1b 0x20 (set_byte h @ set_byte 0 @ set_short 0 @ set_short 0xffff)"

definition read_record_request :: "int \<Rightarrow> u64 \<Rightarrow> u8 \<Rightarrow> u16 \<Rightarrow> dlpRequest" where
  "read_record_request v maxrec h i =
     (if 0x0104 \<le> v then rq1 0x60 0x21 (set_byte h @ set_byte 0 @ set_short i @ set_long 0 @ set_long (ucast maxrec))
      else rq1 0x20 0x21 (set_byte h @ set_byte 0 @ set_short i @ set_short 0 @ set_short (ucast (maxrec - 100))))"

text \<open>What stands between the identifier and the attributes of an answer is not used.\<close>

definition tells_record :: "int \<Rightarrow> palm_record \<Rightarrow> dlpResponse \<Rightarrow> bool" where
  "tells_record v r rs \<longleftrightarrow> (\<exists>aid mid as. length mid = (if 0x0104 \<le> v then 8 else 4) \<and>
     rs_argv rs = \<lparr>arg_id = aid, arg_data = set_long (pr_uid r) @ mid @ [pr_attr r, pr_cat r] @ pr_data r\<rparr> # as)"

text \<open>Records that arrive in one read: below the size at which the code reads a second time.\<close>

definition one_read :: "int \<Rightarrow> u64 \<Rightarrow> nat \<Rightarrow> bool" where
  "one_read v maxrec n \<longleftrightarrow> n < 0x7fffff00 \<and>
     (0x0104 \<le> v \<or> 100 \<le> maxrec \<and> maxrec \<le> 0xffff \<and> n < unat maxrec - 100)"

lemma pi_buffer_append_all: "all_alloc env \<Longrightarrow> pi_buffer_append env buf bs = Some (b, ok) \<Longrightarrow> ok"
  using expect_all_alloc[of env buf "length bs"]
  by (auto simp: pi_buffer_append_def split: prod.splits if_splits Option.bind_splits)

lemma append_record_all:
  assumes env: "all_alloc env" and b: "building pf chunks" "\<not> resource_flag pf"
    and fresh: "uid = 0 \<or> uid \<notin> set (record_uids pf)" and sz: "n \<le> length src" "n < 0x80000000"
  shows "\<exists>pf'. pi_file_append_record env pf src n attrs cat uid = Some (pf', int n) \<and>
    building pf' (chunks @ [take n src]) \<and>
    entries pf' = entries pf @ [zero_entry\<lparr>pe_size := int n,
       pe_attrs := (attrs AND 0xf0) OR (cat AND 0xf), pe_uid := uid\<rparr>] \<and>
    resource_flag pf' = resource_flag pf \<and> pf_info pf' = pf_info pf \<and> app_info pf' = app_info pf \<and>
    sort_info pf' = sort_info pf \<and> unique_id_seed pf' = unique_id_seed pf"
proof -
  obtain pf' r where r: "pi_file_append_record env pf src n attrs cat uid = Some (pf', r)"
    "r = PI_ERR_GENERIC_MEMORY \<or>
     r = int n \<and> building pf' (chunks @ [take n src]) \<and>
     entries pf' = entries pf @ [zero_entry\<lparr>pe_size := int n,
       pe_attrs := (attrs AND 0xf0) OR (cat AND 0xf), pe_uid := uid\<rparr>] \<and>
     resource_flag pf' = resource_flag pf \<and> pf_info pf' = pf_info pf"
    using append_record_spec[OF b fresh sz, of env attrs cat] by (elim exE conjE)
  obtain k where e: "pi_file_append_entry env pf = Some (pf\<lparr>num_entries_allocated := k, entries := entries pf @ [zero_entry]\<rparr>)"
  proof -
    have "pi_file_append_entry env pf \<noteq> None" using env by (simp add: pi_file_append_entry_def Let_def)
    then show ?thesis using append_entry_fields[of env pf] that by auto
  qed
  have used: "\<not> (uid \<noteq> 0 \<and> pi_file_id_used pf uid)" and w: "for_writing pf"
    using fresh b by (auto simp: pi_file_id_used_def find_index_None record_uids_def building_def)
  have ok: "r \<noteq> PI_ERR_GENERIC_MEMORY \<and> app_info pf' = app_info pf \<and> sort_info pf' = sort_info pf \<and>
     unique_id_seed pf' = unique_id_seed pf"
    using r(1) e used w b(2) env sz
    by (auto simp: pi_file_append_record_def append_data_def bind_eq_Some_conv set_last_def err_defs to_int_id
        dest: pi_buffer_append_all split: if_splits option.splits)
  then show ?thesis using r by auto
qed

lemma max_buffer_known:
  "sk_dlpversion sk \<noteq> 0 \<Longrightarrow> max_buffer tr sk = (to_int (uint (sk_maxrecsize sk - 100)), sk)"
  by (simp add: max_buffer_def pi_maxrecsize_def pi_version_known RECORD_READ_SAFEGUARD_SIZE_def)

lemma small_max:
  assumes "100 \<le> m" "m \<le> (0xffff :: u64)"
  shows "uint (m - 100) = int (unat m - 100)" "to_int (uint (m - 100)) = int (unat m - 100)"
    "word_of_int (to_int (uint (m - 100))) = (ucast (m - 100) :: u16)"
proof -
  have "unat (m - 100) = unat m - 100" using assms(1) by (simp add: unat_sub)
  then show 1: "uint (m - 100) = int (unat m - 100)" by (metis uint_nat)
  have "unat m \<le> 0xffff" using assms(2) by (simp add: word_le_nat_alt)
  then show 2: "to_int (uint (m - 100)) = int (unat m - 100)" unfolding 1 by (simp add: to_int_id)
  show "word_of_int (to_int (uint (m - 100))) = (ucast (m - 100) :: u16)"
    unfolding 2 1[symmetric] by simp
qed

context device_link begin

lemma read_by_index:
  assumes env: "all_alloc env" and rdy: "ready w0 d0" and v: "sk_dlpversion sk = v" "v \<noteq> 0" and wf: "pi_buffer_wf buf"
    and dev: "dev d0 (request_bytes (read_record_request v (sk_maxrecsize sk) h (word_of_int i))) = (d, response_bytes rs)"
    and ok: "agreed limit v (read_record_request v (sk_maxrecsize sk) h (word_of_int i), rs)"
    and r: "tells_record v r rs" "one_read v (sk_maxrecsize sk) (length (pr_data r))"
  shows "\<exists>w buf'. dlp_ReadRecordByIndex env tr (uint h) i (want_all\<lparr>rw_index := False\<rparr>) (Some buf) (clean sk w0) =
      Some (clean sk w, \<lparr>rc_id = Some (ucast (pr_uid r)), rc_index = None, rc_attr = Some (uint (pr_attr r)),
             rc_cat = Some (uint (pr_cat r))\<rparr>, Some buf', int (length (pr_data r))) \<and>
    ready w d \<and> pi_buffer_wf buf' \<and> content buf' = pr_data r"
proof -
  let ?m = "sk_maxrecsize sk" and ?bs = "pr_data r"
  obtain aid mid as where a: "length mid = (if 0x0104 \<le> v then 8 else 4)"
    "rs_argv rs = \<lparr>arg_id = aid, arg_data = set_long (pr_uid r) @ mid @ [pr_attr r, pr_cat r] @ ?bs\<rparr> # as"
    using r(1) by (auto simp: tells_record_def)
  define hd where "hd = set_long (pr_uid r) @ mid @ [pr_attr r, pr_cat r]"
  have hl: "length hd = (if 0x0104 \<le> v then 14 else 10)" using a(1) by (simp add: hd_def)
  have data: "resp_data (Some rs) 0 = Some (hd @ ?bs)" "0 < first_len (rs_argv rs)"
    using a(2) by (simp_all add: resp_data_def hd_def first_len_def)
  have n: "length ?bs < 0x80000000" "length ?bs < 2 ^ 64" using r(2) by (auto simp: one_read_def)
  have outs: "read_outs (want_all\<lparr>rw_index := False\<rparr>) (hd @ ?bs) (if 0x0104 \<le> v then 12 else 8) =
    Some \<lparr>rc_id = Some (ucast (pr_uid r)), rc_index = None, rc_attr = Some (uint (pr_attr r)),
             rc_cat = Some (uint (pr_cat r))\<rparr>"
    using a(1) by (simp add: read_outs_def want_all_def fetch_def hd_def mem_simps)
  obtain buf' where buf': "clear_append env buf (hd @ ?bs) (length hd) (int (length ?bs)) = Some buf'"
    "pi_buffer_wf buf'" "content buf' = ?bs" using clear_append_all[OF env wf n(2) refl] by blast
  have mb: "max_buffer tr (clean sk w0) = (to_int (uint (?m - 100)), clean sk w0)"
    using max_buffer_known[of "clean sk w0" tr] v by simp
  have ver: "pi_version tr (clean sk w0) = (v, clean sk w0)" "pi_maxrecsize tr (clean sk w0) = (?m, clean sk w0)"
    using v by (simp_all add: pi_version_known pi_maxrecsize_def)
  show ?thesis
  proof (cases "0x0104 \<le> v")
    case True
    obtain w where w: "ready w d" "dlp_call env tr 0x60 0x21
        [set_byte h @ set_byte 0 @ set_short (word_of_int i) @ set_long 0 @ set_long (ucast ?m)] (clean sk w0) =
      Some (clean sk w, Some rs, first_len (rs_argv rs))"
      using call_agreed[of env "clean sk w0" d0 "0x60" "0x21", OF env _ dev[unfolded read_record_request_def if_P[OF True]]]
        rdy ok v True by (auto simp: read_record_request_def)
    then show ?thesis using True data outs buf' payload_len_append[of hd 14 ?bs] hl n
      by (intro exI[of _ w] exI[of _ buf'])
        (simp add: dlp_ReadRecordByIndex_def Let_def mb ver dlpFuncReadRecordEx_def)
  next
    case False
    then have m: "100 \<le> ?m" "?m \<le> 0xffff" "length ?bs < unat ?m - 100" using r(2) by (auto simp: one_read_def)
    note sm = small_max[OF m(1,2)]
    obtain w where w: "ready w d" "dlp_call env tr 0x20 0x21
        [set_byte h @ set_byte 0 @ set_short (word_of_int i) @ set_short 0 @ set_short (ucast (?m - 100))] (clean sk w0) =
      Some (clean sk w, Some rs, first_len (rs_argv rs))"
      using call_agreed[of env "clean sk w0" d0 "0x20" "0x21", OF env _ dev[unfolded read_record_request_def if_not_P[OF False]]]
        rdy ok v False by (auto simp: read_record_request_def)
    have "int (length ?bs) \<noteq> int (unat ?m - 100)" unfolding of_nat_eq_iff using m(3) by (rule less_imp_neq)
    then show ?thesis using w False data outs buf' payload_len_append[of hd 10 ?bs] hl n sm
      by (intro exI[of _ w] exI[of _ buf'])
        (simp add: dlp_ReadRecordByIndex_def Let_def mb ver dlpFuncReadRecord_def record_by_index_request_def)
  qed
qed

end

text \<open>The records that are kept, and the entries under which the file keeps them.\<close>

definition kept :: "palm_record \<Rightarrow> bool" where
  "kept r \<longleftrightarrow> pr_attr r AND 0x88 = 0"

definition record_entry :: "palm_record \<Rightarrow> pi_file_entry" where
  "record_entry r = zero_entry\<lparr>pe_size := int (length (pr_data r)),
     pe_attrs := (uint (pr_attr r) AND 0xf0) OR (uint (pr_cat r) AND 0xf), pe_uid := ucast (pr_uid r)\<rparr>"

definition same_blocks :: "pi_file \<Rightarrow> pi_file \<Rightarrow> bool" where
  "same_blocks pf' pf \<longleftrightarrow> resource_flag pf' = resource_flag pf \<and> pf_info pf' = pf_info pf \<and>
     app_info pf' = app_info pf \<and> sort_info pf' = sort_info pf \<and> unique_id_seed pf' = unique_id_seed pf"

lemma kept_bits: "uint (pr_attr r) AND uint (dlpRecAttrArchived OR dlpRecAttrDeleted) = 0 \<longleftrightarrow> kept r"
proof -
  have "uint (dlpRecAttrArchived OR dlpRecAttrDeleted) = uint (0x88 :: u8)"
    by (simp add: dlpRecAttrArchived_def dlpRecAttrDeleted_def)
  then have "uint (pr_attr r) AND uint (dlpRecAttrArchived OR dlpRecAttrDeleted) = uint (pr_attr r AND 0x88)"
    by (simp only: unsigned_and_eq)
  then show ?thesis by (simp add: kept_def uint_0_iff)
qed

lemma index_less:
  "k < 65536 \<Longrightarrow> n < 65536 \<Longrightarrow> (ucast (of_nat k :: u32) < (of_nat n :: u64)) = (k < n)"
  by (simp add: word_less_nat_alt unat_of_nat unsigned_ucast_eq take_bit_nat_eq_self)

lemma index_int: "k < 65536 \<Longrightarrow> sint (of_nat k :: u32) = int k"
  by (simp add: sint_uint uint_nat unat_of_nat signed_take_bit_int_eq_self)

lemma buffer_data_content: "pi_buffer_wf buf \<Longrightarrow> take (used buf) (buffer_data buf) = content buf \<and> used buf \<le> length (buffer_data buf)"
  by (auto simp: buffer_data_def content_def pi_buffer_wf_def split: option.splits)

lemma content_used: "pi_buffer_wf buf \<Longrightarrow> used buf = length (content buf)"
  by (auto simp: content_def pi_buffer_wf_def split: option.splits)

context device_link begin

lemma receive_record_ok:
  assumes xe: "undisturbed tr xe" and rdy: "ready w0 d0" and v: "sk_dlpversion sk = v" "v \<noteq> 0" and wf: "pi_buffer_wf buf"
    and dev: "dev d0 (request_bytes (read_record_request v (sk_maxrecsize sk) h (word_of_int (sint j)))) = (d, response_bytes rs)"
    and ok: "agreed limit v (read_record_request v (sk_maxrecsize sk) h (word_of_int (sint j)), rs)"
    and r: "tells_record v r rs" "one_read v (sk_maxrecsize sk) (length (pr_data r))"
    and b: "building pf chunks" "\<not> resource_flag pf" "kept r \<longrightarrow> pr_uid r = 0 \<or> ucast (pr_uid r) \<notin> set (record_uids pf)"
    and pg: "0 \<le> pg_records pg" "pg_records pg < 0x7fffffff"
  shows "\<exists>w pf' pg' buf'. receive_record xe (uint h) j (clean sk w0) pf pg buf = Some (clean sk w, pf', pg', buf', None) \<and>
    ready w d \<and> pi_buffer_wf buf' \<and> building pf' (chunks @ map pr_data (filter kept [r])) \<and>
    entries pf' = entries pf @ map record_entry (filter kept [r]) \<and> same_blocks pf' pf \<and>
    pg_records pg' = pg_records pg + 1"
proof -
  note u = undisturbed_D[OF xe]
  obtain w buf' where w: "ready w d" "pi_buffer_wf buf'" "content buf' = pr_data r"
    "dlp_ReadRecordByIndex (xe_heap xe) tr (uint h) (sint j) (want_all\<lparr>rw_index := False\<rparr>) (Some buf) (clean sk w0) =
      Some (clean sk w, \<lparr>rc_id = Some (ucast (pr_uid r)), rc_index = None, rc_attr = Some (uint (pr_attr r)),
             rc_cat = Some (uint (pr_cat r))\<rparr>, Some buf', int (length (pr_data r)))"
    using read_by_index[OF u(1) rdy v wf dev ok r] by blast
  obtain pg' where pg': "count_record (used buf') pg = Some pg'" "pg_records pg' = pg_records pg + 1"
    using count_record_ok[OF pg] by blast
  have bd: "take (used buf') (buffer_data buf') = pr_data r" "used buf' \<le> length (buffer_data buf')"
    "used buf' = length (pr_data r)" "used buf' < 0x80000000"
    using buffer_data_content[OF w(2)] content_used[OF w(2)] w(3) r(2) by (auto simp: one_read_def)
  show ?thesis
  proof (cases "kept r")
    case False
    then have "receive_record xe (uint h) j (clean sk w0) pf pg buf = Some (clean sk w, pf, pg', buf', None)"
      using w(4) pg'(1) by (simp add: receive_record_def u(2,3) the_or_def kept_bits)
    then show ?thesis using False w b(1) pg'(2) by (auto simp: same_blocks_def)
  next
    case True
    have fresh: "(ucast (pr_uid r) :: u64) = 0 \<or> ucast (pr_uid r) \<notin> set (record_uids pf)" using b(3) True by auto
    obtain pf' where pf': "pi_file_append_record (xe_heap xe) pf (buffer_data buf') (used buf') (uint (pr_attr r))
        (uint (pr_cat r)) (ucast (pr_uid r)) = Some (pf', int (used buf'))" "building pf' (chunks @ [pr_data r])"
      "entries pf' = entries pf @ [record_entry r]" "same_blocks pf' pf"
      using append_record_all[OF u(1) b(1,2) fresh bd(2,4), of "uint (pr_attr r)" "uint (pr_cat r)"] bd(1,3)
      by (auto simp: record_entry_def same_blocks_def)
    have "receive_record xe (uint h) j (clean sk w0) pf pg buf = Some (clean sk w, pf', pg', buf', None)"
      using w(4) pg'(1) pf'(1) True by (simp add: receive_record_def u(2,3) the_or_def kept_bits)
    then show ?thesis using True w pf' pg'(2) by auto
  qed
qed

lemma receive_loop_ok:
  assumes xe: "undisturbed tr xe" and v: "sk_dlpversion sk = v" "v \<noteq> 0"
  shows "ready w0 d0 \<Longrightarrow> pi_buffer_wf buf \<Longrightarrow> conversation dev d0 xs d \<Longrightarrow>
    map fst xs = map (\<lambda>i. read_record_request v (sk_maxrecsize sk) h (of_nat i)) [k..<k + length rs] \<Longrightarrow>
    list_all (agreed limit v) xs \<Longrightarrow> list_all2 (tells_record v) rs (map snd xs) \<Longrightarrow>
    list_all (\<lambda>r. one_read v (sk_maxrecsize sk) (length (pr_data r))) rs \<Longrightarrow> k + length rs < 65536 \<Longrightarrow>
    building pf chunks \<Longrightarrow> \<not> resource_flag pf \<Longrightarrow>
    distinct (filter (\<lambda>u. u \<noteq> 0) (map pr_uid (filter kept rs))) \<Longrightarrow>
    \<forall>r \<in> set rs. kept r \<longrightarrow> ucast (pr_uid r) \<notin> set (record_uids pf) \<Longrightarrow>
    pg_records pg = int k \<Longrightarrow>
    \<exists>w pf' pg' buf'. receive_loop receive_record xe (uint h) (of_nat (k + length rs)) (of_nat k) (clean sk w0) pf pg buf =
        Some (clean sk w, pf', pg', buf', None) \<and> ready w d \<and>
      building pf' (chunks @ map pr_data (filter kept rs)) \<and>
      entries pf' = entries pf @ map record_entry (filter kept rs) \<and> same_blocks pf' pf"
proof (induction rs arbitrary: w0 d0 buf xs k pf chunks pg)
  case Nil
  then show ?case by (subst receive_loop.simps) (auto simp: same_blocks_def index_less)
next
  case (Cons r rs)
  let ?m = "sk_maxrecsize sk" and ?N = "k + length (r # rs)"
  let ?rq = "read_record_request v ?m h (of_nat k)"
  have up: "[k..<k + length (r # rs)] = k # [Suc k..<Suc k + length rs]" by (simp add: upt_rec)
  then obtain a ys where xs: "xs = (?rq, a) # ys"
    "map fst ys = map (\<lambda>i. read_record_request v ?m h (of_nat i)) [Suc k..<Suc k + length rs]"
    using Cons.prems(4) by (cases xs) (auto simp: prod_eq_iff)
  obtain d1 where d: "dev d0 (request_bytes ?rq) = (d1, response_bytes a)" "conversation dev d1 ys d"
    using Cons.prems(3) by (auto simp: xs(1) conversation_Cons)
  have k: "sint (of_nat k :: u32) = int k" using Cons.prems(8) by (simp add: index_int)
  have idx: "word_of_int (sint (of_nat k :: u32)) = (of_nat k :: u16)" unfolding k by simp
  have lt: "ucast (of_nat k :: u32) < (of_nat ?N :: u64)"
    using Cons.prems(8) by (simp only: index_less) simp
  have fresh: "kept r \<longrightarrow> pr_uid r = 0 \<or> ucast (pr_uid r) \<notin> set (record_uids pf)" using Cons.prems(12) by simp
  obtain w1 pf1 pg1 buf1 where 1: "receive_record xe (uint h) (of_nat k) (clean sk w0) pf pg buf =
      Some (clean sk w1, pf1, pg1, buf1, None)" "ready w1 d1" "pi_buffer_wf buf1"
    "building pf1 (chunks @ map pr_data (filter kept [r]))" "entries pf1 = entries pf @ map record_entry (filter kept [r])"
    "same_blocks pf1 pf" "pg_records pg1 = int (Suc k)"
    using receive_record_ok[OF xe Cons.prems(1) v Cons.prems(2), of h "of_nat k" d1 a r pf chunks pg] d(1) Cons.prems
      fresh idx xs(1) by auto
  have "ucast (ucast a :: u64) = a" for a :: u32 by (rule bit_word_eqI) (auto simp: bit_simps)
  then have inj: "(ucast (a :: u32) :: u64) = ucast b \<longleftrightarrow> a = b" for a b by metis
  then have zero: "(ucast (a :: u32) :: u64) = 0 \<longleftrightarrow> a = 0" for a by (metis unsigned_0)
  have uids: "record_uids pf1 = record_uids pf @ (if kept r \<and> pr_uid r \<noteq> 0 then [ucast (pr_uid r)] else [])"
    unfolding record_uids_def 1(5) by (auto simp: record_entry_def zero)
  have p12: "\<forall>r' \<in> set rs. kept r' \<longrightarrow> ucast (pr_uid r') \<notin> set (record_uids pf1)"
    using Cons.prems(11,12) unfolding uids
    by (auto simp: inj split: if_splits) (metis (mono_tags, lifting) image_eqI mem_Collect_eq)
  have "\<exists>w pf' pg' buf'. receive_loop receive_record xe (uint h) (of_nat (Suc k + length rs)) (of_nat (Suc k)) (clean sk w1) pf1 pg1 buf1 =
        Some (clean sk w, pf', pg', buf', None) \<and> ready w d \<and>
      building pf' ((chunks @ map pr_data (filter kept [r])) @ map pr_data (filter kept rs)) \<and>
      entries pf' = entries pf1 @ map record_entry (filter kept rs) \<and> same_blocks pf' pf1"
    using Cons.prems xs 1(6,7) p12
    by (intro Cons.IH[OF 1(2,3) d(2) xs(2) _ _ _ _ 1(4)]) (auto simp: same_blocks_def split: if_splits)
  then obtain w2 pf2 pg2 buf2 where 2: "receive_loop receive_record xe (uint h) (of_nat (Suc k + length rs)) (of_nat (Suc k)) (clean sk w1) pf1 pg1 buf1 =
        Some (clean sk w2, pf2, pg2, buf2, None)" "ready w2 d"
      "building pf2 ((chunks @ map pr_data (filter kept [r])) @ map pr_data (filter kept rs))"
      "entries pf2 = entries pf1 @ map record_entry (filter kept rs)" "same_blocks pf2 pf1" by blast
  have "receive_loop receive_record xe (uint h) (of_nat ?N) (of_nat k) (clean sk w0) pf pg buf =
      Some (clean sk w2, pf2, pg2, buf2, None)"
    using 1(1) 2(1) lt by (subst receive_loop.simps) (simp add: add.commute)
  then show ?case using 1(5,6) 2 by (auto simp: same_blocks_def)
qed

end

text \<open>What the device says of the database, and of its AppInfo block: the block, or an error when it has
  none.\<close>

definition tells_db :: "time_env \<Rightarrow> DBInfo \<Rightarrow> DBSizeInfo \<Rightarrow> dlpResponse \<Rightarrow> bool" where
  "tells_db tz dbi ds rs \<longleftrightarrow> 0 < first_len (rs_argv rs) \<and>
     (\<exists>out. dlp_decode_finddb_response tz find_by_name_want (rs_argv rs) (no_find_out find_by_name_want) = Some out \<and>
        fo_info out = Some dbi \<and> fo_size out = Some ds)"

definition tells_app :: "bytes \<Rightarrow> dlpResponse \<Rightarrow> bool" where
  "tells_app app rs \<longleftrightarrow> length app < 0x7fffff00 \<and>
     (if rs_err rs = 0 then \<exists>aid hd as. length hd = 2 \<and> rs_argv rs = \<lparr>arg_id = aid, arg_data = hd @ app\<rparr> # as
      else app = [])"

definition app_wanted :: "DBInfo \<Rightarrow> DBSizeInfo \<Rightarrow> bool" where
  "app_wanted dbi ds \<longleftrightarrow> ds_appBlockSize ds \<noteq> 0 \<or> di_miscFlags dbi AND dlpDBMiscFlagRamBased \<noteq> 0"

definition retrieve_requests :: "int \<Rightarrow> u64 \<Rightarrow> int \<Rightarrow> u8 \<Rightarrow> bytes \<Rightarrow> bool \<Rightarrow> nat \<Rightarrow> dlpRequest list" where
  "retrieve_requests v maxrec cardno h name wanted n =
     [find_request cardno name, open_request cardno 0x90 name] @ (if wanted then [read_app_request h] else []) @
     map (\<lambda>i. read_record_request v maxrec h (of_nat i)) [0..<n] @ [close_request h]"

lemma set_app_info_all:
  assumes "all_alloc env" "app_info pf \<noteq> Dangling" "app \<noteq> []" "length app < 0x80000000"
    "take (length app) src = app" "length app \<le> length src"
  shows "pi_file_set_app_info env pf src (length app) = Some (pf\<lparr>app_info := Block app, app_info_size := int (length app)\<rparr>, 0)"
  using assms by (auto simp: pi_file_set_app_info_def get_block_def free_ptr_def to_int_id split: mem_ptr.splits)

context device_link begin

lemma find_ok:
  assumes env: "all_alloc env" and rdy: "ready (sk_world sk) d0" and v: "0x0102 \<le> sk_dlpversion sk"
    and dev: "dev d0 (request_bytes (find_request cardno name)) = (d, response_bytes rs)"
    and ok: "agreed limit (sk_dlpversion sk) (find_request cardno name, rs)" and t: "tells_db tz dbi ds rs"
  shows "\<exists>w out r. dlp_FindDBByName env tr tz cardno name find_by_name_want (pi_reset_errors sk) = Some (clean sk w, out, r) \<and>
    ready w d \<and> 0 < r \<and> fo_info out = Some dbi \<and> fo_size out = Some ds"
proof -
  obtain out where out: "dlp_decode_finddb_response tz find_by_name_want (rs_argv rs) (no_find_out find_by_name_want) = Some out"
    "fo_info out = Some dbi" "fo_size out = Some ds" "0 < first_len (rs_argv rs)"
    using t by (auto simp: tells_db_def)
  have w: "find_by_name_want\<lparr>fw_cardno := False\<rparr> = find_by_name_want" "fw_info find_by_name_want \<noteq> None"
    "fw_size find_by_name_want \<noteq> None" by (simp_all add: find_by_name_want_def)
  have fl: "dlpFindDBOptFlagGetAttributes OR dlpFindDBOptFlagGetSize = 0xc0"
    by (simp add: dlpFindDBOptFlagGetAttributes_def dlpFindDBOptFlagGetSize_def)
  have idem: "pi_reset_errors (pi_reset_errors sk) = pi_reset_errors sk" by (simp add: pi_reset_errors_def)
  have ver: "pi_version tr (pi_reset_errors sk) = (sk_dlpversion sk, pi_reset_errors sk)"
    using v pi_version_known[of "pi_reset_errors sk" tr] by simp
  obtain w where "ready w d" "dlp_call env tr 0x39 0x20 [set_byte 0xc0 @ set_byte (word_of_int cardno) @ c_string name]
      (pi_reset_errors sk) = Some (clean sk w, Some rs, first_len (rs_argv rs))"
    using call_agreed[of env "pi_reset_errors sk" d0 "0x39" "0x20", OF env _ dev[unfolded find_request_def]] rdy ok
    by (auto simp: find_request_def)
  then show ?thesis
    using out v
    by (intro exI[of _ w] exI[of _ out]) (simp add: dlp_FindDBByName_def idem require_version_def ver w[simplified] find_result_def fl PI_DLP_ARG_FIRST_ID_def)
qed

lemma open_ok:
  assumes env: "all_alloc env" and rdy: "ready w0 d0"
    and dev: "dev d0 (request_bytes (open_request cardno mode name)) = (d, response_bytes rs)"
    and ok: "agreed limit (sk_dlpversion s) (open_request cardno mode name, rs)" and h: "handle_of rs = Some h"
  shows "\<exists>w. dlp_OpenDB env tr cardno (uint mode) name (clean s w0) =
    Some (clean s w, Some (uint h), first_len (rs_argv rs)) \<and> ready w d \<and> 0 < first_len (rs_argv rs)"
proof -
  obtain bs where bs: "resp_data (Some rs) 0 = Some (h # bs)" "0 < first_len (rs_argv rs)"
    using handle_first[OF h] by blast
  obtain w where "ready w d" "dlp_call env tr 0x17 0x20
      [set_byte (word_of_int cardno) @ set_byte (word_of_int (uint mode)) @ c_string name] (clean s w0) =
      Some (clean s w, Some rs, first_len (rs_argv rs))"
    using call_agreed[of env "clean s w0" d0 "0x17" "0x20", OF env _ dev[unfolded open_request_def]] rdy ok
    by (auto simp: open_request_def)
  then show ?thesis using bs
    by (intro exI[of _ w]) (simp add: dlp_OpenDB_def PI_DLP_ARG_FIRST_ID_def mem_simps)
qed

lemma receive_app_ok:
  assumes xe: "undisturbed tr xe" and rdy: "ready w0 d0" and wf: "pi_buffer_wf buf"
    and dev: "dev d0 (request_bytes (read_app_request h)) = (d, response_bytes rs)"
    and ok: "carried limit (sk_dlpversion s) (read_app_request h, rs)" and t: "tells_app app rs"
    and pf: "app_info pf \<noteq> Dangling" and pg: "pg_bytes pg = 0"
  shows "\<exists>s' w pg' buf'. receive_app_info xe (uint h) True (clean s w0) pf pg buf =
      Some (s', if app = [] then pf else pf\<lparr>app_info := Block app, app_info_size := int (length app)\<rparr>, pg', buf', None) \<and>
    pi_reset_errors s' = clean s w \<and> sk_dlpversion s' = sk_dlpversion s \<and> sk_maxrecsize s' = sk_maxrecsize s \<and>
    ready w d \<and> pi_buffer_wf buf' \<and> pg_records pg' = pg_records pg"
proof -
  note u = undisturbed_D[OF xe]
  let ?call = "dlp_call (xe_heap xe) tr 0x1b 0x20 [set_byte h @ set_byte 0 @ set_short 0 @ set_short 0xffff] (clean s w0)"
  obtain w where w: "ready w d" "?call = (if rs_err rs \<noteq> 0
      then Some ((clean s w0)\<lparr>sk_world := w, sk_palmos_error := rs_err rs, sk_last_error := PI_ERR_DLP_PALMOS\<rparr>, Some rs, PI_ERR_DLP_PALMOS)
      else Some (clean s w, Some rs, first_len (rs_argv rs)))"
    using call_exchange[of "xe_heap xe" "clean s w0" d0 "0x1b" "0x20", OF u(1) _ dev[unfolded read_app_request_def]] rdy ok
    by (auto simp: read_app_request_def)
  have wc: "pi_buffer_wf (pi_buffer_clear (xe_heap xe) buf)" using pi_buffer_clear_wf[OF wf] by auto
  show ?thesis
  proof (cases "rs_err rs = 0")
    case False
    then have "app = []" using t by (simp add: tells_app_def)
    then show ?thesis using w False wc
      by (intro exI[of _ "(clean s w0)\<lparr>sk_world := w, sk_palmos_error := rs_err rs, sk_last_error := PI_ERR_DLP_PALMOS\<rparr>"]
          exI[of _ w] exI[of _ pg] exI[of _ "pi_buffer_clear (xe_heap xe) buf"])
        (simp add: receive_app_info_def u(2) dlp_ReadAppBlock_def read_block_call_def PI_DLP_ARG_FIRST_ID_def DLP_BUF_SIZE_def Let_def err_defs
          clean_def pi_reset_errors_def)
  next
    case True
    then obtain aid hd as where a: "length hd = 2" "rs_argv rs = \<lparr>arg_id = aid, arg_data = hd @ app\<rparr> # as"
      "length app < 0x7fffff00" using t by (auto simp: tells_app_def)
    have data: "resp_data (Some rs) 0 = Some (hd @ app)" "first_len (rs_argv rs) = 2 + int (length app)"
      using a by (simp_all add: resp_data_def first_len_def)
    have n: "length app < 0x80000000" "length app < 2 ^ 64" using a(3) by simp_all
    obtain buf' where buf': "clear_append (xe_heap xe) buf (hd @ app) (length hd) (int (length app)) = Some buf'"
      "pi_buffer_wf buf'" "content buf' = app" using clear_append_all[OF u(1) wf n(2) refl] by blast
    have bd: "take (length app) (buffer_data buf') = app" "length app \<le> length (buffer_data buf')"
      using buffer_data_content[OF buf'(2)] content_used[OF buf'(2)] buf'(3) by simp_all
    show ?thesis
    proof (cases "app = []")
      case True
      then show ?thesis using w \<open>rs_err rs = 0\<close> wc data payload_len_append[OF a(1), of "[]"]
        by (intro exI[of _ "clean s w"] exI[of _ w] exI[of _ pg] exI[of _ "pi_buffer_clear (xe_heap xe) buf"])
          (simp add: receive_app_info_def u(2) dlp_ReadAppBlock_def read_block_call_def PI_DLP_ARG_FIRST_ID_def DLP_BUF_SIZE_def Let_def)
    next
      case False
      then show ?thesis
        using w \<open>rs_err rs = 0\<close> data payload_len_append[OF a(1) n(1)] buf' a(1) pg n(1)
          set_app_info_all[OF u(1) pf False n(1) bd]
        by (intro exI[of _ "clean s w"] exI[of _ w] exI[of _ "pg\<lparr>pg_bytes := int (length app)\<rparr>"] exI[of _ buf'])
          (simp add: receive_app_info_def u(2,3) dlp_ReadAppBlock_def read_block_call_def PI_DLP_ARG_FIRST_ID_def DLP_BUF_SIZE_def Let_def
            clear_append_def add_int_def)
    qed
  qed
qed

end

text \<open>Every call starts by clearing the errors, so that a call after an error is as one without.\<close>

lemma reset_idem [simp]: "pi_reset_errors (pi_reset_errors sk) = pi_reset_errors sk"
  "sk_maxrecsize (pi_reset_errors sk) = sk_maxrecsize sk"
  by (simp_all add: pi_reset_errors_def)

lemma read_index_reset:
  "sk_dlpversion sk \<noteq> 0 \<Longrightarrow>
   dlp_ReadRecordByIndex env tr db i w buf (pi_reset_errors sk) = dlp_ReadRecordByIndex env tr db i w buf sk"
  by (simp add: dlp_ReadRecordByIndex_def max_buffer_known)

lemma close_reset: "dlp_CloseDB env tr db (pi_reset_errors sk) = dlp_CloseDB env tr db sk"
  by (simp add: dlp_CloseDB_def)

lemma receive_loop_reset:
  assumes "sk_dlpversion sk \<noteq> 0" "ucast j < n"
  shows "receive_loop receive_record xe db n j (pi_reset_errors sk) pf pg buf =
    receive_loop receive_record xe db n j sk pf pg buf"
  using assms by (subst (1 2) receive_loop.simps) (simp add: receive_record_def read_index_reset)

context device_link begin

lemma receive_all_ok:
  assumes xe: "undisturbed tr xe" and v: "sk_dlpversion sk = v" "v \<noteq> 0"
    and s: "pi_reset_errors s = clean sk w0" "sk_dlpversion s = v" and rdy: "ready w0 d0" and wf: "pi_buffer_wf buf"
    and conv: "conversation dev d0 xs d"
      "map fst xs = map (\<lambda>i. read_record_request v (sk_maxrecsize sk) h (of_nat i)) [0..<length rs]"
      "list_all (agreed limit v) xs" "list_all2 (tells_record v) rs (map snd xs)"
      "list_all (\<lambda>r. one_read v (sk_maxrecsize sk) (length (pr_data r))) rs" "length rs < 65536"
    and b: "building pf []" "\<not> resource_flag pf"
      "distinct (filter (\<lambda>u. u \<noteq> 0) (map pr_uid (filter kept rs)))"
    and pg: "pg_records pg = 0"
  shows "\<exists>s' w pf' pg' buf'. receive_loop receive_record xe (uint h) (of_nat (length rs)) 0 s pf pg buf =
      Some (s', pf', pg', buf', None) \<and> pi_reset_errors s' = clean sk w \<and> ready w d \<and>
    building pf' (map pr_data (filter kept rs)) \<and> entries pf' = map record_entry (filter kept rs) \<and> same_blocks pf' pf"
proof -
  have e: "entries pf = []" using building_length[OF b(1)] by simp
  then have u: "record_uids pf = []" by (simp add: record_uids_def)
  obtain w pf' pg' buf' where 1: "receive_loop receive_record xe (uint h) (of_nat (length rs)) 0 (clean sk w0) pf pg buf =
      Some (clean sk w, pf', pg', buf', None)" "ready w d"
      "building pf' (map pr_data (filter kept rs))" "entries pf' = map record_entry (filter kept rs)" "same_blocks pf' pf"
    using receive_loop_ok[OF xe v rdy wf conv(1), of h 0 rs pf "[]" pg] conv(2-) b pg e u by auto
  show ?thesis
  proof (cases "rs = []")
    case True
    then have l: "receive_loop receive_record xe (uint h) (of_nat (length rs)) 0 sk' pf pg buf = Some (sk', pf, pg, buf, None)" for sk'
      by (subst receive_loop.simps) simp
    have "d = d0" using True conv(1,2) by simp
    then show ?thesis using True l s(1) rdy b(1) e by (intro exI[of _ s] exI[of _ w0]) (auto simp: same_blocks_def)
  next
    case False
    have "ucast (0 :: u32) < (of_nat (length rs) :: u64)" using index_less[of 0 "length rs"] conv(6) False by simp
    then have "receive_loop receive_record xe (uint h) (of_nat (length rs)) 0 s pf pg buf = Some (clean sk w, pf', pg', buf', None)"
      using receive_loop_reset[of s 0] s v(2) 1(1) by simp
    then show ?thesis using 1 by (intro exI[of _ "clean sk w"] exI[of _ w]) auto
  qed
qed

lemma retrieve_receives:
  assumes xe: "undisturbed tr xe" and b: "building pf []" "\<not> resource_flag pf" "app_info pf \<noteq> Dangling"
    and nm: "get_cstr (di_name (pf_info pf)) 0 = Some name"
    and v: "sk_dlpversion sk = v" "0x0102 \<le> v" and rdy: "ready (sk_world sk) d0"
    and conv: "conversation dev d0 (fnd # opn # ap @ xs @ [cls]) d"
      "map fst (fnd # opn # ap @ xs @ [cls]) =
         retrieve_requests v (sk_maxrecsize sk) cardno h name (app_wanted dbi ds) (length rs)"
      "length ap = (if app_wanted dbi ds then 1 else 0)"
      "list_all (agreed limit v) (fnd # opn # xs @ [cls])" "list_all (carried limit v) ap"
    and fnd: "tells_db (xe_tz xe) dbi ds (snd fnd)" "ds_numRecords ds = of_nat (length rs)"
    and opn: "handle_of (snd opn) = Some h"
    and ap: "list_all (tells_app app \<circ> snd) ap" "ap = [] \<longrightarrow> app = []"
    and rs: "list_all2 (tells_record v) rs (map snd xs)"
      "list_all (\<lambda>r. one_read v (sk_maxrecsize sk) (length (pr_data r))) rs" "length rs < 65536"
      "distinct (filter (\<lambda>u. u \<noteq> 0) (map pr_uid (filter kept rs)))"
  shows "\<exists>sk' pf'. pi_file_retrieve xe pf cardno sk = Some (sk', pf', first_len (rs_argv (snd cls))) \<and>
    ready (sk_world sk') d \<and> sk_last_error sk' = 0 \<and> sk_palmos_error sk' = 0 \<and>
    building pf' (map pr_data (filter kept rs)) \<and> entries pf' = map record_entry (filter kept rs) \<and>
    same_blocks pf' (if app = [] then pf else pf\<lparr>app_info := Block app\<rparr>)"
proof -
  note u = undisturbed_D[OF xe]
  let ?env = "xe_heap xe" and ?W = "app_wanted dbi ds" and ?m = "sk_maxrecsize sk"
  have v0: "v \<noteq> 0" using v(2) by simp
  have rq: "fst fnd = find_request cardno name" "fst opn = open_request cardno 0x90 name"
    "map fst ap = (if ?W then [read_app_request h] else [])"
    "map fst xs = map (\<lambda>i. read_record_request v ?m h (of_nat i)) [0..<length rs]" "fst cls = close_request h"
    using conv(2,3) by (auto simp: retrieve_requests_def split: if_splits)
  obtain d1 d2 d3 d4 where dv: "dev d0 (request_bytes (find_request cardno name)) = (d1, response_bytes (snd fnd))"
    "dev d1 (request_bytes (open_request cardno 0x90 name)) = (d2, response_bytes (snd opn))"
    "conversation dev d2 ap d3" "conversation dev d3 xs d4"
    "dev d4 (request_bytes (close_request h)) = (d, response_bytes (snd cls))"
    using conv(1) rq(1,2,5) by (auto simp: conversation_Cons conversation_append)
  have ag: "agreed limit v (find_request cardno name, snd fnd)" "agreed limit v (open_request cardno 0x90 name, snd opn)"
    "list_all (agreed limit v) xs" "agreed limit v (close_request h, snd cls)"
    using conv(4) rq(1,2,5) by (auto simp: prod_eq_iff[symmetric]) (metis prod.collapse)+
  obtain w1 out r1 where 1: "dlp_FindDBByName ?env tr (xe_tz xe) cardno name find_by_name_want (pi_reset_errors sk) =
      Some (clean sk w1, out, r1)" "ready w1 d1" "0 < r1" "fo_info out = Some dbi" "fo_size out = Some ds"
    using find_ok[OF u(1) rdy _ dv(1) _ fnd(1)] v ag(1) by auto
  have mode: "uint (dlpOpenRead OR dlpOpenSecret) = uint (0x90 :: u32)"
    by (simp add: dlpOpenRead_def dlpOpenSecret_def)
  obtain w2 where 2: "dlp_OpenDB ?env tr cardno (uint (dlpOpenRead OR dlpOpenSecret)) name (clean sk w1) =
      Some (clean sk w2, Some (uint h), first_len (rs_argv (snd opn)))" "ready w2 d2" "0 < first_len (rs_argv (snd opn))"
    unfolding mode using open_ok[OF u(1) 1(2) dv(2) _ opn, of sk] ag(2) v by auto
  obtain buf where buf: "pi_buffer_new ?env DLP_BUF_SIZE = Some buf"
    using u(1) by (auto simp: pi_buffer_new_def malloc_def DLP_BUF_SIZE_def)
  then have wf: "pi_buffer_wf buf" using pi_buffer_new_wf by blast
  define pg where "pg = \<lparr>pg_type = PI_PROGRESS_RECEIVE_DB, pg_bytes = 0, pg_size = ds\<lparr>ds_numRecords := ds_numRecords ds\<rparr>, pg_records = 0\<rparr>"
  define pf1 where "pf1 = (if app = [] then pf else pf\<lparr>app_info := Block app, app_info_size := int (length app)\<rparr>)"
  have "\<exists>s w pg' buf'. receive_app_info xe (uint h) ?W (clean sk w2) pf pg buf = Some (s, pf1, pg', buf', None) \<and>
      pi_reset_errors s = clean sk w \<and> sk_dlpversion s = v \<and> ready w d3 \<and> pi_buffer_wf buf' \<and> pg_records pg' = 0"
  proof (cases ?W)
    case False
    then show ?thesis using 2(2) dv(3) rq(3) ap(2) wf v
      by (intro exI[of _ "clean sk w2"] exI[of _ w2]) (auto simp: receive_app_info_def pf1_def pg_def)
  next
    case True
    then obtain r where a: "ap = [(read_app_request h, r)]" using rq(3) by auto
    then have "dev d2 (request_bytes (read_app_request h)) = (d3, response_bytes r)" using dv(3) by (auto simp: conversation_Cons)
    from receive_app_ok[OF xe 2(2) wf this, of sk app pf pg] show ?thesis
      using conv(5) ap(1) a v b(3) True by (auto simp: pg_def pf1_def)
  qed
  then obtain s3 w3 pg3 buf3 where 3: "receive_app_info xe (uint h) ?W (clean sk w2) pf pg buf = Some (s3, pf1, pg3, buf3, None)"
    "pi_reset_errors s3 = clean sk w3" "sk_dlpversion s3 = v" "ready w3 d3" "pi_buffer_wf buf3" "pg_records pg3 = 0"
    by blast
  have b1: "building pf1 []" "\<not> resource_flag pf1"
    using building_blocks(1)[OF b(1)] b by (auto simp: pf1_def ptr_holds_def)
  obtain s4 w4 pf4 pg4 buf4 where 4: "receive_loop receive_record xe (uint h) (of_nat (length rs)) 0 s3 pf1 pg3 buf3 =
      Some (s4, pf4, pg4, buf4, None)" "pi_reset_errors s4 = clean sk w4" "ready w4 d4"
    "building pf4 (map pr_data (filter kept rs))" "entries pf4 = map record_entry (filter kept rs)" "same_blocks pf4 pf1"
    using receive_all_ok[OF xe v(1) v0 3(2-5) dv(4) rq(4) ag(3) rs(1-3) b1 rs(4) 3(6)] by (elim exE conjE)
  obtain w5 where 5: "dlp_CloseDB ?env tr (uint h) s4 = Some (clean sk w5, first_len (rs_argv (snd cls)))" "ready w5 d"
    using close_ok[OF u(1) 4(3) dv(5), of sk] ag(4) v close_reset[of ?env tr "uint h" s4] 4(2) by auto
  have nr: "is_resource_db (pf_info pf1) = False" using b1 by (simp add: building_def)
  have "pi_file_retrieve xe pf cardno sk = Some (clean sk w5, pf4, first_len (rs_argv (snd cls)))"
    unfolding pi_file_retrieve_def Let_def u(2)
    using 1(1,3-5) 2(1,3) buf 3(1) 4(1) 5(1) fnd(2) nr
    by (simp add: nm the_or_def app_wanted_def pg_def)
  moreover have "same_blocks pf4 (if app = [] then pf else pf\<lparr>app_info := Block app\<rparr>)"
    using 4(6) by (auto simp: same_blocks_def pf1_def)
  ultimately show ?thesis using 4(4,5) 5(2) by auto
qed

end

end
