(* ===== verification/XferProps.thy ===== *)
theory XferProps
  imports XferLink
begin

text \<open>
  The properties of the transfer of databases, on a device that answers as described: it serves a
  database, or it accepts one. Both descriptions say which requests the device gets, in which
  order, and that its answers are carried by the protocol and report no error.
\<close>

section \<open>Devices\<close>

text \<open>The device opens the database \<open>name\<close> under some handle, tells its AppInfo block (or that it has
  none) and its records; \<open>res\<close> is its answer to the close.\<close>

definition serves_database ::
  "nat \<Rightarrow> time_env \<Rightarrow> int \<Rightarrow> u64 \<Rightarrow> int \<Rightarrow> bytes \<Rightarrow> bytes \<Rightarrow> palm_record list \<Rightarrow> ('d \<Rightarrow> bytes \<Rightarrow> 'd \<times> bytes) \<Rightarrow>
   'd \<Rightarrow> 'd \<Rightarrow> int \<Rightarrow> bool" where
  "serves_database limit tz v maxrec cardno name app rs dev d0 d res \<longleftrightarrow>
     (\<exists>h dbi ds fnd opn ap xs cls. conversation dev d0 (fnd # opn # ap @ xs @ [cls]) d \<and>
        map fst (fnd # opn # ap @ xs @ [cls]) = retrieve_requests v maxrec cardno h name (app_wanted dbi ds) (length rs) \<and>
        length ap = (if app_wanted dbi ds then 1 else 0) \<and>
        list_all (agreed limit v) (fnd # opn # xs @ [cls]) \<and> list_all (carried limit v) ap \<and>
        tells_db tz dbi ds (snd fnd) \<and> ds_numRecords ds = of_nat (length rs) \<and> handle_of (snd opn) = Some h \<and>
        list_all (tells_app app \<circ> snd) ap \<and> (ap = [] \<longrightarrow> app = []) \<and>
        list_all2 (tells_record v) rs (map snd xs) \<and> res = first_len (rs_argv (snd cls)))"

text \<open>What makes the records fit: they are read in one go, and a file can hold them.\<close>

definition records_fit :: "int \<Rightarrow> u64 \<Rightarrow> palm_record list \<Rightarrow> bool" where
  "records_fit v maxrec rs \<longleftrightarrow> length rs < 65536 \<and>
     list_all (\<lambda>r. one_read v maxrec (length (pr_data r))) rs \<and>
     distinct (filter (\<lambda>u. u \<noteq> 0) (map pr_uid (filter kept rs)))"

text \<open>The device deletes a database of that name, if it has one, creates a new one and takes all that
  it is sent.\<close>

definition accepts_database ::
  "nat \<Rightarrow> int \<Rightarrow> int \<Rightarrow> DBInfo \<Rightarrow> bytes \<Rightarrow> bytes \<Rightarrow> (pi_file_entry \<times> bytes) list \<Rightarrow> ('d \<Rightarrow> bytes \<Rightarrow> 'd \<times> bytes) \<Rightarrow>
   'd \<Rightarrow> 'd \<Rightarrow> int \<Rightarrow> bool" where
  "accepts_database limit v cardno ip name app es dev d0 d res \<longleftrightarrow>
     (\<exists>h del cre xs. conversation dev d0 (del # cre # xs) d \<and>
        map fst (del # cre # xs) = install_requests v cardno h ip name app es \<and>
        carried limit v del \<and> agreed limit v cre \<and> handle_of (snd cre) = Some h \<and>
        list_all (agreed limit v) xs \<and> list_all gives_id xs \<and> res = first_len (rs_argv (snd (last xs))))"

section \<open>Retrieving and installing\<close>

text \<open>What an \<open>int\<close> counts is below the limit of the direct link.\<close>

lemma carried_int: "carried (min limit 0x7fffffff) = carried limit"
  by (auto simp: carried_def fun_eq_iff)

lemma agreed_int: "agreed (min limit 0x7fffffff) = agreed limit"
  by (simp add: agreed_def carried_int fun_eq_iff)

text \<open>Retrieving a database from a device that serves it fills the file with exactly the device's
  records that are not archived or deleted.\<close>

lemma served_retrieve:
  assumes "undisturbed (device_transport dev vers) xe" "building pf []" "\<not> resource_flag pf" "app_info pf \<noteq> Dangling"
    "get_cstr (di_name (pf_info pf)) 0 = Some name" "0x0102 \<le> sk_dlpversion sk"
    "serves_database limit (xe_tz xe) (sk_dlpversion sk) (sk_maxrecsize sk) cardno name app rs dev (fst (sk_world sk)) d res"
    "records_fit (sk_dlpversion sk) (sk_maxrecsize sk) rs"
  shows "\<exists>sk' pf'. pi_file_retrieve xe pf cardno sk = Some (sk', pf', res) \<and>
    fst (sk_world sk') = d \<and> sk_last_error sk' = 0 \<and> sk_palmos_error sk' = 0 \<and>
    building pf' (map pr_data (filter kept rs)) \<and> entries pf' = map record_entry (filter kept rs) \<and>
    same_blocks pf' (if app = [] then pf else pf\<lparr>app_info := Block app\<rparr>)"
proof -
  obtain h dbi ds fnd opn ap xs cls where c: "conversation dev (fst (sk_world sk)) (fnd # opn # ap @ xs @ [cls]) d"
    "map fst (fnd # opn # ap @ xs @ [cls]) = retrieve_requests (sk_dlpversion sk) (sk_maxrecsize sk) cardno h name
       (app_wanted dbi ds) (length rs)" "length ap = (if app_wanted dbi ds then 1 else 0)"
    "list_all (agreed limit (sk_dlpversion sk)) (fnd # opn # xs @ [cls])" "list_all (carried limit (sk_dlpversion sk)) ap"
    "tells_db (xe_tz xe) dbi ds (snd fnd)" "ds_numRecords ds = of_nat (length rs)" "handle_of (snd opn) = Some h"
    "list_all (tells_app app \<circ> snd) ap" "ap = [] \<longrightarrow> app = []" "list_all2 (tells_record (sk_dlpversion sk)) rs (map snd xs)"
    "res = first_len (rs_argv (snd cls))"
    using assms(7) unfolding serves_database_def by blast
  show ?thesis
    using direct.retrieve_receives[where limit = limit, unfolded carried_int agreed_int, OF assms(1-5) refl assms(6) refl c(1-11)] assms(8) c(12)
    by (simp add: records_fit_def)
qed

lemma accepted_install:
  assumes "undisturbed (device_transport dev vers) xe" "building src chunks" "opened src chunks pf"
    "is_resource_db (pf_info pf) = resource_flag src" "list_all (\<lambda>c. length c \<le> 0xfff0) chunks" "length chunks < 65536"
    "get_cstr (di_name (pf_info pf)) 0 = Some name" "ptr_holds (app_info pf) (app_info_size pf)"
    "length (block_bytes (app_info pf)) \<le> 0xfff0" "sk_dlpversion sk \<noteq> 0"
    "accepts_database limit (sk_dlpversion sk) cardno (pf_info pf) name (block_bytes (app_info pf))
       (zip (entries src) chunks) dev (fst (sk_world sk)) d res"
  shows "\<exists>sk' pf'. pi_file_install xe pf cardno sk = Some (sk', pf', res) \<and>
    fst (sk_world sk') = d \<and> sk_last_error sk' = 0 \<and> sk_palmos_error sk' = 0"
proof -
  obtain h del cre xs where c: "conversation dev (fst (sk_world sk)) (del # cre # xs) d"
    "map fst (del # cre # xs) = install_requests (sk_dlpversion sk) cardno h (pf_info pf) name
       (block_bytes (app_info pf)) (zip (entries src) chunks)"
    "carried limit (sk_dlpversion sk) del" "agreed limit (sk_dlpversion sk) cre" "handle_of (snd cre) = Some h"
    "list_all (agreed limit (sk_dlpversion sk)) xs" "list_all gives_id xs" "res = first_len (rs_argv (snd (last xs)))"
    using assms(11) unfolding accepts_database_def by blast
  show ?thesis
    using direct.install_sends[where limit = limit, unfolded carried_int agreed_int, OF assms(1-9) refl assms(10) refl c(1-7)] c(8) by simp
qed

text \<open>C3: installing a database file that was opened for reading makes exactly the requests that its
  contents prescribe, in order: the deletion and creation of the database, its AppInfo block
  (lengthened for an old Memo Pad), every entry of the file with its data and attributes, the reset
  where one is due, and the close, whose answer is the result.\<close>

theorem pi_file_install_sends:
  assumes "undisturbed (device_transport dev vers) xe" "building src chunks" "opened src chunks pf"
    "is_resource_db (pf_info pf) = resource_flag src" "list_all (\<lambda>c. length c \<le> 0xfff0) chunks" "length chunks < 65536"
    "get_cstr (di_name (pf_info pf)) 0 = Some name" "ptr_holds (app_info pf) (app_info_size pf)"
    "length (block_bytes (app_info pf)) \<le> 0xfff0" "sk_dlpversion sk \<noteq> 0"
    "accepts_database limit (sk_dlpversion sk) cardno (pf_info pf) name (block_bytes (app_info pf))
       (zip (entries src) chunks) dev (fst (sk_world sk)) d res"
  shows "\<exists>sk' pf'. pi_file_install xe pf cardno sk = Some (sk', pf', res) \<and>
    fst (sk_world sk') = d \<and> sk_last_error sk' = 0 \<and> sk_palmos_error sk' = 0"
  by (rule accepted_install[OF assms])

section \<open>From one device to another\<close>

lemma stored_name:
  assumes "get_cstr bs 0 = Some name" "length name < 32"
  shows "get_cstr (take 32 bs @ ys) 0 = Some name"
proof -
  have z: "0 \<in> set bs" and n: "name = takeWhile (\<lambda>b. b \<noteq> 0) bs"
    using assms(1) by (auto simp: get_cstr_def split: if_splits)
  have "length name < length bs" using get_cstr_inside[OF assms(1)] by simp
  moreover from this have "bs ! length name = 0"
    unfolding n using nth_length_takeWhile[of "\<lambda>b. b \<noteq> 0" bs] by simp
  ultimately have 0: "0 \<in> set (take 32 bs)" using assms(2) by (auto simp: in_set_conv_nth)
  have "takeWhile (\<lambda>b. b \<noteq> 0) bs = takeWhile (\<lambda>b. b \<noteq> 0) (take 32 bs @ drop 32 bs)" by simp
  also have "\<dots> = takeWhile (\<lambda>b. b \<noteq> 0) (take 32 bs)" by (rule takeWhile_append1[OF 0]) simp
  also have "\<dots> = takeWhile (\<lambda>b. b \<noteq> 0) (take 32 bs @ ys)" by (rule takeWhile_append1[OF 0, symmetric]) simp
  finally show ?thesis using 0 n by (simp add: get_cstr_def)
qed

lemma record_entry_fits: "pr_uid r < 2 ^ 24 \<Longrightarrow> entry_fits False (record_entry r)"
proof -
  assume "pr_uid r < 2 ^ 24"
  then have "uint (pr_uid r) < 2 ^ 24" by (simp add: word_less_def)
  then have "take_bit 24 (pr_uid r) = pr_uid r"
    by (simp add: word_uint_eq_iff unsigned_take_bit_eq take_bit_int_eq_self)
  then have "take_bit 24 (ucast (pr_uid r) :: u64) = ucast (pr_uid r)" by (metis unsigned_take_bit_eq)
  moreover have "uint (pr_attr r) AND 0xf0 OR uint (pr_cat r) AND 0xf = uint (pr_attr r AND 0xf0 OR pr_cat r AND 0xf)"
    by (simp add: unsigned_or_eq unsigned_and_eq)
  moreover have "uint (pr_attr r AND 0xf0 OR pr_cat r AND 0xf) < 256" using uint_bounded[of "pr_attr r AND 0xf0 OR pr_cat r AND 0xf"] by simp
  ultimately show ?thesis by (simp add: entry_fits_def record_entry_def zero_entry_def)
qed

lemma record_image_length:
  assumes "building pf chunks" "\<not> resource_flag pf" "sort_info pf = Null"
  shows "length (file_image pf chunks) = 80 + 8 * length chunks + length (block_bytes (app_info pf)) + length (concat chunks)"
  using header_image_length[of pf] table_image_length[OF assms(1)] building_length[OF assms(1)] assms
  by (simp add: file_image_def PI_HDR_SIZE_def PI_RECORD_ENT_SIZE_def building_def block_bytes_def)

text \<open>Records whose file can be written and restored: identifiers of 24 bits, data that a device of any
  version takes, and a file below 2 GiB.\<close>

definition records_storable :: "bytes \<Rightarrow> palm_record list \<Rightarrow> bool" where
  "records_storable app rs \<longleftrightarrow> list_all (\<lambda>r. pr_uid r < 2 ^ 24 \<and> length (pr_data r) \<le> 0xfff0) rs \<and> length app \<le> 0xfff0 \<and>
     length (concat (map pr_data rs)) < 0x70000000"

text \<open>C2: a database that is retrieved from one device into a new file, written to disk, read from disk
  and installed on another device arrives there with the records of the first device that are not
  deleted, in order, with their data, attributes, categories and identifiers, and with the same
  AppInfo block; no step fails.\<close>

theorem backup_then_restore:
  assumes "undisturbed (device_transport devA versA) xeA" "undisturbed (device_transport devB versB) xeB"
    "all_alloc env" "good_disk disk" "pi_file_create envC fname info = Some pf" "info_fits info" "\<not> is_resource_db info"
    "get_cstr (di_name info) 0 = Some name" "length name < 32"
    "0x0102 \<le> sk_dlpversion skA" "sk_dlpversion skB \<noteq> 0"
    "serves_database limit (xe_tz xeA) (sk_dlpversion skA) (sk_maxrecsize skA) cardA name app rs devA
       (fst (sk_world skA)) dA resA"
    "records_fit (sk_dlpversion skA) (sk_maxrecsize skA) rs" "records_storable app rs"
    "accepts_database limit (sk_dlpversion skB) cardB (stored_info info) name app
       (map (\<lambda>r. (record_entry r, pr_data r)) (filter kept rs)) devB (fst (sk_world skB)) dB resB"
  shows "\<exists>skA' pf1 img pf2 skB' pf3.
    pi_file_retrieve xeA pf cardA skA = Some (skA', pf1, resA) \<and> fst (sk_world skA') = dA \<and>
    pi_file_close disk (Some pf1) = Some (0, Some img) \<and> pi_file_open env (Some img) = Some (Some pf2) \<and>
    pi_file_install xeB pf2 cardB skB = Some (skB', pf3, resB) \<and> fst (sk_world skB') = dB \<and>
    sk_last_error skB' = 0 \<and> sk_palmos_error skB' = 0"
proof -
  let ?chunks = "map pr_data (filter kept rs)"
  have n34: "length (di_name info) = 34" using assms(6) by (simp add: info_fits_def)
  have pf: "building pf []" "pf_info pf = info" "\<not> resource_flag pf" "app_info pf = Null" "sort_info pf = Null"
    "unique_id_seed pf = 0"
  proof -
    show "building pf []" "pf_info pf = info" using create_building[OF assms(5) n34] by auto
    show "\<not> resource_flag pf" "app_info pf = Null" "sort_info pf = Null" "unique_id_seed pf = 0"
      using assms(5,7) by (auto simp: pi_file_create_def zero_pi_file_def split: if_splits option.splits)
  qed
  obtain skA' pf1 where 1: "pi_file_retrieve xeA pf cardA skA = Some (skA', pf1, resA)" "fst (sk_world skA') = dA"
    "building pf1 ?chunks" "entries pf1 = map record_entry (filter kept rs)"
    "same_blocks pf1 (if app = [] then pf else pf\<lparr>app_info := Block app\<rparr>)"
    using served_retrieve[OF assms(1) pf(1,3) _ _ assms(10,12,13)] pf(2,4) assms(8) by auto
  have f1: "pf_info pf1 = info" "\<not> resource_flag pf1" "block_bytes (app_info pf1) = app" "sort_info pf1 = Null"
    "unique_id_seed pf1 = 0" "app_info pf1 \<noteq> Dangling"
    using 1(5) pf by (auto simp: same_blocks_def block_bytes_def split: if_splits)
  have us: "usable pf1" using 1(3) f1 by (auto simp: usable_def building_def)
  have st: "list_all (\<lambda>r. pr_uid r < 2 ^ 24) rs" "list_all (\<lambda>c. length c \<le> 0xfff0) ?chunks" "length app \<le> 0xfff0"
    using assms(14) by (auto simp: records_storable_def list_all_iff)
  have fits: "list_all (entry_fits (resource_flag pf1)) (entries pf1)"
    using st(1) f1(2) record_entry_fits by (auto simp: 1(4) list_all_iff)
  have len: "length ?chunks < 65536"
    using assms(13) le_less_trans[OF length_filter_le[of kept rs]] by (simp add: records_fit_def)
  have "length (concat ?chunks) \<le> length (concat (map pr_data rs))" by (induction rs) auto
  then have img: "length (file_image pf1 ?chunks) < 0x80000000"
    using record_image_length[OF 1(3) f1(2,4)] f1(3) st(3) len assms(14) by (simp add: records_storable_def)
  have seed: "take_bit 32 (unique_id_seed pf1) = unique_id_seed pf1" using f1(5) by simp
  have cl: "pi_file_close disk (Some pf1) = Some (0, Some (file_image pf1 ?chunks))"
    by (rule close_image[OF 1(3) us len img assms(4)])
  obtain pf2 where 2: "pi_file_open env (Some (file_image pf1 ?chunks)) = Some (Some pf2)" "opened pf1 ?chunks pf2"
    "pf_info pf2 = stored_info info" "app_info pf2 = stored_ptr (app_info pf1)"
    "ptr_holds (app_info pf2) (app_info_size pf2)"
    using open_image[OF 1(3) assms(3) _ fits seed len img] f1(1) assms(6) 1(3)
    by (fastforce simp: opened_def zero_pi_file_def building_def ptr_holds_def stored_ptr_def split: mem_ptr.splits)
  have bb: "block_bytes (app_info pf2) = app" using f1(3) 2(4)
    by (auto simp: stored_ptr_def block_bytes_def split: mem_ptr.splits)
  have nm: "get_cstr (di_name (pf_info pf2)) 0 = Some name"
    using stored_name[OF assms(8,9)] by (simp add: 2(3) stored_info_def)
  have nr: "is_resource_db (pf_info pf2) = resource_flag pf1"
    using f1(2) assms(7) by (simp add: 2(3) stored_info_def is_resource_db_def)
  have z: "zip (entries pf1) ?chunks = map (\<lambda>r. (record_entry r, pr_data r)) (filter kept rs)"
    unfolding 1(4) by (induction rs) auto
  obtain skB' pf3 where 3: "pi_file_install xeB pf2 cardB skB = Some (skB', pf3, resB)" "fst (sk_world skB') = dB"
    "sk_last_error skB' = 0" "sk_palmos_error skB' = 0"
  proof -
    have "accepts_database limit (sk_dlpversion skB) cardB (pf_info pf2) name (block_bytes (app_info pf2))
        (zip (entries pf1) ?chunks) devB (fst (sk_world skB)) dB resB" unfolding bb z 2(3) by (rule assms(15))
    then show ?thesis
      using accepted_install[OF assms(2) 1(3) 2(2) nr st(2) len nm 2(5) _ assms(11)] bb st(3) that by blast
  qed
  show ?thesis
    by (intro exI[of _ skA'] exI[of _ pf1] exI[of _ "file_image pf1 ?chunks"] exI[of _ pf2] exI[of _ skB'] exI[of _ pf3])
      (simp add: 1(1,2) cl 2(1) 3)
qed

section \<open>Examples\<close>

text \<open>A device that gives prepared answers.\<close>

definition script :: "bytes list \<Rightarrow> bytes \<Rightarrow> bytes list \<times> bytes" where
  "script rest rq = (case rest of [] \<Rightarrow> ([], []) | a # as \<Rightarrow> (as, a))"

lemma script_conversation: "conversation script (map (response_bytes \<circ> snd) xs) xs []"
proof (induction xs)
  case (Cons x xs)
  then show ?case by (cases x) (auto simp: conversation_Cons script_def)
qed simp

definition script_sock :: "exchange list \<Rightarrow> (bytes list \<times> bytes) pi_sock" where
  "script_sock xs = \<lparr>sk_world = (map (response_bytes \<circ> snd) xs, []), sk_last_error = 0, sk_palmos_error = 0, sk_cmp = True,
     sk_dlpversion = 0x0102, sk_maxrecsize = 0xffff, sk_dlprecord = 0, sk_honor_rx_to = 1, sk_ended = False\<rparr>"

definition sample_xfer :: "(bytes list \<times> bytes) xfer_env" where
  "sample_xfer = \<lparr>xe_heap = calloc_env, xe_tr = device_transport script 0,
     xe_tz = \<lparr>tz_mktime = (\<lambda>_. 0), tz_localtime = (\<lambda>_. zero_tm)\<rparr>, xe_connected = (\<lambda>_. True), xe_report = None,
     xe_junk = no_rec_out, xe_junk_int = 0, xe_junk_long = 0\<rparr>"

lemma sample_undisturbed: "undisturbed (device_transport script 0) sample_xfer"
  by (simp add: undisturbed_def sample_xfer_def silent_def stopped_def)

definition sample_records :: "palm_record list" where
  "sample_records = [\<lparr>pr_uid = 7, pr_attr = 0x40, pr_cat = 1, pr_data = [1, 2, 3]\<rparr>,
     \<lparr>pr_uid = 8, pr_attr = 0x80, pr_cat = 0, pr_data = [6]\<rparr>, \<lparr>pr_uid = 9, pr_attr = 0, pr_cat = 0, pr_data = [4]\<rparr>]"

definition record_answer :: "palm_record \<Rightarrow> dlpResponse" where
  "record_answer r = answer 0x20 (set_long (pr_uid r) @ [0, 0, 0, 0] @ [pr_attr r, pr_cat r] @ pr_data r)"

definition find_answer :: dlpResponse where
  "find_answer = \<lparr>rs_cmd = 0x39, rs_err = 0,
     rs_argv = [\<lparr>arg_id = 0x20, arg_data = replicate 11 0 @ [0x40] @ replicate 90 0\<rparr>,
                \<lparr>arg_id = 0x21, arg_data = set_long 3 @ replicate 20 0\<rparr>]\<rparr>"

definition done_answer :: "u8 \<Rightarrow> dlpResponse" where
  "done_answer cmd = \<lparr>rs_cmd = cmd, rs_err = 0, rs_argv = []\<rparr>"

definition serve_script :: "exchange list" where
  "serve_script = zip (retrieve_requests 0x0102 0xffff 0 5 [] True 3)
     ([find_answer, answer 0x17 [5], answer 0x1b [0, 2, 9, 9]] @ map record_answer sample_records @ [done_answer 0x19])"

definition accept_script :: "(pi_file_entry \<times> bytes) list \<Rightarrow> exchange list" where
  "accept_script es = zip (install_requests 0x0102 0 5 (stored_info zero_DBInfo) [] [9, 9] es)
     [\<lparr>rs_cmd = 0x1a, rs_err = 7, rs_argv = []\<rparr>, answer 0x18 [5], done_answer 0x1c, answer 0x21 [0, 0, 0, 7],
      answer 0x21 [0, 0, 0, 9], done_answer 0x19]"

lemma arg_bytes_le: "length (arg_bytes a) \<le> length (arg_data a) + 6"
  by (simp add: arg_bytes_def Let_def)

lemma small_carried:
  assumes "cmd_accepted cmd c" "c AND 0x80 = 0" "length args < 256" "list_all (\<lambda>a. 0 \<le> arg_id a \<and> arg_id a < 64 \<and> length (arg_data a) < 0xff) args"
    "length bs + 8 \<le> min limit 0x7fffffff" "sum_list (map (\<lambda>a. length (arg_data a) + 6) args) + 4 \<le> min limit 0x7fffffff"
    "0 \<le> e" "e < 65536"
  shows "carried limit v (rq1 cmd i bs, \<lparr>rs_cmd = c, rs_err = e, rs_argv = args\<rparr>)"
proof -
  have l: "length (concat (map arg_bytes args)) \<le> sum_list (map (\<lambda>a. length (arg_data a) + 6) args)"
    by (induction args) (auto intro: add_mono arg_bytes_le)
  have f: "list_all arg_fits args" "list_all arg_short args" using assms(4)
  proof (induction args)
    case (Cons a args)
    { case 1 then show ?case using Cons by (simp add: arg_fits_def) }
    { case 2 then show ?case using Cons arg_head(1)[of "arg_id a"] by (simp add: arg_short_def PI_DLP_ARG_SHORT_LEN_def PI_DLP_ARG_FLAG_LONG_def) }
  qed simp_all
  show ?thesis using assms l f arg_bytes_le[of "\<lparr>arg_id = i, arg_data = bs\<rparr>"]
    by (simp add: carried_def response_fits_def request_bytes_def response_bytes_def rq1_def)
qed

lemmas exchange_defs = record_answer_def answer_def find_answer_def done_answer_def delete_request_def create_request_def
  app_request_def record_request_def find_request_def open_request_def read_app_request_def read_record_request_def
  close_request_def c_string_def cmd_accepted_def agreed_def

lemma serve_list: "serve_script =
  [(find_request 0 [], find_answer), (open_request 0 0x90 [], answer 0x17 [5]), (read_app_request 5, answer 0x1b [0, 2, 9, 9]),
   (read_record_request 0x0102 0xffff 5 0, record_answer (sample_records ! 0)),
   (read_record_request 0x0102 0xffff 5 1, record_answer (sample_records ! 1)),
   (read_record_request 0x0102 0xffff 5 2, record_answer (sample_records ! 2)),
   (close_request 5, done_answer 0x19)]"
  by (simp add: serve_script_def retrieve_requests_def sample_records_def upt_rec)

lemma serve_agreed: "list_all (agreed 1000 0x0102) serve_script"
  unfolding serve_list sample_records_def exchange_defs
  by (simp add: small_carried dlpFuncReadRecord_def cmd_accepted_def)

lemma serve_found: "tells_db (xe_tz sample_xfer) (zero_DBInfo\<lparr>di_miscFlags := 0x40, di_createDate := PALM_EPOCH,
     di_modifyDate := PALM_EPOCH, di_backupDate := PALM_EPOCH\<rparr>) (zero_DBSizeInfo\<lparr>ds_numRecords := 3\<rparr>) find_answer"
  (is "tells_db _ ?dbi ?ds _")
proof -
  have "map_option (\<lambda>out. (fo_info out, fo_size out)) (dlp_decode_finddb_response (xe_tz sample_xfer) find_by_name_want
      (rs_argv find_answer) (no_find_out find_by_name_want)) = Some (Some ?dbi, Some ?ds)"
    unfolding sample_xfer_def by code_simp
  then show ?thesis by (auto simp: tells_db_def find_answer_def first_len_def)
qed

lemma served_sample:
  "serves_database 1000 (xe_tz sample_xfer) 0x0102 0xffff 0 [] [9, 9] sample_records script
     (map (response_bytes \<circ> snd) serve_script) [] 0"
proof -
  let ?dbi = "zero_DBInfo\<lparr>di_miscFlags := 0x40, di_createDate := PALM_EPOCH, di_modifyDate := PALM_EPOCH,
     di_backupDate := PALM_EPOCH\<rparr>" and ?ds = "zero_DBSizeInfo\<lparr>ds_numRecords := 3\<rparr>"
  let ?fnd = "(find_request 0 [], find_answer)" and ?opn = "(open_request 0 0x90 [], answer 0x17 [5])"
    and ?ap = "[(read_app_request 5, answer 0x1b [0, 2, 9, 9])]" and ?cls = "(close_request 5, done_answer 0x19)"
    and ?xs = "[(read_record_request 0x0102 0xffff 5 0, record_answer (sample_records ! 0)),
      (read_record_request 0x0102 0xffff 5 1, record_answer (sample_records ! 1)),
      (read_record_request 0x0102 0xffff 5 2, record_answer (sample_records ! 2))]"
  have l: "serve_script = ?fnd # ?opn # ?ap @ ?xs @ [?cls]" unfolding serve_list by simp
  have w: "app_wanted ?dbi ?ds" by (simp add: app_wanted_def dlpDBMiscFlagRamBased_def)
  have c: "conversation script (map (response_bytes \<circ> snd) serve_script) (?fnd # ?opn # ?ap @ ?xs @ [?cls]) []"
    using script_conversation[of serve_script] unfolding l .
  have m: "map fst (?fnd # ?opn # ?ap @ ?xs @ [?cls]) = retrieve_requests 0x0102 0xffff 0 5 [] (app_wanted ?dbi ?ds) (length sample_records)"
    using w by (simp add: retrieve_requests_def sample_records_def upt_rec)
  have ag: "list_all (agreed 1000 0x0102) (?fnd # ?opn # ?xs @ [?cls])" "list_all (carried 1000 0x0102) ?ap"
    using serve_agreed unfolding l by (auto simp: agreed_def)
  have t: "list_all2 (tells_record 0x0102) sample_records (map snd ?xs)"
    by (auto simp: sample_records_def tells_record_def record_answer_def answer_def intro!: exI[of _ "[0, 0, 0, 0]"])
  have a: "list_all (tells_app [9, 9] \<circ> snd) ?ap" by (auto simp: tells_app_def answer_def intro!: exI[of _ "[0, 2]"])
  show ?thesis unfolding serves_database_def
    by (rule exI[of _ 5], rule exI[of _ ?dbi], rule exI[of _ ?ds], rule exI[of _ ?fnd], rule exI[of _ ?opn],
        rule exI[of _ ?ap], rule exI[of _ ?xs], rule exI[of _ ?cls])
      (use c m ag t a w serve_found in \<open>simp add: sample_records_def handle_of_def answer_def done_answer_def first_len_def\<close>)
qed

lemmas script_defs = install_requests_def all_requests_def entry_requests_def stored_info_def zero_DBInfo_def is_resource_db_def
  dlpDBFlagResource_def kept_def record_entry_def zero_entry_def install_reset_def boots_def tag_ptch_def mktag_def
  install_app_def memo_db_def graffiti_shortcuts_blank_def exchange_defs

lemma rq1_cmd [simp]: "rq_cmd (rq1 c i bs) = c"
  by (simp add: rq1_def)

lemma accepted_script:
  assumes "accept_script es = del # cre # xs" "map fst (accept_script es) =
      install_requests 0x0102 0 5 (stored_info zero_DBInfo) [] [9, 9] es" "carried 1000 0x0102 del"
    "agreed 1000 0x0102 cre" "handle_of (snd cre) = Some 5" "list_all (agreed 1000 0x0102) xs" "list_all gives_id xs"
    "first_len (rs_argv (snd (last xs))) = 0"
  shows "accepts_database 1000 0x0102 0 (stored_info zero_DBInfo) [] [9, 9] es script
     (map (response_bytes \<circ> snd) (accept_script es)) [] 0"
  unfolding accepts_database_def using assms script_conversation[of "accept_script es"]
  by (intro exI[of _ 5] exI[of _ del] exI[of _ cre] exI[of _ xs]) simp

lemma accepted_sample:
  assumes "es = map (\<lambda>r. (record_entry r, pr_data r)) (filter kept sample_records) \<or>
    es = zip (entries sample_file) sample_chunks"
  shows "accepts_database 1000 0x0102 0 (stored_info zero_DBInfo) [] [9, 9] es script
     (map (response_bytes \<circ> snd) (accept_script es)) [] 0"
  using assms
  by (elim disjE; intro accepted_script[where del = "hd (accept_script es)" and cre = "hd (tl (accept_script es))" and
        xs = "tl (tl (accept_script es))"];
      simp add: accept_script_def script_defs sample_records_def sample_file_def sample_chunks_def zero_pi_file_def
        small_carried handle_of_def gives_id_def first_len_def)

lemma sample_info: "info_fits zero_DBInfo" "\<not> is_resource_db zero_DBInfo" "get_cstr (di_name zero_DBInfo) 0 = Some []"
  using sample_fits(3)
  by (simp_all add: sample_file_def zero_pi_file_def is_resource_db_def zero_DBInfo_def dlpDBFlagResource_def get_cstr_def)

lemma sample_rest:
  "records_fit 0x0102 0xffff sample_records" "records_storable [9, 9] sample_records" "good_disk sample_disk"
  by (simp_all add: records_fit_def records_storable_def sample_records_def one_read_def kept_def good_disk_def sample_disk_def)

theorem backup_then_restore_witness:
  "\<exists>pf skA pf1 img pf2 skB pf3. pi_file_create calloc_env [100, 98] zero_DBInfo = Some pf \<and>
    pi_file_retrieve sample_xfer pf 0 (script_sock serve_script) = Some (skA, pf1, 0) \<and>
    pi_file_close sample_disk (Some pf1) = Some (0, Some img) \<and> pi_file_open calloc_env (Some img) = Some (Some pf2) \<and>
    pi_file_install sample_xfer pf2 0 (script_sock (accept_script
      (map (\<lambda>r. (record_entry r, pr_data r)) (filter kept sample_records)))) = Some (skB, pf3, 0) \<and>
    fst (sk_world skB) = []"
proof -
  obtain pf where pf: "pi_file_create calloc_env [100, 98] zero_DBInfo = Some pf"
    by (simp add: pi_file_create_def calloc_env_def pi_buffer_new_def malloc_def)
  let ?es = "map (\<lambda>r. (record_entry r, pr_data r)) (filter kept sample_records)"
  let ?A = "script_sock serve_script" and ?B = "script_sock (accept_script ?es)"
  have v: "0x0102 \<le> sk_dlpversion ?A" "sk_dlpversion ?B \<noteq> 0" by (simp_all add: script_sock_def)
  have sv: "serves_database 1000 (xe_tz sample_xfer) (sk_dlpversion ?A) (sk_maxrecsize ?A) 0 [] [9, 9] sample_records script
     (fst (sk_world ?A)) [] 0" "records_fit (sk_dlpversion ?A) (sk_maxrecsize ?A) sample_records"
    using served_sample sample_rest(1) by (simp_all add: script_sock_def)
  have ac: "accepts_database 1000 (sk_dlpversion ?B) 0 (stored_info zero_DBInfo) [] [9, 9] ?es script (fst (sk_world ?B)) [] 0"
    using accepted_sample[of ?es] by (simp add: script_sock_def)
  have short: "length ([] :: bytes) < 32" by simp
  show ?thesis
    using backup_then_restore[OF sample_undisturbed sample_undisturbed sample_fits(2) sample_rest(3) pf sample_info short v
        sv sample_rest(2) ac] pf by blast
qed

text \<open>The sample file, opened for reading.\<close>

lemma sample_opened:
  "\<exists>pf. pi_file_open calloc_env (Some (file_image sample_file sample_chunks)) = Some (Some pf) \<and>
     opened sample_file sample_chunks pf \<and> pf_info pf = stored_info zero_DBInfo \<and> app_info pf = Block [9, 9] \<and>
     app_info_size pf = 2"
  using open_image[OF sample_building sample_fits(2-6) sample_size]
  by (auto simp: opened_def zero_pi_file_def sample_file_def stored_ptr_def)

theorem pi_file_install_sends_witness:
  "\<exists>pf sk pf'. pi_file_open calloc_env (Some (file_image sample_file sample_chunks)) = Some (Some pf) \<and>
     pi_file_install sample_xfer pf 0 (script_sock (accept_script (zip (entries sample_file) sample_chunks))) = Some (sk, pf', 0) \<and>
     fst (sk_world sk) = []"
proof -
  obtain pf where pf: "pi_file_open calloc_env (Some (file_image sample_file sample_chunks)) = Some (Some pf)"
    "opened sample_file sample_chunks pf" "pf_info pf = stored_info zero_DBInfo" "app_info pf = Block [9, 9]"
    "app_info_size pf = 2" using sample_opened by (elim exE conjE)
  let ?sk = "script_sock (accept_script (zip (entries sample_file) sample_chunks))"
  have h: "is_resource_db (pf_info pf) = resource_flag sample_file" "list_all (\<lambda>c. length c \<le> 0xfff0) sample_chunks"
    "get_cstr (di_name (pf_info pf)) 0 = Some []" "ptr_holds (app_info pf) (app_info_size pf)"
    "length (block_bytes (app_info pf)) \<le> 0xfff0" "sk_dlpversion ?sk \<noteq> 0"
    using pf(3-5) by (simp_all add: stored_info_def zero_DBInfo_def is_resource_db_def sample_file_def zero_pi_file_def
        sample_chunks_def get_cstr_def ptr_holds_def block_bytes_def script_sock_def)
  have ac: "accepts_database 1000 (sk_dlpversion ?sk) 0 (pf_info pf) [] (block_bytes (app_info pf))
      (zip (entries sample_file) sample_chunks) script (fst (sk_world ?sk)) [] 0"
    using accepted_sample[of "zip (entries sample_file) sample_chunks"] pf(3,4) by (simp add: script_sock_def block_bytes_def)
  show ?thesis
    using pi_file_install_sends[OF sample_undisturbed sample_building pf(2) h(1,2) sample_fits(6) h(3-6) ac] pf(1) by blast
qed

section \<open>A record that is too large\<close>

lemma check_sizes_stops:
  assumes b: "building src chunks" "opened src chunks pf" "is_resource_db (pf_info pf) = resource_flag src"
    and v: "v < 0x0104"
  shows "n \<le> length chunks \<Longrightarrow> \<exists>c \<in> set (drop (length chunks - n) chunks). 65536 < length c \<Longrightarrow>
    \<exists>t'. check_sizes xe False v n (int (length chunks - n)) pf t sk = Some (sk, pf, t', Some 0)"
proof (induction n arbitrary: t)
  case (Suc n)
  define i where "i = length chunks - Suc n"
  have i: "i < length chunks" "length chunks - n = Suc i" "int (length chunks - n) = int i + 1"
    using Suc.prems by (auto simp: i_def)
  note e = opened_entry[OF b(1,2) i(1)]
  have w: "\<not> for_writing pf" "resource_flag pf = resource_flag src" using b(2) by (auto simp: opened_def)
  have r: "read_entry_of env pf (int i) False = Some (pf, 0, Some (entry_out None (entries pf ! i)))" for env
    using w e(1) b(3)
    by (simp add: read_entry_of_def pi_file_read_resource_def pi_file_read_record_def num_entries_def)
  have sz: "ro_size (entry_out None (entries pf ! i)) = length (chunks ! i)" using e(2) by (simp add: entry_out_def)
  show ?case
  proof (cases "65536 < length (chunks ! i)")
    case True
    then show ?thesis using r sz v unfolding i_def[symmetric] by simp
  next
    case False
    have "\<exists>c \<in> set (drop (Suc i) chunks). 65536 < length c"
      using Suc.prems(2) False i(1) unfolding i_def[symmetric] by (simp add: Cons_nth_drop_Suc[symmetric])
    then obtain t' where "check_sizes xe False v n (int i + 1) pf (t + of_nat (length (chunks ! i))) sk = Some (sk, pf, t', Some 0)"
      using Suc.IH[OF Suc_leD[OF Suc.prems(1)]] i(2,3) by metis
    then show ?thesis using r sz v False unfolding i_def[symmetric] by simp
  qed
qed simp

text \<open>C38: the check of the sizes, which is meant to spare the device a transfer that must fail, ends by
  deleting the database on the device: with an entry of more than 64K and a device of a version
  before 1.4, \<open>pi_file_install\<close> sends one request, the deletion of the database of that name, and
  reports a file error instead of the size.\<close>

theorem install_oversize_deletes:
  assumes "all_alloc (xe_heap xe)" "xe_tr xe = device_transport dev vers" "\<forall>sk. xe_connected xe sk"
    "building src chunks" "opened src chunks pf" "is_resource_db (pf_info pf) = resource_flag src"
    "get_cstr (di_name (pf_info pf)) 0 = Some name" "\<exists>c \<in> set chunks. 65536 < length c"
    "sk_dlpversion sk \<noteq> 0" "sk_dlpversion sk < 0x0104"
    "dev (fst (sk_world sk)) (request_bytes (delete_request cardno name)) = (d, response_bytes rs)"
    "carried limit (sk_dlpversion sk) (delete_request cardno name, rs)"
  shows "\<exists>sk'. pi_file_install xe pf cardno sk = Some (sk', pf, PI_ERR_FILE_ERROR) \<and> fst (sk_world sk') = d \<and>
    sk_last_error sk' = PI_ERR_FILE_ERROR"
proof -
  have n: "length (entries pf) = length chunks"
    using building_length[OF assms(4)] assms(5) by (metis length_map opened_def place_length)
  obtain t' where cs: "check_sizes xe False (sk_dlpversion sk) (length chunks) 0 pf (word_of_int (app_info_size pf)) sk =
      Some (sk, pf, t', Some 0)"
    using check_sizes_stops[OF assms(4-6,10) order_refl, of xe "word_of_int (app_info_size pf)" sk] assms(8) by auto
  obtain m where ver: "pi_version (xe_tr xe) sk = (sk_dlpversion sk, sk)" "pi_maxrecsize (xe_tr xe) sk = (m, sk)"
    using assms(9) by (auto simp: pi_version_known pi_maxrecsize_def)
  obtain sk1 w r where dl: "dlp_DeleteDB (xe_heap xe) (device_transport dev vers) cardno name sk = Some (sk1, r)" "fst w = d"
    "pi_reset_errors sk1 = clean sk w"
    using direct.delete_any[where env = "xe_heap xe" and sk = sk and dev = dev and cardno = cardno and name = name
        and d = d and rs = rs and vers = vers and limit = limit, unfolded carried_int] assms(1,11,12) by blast
  have "sk_world sk1 = w" using arg_cong[OF dl(3), of sk_world] by simp
  then show ?thesis using dl(1,2) cs ver assms(2,3,7)
    by (simp add: pi_file_install_def n install_fail_def file_error_def pi_set_error_def)
qed

definition large_file :: pi_file where
  "large_file = zero_pi_file\<lparr>for_writing := True, ent_hdr_size := PI_RECORD_ENT_SIZE,
     tmpbuf := Some (buf_of (replicate 70000 1)), entries := [zero_entry\<lparr>pe_size := 70000, pe_uid := 7\<rparr>]\<rparr>"

theorem install_oversize_deletes_witness:
  "\<exists>pf sk. pi_file_open calloc_env (Some (file_image large_file [replicate 70000 1])) = Some (Some pf) \<and>
     pi_file_install sample_xfer pf 0 (script_sock [(delete_request 0 [], done_answer 0x1a)]) = Some (sk, pf, PI_ERR_FILE_ERROR) \<and>
     fst (sk_world sk) = []"
proof -
  let ?c = "[replicate 70000 1] :: bytes list" and ?sk = "script_sock [(delete_request 0 [], done_answer 0x1a)]"
  have wf: "pi_buffer_wf (buf_of bs)" "content (buf_of bs) = bs" for bs by simp_all
  have b: "building large_file ?c"
    using wf by (simp add: building_def large_file_def zero_pi_file_def zero_DBInfo_def is_resource_db_def
        ptr_holds_def zero_entry_def dlpDBFlagResource_def)
  have h: "info_fits (pf_info large_file)" "list_all (entry_fits (resource_flag large_file)) (entries large_file)"
    "take_bit 32 (unique_id_seed large_file) = unique_id_seed large_file" "length ?c < 65536"
    using sample_info(1) by (simp_all add: large_file_def zero_pi_file_def entry_fits_def zero_entry_def)
  have sz: "length (file_image large_file ?c) < 0x80000000"
    using record_image_length[OF b] by (simp add: large_file_def zero_pi_file_def block_bytes_def)
  obtain pf where pf: "pi_file_open calloc_env (Some (file_image large_file ?c)) = Some (Some pf)" "opened large_file ?c pf"
    "pf_info pf = stored_info zero_DBInfo"
    using opened_image[OF b sample_fits(2) h sz] by (auto simp: large_file_def zero_pi_file_def)
  have k: "is_resource_db (pf_info pf) = resource_flag large_file" "get_cstr (di_name (pf_info pf)) 0 = Some []"
    "\<exists>c \<in> set ?c. 65536 < length c" "sk_dlpversion ?sk \<noteq> 0" "sk_dlpversion ?sk < 0x0104"
    "all_alloc (xe_heap sample_xfer)" "xe_tr sample_xfer = device_transport script 0" "\<forall>sk. xe_connected sample_xfer sk"
    using pf(3) by (simp_all add: stored_info_def zero_DBInfo_def is_resource_db_def large_file_def zero_pi_file_def
        get_cstr_def script_sock_def sample_xfer_def)
  have d: "script (fst (sk_world ?sk)) (request_bytes (delete_request 0 [])) = ([], response_bytes (done_answer 0x1a))"
    "carried 1000 (sk_dlpversion ?sk) (delete_request 0 [], done_answer 0x1a)"
    by (simp_all add: script_def script_sock_def delete_request_def done_answer_def c_string_def small_carried cmd_accepted_def)
  show ?thesis
    using install_oversize_deletes[OF k(6-8) b pf(2) k(1-5) d] pf(1) by blast
qed

end
