(* ===== verification/SockType.thy ===== *)
theory SockType
  imports ConnectProps
begin

text \<open>
  The type of a socket: its two queues of protocols are empty or end with the device and contain
  protocols only, no null pointers. While the constructors of the protocols get their memory, every
  modelled operation on a socket keeps the type, whatever else fails, and a queue of this type that
  is not empty has a protocol to enter. \<open>pi_connect\<close> is not modelled, and the operations of the
  devices other than the serial one are a parameter. The last section shows what a constructor
  without memory does: the null pointer is stored, and destroying the queue goes through it.
\<close>

section \<open>Queues\<close>

definition protocol_levels :: "int set" where
  "protocol_levels = {PI_LEVEL_DEV, PI_LEVEL_SLP, PI_LEVEL_PADP, PI_LEVEL_NET, PI_LEVEL_SYS, PI_LEVEL_CMP}"

definition levels_only :: "int option list \<Rightarrow> bool" where
  "levels_only q \<longleftrightarrow> list_all (\<lambda>e. e \<noteq> None \<and> the e \<in> protocol_levels) q"

definition queue_typed :: "int option list \<Rightarrow> bool" where
  "queue_typed q \<longleftrightarrow> levels_only q \<and> (q \<noteq> [] \<longrightarrow> last q = Some PI_LEVEL_DEV)"

text \<open>Every constructor of a protocol gets its memory.\<close>

definition protocols_alloc :: "heap_env \<Rightarrow> bool" where
  "protocols_alloc env \<longleftrightarrow> (\<forall>level. new_protocol env level = Some level)"

lemma queue_typed_levels: "queue_typed q \<Longrightarrow> levels_only q"
  by (simp add: queue_typed_def)

lemma queue_typed_Nil [simp]: "queue_typed []"
  by (simp add: queue_typed_def levels_only_def)

lemma levels_only_no_null: "levels_only q \<Longrightarrow> None \<notin> set q"
  by (auto simp: levels_only_def list_all_iff)

lemma queue_typed_ConsE:
  assumes "queue_typed (e # q)"
  obtains l where "e = Some l" "l \<in> protocol_levels" "l \<noteq> PI_LEVEL_DEV \<Longrightarrow> q \<noteq> [] \<and> queue_typed q"
  using assms by (auto simp: queue_typed_def levels_only_def split: if_splits)

lemma queue_typed_drop: "queue_typed q \<Longrightarrow> queue_typed (drop n q)"
  by (auto simp: queue_typed_def levels_only_def list_all_iff last_drop dest: in_set_dropD)

lemma queue_typed_protocol:
  "queue_typed q \<Longrightarrow> q \<noteq> [] \<Longrightarrow> \<exists>p. queue_protocol env os q = Some p"
proof (induction q)
  case (Cons e q)
  from Cons.prems(1) obtain l where l: "e = Some l" "l \<in> protocol_levels"
      "l \<noteq> PI_LEVEL_DEV \<Longrightarrow> q \<noteq> [] \<and> queue_typed q"
    by (rule queue_typed_ConsE) blast
  show ?case
  proof (cases "l = PI_LEVEL_DEV")
    case False
    then obtain p where "queue_protocol env os q = Some p" using Cons.IH l(3) by blast
    then show ?thesis using False l by (auto simp: protocol_levels_def)
  qed (simp add: l)
qed simp

lemma queue_typed_enters: "queue_typed q \<Longrightarrow> (\<exists>p. queue_protocol env os q = Some p) = (q \<noteq> [])"
  by (cases "q = []") (simp_all add: queue_typed_protocol)

lemma level_index_bound: "level_index q level = Some (Some i) \<Longrightarrow> i < length q"
  by (induction q level arbitrary: i rule: level_index.induct) (auto split: if_splits)

lemma level_index_found: "None \<notin> set q \<Longrightarrow> level_index q level \<noteq> None"
  by (induction q level rule: level_index.induct) auto

text \<open>An allocation that fails loses the queue: what is added afterwards stands alone.\<close>

lemma foldl_add_levels:
  assumes "levels_only q" "levels_only ls"
  shows "levels_only (foldl (protocol_queue_add env) q ls)" "levels_only (foldl (protocol_cmd_queue_add env) q ls)"
  using assms
  by (induction ls arbitrary: q) (auto simp: protocol_queue_add_def protocol_cmd_queue_add_def levels_only_def)

lemma add_dev_typed:
  assumes "levels_only q" "protocols_alloc env"
  shows "queue_typed (protocol_queue_add env q (new_protocol env PI_LEVEL_DEV))"
    "queue_typed (protocol_cmd_queue_add env q (new_protocol env PI_LEVEL_DEV))"
  using assms
  by (auto simp: protocol_queue_add_def protocol_cmd_queue_add_def levels_only_def queue_typed_def protocols_alloc_def
    protocol_levels_def)

lemma queue_levels_only:
  assumes "protocols_alloc env"
  shows "levels_only (map (new_protocol env) (queue_levels p))" "levels_only (map (new_protocol env) (cmd_queue_levels p))"
  using assms
  by (auto simp: queue_levels_def cmd_queue_levels_def levels_only_def protocols_alloc_def protocol_levels_def)

section \<open>Sockets\<close>

definition socket_typed :: "'o pi_socket \<Rightarrow> bool" where
  "socket_typed so \<longleftrightarrow> queue_typed (so_queue so) \<and> queue_typed (so_cmd_queue so) \<and>
     so_cmd so \<in> {0, PI_CMD_CMP, PI_CMD_NET, PI_CMD_SYS}"

text \<open>The fields that the type is about.\<close>

definition shape :: "'o pi_socket \<Rightarrow> int option list \<times> int option list \<times> int" where
  "shape so = (so_queue so, so_cmd_queue so, so_cmd so)"

lemma shape_typed: "shape so' = shape so \<Longrightarrow> socket_typed so' = socket_typed so"
  by (simp add: shape_def socket_typed_def)

lemma shape_simps [simp]:
  "shape (so\<lparr>so_sock := sk\<rparr>) = shape so" "shape (so\<lparr>so_sd := d\<rparr>) = shape so" "shape (so\<lparr>so_addr := a\<rparr>) = shape so"
  "shape (so\<lparr>so_device := v\<rparr>) = shape so" "shape (so\<lparr>so_accept_to := t\<rparr>) = shape so"
  "shape (so_error so e) = shape so" "shape (set_command c so) = shape so" "shape (set_rates r1 r2 r3 so) = shape so"
  "shape (s_close tty so) = shape so"
  by (simp_all add: shape_def so_error_def set_command_def set_rates_def s_close_def Let_def)

lemma getsockopt_shape: "pi_getsockopt so opt len = Some (so', v, r) \<Longrightarrow> shape so' = shape so"
  by (auto simp: pi_getsockopt_def Let_def bind_eq_Some_conv)

lemma setsockopt_shape: "pi_setsockopt so opt x len = Some (so', r) \<Longrightarrow> shape so' = shape so"
  by (auto simp: pi_setsockopt_def Let_def bind_eq_Some_conv)

lemma setsd_shape: "shape (fst (pi_socket_setsd tty so d)) = shape so"
  by (simp add: pi_socket_setsd_def Let_def split_beta)

lemma s_open_shape: "s_open os tty so name = Some (so', r) \<Longrightarrow> shape so' = shape so"
  by (auto simp: s_open_def Let_def split_beta setsd_shape bind_eq_Some_conv split: if_splits)

lemma s_changebaud_shape: "s_changebaud tty so = Some (so', r) \<Longrightarrow> shape so' = shape so"
  by (auto simp: s_changebaud_def Let_def split_beta bind_eq_Some_conv split: if_splits)

lemma bind_open_shape: "bind_open os tty name n so = Some (so', r) \<Longrightarrow> shape so' = shape so"
proof (induction n arbitrary: so)
  case 0
  then show ?case
    by (subst (asm) bind_open.simps) (auto simp: bind_eq_Some_conv split: if_splits dest: s_open_shape)
next
  case (Suc n)
  then obtain so1 e nd where o: "s_open os tty so name = Some (so1, e, nd)"
      "(if e < 0 \<and> nd then bind_open os tty name n (on_sock (\<lambda>sk. set_os (ty_delay tty (os_of sk) 2000) sk) so1)
        else Some (so1, e)) = Some (so', r)"
    using bind_open.simps [of os tty name "Suc n" so] by (auto simp: bind_eq_Some_conv split: nat.splits)
  then show ?case using Suc.IH s_open_shape [OF o(1)] by (force split: if_splits)
qed

lemma serial_bind_shape: "pi_serial_bind env os tty rate_env so name = Some (so', r) \<Longrightarrow> shape so' = shape so"
  by (auto simp: pi_serial_bind_def Let_def split_beta bind_eq_Some_conv split: if_splits dest!: bind_open_shape)

lemma serial_listen_shape: "pi_serial_listen tty so = Some (so', r) \<Longrightarrow> shape so' = shape so"
  by (auto simp: pi_serial_listen_def bind_eq_Some_conv split: if_splits dest: s_changebaud_shape)

lemma serial_close_shape: "pi_serial_close tty so = Some (so', r) \<Longrightarrow> shape so' = shape so"
  by (auto simp: pi_serial_close_def Let_def split: if_splits)

lemma with_next_shape: "with_next env os level so f = Some (so', r) \<Longrightarrow> shape so' = shape so"
  by (auto simp: with_next_def bind_eq_Some_conv split: option.splits)

lemma long_format_shape: "use_long_format so = Some so' \<Longrightarrow> shape so' = shape so"
  by (auto simp: use_long_format_def Let_def bind_eq_Some_conv dest!: setsockopt_shape)

lemma accept_cmp_shape:
  assumes "accept_cmp env os tty so = Some (so', r)"
  shows "shape so' = shape so"
proof -
  obtain so1 e where 1: "with_next env os PI_LEVEL_CMP so (\<lambda>nxt sk. cmp_rx_handshake env nxt sk
      (sd_establishrate (serial_of (so_sock so))) (sd_establishhighrate (serial_of (so_sock so)))) = Some (so1, e)"
    using assms
    by (cases "with_next env os PI_LEVEL_CMP so (\<lambda>nxt sk. cmp_rx_handshake env nxt sk
      (sd_establishrate (serial_of (so_sock so))) (sd_establishhighrate (serial_of (so_sock so))))")
      (auto simp: accept_cmp_def Let_def)
  have s1: "shape so1 = shape so" by (rule with_next_shape [OF 1])
  show ?thesis
  proof (cases "e < 0")
    case True
    then show ?thesis using assms 1 s1 by (simp add: accept_cmp_def Let_def)
  next
    case False
    let ?long = "\<lambda>flags so2. if word_of_int flags AND CMP_FL_LONG_PACKET_SUPPORT \<noteq> 0 then use_long_format so2 else Some so2"
    let ?set = "\<lambda>w so4. case w of Some (rate, _) \<Rightarrow> on_sock (upd_serial (\<lambda>d. d\<lparr>sd_rate := rate\<rparr>)) so4 | None \<Rightarrow> so4"
    obtain so2 v x where 2: "pi_getsockopt so1 (Cmp_option PI_CMP_FLAGS) 1 = Some (so2, v, x)"
      using assms 1 False by (cases "pi_getsockopt so1 (Cmp_option PI_CMP_FLAGS) 1") (auto simp: accept_cmp_def Let_def)
    obtain flags fl where v: "v = Some (flags, fl)" using assms 1 False 2 by (cases v) (auto simp: accept_cmp_def Let_def)
    obtain so3 where 3: "?long flags so2 = Some so3"
      using assms 1 False 2 v by (cases "?long flags so2") (simp_all add: accept_cmp_def Let_def)
    obtain so4 w y where 4: "pi_getsockopt so3 (Cmp_option PI_CMP_BAUD) 4 = Some (so4, w, y)"
      using assms 1 False 2 v 3
      by (cases "pi_getsockopt so3 (Cmp_option PI_CMP_BAUD) 4") (auto simp: accept_cmp_def Let_def)
    obtain so6 e6 where 6: "s_changebaud tty (?set w so4) = Some (so6, e6)"
      using assms 1 False 2 v 3 4 by (cases "s_changebaud tty (?set w so4)") (auto simp: accept_cmp_def Let_def)
    have "shape so' = shape so6"
      using assms 1 False 2 v 3 4 6 by (simp add: accept_cmp_def Let_def split: if_split_asm) auto
    moreover have "shape so3 = shape so"
      using getsockopt_shape [OF 2] 3 s1 long_format_shape [of so2 so3] by (simp split: if_split_asm)
    moreover have "shape (?set w so4) = shape so4" by (simp split: option.split)
    ultimately show ?thesis using getsockopt_shape [OF 4] s_changebaud_shape [OF 6] by simp
  qed
qed

text \<open>The queues change when they are built only.\<close>

lemma build_typed:
  assumes "protocol_queue_build env os junk so auto = Some so'" "protocols_alloc env" "socket_typed so"
  shows "socket_typed so'"
proof -
  have l: "levels_only (so_queue so)" "levels_only (so_cmd_queue so)" "so_cmd so \<in> {0, PI_CMD_CMP, PI_CMD_NET, PI_CMD_SYS}"
    using assms(3) by (simp_all add: socket_typed_def queue_typed_levels)
  show ?thesis
  proof (cases "so_type so = PI_SOCK_RAW")
    case True
    then have "so' = so\<lparr>so_queue := protocol_queue_add env (so_queue so) (new_protocol env PI_LEVEL_DEV),
        so_cmd_queue := protocol_cmd_queue_add env (so_cmd_queue so) (new_protocol env PI_LEVEL_DEV)\<rparr>"
      using assms(1) by (simp add: protocol_queue_build_def)
    then show ?thesis using l assms(2) by (simp add: socket_typed_def add_dev_typed)
  next
    case False
    then obtain p where
      "so_queue so' = foldl (protocol_queue_add env) (so_queue so)
        (map (new_protocol env) (queue_levels p) @ [new_protocol env PI_LEVEL_DEV])"
      "so_cmd_queue so' = foldl (protocol_cmd_queue_add env) (so_cmd_queue so)
        (map (new_protocol env) (cmd_queue_levels p) @ [new_protocol env PI_LEVEL_DEV])"
      "so_cmd so' = (if command_protocol p = 0 then so_cmd so else command_protocol p)"
      using assms(1) by (auto simp: protocol_queue_build_def bind_eq_Some_conv Let_def split: if_splits prod.splits)
    then show ?thesis using l assms(2)
      by (auto simp: socket_typed_def add_dev_typed foldl_add_levels queue_levels_only command_protocol_def)
  qed
qed

lemma typed_of_shape: "shape so' = shape so \<Longrightarrow> socket_typed so \<Longrightarrow> socket_typed so'"
  by (simp add: shape_def socket_typed_def)

text \<open>The three parts of accepting on a serial port: the wait, the queues, and the handshake.\<close>

definition accept_poll :: "'o os \<Rightarrow> 'o pi_socket \<Rightarrow> 'o pi_socket option" where
  "accept_poll os so =
     (if so_accept_to so \<noteq> 0 then do {
        (sk, result) \<leftarrow> s_poll os (so_sock so) 1000;
        if result < 0 then do {
          (sk, _) \<leftarrow> s_write os sk net_wake_bytes 1000;
          Some (so\<lparr>so_sock := sk\<rparr>) }
        else Some (so\<lparr>so_sock := sk\<rparr>) }
      else Some so)"

definition accept_handshake :: "heap_env \<Rightarrow> 'o os \<Rightarrow> 'o tty \<Rightarrow> 'o pi_socket \<Rightarrow> ('o pi_socket \<times> int) option" where
  "accept_handshake env os tty so =
     (if so_type so = PI_SOCK_STREAM then do {
        (so, err) \<leftarrow> (if so_cmd so = PI_CMD_CMP then accept_cmp env os tty so
                      else if so_cmd so = PI_CMD_NET then with_next env os PI_LEVEL_NET so (net_rx_handshake env)
                      else Some (so, 0));
        Some (if err < 0 then so else on_sock (\<lambda>sk. sk\<lparr>sk_dlprecord := 0\<rparr>) so, err) }
      else Some (so, 0))"

lemma serial_accept_parts:
  "pi_serial_accept env os tty junk so = do {
     so \<leftarrow> accept_poll os so;
     (sk, err) \<leftarrow> s_poll os (so_sock so) (to_int (so_accept_to so * 1000));
     let so = so\<lparr>so_sock := sk\<rparr>;
     if err < 0 then Some (so, err)
     else do {
       let so = on_sock (upd_serial (\<lambda>d. d\<lparr>sd_timeout := to_int (so_accept_to so * 1000)\<rparr>)) so;
       so \<leftarrow> protocol_queue_build env os junk so True;
       (so, err) \<leftarrow> accept_handshake env os tty so;
       if err < 0 then Some (so, err)
       else do {
         let so = on_sock (upd_serial (\<lambda>d. d\<lparr>sd_timeout := 0\<rparr>)) so;
         let so = on_sock (set_state PI_SOCK_CONN_ACCEPT) (set_command 0 so);
         Some (so, so_sd so) } } }"
  unfolding pi_serial_accept_def accept_poll_def accept_handshake_def by (rule refl)

lemma accept_poll_shape: "accept_poll os so = Some so' \<Longrightarrow> shape so' = shape so"
  by (auto simp: accept_poll_def bind_eq_Some_conv split: if_splits)

lemma accept_handshake_shape:
  assumes "accept_handshake env os tty so = Some (so', r)"
  shows "shape so' = shape so"
proof (cases "so_type so = PI_SOCK_STREAM")
  case True
  let ?h = "if so_cmd so = PI_CMD_CMP then accept_cmp env os tty so
    else if so_cmd so = PI_CMD_NET then with_next env os PI_LEVEL_NET so (net_rx_handshake env) else Some (so, 0)"
  obtain so1 e where h: "?h = Some (so1, e)" "shape so' = shape so1"
    using assms True unfolding accept_handshake_def
    by (cases ?h) (auto simp del: not_None_eq split: prod.splits if_split_asm)
  then have "shape so1 = shape so"
    using accept_cmp_shape [of env os tty so so1 e] with_next_shape [of env os PI_LEVEL_NET so _ so1 e]
    by (simp split: if_splits)
  then show ?thesis using h(2) by simp
qed (use assms in \<open>simp add: accept_handshake_def\<close>)

lemma serial_accept_typed:
  assumes "pi_serial_accept env os tty junk so = Some (so', r)" "protocols_alloc env" "socket_typed so"
  shows "socket_typed so'"
proof -
  obtain so1 sk e where 1: "accept_poll os so = Some so1"
    and 2: "s_poll os (so_sock so1) (to_int (so_accept_to so1 * 1000)) = Some (sk, e)"
    using assms(1) by (auto simp: serial_accept_parts bind_eq_Some_conv)
  have t1: "socket_typed so1" by (rule typed_of_shape [OF accept_poll_shape [OF 1] assms(3)])
  show ?thesis
  proof (cases "e < 0")
    case True
    then have "so' = so1\<lparr>so_sock := sk\<rparr>" using assms(1) 1 2 by (simp add: serial_accept_parts)
    then show ?thesis using typed_of_shape [OF _ t1, of so'] by simp
  next
    case False
    obtain so3 so4 e4 where
      3: "protocol_queue_build env os junk (on_sock (upd_serial (\<lambda>d. d\<lparr>sd_timeout := to_int (so_accept_to so1 * 1000)\<rparr>))
            (so1\<lparr>so_sock := sk\<rparr>)) True = Some so3"
      and 4: "accept_handshake env os tty so3 = Some (so4, e4)" and s': "shape so' = shape so4"
      using assms(1) 1 2 False
      by (auto simp: serial_accept_parts bind_eq_Some_conv Let_def split: if_splits)
    have "socket_typed so3" by (rule build_typed [OF 3 assms(2) typed_of_shape [OF _ t1]]) simp
    then show ?thesis using accept_handshake_shape [OF 4] s' typed_of_shape by metis
  qed
qed

lemma devsocket_shape: "pi_devsocket env buf pilotport port so = Some (Some (so', name)) \<Longrightarrow> shape so' = shape so"
  by (auto simp: pi_devsocket_def split: option.splits prod.splits if_splits)

lemma tickle_shape:
  assumes "pi_tickle env os oldtype so = Some (so', r)"
  shows "shape so' = shape so"
  using assms
  by (auto simp: pi_tickle_def Let_def bind_eq_Some_conv split: if_splits dest!: getsockopt_shape setsockopt_shape)

section \<open>The devices\<close>

text \<open>What the sockets rely on of a device: its operations keep the type.\<close>

definition typed_device :: "'o device_ops \<Rightarrow> bool" where
  "typed_device dev \<longleftrightarrow>
     (\<forall>so name so' r. socket_typed so \<longrightarrow> dev_bind dev so name = Some (so', r) \<longrightarrow> socket_typed so') \<and>
     (\<forall>so so' r. socket_typed so \<longrightarrow> dev_listen dev so = Some (so', r) \<longrightarrow> socket_typed so') \<and>
     (\<forall>so so' r. socket_typed so \<longrightarrow> dev_accept dev so = Some (so', r) \<longrightarrow> socket_typed so') \<and>
     (\<forall>so so' r. socket_typed so \<longrightarrow> dev_close dev so = Some (so', r) \<longrightarrow> socket_typed so')"

lemma serial_typed_device: "protocols_alloc env \<Longrightarrow> typed_device (serial_ops env os tty rate_env junk)"
  unfolding typed_device_def serial_ops_def
  by (simp, intro conjI allI impI)
    (blast dest: serial_bind_shape serial_listen_shape serial_close_shape shape_typed [THEN iffD2] serial_accept_typed)+

lemma device_of_typed:
  "typed_device serial \<Longrightarrow> typed_device inet \<Longrightarrow> device_of serial inet so = Some dev \<Longrightarrow> typed_device dev"
  by (auto simp: device_of_def split: option.splits pi_device.splits)

lemma pi_bind_typed:
  assumes "typed_device serial" "typed_device inet" "socket_typed so"
    and b: "pi_bind env serial inet buf pilotport port so = Some (so', r)"
  shows "socket_typed so'"
proof (cases "pi_devsocket env buf pilotport port so = Some None")
  case True
  then show ?thesis using b assms(3) by (simp add: pi_bind_def)
next
  case False
  then obtain so1 name dev so2 e where p: "pi_devsocket env buf pilotport port so = Some (Some (so1, name))"
      "device_of serial inet so1 = Some dev" "dev_bind dev so1 name = Some (so2, e)" "shape so' = shape so2"
    using b by (auto simp: pi_bind_def bind_eq_Some_conv split: option.splits if_splits)
  have "socket_typed so1" by (rule typed_of_shape [OF devsocket_shape [OF p(1)] assms(3)])
  then have "socket_typed so2"
    using device_of_typed [OF assms(1,2) p(2)] p(3) unfolding typed_device_def by blast
  then show ?thesis by (rule typed_of_shape [OF p(4)])
qed

lemma pi_listen_typed:
  assumes "typed_device serial" "typed_device inet" "socket_typed so" "pi_listen serial inet so = Some (so', r)"
  shows "socket_typed so'"
proof -
  obtain dev where d: "device_of serial inet so = Some dev" "dev_listen dev so = Some (so', r)"
    using assms(4) by (auto simp: pi_listen_def bind_eq_Some_conv)
  then show ?thesis using device_of_typed [OF assms(1,2) d(1)] assms(3) unfolding typed_device_def by blast
qed

text \<open>Closing leaves a socket with empty queues, or as it was when the device did not answer.\<close>

lemma pi_close_typed:
  assumes "typed_device serial" "typed_device inet" "socket_typed so"
    and c: "pi_close env os serial inet so = Some (so', gone, r)"
  shows "socket_typed so'"
proof -
  let ?sync = "if so_type so = PI_SOCK_STREAM \<and> so_cmd so \<noteq> PI_CMD_SYS \<and> is_connected (so_sock so) then do {
      let so = set_command 1 so;
      (sk, result) \<leftarrow> dlp_EndOfSync env (socket_transport env os (entry_queue so)) 0 (so_sock so);
      Some (set_command 0 (so\<lparr>so_sock := sk\<rparr>), result) }
    else Some (so, 0)"
  obtain so1 e where s: "?sync = Some (so1, e)"
    using c unfolding pi_close_def by (cases ?sync) (auto split del: if_split)
  have "shape so1 = shape so"
    using s by (auto simp: Let_def bind_eq_Some_conv split: if_splits)
  then have t1: "socket_typed so1" by (rule typed_of_shape) (rule assms(3))
  have r: "(if e = 0 then do {
       (so, result) \<leftarrow> (case so_device so1 of
          None \<Rightarrow> Some (so1, 0)
        | Some _ \<Rightarrow> do { dev \<leftarrow> device_of serial inet so1; dev_close dev so1 });
       protocol_queue_destroy so;
       Some (so\<lparr>so_queue := [], so_cmd_queue := [], so_device := None\<rparr>, True, result) }
     else Some (so1, False, e)) = Some (so', gone, r)"
    using c s unfolding pi_close_def by (simp split del: if_split)
  show ?thesis
  proof (cases "e = 0")
    case True
    let ?dev = "case so_device so1 of None \<Rightarrow> Some (so1, 0)
      | Some _ \<Rightarrow> do { dev \<leftarrow> device_of serial inet so1; dev_close dev so1 }"
    obtain so2 e2 where d: "?dev = Some (so2, e2)"
        "so' = so2\<lparr>so_queue := [], so_cmd_queue := [], so_device := None\<rparr>"
      using r True by (cases ?dev) (auto simp: bind_eq_Some_conv)
    have "socket_typed so2"
    proof (cases "so_device so1")
      case None
      then show ?thesis using d(1) t1 by simp
    next
      case (Some k)
      then obtain dev where "device_of serial inet so1 = Some dev" "dev_close dev so1 = Some (so2, e2)"
        using d(1) by (auto simp: bind_eq_Some_conv)
      then show ?thesis using device_of_typed [OF assms(1,2)] t1 unfolding typed_device_def by blast
    qed
    then show ?thesis using d(2) by (simp add: socket_typed_def)
  qed (use r t1 in simp)
qed

lemma pi_accept_to_typed:
  assumes "typed_device serial" "typed_device inet" "socket_typed so"
    and a: "pi_accept_to env os serial inet timeout so = Some (so', gone, r)"
  shows "socket_typed so'"
proof (cases "is_listener (so_sock so)")
  case False
  then show ?thesis using a assms(3) by (simp add: pi_accept_to_def)
next
  case True
  then obtain dev so1 e where d: "device_of serial inet (so\<lparr>so_accept_to := timeout\<rparr>) = Some dev"
      "dev_accept dev (so\<lparr>so_accept_to := timeout\<rparr>) = Some (so1, e)"
    using a by (auto simp: pi_accept_to_def Let_def bind_eq_Some_conv)
  have "socket_typed (so\<lparr>so_accept_to := timeout\<rparr>)" by (rule typed_of_shape [OF _ assms(3)]) simp
  then have t1: "socket_typed so1"
    using device_of_typed [OF assms(1,2) d(1)] d(2) unfolding typed_device_def by blast
  show ?thesis
  proof (cases "e < 0")
    case True
    then obtain r' where "pi_close env os serial inet so1 = Some (so', gone, r')"
      using a \<open>is_listener (so_sock so)\<close> d by (auto simp: pi_accept_to_def Let_def bind_eq_Some_conv)
    then show ?thesis by (rule pi_close_typed [OF assms(1,2) t1])
  qed (use a True d t1 in \<open>simp add: pi_accept_to_def Let_def\<close>)
qed

section \<open>Every socket of a program\<close>

text \<open>
  The sockets that a program can come to hold: a new one, and what the calls of the library make of
  one, whether they succeed or fail. Reading, writing and flushing change what \<open>so_sock\<close> holds.
\<close>

inductive sock_reach ::
  "heap_env \<Rightarrow> 'o os \<Rightarrow> 'o tty \<Rightarrow> 'o device_ops \<Rightarrow> 'o device_ops \<Rightarrow> 'o pi_socket \<Rightarrow> bool"
  for env os tty serial inet where
  create: "pi_socket_create env tty absent parked type protocol = (w, Some so) \<Longrightarrow> sock_reach env os tty serial inet so"
| bind: "sock_reach env os tty serial inet so \<Longrightarrow> pi_bind env serial inet buf pilotport port so = Some (so', r) \<Longrightarrow>
    sock_reach env os tty serial inet so'"
| listen: "sock_reach env os tty serial inet so \<Longrightarrow> pi_listen serial inet so = Some (so', r) \<Longrightarrow>
    sock_reach env os tty serial inet so'"
| accept: "sock_reach env os tty serial inet so \<Longrightarrow> pi_accept_to env os serial inet timeout so = Some (so', gone, r) \<Longrightarrow>
    sock_reach env os tty serial inet so'"
| close: "sock_reach env os tty serial inet so \<Longrightarrow> pi_close env os serial inet so = Some (so', gone, r) \<Longrightarrow>
    sock_reach env os tty serial inet so'"
| tickle: "sock_reach env os tty serial inet so \<Longrightarrow> pi_tickle env os oldtype so = Some (so', r) \<Longrightarrow>
    sock_reach env os tty serial inet so'"
| getopt: "sock_reach env os tty serial inet so \<Longrightarrow> pi_getsockopt so opt len = Some (so', v, r) \<Longrightarrow>
    sock_reach env os tty serial inet so'"
| setopt: "sock_reach env os tty serial inet so \<Longrightarrow> pi_setsockopt so opt x len = Some (so', r) \<Longrightarrow>
    sock_reach env os tty serial inet so'"
| received: "sock_reach env os tty serial inet so \<Longrightarrow>
    pi_recv env os (entry_queue so) (so_sock so) msg len flags = Some (sk, msg', r) \<Longrightarrow>
    sock_reach env os tty serial inet (so\<lparr>so_sock := sk\<rparr>)"
| sent: "sock_reach env os tty serial inet so \<Longrightarrow>
    pi_send env os (entry_queue so) (so_sock so) d flags = Some (sk, r) \<Longrightarrow>
    sock_reach env os tty serial inet (so\<lparr>so_sock := sk\<rparr>)"
| flushed: "sock_reach env os tty serial inet so \<Longrightarrow>
    pi_flush env os (entry_queue so) (so_sock so) flags = Some sk \<Longrightarrow>
    sock_reach env os tty serial inet (so\<lparr>so_sock := sk\<rparr>)"

inductive_cases sock_reachE: "sock_reach env os tty serial inet so"

lemma create_typed: "pi_socket_create env tty absent parked type protocol = (w, Some so) \<Longrightarrow> socket_typed so"
  by (auto simp: pi_socket_create_def Let_def socket_typed_def split: if_splits prod.splits)

lemma reach_typed:
  assumes "sock_reach env os tty serial inet so" "typed_device serial" "typed_device inet"
  shows "socket_typed so"
  using assms(1)
proof (induction rule: sock_reach.induct)
  case (create absent parked type protocol w so)
  then show ?case by (rule create_typed)
next
  case (bind so buf pilotport port so' r)
  then show ?case using pi_bind_typed [OF assms(2,3)] by blast
next
  case (listen so so' r)
  then show ?case using pi_listen_typed [OF assms(2,3)] by blast
next
  case (accept so timeout so' gone r)
  then show ?case using pi_accept_to_typed [OF assms(2,3)] by blast
next
  case (close so so' gone r)
  then show ?case using pi_close_typed [OF assms(2,3)] by blast
next
  case (tickle so oldtype so' r)
  then show ?case using typed_of_shape tickle_shape by blast
next
  case (getopt so opt len so' v r)
  then show ?case using typed_of_shape getsockopt_shape by blast
next
  case (setopt so opt x len so' r)
  then show ?case using typed_of_shape setsockopt_shape by blast
qed (simp_all add: socket_typed_def)

lemma entry_protocol:
  assumes "socket_typed so"
  shows "(\<exists>p. queue_protocol env os (entry_queue so) = Some p) = (so_queue so \<noteq> [])"
proof (cases "so_queue so")
  case Nil
  then show ?thesis by (simp add: entry_queue_def)
next
  case (Cons e q)
  then obtain l where l: "e = Some l" using assms by (auto simp: socket_typed_def elim: queue_typed_ConsE)
  have q: "queue_typed (current_queue so)" using assms by (simp add: socket_typed_def current_queue_def)
  have "level_index (current_queue so) l \<noteq> None"
    by (rule level_index_found [OF levels_only_no_null [OF queue_typed_levels [OF q]]])
  then have "entry_queue so = [Some l] \<or> (\<exists>i. entry_queue so = drop i (current_queue so) \<and> entry_queue so \<noteq> [])"
    using Cons l level_index_bound [of "current_queue so" l] by (auto simp: entry_queue_def split: option.split)
  then have "\<exists>p. queue_protocol env os (entry_queue so) = Some p"
    using queue_typed_protocol queue_typed_drop [OF q] by fastforce
  then show ?thesis by (simp add: Cons)
qed

lemma typed_destroy: "socket_typed so \<Longrightarrow> protocol_queue_destroy so = Some ()"
  by (auto simp: protocol_queue_destroy_def socket_typed_def dest: queue_typed_levels levels_only_no_null)

section \<open>A constructor without memory\<close>

text \<open>What \<open>malloc\<close> refuses to a constructor is stored in the queue as a null pointer, and a queue that
  holds one cannot be destroyed: \<open>pi_close\<close> calls \<open>free\<close> through it.\<close>

lemma null_protocol_stored:
  assumes "\<not> malloc_ok env sizeof_pi_protocol" "malloc_ok env sizeof_ptr"
    "so_type so = PI_SOCK_RAW" "so_queue so = []" "so_cmd_queue so = []"
  shows "protocol_queue_build env os junk so auto = Some (so\<lparr>so_queue := [None], so_cmd_queue := [None]\<rparr>)"
  using assms
  by (simp add: protocol_queue_build_def new_protocol_def protocol_queue_add_def protocol_cmd_queue_add_def)

lemma null_protocol_crashes:
  assumes "None \<in> set (so_queue so) \<union> set (so_cmd_queue so)" "so_type so = PI_SOCK_RAW" "so_device so = None"
  shows "pi_close env os serial inet so = None"
  using assms by (auto simp: pi_close_def protocol_queue_destroy_def PI_SOCK_RAW_def PI_SOCK_STREAM_def)

section \<open>Property\<close>

text \<open>C39: the type of a socket is an invariant, as long as the constructors of the protocols get
  their memory. Whatever a program does with a socket from its creation on - bind, listen, accept,
  read, write, flush, tickle, options, close, in any order, with any results of the system and of the
  other allocations, those of the queues included -, both queues are empty or hold protocols only, no
  null pointer, and end with the device, and the command protocol is one of the four. So each of the
  two queues has a protocol to enter exactly when it is not empty, what reading and writing enter is a
  protocol exactly when the connected queue is not empty, and destroying the queues never calls
  through a null pointer. The other kind of device is only assumed to keep the type; \<open>pi_connect\<close> is
  not among the operations.\<close>

theorem sockets_have_type:
  assumes "sock_reach env os tty (serial_ops env os tty rate_env junk) inet so" "typed_device inet" "protocols_alloc env"
  shows "socket_typed so \<and> protocol_queue_destroy so = Some () \<and>
    (\<forall>q. q = so_queue so \<or> q = so_cmd_queue so \<longrightarrow> (\<exists>p. queue_protocol env os q = Some p) = (q \<noteq> [])) \<and>
    (\<exists>p. queue_protocol env os (entry_queue so) = Some p) = (so_queue so \<noteq> [])"
proof -
  have t: "socket_typed so" by (rule reach_typed [OF assms(1) serial_typed_device [OF assms(3)] assms(2)])
  have q: "queue_typed (so_queue so)" "queue_typed (so_cmd_queue so)" using t by (simp_all add: socket_typed_def)
  have "\<forall>q. q = so_queue so \<or> q = so_cmd_queue so \<longrightarrow> (\<exists>p. queue_protocol env os q = Some p) = (q \<noteq> [])"
    by (intro allI impI, elim disjE) (simp_all only: queue_typed_enters [OF q(1)] queue_typed_enters [OF q(2)])
  then show ?thesis by (rule conjI [OF t conjI [OF typed_destroy [OF t] conjI [OF _ entry_protocol [OF t]]]])
qed

text \<open>The socket of a connection over a serial line; the other device has no operation that returns.\<close>

definition no_device :: "'o device_ops" where
  "no_device = \<lparr>dev_bind = (\<lambda>so name. None), dev_listen = (\<lambda>so. None), dev_accept = (\<lambda>so. None), dev_close = (\<lambda>so. None)\<rparr>"

theorem sockets_have_type_witness:
  "\<exists>so. sock_reach calloc_env (net_os (\<lambda>_. 5) hand_device) plain_tty
      (serial_ops calloc_env (net_os (\<lambda>_. 5) hand_device) plain_tty None (0, \<lparr>pd_type = 0, pd_flags = 0, pd_size = 0\<rparr>)) no_device so \<and>
    so_queue so = [Some PI_LEVEL_NET, Some PI_LEVEL_DEV] \<and> socket_typed so \<and>
    (\<exists>p. queue_protocol calloc_env (net_os (\<lambda>_. 5) hand_device) (so_queue so) = Some p)"
proof -
  let ?junk = "(0, \<lparr>pd_type = 0, pd_flags = 0, pd_size = 0\<rparr>) :: u8 \<times> padp"
  let ?os = "net_os (\<lambda>_. 5) hand_device"
  let ?ops = "serial_ops calloc_env ?os plain_tty None ?junk"
  let ?reach = "sock_reach calloc_env ?os plain_tty ?ops no_device"
  let ?noise = "[9, 9] @ net_answer 1 net_tx_msg1"
  let ?absent = "port_sock ?noise \<lparr>np_device = 0, np_got = []\<rparr> :: nat net_peer wire psock"
  obtain so where so: "pi_socket_create calloc_env plain_tty ?absent (new_queue_data ?junk) PI_SOCK_STREAM 0 = (os_of ?absent, Some so)"
      "so_sd so = 3" "fresh_socket so" "os_of (so_sock so) = os_of ?absent"
    by (simp add: pi_socket_create_def plain_tty_def calloc_env_def fresh_socket_def command_of_def port_defs)
  have os: "os_of ?absent = \<lparr>wi_in = ?noise, wi_peer = \<lparr>np_device = 0, np_got = []\<rparr>\<rparr>"
    by (simp add: port_sock_def port_defs)
  have sh: "shakes_hands hand_device 0 2" by (simp add: shakes_hands_def hand_device_def)
  have det: "detect_bytes ?noise = Some (PI_PF_NET, net_answer 1 net_tx_msg1)"
    by (simp add: detect_bytes.simps recognise_def slp_const_defs net_answer_def net_tx_msg1_def set_long_def)
  obtain so1 so2 where b: "pi_bind calloc_env ?ops no_device (replicate 256 0) None (Some ''/dev/ttyS0'') so = Some (so1, 0)"
      "pi_listen ?ops no_device so1 = Some (so2, 0)" "listening (replicate 256 0) (os_of ?absent) so2" "so_sd so2 = 3"
    using bind_listen [of calloc_env so "''/dev/ttyS0''" "''/dev/ttyS0''" "\<lambda>_. 5" hand_device ?junk no_device "replicate 256 0" None]
      so(2-4) by (auto simp: net_ops_def port_device_def)
  obtain so3 where a: "pi_accept_to calloc_env ?os ?ops no_device 0 so2 = Some (so3, False, so_sd so2)" "so_queue so3 = net_queue"
    using accept_net [where env = calloc_env and grain = "\<lambda>_. 5" and junk = ?junk and inet = no_device and to = 0,
        OF _ b(3) [unfolded os] _ det sh] b(4) by (auto simp: net_ops_def)
  have r: "?reach so3"
    by (rule sock_reach.accept [OF sock_reach.listen [OF sock_reach.bind [OF sock_reach.create [OF so(1)] b(1)] b(2)] a(1)])
  have "typed_device no_device" by (simp add: typed_device_def no_device_def)
  moreover have "protocols_alloc calloc_env" by (simp add: protocols_alloc_def new_protocol_def calloc_env_def)
  ultimately have c: "socket_typed so3 \<and> protocol_queue_destroy so3 = Some () \<and>
      (\<forall>q. q = so_queue so3 \<or> q = so_cmd_queue so3 \<longrightarrow> (\<exists>p. queue_protocol calloc_env ?os q = Some p) = (q \<noteq> [])) \<and>
      (\<exists>p. queue_protocol calloc_env ?os (entry_queue so3) = Some p) = (so_queue so3 \<noteq> [])"
    by (rule sockets_have_type [OF r])
  have q: "so_queue so3 = [Some PI_LEVEL_NET, Some PI_LEVEL_DEV]" using a(2) unfolding net_queue_def .
  have ne: "so_queue so3 \<noteq> []" by (simp add: q)
  have p: "\<exists>p. queue_protocol calloc_env ?os (so_queue so3) = Some p"
    using c [THEN conjunct2, THEN conjunct2, THEN conjunct1, rule_format, OF disjI1 [OF refl]] ne by (rule iffD2)
  show ?thesis
    by (rule exI [of _ so3]) (rule conjI [OF r conjI [OF q conjI [OF c [THEN conjunct1] p]]])
qed

end
