(* ===== verification/Address.thy ===== *)
theory Address
  imports RecordFormat
begin

text \<open>
  The Address Book records and AppInfo block (\<open>libpisock/address.c\<close>): nineteen strings, of which the
  empty ones are left out, the labels of five telephone numbers and the number that a list shows.
\<close>

definition address_v1 :: int where "address_v1 = 0"
definition entryCompany :: nat where "entryCompany = 2"

record Address =
  ad_phoneLabel :: "int list"
  ad_showPhone :: int
  ad_entry :: "bytes option list"

definition hi :: "u8 \<Rightarrow> int" where "hi x = uint (drop_bit 4 x AND 0x0f)"
definition lo :: "u8 \<Rightarrow> int" where "lo x = uint (x AND 0x0f)"

text \<open>The strings are given back to the heap.\<close>

definition free_Address :: "Address \<Rightarrow> Address" where
  "free_Address addr = addr\<lparr>ad_entry := map (\<lambda>_. None) (ad_entry addr)\<rparr>"

section \<open>Reading\<close>

text \<open>The loop over the entries from \<open>v\<close> on: a record that ends early ends it, with the entries from there
  on as they were. The test for the end compares unsigned numbers.\<close>

primrec unpack_entries :: "nat \<Rightarrow> bytes \<Rightarrow> u32 \<Rightarrow> nat \<Rightarrow> nat \<Rightarrow> nat \<Rightarrow> bytes option list \<Rightarrow> bytes option list option" where
  "unpack_entries n p contents 0 v ofs es = Some es"
| "unpack_entries n p contents (Suc k) v ofs es =
     (if test_flag contents v
      then if size_sub n ofs < 1 then Some es
           else do {
             s \<leftarrow> get_cstr p ofs;
             unpack_entries n p contents k (v + 1) (ofs + length s + 1) (es[v := Some s]) }
      else unpack_entries n p contents k (v + 1) ofs (es[v := None]))"

definition unpack_Address :: "Address \<Rightarrow> pi_buffer option \<Rightarrow> int \<Rightarrow> (Address \<times> int) option" where
  "unpack_Address addr buf type =
     (if type \<noteq> address_v1 then Some (addr, -1)
      else case buf of
        None \<Rightarrow> Some (addr, -1)
      | Some buf \<Rightarrow>
          (case data buf of
             None \<Rightarrow> Some (addr, -1)
           | Some p \<Rightarrow>
               if used buf < 9 then Some (addr, -1)
               else do {
                 b1 \<leftarrow> get_byte p 1;
                 b2 \<leftarrow> get_byte p 2;
                 b3 \<leftarrow> get_byte p 3;
                 let addr = addr\<lparr>ad_showPhone := hi b1, ad_phoneLabel := [lo b3, hi b3, lo b2, hi b2, lo b1]\<rparr>;
                 contents \<leftarrow> get_long p 4;
                 es \<leftarrow> unpack_entries (used buf) p contents 19 0 9 (ad_entry addr);
                 Some (addr\<lparr>ad_entry := es\<rparr>, 0) }))"

section \<open>Writing\<close>

definition entry_there :: "bytes option \<Rightarrow> bool" where
  "entry_there e = (case e of None \<Rightarrow> False | Some s \<Rightarrow> s \<noteq> [])"

definition address_len :: "Address \<Rightarrow> nat" where
  "address_len addr =
     (9 + sum_list (map (\<lambda>e. if entry_there e then opt_strlen e + 1 else 0) (ad_entry addr))) mod 2 ^ 32"

text \<open>The loop that writes the entries from \<open>v\<close> on, with the set of those present and the place of the
  company, which is counted in an \<open>unsigned char\<close>.\<close>

primrec pack_entries ::
  "nat \<Rightarrow> bytes option list \<Rightarrow> cursor \<Rightarrow> u32 \<Rightarrow> u8 \<Rightarrow> (pi_buffer \<times> u32 \<times> u8) option" where
  "pack_entries v [] c contents offset = Some (fst c, contents, offset)"
| "pack_entries v (e # es) c contents offset =
     (if entry_there e
      then do {
        let offset = (if v = entryCompany then of_nat (snd c) - 8 else offset);
        c \<leftarrow> put_string e c;
        pack_entries (v + 1) es c (contents OR push_bit v 1) offset }
      else pack_entries (v + 1) es c contents offset)"

definition phoneflag :: "Address \<Rightarrow> u32" where
  "phoneflag addr =
     (let l = (\<lambda>i. word_of_int (ad_phoneLabel addr ! i)) in
      l 0 OR push_bit 4 (l 1) OR push_bit 8 (l 2) OR push_bit 12 (l 3) OR push_bit 16 (l 4) OR
      push_bit 20 (word_of_int (ad_showPhone addr)))"

definition pack_Address ::
  "heap_env \<Rightarrow> Address option \<Rightarrow> pi_buffer option \<Rightarrow> int \<Rightarrow> (pi_buffer option \<times> int) option" where
  "pack_Address env addr buf type =
     (case (addr, buf) of
        (Some addr, Some buf) \<Rightarrow>
          if type \<noteq> address_v1 then Some (Some buf, -1)
          else do {
            let buf = buf_claim env buf (address_len addr);
            (buf, contents, offset) \<leftarrow> pack_entries 0 (ad_entry addr) (buf, 9) 0 0;
            buf \<leftarrow> buf_poke buf 0 (set_long (phoneflag addr));
            buf \<leftarrow> buf_poke buf 4 (set_long contents);
            buf \<leftarrow> buf_poke buf 8 (set_byte offset);
            Some (Some buf, 0) }
      | (_, buf) \<Rightarrow> Some (buf, -1))"

section \<open>The AppInfo block\<close>

record AddressAppInfo =
  adi_type :: int
  adi_category :: CategoryAppInfo
  adi_labels :: "bytes list"
  adi_labelRenamed :: "int list"
  adi_phoneLabels :: "bytes list"
  adi_country :: int
  adi_sortByCompany :: int

definition address_appinfo_len :: nat where "address_appinfo_len = 4 + 16 * 22 + 2 + 2"

text \<open>The labels of the telephone entries are kept once more; the copy of a label without a terminator
  leaves its array.\<close>

definition copy_label :: "bytes \<Rightarrow> bytes \<Rightarrow> bytes option" where
  "copy_label dst src = do { s \<leftarrow> get_cstr src 0; poke dst 0 (s @ [0]) }"

definition copy_phone_labels :: "AddressAppInfo \<Rightarrow> AddressAppInfo option" where
  "copy_phone_labels ai =
     (let step = (\<lambda>ps (i, j). do {
            ps \<leftarrow> ps;
            l \<leftarrow> copy_label (ps ! j) (adi_labels ai ! i);
            Some (ps[j := l]) })
      in do {
        ps \<leftarrow> foldl step (Some (adi_phoneLabels ai)) (map (\<lambda>i. (i, i - 3)) [3..<8] @ map (\<lambda>i. (i, i - 19 + 5)) [19..<22]);
        Some (ai\<lparr>adi_phoneLabels := ps\<rparr>) })"

definition unpack_AddressAppInfo ::
  "AddressAppInfo \<Rightarrow> bytes \<Rightarrow> nat \<Rightarrow> (AddressAppInfo \<times> nat) option" where
  "unpack_AddressAppInfo ai rcrd len = do {
     (cat, i) \<leftarrow> unpack_CategoryAppInfo (adi_category ai) rcrd len;
     let ai = ai\<lparr>adi_type := address_v1, adi_category := cat\<rparr>;
     if i = 0 then Some (ai, 0)
     else if len - i < address_appinfo_len then Some (ai, 0)
     else do {
       r \<leftarrow> get_long rcrd i;
       let ai = ai\<lparr>adi_labelRenamed := map (\<lambda>k. if test_flag r k then 1 else 0) [0..<22]\<rparr>;
       ls \<leftarrow> get_array (get_block 16) 16 22 rcrd (i + 4);
       c \<leftarrow> get_short rcrd (i + 4 + 16 * 22);
       s \<leftarrow> get_byte rcrd (i + 4 + 16 * 22 + 2);
       ai \<leftarrow> copy_phone_labels (ai\<lparr>adi_labels := ls, adi_country := uint c, adi_sortByCompany := uint s\<rparr>);
       Some (ai, i + address_appinfo_len) } }"

text \<open>The packer does not look whether its own data fit in.\<close>

definition pack_AddressAppInfo ::
  "AddressAppInfo \<Rightarrow> bytes option \<Rightarrow> nat \<Rightarrow> (AddressAppInfo \<times> bytes option \<times> nat) option" where
  "pack_AddressAppInfo ai rcrd len = do {
     (rcrd, i) \<leftarrow> pack_CategoryAppInfo (adi_category ai) rcrd len;
     case rcrd of
       None \<Rightarrow> Some (ai, None, address_appinfo_len + i)
     | Some m \<Rightarrow>
         if i = 0 then Some (ai, Some m, 0)
         else do {
           ai \<leftarrow> copy_phone_labels ai;
           m \<leftarrow> poke m i (replicate address_appinfo_len 0);
           m \<leftarrow> poke m i (set_long (pack_flags 22 (\<lambda>k. adi_labelRenamed ai ! k \<noteq> 0)));
           m \<leftarrow> poke_blocks m (i + 4) (adi_labels ai);
           m \<leftarrow> poke m (i + 4 + 16 * 22) (set_short (word_of_int (adi_country ai)));
           m \<leftarrow> poke m (i + 4 + 16 * 22 + 2) (set_byte (word_of_int (adi_sortByCompany ai)));
           ai \<leftarrow> copy_phone_labels ai;
           Some (ai, Some m, i + address_appinfo_len) } }"

text \<open>A record that has room for the categories only is written past its end, whatever length the caller
  gives.\<close>

lemma pack_AddressAppInfo_overrun:
  assumes "category_wf (adi_category ai)" "278 \<le> len" "278 \<le> length m" "length m < 278 + 360"
  shows "pack_AddressAppInfo ai (Some m) len = None"
proof -
  have "poke (category_bytes (adi_category ai) @ drop 278 m) 278 (replicate 360 0) = None"
    using assms category_bytes_length [of "adi_category ai"] by (simp add: poke_None)
  then show ?thesis
    using assms by (cases "copy_phone_labels ai") (simp_all add: pack_AddressAppInfo_def category.pack_enc address_appinfo_len_def)
qed

section \<open>Round trip\<close>

definition entry_bytes_of :: "bytes option \<Rightarrow> bytes" where
  "entry_bytes_of e = (if entry_there e then string_bytes e else [])"

definition address_fits :: "Address \<Rightarrow> bool" where
  "address_fits addr \<longleftrightarrow> length (ad_phoneLabel addr) = 5 \<and> list_all (\<lambda>l. 0 \<le> l \<and> l < 16) (ad_phoneLabel addr) \<and>
     0 \<le> ad_showPhone addr \<and> ad_showPhone addr < 16 \<and> length (ad_entry addr) = 19 \<and>
     (\<forall>s. Some s \<in> set (ad_entry addr) \<longrightarrow> cstring s)"

definition entry_flags :: "nat \<Rightarrow> bytes option list \<Rightarrow> u32" where
  "entry_flags v es = pack_flags (v + length es) (\<lambda>i. v \<le> i \<and> entry_there (es ! (i - v)))"

lemma entry_flags_Cons:
  "v + length (e # es) \<le> 32 \<Longrightarrow>
   entry_flags v (e # es) = (if entry_there e then push_bit v 1 else 0) OR entry_flags (v + 1) es"
  by (rule bit_word_eqI) (auto simp: entry_flags_def bit_pack_flags bit_simps nth_Cons' Suc_diff_le le_Suc_eq)

lemma wp_pack_entries:
  assumes "cursor_at n s c" "length s + length (concat (map entry_bytes_of es)) \<le> n" "v + length es \<le> 32"
    "\<And>b off. filled n b (s @ concat (map entry_bytes_of es)) \<Longrightarrow> Q (b, contents OR entry_flags v es, off)"
  shows "wp (pack_entries v es c contents offset) Q"
  using assms
proof (induction es arbitrary: s c v contents offset)
  case Nil
  have "entry_flags v [] = 0" by (rule bit_word_eqI) (simp add: entry_flags_def bit_pack_flags)
  then show ?case using Nil.prems by (simp add: cursor_at_def wp_def)
next
  case (Cons e es)
  note f = entry_flags_Cons [of v e es]
  show ?case
  proof (cases "entry_there e")
    case True
    have "wp (pack_entries (v + 1) es c' (contents OR push_bit v 1) off) Q" if "cursor_at n (s @ string_bytes e) c'" for c' off
      by (rule Cons.IH [OF that]) (use Cons.prems(2-4) True f in \<open>auto simp: entry_bytes_of_def or.assoc\<close>)
    then show ?thesis using True Cons.prems(1,2)
      by (simp only: pack_entries.simps if_True Let_def)
        (intro wp_bind, rule wp_put_string [OF Cons.prems(1)], auto simp: entry_bytes_of_def)
  next
    case False
    have "wp (pack_entries (v + 1) es c contents offset) Q"
      by (rule Cons.IH [OF Cons.prems(1)]) (use Cons.prems(2-4) False f in \<open>auto simp: entry_bytes_of_def\<close>)
    then show ?thesis using False by simp
  qed
qed

lemma unpack_entries_bytes:
  assumes "n = length xs + length (concat (map entry_bytes_of es))" "n < 2 ^ 64" "length old = v + length es"
    "\<And>i. i < length es \<Longrightarrow> test_flag contents (v + i) \<longleftrightarrow> entry_there (es ! i)" "\<And>s. Some s \<in> set es \<Longrightarrow> cstring s"
  shows "unpack_entries n (xs @ concat (map entry_bytes_of es)) contents (length es) v (length xs) old =
    Some (take v old @ map (\<lambda>e. if entry_there e then e else None) es)"
  using assms
proof (induction es arbitrary: xs v old)
  case (Cons e es)
  have f: "test_flag contents v \<longleftrightarrow> entry_there e" using Cons.prems(4) [of 0] by simp
  have g: "test_flag contents (v + 1 + i) \<longleftrightarrow> entry_there (es ! i)" if "i < length es" for i
    using Cons.prems(4) [of "Suc i"] that by simp
  have t: "take (Suc v) (old[v := x]) = take v old @ [x]" for x
    using Cons.prems(3) by (simp add: take_Suc_conv_app_nth)
  show ?case
  proof (cases "entry_there e")
    case True
    then obtain s where e: "e = Some s" by (auto simp: entry_there_def split: option.splits)
    then have "cstring s" using Cons.prems(5) by simp
    then have r: "get_cstr (xs @ entry_bytes_of e @ concat (map entry_bytes_of es)) (length xs) = Some s"
      using True e by (simp add: entry_bytes_of_def string_bytes_def mem_simps)
    have "\<not> size_sub n (length xs) < 1"
      using Cons.prems(1,2) True e by (simp add: size_sub_le entry_bytes_of_def string_bytes_def)
    moreover have "unpack_entries n ((xs @ entry_bytes_of e) @ concat (map entry_bytes_of es)) contents (length es) (v + 1)
        (length (xs @ entry_bytes_of e)) (old[v := Some s]) =
      Some (take (v + 1) (old[v := Some s]) @ map (\<lambda>e. if entry_there e then e else None) es)"
      by (rule Cons.IH) (use Cons.prems(1,2,3,5) g in auto)
    moreover have "entry_bytes_of e = s @ [0]" using True e by (simp add: entry_bytes_of_def string_bytes_def)
    ultimately show ?thesis using f True r e by (simp add: t)
  next
    case False
    have "unpack_entries n (xs @ concat (map entry_bytes_of es)) contents (length es) (v + 1) (length xs) (old[v := None]) =
      Some (take (v + 1) (old[v := None]) @ map (\<lambda>e. if entry_there e then e else None) es)"
      by (rule Cons.IH) (use Cons.prems(1,2,3,5) g False in \<open>auto simp: entry_bytes_of_def\<close>)
    moreover have "entry_bytes_of e = []" using False by (simp add: entry_bytes_of_def)
    ultimately show ?thesis using f False by (simp add: t)
  qed
qed simp

text \<open>The labels are nibbles of the second to fourth byte.\<close>

lemma get_set_long_bytes:
  "get_byte (set_long w @ ys) 1 = Some (ucast (drop_bit 16 w))"
  "get_byte (set_long w @ ys) 2 = Some (ucast (drop_bit 8 w))"
  "get_byte (set_long w @ ys) 3 = Some (ucast w)"
proof -
  have m: "ucast (x AND 255) = (ucast x :: u8)" for x :: u32
  proof -
    have e: "(255 :: u32) = mask 8" by (simp add: mask_eq_exp_minus_1)
    show ?thesis unfolding e by (intro bit_word_eqI) (auto simp only: bit_simps possible_bit_word, simp_all)
  qed
  show "get_byte (set_long w @ ys) 1 = Some (ucast (drop_bit 16 w))" "get_byte (set_long w @ ys) 2 = Some (ucast (drop_bit 8 w))"
    "get_byte (set_long w @ ys) 3 = Some (ucast w)"
    by (simp_all add: get_byte_def set_long_def m)
qed

lemma nibbles:
  fixes f :: u32
  assumes "k + 8 \<le> 32"
  shows "hi (ucast (drop_bit k f)) = uint (take_bit 4 (drop_bit (k + 4) f))"
    "lo (ucast (drop_bit k f)) = uint (take_bit 4 (drop_bit k f))"
proof -
  have m: "(15 :: u8) = mask 4" by (simp add: mask_eq_exp_minus_1)
  have "drop_bit 4 (ucast (drop_bit k f) :: u8) AND 15 = ucast (take_bit 4 (drop_bit (k + 4) f))"
    unfolding m by (intro bit_word_eqI) (auto simp: bit_simps ac_simps)
  moreover have "(ucast (drop_bit k f) :: u8) AND 15 = ucast (take_bit 4 (drop_bit k f))"
    unfolding m by (intro bit_word_eqI) (auto simp: bit_simps)
  moreover have "uint (ucast (take_bit 4 w) :: u8) = uint (take_bit 4 w)" for w :: u32
    by (simp add: unsigned_ucast_eq unsigned_take_bit_eq)
  ultimately show "hi (ucast (drop_bit k f)) = uint (take_bit 4 (drop_bit (k + 4) f))" "lo (ucast (drop_bit k f)) = uint (take_bit 4 (drop_bit k f))"
    by (simp_all add: hi_def lo_def)
qed

lemma flag_fields:
  fixes a b c d e g :: u32
  defines "f \<equiv> take_bit 4 a OR push_bit 4 (take_bit 4 b) OR push_bit 8 (take_bit 4 c) OR push_bit 12 (take_bit 4 d) OR
    push_bit 16 (take_bit 4 e) OR push_bit 20 (take_bit 4 g)"
  shows "take_bit 4 (drop_bit 0 f) = take_bit 4 a" "take_bit 4 (drop_bit 4 f) = take_bit 4 b"
    "take_bit 4 (drop_bit 8 f) = take_bit 4 c" "take_bit 4 (drop_bit 12 f) = take_bit 4 d"
    "take_bit 4 (drop_bit 16 f) = take_bit 4 e" "take_bit 4 (drop_bit 20 f) = take_bit 4 g"
  unfolding f_def by (intro bit_word_eqI; auto simp: bit_simps)+

lemma label_word: "0 \<le> l \<Longrightarrow> l < 16 \<Longrightarrow> take_bit 4 (word_of_int l :: u32) = word_of_int l \<and> uint (word_of_int l :: u32) = l"
  by (simp add: take_bit_of_int take_bit_int_eq_self uint_word_of_int)

lemma labels_read:
  assumes "address_fits addr"
  shows "hi (ucast (drop_bit 16 (phoneflag addr))) = ad_showPhone addr"
    "[lo (ucast (phoneflag addr)), hi (ucast (phoneflag addr)), lo (ucast (drop_bit 8 (phoneflag addr))),
      hi (ucast (drop_bit 8 (phoneflag addr))), lo (ucast (drop_bit 16 (phoneflag addr)))] = ad_phoneLabel addr"
proof -
  obtain a b c d e where l: "ad_phoneLabel addr = [a, b, c, d, e]"
    using assms by (auto simp: address_fits_def length_Suc_conv numeral_eq_Suc)
  define g where "g = ad_showPhone addr"
  have r: "0 \<le> a" "a < 16" "0 \<le> b" "b < 16" "0 \<le> c" "c < 16" "0 \<le> d" "d < 16" "0 \<le> e" "e < 16" "0 \<le> g" "g < 16"
    using assms by (simp_all add: address_fits_def l g_def)
  note w = label_word [OF r(1,2)] label_word [OF r(3,4)] label_word [OF r(5,6)] label_word [OF r(7,8)] label_word [OF r(9,10)]
    label_word [OF r(11,12)]
  have f: "phoneflag addr = take_bit 4 (word_of_int a) OR push_bit 4 (take_bit 4 (word_of_int b)) OR
      push_bit 8 (take_bit 4 (word_of_int c)) OR push_bit 12 (take_bit 4 (word_of_int d)) OR
      push_bit 16 (take_bit 4 (word_of_int e)) OR push_bit 20 (take_bit 4 (word_of_int g))"
    using w by (simp add: phoneflag_def l g_def [symmetric] or.assoc)
  note n = nibbles [of 0 "phoneflag addr"] nibbles [of 8 "phoneflag addr"] nibbles [of 16 "phoneflag addr"]
  show "hi (ucast (drop_bit 16 (phoneflag addr))) = ad_showPhone addr"
    "[lo (ucast (phoneflag addr)), hi (ucast (phoneflag addr)), lo (ucast (drop_bit 8 (phoneflag addr))),
      hi (ucast (drop_bit 8 (phoneflag addr))), lo (ucast (drop_bit 16 (phoneflag addr)))] = ad_phoneLabel addr"
    using n w flag_fields [of "word_of_int a" "word_of_int b" "word_of_int c" "word_of_int d" "word_of_int e" "word_of_int g", folded f]
    by (simp_all add: l g_def)
qed

lemma pack_address_content:
  assumes wf: "pi_buffer_wf buf" and fits: "address_fits addr" and ok: "claim_ok env buf (address_len addr)"
    and len: "9 + length (concat (map entry_bytes_of (ad_entry addr))) < 2 ^ 32"
  shows "wp (pack_Address env (Some addr) (Some buf) address_v1)
    (\<lambda>(buf', r). r = 0 \<and> (\<exists>b off. buf' = Some b \<and> pi_buffer_wf b \<and>
       content b = set_long (phoneflag addr) @ set_long (entry_flags 0 (ad_entry addr)) @ [off] @
         concat (map entry_bytes_of (ad_entry addr))))"
proof -
  let ?es = "ad_entry addr" and ?n = "address_len addr"
  let ?Q = "\<lambda>(buf', r). r = (0 :: int) \<and> (\<exists>b off. buf' = Some b \<and> pi_buffer_wf b \<and>
       content b = set_long (phoneflag addr) @ set_long (entry_flags 0 ?es) @ [off] @ concat (map entry_bytes_of ?es))"
  have "length (entry_bytes_of e) = (if entry_there e then opt_strlen e + 1 else 0)" for e
    by (cases e) (auto simp: entry_bytes_of_def string_bytes_def opt_strlen_def entry_there_def)
  then have n: "?n = 9 + length (concat (map entry_bytes_of ?es))"
    using len by (simp add: address_len_def length_concat comp_def)
  have f: "filled ?n (buf_claim env buf ?n) []" using n by (intro filled_claim [OF wf ok]) linarith
  obtain g where "length g = 9" "filled ?n (buf_claim env buf ?n) g"
    using filled_gap [OF f, of 9] n by auto
  then obtain g1 g2 g3 where g: "length g1 = 4" "length g2 = 4" "length g3 = 1"
      "filled ?n (buf_claim env buf ?n) (g1 @ g2 @ g3)"
    using that [of "take 4 g" "take 4 (drop 4 g)" "drop 4 (drop 4 g)"] by (simp del: drop_drop)
  let ?tail = "concat (map entry_bytes_of ?es)"
  have ends: "wp (do { b \<leftarrow> buf_poke b 0 (set_long (phoneflag addr)); b \<leftarrow> buf_poke b 4 (set_long (entry_flags 0 ?es));
      b \<leftarrow> buf_poke b 8 (set_byte off); Some (Some b, 0) }) ?Q"
    if b: "filled ?n b ((g1 @ g2 @ g3) @ ?tail)" for b off
  proof -
    have last: "wp (do { b \<leftarrow> buf_poke b2 8 (set_byte off); Some (Some b, 0) }) ?Q"
      if "filled ?n b2 (set_long (phoneflag addr) @ set_long (entry_flags 0 ?es) @ g3 @ ?tail)" for b2
      by (intro wp_bind, rule wp_over [where xs = "set_long (phoneflag addr) @ set_long (entry_flags 0 ?es)" and ys = g3 and zs = ?tail])
        (use that g n in \<open>auto simp: set_byte_def intro!: wp_Some dest!: filled_done\<close>)
    have mid: "wp (do { b \<leftarrow> buf_poke b1 4 (set_long (entry_flags 0 ?es)); b \<leftarrow> buf_poke b 8 (set_byte off); Some (Some b, 0) }) ?Q"
      if "filled ?n b1 (set_long (phoneflag addr) @ g2 @ g3 @ ?tail)" for b1
      by (intro wp_bind, rule wp_over [where xs = "set_long (phoneflag addr)" and ys = g2 and zs = "g3 @ ?tail"])
        (use that g last in auto)
    show ?thesis
      by (intro wp_bind, rule wp_over [where xs = "[]" and ys = g1 and zs = "g2 @ g3 @ ?tail"]) (use b g mid in auto)
  qed
  have "cursor_at ?n (g1 @ g2 @ g3) (buf_claim env buf ?n, 9)" using g by (simp add: cursor_at_def)
  then have "wp (pack_entries 0 ?es (buf_claim env buf ?n, 9) 0 0) (\<lambda>(b, contents, offset).
      wp (do { b \<leftarrow> buf_poke b 0 (set_long (phoneflag addr)); b \<leftarrow> buf_poke b 4 (set_long contents);
        b \<leftarrow> buf_poke b 8 (set_byte offset); Some (Some b, 0) }) ?Q)"
    by (rule wp_pack_entries) (use n g fits ends in \<open>simp_all add: address_fits_def\<close>)
  then show ?thesis
    unfolding pack_Address_def by (simp add: Let_def) (intro wp_bind, erule wp_mono, auto)
qed

text \<open>C27: an address survives packing and unpacking: its labels, the number shown and all entries that are
  not empty; an empty entry comes back as none.\<close>

theorem address_roundtrip:
  assumes "pi_buffer_wf buf" "address_fits addr" "claim_ok env buf (address_len addr)" "length (ad_entry old) = 19"
    "9 + length (concat (map entry_bytes_of (ad_entry addr))) < 2 ^ 32"
  shows "\<exists>buf'. pack_Address env (Some addr) (Some buf) address_v1 = Some (Some buf', 0) \<and>
    unpack_Address old (Some (buf_of (content buf'))) address_v1 =
      Some (addr\<lparr>ad_entry := map (\<lambda>e. if entry_there e then e else None) (ad_entry addr)\<rparr>, 0)"
proof -
  let ?es = "ad_entry addr"
  obtain b off where b: "pack_Address env (Some addr) (Some buf) address_v1 = Some (Some b, 0)"
    "content b = set_long (phoneflag addr) @ set_long (entry_flags 0 ?es) @ [off] @ concat (map entry_bytes_of ?es)"
    using wp_D [OF pack_address_content [OF assms(1-3,5)]] by auto
  let ?h = "set_long (phoneflag addr) @ set_long (entry_flags 0 ?es) @ [off]"
  have l: "length ?es = 19" "\<And>s. Some s \<in> set ?es \<Longrightarrow> cstring s" using assms(2) by (simp_all add: address_fits_def)
  have u: "unpack_entries (length (content b)) (content b) (entry_flags 0 ?es) 19 0 9 (ad_entry old) =
      Some (map (\<lambda>e. if entry_there e then e else None) ?es)"
    using unpack_entries_bytes [of "length (content b)" ?h ?es "ad_entry old" 0 "entry_flags 0 ?es"] assms(4,5) l
    by (simp add: b(2) entry_flags_def test_pack_flags)
  have r: "get_byte (content b) 1 = Some (ucast (drop_bit 16 (phoneflag addr)))" "get_byte (content b) 2 = Some (ucast (drop_bit 8 (phoneflag addr)))"
    "get_byte (content b) 3 = Some (ucast (phoneflag addr))" "get_long (content b) 4 = Some (entry_flags 0 ?es)"
    unfolding b(2) by (simp_all add: get_set_long_bytes [simplified] mem_simps)
  have "unpack_Address old (Some (buf_of (content b))) address_v1 =
      Some (addr\<lparr>ad_entry := map (\<lambda>e. if entry_there e then e else None) ?es\<rparr>, 0)"
    using r u labels_read [OF assms(2)] by (cases addr) (simp add: unpack_Address_def b(2))
  then show ?thesis using b(1) by blast
qed

definition sample_address :: Address where
  "sample_address = \<lparr>ad_phoneLabel = [0, 1, 2, 3, 15], ad_showPhone = 4,
     ad_entry = [Some [83, 109], None, Some [67, 111], Some []] @ replicate 14 None @ [Some [78]]\<rparr>"

theorem address_roundtrip_witness:
  "\<exists>buf'. pack_Address calloc_env (Some sample_address) (Some (buf_of [])) address_v1 = Some (Some buf', 0) \<and>
    unpack_Address (sample_address\<lparr>ad_entry := replicate 19 None\<rparr>) (Some (buf_of (content buf'))) address_v1 =
      Some (sample_address\<lparr>ad_entry := [Some [83, 109], None, Some [67, 111], None] @ replicate 14 None @ [Some [78]]\<rparr>, 0)"
proof -
  have "address_fits sample_address" by (auto simp: address_fits_def sample_address_def cstring_def)
  moreover have "9 + length (concat (map entry_bytes_of (ad_entry sample_address))) < 2 ^ 32"
    by (simp add: sample_address_def entry_bytes_of_def string_bytes_def)
  moreover have "map (\<lambda>e. if entry_there e then e else None) (ad_entry sample_address) =
      [Some [83, 109], None, Some [67, 111], None] @ replicate 14 None @ [Some [78]]"
    by (simp add: sample_address_def entry_there_def)
  ultimately show ?thesis
    using address_roundtrip [of "buf_of []" sample_address calloc_env "sample_address\<lparr>ad_entry := replicate 19 None\<rparr>"]
    by simp
qed

end
