(* ===== verification/Datebook.thy ===== *)
theory Datebook
  imports RecordFormat
begin

text \<open>
  The Datebook records and AppInfo block (\<open>libpisock/datebook.c\<close>): the times of an appointment,
  and, as the flags say, its alarm, its repetition, the dates excepted from it, a description and a
  note. A section of the C function that reads or writes one of them is a function here; the reader's
  sections give the place behind them.
\<close>

definition datebook_v1 :: int where "datebook_v1 = 0"

definition alarmFlag :: u8 where "alarmFlag = 64"
definition repeatFlag :: u8 where "repeatFlag = 32"
definition noteFlag :: u8 where "noteFlag = 16"
definition exceptFlag :: u8 where "exceptFlag = 8"
definition descFlag :: u8 where "descFlag = 4"

definition repeatWeekly :: int where "repeatWeekly = 2"
definition repeatMonthlyByDay :: int where "repeatMonthlyByDay = 3"

record Appointment =
  ap_event :: int
  ap_begin :: tm
  ap_end :: tm
  ap_alarm :: int
  ap_advance :: int
  ap_advanceUnits :: int
  ap_repeatType :: int
  ap_repeatForever :: int
  ap_repeatEnd :: tm
  ap_repeatFrequency :: int
  ap_repeatDay :: int
  ap_repeatDays :: "int list"
  ap_repeatWeekstart :: int
  ap_exceptions :: int
  ap_exception :: "tm list"
  ap_description :: "bytes option"
  ap_note :: "bytes option"

text \<open>The dates and strings are given back to the heap; the number of dates stays.\<close>

definition free_Appointment :: "Appointment \<Rightarrow> Appointment" where
  "free_Appointment a = a\<lparr>ap_exception := [], ap_description := None, ap_note := None\<rparr>"

section \<open>Reading\<close>

text \<open>An event without a time has 0xffff where the time of its begin would be.\<close>

definition unpack_times :: "(tm \<Rightarrow> tm) \<Rightarrow> bytes \<Rightarrow> Appointment \<Rightarrow> Appointment option" where
  "unpack_times mktime p a = do {
     h1 \<leftarrow> get_byte p 0;
     m1 \<leftarrow> get_byte p 1;
     d \<leftarrow> get_short p 4;
     h2 \<leftarrow> get_byte p 2;
     m2 \<leftarrow> get_byte p 3;
     w \<leftarrow> get_short p 0;
     let day = unpack_date d (ap_begin a);
     let event = (w = 0xffff);
     let start = day\<lparr>tm_hour := if event then 0 else uint h1, tm_min := if event then 0 else uint m1,
                     tm_sec := 0, tm_isdst := -1\<rparr>;
     let stop = start\<lparr>tm_hour := if event then 0 else uint h2, tm_min := if event then 0 else uint m2\<rparr>;
     Some (a\<lparr>ap_event := if event then 1 else 0, ap_begin := mktime start, ap_end := mktime stop\<rparr>) }"

definition unpack_alarm :: "bool \<Rightarrow> bytes \<Rightarrow> nat \<Rightarrow> Appointment \<Rightarrow> (Appointment \<times> nat) option" where
  "unpack_alarm present p i a =
     (if present then do {
        v \<leftarrow> get_byte p i;
        u \<leftarrow> get_byte p (i + 1);
        Some (a\<lparr>ap_alarm := 1, ap_advance := uint v, ap_advanceUnits := uint u\<rparr>, i + 2) }
      else Some (a\<lparr>ap_alarm := 0, ap_advance := 0, ap_advanceUnits := 0\<rparr>, i))"

definition unpack_repeat :: "(tm \<Rightarrow> tm) \<Rightarrow> bool \<Rightarrow> bytes \<Rightarrow> nat \<Rightarrow> Appointment \<Rightarrow> (Appointment \<times> nat) option" where
  "unpack_repeat mktime present p i a =
     (if present then do {
        t \<leftarrow> get_byte p i;
        d \<leftarrow> get_short p (i + 2);
        let a = a\<lparr>ap_repeatType := uint t\<rparr>;
        let a = (if d = 0xffff then a\<lparr>ap_repeatForever := 1\<rparr>
                 else a\<lparr>ap_repeatEnd := mktime (start_of_day (unpack_date d (ap_repeatEnd a))), ap_repeatForever := 0\<rparr>);
        f \<leftarrow> get_byte p (i + 4);
        on \<leftarrow> get_byte p (i + 5);
        w \<leftarrow> get_byte p (i + 6);
        Some (a\<lparr>ap_repeatFrequency := uint f,
                ap_repeatDay := if uint t = repeatMonthlyByDay then uint on else 0,
                ap_repeatDays := if uint t = repeatWeekly then map (\<lambda>k. if test_flag on k then 1 else 0) [0..<7]
                                 else replicate 7 0,
                ap_repeatWeekstart := uint w\<rparr>, i + 8) }
      else Some (a\<lparr>ap_repeatType := 0, ap_repeatForever := 1, ap_repeatFrequency := 0, ap_repeatDay := 0,
                   ap_repeatDays := replicate 7 0, ap_repeatWeekstart := 0\<rparr>, i))"

text \<open>The allocation of the dates is not tested; \<open>junk\<close> is what a new one holds.\<close>

definition sizeof_tm :: nat where "sizeof_tm = 56"

definition unpack_exceptions ::
  "heap_env \<Rightarrow> (tm \<Rightarrow> tm) \<Rightarrow> tm \<Rightarrow> bool \<Rightarrow> bytes \<Rightarrow> nat \<Rightarrow> Appointment \<Rightarrow> (Appointment \<times> nat) option" where
  "unpack_exceptions env mktime junk present p i a =
     (if present then do {
        n \<leftarrow> get_short p i;
        if n \<noteq> 0 \<and> \<not> malloc_ok env (sizeof_tm * unat n) then None
        else do {
          ds \<leftarrow> get_array get_short 2 (unat n) p (i + 2);
          Some (a\<lparr>ap_exceptions := uint n, ap_exception := map (\<lambda>d. mktime (start_of_day (unpack_date d junk))) ds\<rparr>,
                i + 2 + unat n * 2) } }
      else Some (a\<lparr>ap_exceptions := 0, ap_exception := []\<rparr>, i))"

definition unpack_Appointment ::
  "heap_env \<Rightarrow> (tm \<Rightarrow> tm) \<Rightarrow> tm \<Rightarrow> Appointment \<Rightarrow> pi_buffer option \<Rightarrow> int \<Rightarrow> (Appointment \<times> int) option" where
  "unpack_Appointment env mktime junk a buf type =
     (if type \<noteq> datebook_v1 then Some (a, -1)
      else case buf of
        None \<Rightarrow> Some (a, -1)
      | Some buf \<Rightarrow>
          (case data buf of
             None \<Rightarrow> Some (a, -1)
           | Some p \<Rightarrow>
               if used buf < 8 then Some (a, -1)
               else do {
                 a \<leftarrow> unpack_times mktime p a;
                 iflags \<leftarrow> get_byte p 6;
                 (a, i) \<leftarrow> unpack_alarm (iflags AND alarmFlag \<noteq> 0) p 8 a;
                 (a, i) \<leftarrow> unpack_repeat mktime (iflags AND repeatFlag \<noteq> 0) p i a;
                 (a, i) \<leftarrow> unpack_exceptions env mktime junk (iflags AND exceptFlag \<noteq> 0) p i a;
                 (desc, i) \<leftarrow> get_string (iflags AND descFlag \<noteq> 0) p i;
                 (note, i) \<leftarrow> get_string (iflags AND noteFlag \<noteq> 0) p i;
                 Some (a\<lparr>ap_description := desc, ap_note := note\<rparr>, 0) }))"

section \<open>Writing\<close>

text \<open>The length; twice the number of exceptions is computed in an \<open>int\<close>.\<close>

definition appointment_len :: "Appointment \<Rightarrow> int option" where
  "appointment_len a = do {
     let n = 8 + (if ap_alarm a \<noteq> 0 then 2 else 0) + (if ap_repeatType a \<noteq> 0 then 8 else 0);
     n \<leftarrow> (if ap_exceptions a \<noteq> 0
           then do { e \<leftarrow> add_int (ap_exceptions a) (ap_exceptions a); e \<leftarrow> add_int 2 e; add_int n e } else Some n);
     Some (to_int (n + (case ap_note a of None \<Rightarrow> 0 | Some s \<Rightarrow> int (length s) + 1) +
       (case ap_description a of None \<Rightarrow> 0 | Some s \<Rightarrow> int (length s) + 1))) }"

definition pack_times :: "Appointment \<Rightarrow> pi_buffer \<Rightarrow> pi_buffer option" where
  "pack_times a buf = do {
     buf \<leftarrow> buf_poke buf 0 (set_byte (word_of_int (tm_hour (ap_begin a))));
     buf \<leftarrow> buf_poke buf 1 (set_byte (word_of_int (tm_min (ap_begin a))));
     buf \<leftarrow> buf_poke buf 2 (set_byte (word_of_int (tm_hour (ap_end a))));
     buf \<leftarrow> buf_poke buf 3 (set_byte (word_of_int (tm_min (ap_end a))));
     buf \<leftarrow> buf_poke buf 4 (set_short (pack_date (ap_begin a)));
     if ap_event a \<noteq> 0 then buf_poke buf 0 (set_long 0xffffffff) else Some buf }"

definition pack_alarm :: "Appointment \<Rightarrow> cursor \<Rightarrow> cursor option" where
  "pack_alarm a c =
     (if ap_alarm a \<noteq> 0
      then puts [set_byte (word_of_int (ap_advance a)), set_byte (word_of_int (ap_advanceUnits a))] c
      else Some c)"

definition repeat_on :: "Appointment \<Rightarrow> u8" where
  "repeat_on a =
     (if ap_repeatType a = repeatMonthlyByDay then word_of_int (ap_repeatDay a)
      else if ap_repeatType a = repeatWeekly then pack_flags 7 (\<lambda>k. ap_repeatDays a ! k \<noteq> 0)
      else 0)"

definition pack_repeat :: "Appointment \<Rightarrow> cursor \<Rightarrow> cursor option" where
  "pack_repeat a c =
     (if ap_repeatType a \<noteq> 0
      then puts [set_byte (word_of_int (ap_repeatType a)), set_byte 0,
             set_short (if ap_repeatForever a \<noteq> 0 then 0xffff else pack_date (ap_repeatEnd a)),
             set_byte (word_of_int (ap_repeatFrequency a)), set_byte (repeat_on a),
             set_byte (word_of_int (ap_repeatWeekstart a)), set_byte 0] c
      else Some c)"

text \<open>The loop over the dates reads past the array when there are fewer than the count says.\<close>

definition pack_exceptions :: "Appointment \<Rightarrow> cursor \<Rightarrow> cursor option" where
  "pack_exceptions a c =
     (if ap_exceptions a \<noteq> 0 then do {
        c \<leftarrow> put (set_short (word_of_int (ap_exceptions a))) c;
        if length (ap_exception a) < nat (ap_exceptions a) then None
        else puts (map (\<lambda>t. set_short (pack_date t)) (take (nat (ap_exceptions a)) (ap_exception a))) c }
      else Some c)"

definition appointment_flags :: "Appointment \<Rightarrow> u8" where
  "appointment_flags a =
     (if ap_alarm a \<noteq> 0 then alarmFlag else 0) OR (if ap_repeatType a \<noteq> 0 then repeatFlag else 0) OR
     (if ap_exceptions a \<noteq> 0 then exceptFlag else 0) OR (if ap_description a \<noteq> None then descFlag else 0) OR
     (if ap_note a \<noteq> None then noteFlag else 0)"

definition pack_Appointment ::
  "heap_env \<Rightarrow> Appointment option \<Rightarrow> pi_buffer option \<Rightarrow> int \<Rightarrow> (pi_buffer option \<times> int) option" where
  "pack_Appointment env a buf type =
     (case (a, buf) of
        (Some a, Some buf) \<Rightarrow>
          if type \<noteq> datebook_v1 then Some (Some buf, -1)
          else do {
            destlen \<leftarrow> appointment_len a;
            let buf = buf_claim env buf (size_of_int destlen);
            buf \<leftarrow> pack_times a buf;
            c \<leftarrow> pack_alarm a (buf, 8);
            c \<leftarrow> pack_repeat a c;
            c \<leftarrow> pack_exceptions a c;
            c \<leftarrow> put_string (ap_description a) c;
            (buf, pos) \<leftarrow> put_string (ap_note a) c;
            buf \<leftarrow> buf_poke buf 6 (set_byte (appointment_flags a));
            buf \<leftarrow> buf_poke buf 7 (set_byte 0);
            Some (Some buf, 0) }
      | (_, buf) \<Rightarrow> Some (buf, -1))"

section \<open>The AppInfo block\<close>

record AppointmentAppInfo =
  aai_category :: CategoryAppInfo
  aai_startOfWeek :: int

definition unpack_AppointmentAppInfo ::
  "AppointmentAppInfo \<Rightarrow> bytes \<Rightarrow> nat \<Rightarrow> (AppointmentAppInfo \<times> nat) option" where
  "unpack_AppointmentAppInfo ai rcrd len = do {
     (cat, i) \<leftarrow> unpack_CategoryAppInfo (aai_category ai) rcrd len;
     let ai = ai\<lparr>aai_category := cat\<rparr>;
     if i = 0 then Some (ai, 0)
     else if len - i < 2 then Some (ai, 0)
     else do {
       s \<leftarrow> get_byte rcrd i;
       Some (ai\<lparr>aai_startOfWeek := uint s\<rparr>, i + 2) } }"

definition pack_AppointmentAppInfo ::
  "AppointmentAppInfo \<Rightarrow> bytes option \<Rightarrow> nat \<Rightarrow> (bytes option \<times> nat) option" where
  "pack_AppointmentAppInfo ai rcrd len = do {
     (rcrd, i) \<leftarrow> pack_CategoryAppInfo (aai_category ai) rcrd len;
     case rcrd of
       None \<Rightarrow> Some (None, i + 2)
     | Some m \<Rightarrow>
         if i = 0 then Some (Some m, 0)
         else if len - i < 2 then Some (Some m, 0)
         else do {
           m \<leftarrow> poke m i (set_short 0);
           m \<leftarrow> poke m i (set_byte (word_of_int (aai_startOfWeek ai)));
           Some (Some m, i + 2) } }"

section \<open>The bytes of an appointment\<close>

definition time_bytes :: "Appointment \<Rightarrow> bytes" where
  "time_bytes a =
     (if ap_event a \<noteq> 0 then [0xff, 0xff, 0xff, 0xff]
      else [word_of_int (tm_hour (ap_begin a)), word_of_int (tm_min (ap_begin a)),
            word_of_int (tm_hour (ap_end a)), word_of_int (tm_min (ap_end a))]) @ set_short (pack_date (ap_begin a))"

definition alarm_bytes :: "Appointment \<Rightarrow> bytes" where
  "alarm_bytes a = (if ap_alarm a \<noteq> 0 then [word_of_int (ap_advance a), word_of_int (ap_advanceUnits a)] else [])"

definition repeat_bytes :: "Appointment \<Rightarrow> bytes" where
  "repeat_bytes a =
     (if ap_repeatType a \<noteq> 0
      then [word_of_int (ap_repeatType a), 0] @ set_short (if ap_repeatForever a \<noteq> 0 then 0xffff else pack_date (ap_repeatEnd a)) @
        [word_of_int (ap_repeatFrequency a), repeat_on a, word_of_int (ap_repeatWeekstart a), 0]
      else [])"

definition exception_bytes :: "Appointment \<Rightarrow> bytes" where
  "exception_bytes a =
     (if ap_exceptions a \<noteq> 0
      then set_short (word_of_int (ap_exceptions a)) @ concat (map (set_short \<circ> pack_date) (ap_exception a)) else [])"

definition appointment_bytes :: "Appointment \<Rightarrow> bytes" where
  "appointment_bytes a = time_bytes a @ [appointment_flags a, 0] @ alarm_bytes a @ repeat_bytes a @ exception_bytes a @
     string_bytes (ap_description a) @ string_bytes (ap_note a)"

text \<open>Appointments that the format can hold.\<close>

definition appointment_fits :: "Appointment \<Rightarrow> bool" where
  "appointment_fits a \<longleftrightarrow> palm_date (ap_begin a) \<and>
     (ap_event a = 0 \<longrightarrow> byte_value (tm_hour (ap_begin a)) \<and> byte_value (tm_min (ap_begin a)) \<and>
        byte_value (tm_hour (ap_end a)) \<and> byte_value (tm_min (ap_end a)) \<and> tm_hour (ap_begin a) \<noteq> 255) \<and>
     (ap_alarm a \<noteq> 0 \<longrightarrow> byte_value (ap_advance a) \<and> byte_value (ap_advanceUnits a)) \<and>
     byte_value (ap_repeatType a) \<and> byte_value (ap_repeatFrequency a) \<and> byte_value (ap_repeatWeekstart a) \<and>
     byte_value (ap_repeatDay a) \<and> length (ap_repeatDays a) = 7 \<and>
     (ap_repeatType a \<noteq> 0 \<longrightarrow> ap_repeatForever a = 0 \<longrightarrow> palm_date (ap_repeatEnd a)) \<and>
     ap_exceptions a = int (length (ap_exception a)) \<and> ap_exceptions a < 65536 \<and> list_all palm_date (ap_exception a) \<and>
     (\<forall>s. ap_description a = Some s \<longrightarrow> cstring s) \<and> (\<forall>s. ap_note a = Some s \<longrightarrow> cstring s)"

lemma section_length:
  "length (time_bytes a) = 6" "length (alarm_bytes a) = (if ap_alarm a \<noteq> 0 then 2 else 0)"
  "length (repeat_bytes a) = (if ap_repeatType a \<noteq> 0 then 8 else 0)"
  "length (exception_bytes a) = (if ap_exceptions a \<noteq> 0 then 2 + 2 * length (ap_exception a) else 0)"
proof -
  have "length (concat (map (set_short \<circ> pack_date) ts)) = 2 * length ts" for ts by (induction ts) simp_all
  then show "length (exception_bytes a) = (if ap_exceptions a \<noteq> 0 then 2 + 2 * length (ap_exception a) else 0)"
    by (simp add: exception_bytes_def)
qed (simp_all add: time_bytes_def alarm_bytes_def repeat_bytes_def)

lemma appointment_len_bytes:
  assumes "appointment_fits a" "length (appointment_bytes a) < 0x80000000"
  shows "appointment_len a = Some (int (length (appointment_bytes a)))"
proof -
  have e: "ap_exceptions a = int (length (ap_exception a))" "ap_exceptions a < 65536"
    using assms(1) by (simp_all add: appointment_fits_def)
  define M :: int where "M = 8 + (if ap_alarm a \<noteq> 0 then 2 else 0) + (if ap_repeatType a \<noteq> 0 then 8 else 0)"
  define N where "N = M + (if ap_exceptions a \<noteq> 0 then 2 + (ap_exceptions a + ap_exceptions a) else 0)"
  define S where "S = (case ap_note a of None \<Rightarrow> 0 | Some s \<Rightarrow> int (length s) + 1)"
  define T where "T = (case ap_description a of None \<Rightarrow> 0 | Some s \<Rightarrow> int (length s) + 1)"
  have "8 \<le> M" "M \<le> 18" by (simp_all add: M_def)
  then have n: "(if ap_exceptions a \<noteq> 0
      then do { e \<leftarrow> add_int (ap_exceptions a) (ap_exceptions a); e \<leftarrow> add_int 2 e; add_int M e } else Some M) = Some N"
    using e by (simp add: N_def add_int_def)
  have l: "int (length (appointment_bytes a)) = N + S + T"
    using e(1) unfolding appointment_bytes_def N_def S_def T_def M_def
    by (auto simp: section_length string_bytes_def split: option.split)
  have "to_int (int (length (appointment_bytes a))) = int (length (appointment_bytes a))"
    using assms(2) by (simp add: to_int_id)
  then show ?thesis
    unfolding appointment_len_def M_def [symmetric] S_def [symmetric] T_def [symmetric] by (simp only: Let_def n bind.bind_lunit l)
qed

section \<open>Packing\<close>

lemma wp_pack_times:
  assumes "filled n buf []" "8 \<le> n" "\<And>b. filled n b (time_bytes a) \<Longrightarrow> Q b"
  shows "wp (pack_times a buf) Q"
proof -
  let ?s = "[word_of_int (tm_hour (ap_begin a)), word_of_int (tm_min (ap_begin a)),
            word_of_int (tm_hour (ap_end a)), word_of_int (tm_min (ap_end a))] @ set_short (pack_date (ap_begin a)) :: bytes"
  have over: "wp (buf_poke b 0 (set_long 0xffffffff)) Q" if "filled n b ?s" "ap_event a \<noteq> 0" for b
  proof (rule wp_over [where xs = "[]" and ys = "take 4 ?s" and zs = "drop 4 ?s"])
    show "filled n b ([] @ take 4 ?s @ drop 4 ?s)" using that by simp
    show "Q b'" if "filled n b' ([] @ set_long 0xffffffff @ drop 4 ?s)" for b'
      using that \<open>ap_event a \<noteq> 0\<close> assms(3) [of b'] by (simp add: time_bytes_def set_long_def)
  qed simp_all
  show ?thesis
    unfolding pack_times_def
    by (rule wp_bind, rule filled_poke [OF assms(1)], simp, use assms(2) in \<open>simp add: set_byte_def\<close>)
      (rule wp_bind, rule filled_poke, assumption, simp add: set_byte_def, use assms(2) in \<open>simp add: set_byte_def\<close>,
       (rule wp_bind, rule filled_poke, assumption, simp add: set_byte_def, use assms(2) in \<open>simp add: set_byte_def\<close>)+,
       use over assms(3) in \<open>auto simp: set_byte_def time_bytes_def intro!: wp_Some\<close>)
qed

lemma wp_pack_alarm:
  assumes "cursor_at n s c" "length s + length (alarm_bytes a) \<le> n" "\<And>c'. cursor_at n (s @ alarm_bytes a) c' \<Longrightarrow> Q c'"
  shows "wp (pack_alarm a c) Q"
  using assms wp_puts [OF assms(1), of "[set_byte (word_of_int (ap_advance a)), set_byte (word_of_int (ap_advanceUnits a))]" Q]
  by (cases c) (auto simp: pack_alarm_def alarm_bytes_def set_byte_def wp_def split: if_splits)

lemma wp_pack_repeat:
  assumes "cursor_at n s c" "length s + length (repeat_bytes a) \<le> n" "\<And>c'. cursor_at n (s @ repeat_bytes a) c' \<Longrightarrow> Q c'"
  shows "wp (pack_repeat a c) Q"
proof (cases "ap_repeatType a = 0")
  case True
  then show ?thesis using assms by (cases c) (simp add: pack_repeat_def repeat_bytes_def wp_def)
next
  case False
  show ?thesis unfolding pack_repeat_def if_P [OF False]
    by (rule wp_puts [OF assms(1)]) (use False assms(2,3) in \<open>auto simp: repeat_bytes_def set_byte_def\<close>)
qed

lemma wp_pack_exceptions:
  assumes "cursor_at n s c" "length s + length (exception_bytes a) \<le> n" "ap_exceptions a = int (length (ap_exception a))"
    "\<And>c'. cursor_at n (s @ exception_bytes a) c' \<Longrightarrow> Q c'"
  shows "wp (pack_exceptions a c) Q"
proof (cases "ap_exceptions a = 0")
  case True
  then show ?thesis using assms by (cases c) (simp add: pack_exceptions_def exception_bytes_def wp_def)
next
  case False
  let ?ds = "map (\<lambda>t. set_short (pack_date t)) (ap_exception a)"
  have e: "exception_bytes a = set_short (word_of_int (ap_exceptions a)) @ concat ?ds"
    using False by (simp add: exception_bytes_def comp_def)
  show ?thesis
    unfolding pack_exceptions_def
    using False assms(3)
    by (simp, intro wp_bind, intro wp_put [OF assms(1)])
      (use assms(2,4) in \<open>auto simp: e intro!: wp_puts\<close>)
qed

lemma pack_appointment_content:
  assumes wf: "pi_buffer_wf buf" and fits: "appointment_fits a" and len: "length (appointment_bytes a) < 0x80000000"
    and ok: "claim_ok env buf (length (appointment_bytes a))"
  shows "wp (pack_Appointment env (Some a) (Some buf) datebook_v1)
    (\<lambda>(buf', r). r = 0 \<and> (\<exists>b. buf' = Some b \<and> pi_buffer_wf b \<and> content b = appointment_bytes a))"
proof -
  let ?n = "length (appointment_bytes a)" and ?tail = "alarm_bytes a @ repeat_bytes a @ exception_bytes a"
  have e: "ap_exceptions a = int (length (ap_exception a))" using fits by (simp add: appointment_fits_def)
  have n: "8 \<le> ?n" "?n = 8 + length (alarm_bytes a) + length (repeat_bytes a) + length (exception_bytes a) +
      length (string_bytes (ap_description a)) + length (string_bytes (ap_note a))"
    by (simp_all add: appointment_bytes_def section_length)
  have f: "filled ?n (buf_claim env buf ?n) []" using n(1) by (intro filled_claim [OF wf ok]) linarith
  have sz: "size_of_int (int ?n) = ?n" using len by simp
  have ends: "wp (do { buf \<leftarrow> buf_poke b 6 (set_byte (appointment_flags a)); buf \<leftarrow> buf_poke buf 7 (set_byte 0); Some (Some buf, 0) })
      (\<lambda>(buf', r). r = 0 \<and> (\<exists>b. buf' = Some b \<and> pi_buffer_wf b \<and> content b = appointment_bytes a))"
    if b: "filled ?n b (time_bytes a @ [g, h] @ ?tail @ string_bytes (ap_description a) @ string_bytes (ap_note a))" for b g h
  proof (intro wp_bind, rule wp_over [where xs = "time_bytes a" and ys = "[g]"])
    show "filled ?n b (time_bytes a @ [g] @ h # ?tail @ string_bytes (ap_description a) @ string_bytes (ap_note a))" using b by simp
    show "wp (buf_poke b1 7 (set_byte 0) \<bind> (\<lambda>buf. Some (Some buf, 0)))
        (\<lambda>(buf', r). r = 0 \<and> (\<exists>b. buf' = Some b \<and> pi_buffer_wf b \<and> content b = appointment_bytes a))"
      if "filled ?n b1 (time_bytes a @ set_byte (appointment_flags a) @ h # ?tail @ string_bytes (ap_description a) @ string_bytes (ap_note a))" for b1
    proof (intro wp_bind, rule wp_over [where xs = "time_bytes a @ [appointment_flags a]" and ys = "[h]"])
      show "filled ?n b1 ((time_bytes a @ [appointment_flags a]) @ [h] @ ?tail @ string_bytes (ap_description a) @ string_bytes (ap_note a))"
        using that by (simp add: set_byte_def)
    qed (auto simp: set_byte_def section_length appointment_bytes_def intro!: wp_Some dest!: filled_done)
  qed (simp_all add: set_byte_def section_length)
  have body: "wp (do {
      c \<leftarrow> pack_alarm a (b, 8); c \<leftarrow> pack_repeat a c; c \<leftarrow> pack_exceptions a c;
      c \<leftarrow> put_string (ap_description a) c; (buf, pos) \<leftarrow> put_string (ap_note a) c;
      buf \<leftarrow> buf_poke buf 6 (set_byte (appointment_flags a)); buf \<leftarrow> buf_poke buf 7 (set_byte 0); Some (Some buf, 0) })
      (\<lambda>(buf', r). r = 0 \<and> (\<exists>b. buf' = Some b \<and> pi_buffer_wf b \<and> content b = appointment_bytes a))"
    if b: "filled ?n b (time_bytes a)" for b
  proof -
    obtain gs where g: "length gs = 2" "filled ?n b (time_bytes a @ gs)"
      using filled_gap [OF b, of 2] n(1) by (auto simp: section_length)
    then obtain g h where gh: "gs = [g, h]" by (cases gs; cases "tl gs") auto
    have "cursor_at ?n (time_bytes a @ [g, h]) (b, 8)" using g(2) gh by (simp add: cursor_at_def section_length)
    then show ?thesis
      by (intro wp_bind)
        (rule wp_pack_alarm, assumption, use n(2) in \<open>simp add: section_length\<close>,
         rule wp_bind, rule wp_pack_repeat, assumption, use n(2) in \<open>simp add: section_length\<close>,
         rule wp_bind, rule wp_pack_exceptions, assumption, use n(2) in \<open>simp add: section_length\<close>, rule e,
         rule wp_bind, rule wp_put_string, assumption, use n(2) in \<open>simp add: section_length\<close>,
         rule wp_bind, rule wp_put_string, assumption, use n(2) in \<open>simp add: section_length\<close>,
         rule wp_split, rule ends, simp add: cursor_at_def)
  qed
  show ?thesis
    unfolding pack_Appointment_def prod.case option.case appointment_len_bytes [OF fits len] Let_def
    by (simp add: sz, intro wp_bind, rule wp_pack_times [OF f n(1)], rule body)
qed

section \<open>Unpacking\<close>

lemma flags_read:
  "appointment_flags a AND alarmFlag \<noteq> 0 \<longleftrightarrow> ap_alarm a \<noteq> 0"
  "appointment_flags a AND repeatFlag \<noteq> 0 \<longleftrightarrow> ap_repeatType a \<noteq> 0"
  "appointment_flags a AND exceptFlag \<noteq> 0 \<longleftrightarrow> ap_exceptions a \<noteq> 0"
  "appointment_flags a AND descFlag \<noteq> 0 \<longleftrightarrow> ap_description a \<noteq> None"
  "appointment_flags a AND noteFlag \<noteq> 0 \<longleftrightarrow> ap_note a \<noteq> None"
  by (simp_all add: appointment_flags_def alarmFlag_def repeatFlag_def exceptFlag_def descFlag_def noteFlag_def)

text \<open>The times that the reader hands to \<open>mktime\<close>.\<close>

definition read_begin :: "Appointment \<Rightarrow> Appointment \<Rightarrow> tm" where
  "read_begin old a = (unpack_date (pack_date (ap_begin a)) (ap_begin old))
     \<lparr>tm_hour := if ap_event a \<noteq> 0 then 0 else tm_hour (ap_begin a),
      tm_min := if ap_event a \<noteq> 0 then 0 else tm_min (ap_begin a), tm_sec := 0, tm_isdst := -1\<rparr>"

definition read_end :: "Appointment \<Rightarrow> Appointment \<Rightarrow> tm" where
  "read_end old a = (read_begin old a)\<lparr>tm_hour := if ap_event a \<noteq> 0 then 0 else tm_hour (ap_end a),
      tm_min := if ap_event a \<noteq> 0 then 0 else tm_min (ap_end a)\<rparr>"

definition read_date :: "tm \<Rightarrow> tm \<Rightarrow> tm" where
  "read_date base t = start_of_day (unpack_date (pack_date t) base)"

lemma unpack_times_bytes:
  assumes "appointment_fits a"
  shows "unpack_times mktime (time_bytes a @ ys) old =
    Some (old\<lparr>ap_event := if ap_event a \<noteq> 0 then 1 else 0, ap_begin := mktime (read_begin old a), ap_end := mktime (read_end old a)\<rparr>)"
proof (cases "ap_event a = 0")
  case False
  have "push_bit 8 (ucast (255 :: u8)) OR ucast (255 :: u8) = (0xffff :: u16)" by simp
  then show ?thesis using False
    by (simp add: unpack_times_def time_bytes_def mem_simps read_begin_def read_end_def get_short_two Let_def)
next
  case True
  have v: "byte_value (tm_hour (ap_begin a))" "byte_value (tm_min (ap_begin a))"
    "byte_value (tm_hour (ap_end a))" "byte_value (tm_min (ap_end a))" "tm_hour (ap_begin a) \<noteq> 255"
    using assms True by (auto simp: appointment_fits_def)
  have "word_of_int (tm_hour (ap_begin a)) \<noteq> (255 :: u8)" using v(1,5) uint_byte by fastforce
  then have "push_bit 8 (ucast (word_of_int (tm_hour (ap_begin a)) :: u8)) OR ucast (c :: u8) \<noteq> (0xffff :: u16)" for c
    using short_ffff [of "word_of_int (tm_hour (ap_begin a))" c] by (rule contrapos_nn)
  then show ?thesis using True v
    by (simp add: unpack_times_def time_bytes_def mem_simps read_begin_def read_end_def get_short_two Let_def)
qed

lemma unpack_alarm_bytes:
  assumes "appointment_fits a" "i = length xs"
  shows "unpack_alarm (ap_alarm a \<noteq> 0) (xs @ alarm_bytes a @ ys) i b =
    Some (b\<lparr>ap_alarm := if ap_alarm a \<noteq> 0 then 1 else 0, ap_advance := if ap_alarm a \<noteq> 0 then ap_advance a else 0,
            ap_advanceUnits := if ap_alarm a \<noteq> 0 then ap_advanceUnits a else 0\<rparr>, i + length (alarm_bytes a))"
  using assms by (simp add: unpack_alarm_def alarm_bytes_def mem_simps appointment_fits_def)

text \<open>What the reader makes of the repetition.\<close>

definition read_repeat :: "(tm \<Rightarrow> tm) \<Rightarrow> Appointment \<Rightarrow> Appointment \<Rightarrow> Appointment" where
  "read_repeat mktime a b =
     (if ap_repeatType a = 0
      then b\<lparr>ap_repeatType := 0, ap_repeatForever := 1, ap_repeatFrequency := 0, ap_repeatDay := 0,
             ap_repeatDays := replicate 7 0, ap_repeatWeekstart := 0\<rparr>
      else b\<lparr>ap_repeatType := ap_repeatType a,
             ap_repeatForever := if ap_repeatForever a \<noteq> 0 then 1 else 0,
             ap_repeatEnd := if ap_repeatForever a \<noteq> 0 then ap_repeatEnd b
                             else mktime (read_date (ap_repeatEnd b) (ap_repeatEnd a)),
             ap_repeatFrequency := ap_repeatFrequency a,
             ap_repeatDay := if ap_repeatType a = repeatMonthlyByDay then ap_repeatDay a else 0,
             ap_repeatDays := if ap_repeatType a = repeatWeekly then map (\<lambda>d. if d \<noteq> 0 then 1 else 0) (ap_repeatDays a)
                              else replicate 7 0,
             ap_repeatWeekstart := ap_repeatWeekstart a\<rparr>)"

lemma weekdays_read:
  assumes "length ds = 7"
  shows "map (\<lambda>k. if test_flag (pack_flags 7 (\<lambda>k. ds ! k \<noteq> (0 :: int)) :: u8) k then 1 else 0) [0..<7] =
    map (\<lambda>d. if d \<noteq> 0 then 1 else (0 :: int)) ds"
  using assms by (auto simp: test_pack_flags intro!: nth_equalityI)

lemma unpack_repeat_bytes:
  assumes "appointment_fits a" "i = length xs"
  shows "unpack_repeat mktime (ap_repeatType a \<noteq> 0) (xs @ repeat_bytes a @ ys) i b =
    Some (read_repeat mktime a b, i + length (repeat_bytes a))"
proof (cases "ap_repeatType a = 0")
  case True
  then show ?thesis by (simp add: unpack_repeat_def repeat_bytes_def read_repeat_def)
next
  case False
  have v: "byte_value (ap_repeatType a)" "byte_value (ap_repeatFrequency a)" "byte_value (ap_repeatWeekstart a)"
    "byte_value (ap_repeatDay a)" "length (ap_repeatDays a) = 7" "ap_repeatForever a = 0 \<Longrightarrow> palm_date (ap_repeatEnd a)"
    using assms(1) False by (auto simp: appointment_fits_def)
  define d where "d = (if ap_repeatForever a \<noteq> 0 then 0xffff else pack_date (ap_repeatEnd a))"
  have d: "d = 0xffff \<longleftrightarrow> ap_repeatForever a \<noteq> 0"
    using v(6) pack_date_not_ffff [of "ap_repeatEnd a"] by (simp add: d_def)
  have w: "repeatWeekly \<noteq> repeatMonthlyByDay" by (simp add: repeatWeekly_def repeatMonthlyByDay_def)
  have b: "repeat_bytes a = [word_of_int (ap_repeatType a), 0] @ set_short d @
      [word_of_int (ap_repeatFrequency a), repeat_on a, word_of_int (ap_repeatWeekstart a), 0]"
    using False by (simp add: repeat_bytes_def d_def)
  have "ap_repeatForever a = 0 \<Longrightarrow> d = pack_date (ap_repeatEnd a)" by (simp add: d_def)
  then show ?thesis using False v d w assms(2) weekdays_read [of "ap_repeatDays a"]
    by (auto simp: unpack_repeat_def b mem_simps read_repeat_def read_date_def repeat_on_def Let_def)
qed

lemma unpack_exceptions_bytes:
  assumes "appointment_fits a" "i = length xs" "malloc_ok env (sizeof_tm * length (ap_exception a))"
  shows "unpack_exceptions env mktime junk (ap_exceptions a \<noteq> 0) (xs @ exception_bytes a @ ys) i b =
    Some (b\<lparr>ap_exceptions := ap_exceptions a, ap_exception := map (\<lambda>t. mktime (read_date junk t)) (ap_exception a)\<rparr>,
          i + length (exception_bytes a))"
proof -
  have e: "ap_exceptions a = int (length (ap_exception a))" "ap_exceptions a < 65536"
    using assms(1) by (simp_all add: appointment_fits_def)
  have u: "uint (word_of_int (ap_exceptions a) :: u16) = ap_exceptions a"
    using e by (intro uint_short) simp_all
  have n: "unat (word_of_int (ap_exceptions a) :: u16) = length (ap_exception a)"
    "uint (word_of_int (ap_exceptions a) :: u16) = ap_exceptions a"
    using arg_cong [OF u, of nat] u e(1) by simp_all
  have arr: "get_array get_short 2 (length (ap_exception a))
      (xs @ set_short v @ concat (map (set_short \<circ> pack_date) (ap_exception a)) @ ys) (i + 2) = Some (map pack_date (ap_exception a))" for v
    using short_field.array_put_at [of "map pack_date (ap_exception a)" "length (ap_exception a)" "xs @ set_short v" "i + 2" ys] assms(2)
    by (simp add: comp_def list_all_iff)
  show ?thesis
  proof (cases "ap_exceptions a = 0")
    case True
    then show ?thesis using e by (simp add: unpack_exceptions_def exception_bytes_def)
  next
    case False
    have h: "get_short (xs @ set_short (word_of_int (ap_exceptions a)) @ zs) i = Some (word_of_int (ap_exceptions a))" for zs
      using assms(2) by (simp add: mem_simps)
    have eb: "exception_bytes a = set_short (word_of_int (ap_exceptions a)) @ concat (map (set_short \<circ> pack_date) (ap_exception a))"
      using False by (simp add: exception_bytes_def)
    let ?w = "word_of_int (ap_exceptions a) :: u16"
    have "unpack_exceptions env mktime junk True (xs @ exception_bytes a @ ys) i b =
      (if ?w \<noteq> 0 \<and> \<not> malloc_ok env (sizeof_tm * unat ?w) then None
        else do {
          ds \<leftarrow> get_array get_short 2 (unat ?w) (xs @ exception_bytes a @ ys) (i + 2);
          Some (b\<lparr>ap_exceptions := uint ?w, ap_exception := map (\<lambda>d. mktime (start_of_day (unpack_date d junk))) ds\<rparr>,
                i + 2 + unat ?w * 2) })"
      using h [of "concat (map (set_short \<circ> pack_date) (ap_exception a)) @ ys"] by (simp add: unpack_exceptions_def eb)
    also have "\<dots> = Some (b\<lparr>ap_exceptions := ap_exceptions a, ap_exception := map (\<lambda>t. mktime (read_date junk t)) (ap_exception a)\<rparr>,
        i + 2 + length (ap_exception a) * 2)"
      using arr [of ?w] assms(3) unfolding eb n append_assoc by (simp add: read_date_def comp_def)
    finally show ?thesis using False by (simp add: section_length)
  qed
qed

text \<open>The appointment that is read.\<close>

definition read_appointment :: "(tm \<Rightarrow> tm) \<Rightarrow> tm \<Rightarrow> Appointment \<Rightarrow> Appointment \<Rightarrow> Appointment" where
  "read_appointment mktime junk old a =
     (read_repeat mktime a
        (old\<lparr>ap_event := if ap_event a \<noteq> 0 then 1 else 0, ap_begin := mktime (read_begin old a), ap_end := mktime (read_end old a),
             ap_alarm := if ap_alarm a \<noteq> 0 then 1 else 0, ap_advance := if ap_alarm a \<noteq> 0 then ap_advance a else 0,
             ap_advanceUnits := if ap_alarm a \<noteq> 0 then ap_advanceUnits a else 0\<rparr>))
     \<lparr>ap_exceptions := ap_exceptions a, ap_exception := map (\<lambda>t. mktime (read_date junk t)) (ap_exception a),
      ap_description := ap_description a, ap_note := ap_note a\<rparr>"

lemma unpack_appointment_bytes:
  assumes fits: "appointment_fits a" and ok: "malloc_ok env (sizeof_tm * length (ap_exception a))"
  shows "unpack_Appointment env mktime junk old (Some (buf_of (appointment_bytes a))) datebook_v1 =
    Some (read_appointment mktime junk old a, 0)"
proof -
  let ?p = "appointment_bytes a"
  let ?t = "time_bytes a @ [appointment_flags a, 0]"
  let ?str = "string_bytes (ap_description a) @ string_bytes (ap_note a)"
  have cs: "\<And>s. ap_description a = Some s \<Longrightarrow> cstring s" "\<And>s. ap_note a = Some s \<Longrightarrow> cstring s"
    using fits by (auto simp: appointment_fits_def)
  have p: "?p = time_bytes a @ [appointment_flags a, 0] @ alarm_bytes a @ repeat_bytes a @ exception_bytes a @ ?str"
    "?p = ?t @ alarm_bytes a @ repeat_bytes a @ exception_bytes a @ ?str"
    "?p = (?t @ alarm_bytes a) @ repeat_bytes a @ exception_bytes a @ ?str"
    "?p = (?t @ alarm_bytes a @ repeat_bytes a) @ exception_bytes a @ ?str"
    "?p = (?t @ alarm_bytes a @ repeat_bytes a @ exception_bytes a) @ string_bytes (ap_description a) @ string_bytes (ap_note a)"
    "?p = (?t @ alarm_bytes a @ repeat_bytes a @ exception_bytes a @ string_bytes (ap_description a)) @ string_bytes (ap_note a) @ []"
    by (simp_all add: appointment_bytes_def)
  have times: "unpack_times mktime ?p b = Some (b\<lparr>ap_event := if ap_event a \<noteq> 0 then 1 else 0,
      ap_begin := mktime (read_begin b a), ap_end := mktime (read_end b a)\<rparr>)" for b
    unfolding p(1) by (rule unpack_times_bytes [OF fits])
  have flags: "get_byte ?p 6 = Some (appointment_flags a)" unfolding p(1) by (simp add: mem_simps section_length)
  have alarm: "unpack_alarm (ap_alarm a \<noteq> 0) ?p 8 b = Some (b\<lparr>ap_alarm := if ap_alarm a \<noteq> 0 then 1 else 0,
      ap_advance := if ap_alarm a \<noteq> 0 then ap_advance a else 0,
      ap_advanceUnits := if ap_alarm a \<noteq> 0 then ap_advanceUnits a else 0\<rparr>, 8 + length (alarm_bytes a))" for b
    unfolding p(2) by (rule unpack_alarm_bytes [OF fits]) (simp add: section_length)
  have rep: "unpack_repeat mktime (ap_repeatType a \<noteq> 0) ?p (8 + length (alarm_bytes a)) b =
      Some (read_repeat mktime a b, 8 + length (alarm_bytes a) + length (repeat_bytes a))" for b
    unfolding p(3) by (rule unpack_repeat_bytes [OF fits]) (simp add: section_length)
  have exc: "unpack_exceptions env mktime junk (ap_exceptions a \<noteq> 0) ?p (8 + length (alarm_bytes a) + length (repeat_bytes a)) b =
      Some (b\<lparr>ap_exceptions := ap_exceptions a, ap_exception := map (\<lambda>t. mktime (read_date junk t)) (ap_exception a)\<rparr>,
        8 + length (alarm_bytes a) + length (repeat_bytes a) + length (exception_bytes a))" for b
    unfolding p(4) by (rule unpack_exceptions_bytes [OF fits _ ok]) (simp add: section_length)
  let ?i = "8 + length (alarm_bytes a) + length (repeat_bytes a) + length (exception_bytes a)"
  have desc: "get_string (ap_description a \<noteq> None) ?p ?i = Some (ap_description a, ?i + length (string_bytes (ap_description a)))"
    unfolding p(5) by (rule get_string_bytes [OF cs(1)]) (simp_all add: section_length)
  have note': "get_string (ap_note a \<noteq> None) ?p (?i + length (string_bytes (ap_description a))) =
      Some (ap_note a, ?i + length (string_bytes (ap_description a)) + length (string_bytes (ap_note a)))"
    unfolding p(6) by (rule get_string_bytes [OF cs(2)]) (simp_all add: section_length)
  have "8 \<le> length ?p" by (simp add: appointment_bytes_def section_length)
  then show ?thesis
    by (simp add: unpack_Appointment_def times flags flags_read alarm rep exc desc note' read_appointment_def del: not_None_eq)
qed

section \<open>Property\<close>

text \<open>Two appointments that say the same, as far as a record can say it: an event has no time of day,
  the end is on the day of the begin, and what is not used of a repetition is not stored.\<close>

definition same_appointment :: "Appointment \<Rightarrow> Appointment \<Rightarrow> bool" where
  "same_appointment a' a \<longleftrightarrow>
     (ap_event a' \<noteq> 0 \<longleftrightarrow> ap_event a \<noteq> 0) \<and> same_date (ap_begin a') (ap_begin a) \<and> same_date (ap_end a') (ap_begin a) \<and>
     (ap_event a = 0 \<longrightarrow> same_time (ap_begin a') (ap_begin a) \<and>
        tm_hour (ap_end a') = tm_hour (ap_end a) \<and> tm_min (ap_end a') = tm_min (ap_end a)) \<and>
     (ap_alarm a' \<noteq> 0 \<longleftrightarrow> ap_alarm a \<noteq> 0) \<and>
     (ap_alarm a \<noteq> 0 \<longrightarrow> ap_advance a' = ap_advance a \<and> ap_advanceUnits a' = ap_advanceUnits a) \<and>
     ap_repeatType a' = ap_repeatType a \<and>
     (ap_repeatType a \<noteq> 0 \<longrightarrow> (ap_repeatForever a' \<noteq> 0 \<longleftrightarrow> ap_repeatForever a \<noteq> 0) \<and>
        (ap_repeatForever a = 0 \<longrightarrow> same_date (ap_repeatEnd a') (ap_repeatEnd a)) \<and>
        ap_repeatFrequency a' = ap_repeatFrequency a \<and> ap_repeatWeekstart a' = ap_repeatWeekstart a) \<and>
     (ap_repeatType a = repeatMonthlyByDay \<longrightarrow> ap_repeatDay a' = ap_repeatDay a) \<and>
     (ap_repeatType a = repeatWeekly \<longrightarrow> list_all2 (\<lambda>d' d. d' \<noteq> 0 \<longleftrightarrow> d \<noteq> 0) (ap_repeatDays a') (ap_repeatDays a)) \<and>
     ap_exceptions a' = ap_exceptions a \<and> list_all2 same_date (ap_exception a') (ap_exception a) \<and>
     ap_description a' = ap_description a \<and> ap_note a' = ap_note a"

text \<open>The times that reading the record passes to \<open>mktime\<close>.\<close>

definition times_read :: "tm \<Rightarrow> Appointment \<Rightarrow> Appointment \<Rightarrow> tm list" where
  "times_read junk old a = [read_begin old a, read_end old a] @
     (if ap_repeatType a \<noteq> 0 \<and> ap_repeatForever a = 0 then [read_date (ap_repeatEnd old) (ap_repeatEnd a)] else []) @
     map (read_date junk) (ap_exception a)"

lemma read_begin_date: "palm_date (ap_begin a) \<Longrightarrow> same_date (read_begin old a) (ap_begin a)"
  "palm_date (ap_begin a) \<Longrightarrow> same_date (read_end old a) (ap_begin a)"
  using unpack_pack_date [of "ap_begin a" "ap_begin old"] by (simp_all add: same_date_def read_begin_def read_end_def)

lemma read_same:
  assumes fits: "appointment_fits a" and m: "list_all (mktime_keeps mktime) (times_read junk old a)"
  shows "same_appointment (read_appointment mktime junk old a) a"
proof -
  have k: "mktime_keeps mktime (read_begin old a)" "mktime_keeps mktime (read_end old a)"
    "ap_repeatType a \<noteq> 0 \<Longrightarrow> ap_repeatForever a = 0 \<Longrightarrow> mktime_keeps mktime (read_date (ap_repeatEnd old) (ap_repeatEnd a))"
    "\<And>t. t \<in> set (ap_exception a) \<Longrightarrow> mktime_keeps mktime (read_date junk t)"
    using m by (auto simp: times_read_def list_all_iff)
  have b: "palm_date (ap_begin a)" "\<And>t. t \<in> set (ap_exception a) \<Longrightarrow> palm_date t"
    "ap_repeatType a \<noteq> 0 \<Longrightarrow> ap_repeatForever a = 0 \<Longrightarrow> palm_date (ap_repeatEnd a)"
    using fits by (auto simp: appointment_fits_def list_all_iff)
  have d: "same_date (mktime (read_begin old a)) (ap_begin a)" "same_date (mktime (read_end old a)) (ap_begin a)"
    using kept_date [OF k(1)] kept_date [OF k(2)] read_begin_date [OF b(1)] by blast+
  have r: "ap_repeatType a \<noteq> 0 \<Longrightarrow> ap_repeatForever a = 0 \<Longrightarrow>
      same_date (mktime (read_date (ap_repeatEnd old) (ap_repeatEnd a))) (ap_repeatEnd a)"
    using kept_date [OF k(3) start_of_day_date [OF b(3), folded read_date_def]] by blast
  have x: "list_all2 same_date (map (\<lambda>t. mktime (read_date junk t)) (ap_exception a)) (ap_exception a)"
    using kept_date [OF k(4) start_of_day_date [OF b(2), folded read_date_def]]
    by (simp add: list_all2_map1 list_all2_same)
  have t: "tm_hour (mktime (read_begin old a)) = tm_hour (read_begin old a)" "tm_min (mktime (read_begin old a)) = tm_min (read_begin old a)"
    "tm_hour (mktime (read_end old a)) = tm_hour (read_end old a)" "tm_min (mktime (read_end old a)) = tm_min (read_end old a)"
    using k(1,2) by (simp_all add: mktime_keeps_def)
  have w: "repeatWeekly \<noteq> 0" "repeatMonthlyByDay \<noteq> 0" by (simp_all add: repeatWeekly_def repeatMonthlyByDay_def)
  show ?thesis
    using d r x t w
    by (cases "ap_repeatType a = 0")
      (auto simp: same_appointment_def read_appointment_def read_repeat_def same_time_def read_begin_def read_end_def
        list_all2_map1 list_all2_same)
qed

text \<open>C26: an appointment survives packing and unpacking. For every appointment that the format can
  hold, with any alarm, repetition, exceptions, description and note, \<open>pack_Appointment\<close> writes into
  any buffer a record from which \<open>unpack_Appointment\<close> reads an appointment that says the same, provided
  that \<open>mktime\<close> leaves the times of the record as they are and the allocations succeed.\<close>

theorem appointment_roundtrip:
  assumes "pi_buffer_wf buf" "appointment_fits a" "length (appointment_bytes a) < 0x80000000" "all_alloc env"
    "claim_ok env buf (length (appointment_bytes a))" "list_all (mktime_keeps mktime) (times_read junk old a)"
  shows "\<exists>buf' a'. pack_Appointment env (Some a) (Some buf) datebook_v1 = Some (Some buf', 0) \<and>
    unpack_Appointment env mktime junk old (Some (buf_of (content buf'))) datebook_v1 = Some (a', 0) \<and> same_appointment a' a"
proof -
  obtain buf' where b: "pack_Appointment env (Some a) (Some buf) datebook_v1 = Some (Some buf', 0)" "content buf' = appointment_bytes a"
    using wp_D [OF pack_appointment_content [OF assms(1-3,5)]] by auto
  have "malloc_ok env (sizeof_tm * length (ap_exception a))" using assms(4) by simp
  from unpack_appointment_bytes [OF assms(2) this, of mktime junk old] read_same [OF assms(2,6)] show ?thesis
    using b by auto
qed

text \<open>Every second Tuesday and Thursday from 29 February 2004 on, from 9:30 to 10:00, but for one day.\<close>

definition sample_day :: "int \<Rightarrow> int \<Rightarrow> int \<Rightarrow> int \<Rightarrow> tm" where
  "sample_day d m h mi = \<lparr>tm_sec = 0, tm_min = mi, tm_hour = h, tm_mday = d, tm_mon = m, tm_year = 104, tm_wday = 0, tm_yday = 0, tm_isdst = -1\<rparr>"

definition sample_appointment :: Appointment where
  "sample_appointment = \<lparr>ap_event = 0, ap_begin = sample_day 29 1 9 30, ap_end = sample_day 29 1 10 0, ap_alarm = 1, ap_advance = 5,
     ap_advanceUnits = 0, ap_repeatType = repeatWeekly, ap_repeatForever = 0, ap_repeatEnd = sample_day 31 11 0 0,
     ap_repeatFrequency = 2, ap_repeatDay = 0, ap_repeatDays = [0, 0, 1, 0, 1, 0, 0], ap_repeatWeekstart = 1,
     ap_exceptions = 1, ap_exception = [sample_day 4 2 0 0], ap_description = Some [104, 105], ap_note = None\<rparr>"

theorem appointment_roundtrip_witness:
  "\<exists>buf' a'. pack_Appointment calloc_env (Some sample_appointment) (Some (buf_of [])) datebook_v1 = Some (Some buf', 0) \<and>
    unpack_Appointment calloc_env (\<lambda>t. t) (sample_day 1 0 0 0) sample_appointment (Some (buf_of (content buf'))) datebook_v1 = Some (a', 0) \<and>
    same_appointment a' sample_appointment"
proof (rule appointment_roundtrip)
  show "appointment_fits sample_appointment"
    by (simp add: appointment_fits_def sample_appointment_def sample_day_def palm_date_def byte_value_def repeatWeekly_def cstring_def)
  show "length (appointment_bytes sample_appointment) < 0x80000000"
    by (simp add: appointment_bytes_def section_length string_bytes_def sample_appointment_def)
  show "list_all (mktime_keeps (\<lambda>t. t)) (times_read (sample_day 1 0 0 0) sample_appointment sample_appointment)"
    by (simp add: mktime_keeps_def list_all_iff)
qed simp_all

end
