(* ===== verification/Expense.thy ===== *)
theory Expense
  imports RecordFormat
begin

text \<open>
  The Expense records, AppInfo block and preferences (\<open>libpisock/expense.c\<close>). The caller's block is
  the list of its bytes, or None for a null pointer, for which the packer gives the length it needs.
\<close>

record Expense =
  ex_date :: tm
  ex_type :: int
  ex_payment :: int
  ex_currency :: int
  ex_amount :: "bytes option"
  ex_vendor :: "bytes option"
  ex_city :: "bytes option"
  ex_attendees :: "bytes option"
  ex_note :: "bytes option"

definition free_Expense :: "Expense \<Rightarrow> Expense" where
  "free_Expense e = e\<lparr>ex_note := None, ex_amount := None, ex_city := None, ex_vendor := None, ex_attendees := None\<rparr>"

text \<open>The strings in the order of the record.\<close>

definition expense_texts :: "Expense \<Rightarrow> bytes option list" where
  "expense_texts e = [ex_amount e, ex_vendor e, ex_city e, ex_attendees e, ex_note e]"

definition set_expense_texts :: "bytes option list \<Rightarrow> Expense \<Rightarrow> Expense" where
  "set_expense_texts ss e =
     e\<lparr>ex_amount := nth_or ss 0 (ex_amount e), ex_vendor := nth_or ss 1 (ex_vendor e), ex_city := nth_or ss 2 (ex_city e),
       ex_attendees := nth_or ss 3 (ex_attendees e), ex_note := nth_or ss 4 (ex_note e)\<rparr>"

definition unpack_Expense :: "(tm \<Rightarrow> tm) \<Rightarrow> Expense \<Rightarrow> bytes \<Rightarrow> int \<Rightarrow> (Expense \<times> nat) option" where
  "unpack_Expense mktime e p len =
     (if len < 6 then Some (e, 0)
      else do {
        d \<leftarrow> get_short p 0;
        t \<leftarrow> get_byte p 2;
        y \<leftarrow> get_byte p 3;
        c \<leftarrow> get_byte p 4;
        let e = e\<lparr>ex_date := mktime (start_of_day (unpack_date d (ex_date e))), ex_type := uint t, ex_payment := uint y,
                  ex_currency := uint c\<rparr>;
        (ss, r) \<leftarrow> unpack_texts int p 5 6 (len - 6);
        Some (set_expense_texts ss e, case r of None \<Rightarrow> 0 | Some i \<Rightarrow> i) })"

definition expense_len :: "Expense \<Rightarrow> int" where
  "expense_len e = to_int (11 + int (sum_list (map opt_strlen (expense_texts e))))"

definition pack_Expense :: "Expense \<Rightarrow> bytes option \<Rightarrow> int \<Rightarrow> (bytes option \<times> int) option" where
  "pack_Expense e rcrd len =
     (let destlen = expense_len e in
      case rcrd of
        None \<Rightarrow> Some (None, destlen)
      | Some m \<Rightarrow>
          if len < destlen then Some (Some m, 0)
          else do {
            c \<leftarrow> mputs [set_short (pack_date (ex_date e)), set_byte (word_of_int (ex_type e)), set_byte (word_of_int (ex_payment e)),
                   set_byte (word_of_int (ex_currency e)), set_byte 0] (m, 0);
            (m, pos) \<leftarrow> mputs (map text_bytes (expense_texts e)) c;
            Some (Some m, int pos) })"

section \<open>The AppInfo block and the preferences\<close>

record ExpenseCustomCurrency =
  ec_name :: bytes
  ec_symbol :: bytes
  ec_rate :: bytes

record ExpenseAppInfo =
  eai_category :: CategoryAppInfo
  eai_sortOrder :: int
  eai_currencies :: "ExpenseCustomCurrency list"

definition get_currency :: "bytes \<Rightarrow> nat \<Rightarrow> ExpenseCustomCurrency option" where
  "get_currency p i = do {
     n \<leftarrow> get_block 16 p i;
     s \<leftarrow> get_block 4 p (i + 16);
     r \<leftarrow> get_block 8 p (i + 20);
     Some \<lparr>ec_name = n, ec_symbol = s, ec_rate = r\<rparr> }"

text \<open>The reader does not look whether the block is long enough.\<close>

definition unpack_ExpenseAppInfo :: "ExpenseAppInfo \<Rightarrow> bytes \<Rightarrow> nat \<Rightarrow> (ExpenseAppInfo \<times> nat) option" where
  "unpack_ExpenseAppInfo ai p len = do {
     (cat, i) \<leftarrow> unpack_CategoryAppInfo (eai_category ai) p len;
     let ai = ai\<lparr>eai_category := cat\<rparr>;
     if i = 0 then Some (ai, 0)
     else do {
       s \<leftarrow> get_byte p i;
       cs \<leftarrow> get_array get_currency 28 4 p (i + 2);
       Some (ai\<lparr>eai_sortOrder := uint s, eai_currencies := cs\<rparr>, i + 2 + 28 * 4) } }"

definition currency_bytes :: "ExpenseCustomCurrency \<Rightarrow> bytes" where
  "currency_bytes c = ec_name c @ ec_symbol c @ ec_rate c"

definition pack_ExpenseAppInfo :: "ExpenseAppInfo \<Rightarrow> bytes option \<Rightarrow> nat \<Rightarrow> (bytes option \<times> nat) option" where
  "pack_ExpenseAppInfo ai rcrd len = do {
     let destlen = 2 + (16 + 4 + 8) * 4;
     (rcrd, i) \<leftarrow> pack_CategoryAppInfo (eai_category ai) rcrd len;
     case rcrd of
       None \<Rightarrow> Some (None, i + destlen)
     | Some m \<Rightarrow>
         if i = 0 then Some (Some m, 0)
         else if len - i < destlen then Some (Some m, 0)
         else do {
           (m, pos) \<leftarrow> mputs ([set_byte (word_of_int (eai_sortOrder ai)), set_byte 0] @ map currency_bytes (eai_currencies ai)) (m, i);
           Some (Some m, pos) } }"

record ExpensePref =
  xp_currentCategory :: int
  xp_defaultCurrency :: int
  xp_attendeeFont :: int
  xp_showAllCategories :: int
  xp_showCurrency :: int
  xp_saveBackup :: int
  xp_allowQuickFill :: int
  xp_unitOfDistance :: int
  xp_currencies :: "int list"
  xp_unknown :: "int list"
  xp_noteFont :: int

definition unpack_ExpensePref :: "bytes \<Rightarrow> (ExpensePref \<times> nat) option" where
  "unpack_ExpensePref p = do {
     cat \<leftarrow> get_short p 0;
     cur \<leftarrow> get_short p 2;
     bs \<leftarrow> get_array get_byte 1 6 p 4;
     cs \<leftarrow> get_array get_byte 1 5 p 10;
     us \<leftarrow> get_array get_byte 1 2 p 15;
     f \<leftarrow> get_byte p 17;
     let v = (\<lambda>k. uint (bs ! k));
     Some (\<lparr>xp_currentCategory = uint cat, xp_defaultCurrency = uint cur, xp_attendeeFont = v 0, xp_showAllCategories = v 1,
            xp_showCurrency = v 2, xp_saveBackup = v 3, xp_allowQuickFill = v 4, xp_unitOfDistance = v 5,
            xp_currencies = map uint cs, xp_unknown = map uint us, xp_noteFont = uint f\<rparr>, 18) }"

definition pref_bytes :: "ExpensePref \<Rightarrow> bytes" where
  "pref_bytes p =
     set_short (word_of_int (xp_currentCategory p)) @ set_short (word_of_int (xp_defaultCurrency p)) @
     map word_of_int [xp_attendeeFont p, xp_showAllCategories p, xp_showCurrency p, xp_saveBackup p, xp_allowQuickFill p,
       xp_unitOfDistance p] @ map word_of_int (xp_currencies p) @ [0xff, 0xff] @ [word_of_int (xp_noteFont p)]"

definition pack_ExpensePref :: "ExpensePref \<Rightarrow> bytes \<Rightarrow> (bytes \<times> nat) option" where
  "pack_ExpensePref p m = do {
     c \<leftarrow> mputs [set_short (word_of_int (xp_currentCategory p)), set_short (word_of_int (xp_defaultCurrency p)),
            set_byte (word_of_int (xp_attendeeFont p)), set_byte (word_of_int (xp_showAllCategories p)),
            set_byte (word_of_int (xp_showCurrency p)), set_byte (word_of_int (xp_saveBackup p)),
            set_byte (word_of_int (xp_allowQuickFill p)), set_byte (word_of_int (xp_unitOfDistance p))] (m, 0);
     c \<leftarrow> mputs (map (\<lambda>v. set_byte (word_of_int v)) (xp_currencies p)) c;
     mputs [set_byte 0xff, set_byte 0xff, set_byte (word_of_int (xp_noteFont p))] c }"

section \<open>Round trips\<close>

definition expense_bytes :: "Expense \<Rightarrow> bytes" where
  "expense_bytes e = set_short (pack_date (ex_date e)) @
     [word_of_int (ex_type e), word_of_int (ex_payment e), word_of_int (ex_currency e), 0] @
     concat (map text_bytes (expense_texts e))"

definition expense_fits :: "Expense \<Rightarrow> bool" where
  "expense_fits e \<longleftrightarrow> palm_date (ex_date e) \<and> byte_value (ex_type e) \<and> byte_value (ex_payment e) \<and> byte_value (ex_currency e) \<and>
     (\<forall>s. Some s \<in> set (expense_texts e) \<longrightarrow> cstring s) \<and> length (expense_bytes e) < 0x80000000"

lemma expense_len_bytes: "expense_fits e \<Longrightarrow> expense_len e = int (length (expense_bytes e))"
proof -
  assume "expense_fits e"
  moreover have "length (expense_bytes e) = 11 + sum_list (map opt_strlen (expense_texts e))"
    unfolding expense_bytes_def length_append texts_length by (simp add: expense_texts_def)
  ultimately show ?thesis by (simp add: expense_fits_def expense_len_def to_int_id)
qed

lemma pack_expense_bytes:
  assumes "expense_fits e" "int (length (expense_bytes e)) \<le> len" "length (expense_bytes e) \<le> length m"
  shows "pack_Expense e (Some m) len = Some (Some (expense_bytes e @ drop (length (expense_bytes e)) m), int (length (expense_bytes e)))"
proof -
  let ?h = "[set_short (pack_date (ex_date e)), set_byte (word_of_int (ex_type e)), set_byte (word_of_int (ex_payment e)),
    set_byte (word_of_int (ex_currency e)), set_byte 0]"
  let ?t = "map text_bytes (expense_texts e)"
  have b: "expense_bytes e = concat ?h @ concat ?t" by (simp add: expense_bytes_def set_byte_def)
  have "mputs ?h (m, 0) = Some (concat ?h @ drop (length (concat ?h)) m, length (concat ?h))"
    using mputs_step [of ?h m "[]"] assms(3) b by simp
  moreover have "mputs ?t (concat ?h @ drop (length (concat ?h)) m, length (concat ?h)) =
      Some ((concat ?h @ concat ?t) @ drop (length (concat ?t)) (drop (length (concat ?h)) m), length (concat ?h @ concat ?t))"
    by (rule mputs_step) (use assms(3) b in simp)
  ultimately show ?thesis
    using assms(2) expense_len_bytes [OF assms(1)]
    by (simp add: pack_Expense_def b add.commute del: mputs.simps concat.simps list.map)
qed

text \<open>An expense that is packed into any block long enough is read back, with the empty strings as missing
  ones.\<close>

theorem expense_roundtrip:
  assumes "expense_fits e" "int (length (expense_bytes e)) \<le> len" "length (expense_bytes e) \<le> length m"
    "mktime_keeps mktime (start_of_day (unpack_date (pack_date (ex_date e)) (ex_date old)))"
  shows "\<exists>m' e'. pack_Expense e (Some m) len = Some (Some m', int (length (expense_bytes e))) \<and>
    unpack_Expense mktime old m' len = Some (e', length (expense_bytes e)) \<and>
    same_date (ex_date e') (ex_date e) \<and> ex_type e' = ex_type e \<and> ex_payment e' = ex_payment e \<and>
    ex_currency e' = ex_currency e \<and> expense_texts e' = map text_norm (expense_texts e)"
proof -
  let ?m = "expense_bytes e @ drop (length (expense_bytes e)) m" and ?t = "expense_texts e"
  let ?h = "set_short (pack_date (ex_date e)) @ [word_of_int (ex_type e), word_of_int (ex_payment e), word_of_int (ex_currency e), 0] :: bytes"
  have f: "palm_date (ex_date e)" "byte_value (ex_type e)" "byte_value (ex_payment e)" "byte_value (ex_currency e)"
    "\<And>s. Some s \<in> set ?t \<Longrightarrow> cstring s" using assms(1) by (auto simp: expense_fits_def)
  have t: "length ?t = 5" by (simp add: expense_texts_def)
  have l: "length (expense_bytes e) = 6 + length (concat (map text_bytes ?t))" by (simp add: expense_bytes_def)
  have m: "?m = ?h @ concat (map text_bytes ?t) @ drop (length (expense_bytes e)) m" by (simp add: expense_bytes_def)
  have "unpack_texts int (?h @ concat (map text_bytes ?t) @ drop (length (expense_bytes e)) m) (length ?t) 6 (len - 6) =
      Some (map text_norm ?t, Some (6 + length (concat (map text_bytes ?t))))"
    by (rule unpack_texts_bytes) (use f(5) assms(2) l in auto)
  then have u: "unpack_texts int ?m 5 6 (len - 6) = Some (map text_norm ?t, Some (length (expense_bytes e)))"
    using m t l by metis
  have r: "get_short ?m 0 = Some (pack_date (ex_date e))" "get_byte ?m 2 = Some (word_of_int (ex_type e))"
    "get_byte ?m 3 = Some (word_of_int (ex_payment e))" "get_byte ?m 4 = Some (word_of_int (ex_currency e))"
    unfolding m by (simp_all add: mem_simps)
  have "same_date (mktime (start_of_day (unpack_date (pack_date (ex_date e)) (ex_date old)))) (ex_date e)"
    by (rule kept_date [OF assms(4) start_of_day_date [OF f(1)]])
  moreover have "\<not> len < 6" using assms(2) l by simp
  ultimately show ?thesis
    using r u f pack_expense_bytes [OF assms(1-3)]
    by (auto simp: unpack_Expense_def set_expense_texts_def expense_texts_def nth_or_def)
qed

text \<open>The preferences, where two bytes are written as 0xff whatever was read.\<close>

lemma pack_pref_bytes:
  assumes "length (xp_currencies p) = 5" "18 \<le> length m"
  shows "pack_ExpensePref p m = Some (pref_bytes p @ drop 18 m, 18)"
proof -
  let ?a = "[set_short (word_of_int (xp_currentCategory p)), set_short (word_of_int (xp_defaultCurrency p)),
            set_byte (word_of_int (xp_attendeeFont p)), set_byte (word_of_int (xp_showAllCategories p)),
            set_byte (word_of_int (xp_showCurrency p)), set_byte (word_of_int (xp_saveBackup p)),
            set_byte (word_of_int (xp_allowQuickFill p)), set_byte (word_of_int (xp_unitOfDistance p))]"
  let ?b = "map (\<lambda>v. set_byte (word_of_int v)) (xp_currencies p)"
  let ?c = "[set_byte 0xff, set_byte 0xff, set_byte (word_of_int (xp_noteFont p))]"
  have l: "length (concat ?a) = 10" "length (concat ?b) = 5" "length (concat ?c) = 3"
    using assms(1) by (simp_all add: set_byte_def comp_def length_concat sum_list_triv)
  have 1: "mputs ?a (m, 0) = Some (concat ?a @ drop 10 m, length (concat ?a))"
    using mputs_step [of ?a m "[]"] assms(2) l by simp
  have 2: "mputs ?b (concat ?a @ drop 10 m, length (concat ?a)) = Some ((concat ?a @ concat ?b) @ drop 15 m, length (concat ?a @ concat ?b))"
    using mputs_step [of ?b "drop 10 m" "concat ?a"] assms(2) l by simp
  have 3: "mputs ?c ((concat ?a @ concat ?b) @ drop 15 m, length (concat ?a @ concat ?b)) =
      Some (((concat ?a @ concat ?b) @ concat ?c) @ drop 18 m, length ((concat ?a @ concat ?b) @ concat ?c))"
    using mputs_step [of ?c "drop 15 m" "concat ?a @ concat ?b"] assms(2) l by simp
  have "concat ?b = map word_of_int (xp_currencies p)" by (induction "xp_currencies p") (simp_all add: set_byte_def concat_map_singleton)
  then show ?thesis using 1 2 3 l
    by (simp add: pack_ExpensePref_def pref_bytes_def set_byte_def del: mputs.simps)
qed

end
