(* ===== verification/Mail.thy ===== *)
theory Mail
  imports RecordFormat
begin

text \<open>
  The Mail records, AppInfo block and preferences (\<open>libpisock/mail.c\<close>). The reader subtracts the length
  of the string behind the one it has read, which is empty, from the remaining length, so that each
  string takes one byte from it.
\<close>

record Mail =
  ma_read :: int
  ma_signature :: int
  ma_confirmRead :: int
  ma_confirmDelivery :: int
  ma_priority :: int
  ma_addressing :: int
  ma_dated :: int
  ma_date :: tm
  ma_subject :: "bytes option"
  ma_from :: "bytes option"
  ma_to :: "bytes option"
  ma_cc :: "bytes option"
  ma_bcc :: "bytes option"
  ma_replyTo :: "bytes option"
  ma_sentTo :: "bytes option"
  ma_body :: "bytes option"

text \<open>The strings are given back to the heap. The pointer to the subject is left as it is, where the one to the
  addressee is cleared a second time, so that freeing a mail twice frees the subject twice.\<close>

definition free_Mail :: "Mail \<Rightarrow> Mail" where
  "free_Mail m = m\<lparr>ma_from := None, ma_to := None, ma_cc := None, ma_bcc := None, ma_replyTo := None, ma_sentTo := None,
     ma_body := None\<rparr>"

definition mail_texts :: "Mail \<Rightarrow> bytes option list" where
  "mail_texts m = [ma_subject m, ma_from m, ma_to m, ma_cc m, ma_bcc m, ma_replyTo m, ma_sentTo m, ma_body m]"

definition set_mail_texts :: "bytes option list \<Rightarrow> Mail \<Rightarrow> Mail" where
  "set_mail_texts ss m =
     m\<lparr>ma_subject := nth_or ss 0 (ma_subject m), ma_from := nth_or ss 1 (ma_from m), ma_to := nth_or ss 2 (ma_to m),
       ma_cc := nth_or ss 3 (ma_cc m), ma_bcc := nth_or ss 4 (ma_bcc m), ma_replyTo := nth_or ss 5 (ma_replyTo m),
       ma_sentTo := nth_or ss 6 (ma_sentTo m), ma_body := nth_or ss 7 (ma_body m)\<rparr>"

definition read_mail_flags :: "u8 \<Rightarrow> Mail \<Rightarrow> Mail" where
  "read_mail_flags f m =
     (let bit = (\<lambda>k. if test_flag f k then 1 else 0) in
      m\<lparr>ma_read := bit 7, ma_signature := bit 6, ma_confirmRead := bit 5, ma_confirmDelivery := bit 4,
        ma_priority := uint (drop_bit 2 f AND 3), ma_addressing := uint (f AND 3)\<rparr>)"

definition unpack_Mail :: "(tm \<Rightarrow> tm) \<Rightarrow> Mail \<Rightarrow> bytes \<Rightarrow> nat \<Rightarrow> (Mail \<times> nat) option" where
  "unpack_Mail mktime m p len =
     (if len < 6 then Some (m, 0)
      else do {
        d \<leftarrow> get_short p 0;
        h \<leftarrow> get_byte p 2;
        mi \<leftarrow> get_byte p 3;
        f \<leftarrow> get_byte p 4;
        let date = (unpack_date d (ma_date m))\<lparr>tm_hour := uint h, tm_min := uint mi, tm_sec := 0, tm_isdst := -1\<rparr>;
        let m = read_mail_flags f (m\<lparr>ma_date := mktime date, ma_dated := if d \<noteq> 0 then 1 else 0\<rparr>);
        (ss, r) \<leftarrow> unpack_texts (\<lambda>_. 1) p 8 6 (int len - 6);
        Some (set_mail_texts ss m, case r of None \<Rightarrow> 0 | Some i \<Rightarrow> i) })"

definition mail_len :: "Mail \<Rightarrow> nat" where
  "mail_len m = 14 + sum_list (map opt_strlen (mail_texts m))"

definition mail_flags :: "Mail \<Rightarrow> u8" where
  "mail_flags m =
     (if ma_read m \<noteq> 0 then push_bit 7 1 else 0) OR (if ma_signature m \<noteq> 0 then push_bit 6 1 else 0) OR
     (if ma_confirmRead m \<noteq> 0 then push_bit 5 1 else 0) OR (if ma_confirmDelivery m \<noteq> 0 then push_bit 4 1 else 0) OR
     push_bit 2 (word_of_int (ma_priority m) AND 3) OR (word_of_int (ma_addressing m) AND 3)"

text \<open>A message without a date has four zeros where date and time would be.\<close>

definition pack_Mail :: "Mail \<Rightarrow> bytes option \<Rightarrow> nat \<Rightarrow> (bytes option \<times> nat) option" where
  "pack_Mail mail buffer len =
     (case buffer of
        None \<Rightarrow> Some (None, mail_len mail)
      | Some m \<Rightarrow>
          if len < mail_len mail then Some (Some m, 0)
          else do {
            m \<leftarrow> poke m 0 (set_short (pack_date (ma_date mail)));
            m \<leftarrow> poke m 2 (set_byte (word_of_int (tm_hour (ma_date mail))));
            m \<leftarrow> poke m 3 (set_byte (word_of_int (tm_min (ma_date mail))));
            m \<leftarrow> (if ma_dated mail = 0 then poke m 0 (set_long 0) else Some m);
            m \<leftarrow> poke m 4 (set_byte (mail_flags mail));
            m \<leftarrow> poke m 5 (set_byte 0);
            (m, pos) \<leftarrow> mputs (map text_bytes (mail_texts mail)) (m, 6);
            Some (Some m, pos) })"

section \<open>The AppInfo block and the preferences\<close>

record MailAppInfo =
  mai_category :: CategoryAppInfo
  mai_dirty :: int
  mai_sortOrder :: int
  mai_unsentMessage :: u64

definition unpack_MailAppInfo :: "MailAppInfo \<Rightarrow> bytes \<Rightarrow> nat \<Rightarrow> (MailAppInfo \<times> nat) option" where
  "unpack_MailAppInfo ai p len = do {
     (cat, i) \<leftarrow> unpack_CategoryAppInfo (mai_category ai) p len;
     let ai = ai\<lparr>mai_category := cat\<rparr>;
     if i = 0 then Some (ai, 0)
     else if len - i < 11 then Some (ai, 0)
     else do {
       d \<leftarrow> get_short p i;
       s \<leftarrow> get_byte p (i + 2);
       u \<leftarrow> get_long p (i + 4);
       Some (ai\<lparr>mai_dirty := uint d, mai_sortOrder := uint s, mai_unsentMessage := ucast u\<rparr>, i + 11) } }"

text \<open>The packer looks for eight bytes and writes eleven.\<close>

definition pack_MailAppInfo :: "MailAppInfo \<Rightarrow> bytes option \<Rightarrow> nat \<Rightarrow> (bytes option \<times> nat) option" where
  "pack_MailAppInfo ai rcrd len = do {
     (rcrd, i) \<leftarrow> pack_CategoryAppInfo (mai_category ai) rcrd len;
     case rcrd of
       None \<Rightarrow> Some (None, i + 11)
     | Some m \<Rightarrow>
         if i = 0 then Some (Some m, 0)
         else if len - i < 8 then Some (Some m, 0)
         else do {
           m \<leftarrow> poke m i (set_short (word_of_int (mai_dirty ai)));
           m \<leftarrow> poke m (i + 2) (set_short 0);
           m \<leftarrow> poke m (i + 2) (set_byte (word_of_int (mai_sortOrder ai)));
           m \<leftarrow> poke m (i + 4) (set_long (ucast (mai_unsentMessage ai)));
           m \<leftarrow> poke m (i + 8) (set_short (of_nat (i + 8 + 2)));
           m \<leftarrow> poke m (i + 10) (set_byte 0);
           Some (Some m, i + 11) } }"

record MailSyncPref =
  msp_syncType :: int
  msp_getHigh :: int
  msp_getContaining :: int
  msp_truncate :: int
  msp_filterTo :: "bytes option"
  msp_filterFrom :: "bytes option"
  msp_filterSubject :: "bytes option"

definition free_MailSyncPref :: "MailSyncPref \<Rightarrow> MailSyncPref" where
  "free_MailSyncPref pref = pref\<lparr>msp_filterTo := None, msp_filterFrom := None, msp_filterSubject := None\<rparr>"

definition unpack_MailSyncPref :: "bytes \<Rightarrow> (MailSyncPref \<times> nat) option" where
  "unpack_MailSyncPref p = do {
     s \<leftarrow> get_byte p 0;
     h \<leftarrow> get_byte p 1;
     c \<leftarrow> get_byte p 2;
     t \<leftarrow> get_short p 4;
     (to, i) \<leftarrow> get_text p 6;
     (from, i) \<leftarrow> get_text p i;
     (subject, i) \<leftarrow> get_text p i;
     Some (\<lparr>msp_syncType = uint s, msp_getHigh = uint h, msp_getContaining = uint c, msp_truncate = uint t,
            msp_filterTo = to, msp_filterFrom = from, msp_filterSubject = subject\<rparr>, i) }"

definition pack_MailSyncPref :: "MailSyncPref \<Rightarrow> bytes option \<Rightarrow> nat \<Rightarrow> (bytes option \<times> nat) option" where
  "pack_MailSyncPref pref rcrd len =
     (let destlen = 9 + opt_strlen (msp_filterTo pref) + opt_strlen (msp_filterSubject pref) + opt_strlen (msp_filterFrom pref) in
      case rcrd of
        None \<Rightarrow> Some (None, destlen)
      | Some m \<Rightarrow>
          if len < destlen then Some (Some m, 0)
          else do {
            (m, pos) \<leftarrow> mputs [set_byte (word_of_int (msp_syncType pref)), set_byte (word_of_int (msp_getHigh pref)),
               set_byte (word_of_int (msp_getContaining pref)), set_byte 0, set_short (word_of_int (msp_truncate pref)),
               text_bytes (msp_filterTo pref), text_bytes (msp_filterFrom pref), text_bytes (msp_filterSubject pref)] (m, 0);
            Some (Some m, pos) })"

definition unpack_MailSignaturePref :: "bytes option \<Rightarrow> bytes \<Rightarrow> nat \<Rightarrow> (bytes option \<times> nat) option" where
  "unpack_MailSignaturePref signature p len =
     (if len < 1 then Some (signature, 0)
      else do { s \<leftarrow> get_cstr p 0; Some (Some s, length s + 1) })"

definition pack_MailSignaturePref :: "bytes option \<Rightarrow> bytes option \<Rightarrow> nat \<Rightarrow> (bytes option \<times> nat) option" where
  "pack_MailSignaturePref signature rcrd len =
     (case rcrd of
        None \<Rightarrow> Some (None, 1 + opt_strlen signature)
      | Some m \<Rightarrow>
          if len < 1 + opt_strlen signature then Some (Some m, 0)
          else do { (m, pos) \<leftarrow> mput (text_bytes signature) (m, 0); Some (Some m, pos) })"

lemma pack_MailAppInfo_overrun:
  assumes "category_wf (mai_category ai)" "278 + 8 \<le> len" "278 + 8 \<le> length m" "length m < 278 + 11"
  shows "pack_MailAppInfo ai (Some m) len = None"
proof (rule ccontr)
  assume "pack_MailAppInfo ai (Some m) len \<noteq> None"
  then have "\<exists>m1 m2 m'. length m1 = length m \<and> poke m1 (278 + 8) (set_short m2) \<noteq> None \<and> poke m' (278 + 10) (set_byte 0) \<noteq> None \<and> length m' = length m"
    using assms category_bytes_length [OF assms(1)]
    by (fastforce simp: pack_MailAppInfo_def category.pack_enc bind_eq_Some_conv dest: poke_SomeD split: if_splits)
  then show False using assms(4) by (auto simp: poke_None)
qed

section \<open>Round trip\<close>

definition mail_bytes :: "Mail \<Rightarrow> bytes" where
  "mail_bytes m =
     (if ma_dated m = 0 then [0, 0, 0, 0]
      else set_short (pack_date (ma_date m)) @ [word_of_int (tm_hour (ma_date m)), word_of_int (tm_min (ma_date m))]) @
     [mail_flags m, 0] @ concat (map text_bytes (mail_texts m))"

definition mail_fits :: "Mail \<Rightarrow> bool" where
  "mail_fits m \<longleftrightarrow> (ma_dated m \<noteq> 0 \<longrightarrow> palm_date (ma_date m) \<and> byte_value (tm_hour (ma_date m)) \<and> byte_value (tm_min (ma_date m))) \<and>
     0 \<le> ma_priority m \<and> ma_priority m < 4 \<and> 0 \<le> ma_addressing m \<and> ma_addressing m < 4 \<and>
     (\<forall>s. Some s \<in> set (mail_texts m) \<longrightarrow> cstring s)"

lemma mail_bytes_length: "length (mail_bytes m) = mail_len m"
  unfolding mail_bytes_def mail_len_def length_append texts_length by (simp add: mail_texts_def)

lemma pack_mail_bytes:
  assumes "mail_len ml \<le> len" "mail_len ml \<le> length m"
  shows "pack_Mail ml (Some m) len = Some (Some (mail_bytes ml @ drop (mail_len ml) m), mail_len ml)"
proof -
  let ?t = "map text_bytes (mail_texts ml)"
  let ?d = "if ma_dated ml = 0 then [0, 0, 0, 0] else set_short (pack_date (ma_date ml)) @
    [word_of_int (tm_hour (ma_date ml)), word_of_int (tm_min (ma_date ml))] :: bytes"
  let ?h = "?d @ [mail_flags ml, 0]"
  have l: "mail_len ml = 6 + length (concat ?t)"
    using mail_bytes_length [of ml] by (simp add: mail_bytes_def split: if_splits)
  obtain a0 a1 a2 a3 a4 a5 r where m: "m = a0 # a1 # a2 # a3 # a4 # a5 # r"
    using assms(2) l by (auto simp: Suc_le_length_iff numeral_eq_Suc)
  have s: "\<exists>a b. set_short w = [a, b]" for w by (simp add: set_short_def)
  obtain d0 d1 where d: "set_short (pack_date (ma_date ml)) = [d0, d1]" using s by blast
  have h: "do {
      m \<leftarrow> poke m 0 (set_short (pack_date (ma_date ml)));
      m \<leftarrow> poke m 2 (set_byte (word_of_int (tm_hour (ma_date ml))));
      m \<leftarrow> poke m 3 (set_byte (word_of_int (tm_min (ma_date ml))));
      m \<leftarrow> (if ma_dated ml = 0 then poke m 0 (set_long 0) else Some m);
      m \<leftarrow> poke m 4 (set_byte (mail_flags ml));
      poke m 5 (set_byte 0) } = Some (?h @ drop 6 m)"
    by (simp add: m poke_def set_byte_def set_long_def d)
  have "mputs ?t (hb @ drop 6 m, 6) = Some ((hb @ concat ?t) @ drop (length (concat ?t)) (drop 6 m), 6 + length (concat ?t))"
    if "length hb = 6" for hb using mputs_step [of ?t "drop 6 m" hb] assms(2) l that by simp
  from this [of ?h] have t: "mputs ?t (?h @ drop 6 m, 6) = Some (mail_bytes ml @ drop (mail_len ml) m, mail_len ml)"
    by (simp add: mail_bytes_def l add.commute)
  from h obtain m1 m2 m3 m4 m5 where "poke m 0 (set_short (pack_date (ma_date ml))) = Some m1"
      "poke m1 2 (set_byte (word_of_int (tm_hour (ma_date ml)))) = Some m2"
      "poke m2 3 (set_byte (word_of_int (tm_min (ma_date ml)))) = Some m3"
      "(if ma_dated ml = 0 then poke m3 0 (set_long 0) else Some m3) = Some m4"
      "poke m4 4 (set_byte (mail_flags ml)) = Some m5" "poke m5 5 (set_byte 0) = Some (?h @ drop 6 m)"
    by (auto simp: bind_eq_Some_conv split del: if_split)
  then show ?thesis using assms(1) t by (simp add: pack_Mail_def split del: if_split)
qed

lemma flag_bits:
  fixes p q :: u8 and a b c d :: bool
  defines "f \<equiv> (if a then push_bit 7 1 else 0) OR (if b then push_bit 6 1 else 0) OR (if c then push_bit 5 1 else 0) OR
    (if d then push_bit 4 1 else 0) OR push_bit 2 (p AND mask 2) OR (q AND mask 2)"
  shows "test_flag f 7 = a" "test_flag f 6 = b" "test_flag f 5 = c" "test_flag f 4 = d"
    "drop_bit 2 f AND mask 2 = p AND mask 2" "f AND mask 2 = q AND mask 2"
proof -
  have i: "bit (if x then push_bit k 1 else 0 :: u8) n \<longleftrightarrow> x \<and> n = k \<and> n < 8" for x k n by (auto simp: bit_simps)
  show "test_flag f 7 = a" "test_flag f 6 = b" "test_flag f 5 = c" "test_flag f 4 = d"
    unfolding f_def by (simp_all only: test_flag_bit bit_or_iff i) (auto simp: bit_simps)
  show "drop_bit 2 f AND mask 2 = p AND mask 2" "f AND mask 2 = q AND mask 2"
    unfolding f_def by (intro bit_word_eqI; simp only: bit_or_iff bit_and_iff bit_drop_bit_eq i comp_def; auto simp: bit_simps)+
qed

lemma mail_flags_read:
  assumes "mail_fits m"
  shows "read_mail_flags (mail_flags m) b = b\<lparr>ma_read := if ma_read m \<noteq> 0 then 1 else 0, ma_signature := if ma_signature m \<noteq> 0 then 1 else 0,
    ma_confirmRead := if ma_confirmRead m \<noteq> 0 then 1 else 0, ma_confirmDelivery := if ma_confirmDelivery m \<noteq> 0 then 1 else 0,
    ma_priority := ma_priority m, ma_addressing := ma_addressing m\<rparr>"
proof -
  have m: "(3 :: u8) = mask 2" by (simp add: mask_eq_exp_minus_1)
  have v: "uint ((word_of_int v :: u8) AND mask 2) = v" if "0 \<le> v" "v < 4" for v
    using that by (simp add: unsigned_take_bit_eq uint_word_of_int take_bit_int_eq_self flip: take_bit_eq_mask)
  show ?thesis
    using assms v flag_bits [of "ma_read m \<noteq> 0" "ma_signature m \<noteq> 0" "ma_confirmRead m \<noteq> 0" "ma_confirmDelivery m \<noteq> 0"
        "word_of_int (ma_priority m)" "word_of_int (ma_addressing m)", folded mail_flags_def [unfolded m]]
    by (simp add: read_mail_flags_def m mail_fits_def Let_def)
qed

text \<open>A message that is packed into any block long enough is read back, with the empty strings as missing
  ones.\<close>

theorem mail_roundtrip:
  assumes "mail_fits ml" "mail_len ml \<le> len" "mail_len ml \<le> length m"
    "mktime_keeps mktime ((unpack_date (pack_date (ma_date ml)) (ma_date old))
       \<lparr>tm_hour := tm_hour (ma_date ml), tm_min := tm_min (ma_date ml), tm_sec := 0, tm_isdst := -1\<rparr>)"
  shows "\<exists>m' ml'. pack_Mail ml (Some m) len = Some (Some m', mail_len ml) \<and> unpack_Mail mktime old m' len = Some (ml', mail_len ml) \<and>
    (ma_dated ml' \<noteq> 0 \<longleftrightarrow> ma_dated ml \<noteq> 0) \<and> (ma_dated ml \<noteq> 0 \<longrightarrow> same_time (ma_date ml') (ma_date ml)) \<and>
    (ma_read ml' \<noteq> 0 \<longleftrightarrow> ma_read ml \<noteq> 0) \<and> ma_priority ml' = ma_priority ml \<and> ma_addressing ml' = ma_addressing ml \<and>
    mail_texts ml' = map text_norm (mail_texts ml)"
proof -
  let ?t = "mail_texts ml" and ?m = "mail_bytes ml @ drop (mail_len ml) m"
  define h where "h = (if ma_dated ml = 0 then [0, 0, 0, 0] else set_short (pack_date (ma_date ml)) @
    [word_of_int (tm_hour (ma_date ml)), word_of_int (tm_min (ma_date ml))]) @ [mail_flags ml, 0]"
  have hl: "length h = 6" by (simp add: h_def)
  have m: "?m = h @ concat (map text_bytes ?t) @ drop (mail_len ml) m" by (simp add: mail_bytes_def h_def)
  have l: "mail_len ml = 6 + length (concat (map text_bytes ?t))"
    using mail_bytes_length [of ml] hl by (simp add: mail_bytes_def h_def)
  have f: "\<And>s. Some s \<in> set ?t \<Longrightarrow> cstring s" using assms(1) by (simp add: mail_fits_def)
  have "unpack_texts (\<lambda>_. 1) (h @ concat (map text_bytes ?t) @ drop (mail_len ml) m) (length ?t) 6 (int len - 6) =
      Some (map text_norm ?t, Some (6 + length (concat (map text_bytes ?t))))"
    by (rule unpack_texts_bytes) (use f assms(2) l hl in auto)
  moreover have "length ?t = 8" by (simp add: mail_texts_def)
  ultimately have u: "unpack_texts (\<lambda>_. 1) ?m 8 6 (int len - 6) = Some (map text_norm ?t, Some (mail_len ml))"
    using m l by metis
  have fl: "get_byte ?m 4 = Some (mail_flags ml)" unfolding m h_def by (simp add: mem_simps)
  define w where "w = (if ma_dated ml = 0 then 0 else pack_date (ma_date ml))"
  have z: "get_short (0 # 0 # xs) 0 = Some 0" for xs by (simp add: get_short_two)
  have r: "get_short ?m 0 = Some w" unfolding m h_def w_def by (simp add: mem_simps z)
  have "ma_dated ml \<noteq> 0 \<Longrightarrow> pack_date (ma_date ml) \<noteq> 0"
  proof
    assume "ma_dated ml \<noteq> 0" "pack_date (ma_date ml) = 0"
    moreover from this have p: "palm_date (ma_date ml)" using assms(1) by (simp add: mail_fits_def)
    ultimately have "(tm_year (ma_date ml) - 4) * 512 + (tm_mon (ma_date ml) + 1) * 32 + tm_mday (ma_date ml) = 0"
      using pack_date_uint [OF p] by simp
    then show False using p by (auto simp: palm_date_def)
  qed
  then have w: "w \<noteq> 0 \<longleftrightarrow> ma_dated ml \<noteq> 0" by (simp add: w_def)
  obtain a b where ab: "get_byte ?m 2 = Some a" "get_byte ?m 3 = Some b"
      "ma_dated ml \<noteq> 0 \<Longrightarrow> uint a = tm_hour (ma_date ml) \<and> uint b = tm_min (ma_date ml)"
    unfolding m h_def using assms(1) by (cases "ma_dated ml = 0") (simp_all add: mem_simps mail_fits_def)
  let ?d = "(unpack_date (pack_date (ma_date ml)) (ma_date old))
       \<lparr>tm_hour := tm_hour (ma_date ml), tm_min := tm_min (ma_date ml), tm_sec := 0, tm_isdst := -1\<rparr>"
  have d: "same_time (mktime ?d) (ma_date ml)" if "ma_dated ml \<noteq> 0"
    using assms(1,4) that unpack_pack_date [of "ma_date ml" "ma_date old"]
    by (auto simp: same_time_def same_date_def mktime_keeps_def mail_fits_def)
  have "\<not> len < 6" using assms(2) l by simp
  then show ?thesis
    using pack_mail_bytes [OF assms(2,3)] u fl r ab w d
    by (cases "ma_dated ml = 0") (simp_all add: unpack_Mail_def mail_flags_read [OF assms(1)] set_mail_texts_def mail_texts_def nth_or_def Let_def w_def)
qed

end
