(* ===== verification/Money.thy ===== *)
theory Money
  imports RecordFormat
begin

text \<open>
  The records of MoneyManager and their AppInfo block (\<open>libpisock/money.c\<close>). The two strings of a
  transaction are arrays of fixed size; a copy that does not fit in is undefined.
\<close>

record Transaction =
  mt_flags :: u8
  mt_checknum :: u32
  mt_amount :: int
  mt_total :: int
  mt_amountc :: int
  mt_totalc :: int
  mt_date :: "int list"
  mt_repeat :: u8
  mt_flags2 :: u8
  mt_type :: u8
  mt_reserved :: bytes
  mt_xfer :: u8
  mt_description :: bytes
  mt_note :: bytes

text \<open>\<open>mt_date\<close> holds second, minute, hour, day, month, year and day of the week.\<close>

definition unpack_Transaction :: "Transaction \<Rightarrow> bytes \<Rightarrow> nat \<Rightarrow> (Transaction \<times> nat) option" where
  "unpack_Transaction t p len =
     (if len < 46 then Some (t, 0)
      else do {
        f \<leftarrow> get_byte p 0;
        c \<leftarrow> get_short p 2;
        a \<leftarrow> get_slong p 4;
        tot \<leftarrow> get_slong p 8;
        ac \<leftarrow> get_sshort p 12;
        tc \<leftarrow> get_sshort p 14;
        d \<leftarrow> get_array get_sshort 2 7 p 16;
        r \<leftarrow> get_byte p 30;
        f2 \<leftarrow> get_byte p 31;
        ty \<leftarrow> get_byte p 32;
        res \<leftarrow> get_block 2 p 33;
        x \<leftarrow> get_byte p 35;
        desc \<leftarrow> get_cstr p 36;
        desc' \<leftarrow> poke (mt_description t) 0 (desc @ [0]);
        note \<leftarrow> get_cstr p (36 + 19);
        note' \<leftarrow> poke (mt_note t) 0 (note @ [0]);
        Some (\<lparr>mt_flags = f, mt_checknum = ucast c, mt_amount = a, mt_total = tot, mt_amountc = ac, mt_totalc = tc, mt_date = d,
               mt_repeat = r, mt_flags2 = f2, mt_type = ty, mt_reserved = res, mt_xfer = x, mt_description = desc',
               mt_note = note'\<rparr>, 36 + 19 + length note + 1) })"

text \<open>The fields before the strings; the two bytes behind the type are written as zeros.\<close>

definition transaction_head :: "Transaction \<Rightarrow> bytes list" where
  "transaction_head t =
     [set_byte (mt_flags t), set_byte 0, set_short (ucast (mt_checknum t)), set_slong (mt_amount t), set_slong (mt_total t),
      set_sshort (mt_amountc t), set_sshort (mt_totalc t)] @ map set_sshort (mt_date t) @
     [set_byte (mt_repeat t), set_byte (mt_flags2 t), set_byte (mt_type t), set_short 0, set_byte (mt_xfer t)]"

text \<open>The length that the packer asks for is nine bytes less than what it writes.\<close>

definition pack_Transaction :: "Transaction \<Rightarrow> bytes option \<Rightarrow> nat \<Rightarrow> (bytes option \<times> nat) option" where
  "pack_Transaction t buffer len = do {
     note \<leftarrow> get_cstr (mt_note t) 0;
     let destlen = 46 + length note + 1;
     case buffer of
       None \<Rightarrow> Some (None, destlen)
     | Some m \<Rightarrow>
         if len < destlen then Some (Some m, 0)
         else do {
           (m, i) \<leftarrow> mputs (transaction_head t) (m, 0);
           desc \<leftarrow> get_cstr (mt_description t) 0;
           m \<leftarrow> poke m i (desc @ [0]);
           m \<leftarrow> poke m (i + 19) (note @ [0]);
           Some (Some m, i + 19 + length note + 1) } }"

record MoneyAppInfo =
  mo_category :: CategoryAppInfo
  mo_typeLabels :: "bytes list"
  mo_tranLabels :: "bytes list"

definition unpack_MoneyAppInfo :: "MoneyAppInfo \<Rightarrow> bytes \<Rightarrow> nat \<Rightarrow> (MoneyAppInfo \<times> nat) option" where
  "unpack_MoneyAppInfo ai p len = do {
     (cat, i) \<leftarrow> unpack_CategoryAppInfo (mo_category ai) p len;
     let ai = ai\<lparr>mo_category := cat\<rparr>;
     if i = 0 then Some (ai, 0)
     else if len - i < 603 then Some (ai, 0)
     else do {
       ty \<leftarrow> get_array (get_block 10) 10 20 p i;
       tr \<leftarrow> get_array (get_block 20) 20 20 p (i + 200);
       Some (ai\<lparr>mo_typeLabels := ty, mo_tranLabels := tr\<rparr>, i + 603) } }"

text \<open>The packer compares the length of the category block, and not what is left, with the length of its
  own data.\<close>

definition pack_MoneyAppInfo :: "MoneyAppInfo \<Rightarrow> bytes option \<Rightarrow> nat \<Rightarrow> (bytes option \<times> nat) option" where
  "pack_MoneyAppInfo ai buffer len = do {
     (buffer, i) \<leftarrow> pack_CategoryAppInfo (mo_category ai) buffer len;
     case buffer of
       None \<Rightarrow> Some (None, i + 603)
     | Some m \<Rightarrow>
         if i = 0 then Some (Some m, 0)
         else if i < 603 then Some (Some m, 0)
         else do {
           (m, _) \<leftarrow> mputs (mo_typeLabels ai @ mo_tranLabels ai) (m, i);
           Some (Some m, i + 603) } }"

section \<open>Bounds\<close>

lemma signed_length [simp]: "length (set_sshort v) = 2" "length (set_slong v) = 4"
  by (simp_all add: set_sshort_def set_slong_def)

lemma transaction_head_length: "length (mt_date t) = 7 \<Longrightarrow> length (concat (transaction_head t)) = 36"
proof -
  assume "length (mt_date t) = 7"
  moreover have "length (concat (map set_sshort ds)) = 2 * length ds" for ds by (induction ds) simp_all
  ultimately show ?thesis by (simp add: transaction_head_def set_byte_def)
qed

lemma pack_transaction_overrun:
  assumes "length (mt_date t) = 7" "get_cstr (mt_note t) 0 = Some note" "46 + length note + 1 \<le> len"
    "length m < 55 + length note + 1"
  shows "pack_Transaction t (Some m) len = None"
proof (rule ccontr)
  assume "pack_Transaction t (Some m) len \<noteq> None"
  then obtain m1 i desc m2 m3 where p: "mputs (transaction_head t) (m, 0) = Some (m1, i)" "poke m1 i (desc @ [0]) = Some m2"
      "poke m2 (i + 19) (note @ [0]) = Some m3"
    using assms(2,3) by (auto simp: pack_Transaction_def bind_eq_Some_conv split: if_splits)
  show False
    using mputs_SomeD [OF p(1)] poke_SomeD [OF p(2)] poke_SomeD [OF p(3)] transaction_head_length [OF assms(1)] assms(4) by simp
qed

text \<open>The labels are never written.\<close>

lemma pack_MoneyAppInfo_never:
  assumes "category_wf (mo_category ai)" "278 \<le> len" "278 \<le> length m"
  shows "pack_MoneyAppInfo ai (Some m) len = Some (Some (category_bytes (mo_category ai) @ drop 278 m), 0)"
  using assms by (simp add: pack_MoneyAppInfo_def category.pack_enc)

end
