(* ===== verification/HiNote.thy ===== *)
theory HiNote
  imports RecordFormat
begin

text \<open>
  The HiNote records and AppInfo block (\<open>libpisock/hinote.c\<close>), and the blobs that newer records carry
  (\<open>libpisock/blob.c\<close>).
\<close>

record HiNoteNote =
  hn_flags :: int
  hn_level :: int
  hn_text :: "bytes option"

definition unpack_HiNoteNote :: "HiNoteNote \<Rightarrow> bytes \<Rightarrow> int \<Rightarrow> (HiNoteNote \<times> int) option" where
  "unpack_HiNoteNote hn p len =
     (if len < 3 then Some (hn, 0)
      else do {
        f \<leftarrow> get_byte p 0;
        l \<leftarrow> get_byte p 1;
        s \<leftarrow> get_cstr p 2;
        Some (\<lparr>hn_flags = uint f, hn_level = uint l, hn_text = Some s\<rparr>, int (length s) + 3) })"

definition pack_HiNoteNote :: "HiNoteNote \<Rightarrow> bytes option \<Rightarrow> int \<Rightarrow> (bytes option \<times> int) option" where
  "pack_HiNoteNote hn buffer len =
     (let destlen = to_int (3 + int (opt_strlen (hn_text hn))) in
      case buffer of
        None \<Rightarrow> Some (None, destlen)
      | Some m \<Rightarrow>
          if len < destlen then Some (Some m, 0)
          else do {
            (m, _) \<leftarrow> mputs [[word_of_int (hn_flags hn)], [word_of_int (hn_level hn)], text_bytes (hn_text hn)] (m, 0);
            Some (Some m, destlen) })"

definition free_HiNoteNote :: "HiNoteNote \<Rightarrow> HiNoteNote" where
  "free_HiNoteNote hn = hn\<lparr>hn_text := None\<rparr>"

record HiNoteAppInfo =
  hai_category :: CategoryAppInfo
  hai_reserved :: bytes

text \<open>The loop \<open>for (idx = 0; i < 48; i++)\<close> copies the reserved bytes; \<open>i\<close> is the length of the category
  block, with which it starts.\<close>

definition hinote_copied :: "nat \<Rightarrow> nat" where
  "hinote_copied i = 48 - i"

definition unpack_HiNoteAppInfo :: "HiNoteAppInfo \<Rightarrow> bytes \<Rightarrow> nat \<Rightarrow> (HiNoteAppInfo \<times> nat) option" where
  "unpack_HiNoteAppInfo ai p len = do {
     (cat, i) \<leftarrow> unpack_CategoryAppInfo (hai_category ai) p len;
     let ai = ai\<lparr>hai_category := cat\<rparr>;
     if i = 0 then Some (ai, 0)
     else if len - i < 48 then Some (ai, 0)
     else do {
       bs \<leftarrow> get_block (hinote_copied i) p i;
       res \<leftarrow> (if bs = [] then Some (hai_reserved ai) else poke (hai_reserved ai) i bs);
       Some (ai\<lparr>hai_reserved := res\<rparr>, i + hinote_copied i) } }"

definition pack_HiNoteAppInfo :: "HiNoteAppInfo \<Rightarrow> bytes option \<Rightarrow> nat \<Rightarrow> (bytes option \<times> nat) option" where
  "pack_HiNoteAppInfo ai rcrd len = do {
     (rcrd, i) \<leftarrow> pack_CategoryAppInfo (hai_category ai) rcrd len;
     if i = 0 then Some (rcrd, 0)
     else case rcrd of
       None \<Rightarrow> Some (None, i + 48)
     | Some m \<Rightarrow>
         if len - i < 48 then Some (Some m, i)
         else do {
           bs \<leftarrow> (if hinote_copied i = 0 then Some [] else get_block (hinote_copied i) (hai_reserved ai) i);
           m \<leftarrow> poke m i bs;
           Some (Some m, i + hinote_copied i) } }"

text \<open>A note survives packing and unpacking; a missing text comes back as the empty one.\<close>

theorem hinote_roundtrip:
  assumes "byte_value (hn_flags hn)" "byte_value (hn_level hn)" "\<And>s. hn_text hn = Some s \<Longrightarrow> cstring s"
    "opt_strlen (hn_text hn) < 0x7FFFFFF0" "3 + int (opt_strlen (hn_text hn)) \<le> len" "3 + opt_strlen (hn_text hn) \<le> length m"
  shows "\<exists>m'. pack_HiNoteNote hn (Some m) len = Some (Some m', 3 + int (opt_strlen (hn_text hn))) \<and>
    unpack_HiNoteNote old m' len =
      Some (hn\<lparr>hn_text := Some (case hn_text hn of None \<Rightarrow> [] | Some s \<Rightarrow> s)\<rparr>, 3 + int (opt_strlen (hn_text hn)))"
proof -
  define s where "s = (case hn_text hn of None \<Rightarrow> [] | Some s \<Rightarrow> s)"
  have t: "text_bytes (hn_text hn) = s @ [0]" "opt_strlen (hn_text hn) = length s"
    by (simp_all add: s_def text_bytes_def opt_strlen_def split: option.split)
  have c: "cstring s" using assms(3) by (cases "hn_text hn") (simp_all add: s_def)
  let ?b = "[word_of_int (hn_flags hn), word_of_int (hn_level hn)] @ s @ [0] :: bytes"
  have "mputs [[word_of_int (hn_flags hn)], [word_of_int (hn_level hn)], s @ [0]] (m, 0) = Some (?b @ drop (length ?b) m, length ?b)"
    using mputs_step [of "[[word_of_int (hn_flags hn)], [word_of_int (hn_level hn)], s @ [0]]" m "[]"] assms(6) t(2) by simp
  then have "pack_HiNoteNote hn (Some m) len = Some (Some (?b @ drop (length ?b) m), 3 + int (length s))"
    using assms(4,5) t by (simp add: pack_HiNoteNote_def to_int_id)
  moreover have "unpack_HiNoteNote old (?b @ drop (length ?b) m) len = Some (hn\<lparr>hn_text := Some s\<rparr>, 3 + int (length s))"
    using assms(1,2,5) c t(2) by (simp add: unpack_HiNoteNote_def mem_simps)
  ultimately show ?thesis using t(2) s_def by auto
qed

text \<open>The reserved bytes are never read nor written: what comes behind the categories stays as it is.\<close>

lemma hinote_appinfo_ignores:
  assumes "category_wf (hai_category ai)" "278 + 48 \<le> len" "278 + 48 \<le> length m"
  shows "pack_HiNoteAppInfo ai (Some m) len = Some (Some (category_bytes (hai_category ai) @ drop 278 m), 278)"
    "unpack_HiNoteAppInfo old (category_bytes (hai_category ai) @ ys) len =
      Some (old\<lparr>hai_category := category_norm (hai_category ai)\<rparr>, 278)"
proof -
  have "\<not> len - 278 < 48" using assms(2) by simp
  then show "pack_HiNoteAppInfo ai (Some m) len = Some (Some (category_bytes (hai_category ai) @ drop 278 m), 278)"
    "unpack_HiNoteAppInfo old (category_bytes (hai_category ai) @ ys) len =
      Some (old\<lparr>hai_category := category_norm (hai_category ai)\<rparr>, 278)"
    using assms category_bytes_length [OF assms(1)]
    by (simp_all add: pack_HiNoteAppInfo_def unpack_HiNoteAppInfo_def category.pack_enc category.unpack_enc hinote_copied_def
        poke_def get_block_def Let_def)
qed

section \<open>Blobs\<close>

text \<open>The length is a signed short.\<close>

record Blob =
  bl_type :: bytes
  bl_length :: int
  bl_data :: bytes

definition free_Blob :: "Blob \<Rightarrow> Blob" where
  "free_Blob b = b\<lparr>bl_data := []\<rparr>"

definition unpack_Blob_p :: "heap_env \<Rightarrow> Blob \<Rightarrow> bytes \<Rightarrow> nat \<Rightarrow> (Blob \<times> int) option" where
  "unpack_Blob_p env blob p position = do {
     t \<leftarrow> get_block 4 p position;
     l \<leftarrow> get_short p (position + 4);
     let blob = blob\<lparr>bl_type := t, bl_length := sint l\<rparr>;
     if 0 < sint l
     then if malloc_ok env (nat (sint l))
          then do {
            d \<leftarrow> get_block (nat (sint l)) p (position + 6);
            Some (blob\<lparr>bl_data := d\<rparr>, 6 + sint l) }
          else Some (blob, -1)
     else Some (blob, 6) }"

text \<open>The room asked for counts the bytes in use twice.\<close>

definition pack_Blob :: "heap_env \<Rightarrow> Blob \<Rightarrow> pi_buffer \<Rightarrow> (pi_buffer \<times> int) option" where
  "pack_Blob env blob buf =
     (if bl_length blob < 0 then None
      else
        (let l = nat (bl_length blob);
             offset = used buf;
             buf = (fst (pi_buffer_expect env buf (used buf + 6 + l)))\<lparr>used := offset + 6 + l\<rparr>
         in do {
           buf \<leftarrow> buf_poke buf offset (bl_type blob);
           buf \<leftarrow> buf_poke buf (offset + 4) (set_short (word_of_int (bl_length blob)));
           d \<leftarrow> get_block l (bl_data blob) 0;
           buf \<leftarrow> buf_poke buf (offset + 6) d;
           Some (buf, 0) }))"

definition dup_Blob :: "heap_env \<Rightarrow> nat \<Rightarrow> Blob option \<Rightarrow> Blob option option" where
  "dup_Blob env sizeof_blob blob =
     (case blob of
        None \<Rightarrow> Some None
      | Some b \<Rightarrow>
          if \<not> malloc_ok env sizeof_blob then Some None
          else if 0 < bl_length b
          then if malloc_ok env (nat (bl_length b))
               then do { d \<leftarrow> get_block (nat (bl_length b)) (bl_data b) 0; Some (Some (b\<lparr>bl_data := d\<rparr>)) }
               else Some None
          else Some (Some (b\<lparr>bl_data := []\<rparr>)))"

text \<open>What is packed behind the content of a buffer is read back from there.\<close>

lemma blob_read:
  assumes "length (bl_type b) = 4" "0 \<le> bl_length b" "bl_length b < 0x8000" "length (bl_data b) = nat (bl_length b)" "all_alloc env"
  shows "unpack_Blob_p env old (xs @ bl_type b @ set_short (word_of_int (bl_length b)) @ bl_data b @ ys) (length xs) =
    Some (if 0 < bl_length b then b else b\<lparr>bl_data := bl_data old\<rparr>, 6 + bl_length b)"
proof -
  have s: "sint (word_of_int (bl_length b) :: u16) = bl_length b" using assms(2,3) by (simp add: int_word_sint)
  show ?thesis using assms s
    by (cases b; cases old) (auto simp: unpack_Blob_p_def mem_simps)
qed

end
