(* ===== verification/NotePad.thy ===== *)
theory NotePad
  imports RecordFormat
begin

text \<open>
  The records of the Note Pad and their AppInfo block (\<open>libpisock/notepad.c\<close>). The length of the record
  is not looked at; the picture is a block of the length that the record gives.
\<close>

definition NOTEPAD_FLAG_BODY :: u16 where "NOTEPAD_FLAG_BODY = 0x01"
definition NOTEPAD_FLAG_NAME :: u16 where "NOTEPAD_FLAG_NAME = 0x02"
definition NOTEPAD_FLAG_ALARM :: u16 where "NOTEPAD_FLAG_ALARM = 0x04"

record noteDate =
  nd_sec :: u16
  nd_min :: u16
  nd_hour :: u16
  nd_day :: u16
  nd_month :: u16
  nd_year :: u16
  nd_s :: u16

record notepad_body =
  nb_bodyLen :: u32
  nb_width :: u32
  nb_height :: u32
  nb_l1 :: u32
  nb_dataType :: u32
  nb_dataLen :: u32

record NotePad =
  np_createDate :: noteDate
  np_changeDate :: noteDate
  np_flags :: u16
  np_name :: "bytes option"
  np_alarmDate :: noteDate
  np_body :: notepad_body
  np_data :: "bytes option"

definition get_noteDate :: "bytes \<Rightarrow> nat \<Rightarrow> noteDate option" where
  "get_noteDate p i = do {
     sec \<leftarrow> get_short p i;
     mi \<leftarrow> get_short p (i + 2);
     h \<leftarrow> get_short p (i + 4);
     d \<leftarrow> get_short p (i + 6);
     mo \<leftarrow> get_short p (i + 8);
     y \<leftarrow> get_short p (i + 10);
     s \<leftarrow> get_short p (i + 12);
     Some \<lparr>nd_sec = sec, nd_min = mi, nd_hour = h, nd_day = d, nd_month = mo, nd_year = y, nd_s = s\<rparr> }"

definition get_notepad_body :: "bytes \<Rightarrow> nat \<Rightarrow> notepad_body option" where
  "get_notepad_body p i = do {
     bl \<leftarrow> get_long p i;
     w \<leftarrow> get_long p (i + 4);
     h \<leftarrow> get_long p (i + 8);
     l1 \<leftarrow> get_long p (i + 12);
     dt \<leftarrow> get_long p (i + 16);
     dl \<leftarrow> get_long p (i + 20);
     Some \<lparr>nb_bodyLen = bl, nb_width = w, nb_height = h, nb_l1 = l1, nb_dataType = dt, nb_dataLen = dl\<rparr> }"

text \<open>A name is padded to an even number of bytes.\<close>

definition unpack_NotePad :: "heap_env \<Rightarrow> NotePad \<Rightarrow> bytes \<Rightarrow> (NotePad \<times> nat) option" where
  "unpack_NotePad env note p = do {
     cre \<leftarrow> get_noteDate p 0;
     chg \<leftarrow> get_noteDate p 14;
     f \<leftarrow> get_short p 28;
     let note = note\<lparr>np_createDate := cre, np_changeDate := chg, np_flags := f\<rparr>;
     (note, i) \<leftarrow>
       (if f AND NOTEPAD_FLAG_ALARM \<noteq> 0
        then do { d \<leftarrow> get_noteDate p 30; Some (note\<lparr>np_alarmDate := d\<rparr>, 44) }
        else Some (note, 30));
     (note, i) \<leftarrow>
       (if f AND NOTEPAD_FLAG_NAME \<noteq> 0
        then do {
          s \<leftarrow> get_cstr p i;
          let n = length s + 1;
          Some (note\<lparr>np_name := Some s\<rparr>, i + n + (if n mod 2 = 1 then 1 else 0)) }
        else Some (note\<lparr>np_name := None\<rparr>, i));
     if f AND NOTEPAD_FLAG_BODY \<noteq> 0
     then do {
       b \<leftarrow> get_notepad_body p i;
       let note = note\<lparr>np_body := b\<rparr>;
       if malloc_ok env (unat (nb_dataLen b))
       then do { d \<leftarrow> get_block (unat (nb_dataLen b)) p (i + 24); Some (note\<lparr>np_data := Some d\<rparr>, i + 24) }
       else Some (note\<lparr>np_data := None\<rparr>, 0) }
     else Some (note, i) }"

definition pack_NotePad :: "NotePad \<Rightarrow> bytes \<Rightarrow> bytes \<times> nat" where
  "pack_NotePad note buf = (buf, 0)"

record NotePadAppInfo =
  nai_dirty :: int
  nai_sortByPriority :: int
  nai_category :: CategoryAppInfo

definition unpack_NotePadAppInfo :: "NotePadAppInfo \<Rightarrow> bytes \<Rightarrow> nat \<Rightarrow> (NotePadAppInfo \<times> nat) option" where
  "unpack_NotePadAppInfo ai p len = do {
     (cat, i) \<leftarrow> unpack_CategoryAppInfo (nai_category ai) p len;
     let ai = ai\<lparr>nai_category := cat\<rparr>;
     if i = 0 then Some (ai, 0)
     else if len - i < 4 then Some (ai, 0)
     else do {
       d \<leftarrow> get_short p i;
       s \<leftarrow> get_byte p (i + 2);
       Some (ai\<lparr>nai_dirty := uint d, nai_sortByPriority := uint s\<rparr>, i + 4) } }"

definition pack_NotePadAppInfo :: "NotePadAppInfo \<Rightarrow> bytes option \<Rightarrow> nat \<Rightarrow> (bytes option \<times> nat) option" where
  "pack_NotePadAppInfo ai rcrd len = do {
     (rcrd, i) \<leftarrow> pack_CategoryAppInfo (nai_category ai) rcrd len;
     case rcrd of
       None \<Rightarrow> Some (None, i + 4)
     | Some m \<Rightarrow>
         if i = 0 then Some (Some m, 0)
         else if len - i < 4 then Some (Some m, 0)
         else do {
           m \<leftarrow> poke m i (set_short (word_of_int (nai_dirty ai)));
           m \<leftarrow> poke m (i + 2) (set_byte (word_of_int (nai_sortByPriority ai)));
           m \<leftarrow> poke m (i + 3) (set_byte 0);
           Some (Some m, i + 4) } }"

text \<open>The AppInfo block survives packing and unpacking.\<close>

theorem notepad_appinfo_roundtrip:
  assumes "category_wf (nai_category ai)" "282 \<le> len" "282 \<le> length m" "0 \<le> nai_dirty ai" "nai_dirty ai < 65536"
    "byte_value (nai_sortByPriority ai)"
  shows "\<exists>m'. pack_NotePadAppInfo ai (Some m) len = Some (Some m', 282) \<and>
    unpack_NotePadAppInfo old m' len = Some (ai\<lparr>nai_category := category_norm (nai_category ai)\<rparr>, 282)"
proof -
  have l: "\<not> len - 278 < 4" using assms(2) by simp
  have c: "length (category_bytes (nai_category ai)) = 278" by (rule category_bytes_length [OF assms(1)])
  have "pack_NotePadAppInfo ai (Some m) len = Some (Some (category_bytes (nai_category ai) @ set_short (word_of_int (nai_dirty ai)) @
      [word_of_int (nai_sortByPriority ai), 0] @ drop 282 m), 282)"
    using assms l c by (simp add: pack_NotePadAppInfo_def category.pack_enc mem_simps set_byte_def)
  then show ?thesis
    using assms l c by (cases ai) (simp add: unpack_NotePadAppInfo_def category.unpack_enc mem_simps uint_short Let_def)
qed

end
