(* ===== verification/RecordProps.thy ===== *)
theory RecordProps
  imports Address Datebook Expense Mail Money HiNote NotePad
begin

text \<open>
  What the packers of several applications have in common: they are told the length of the caller's block
  and some of them write past it.
\<close>

text \<open>C40: three packers write past the end of a block whose length passes their own test. The AppInfo block
  of the Address Book is written without any test for its 360 bytes behind the categories; that of Mail
  is tested for eight bytes and eleven are written; a transaction of MoneyManager is tested for nine
  bytes less than it has. In each case the store leaves the block.\<close>

theorem packers_overrun:
  assumes "category_wf (adi_category ai)" "278 \<le> length m1" "length m1 < 638"
    "category_wf (mai_category mi)" "286 \<le> length m2" "length m2 < 289"
    "length (mt_date t) = 7" "get_cstr (mt_note t) 0 = Some note" "47 + length note \<le> length m3" "length m3 < 56 + length note"
  shows "pack_AddressAppInfo ai (Some m1) (length m1) = None \<and> pack_MailAppInfo mi (Some m2) (length m2) = None \<and>
    pack_Transaction t (Some m3) (length m3) = None"
proof (intro conjI)
  show "pack_AddressAppInfo ai (Some m1) (length m1) = None" by (rule pack_AddressAppInfo_overrun) (use assms in simp_all)
  show "pack_MailAppInfo mi (Some m2) (length m2) = None" by (rule pack_MailAppInfo_overrun) (use assms in simp_all)
  show "pack_Transaction t (Some m3) (length m3) = None" by (rule pack_transaction_overrun) (use assms in simp_all)
qed

definition sample_category :: CategoryAppInfo where
  "sample_category = \<lparr>cat_renamed = replicate 16 0, cat_name = replicate 16 (replicate 16 0), cat_ID = replicate 16 0, cat_lastUniqueID = 0\<rparr>"

definition sample_transaction :: Transaction where
  "sample_transaction = \<lparr>mt_flags = 0, mt_checknum = 1, mt_amount = 10, mt_total = 10, mt_amountc = 0, mt_totalc = 0,
     mt_date = [0, 30, 9, 29, 2, 2004, 0], mt_repeat = 0, mt_flags2 = 0, mt_type = 0, mt_reserved = [0, 0], mt_xfer = 0,
     mt_description = replicate 19 0, mt_note = [104, 105, 0]\<rparr>"

theorem packers_overrun_witness:
  "\<exists>ai mi. pack_AddressAppInfo ai (Some (replicate 300 0)) 300 = None \<and> pack_MailAppInfo mi (Some (replicate 286 0)) 286 = None \<and>
    pack_Transaction sample_transaction (Some (replicate 49 0)) 49 = None"
proof -
  define ai where "ai = \<lparr>adi_type = 0, adi_category = sample_category, adi_labels = replicate 22 (replicate 16 0),
    adi_labelRenamed = replicate 22 0, adi_phoneLabels = replicate 8 (replicate 16 0), adi_country = 0, adi_sortByCompany = 0\<rparr>"
  define mi where "mi = \<lparr>mai_category = sample_category, mai_dirty = 0, mai_sortOrder = 0, mai_unsentMessage = 0\<rparr>"
  have "category_wf sample_category" by (simp add: category_wf_def sample_category_def list_all_iff)
  then show ?thesis
    using packers_overrun [of ai "replicate 300 0" mi "replicate 286 0" sample_transaction "[104, 105]" "replicate 49 0"]
    by (auto simp: ai_def mi_def sample_transaction_def get_cstr_def)
qed

end
