(* ===== verification/Spec2Isabelle.thy ===== *)
theory Spec2Isabelle
  imports Memo ToDo PiFileProps SyncPlan SlpProps PadpProps NetProps CmpProps ConnectProps SysProps XferProps SockType RecordProps
begin

text \<open>
  A verification development for the pilot-link libraries \<open>libpisock\<close> and \<open>libpisync\<close>, which let a desktop
  computer talk to a Palm handheld.

  \<^bold>\<open>The program.\<close> A conduit opens a socket (\<open>socket.c\<close>), which owns a device (\<open>serial.c\<close>, \<open>unixserial.c\<close>) and two
  queues of protocols. When a connection is accepted, the protocol the handheld speaks is detected from the
  bytes it sends, and the queue is built: SYS or PADP over SLP over the port, or NET over the port; CMP or
  the handshake of NET agrees on a speed and a version. Above the queue the desktop link protocol
  (\<open>dlp.c\<close>) sends requests and reads responses: databases, records, resources, blocks, preferences, memory
  cards. Databases are kept as files (\<open>pi-file.c\<close>) that can be retrieved from and installed on a device;
  \<open>sync.c\<close> keeps a conduit's records and those of the handheld in step; the packers turn the records of the
  standard applications into structures and back.

  \<^bold>\<open>Conventions.\<close> A memory object is the list of its bytes; an access outside of it, and any other undefined
  behaviour of C, is None of the option that a model returns, so that a theorem that a call gives Some says
  that it is defined. A loop that may run forever is a \<open>partial_function (option)\<close>, whose None is also the
  value of a loop that does not end. Null pointers are None of a pointer that is an option. An \<open>int\<close> is an integer
  in its range (\<open>to_int\<close> converts, \<open>add_int\<close> is undefined outside), an \<open>unsigned long\<close> and a \<open>size_t\<close> have
  64 bits (\<open>u64\<close>, or a number with the wrap-around written out), and the other unsigned types are words of their
  width. Structures that are changed through a pointer are returned. The allocator is a parameter
  (\<open>heap_env\<close>: which allocations succeed and what fresh memory holds; it holds for the whole of a theorem, so that
  of two requests for the same size both succeed or both fail); \<open>strdup\<close> is taken to succeed, since the
  code does not test it. What is uninitialised is a parameter. The system calls, \<open>mktime\<close>, the clock and the
  callbacks of a conduit are parameters, of which the theorems assume documented behaviour by name
  (\<open>mktime_keeps\<close>, \<open>claim_ok\<close>, \<open>all_alloc\<close>). A field of a record has a prefix for its structure;
  constants, structures and functions have the names of the code.

  The serial port is a terminal, on which \<open>recv\<close> fails: a flush empties the read-ahead buffer and leaves what the
  system holds, so the theorems about conversations assume that nothing waits, or say what stays. Where the code
  counts the bytes of a message in an \<open>int\<close>, the theorems assume less than 2 GiB.

  \<^bold>\<open>Theories and files.\<close>
  \<^item> \<open>Prelude\<close>: memory, the collections of facts, the weakest precondition \<open>wp\<close> of an option. \<open>Bytes\<close>:
    \<open>include/pi-macros.h\<close>. \<open>PiBuffer\<close>: \<open>pi-buffer.c\<close>. \<open>PalmTime\<close>: packed dates. \<open>DbTypes\<close>: \<open>pi-dlp.h\<close>.
  \<^item> \<open>AppInfo\<close>, \<open>Memo\<close>, \<open>ToDo\<close>, \<open>RecordFormat\<close>, \<open>Address\<close>, \<open>Datebook\<close>, \<open>Expense\<close>, \<open>Mail\<close>, \<open>Money\<close>, \<open>HiNote\<close>
    (with \<open>blob.c\<close>), \<open>NotePad\<close>: the files of these names, with \<open>RecordProps\<close> on what the packers share.
  \<^item> \<open>PiFile\<close>: \<open>pi-file.c\<close> up to the transfer, with \<open>PiFileBuild\<close> (the invariant of a file being built),
    \<open>PiFileImage\<close> (the layout), \<open>PiFileRoundtrip\<close> and \<open>PiFileProps\<close>; \<open>PiFileXfer\<close>: \<open>pi_file_retrieve\<close>,
    \<open>pi_file_install\<close> and \<open>pi_file_merge\<close>, with \<open>XferLink\<close> (conversations with a device) and \<open>XferProps\<close>.
  \<^item> \<open>Port\<close>: \<open>unixserial.c\<close> and the structures of \<open>pi-source.h\<close>. \<open>Crc\<close>, \<open>Slp\<close>: \<open>crc16\<close> and \<open>slp.c\<close>, with \<open>SlpLink\<close>
    and \<open>SlpProps\<close>. \<open>Padp\<close>: \<open>padp.c\<close>, with \<open>PadpLink\<close> and \<open>PadpProps\<close>. \<open>Net\<close>: \<open>net.c\<close>, with \<open>NetLink\<close> and \<open>NetProps\<close>.
    \<open>Cmp\<close>: \<open>cmp.c\<close>, with \<open>CmpProps\<close>. \<open>Sys\<close>, \<open>Syspkt\<close>: \<open>sys.c\<close> and \<open>syspkt.c\<close>, with \<open>SysProps\<close>.
  \<^item> \<open>Socket\<close>: the queues, reads, writes and options of \<open>socket.c\<close> and its detection of the protocol, with
    \<open>Detect\<close>. \<open>Connect\<close>: \<open>pi_socket\<close> to \<open>pi_close\<close> with \<open>serial.c\<close>, with \<open>ConnectProps\<close> and \<open>SockType\<close>.
  \<^item> \<open>DlpCore\<close>, \<open>DlpDb\<close>, \<open>DlpRec\<close>, \<open>DlpRes\<close>, \<open>DlpMisc\<close>, \<open>DlpVfs\<close>: \<open>dlp.c\<close>, over a transport that stands for the socket,
    with \<open>DlpWire\<close>, \<open>DlpRecProps\<close> and \<open>VfsProps\<close>; \<open>DlpNet\<close> puts them on the socket, NET and the port.
  \<^item> \<open>Sync\<close>, \<open>SyncMerge\<close>: \<open>sync.c\<close>, with \<open>SyncPlan\<close>.

  \<^bold>\<open>Interfaces.\<close> Where a component relies on another, a locale states what: \<open>field_codec\<close> (a field that is stored is
  read back; the macros of each width), \<open>byte_store\<close> (append and clear; \<open>pi_buffer\<close>), \<open>category_block\<close> (the
  categories that start every AppInfo block), \<open>byte_link\<close> and \<open>flushing_link\<close> (a device whose reads deliver the
  waiting bytes in any portions; the serial port, over an operating system of any grain), \<open>byte_sink\<close> (a
  device that is written to), \<open>packet_link\<close> (a link of packets with a peer that acknowledges; SLP on the
  port) and \<open>device_link\<close> (a transport whose peer answers requests; a direct one, one that delivers messages, and the
  socket with NET and the port). Every locale is interpreted on the model of the code, so that what is
  proved of DLP on a \<open>device_link\<close> holds of DLP through the whole stack (\<open>dlp_exec_over_net\<close>).

  \<^bold>\<open>What is shown.\<close>
  \<^item> Transfer: a database that is retrieved from one device, written, read and installed on another arrives with
    every record that was not deleted or archived (\<open>backup_then_restore\<close>); an installation makes exactly the
    requests that the file calls for (\<open>pi_file_install_sends\<close>).
  \<^item> Files: what is written is read back (\<open>pi_file_roundtrip\<close>); every sequence of calls keeps the file in step
    with its data (\<open>pi_file_ops_invariant\<close>); no entry of a file that is accepted has a
    negative size or ends behind the end of the file; negative offsets are accepted (\<open>pi_file_open_bounds\<close>).
  \<^item> DLP: the block of a request is filled exactly (\<open>dlp_request_encoding\<close>), requests reach the device and answers come
    back (\<open>dlp_exec_device\<close>), a record is delivered whole, in one read or two (\<open>dlp_ReadRecordById_whole\<close>), a
    file whatever the messages it arrives in (\<open>dlp_VFSFileRead_whole\<close>).
  \<^item> Links: the receivers of SLP and NET refine decoders of byte strings, packets survive noise and arbitrary
    portions, damaged ones are refused (\<open>slp_rx_refines_decoder\<close>, \<open>slp_damage_refused\<close>, \<open>net_rx_refines_decoder\<close>);
    PADP sends each packet once and in order, delivers a message and gives up after its tries
    (\<open>padp_tx_sends_fragments\<close>, \<open>padp_rx_delivers_message\<close>, \<open>padp_tx_gives_up\<close>); \<open>crc16\<close> is a remainder of
    polynomials and finds errors.
  \<^item> Sockets: the detection is a function of the bytes that wait (\<open>detect_protocol_refines_decoder\<close>); binding,
    listening and accepting end in a connection that is ready for DLP (\<open>pi_accept_connects\<close>); while the constructors
    of protocols get their memory every socket has queues that are empty or hold protocols and end with the
    device, whatever else fails (\<open>sockets_have_type\<close>); a constructor without memory leaves a null pointer in
    the queue, and destroying it is undefined (\<open>null_protocol_stored\<close>, \<open>null_protocol_crashes\<close>).
  \<^item> Synchronisation: the comparison of two records is a table (\<open>sync_record_plan\<close>) that keeps every
    change of the desktop, and every change of the device but one: that of an archived record whose desktop
    version is clean is lost (\<open>plan_changed_versions\<close>).
  \<^item> Records: To Do items, appointments, addresses, expenses, mails and notes survive packing and unpacking.
  \<^item> Errors: behaviour that differs from what is meant is stated as it is, among others the
    over-read of a short response, the double free of a cleared AppInfo block, the packers that
    write past their block, and the database that an installation of too large a record deletes.

  \<^bold>\<open>Bounds and fuel.\<close> No model is cut off by fuel. Where the code counts, the model does: PADP tries ten times, a
  serial port is opened with at most seven tries (\<open>bind_open\<close>), a record is read in at most two parts. The
  loops that wait for input (\<open>slp_rx_loop\<close>, \<open>net_rx_start\<close>, \<open>padp_rx_loop\<close>, \<open>detect_loop\<close>) and those that
  depend on answers of the device or of a conduit are partial functions; that they end is part of the
  theorems about them, which say that the call gives Some under the stated behaviour of the peer.

  \<^bold>\<open>Not modelled.\<close>
  \<^item> The drivers for USB, Bluetooth and TCP/IP and the threads around them (\<open>usb.c\<close>, \<open>linuxusb.c\<close>,
    \<open>libusb.c\<close>, \<open>darwinusb.c\<close>, \<open>freebsdusb.c\<close>, \<open>bluetooth.c\<close>, \<open>inet.c\<close>, \<open>threadsafe.c\<close>): calls of the operating system; the
    protocols over them are those of the serial device.
  \<^item> \<open>cmp_tx_handshake\<close>, which hands a null buffer to \<open>cmp_rx\<close>, and with it \<open>pi_connect\<close> and \<open>pi_serial_connect\<close>;
    signals, the watchdog and exit handling of \<open>socket.c\<close>.
  \<^item> The other record formats: \<open>calendar.c\<close>, \<open>contact.c\<close>, \<open>location.c\<close>, \<open>versamail.c\<close>, \<open>veo.c\<close> and \<open>palmpix.c\<close>.
  \<^item> The character conversion of \<open>libpisync/util.c\<close> (a wrapper of \<open>iconv\<close>), logging and the digest of \<open>md5.c\<close>.
  \<^item> The command-line programs, the language bindings (generated) and popt (third-party).
\<close>

end
